(* ===== verification/Prelude.thy ===== *)
theory Prelude
  imports Main "HOL-Library.AList"
begin

text \<open>
  Shared ground of the development: the type synonyms that name what Go's types become, Go's
  64-bit integer arithmetic, decimal text, keyed tables (the rows a SQL statement updates by
  primary key) with the interface its users rely on, and the collections of rewrite rules the
  component theories extend.

  Go's \<^verbatim>\<open>int64\<close> and (on the 64-bit platforms the program is built for)
  \<^verbatim>\<open>int\<close> are integers kept in the range of \<^term>\<open>2 ^ 63\<close>: every addition,
  subtraction, multiplication and negation of the code is followed by \<open>wrap64\<close> in the
  model, so an overflow of the code is an overflow of the model. Go strings are byte sequences,
  Isabelle's \<^typ>\<open>string\<close> is a list of bytes; literals outside ASCII are written as their UTF-8
  bytes.
\<close>

named_theorems go_arith \<open>facts about wrap-around arithmetic\<close>
named_theorems tbl_simps \<open>rewrite rules for keyed tables\<close>

section \<open>Names of the model's types\<close>

type_synonym credits = int      \<comment> \<open>\<^verbatim>\<open>domain.Credits = int64\<close>\<close>
type_synonym go_time = int      \<comment> \<open>an instant, in nanoseconds\<close>
type_synonym go_duration = int  \<comment> \<open>\<^verbatim>\<open>time.Duration\<close>, in nanoseconds\<close>
type_synonym row_id = int       \<comment> \<open>a \<^verbatim>\<open>BIGSERIAL\<close> key\<close>

section \<open>Go's 64-bit integers\<close>

definition MinInt64 :: int where "MinInt64 = -9223372036854775808"
definition MaxInt64 :: int where "MaxInt64 = 9223372036854775807"

definition i64 :: "int \<Rightarrow> bool" where
  "i64 x \<longleftrightarrow> MinInt64 \<le> x \<and> x \<le> MaxInt64"

definition wrap64 :: "int \<Rightarrow> int" where
  "wrap64 x = (x + 9223372036854775808) mod 18446744073709551616 - 9223372036854775808"

lemma wrap64_in_range [simp, intro]: "i64 (wrap64 x)"
proof -
  have "0 \<le> (x + 9223372036854775808) mod 18446744073709551616"
    and "(x + 9223372036854775808) mod 18446744073709551616 < 18446744073709551616" by simp_all
  then show ?thesis by (auto simp: i64_def wrap64_def MinInt64_def MaxInt64_def)
qed

lemma wrap64_id [go_arith]: "i64 x \<Longrightarrow> wrap64 x = x"
  by (simp add: i64_def wrap64_def MinInt64_def MaxInt64_def)

lemma wrap64_wrap64 [simp]: "wrap64 (wrap64 x) = wrap64 x"
  by (rule wrap64_id) simp

lemma wrap64_add_left [go_arith]: "wrap64 (wrap64 a + b) = wrap64 (a + b)"
proof -
  have "wrap64 a + b + 9223372036854775808 = (a + 9223372036854775808) mod 18446744073709551616 + b"
    by (simp add: wrap64_def)
  then have "(wrap64 a + b + 9223372036854775808) mod 18446744073709551616
      = (a + 9223372036854775808 + b) mod 18446744073709551616"
    by (simp only: mod_add_left_eq)
  moreover have "a + 9223372036854775808 + b = a + b + 9223372036854775808" by simp
  ultimately show ?thesis
    unfolding wrap64_def [of "wrap64 a + b"] wrap64_def [of "a + b"] by simp
qed

lemma wrap64_overflow [go_arith]:
  "MaxInt64 < x \<Longrightarrow> x \<le> 2 * MaxInt64 + 1 \<Longrightarrow> wrap64 x = x - 18446744073709551616"
proof -
  assume a: "MaxInt64 < x" and b: "x \<le> 2 * MaxInt64 + 1"
  have "(x + 9223372036854775808) mod 18446744073709551616
      = (x + 9223372036854775808 - 18446744073709551616) mod 18446744073709551616"
    by (metis minus_mod_self2)
  also have "\<dots> = x + 9223372036854775808 - 18446744073709551616"
    using a b by (intro mod_pos_pos_trivial) (auto simp: MaxInt64_def)
  finally show ?thesis by (simp add: wrap64_def)
qed

text \<open>
  Adding a signed amount to a non-negative 64-bit value can only overflow upwards, and then the
  result is negative: the sign test the billing code makes after the addition sees both an
  overdraft and an overflow.
\<close>

lemma wrap64_add_nonneg:
  assumes "0 \<le> b" "i64 b" "i64 a" "0 \<le> wrap64 (b + a)"
  shows "wrap64 (b + a) = b + a"
proof (cases "b + a \<le> MaxInt64")
  case True
  with assms have "i64 (b + a)" by (simp add: i64_def MinInt64_def MaxInt64_def)
  then show ?thesis by (rule wrap64_id)
next
  case False
  with assms have "wrap64 (b + a) = b + a - 18446744073709551616"
    by (intro wrap64_overflow) (auto simp: i64_def)
  moreover have "b + a < 18446744073709551616" using assms by (simp add: i64_def MaxInt64_def)
  ultimately show ?thesis using assms(4) by simp
qed

text \<open>Go's division truncates towards zero, and the remainder takes the sign of the dividend.\<close>

definition go_quo :: "int \<Rightarrow> int \<Rightarrow> int" where
  "go_quo a b = sgn a * sgn b * (\<bar>a\<bar> div \<bar>b\<bar>)"

definition go_rem :: "int \<Rightarrow> int \<Rightarrow> int" where
  "go_rem a b = a - b * go_quo a b"

lemma go_quo_nonneg: "0 \<le> a \<Longrightarrow> 0 < b \<Longrightarrow> go_quo a b = a div b"
  by (cases "a = 0") (simp_all add: go_quo_def)

lemma go_rem_nonneg: "0 \<le> a \<Longrightarrow> 0 < b \<Longrightarrow> go_rem a b = a mod b"
  by (simp add: go_rem_def go_quo_nonneg minus_mult_div_eq_mod)

text \<open>
  \<^verbatim>\<open>Time.Sub\<close> saturates at the range of a duration. Instants themselves are unbounded: Go
  keeps the seconds of a wall-clock time in 64 bits, far beyond any instant of the program.
\<close>

definition time_Sub :: "go_time \<Rightarrow> go_time \<Rightarrow> go_duration" where
  "time_Sub t u = max MinInt64 (min MaxInt64 (t - u))"

lemma time_Sub_gt: "i64 d \<Longrightarrow> d < MaxInt64 \<Longrightarrow> time_Sub t u > d \<longleftrightarrow> t - u > d"
  by (auto simp: time_Sub_def i64_def)

definition Second :: go_duration where "Second = 1000000000"
definition Minute :: go_duration where "Minute = 60 * Second"
definition Hour :: go_duration where "Hour = 60 * Minute"

text \<open>Instants are counted from the Unix epoch; Go's zero \<^verbatim>\<open>time.Time\<close> is the first of January of year 1.\<close>

definition zero_time :: go_time where "zero_time = -62135596800000000000"

section \<open>Decimal text\<close>

definition digit_char :: "nat \<Rightarrow> char" where
  "digit_char d = char_of (48 + d)"

fun show_nat :: "nat \<Rightarrow> string" where
  "show_nat n = (if n < 10 then [digit_char n] else show_nat (n div 10) @ [digit_char (n mod 10)])"

declare show_nat.simps [simp del]

definition show_int :: "int \<Rightarrow> string" where
  "show_int x = (if x < 0 then CHR ''-'' # show_nat (nat (- x)) else show_nat (nat x))"

definition digit_val :: "char \<Rightarrow> nat" where
  "digit_val c = of_char c - 48"

definition read_nat :: "string \<Rightarrow> nat" where
  "read_nat s = foldl (\<lambda>acc c. 10 * acc + digit_val c) 0 s"

lemma digit_val_digit_char [simp]: "d < 10 \<Longrightarrow> digit_val (digit_char d) = d"
  by (simp add: digit_val_def digit_char_def)

lemma read_nat_snoc [simp]: "read_nat (s @ [c]) = 10 * read_nat s + digit_val c"
  by (simp add: read_nat_def)

lemma read_nat_Nil [simp]: "read_nat [] = 0"
  by (simp add: read_nat_def)

lemma read_nat_zeros [simp]: "read_nat (replicate k (digit_char 0) @ s) = read_nat s"
proof -
  have "foldl (\<lambda>acc c. 10 * acc + digit_val c) (0::nat) (replicate k (digit_char 0)) = 0"
    by (induction k) auto
  then show ?thesis by (simp add: read_nat_def)
qed

lemma read_show_nat [simp]: "read_nat (show_nat n) = n"
proof (induction n rule: show_nat.induct)
  case (1 n)
  show ?case
  proof (cases "n < 10")
    case True
    then show ?thesis by (subst show_nat.simps) (simp add: read_nat_def)
  next
    case False
    with "1.IH" show ?thesis by (subst show_nat.simps) simp
  qed
qed

lemma show_nat_nonempty [simp]: "show_nat n \<noteq> []"
  by (subst show_nat.simps) simp

lemma show_nat_inj: "show_nat m = show_nat n \<Longrightarrow> m = n"
  by (metis read_show_nat)

lemma digit_char_inj: "c < 10 \<Longrightarrow> d < 10 \<Longrightarrow> digit_char c = digit_char d \<longleftrightarrow> c = d"
  by (metis digit_val_digit_char)

lemma digit_char_range: "c \<in> set (show_nat n) \<Longrightarrow> \<exists>d<10. c = digit_char d"
proof (induction n rule: show_nat.induct)
  case (1 n)
  show ?case
  proof (cases "n < 10")
    case True
    with "1.prems" show ?thesis by (subst (asm) show_nat.simps) auto
  next
    case False
    from "1.prems" False have "c \<in> set (show_nat (n div 10)) \<or> c = digit_char (n mod 10)"
      by (subst (asm) show_nat.simps) (auto simp only: if_False set_append Un_iff list.set singleton_iff)
    with "1.IH" False show ?thesis by (metis mod_less_divisor zero_less_numeral)
  qed
qed

lemma digit_char_not_sign: "d < 10 \<Longrightarrow> digit_char d \<noteq> CHR ''-''"
proof
  assume d: "d < 10" and e: "digit_char d = CHR ''-''"
  have "of_char (digit_char d) = 48 + d" using d by (simp add: digit_char_def)
  moreover have "of_char (CHR ''-'') = (45::nat)" by simp
  ultimately show False using e by simp
qed

lemma show_int_inj: "show_int a = show_int b \<Longrightarrow> a = b"
proof -
  have no_sign: "show_nat n \<noteq> CHR ''-'' # s" for n s
    by (metis digit_char_not_sign digit_char_range list.set_intros(1))
  assume "show_int a = show_int b"
  then show ?thesis
    by (auto simp: show_int_def no_sign split: if_splits dest!: show_nat_inj)
      (metis no_sign)
qed

text \<open>A literal outside ASCII, given by its bytes.\<close>

definition utf8 :: "nat list \<Rightarrow> string" where
  "utf8 bs = map char_of bs"

section \<open>Keyed tables\<close>

text \<open>
  A SQL table with a primary key is a list of rows paired with their keys. \<open>tbl_get\<close> is a
  \<^verbatim>\<open>SELECT \<dots> WHERE id = ?\<close>, \<open>tbl_upd\<close> an \<^verbatim>\<open>UPDATE \<dots> WHERE id = ?\<close>
  (its number of affected rows is 0 when the key is absent), and \<open>tbl_upsert\<close> an
  \<^verbatim>\<open>INSERT \<dots> ON CONFLICT DO UPDATE\<close>.
\<close>

type_synonym ('k, 'v) tbl = "('k \<times> 'v) list"

definition tbl_get :: "('k, 'v) tbl \<Rightarrow> 'k \<Rightarrow> 'v option" where
  "tbl_get t k = map_of t k"

fun tbl_upd :: "('v \<Rightarrow> 'v) \<Rightarrow> 'k \<Rightarrow> ('k, 'v) tbl \<Rightarrow> ('k, 'v) tbl" where
  "tbl_upd f k [] = []"
| "tbl_upd f k ((k', v) # t) = (if k' = k then (k', f v) # t else (k', v) # tbl_upd f k t)"

definition tbl_upsert :: "'v \<Rightarrow> ('v \<Rightarrow> 'v) \<Rightarrow> 'k \<Rightarrow> ('k, 'v) tbl \<Rightarrow> ('k, 'v) tbl" where
  "tbl_upsert v f k t = (case tbl_get t k of None \<Rightarrow> t @ [(k, v)] | Some _ \<Rightarrow> tbl_upd f k t)"

lemma tbl_get_Nil [tbl_simps]: "tbl_get [] k = None"
  by (simp add: tbl_get_def)

lemma tbl_get_upd [tbl_simps]:
  "tbl_get (tbl_upd f k t) k' = (if k' = k then map_option f (tbl_get t k) else tbl_get t k')"
  unfolding tbl_get_def by (induction t) auto

lemma keys_tbl_upd [tbl_simps]: "map fst (tbl_upd f k t) = map fst t"
  by (induction t) auto

lemma tbl_get_append [tbl_simps]:
  "tbl_get (t @ [(k, v)]) k' = (case tbl_get t k' of Some r \<Rightarrow> Some r
     | None \<Rightarrow> if k' = k then Some v else None)"
  by (auto simp: tbl_get_def map_add_def split: option.splits)

lemma tbl_get_upsert [tbl_simps]:
  "tbl_get (tbl_upsert v f k t) k' = (if k' = k
     then Some (case tbl_get t k of None \<Rightarrow> v | Some r \<Rightarrow> f r) else tbl_get t k')"
  by (auto simp: tbl_upsert_def tbl_get_upd tbl_get_append split: option.splits)

text \<open>The interface the components rely on: what a read returns after a write.\<close>

locale keyed_store =
  fixes get :: "'t \<Rightarrow> 'k \<Rightarrow> 'v option"
    and upd :: "('v \<Rightarrow> 'v) \<Rightarrow> 'k \<Rightarrow> 't \<Rightarrow> 't"
  assumes get_upd: "get (upd f k t) k' = (if k' = k then map_option f (get t k) else get t k')"
begin

lemma get_upd_same: "get t k = Some v \<Longrightarrow> get (upd f k t) k = Some (f v)"
  by (simp add: get_upd)

lemma get_upd_other: "k' \<noteq> k \<Longrightarrow> get (upd f k t) k' = get t k'"
  by (simp add: get_upd)

lemma upd_missing: "get t k = None \<Longrightarrow> get (upd f k t) k' = get t k'"
  by (simp add: get_upd)

lemma get_upd_pres:
  assumes "\<And>k v. get t k = Some v \<Longrightarrow> P k v" "\<And>v. get t k = Some v \<Longrightarrow> P k (f v)"
    and "get (upd f k t) k' = Some v'"
  shows "P k' v'"
  using assms by (auto simp: get_upd split: if_splits)

end

interpretation tbl: keyed_store tbl_get tbl_upd
  by unfold_locales (rule tbl_get_upd)

section \<open>Sums over filtered lists\<close>

definition sum_where :: "('a \<Rightarrow> bool) \<Rightarrow> ('a \<Rightarrow> int) \<Rightarrow> 'a list \<Rightarrow> int" where
  "sum_where p f xs = sum_list (map f (filter p xs))"

lemma sum_where_Nil [simp]: "sum_where p f [] = 0"
  by (simp add: sum_where_def)

lemma sum_where_snoc [simp]:
  "sum_where p f (xs @ [x]) = sum_where p f xs + (if p x then f x else 0)"
  by (simp add: sum_where_def)

lemma sum_where_append [simp]:
  "sum_where p f (xs @ ys) = sum_where p f xs + sum_where p f ys"
  by (simp add: sum_where_def)

lemma sum_where_none: "(\<And>x. x \<in> set xs \<Longrightarrow> \<not> p x) \<Longrightarrow> sum_where p f xs = 0"
  by (induction xs) (auto simp: sum_where_def)

lemma sum_where_Cons [simp]:
  "sum_where p f (x # xs) = (if p x then f x else 0) + sum_where p f xs"
  by (simp add: sum_where_def)

end
