(* ===== verification/Domain.thy ===== *)
theory Domain
  imports Prelude
begin

text \<open>
  The shared vocabulary of \<^verbatim>\<open>server/internal/domain\<close>. A Go enumeration is a named string type:
  where the program only ever stores the listed values (a column under a database
  \<^verbatim>\<open>CHECK\<close>, a value the code itself produces) it is a datatype here; where the code tests an
  arbitrary string with \<^verbatim>\<open>Valid\<close> it stays a string.
\<close>

section \<open>Enumerations the program produces itself (billing.go, enums.go, relay.go)\<close>

datatype LedgerEntryType =
  LedgerGrant | LedgerRevoke | LedgerRedeem | LedgerConsume | LedgerRefund | LedgerSettleAdjust

datatype RedemptionStatus =
  RedemptionUnused | RedemptionUsed | RedemptionDisabled | RedemptionExpired

datatype Modality = ModalityText | ModalityEmbedding | ModalityImage

datatype BillingMode = BillPerToken | BillPerCall

datatype ModelStatus = ModelEnabled | ModelDisabled

datatype UserStatus = UserEnabled | UserDisabled

datatype KeyStatus = KeyEnabled | KeyDisabled | KeyExpired | KeyDepleted

datatype ChannelStatus = ChannelEnabled | ChannelManualDisabled | ChannelAutoDisabled

datatype UsageStatus = UsageSettled | UsageRefunded | UsageFailed

datatype ErrorClass =
  ErrClassNone | ErrClassAuthFatal | ErrClassQuotaFatal | ErrClassRateLimited
| ErrClassTransient | ErrClassBadRequest | ErrClassStreamAborted

datatype AlertSeverity = AlertCritical | AlertWarning

datatype AlertStatus = AlertPending | AlertSent | AlertFailed | AlertSuppressed | AlertDeadLetter

text \<open>The zero value of \<^verbatim>\<open>UsageSemantic\<close> (the empty string) is a constructor of its own.\<close>

datatype UsageSemantic = SemanticUnset | SemanticOpenAI | SemanticAnthropic | SemanticGemini

section \<open>Redemption codes: the state shown for a stored state\<close>

definition EffectiveRedemptionStatus ::
  "RedemptionStatus \<Rightarrow> go_time option \<Rightarrow> go_time \<Rightarrow> RedemptionStatus" where
  "EffectiveRedemptionStatus stored expiresAt now =
     (if stored = RedemptionUnused \<and> (case expiresAt of None \<Rightarrow> False | Some e \<Rightarrow> \<not> now < e)
      then RedemptionExpired else stored)"

section \<open>Normalised usage\<close>

record NormalizedUsage =
  BaseInput :: int
  CacheRead :: int
  CacheWrite :: int
  Output :: int
  AudioInput :: int
  AudioOutput :: int
  CallCount :: int
  Estimated :: bool
  Semantic :: UsageSemantic

definition zero_usage :: NormalizedUsage where
  "zero_usage = \<lparr>BaseInput = 0, CacheRead = 0, CacheWrite = 0, Output = 0, AudioInput = 0,
     AudioOutput = 0, CallCount = 0, Estimated = False, Semantic = SemanticUnset\<rparr>"

definition TotalTokens :: "NormalizedUsage \<Rightarrow> int" where
  "TotalTokens u = wrap64 (wrap64 (wrap64 (wrap64 (wrap64 (BaseInput u + CacheRead u)
     + CacheWrite u) + Output u) + AudioInput u) + AudioOutput u)"

section \<open>Roles\<close>

definition roleRank :: "string \<Rightarrow> int option" where
  "roleRank = map_of [(''user'', 1), (''managed'', 5), (''admin'', 10), (''root'', 100)]"

text \<open>Reading a missing key of a Go map gives the zero value.\<close>

definition role_AtLeast :: "string \<Rightarrow> string \<Rightarrow> bool" where
  "role_AtLeast r other \<longleftrightarrow>
     (case roleRank r of None \<Rightarrow> 0 | Some n \<Rightarrow> n) \<ge> (case roleRank other of None \<Rightarrow> 0 | Some n \<Rightarrow> n)"

definition role_Valid :: "string \<Rightarrow> bool" where
  "role_Valid r \<longleftrightarrow> roleRank r \<noteq> None"

text \<open>The four legal roles form a linear order, which is what \<open>role_AtLeast\<close> decides on them.\<close>

datatype Role = RoleUser | RoleManaged | RoleAdmin | RoleRoot

fun role_str :: "Role \<Rightarrow> string" where
  "role_str RoleUser = ''user''"
| "role_str RoleManaged = ''managed''"
| "role_str RoleAdmin = ''admin''"
| "role_str RoleRoot = ''root''"

fun role_level :: "Role \<Rightarrow> nat" where
  "role_level RoleUser = 0"
| "role_level RoleManaged = 1"
| "role_level RoleAdmin = 2"
| "role_level RoleRoot = 3"

lemma role_level_inj: "role_level a = role_level b \<Longrightarrow> a = b"
  by (cases a; cases b) auto

instantiation Role :: linorder
begin

definition less_eq_Role :: "Role \<Rightarrow> Role \<Rightarrow> bool" where
  "less_eq_Role a b \<longleftrightarrow> role_level a \<le> role_level b"

definition less_Role :: "Role \<Rightarrow> Role \<Rightarrow> bool" where
  "less_Role a b \<longleftrightarrow> role_level a < role_level b"

instance
  by standard (auto simp: less_eq_Role_def less_Role_def dest: role_level_inj)

end

lemma role_Valid_iff: "role_Valid r \<longleftrightarrow> (\<exists>x. r = role_str x)"
proof
  assume "role_Valid r"
  then have "r \<in> {''user'', ''managed'', ''admin'', ''root''}"
    by (auto simp: role_Valid_def roleRank_def split: if_splits)
  then consider "r = role_str RoleUser" | "r = role_str RoleManaged" | "r = role_str RoleAdmin"
    | "r = role_str RoleRoot" by auto
  then show "\<exists>x. r = role_str x" by cases blast+
next
  assume "\<exists>x. r = role_str x"
  then obtain x where "r = role_str x" by blast
  then show "role_Valid r" by (cases x) (simp_all add: role_Valid_def roleRank_def)
qed

lemma role_AtLeast_iff: "role_AtLeast (role_str a) (role_str b) \<longleftrightarrow> b \<le> a"
  by (cases a; cases b) (simp_all add: role_AtLeast_def roleRank_def less_eq_Role_def)

lemma role_AtLeast_invalid:
  "\<not> role_Valid r \<Longrightarrow> \<not> role_AtLeast r (role_str b)"
  by (cases b) (auto simp: role_Valid_def role_AtLeast_def roleRank_def)

section \<open>Validity of strings that come from outside\<close>

text \<open>The Go loops over a registry compare for equality and return on the first hit.\<close>

fun listed :: "string list \<Rightarrow> string \<Rightarrow> bool" where
  "listed [] s = False"
| "listed (known # rest) s = (if known = s then True else listed rest s)"

lemma listed_iff [simp]: "listed xs s \<longleftrightarrow> s \<in> set xs"
  by (induction xs) auto

definition CostCurrencies :: "string list" where "CostCurrencies = [''credits'', ''usd'']"

definition CostCurrency_Valid :: "string \<Rightarrow> bool" where
  "CostCurrency_Valid c = listed CostCurrencies c"

definition MonthlyGrantMode_Valid :: "string \<Rightarrow> bool" where
  "MonthlyGrantMode_Valid m \<longleftrightarrow> m = ''topup'' \<or> m = ''add''"

definition EntityStatus_Valid :: "string \<Rightarrow> bool" where
  "EntityStatus_Valid s \<longleftrightarrow> s = ''enabled'' \<or> s = ''disabled''"

definition AuditActions :: "string list" where
  "AuditActions = [
    ''auth.login'', ''auth.logout'', ''auth.password_change'', ''auth.register'',
    ''user.create'', ''user.update'', ''user.delete'', ''user.status_change'',
    ''user.password_reset'', ''user.credit_grant'', ''user.import'',
    ''user.credit_batch_grant'', ''user.policy_change'', ''user.status_batch_change'',
    ''department.create'', ''department.update'', ''department.delete'',
    ''department.member_change'', ''project.create'', ''project.update'', ''project.delete'',
    ''model.create'', ''model.update'', ''model.delete'', ''model.price_change'',
    ''model.peak_rules_change'', ''model.import'', ''channel.create'', ''channel.update'',
    ''channel.delete'', ''channel.status_change'', ''channel.cost_change'', ''channel.test'',
    ''redemption.batch_create'', ''redemption.status_change'', ''api_key.create'',
    ''api_key.update'', ''api_key.delete'', ''setting.update'', ''alert.test'', ''audit.purge'',
    ''integration.create'', ''integration.update'', ''integration.disable'',
    ''service_token.create'', ''service_token.status_change'', ''service_token.delete'']"

definition AuditAction_Valid :: "string \<Rightarrow> bool" where
  "AuditAction_Valid a = listed AuditActions a"

definition AlertTypes :: "string list" where
  "AlertTypes = [
    ''channel_auto_disabled'', ''reconcile_failed'', ''usage_log_dropped'',
    ''orphan_precharge_found'', ''department_over_budget'', ''backup_failed'',
    ''user_low_balance'', ''user_balance_notice'', ''monthly_grant_failed'',
    ''error_rate_high'', ''latency_degraded'', ''policy_malformed'', ''alert_test'']"

definition AlertType_Valid :: "string \<Rightarrow> bool" where
  "AlertType_Valid a = listed AlertTypes a"

definition WebhookFormats :: "string list" where
  "WebhookFormats = [''generic'', ''dingtalk'', ''feishu'', ''wecom'', ''slack'']"

definition WebhookFormat_Valid :: "string \<Rightarrow> bool" where
  "WebhookFormat_Valid f = listed WebhookFormats f"

definition SMTPSecurity_Valid :: "string \<Rightarrow> bool" where
  "SMTPSecurity_Valid s \<longleftrightarrow> s = ''starttls'' \<or> s = ''tls'' \<or> s = ''none''"

section \<open>Providers and protocols\<close>

definition ValidProvider :: "string \<Rightarrow> bool" where
  "ValidProvider p \<longleftrightarrow> p = ''openai'' \<or> p = ''anthropic'' \<or> p = ''gemini'' \<or> p = ''zhipu''
     \<or> p = ''qwen'' \<or> p = ''deepseek'' \<or> p = ''minimax'' \<or> p = ''xai''
     \<or> p = ''moonshot'' \<or> p = ''custom''"

datatype ChannelProtocol = ProtocolOpenAICompat | ProtocolAnthropic | ProtocolGemini

fun protocol_str :: "ChannelProtocol \<Rightarrow> string" where
  "protocol_str ProtocolOpenAICompat = ''openai_compat''"
| "protocol_str ProtocolAnthropic = ''anthropic''"
| "protocol_str ProtocolGemini = ''gemini''"

definition AllProtocols :: "ChannelProtocol list" where
  "AllProtocols = [ProtocolOpenAICompat, ProtocolAnthropic, ProtocolGemini]"

definition ValidProtocol :: "string \<Rightarrow> bool" where
  "ValidProtocol p = listed (map protocol_str AllProtocols) p"

definition ProtocolSupportsModality :: "string \<Rightarrow> Modality \<Rightarrow> bool" where
  "ProtocolSupportsModality p m =
     (if m = ModalityText then ValidProtocol p else p = ''openai_compat'')"

lemma ValidProtocol_str [simp]: "ValidProtocol (protocol_str p)"
  by (cases p) (simp_all add: ValidProtocol_def AllProtocols_def)

end
