(* ===== verification/Pricing.thy ===== *)
theory Pricing
  imports Domain Complex_Main
begin

text \<open>
  The pure credit arithmetic of \<^verbatim>\<open>server/internal/pricing\<close>: token and per-call credits
  (calculator.go), the conversion of dollar prices (convert.go, presets.go), channel cost (cost.go),
  time-of-day multipliers (peak.go) and the decimal rendering of credits (display.go).
  \<^verbatim>\<open>big.Int\<close> values are unbounded integers; the \<^verbatim>\<open>int64\<close> steps of display.go wrap.
\<close>

section \<open>Calculator (calculator.go)\<close>

definition tokensPerUnit :: int where "tokensPerUnit = 1000000"
definition BaseMultiplierPercent :: int where "BaseMultiplierPercent = 100"

record Price =
  InputPrice :: int
  OutputPrice :: int
  CacheReadPrice :: int
  CacheWritePrice :: int
  AudioInputPrice :: int
  AudioOutputPrice :: int
  PerCallPrice :: int

definition addMul :: "int \<Rightarrow> int \<Rightarrow> int \<Rightarrow> int" where
  "addMul num tokens price = (if tokens \<le> 0 \<or> price \<le> 0 then num else num + tokens * price)"

definition ceilBigDiv :: "int \<Rightarrow> int \<Rightarrow> int" where
  "ceilBigDiv num den =
     (if num \<le> 0 \<or> den \<le> 0 then 0
      else let quo = num div den; rm = num mod den;
               quo = (if rm \<noteq> 0 then quo + 1 else quo)
           in if \<not> i64 quo then MaxInt64 else quo)"

definition CalcTokenCredits :: "NormalizedUsage \<Rightarrow> Price \<Rightarrow> int \<Rightarrow> credits" where
  "CalcTokenCredits u p multiplierPercent =
     (let m = (if multiplierPercent < BaseMultiplierPercent then BaseMultiplierPercent
               else multiplierPercent);
          num = addMul 0 (BaseInput u) (InputPrice p);
          num = addMul num (CacheRead u) (CacheReadPrice p);
          num = addMul num (CacheWrite u) (CacheWritePrice p);
          num = addMul num (Output u) (OutputPrice p);
          num = addMul num (AudioInput u) (AudioInputPrice p);
          num = addMul num (AudioOutput u) (AudioOutputPrice p);
          num = num * m;
          den = BaseMultiplierPercent * tokensPerUnit
      in ceilBigDiv num den)"

definition CalcPerCallCredits :: "int \<Rightarrow> Price \<Rightarrow> int \<Rightarrow> credits" where
  "CalcPerCallCredits count p multiplierPercent =
     (let m = (if multiplierPercent < BaseMultiplierPercent then BaseMultiplierPercent
               else multiplierPercent);
          num = addMul 0 count (PerCallPrice p) * m
      in ceilBigDiv num BaseMultiplierPercent)"

subsection \<open>What the rounding division promises\<close>

text \<open>
  \<open>is_ceil_capped r num den\<close> is the specification: \<open>r\<close> is the least 64-bit integer that,
  times \<open>den\<close>, covers \<open>num\<close>, or the largest 64-bit integer when there is none.
\<close>

definition is_ceil_capped :: "int \<Rightarrow> int \<Rightarrow> int \<Rightarrow> bool" where
  "is_ceil_capped r num den \<longleftrightarrow>
     (num \<le> r * den \<and> (r - 1) * den < num \<and> r \<le> MaxInt64)
     \<or> (r = MaxInt64 \<and> MaxInt64 * den < num)"

lemma ceil_div_bounds:
  fixes num den :: int
  assumes "0 < den"
  defines "q \<equiv> (if num mod den \<noteq> 0 then num div den + 1 else num div den)"
  shows "num \<le> q * den" "(q - 1) * den < num"
proof -
  have e: "num div den * den = num - num mod den" by (simp add: minus_mod_eq_div_mult)
  have r: "0 \<le> num mod den" "num mod den < den" using assms by simp_all
  show "num \<le> q * den" using r unfolding q_def by (auto simp: distrib_right e)
  show "(q - 1) * den < num"
  proof (cases "num mod den = 0")
    case True
    then show ?thesis using assms(1) by (simp add: q_def left_diff_distrib e)
  next
    case False
    then have "0 < num mod den" using r(1) by linarith
    with False show ?thesis by (simp add: q_def e)
  qed
qed

lemma ceilBigDiv_spec:
  assumes "0 < num" "0 < den"
  shows "is_ceil_capped (ceilBigDiv num den) num den"
proof -
  let ?q = "if num mod den \<noteq> 0 then num div den + 1 else num div den"
  have b: "num \<le> ?q * den" "(?q - 1) * den < num"
    using ceil_div_bounds [OF assms(2)] by simp_all
  have pos: "0 \<le> ?q" using assms by (simp add: pos_imp_zdiv_nonneg_iff)
  have v: "ceilBigDiv num den = (if i64 ?q then ?q else MaxInt64)"
    using assms by (simp add: ceilBigDiv_def Let_def)
  show ?thesis
  proof (cases "i64 ?q")
    case True
    then have "?q \<le> MaxInt64" unfolding i64_def by blast
    with True b v show ?thesis unfolding is_ceil_capped_def by argo
  next
    case False
    then have "MaxInt64 \<le> ?q - 1" using pos by (auto simp: i64_def MinInt64_def)
    then have "MaxInt64 * den \<le> (?q - 1) * den" using assms(2) by (intro mult_right_mono) simp_all
    with b(2) have "MaxInt64 * den < num" by linarith
    with False v show ?thesis unfolding is_ceil_capped_def by argo
  qed
qed

lemma ceilBigDiv_range: "0 \<le> ceilBigDiv num den \<and> ceilBigDiv num den \<le> MaxInt64"
  by (auto simp: ceilBigDiv_def Let_def i64_def MinInt64_def MaxInt64_def
      pos_imp_zdiv_nonneg_iff)

lemma ceilBigDiv_pos: "0 < num \<Longrightarrow> 0 < den \<Longrightarrow> 1 \<le> ceilBigDiv num den"
proof -
  assume a: "0 < num" "0 < den"
  have s: "is_ceil_capped (ceilBigDiv num den) num den" by (rule ceilBigDiv_spec [OF a])
  show ?thesis
  proof (rule ccontr)
    assume "\<not> 1 \<le> ceilBigDiv num den"
    then have "ceilBigDiv num den = 0" using ceilBigDiv_range [of num den] by simp
    with s a show False by (simp add: is_ceil_capped_def MaxInt64_def)
  qed
qed

lemma ceilBigDiv_mono:
  assumes "num \<le> num'" "0 < den"
  shows "ceilBigDiv num den \<le> ceilBigDiv num' den"
proof (cases "0 < num")
  case False
  then show ?thesis using ceilBigDiv_range [of num' den] by (simp add: ceilBigDiv_def)
next
  case True
  let ?r = "ceilBigDiv num den" and ?r' = "ceilBigDiv num' den"
  have s: "is_ceil_capped ?r num den" by (rule ceilBigDiv_spec [OF True assms(2)])
  have s': "is_ceil_capped ?r' num' den" using True assms by (intro ceilBigDiv_spec) simp_all
  show ?thesis
  proof (cases "MaxInt64 * den < num'")
    case True
    then have "?r' = MaxInt64"
      using s' assms(2) by (auto simp: is_ceil_capped_def)
        (meson dual_order.strict_trans2 leD less_le_not_le mult_right_mono order_less_imp_le)
    then show ?thesis using ceilBigDiv_range [of num den] by simp
  next
    case False
    then have a: "num' \<le> ?r' * den" using s' by (auto simp: is_ceil_capped_def)
    have "(?r - 1) * den < num"
      using s False assms by (auto simp: is_ceil_capped_def)
    then have "(?r - 1) * den < ?r' * den" using a assms(1) by linarith
    then have "?r - 1 < ?r'" using assms(2) by (simp add: mult_less_cancel_right)
    then show ?thesis by simp
  qed
qed

subsection \<open>The billed amount as one sum\<close>

definition billed :: "int \<Rightarrow> int \<Rightarrow> int" where
  "billed tokens price = max 0 tokens * max 0 price"

lemma addMul_billed: "addMul num t p = num + billed t p"
  by (auto simp: addMul_def billed_def max_def)

lemma billed_nonneg [simp]: "0 \<le> billed t p"
  by (simp add: billed_def)

lemma billed_mono: "t \<le> t' \<Longrightarrow> p \<le> p' \<Longrightarrow> billed t p \<le> billed t' p'"
  unfolding billed_def by (intro mult_mono) auto

lemma billed_pos: "0 < t \<Longrightarrow> 0 < p \<Longrightarrow> 0 < billed t p"
  by (simp add: billed_def)

definition token_sum :: "NormalizedUsage \<Rightarrow> Price \<Rightarrow> int" where
  "token_sum u p = billed (BaseInput u) (InputPrice p) + billed (CacheRead u) (CacheReadPrice p)
     + billed (CacheWrite u) (CacheWritePrice p) + billed (Output u) (OutputPrice p)
     + billed (AudioInput u) (AudioInputPrice p) + billed (AudioOutput u) (AudioOutputPrice p)"

lemma token_sum_nonneg [simp]: "0 \<le> token_sum u p"
  by (simp add: token_sum_def)

lemma CalcTokenCredits_eq:
  "CalcTokenCredits u p m = ceilBigDiv (token_sum u p * max 100 m) 100000000"
proof -
  have "(if m < BaseMultiplierPercent then BaseMultiplierPercent else m) = max 100 m"
    by (simp add: BaseMultiplierPercent_def max_def)
  then show ?thesis
    by (simp add: CalcTokenCredits_def Let_def addMul_billed token_sum_def
        BaseMultiplierPercent_def tokensPerUnit_def)
qed

lemma CalcPerCallCredits_eq:
  "CalcPerCallCredits n p m = ceilBigDiv (billed n (PerCallPrice p) * max 100 m) 100"
  by (auto simp: CalcPerCallCredits_def Let_def addMul_billed BaseMultiplierPercent_def max_def)

lemma CalcTokenCredits_range: "0 \<le> CalcTokenCredits u p m \<and> CalcTokenCredits u p m \<le> MaxInt64"
  by (simp add: CalcTokenCredits_eq ceilBigDiv_range)

lemma CalcPerCallCredits_range:
  "0 \<le> CalcPerCallCredits n p m \<and> CalcPerCallCredits n p m \<le> MaxInt64"
  by (simp add: CalcPerCallCredits_eq ceilBigDiv_range)

section \<open>Conversion of dollar prices (convert.go)\<close>

definition microUSDPerUSD :: int where "microUSDPerUSD = 1000000"
definition rateMilliPerUnit :: int where "rateMilliPerUnit = 1000"
definition percentPerUnit :: int where "percentPerUnit = 100"
definition microUSDRatioDenom :: int where
  "microUSDRatioDenom = microUSDPerUSD * rateMilliPerUnit"

definition ceilMicroUSDRatio :: "int \<Rightarrow> int \<Rightarrow> int" where
  "ceilMicroUSDRatio num den =
     (if num \<le> 0 \<or> den \<le> 0 then 0
      else let quo = num div den; rm = num mod den;
               quo = (if rm \<noteq> 0 then quo + 1 else quo)
           in if \<not> i64 quo then MaxInt64 else quo)"

definition ConvertMicroUSDTToCredits :: "int \<Rightarrow> int \<Rightarrow> int \<Rightarrow> int" where
  "ConvertMicroUSDTToCredits usdMicro usdCnyRateMilli creditsPerCNY =
     (if usdMicro \<le> 0 \<or> usdCnyRateMilli \<le> 0 \<or> creditsPerCNY \<le> 0 then 0
      else ceilMicroUSDRatio (usdMicro * usdCnyRateMilli * creditsPerCNY) microUSDRatioDenom)"

definition ConvertUSDToCredits :: "int \<Rightarrow> int \<Rightarrow> int \<Rightarrow> int \<Rightarrow> int" where
  "ConvertUSDToCredits microUSD usdCnyRateMilli creditsPerCNY markupPercent =
     (if microUSD \<le> 0 \<or> usdCnyRateMilli \<le> 0 \<or> creditsPerCNY \<le> 0 \<or> markupPercent \<le> 0 then 0
      else ceilMicroUSDRatio (microUSD * usdCnyRateMilli * creditsPerCNY * markupPercent)
             (microUSDRatioDenom * percentPerUnit))"

lemma ceilMicroUSDRatio_eq: "ceilMicroUSDRatio = ceilBigDiv"
  by (intro ext) (simp add: ceilMicroUSDRatio_def ceilBigDiv_def)

lemma ceilBigDiv_scale:
  assumes "0 < k" shows "ceilBigDiv (num * k) (den * k) = ceilBigDiv num den"
proof -
  have "num * k mod (den * k) = num mod den * k" by (rule mult_mod_left [symmetric])
  then show ?thesis
    using assms by (simp add: ceilBigDiv_def mult_le_0_iff not_le)
qed

section \<open>Channel cost (cost.go)\<close>

definition ComputeCostCredits :: "NormalizedUsage \<Rightarrow> Price \<Rightarrow> string \<Rightarrow> int \<Rightarrow> int \<Rightarrow> credits" where
  "ComputeCostCredits usage p currency usdCnyRateMilli creditsPerCNY =
     (let credits = (if CallCount usage > 0
                     then CalcPerCallCredits (CallCount usage) p BaseMultiplierPercent
                     else CalcTokenCredits usage p BaseMultiplierPercent)
      in if currency = ''usd''
         then ConvertMicroUSDTToCredits credits usdCnyRateMilli creditsPerCNY
         else credits)"

section \<open>Preset price list (presets.go)\<close>

record PresetModel =
  pm_Name :: string
  pm_DisplayName :: string
  pm_Description :: string
  pm_Modality :: string
  pm_BillingMode :: string
  pm_InputUSD :: int
  pm_OutputUSD :: int
  pm_CacheReadUSD :: int
  pm_CacheWriteUSD :: int
  pm_PerCallUSD :: int
  pm_Provider :: string
  pm_ContextWindow :: int
  pm_MaxOutput :: int
  pm_Capabilities :: "string list"
  pm_Alias :: string
  pm_AudioInputUSD :: int
  pm_AudioOutputUSD :: int

definition ToCreditPrice :: "PresetModel \<Rightarrow> int \<Rightarrow> int \<Rightarrow> int \<Rightarrow> Price" where
  "ToCreditPrice m usdCnyRateMilli creditsPerCNY markupPercent =
     (let conv = (\<lambda>v. ConvertUSDToCredits v usdCnyRateMilli creditsPerCNY markupPercent)
      in \<lparr>InputPrice = conv (pm_InputUSD m),
          OutputPrice = conv (pm_OutputUSD m),
          CacheReadPrice = conv (pm_CacheReadUSD m),
          CacheWritePrice = conv (pm_CacheWriteUSD m),
          AudioInputPrice = conv (pm_AudioInputUSD m),
          AudioOutputPrice = conv (pm_AudioOutputUSD m),
          PerCallPrice = conv (pm_PerCallUSD m)\<rparr>)"

section \<open>Time-of-day multipliers (peak.go)\<close>

record PeakRule =
  Timezone :: string
  StartMinute :: int
  EndMinute :: int
  DaysOfWeek :: "int list"
  MultiplierPercent :: int
  RuleEnabled :: bool

text \<open>
  The time-zone database is not part of the program: \<open>zone name\<close> is \<^verbatim>\<open>time.LoadLocation\<close>
  followed by the weekday (Sunday is 0), hour and minute an instant has there.
\<close>

type_synonym zone_db = "string \<Rightarrow> (go_time \<Rightarrow> int \<times> int \<times> int) option"

fun containsInt :: "int list \<Rightarrow> int \<Rightarrow> bool" where
  "containsInt [] v = False"
| "containsInt (x # xs) v = (if x = v then True else containsInt xs v)"

fun peak_loop :: "zone_db \<Rightarrow> go_time \<Rightarrow> PeakRule list \<Rightarrow> int \<Rightarrow> int" where
  "peak_loop zone t [] best = best"
| "peak_loop zone t (r # rules) best =
     (if \<not> RuleEnabled r \<or> MultiplierPercent r \<le> best then peak_loop zone t rules best
      else case zone (Timezone r) of
        None \<Rightarrow> peak_loop zone t rules best
      | Some local \<Rightarrow>
          (case local t of (wd, hour, mins) \<Rightarrow>
             let weekday = (if wd = 0 then 7 else wd) in
             if \<not> containsInt (DaysOfWeek r) weekday then peak_loop zone t rules best
             else let minute = hour * 60 + mins in
               if minute \<ge> StartMinute r \<and> minute < EndMinute r
               then peak_loop zone t rules (MultiplierPercent r)
               else peak_loop zone t rules best))"

definition EvaluatePeakMultiplier :: "zone_db \<Rightarrow> PeakRule list \<Rightarrow> go_time \<Rightarrow> int" where
  "EvaluatePeakMultiplier zone rules t = peak_loop zone t rules BaseMultiplierPercent"

lemma containsInt_iff [simp]: "containsInt xs v \<longleftrightarrow> v \<in> set xs"
  by (induction xs) auto

text \<open>The rule applies at an instant: the specification the loop is compared with.\<close>

definition rule_applies :: "zone_db \<Rightarrow> go_time \<Rightarrow> PeakRule \<Rightarrow> bool" where
  "rule_applies zone t r \<longleftrightarrow> RuleEnabled r \<and>
     (case zone (Timezone r) of None \<Rightarrow> False
      | Some local \<Rightarrow> (case local t of (wd, hour, mins) \<Rightarrow>
          (if wd = 0 then 7 else wd) \<in> set (DaysOfWeek r)
          \<and> StartMinute r \<le> hour * 60 + mins \<and> hour * 60 + mins < EndMinute r))"

lemma peak_loop_step:
  "peak_loop zone t (r # rules) best =
     peak_loop zone t rules (if rule_applies zone t r then max best (MultiplierPercent r) else best)"
  by (auto simp: rule_applies_def Let_def max_def split: option.splits prod.splits)

lemma peak_loop_fold:
  "peak_loop zone t rules best =
     fold max (map MultiplierPercent (filter (rule_applies zone t) rules)) best"
proof (induction rules arbitrary: best)
  case Nil
  then show ?case by simp
next
  case (Cons r rules)
  show ?case
    by (simp only: peak_loop_step Cons.IH) (simp add: max.commute)
qed

lemma EvaluatePeakMultiplier_Max:
  "EvaluatePeakMultiplier zone rules t =
     Max (insert 100 (MultiplierPercent ` {r \<in> set rules. rule_applies zone t r}))"
proof -
  let ?ms = "map MultiplierPercent (filter (rule_applies zone t) rules)"
  have "EvaluatePeakMultiplier zone rules t = Max (set (100 # ?ms))"
    by (simp only: EvaluatePeakMultiplier_def peak_loop_fold BaseMultiplierPercent_def Max.set_eq_fold)
  then show ?thesis by simp
qed

section \<open>Decimal rendering (display.go)\<close>

text \<open>
  The loop of \<^verbatim>\<open>DetailDecimals\<close> multiplies an \<^verbatim>\<open>int64\<close> by ten until it reaches the
  exchange rate. Nothing stops it when the product wraps around, so it is a partial function:
  \<^const>\<open>None\<close> is a call that never returns.
\<close>

partial_function (option) decimals_loop :: "int \<Rightarrow> int \<Rightarrow> int \<Rightarrow> int option" where
  "decimals_loop c p d =
     (if p < c then decimals_loop c (wrap64 (p * 10)) (wrap64 (d + 1)) else Some d)"

definition DetailDecimals :: "int \<Rightarrow> int option" where
  "DetailDecimals creditsPerUnit =
     (if creditsPerUnit \<le> 1 then Some 0 else decimals_loop creditsPerUnit 1 0)"

fun pow10BigInt :: "nat \<Rightarrow> int" where
  "pow10BigInt 0 = 1"
| "pow10BigInt (Suc n) = pow10BigInt n * 10"

function pad_zeros :: "nat \<Rightarrow> string \<Rightarrow> string" where
  "pad_zeros decimals s = (if length s \<le> decimals then pad_zeros decimals (CHR ''0'' # s) else s)"
  by pat_completeness auto
termination
  by (relation "measure (\<lambda>(decimals, s). Suc decimals - length s)") auto

declare pad_zeros.simps [simp del]

definition CreditsToDecimalString :: "int \<Rightarrow> int \<Rightarrow> int \<Rightarrow> string" where
  "CreditsToDecimalString credits creditsPerUnit decimals =
     (if creditsPerUnit \<le> 0 \<or> decimals < 0 then ''0''
      else
        let neg = credits < 0;
            credits = (if neg then wrap64 (- credits) else credits);
            num = (if decimals > 0 then credits * pow10BigInt (nat decimals) else credits);
            den = creditsPerUnit;
            q = go_quo num den;
            r = go_rem num den;
            q = (if r * 2 \<ge> den then q + 1 else q);
            s = show_int q
        in if decimals = 0 then (if neg then CHR ''-'' # s else s)
           else
             let s = pad_zeros (nat decimals) s;
                 out = take (length s - nat decimals) s @ CHR ''.'' # drop (length s - nat decimals) s
             in if neg then CHR ''-'' # out else out)"

subsection \<open>The number of decimals\<close>

lemma decimals_loop_pow:
  assumes "c \<le> 10 ^ (k + n)" "k + n \<le> 18" "c > 10 ^ k \<or> n = 0"
  shows "\<exists>m. k \<le> m \<and> m \<le> k + n \<and> decimals_loop c (10 ^ k) (int k) = Some (int m)
     \<and> c \<le> 10 ^ m \<and> (m = k \<or> 10 ^ (m - 1) < c)"
  using assms
proof (induction n arbitrary: k)
  case 0
  then have "decimals_loop c (10 ^ k) (int k) = Some (int k)"
    by (subst decimals_loop.simps) simp
  with 0 show ?case by auto
next
  case (Suc n)
  have c: "10 ^ k < c" using Suc.prems by auto
  have "(10::int) ^ Suc k \<le> 10 ^ 18" using Suc.prems(2) by (intro power_increasing) auto
  then have "(10::int) ^ k * 10 \<le> 1000000000000000000" by simp
  moreover have "0 \<le> (10::int) ^ k" by simp
  ultimately have "i64 (10 ^ k * 10)" unfolding i64_def MinInt64_def MaxInt64_def by linarith
  then have w1: "wrap64 (10 ^ k * 10) = 10 ^ Suc k" by (simp add: wrap64_id mult.commute)
  have "i64 (int k + 1)" using Suc.prems(2) by (simp add: i64_def MinInt64_def MaxInt64_def)
  then have w2: "wrap64 (int k + 1) = int (Suc k)" by (simp add: wrap64_id)
  have step: "decimals_loop c (10 ^ k) (int k) = decimals_loop c (10 ^ Suc k) (int (Suc k))"
    using c by (subst decimals_loop.simps) (simp only: w1 w2 if_True)
  show ?case
  proof (cases "c \<le> 10 ^ Suc k")
    case True
    then have "decimals_loop c (10 ^ Suc k) (int (Suc k)) = Some (int (Suc k))"
      by (subst decimals_loop.simps) simp
    with True c step show ?thesis by (intro exI [of _ "Suc k"]) auto
  next
    case False
    with Suc.prems Suc.IH [of "Suc k"] obtain m where m: "Suc k \<le> m" "m \<le> Suc k + n"
      "decimals_loop c (10 ^ Suc k) (int (Suc k)) = Some (int m)" "c \<le> 10 ^ m"
      "m = Suc k \<or> 10 ^ (m - 1) < c" by auto
    then show ?thesis using False step c by (intro exI [of _ m]) auto
  qed
qed

text \<open>Once the power of ten has wrapped to zero the loop can never leave.\<close>

lemma decimals_loop_zero:
  assumes "0 < c" shows "decimals_loop c 0 d = None"
proof -
  have "decimals_loop c p d = Some r \<Longrightarrow> \<not> (p = 0 \<and> 0 < c)" for c p d r
  proof (rule decimals_loop.raw_induct [where P = "\<lambda>c p d r. \<not> (p = 0 \<and> 0 < c)"])
    fix f c p d r
    assume IH: "\<And>c p d r. f c p d = Some r \<Longrightarrow> \<not> (p = 0 \<and> (0::int) < c)"
      and eq: "(if p < c then f c (wrap64 (p * 10)) (wrap64 (d + 1)) else Some d) = Some (r::int)"
    show "\<not> (p = 0 \<and> 0 < c)"
    proof
      assume "p = 0 \<and> 0 < c"
      with eq have "f c 0 (wrap64 (d + 1)) = Some r" "0 < c" by (simp_all add: wrap64_def)
      with IH show False by blast
    qed
  qed
  with assms show ?thesis by (cases "decimals_loop c 0 d") blast+
qed

subsection \<open>Padding and the decimal point\<close>

lemma pad_zeros_eq: "pad_zeros n s = replicate (Suc n - length s) (CHR ''0'') @ s"
proof (induction n s rule: pad_zeros.induct)
  case (1 n s)
  show ?case
  proof (cases "length s \<le> n")
    case True
    then have "Suc n - length s = Suc (n - length s)" by simp
    with True "1.IH" show ?thesis
      by (subst pad_zeros.simps) (simp add: replicate_append_same [symmetric])
  next
    case False
    then show ?thesis by (subst pad_zeros.simps) simp
  qed
qed

lemma pow10BigInt_eq: "pow10BigInt n = 10 ^ n"
  by (induction n) auto

lemma char_zero_digit: "CHR ''0'' = digit_char 0"
  by code_simp

lemma read_pad_zeros: "read_nat (pad_zeros n s) = read_nat s"
  by (simp add: pad_zeros_eq char_zero_digit)

subsection \<open>Reading a rendered amount back\<close>

text \<open>
  The number a decimal string stands for: an optional sign, digits, and possibly a point and more digits, each a tenth of the one
  before. Anything else stands for no number.
\<close>

definition digits_ok :: "string \<Rightarrow> bool" where
  "digits_ok s \<longleftrightarrow> s \<noteq> [] \<and> (\<forall>c \<in> set s. 48 \<le> (of_char c :: nat) \<and> (of_char c :: nat) \<le> 57)"

definition unsigned_decimal :: "string \<Rightarrow> rat option" where
  "unsigned_decimal s =
     (let whole = takeWhile (\<lambda>c. c \<noteq> CHR ''.'') s in
      if \<not> digits_ok whole then None
      else case dropWhile (\<lambda>c. c \<noteq> CHR ''.'') s of
        [] \<Rightarrow> Some (of_nat (read_nat whole))
      | _ # fs \<Rightarrow> if digits_ok fs then Some (of_nat (read_nat whole) + of_nat (read_nat fs) / 10 ^ length fs) else None)"

definition decimal_value :: "string \<Rightarrow> rat option" where
  "decimal_value s = (case s of [] \<Rightarrow> None
     | c # t \<Rightarrow> if c = CHR ''-'' then map_option uminus (unsigned_decimal t) else unsigned_decimal s)"

text \<open>The digits after the point.\<close>

definition decimals_shown :: "string \<Rightarrow> nat" where
  "decimals_shown s = length (dropWhile (\<lambda>c. c \<noteq> CHR ''.'') s) - 1"

lemma digit_char_code: "d < 10 \<Longrightarrow> (of_char (digit_char d) :: nat) = 48 + d"
  by (simp add: digit_char_def)

lemma padded_digits:
  assumes "c \<in> set (pad_zeros k (show_nat n))"
  shows "48 \<le> (of_char c :: nat) \<and> (of_char c :: nat) \<le> 57"
proof -
  have "c = digit_char 0 \<or> c \<in> set (show_nat n)" using assms by (auto simp: pad_zeros_eq char_zero_digit)
  then obtain d where "d < 10" "c = digit_char d" using digit_char_range by fastforce
  then show ?thesis by (simp add: digit_char_code)
qed

lemma digits_no_point: "(\<forall>c \<in> set s. 48 \<le> (of_char c :: nat) \<and> (of_char c :: nat) \<le> 57) \<Longrightarrow> \<forall>c \<in> set s. c \<noteq> CHR ''.'' \<and> c \<noteq> CHR ''-''"
  by fastforce

lemma read_nat_append: "read_nat (s @ t) = read_nat s * 10 ^ length t + read_nat t"
proof (induction t rule: rev_induct)
  case (snoc c t)
  have "read_nat (s @ t @ [c]) = read_nat ((s @ t) @ [c])" by simp
  then show ?case unfolding read_nat_snoc snoc.IH by simp
qed simp

lemma unsigned_point:
  assumes "digits_ok w" "digits_ok f"
  shows "unsigned_decimal (w @ CHR ''.'' # f) = Some (of_nat (read_nat (w @ f)) / 10 ^ length f)"
    "decimals_shown (w @ CHR ''.'' # f) = length f"
proof -
  have "\<forall>c \<in> set w. c \<noteq> CHR ''.''" using assms(1) digits_no_point unfolding digits_ok_def by blast
  then have t: "takeWhile (\<lambda>c. c \<noteq> CHR ''.'') (w @ CHR ''.'' # f) = w" "dropWhile (\<lambda>c. c \<noteq> CHR ''.'') (w @ CHR ''.'' # f) = CHR ''.'' # f"
    by (auto simp: takeWhile_append dropWhile_append)
  show "unsigned_decimal (w @ CHR ''.'' # f) = Some (of_nat (read_nat (w @ f)) / 10 ^ length f)"
    using assms by (simp add: unsigned_decimal_def t read_nat_append add_divide_distrib)
  show "decimals_shown (w @ CHR ''.'' # f) = length f" by (simp add: decimals_shown_def t)
qed

lemma unsigned_whole:
  assumes "digits_ok w"
  shows "unsigned_decimal w = Some (of_nat (read_nat w))" "decimals_shown w = 0"
proof -
  have "\<forall>c \<in> set w. c \<noteq> CHR ''.''" using assms digits_no_point unfolding digits_ok_def by blast
  then have t: "takeWhile (\<lambda>c. c \<noteq> CHR ''.'') w = w" "dropWhile (\<lambda>c. c \<noteq> CHR ''.'') w = []"
    by (simp_all add: takeWhile_eq_all_conv dropWhile_eq_Nil_conv)
  show "unsigned_decimal w = Some (of_nat (read_nat w))" using assms by (simp add: unsigned_decimal_def t)
  show "decimals_shown w = 0" by (simp add: decimals_shown_def t)
qed

text \<open>What is rendered of a magnitude: its digits, with the point before the last \<open>k\<close>.\<close>

lemma rendered_magnitude:
  fixes k n :: nat
  defines "s \<equiv> pad_zeros k (show_nat n)"
  defines "out \<equiv> (if k = 0 then show_nat n else take (length s - k) s @ CHR ''.'' # drop (length s - k) s)"
  shows "unsigned_decimal out = Some (of_nat n / 10 ^ k)" "decimals_shown out = k" "\<exists>c t. out = c # t \<and> c \<noteq> CHR ''-''"
proof -
  have len: "k < length s" by (simp add: s_def pad_zeros_eq)
  have dig: "\<forall>c \<in> set s. 48 \<le> (of_char c :: nat) \<and> (of_char c :: nat) \<le> 57" using padded_digits by (simp add: s_def)
  have s0: "pad_zeros 0 (show_nat n) = show_nat n" by (subst pad_zeros.simps) simp
  have parts: "digits_ok (take (length s - k) s)" "k \<noteq> 0 \<Longrightarrow> digits_ok (drop (length s - k) s)"
    using dig len by (auto simp: digits_ok_def dest: in_set_takeD in_set_dropD)
  have all: "k = 0 \<Longrightarrow> digits_ok (show_nat n)" using dig s0 by (simp add: digits_ok_def s_def)
  have read: "read_nat (take (length s - k) s @ drop (length s - k) s) = n"
    unfolding append_take_drop_id by (simp add: s_def read_pad_zeros)
  have "length (drop (length s - k) s) = k" using len by simp
  then show "unsigned_decimal out = Some (of_nat n / 10 ^ k)" "decimals_shown out = k"
    using unsigned_point [OF parts(1) parts(2)] unsigned_whole [OF all] read
    by (cases "k = 0"; simp add: out_def del: append_take_drop_id)+
  have "\<exists>c t. s = c # t \<and> c \<noteq> CHR ''-''" using dig len digits_no_point [of s] by (cases s) auto
  then obtain c t where ct: "s = c # t" "c \<noteq> CHR ''-''" by blast
  show "\<exists>c t. out = c # t \<and> c \<noteq> CHR ''-''"
  proof (cases "k = 0")
    case True
    then have "out = c # t" using ct s0 by (simp add: out_def s_def)
    then show ?thesis using ct by blast
  next
    case False
    obtain m where "length s - k = Suc m" using len by (cases "length s - k") auto
    then have "out = c # (take m t @ CHR ''.'' # drop (length s - k) s)" using False ct by (simp add: out_def)
    then show ?thesis using ct by blast
  qed
qed

text \<open>Half a unit rounds away from zero.\<close>

definition round_half :: "int \<Rightarrow> int \<Rightarrow> int" where
  "round_half num den = (let q = num div den in if (num mod den) * 2 \<ge> den then q + 1 else q)"

lemma round_half_nonneg: "0 \<le> num \<Longrightarrow> 0 < den \<Longrightarrow> 0 \<le> round_half num den"
  by (auto simp: round_half_def Let_def pos_imp_zdiv_nonneg_iff)

lemma round_half_near:
  assumes "0 \<le> num" "0 < den"
  shows "\<bar>2 * (round_half num den * den - num)\<bar> \<le> den"
proof -
  define q r where "q = num div den" and "r = num mod den"
  have "num = q * den + r" "0 \<le> r" "r < den" using assms by (simp_all add: q_def r_def)
  moreover have "round_half num den = (if r * 2 \<ge> den then q + 1 else q)" by (simp add: round_half_def Let_def q_def r_def)
  ultimately show ?thesis by (auto simp: distrib_right)
qed

lemma decimal_string_value:
  assumes c: "i64 c" "c \<noteq> MinInt64" and u: "0 < u" and d: "0 \<le> d"
  shows "decimal_value (CreditsToDecimalString c u d) = Some (of_int (sgn c * round_half (\<bar>c\<bar> * 10 ^ nat d) u) / 10 ^ nat d)
    \<and> decimals_shown (CreditsToDecimalString c u d) = nat d"
proof -
  have w: "wrap64 (- c) = - c"
    using c by (intro wrap64_id) (auto simp: i64_def MinInt64_def MaxInt64_def)
  define num where "num = \<bar>c\<bar> * 10 ^ nat d"
  have n0: "0 \<le> num" by (simp add: num_def)
  define q where "q = round_half num u"
  have q0: "0 \<le> q" unfolding q_def by (rule round_half_nonneg [OF n0 u])
  have sq: "show_int q = show_nat (nat q)" using q0 by (simp add: show_int_def)
  have num: "(if d > 0 then (if c < 0 then wrap64 (- c) else c) * pow10BigInt (nat d)
      else (if c < 0 then wrap64 (- c) else c)) = num"
    using d by (auto simp: num_def pow10BigInt_eq w)
  have q: "(if go_rem num u * 2 \<ge> u then go_quo num u + 1 else go_quo num u) = q"
    by (simp add: q_def round_half_def go_quo_nonneg [OF n0 u] go_rem_nonneg [OF n0 u])
  have q_zero: "c = 0 \<Longrightarrow> q = 0" using u by (simp add: q_def num_def round_half_def)
  let ?s = "pad_zeros (nat d) (show_nat (nat q))"
  define out where "out = (if nat d = 0 then show_nat (nat q) else take (length ?s - nat d) ?s @ CHR ''.'' # drop (length ?s - nat d) ?s)"
  note v = rendered_magnitude [of "nat d" "nat q", folded out_def]
  have "CreditsToDecimalString c u d = (if c < 0 then CHR ''-'' # out else out)"
    unfolding CreditsToDecimalString_def Let_def num q sq out_def using u d by simp
  moreover have "decimal_value out = Some (of_int q / 10 ^ nat d)" "decimal_value (CHR ''-'' # out) = Some (- (of_int q / 10 ^ nat d))"
    "decimals_shown (CHR ''-'' # out) = decimals_shown out"
    using v q0 by (auto simp: decimal_value_def decimals_shown_def)
  ultimately show ?thesis using v(2) q_zero by (auto simp: sgn_if q_def num_def)
qed

section \<open>Properties\<close>

text \<open>
  C23. The token bill is exactly the usage times the prices times the multiplier, divided by the
  unit of one million tokens (and the percent base) and rounded up once, at the end; only a bill
  beyond the 64-bit range is capped at its upper end. No intermediate product can overflow it to a
  smaller value.
\<close>

theorem token_bill_exact:
  "is_ceil_capped (CalcTokenCredits u p m) (token_sum u p * max 100 m) (100 * 1000000)"
proof (cases "token_sum u p = 0")
  case True
  then show ?thesis by (simp add: CalcTokenCredits_eq ceilBigDiv_def is_ceil_capped_def MaxInt64_def)
next
  case False
  then have "0 < token_sum u p * max 100 m"
    using token_sum_nonneg [of u p] by (intro mult_pos_pos) linarith+
  then show ?thesis unfolding CalcTokenCredits_eq by (simp add: ceilBigDiv_spec)
qed

text \<open>
  More usage never costs less: if every token count and the multiplier grow, so does the bill,
  and a positive count at a positive price is billed at least one credit (so no usage, however
  large, is waved through at zero).
\<close>

theorem token_bill_monotone:
  assumes "BaseInput u \<le> BaseInput v" "CacheRead u \<le> CacheRead v" "CacheWrite u \<le> CacheWrite v"
    "Output u \<le> Output v" "AudioInput u \<le> AudioInput v" "AudioOutput u \<le> AudioOutput v" "m \<le> n"
    and "0 < Output v" "0 < OutputPrice p"
  shows "CalcTokenCredits u p m \<le> CalcTokenCredits v p n \<and> 1 \<le> CalcTokenCredits v p n"
proof -
  have "token_sum u p \<le> token_sum v p"
    unfolding token_sum_def using assms by (intro add_mono billed_mono) simp_all
  then have "token_sum u p * max 100 m \<le> token_sum v p * max 100 n"
    using assms(7) by (intro mult_mono) auto
  moreover have "0 < token_sum v p"
    using billed_pos [OF assms(8,9)] by (simp add: token_sum_def add_nonneg_pos add_pos_nonneg)
  then have "0 < token_sum v p * max 100 n" by (intro mult_pos_pos) auto
  ultimately show ?thesis by (simp add: CalcTokenCredits_eq ceilBigDiv_mono ceilBigDiv_pos)
qed

definition sample_price :: Price where
  "sample_price = \<lparr>InputPrice = 1000000, OutputPrice = 5000000, CacheReadPrice = 0,
     CacheWritePrice = 0, AudioInputPrice = 0, AudioOutputPrice = 0, PerCallPrice = 0\<rparr>"

theorem token_bill_monotone_witness:
  "CalcTokenCredits (zero_usage\<lparr>BaseInput := 10\<rparr>) sample_price 100
     \<le> CalcTokenCredits (zero_usage\<lparr>BaseInput := 12, Output := 3\<rparr>) sample_price 150
   \<and> 1 \<le> CalcTokenCredits (zero_usage\<lparr>BaseInput := 12, Output := 3\<rparr>) sample_price 150"
  by (rule token_bill_monotone) (simp_all add: zero_usage_def sample_price_def)

text \<open>
  Income and cost round alike: turning a channel's dollar cost into credits is turning a
  vendor's dollar price into credits at a markup of exactly 100 percent.
\<close>

theorem cost_and_price_agree:
  "ConvertMicroUSDTToCredits usd rate credits = ConvertUSDToCredits usd rate credits 100"
proof -
  have "ceilBigDiv (usd * rate * credits * 100) (microUSDRatioDenom * 100)
      = ceilBigDiv (usd * rate * credits) microUSDRatioDenom"
    by (rule ceilBigDiv_scale) simp
  then show ?thesis
    by (simp add: ConvertMicroUSDTToCredits_def ConvertUSDToCredits_def ceilMicroUSDRatio_eq
        percentPerUnit_def)
qed

text \<open>
  The time-of-day multiplier is the largest percentage among the enabled rules that cover the
  instant in their own time zone, and 100 when none does; a rule whose zone cannot be loaded is
  ignored.
\<close>

theorem peak_multiplier_is_max:
  "EvaluatePeakMultiplier zone rules t =
     Max (insert 100 (MultiplierPercent ` {r \<in> set rules. rule_applies zone t r}))"
  by (rule EvaluatePeakMultiplier_Max)

text \<open>
  C25. For every exchange rate up to ten to the eighteenth the number of decimals is found, and it is
  the least one at which a single credit is still visible.
\<close>

theorem detail_decimals_least:
  assumes "1 < c" "c \<le> 1000000000000000000"
  shows "\<exists>m. DetailDecimals c = Some (int m) \<and> 1 \<le> m \<and> m \<le> 18 \<and> c \<le> 10 ^ m \<and> 10 ^ (m - 1) < c"
proof -
  from assms decimals_loop_pow [of c 0 18]
  obtain m where "decimals_loop c 1 0 = Some (int m)" "c \<le> 10 ^ m" "m \<le> 18"
    "m = 0 \<or> 10 ^ (m - 1) < c" by auto
  moreover have "m \<noteq> 0" using calculation(2) assms(1) by (cases m) auto
  ultimately show ?thesis using assms(1) by (auto simp: DetailDecimals_def intro!: exI [of _ m])
qed

theorem detail_decimals_least_witness:
  "\<exists>m. DetailDecimals 1000000 = Some (int m) \<and> 1 \<le> m \<and> m \<le> 18
     \<and> (1000000::int) \<le> 10 ^ m \<and> (10::int) ^ (m - 1) < 1000000"
  by (rule detail_decimals_least) simp_all

lemma decimals_loop_unwind:
  assumes "\<forall>j < k. ((\<lambda>p. wrap64 (p * 10)) ^^ j) p < c"
  shows "\<exists>d'. decimals_loop c p d = decimals_loop c (((\<lambda>p. wrap64 (p * 10)) ^^ k) p) d'"
  using assms
proof (induction k arbitrary: p d)
  case 0
  then show ?case by auto
next
  case (Suc k)
  let ?p = "wrap64 (p * 10)"
  have "p < c" using Suc.prems [rule_format, of 0] by simp
  then have step: "decimals_loop c p d = decimals_loop c ?p (wrap64 (d + 1))"
    by (subst decimals_loop.simps) simp
  have "\<forall>j < k. ((\<lambda>p. wrap64 (p * 10)) ^^ j) ?p < c"
    using Suc.prems by (metis Suc_less_eq funpow_simps_right(2) o_apply)
  then obtain d' where "decimals_loop c ?p (wrap64 (d + 1))
      = decimals_loop c (((\<lambda>p. wrap64 (p * 10)) ^^ k) ?p) d'" using Suc.IH by blast
  moreover have "((\<lambda>p. wrap64 (p * 10)) ^^ Suc k) p = ((\<lambda>p. wrap64 (p * 10)) ^^ k) ?p"
    by (simp only: funpow_simps_right(2) o_apply)
  ultimately show ?case using step by metis
qed

fun wrapped_powers :: "nat \<Rightarrow> int \<Rightarrow> int list" where
  "wrapped_powers 0 p = []"
| "wrapped_powers (Suc n) p = p # wrapped_powers n (wrap64 (p * 10))"

lemma wrapped_powers_nth:
  "j < n \<Longrightarrow> wrapped_powers n p ! j = ((\<lambda>p. wrap64 (p * 10)) ^^ j) p"
proof (induction n arbitrary: j p)
  case (Suc n)
  then show ?case by (cases j) (simp_all only: wrapped_powers.simps nth_Cons_0 nth_Cons_Suc funpow_0 funpow_simps_right(2) o_apply Suc_less_eq)
qed simp

lemma length_wrapped_powers [simp]: "length (wrapped_powers n p) = n"
  by (induction n arbitrary: p) auto

lemma wrapped_powers_run:
  "list_all (\<lambda>q. q \<le> 9169610316303040512) (wrapped_powers 65 1) \<and> last (wrapped_powers 65 1) = 0"
  by code_simp

lemma wrapped_powers_64:
  "j < 64 \<Longrightarrow> ((\<lambda>p. wrap64 (p * 10)) ^^ j) 1 \<le> 9169610316303040512"
  "((\<lambda>p. wrap64 (p * 10)) ^^ 64) 1 = 0"
proof -
  have ne: "wrapped_powers 65 1 \<noteq> []" by (metis length_wrapped_powers list.size(3) zero_neq_numeral)
  have all: "wrapped_powers 65 1 ! j \<le> 9169610316303040512" if "j < 65" for j
    using wrapped_powers_run that unfolding list_all_length length_wrapped_powers by blast
  show "((\<lambda>p. wrap64 (p * 10)) ^^ j) 1 \<le> 9169610316303040512" if "j < 64"
  proof -
    have j: "j < 65" using that by linarith
    show ?thesis using all [OF j] unfolding wrapped_powers_nth [OF j] .
  qed
  have "wrapped_powers 65 1 ! 64 = 0"
    using wrapped_powers_run unfolding last_conv_nth [OF ne] length_wrapped_powers by (simp del: wrapped_powers.simps)
  then show "((\<lambda>p. wrap64 (p * 10)) ^^ 64) 1 = 0" using wrapped_powers_nth [of 64 65 1] by (simp del: wrapped_powers.simps funpow.simps)
qed

text \<open>
  Beyond that the loop's product wraps around: for every exchange rate above
  9169610316303040512 (the settings accept any positive rate) the call never returns.
\<close>

theorem detail_decimals_diverges:
  assumes "9169610316303040512 < c" shows "DetailDecimals c = None"
proof -
  have "\<forall>j < 64. ((\<lambda>p. wrap64 (p * 10)) ^^ j) 1 < c"
    using wrapped_powers_64(1) assms by (meson le_less_trans)
  then obtain d' where "decimals_loop c 1 0 = decimals_loop c (((\<lambda>p. wrap64 (p * 10)) ^^ 64) 1) d'"
    using decimals_loop_unwind by blast
  then have "decimals_loop c 1 0 = decimals_loop c 0 d'" by (simp only: wrapped_powers_64(2))
  also have "\<dots> = None" using assms by (intro decimals_loop_zero) simp
  finally show ?thesis using assms by (simp add: DetailDecimals_def)
qed

theorem detail_decimals_diverges_witness: "DetailDecimals MaxInt64 = None"
  by (rule detail_decimals_diverges) (simp add: MaxInt64_def)

text \<open>
  C24. A rendered amount, read as a decimal number, is the amount in units of currency: the text has exactly the
  asked number of decimals, its value is off by half a unit of the last decimal at most, half units are rounded away from zero, and at an
  exchange rate of ten to the \<open>d\<close> with \<open>d\<close> decimals nothing is lost. The one value outside is the least 64-bit
  integer, whose negation overflows.
\<close>

theorem decimal_string_round_trip:
  assumes "i64 c" "c \<noteq> MinInt64" "0 < u" "0 \<le> d"
  shows "\<exists>v. decimal_value (CreditsToDecimalString c u d) = Some v
    \<and> decimals_shown (CreditsToDecimalString c u d) = nat d
    \<and> \<bar>v - of_int c / of_int u\<bar> \<le> 1 / (2 * 10 ^ nat d)
    \<and> v * 10 ^ nat d = of_int (sgn c * round_half (\<bar>c\<bar> * 10 ^ nat d) u)
    \<and> (u = 10 ^ nat d \<longrightarrow> v = of_int c / of_int u)"
proof -
  let ?p = "10 ^ nat d :: rat" and ?r = "round_half (\<bar>c\<bar> * 10 ^ nat d) u"
  define v where "v = of_int (sgn c * ?r) / ?p"
  have exact: "u = 10 ^ nat d \<Longrightarrow> ?r = \<bar>c\<bar>" by (simp add: round_half_def Let_def linorder_not_le)
  have sc: "of_int c = (of_int (sgn c) :: rat) * of_int \<bar>c\<bar>" by (metis of_int_mult sgn_mult_abs)
  have half: "\<bar>2 * a - 2 * b\<bar> \<le> w \<Longrightarrow> \<bar>a - b\<bar> * 2 \<le> w" for a b w :: rat by (simp add: abs_if split: if_splits)
  define C R where "C = \<bar>c\<bar>" and "R = ?r"
  have "\<bar>2 * (R * u - C * 10 ^ nat d)\<bar> \<le> u"
    using round_half_near [of "\<bar>c\<bar> * 10 ^ nat d" u] assms(3) by (simp add: C_def R_def)
  then have "(of_int \<bar>2 * (R * u - C * 10 ^ nat d)\<bar> :: rat) \<le> of_int u" by (simp only: of_int_le_iff)
  then have "\<bar>2 * (of_int R * of_int u) - 2 * (of_int C * ?p)\<bar> \<le> (of_int u :: rat)" by simp
  then have "\<bar>of_int R * of_int u - of_int C * ?p\<bar> * 2 \<le> (of_int u :: rat)" by (rule half)
  then have near: "\<bar>of_int ?r * of_int u - of_int \<bar>c\<bar> * ?p\<bar> * 2 \<le> (of_int u :: rat)" by (simp only: C_def R_def)
  have "v - of_int c / of_int u = of_int (sgn c) * (of_int ?r * of_int u - of_int \<bar>c\<bar> * ?p) / (?p * of_int u)"
    using assms(3) unfolding v_def sc by (simp add: field_simps)
  then have "\<bar>v - of_int c / of_int u\<bar> = \<bar>of_int (sgn c)\<bar> * \<bar>of_int ?r * of_int u - of_int \<bar>c\<bar> * ?p\<bar> / (?p * of_int u)"
    using assms(3) by (simp add: abs_mult)
  also have "\<dots> \<le> \<bar>of_int ?r * of_int u - of_int \<bar>c\<bar> * ?p\<bar> / (?p * of_int u)"
    using assms(3) by (intro divide_right_mono mult_left_le_one_le) (simp_all add: sgn_if)
  also have "\<dots> \<le> (of_int u / 2) / (?p * of_int u)"
    using near assms(3) by (intro divide_right_mono) simp_all
  also have "\<dots> = 1 / (2 * ?p)" using assms(3) by simp
  finally show ?thesis
    using decimal_string_value [OF assms] exact by (intro exI [of _ v]) (simp add: v_def sgn_mult_abs flip: of_int_mult)
qed

theorem decimal_string_round_trip_witness:
  "decimal_value (CreditsToDecimalString (-1234567) 1000000 6) = Some (- 1234567 / 1000000)"
  using decimal_string_round_trip [of "-1234567" 1000000 6]
  by (auto simp: i64_def MinInt64_def MaxInt64_def)

end
