(* ===== verification/RateLimit.thy ===== *)
theory RateLimit
  imports Prelude "HOL-Library.Multiset"
begin

text \<open>
  \<^verbatim>\<open>server/internal/ratelimit\<close>: the sliding-window limiter and the concurrency gate of
  limiter.go, and the failure lock of failure_lock.go. Each Go object is guarded by one mutex for
  the whole of every method, so a method is one atomic step on the object's state. The clock value is an argument: the
  limiter reads it just before it takes the mutex, so that the times of a run are in order only as far as the calls get the mutex
  in the order in which they read the clock.
\<close>

section \<open>Sliding-window limiter (limiter.go)\<close>

record MemoryLimiter =
  buckets :: "string \<Rightarrow> go_time list option"
  lastSweep :: go_time

definition NewMemoryLimiter :: "go_time \<Rightarrow> MemoryLimiter" where
  "NewMemoryLimiter now = \<lparr>buckets = (\<lambda>_. None), lastSweep = now\<rparr>"

definition bucket :: "MemoryLimiter \<Rightarrow> string \<Rightarrow> go_time list" where
  "bucket l key = (case buckets l key of None \<Rightarrow> [] | Some ts \<Rightarrow> ts)"

definition limiter_sweep :: "go_time \<Rightarrow> go_duration \<Rightarrow> MemoryLimiter \<Rightarrow> MemoryLimiter" where
  "limiter_sweep now window l =
     (let cutoff = now + wrap64 (wrap64 (- window) * 2)
      in l\<lparr>buckets := (\<lambda>k. case buckets l k of None \<Rightarrow> None
            | Some ts \<Rightarrow> if length ts = 0 \<or> last ts < cutoff then None else Some ts),
           lastSweep := now\<rparr>)"

fun drop_before :: "go_time \<Rightarrow> go_time list \<Rightarrow> go_time list" where
  "drop_before cutoff [] = []"
| "drop_before cutoff (t # ts) = (if t < cutoff then drop_before cutoff ts else t # ts)"

definition limiter_Allow ::
  "go_time \<Rightarrow> string \<Rightarrow> int \<Rightarrow> go_duration \<Rightarrow> MemoryLimiter \<Rightarrow> bool \<times> MemoryLimiter" where
  "limiter_Allow now key limit window l =
     (if limit \<le> 0 then (True, l)
      else
        let l = (if time_Sub now (lastSweep l) > 5 * Minute then limiter_sweep now window l else l);
            cutoff = now + wrap64 (- window);
            ts = drop_before cutoff (bucket l key)
        in if int (length ts) \<ge> limit
           then (False, l\<lparr>buckets := (buckets l)(key := Some ts)\<rparr>)
           else (True, l\<lparr>buckets := (buckets l)(key := Some (ts @ [now]))\<rparr>))"

text \<open>A run: each call carries the time it is made at, and the accepted ones are recorded.\<close>

record limiter_call =
  lc_time :: go_time
  lc_key :: string
  lc_limit :: int
  lc_window :: go_duration

fun limiter_run :: "MemoryLimiter \<Rightarrow> limiter_call list \<Rightarrow> MemoryLimiter \<times> limiter_call list" where
  "limiter_run l [] = (l, [])"
| "limiter_run l (c # cs) =
     (case limiter_Allow (lc_time c) (lc_key c) (lc_limit c) (lc_window c) l of
        (ok, l') \<Rightarrow> (case limiter_run l' cs of (l'', acc) \<Rightarrow> (l'', (if ok then [c] else []) @ acc)))"

subsection \<open>Lemmas on one call\<close>

lemma drop_before_dropWhile: "drop_before c ts = dropWhile (\<lambda>t. t < c) ts"
  by (induction ts) auto

lemma drop_before_sorted: "sorted ts \<Longrightarrow> drop_before c ts = filter (\<lambda>t. c \<le> t) ts"
  by (induction ts) (auto simp: not_less intro!: filter_True [symmetric])

lemma bucket_upd: "bucket (l\<lparr>buckets := (buckets l)(k := Some ts)\<rparr>) k' = (if k' = k then ts else bucket l k')"
  by (simp add: bucket_def)

lemma lastSweep_bucket [simp]: "bucket (l\<lparr>lastSweep := t\<rparr>) k = bucket l k"
  by (simp add: bucket_def)

text \<open>
  What the limiter knows of a key: \<open>tracks l key W now acc\<close> says that the bucket is in order, that
  it holds only times not after \<open>now\<close>, and that among the last \<open>W\<close> it holds all the accepted
  times \<open>acc\<close>.
\<close>

definition tracks :: "MemoryLimiter \<Rightarrow> string \<Rightarrow> go_duration \<Rightarrow> go_time \<Rightarrow> go_time list \<Rightarrow> bool" where
  "tracks l key W now acc \<longleftrightarrow> sorted (bucket l key) \<and> (\<forall>t \<in> set (bucket l key). t \<le> now)
     \<and> filter (\<lambda>t. now - W \<le> t) acc = filter (\<lambda>t. now - W \<le> t) (bucket l key)"

lemma filter_narrow:
  assumes "filter (\<lambda>t. (a::int) \<le> t) xs = filter (\<lambda>t. a \<le> t) ys" "a \<le> b"
  shows "filter (\<lambda>t. b \<le> t) xs = filter (\<lambda>t. b \<le> t) ys"
proof -
  have "filter (\<lambda>t. b \<le> t) zs = filter (\<lambda>t. b \<le> t) (filter (\<lambda>t. a \<le> t) zs)" for zs
    using assms(2) by (induction zs) auto
  then show ?thesis using assms(1) by metis
qed

lemma tracks_later: "tracks l key W now acc \<Longrightarrow> now \<le> now' \<Longrightarrow> tracks l key W now' acc"
  unfolding tracks_def by (auto intro: filter_narrow)

text \<open>A sweep made with a window at least half as long drops only what no window of the future can see.\<close>

lemma tracks_sweep:
  assumes t: "tracks l key W now acc" and W: "0 \<le> W" "W \<le> 2 * V" "V \<le> Hour"
  shows "tracks (limiter_sweep now V l) key W now acc"
proof -
  have w: "wrap64 (wrap64 (- V) * 2) = - 2 * V"
    using W by (simp add: wrap64_id i64_def MinInt64_def MaxInt64_def Hour_def Minute_def Second_def)
  show ?thesis
  proof (cases "buckets l key")
    case None
    with t show ?thesis by (simp add: tracks_def limiter_sweep_def bucket_def Let_def)
  next
    case (Some ts)
    have b: "bucket l key = ts" using Some by (simp add: bucket_def)
    show ?thesis
    proof (cases "length ts = 0 \<or> last ts < now - 2 * V")
      case True
      have "filter (\<lambda>t. now - W \<le> t) ts = []"
      proof (cases "ts = []")
        case False
        with True have "last ts < now - 2 * V" by simp
        moreover have "t \<le> last ts" if "t \<in> set ts" for t
          using t that b False by (metis append_butlast_last_id last_in_set sorted_append tracks_def
              UnE list.set_intros(1) order_refl set_append set_ConsD empty_iff list.set(1))
        ultimately show ?thesis using W by (force simp: filter_empty_conv)
      qed simp
      then show ?thesis using t True b Some w
        by (simp add: tracks_def limiter_sweep_def bucket_def Let_def)
    next
      case False
      then have "bucket (limiter_sweep now V l) key = ts"
        using Some w by (simp add: limiter_sweep_def bucket_def Let_def)
      with t b show ?thesis by (simp add: tracks_def)
    qed
  qed
qed

lemma time_Sub_5min: "time_Sub t u > 5 * Minute \<longleftrightarrow> t - u > 5 * Minute"
  by (rule time_Sub_gt) (simp_all add: i64_def MinInt64_def MaxInt64_def Minute_def Second_def)

lemma tracks_drop:
  assumes "tracks l key W now acc" "0 \<le> W" "W \<le> Hour"
  shows "drop_before (now + wrap64 (- W)) (bucket l key) = filter (\<lambda>t. now - W \<le> t) acc"
proof -
  have "wrap64 (- W) = - W"
    using assms by (simp add: wrap64_id i64_def MinInt64_def MaxInt64_def Hour_def Minute_def Second_def)
  then show ?thesis using assms by (simp add: drop_before_sorted tracks_def)
qed

lemma tracks_bucket:
  assumes "tracks l key W now acc" "\<forall>t \<in> set acc. t \<le> now"
    and "bucket l' key = filter (\<lambda>t. now - W \<le> t) acc @ new" "set new \<subseteq> {now}"
  shows "tracks l' key W now (acc @ new)"
proof -
  have "sorted (filter (\<lambda>t. now - W \<le> t) (bucket l key))"
    using assms(1) by (simp add: tracks_def sorted_wrt_filter)
  then have "sorted (filter (\<lambda>t. now - W \<le> t) acc)" using assms(1) by (simp add: tracks_def)
  moreover have "sorted new"
    using assms(4) replicate_length_same [of new now] sorted_replicate [of "length new" now]
    by (metis singletonD subsetD)
  ultimately show ?thesis using assms(2,3,4) by (auto simp: tracks_def sorted_append)
qed

text \<open>One call, seen from a key: it keeps track, and accepts only below the limit.\<close>

lemma tracks_Allow:
  assumes t: "tracks l key W now acc" and le: "\<forall>t \<in> set acc. t \<le> now"
    and W: "0 \<le> W" "W \<le> Hour" "W \<le> 2 * V" "V \<le> Hour" and own: "k = key \<Longrightarrow> 0 < L \<and> V = W"
    and call: "limiter_Allow now k L V l = (ok, l')"
  shows "tracks l' key W now (acc @ (if ok \<and> k = key then [now] else []))"
    and "ok \<Longrightarrow> k = key \<Longrightarrow> int (length (filter (\<lambda>t. now - W \<le> t) acc)) < L"
proof -
  define m where "m = (if time_Sub now (lastSweep l) > 5 * Minute then limiter_sweep now V l else l)"
  have tm: "tracks m key W now acc" using t tracks_sweep [OF t W(1,3,4)] by (simp add: m_def)
  have d: "drop_before (now + wrap64 (- W)) (bucket m key) = filter (\<lambda>t. now - W \<le> t) acc"
    by (rule tracks_drop [OF tm W(1,2)])
  have c: "limiter_Allow now k L V l = (if L \<le> 0 then (True, l) else
      let ts = drop_before (now + wrap64 (- V)) (bucket m k) in
      if int (length ts) \<ge> L then (False, m\<lparr>buckets := (buckets m)(k := Some ts)\<rparr>)
      else (True, m\<lparr>buckets := (buckets m)(k := Some (ts @ [now]))\<rparr>))"
    by (simp add: limiter_Allow_def m_def Let_def)
  show "tracks l' key W now (acc @ (if ok \<and> k = key then [now] else []))"
  proof (cases "k = key")
    case True
    with own d call c have "bucket l' key
        = filter (\<lambda>t. now - W \<le> t) acc @ (if ok \<and> k = key then [now] else [])"
      by (auto simp: Let_def bucket_upd split: if_splits)
    then show ?thesis by (rule tracks_bucket [OF tm le]) auto
  next
    case False
    then have "bucket l' key = bucket m key \<or> l' = l"
      using call c by (auto simp: Let_def bucket_upd split: if_splits)
    then show ?thesis using False tm t by (auto simp: tracks_def)
  qed
  show "ok \<Longrightarrow> k = key \<Longrightarrow> int (length (filter (\<lambda>t. now - W \<le> t) acc)) < L"
    using call c d own by (auto simp: Let_def split: if_splits)
qed

definition in_window :: "go_duration \<Rightarrow> go_time \<Rightarrow> go_time list \<Rightarrow> nat" where
  "in_window W t acc = length (filter (\<lambda>s. t - W \<le> s \<and> s \<le> t) acc)"

lemma in_window_snoc:
  assumes all: "\<And>t. int (in_window W t acc) \<le> L" and le: "\<forall>s \<in> set acc. s \<le> now"
    and lt: "int (length (filter (\<lambda>s. now - W \<le> s) acc)) < L"
  shows "int (in_window W t (acc @ [now])) \<le> L"
proof (cases "t < now")
  case True
  then show ?thesis using all [of t] by (simp add: in_window_def)
next
  case False
  have "filter (\<lambda>s. t - W \<le> s \<and> s \<le> t) acc
      = filter (\<lambda>s. t - W \<le> s \<and> s \<le> t) (filter (\<lambda>s. now - W \<le> s) acc)"
    using False by (auto intro: filter_cong)
  then have "length (filter (\<lambda>s. t - W \<le> s \<and> s \<le> t) acc) \<le> length (filter (\<lambda>s. now - W \<le> s) acc)"
    by (metis length_filter_le)
  then show ?thesis using lt by (simp add: in_window_def)
qed

definition times_of :: "string \<Rightarrow> limiter_call list \<Rightarrow> go_time list" where
  "times_of key cs = map lc_time (filter (\<lambda>c. lc_key c = key) cs)"

lemma limiter_run_window:
  assumes "tracks l key W now acc" "\<forall>t \<in> set acc. t \<le> now" "\<And>t. int (in_window W t acc) \<le> L"
    and "0 \<le> W" "W \<le> Hour" "0 < L"
    and "sorted (map lc_time cs)" "\<forall>c \<in> set cs. now \<le> lc_time c \<and> W \<le> 2 * lc_window c \<and> lc_window c \<le> Hour"
    and "\<forall>c \<in> set cs. lc_key c = key \<longrightarrow> lc_window c = W \<and> 0 < lc_limit c \<and> lc_limit c \<le> L"
  shows "int (in_window W t (acc @ times_of key (snd (limiter_run l cs)))) \<le> L"
  using assms
proof (induction cs arbitrary: l now acc)
  case Nil
  then show ?case by (simp add: times_of_def)
next
  case (Cons c cs)
  let ?n = "lc_time c"
  obtain ok l' where call: "limiter_Allow ?n (lc_key c) (lc_limit c) (lc_window c) l = (ok, l')" by fastforce
  let ?new = "if ok \<and> lc_key c = key then [?n] else []"
  have tr: "tracks l key W ?n acc" and le: "\<forall>t \<in> set acc. t \<le> ?n"
    using tracks_later [OF Cons.prems(1)] Cons.prems(2,8) by force+
  have lim: "lc_key c = key \<Longrightarrow> 0 < lc_limit c \<and> lc_window c = W" "lc_key c = key \<Longrightarrow> lc_limit c \<le> L"
    and win: "W \<le> 2 * lc_window c" "lc_window c \<le> Hour"
    using Cons.prems(8,9) by auto
  note step = tracks_Allow [OF tr le Cons.prems(4,5) win lim(1) call]
  have bound: "int (in_window W t (acc @ ?new)) \<le> L" for t
  proof (cases "ok \<and> lc_key c = key")
    case True
    then have "int (length (filter (\<lambda>t. ?n - W \<le> t) acc)) < L" using step(2) lim(2) by simp
    with in_window_snoc [OF Cons.prems(3) le] True show ?thesis by simp
  next
    case False
    then show ?thesis using Cons.prems(3) by auto
  qed
  have run: "times_of key (snd (limiter_run l (c # cs))) = ?new @ times_of key (snd (limiter_run l' cs))"
    using call Cons.prems(8) by (auto simp: times_of_def split: prod.splits)
  have "int (in_window W t ((acc @ ?new) @ times_of key (snd (limiter_run l' cs)))) \<le> L"
    by (rule Cons.IH [of l' ?n]) (use step(1) le bound Cons.prems in auto)
  then show ?case by (simp only: run append_assoc)
qed

section \<open>Concurrency gate (limiter.go)\<close>

text \<open>
  Reject reasons are the source's strings. The counters are Go \<^verbatim>\<open>int\<close>s that count requests
  held in memory, far below \<open>2 ^ 63\<close>, so they are plain integers here.
\<close>

definition GateRejectUserQuota :: string where "GateRejectUserQuota = ''user_quota''"
definition GateRejectGlobal :: string where "GateRejectGlobal = ''global_limit''"
definition GateRejectLargeQuota :: string where "GateRejectLargeQuota = ''large_quota''"

record ConcurrencyGate =
  g_count :: int
  largeCount :: int
  userCount :: "int \<Rightarrow> int option"

definition NewConcurrencyGate :: ConcurrencyGate where
  "NewConcurrencyGate = \<lparr>g_count = 0, largeCount = 0, userCount = (\<lambda>_. None)\<rparr>"

definition user_count :: "ConcurrencyGate \<Rightarrow> int \<Rightarrow> int" where
  "user_count g u = (case userCount g u of None \<Rightarrow> 0 | Some n \<Rightarrow> n)"

definition gate_Acquire ::
  "int \<Rightarrow> int \<Rightarrow> int \<Rightarrow> int \<Rightarrow> bool \<Rightarrow> ConcurrencyGate \<Rightarrow> (bool \<times> string) \<times> ConcurrencyGate" where
  "gate_Acquire userID userLimit limit largeLimit large g =
     (if userLimit > 0 \<and> user_count g userID \<ge> userLimit then ((False, GateRejectUserQuota), g)
      else if limit > 0 \<and> g_count g \<ge> limit then ((False, GateRejectGlobal), g)
      else if large \<and> largeLimit > 0 \<and> largeCount g \<ge> largeLimit then ((False, GateRejectLargeQuota), g)
      else ((True, []),
        g\<lparr>g_count := g_count g + 1,
          userCount := (userCount g)(userID := Some (user_count g userID + 1)),
          largeCount := (if large then largeCount g + 1 else largeCount g)\<rparr>))"

definition gate_InFlight :: "ConcurrencyGate \<Rightarrow> int" where
  "gate_InFlight g = g_count g"

definition gate_Release :: "int \<Rightarrow> bool \<Rightarrow> ConcurrencyGate \<Rightarrow> ConcurrencyGate" where
  "gate_Release userID large g =
     (let g = (if g_count g > 0 then g\<lparr>g_count := g_count g - 1\<rparr> else g);
          g = (if user_count g userID > 0 then
                 (let n = user_count g userID - 1
                  in g\<lparr>userCount := (userCount g)(userID := (if n = 0 then None else Some n))\<rparr>)
               else g)
      in if large \<and> largeCount g > 0 then g\<lparr>largeCount := largeCount g - 1\<rparr> else g)"

text \<open>
  The abstract gate is the multiset of the requests in flight, each its user and whether it is
  large. The step relation follows the caller (api/relay_pipeline): a request that was
  admitted is released once, with the arguments it was admitted with.
\<close>

inductive gate_reach :: "ConcurrencyGate \<Rightarrow> (int \<times> bool) multiset \<Rightarrow> bool" where
  new: "gate_reach NewConcurrencyGate {#}"
| admit: "gate_reach g R \<Longrightarrow> gate_Acquire u ul l ll large g = ((True, r), g')
    \<Longrightarrow> gate_reach g' (add_mset (u, large) R)"
| reject: "gate_reach g R \<Longrightarrow> gate_Acquire u ul l ll large g = ((False, r), g') \<Longrightarrow> gate_reach g' R"
| release: "gate_reach g R \<Longrightarrow> (u, large) \<in># R \<Longrightarrow> gate_reach (gate_Release u large g) (R - {#(u, large)#})"

definition gate_abs :: "ConcurrencyGate \<Rightarrow> (int \<times> bool) multiset \<Rightarrow> bool" where
  "gate_abs g R \<longleftrightarrow> g_count g = int (size R) \<and> largeCount g = int (size (filter_mset snd R))
     \<and> (\<forall>u. userCount g u = (let n = size (filter_mset (\<lambda>x. fst x = u) R) in
           if n = 0 then None else Some (int n)))"

lemma gate_abs_user: "gate_abs g R \<Longrightarrow> user_count g u = int (size (filter_mset (\<lambda>x. fst x = u) R))"
  by (simp add: gate_abs_def user_count_def Let_def)

lemma gate_abs_acquire:
  assumes "gate_abs g R" "gate_Acquire u ul l ll large g = ((True, r), g')"
  shows "gate_abs g' (add_mset (u, large) R)"
proof -
  have "g' = g\<lparr>g_count := g_count g + 1, userCount := (userCount g)(u := Some (user_count g u + 1)),
      largeCount := (if large then largeCount g + 1 else largeCount g)\<rparr>"
    using assms(2) by (auto simp: gate_Acquire_def split: if_splits)
  then show ?thesis using assms(1) gate_abs_user [OF assms(1), of u]
    by (auto simp: gate_abs_def Let_def)
qed

lemma gate_abs_release:
  assumes a: "gate_abs g R" and m: "(u, large) \<in># R"
  shows "gate_abs (gate_Release u large g) (R - {#(u, large)#})"
proof -
  obtain S where R: "R = add_mset (u, large) S" using m by (metis mset_add)
  have "gate_Release u large g = g\<lparr>g_count := int (size S),
      userCount := (userCount g)(u := (let n = size (filter_mset (\<lambda>x. fst x = u) S) in
         if n = 0 then None else Some (int n))),
      largeCount := int (size (filter_mset snd S))\<rparr>"
    using a gate_abs_user [OF a, of u]
    by (auto simp: gate_Release_def R gate_abs_def Let_def user_count_def)
  then show ?thesis using a by (auto simp: gate_abs_def R Let_def)
qed

lemma gate_reach_abs: "gate_reach g R \<Longrightarrow> gate_abs g R"
proof (induction rule: gate_reach.induct)
  case new
  show ?case by (simp add: gate_abs_def NewConcurrencyGate_def)
next
  case (admit g R u ul l ll large r g')
  from gate_abs_acquire [OF admit.IH admit.hyps(2)] show ?case .
next
  case (reject g R u ul l ll large r g')
  then show ?case by (auto simp: gate_Acquire_def split: if_splits)
next
  case (release g R u large)
  from gate_abs_release [OF release.IH release.hyps(2)] show ?case .
qed

section \<open>Failure lock (failure_lock.go)\<close>

record failureEntry =
  failures :: int
  lastFailure :: go_time
  lockedUntil :: go_time

definition fresh_entry :: failureEntry where
  "fresh_entry = \<lparr>failures = 0, lastFailure = zero_time, lockedUntil = zero_time\<rparr>"

record FailureLocker =
  entries :: "string \<Rightarrow> failureEntry option"
  fl_lastSweep :: go_time

definition NewFailureLocker :: "go_time \<Rightarrow> FailureLocker" where
  "NewFailureLocker now = \<lparr>entries = (\<lambda>_. None), fl_lastSweep = now\<rparr>"

definition locker_Locked :: "go_time \<Rightarrow> string \<Rightarrow> FailureLocker \<Rightarrow> bool" where
  "locker_Locked now key l = (case entries l key of None \<Rightarrow> False | Some e \<Rightarrow> now < lockedUntil e)"

definition locker_sweep :: "go_time \<Rightarrow> go_duration \<Rightarrow> FailureLocker \<Rightarrow> FailureLocker" where
  "locker_sweep now lockFor l =
     (let cutoff = now + wrap64 (wrap64 (- lockFor) * 2)
      in l\<lparr>entries := (\<lambda>k. case entries l k of None \<Rightarrow> None
            | Some e \<Rightarrow> if lastFailure e < cutoff \<and> now > lockedUntil e then None else Some e),
           fl_lastSweep := now\<rparr>)"

definition locker_RecordFailure ::
  "go_time \<Rightarrow> string \<Rightarrow> int \<Rightarrow> go_duration \<Rightarrow> FailureLocker \<Rightarrow> FailureLocker" where
  "locker_RecordFailure now key threshold lockFor l =
     (if threshold \<le> 0 then l
      else
        let l = (if time_Sub now (fl_lastSweep l) > 10 * Minute then locker_sweep now lockFor l else l);
            e = (case entries l key of None \<Rightarrow> fresh_entry
                 | Some e \<Rightarrow> if time_Sub now (lastFailure e) > lockFor then fresh_entry else e);
            e = e\<lparr>failures := failures e + 1, lastFailure := now\<rparr>;
            e = (if failures e \<ge> threshold then e\<lparr>lockedUntil := now + lockFor, failures := 0\<rparr> else e)
        in l\<lparr>entries := (entries l)(key := Some e)\<rparr>)"

definition locker_Reset :: "go_time \<Rightarrow> string \<Rightarrow> FailureLocker \<Rightarrow> FailureLocker" where
  "locker_Reset now key l =
     (case entries l key of None \<Rightarrow> l
      | Some e \<Rightarrow> if now < lockedUntil e
          then l\<lparr>entries := (entries l)(key := Some (e\<lparr>failures := 0\<rparr>))\<rparr>
          else l\<lparr>entries := (entries l)(key := None)\<rparr>)"

text \<open>A run of the lock: failures and successes of any keys, each at its time.\<close>

datatype locker_op = LFail go_time string | LReset go_time string

fun lop_time :: "locker_op \<Rightarrow> go_time" where
  "lop_time (LFail t k) = t"
| "lop_time (LReset t k) = t"

fun locker_step :: "int \<Rightarrow> go_duration \<Rightarrow> FailureLocker \<Rightarrow> locker_op \<Rightarrow> FailureLocker" where
  "locker_step threshold lockFor l (LFail t k) = locker_RecordFailure t k threshold lockFor l"
| "locker_step threshold lockFor l (LReset t k) = locker_Reset t k l"

definition locker_run :: "int \<Rightarrow> go_duration \<Rightarrow> FailureLocker \<Rightarrow> locker_op list \<Rightarrow> FailureLocker" where
  "locker_run threshold lockFor = foldl (locker_step threshold lockFor)"

subsection \<open>Lemmas on the lock\<close>

text \<open>A key is held until \<open>U\<close>: no operation made before \<open>U\<close> releases it.\<close>

definition held_until :: "go_time \<Rightarrow> go_duration \<Rightarrow> string \<Rightarrow> FailureLocker \<Rightarrow> bool" where
  "held_until U lockFor key l \<longleftrightarrow>
     (\<exists>e. entries l key = Some e \<and> U \<le> lockedUntil e \<and> U - lockFor \<le> lastFailure e)"

lemma held_Locked: "held_until U lockFor key l \<Longrightarrow> t < U \<Longrightarrow> locker_Locked t key l"
  by (auto simp: held_until_def locker_Locked_def)

lemma held_sweep: "held_until U lockFor key l \<Longrightarrow> t < U \<Longrightarrow> held_until U lockFor key (locker_sweep t w l)"
  by (auto simp: held_until_def locker_sweep_def Let_def)

lemma time_Sub_le: "0 \<le> d \<Longrightarrow> i64 d \<Longrightarrow> t - u \<le> d \<Longrightarrow> \<not> time_Sub t u > d"
  by (auto simp: time_Sub_def i64_def MinInt64_def MaxInt64_def)

lemma held_step:
  assumes h: "held_until U lockFor key l" and t: "lop_time op < U" "U - lockFor \<le> lop_time op"
    and w: "0 \<le> lockFor" "i64 lockFor"
  shows "held_until U lockFor key (locker_step threshold lockFor l op)"
proof (cases op)
  case (LReset t k)
  with h t show ?thesis by (auto simp: held_until_def locker_Reset_def split: option.splits)
next
  case (LFail t k)
  define m where "m = (if time_Sub t (fl_lastSweep l) > 10 * Minute then locker_sweep t lockFor l else l)"
  have hm: "held_until U lockFor key m" using h held_sweep [OF h] LFail t by (auto simp: m_def)
  then obtain e where e: "entries m key = Some e" "U \<le> lockedUntil e" "U - lockFor \<le> lastFailure e"
    by (auto simp: held_until_def)
  have "\<not> time_Sub t (lastFailure e) > lockFor"
    using e(3) t LFail w by (intro time_Sub_le) auto
  then show ?thesis using e hm t LFail h
    by (cases "k = key") (auto simp: locker_RecordFailure_def Let_def held_until_def simp flip: m_def)
qed

lemma held_run:
  assumes "held_until U lockFor key l" "\<forall>op \<in> set ops. lop_time op < U \<and> U - lockFor \<le> lop_time op"
    and "0 \<le> lockFor" "i64 lockFor"
  shows "held_until U lockFor key (locker_run threshold lockFor l ops)"
  using assms
proof (induction ops arbitrary: l)
  case Nil
  then show ?case by (simp add: locker_run_def)
next
  case (Cons op ops)
  from held_step [OF Cons.prems(1) _ _ Cons.prems(3,4), of op] Cons
  show ?case by (simp add: locker_run_def)
qed

text \<open>Counting up: \<open>counted l key n latest\<close> says that the lock has seen \<open>n\<close> failures in a row.\<close>

definition counted :: "FailureLocker \<Rightarrow> string \<Rightarrow> nat \<Rightarrow> go_time \<Rightarrow> bool" where
  "counted l key n latest \<longleftrightarrow> (if n = 0 then entries l key = None
     else \<exists>e. entries l key = Some e \<and> failures e = int n \<and> lastFailure e = latest \<and> lockedUntil e = zero_time)"

lemma counted_sweep:
  assumes "counted l key n latest" "0 < n \<Longrightarrow> t \<le> latest + lockFor" "0 \<le> lockFor" "i64 (2 * lockFor)"
  shows "counted (locker_sweep t lockFor l) key n latest"
proof -
  have "wrap64 (wrap64 (- lockFor) * 2) = - 2 * lockFor"
    using assms(3,4) by (simp add: wrap64_id i64_def MinInt64_def MaxInt64_def)
  then show ?thesis using assms(1,2,3)
    by (auto simp: counted_def locker_sweep_def Let_def split: if_splits)
qed

lemma counted_other:
  assumes "counted l key n latest" "0 < n \<Longrightarrow> lop_time op \<le> latest + lockFor" "0 \<le> lockFor" "i64 (2 * lockFor)"
    and "op = LFail t k \<or> op = LReset t k" "k \<noteq> key"
  shows "counted (locker_step threshold lockFor l op) key n latest"
proof -
  have "counted (locker_sweep t lockFor l) key n latest"
    using counted_sweep [OF assms(1) _ assms(3,4), of t] assms(2,5) by auto
  then show ?thesis using assms(1,5,6)
    by (auto simp: locker_RecordFailure_def locker_Reset_def Let_def counted_def split: option.splits)
qed

lemma counted_fail:
  assumes c: "counted l key n latest" and t: "0 < n \<Longrightarrow> t \<le> latest + lockFor"
    and w: "0 \<le> lockFor" "i64 (2 * lockFor)" and n: "int n < threshold"
  shows "int (Suc n) < threshold \<Longrightarrow>
           counted (locker_RecordFailure t key threshold lockFor l) key (Suc n) t"
    and "int (Suc n) = threshold \<Longrightarrow>
           held_until (t + lockFor) lockFor key (locker_RecordFailure t key threshold lockFor l)"
proof -
  define m where "m = (if time_Sub t (fl_lastSweep l) > 10 * Minute then locker_sweep t lockFor l else l)"
  have cm: "counted m key n latest" using c counted_sweep [OF c t w] by (simp add: m_def)
  have i: "i64 lockFor" using w by (auto simp: i64_def MinInt64_def MaxInt64_def)
  obtain e where e: "(case entries m key of None \<Rightarrow> fresh_entry
        | Some e \<Rightarrow> if time_Sub t (lastFailure e) > lockFor then fresh_entry else e) = e"
      "failures e = int n" "lockedUntil e = zero_time"
  proof (cases "n = 0")
    case True
    with cm show ?thesis using that [of fresh_entry] by (simp add: counted_def fresh_entry_def)
  next
    case False
    with cm obtain e where "entries m key = Some e" "failures e = int n" "lastFailure e = latest"
        "lockedUntil e = zero_time" by (auto simp: counted_def)
    moreover have "\<not> time_Sub t latest > lockFor" using t False by (intro time_Sub_le w i) auto
    ultimately show ?thesis using that [of e] by simp
  qed
  have r: "locker_RecordFailure t key threshold lockFor l = m\<lparr>entries := (entries m)(key :=
      Some (if failures e + 1 \<ge> threshold then e\<lparr>lastFailure := t, lockedUntil := t + lockFor, failures := 0\<rparr>
            else e\<lparr>failures := failures e + 1, lastFailure := t\<rparr>))\<rparr>"
    using n e(1) by (auto simp: locker_RecordFailure_def Let_def simp flip: m_def)
  show "int (Suc n) < threshold \<Longrightarrow> counted (locker_RecordFailure t key threshold lockFor l) key (Suc n) t"
    using e by (simp add: r counted_def)
  show "int (Suc n) = threshold \<Longrightarrow>
      held_until (t + lockFor) lockFor key (locker_RecordFailure t key threshold lockFor l)"
    using e w by (simp add: r held_until_def)
qed

text \<open>
  A burst: no operation resets the key, and every operation comes at most \<open>lockFor\<close> after the
  key's preceding failure, if there is one.
\<close>

fun burst :: "go_duration \<Rightarrow> string \<Rightarrow> go_time option \<Rightarrow> locker_op list \<Rightarrow> bool" where
  "burst w key prev [] = True"
| "burst w key prev (LFail t k # ops) =
     ((case prev of None \<Rightarrow> True | Some p \<Rightarrow> t \<le> p + w) \<and> burst w key (if k = key then Some t else prev) ops)"
| "burst w key prev (LReset t k # ops) =
     ((case prev of None \<Rightarrow> True | Some p \<Rightarrow> t \<le> p + w) \<and> k \<noteq> key \<and> burst w key prev ops)"

fun fails :: "string \<Rightarrow> locker_op list \<Rightarrow> nat" where
  "fails key [] = 0"
| "fails key (LFail t k # ops) = (if k = key then 1 else 0) + fails key ops"
| "fails key (LReset t k # ops) = fails key ops"

lemma burst_run:
  assumes "counted l key n latest" "burst w key (if n = 0 then None else Some latest) (ops @ post)"
    and "int (n + fails key ops) < threshold" "0 \<le> w" "i64 (2 * w)"
  shows "\<exists>latest'. counted (locker_run threshold w l ops) key (n + fails key ops) latest'
    \<and> burst w key (if n + fails key ops = 0 then None else Some latest') post"
  using assms
proof (induction ops arbitrary: l n latest)
  case Nil
  then show ?case by (auto simp: locker_run_def)
next
  case (Cons op ops)
  have run: "locker_run threshold w l (op # ops) = locker_run threshold w (locker_step threshold w l op) ops"
    by (simp add: locker_run_def)
  have close: "0 < n \<Longrightarrow> lop_time op \<le> latest + w"
    using Cons.prems(2) by (cases op) auto
  show ?case
  proof (cases "\<exists>t. op = LFail t key")
    case True
    then obtain t where op: "op = LFail t key" by blast
    have "counted (locker_step threshold w l op) key (Suc n) t"
      using counted_fail(1) [OF Cons.prems(1) _ Cons.prems(4,5), of t threshold] close Cons.prems(3) op by auto
    from Cons.IH [OF this] Cons.prems op run show ?thesis by simp
  next
    case False
    then obtain t k where op: "op = LFail t k \<or> op = LReset t k" "k \<noteq> key"
      using Cons.prems(2) by (cases op) auto
    have "counted (locker_step threshold w l op) key n latest"
      by (rule counted_other [OF Cons.prems(1) close Cons.prems(4,5) op])
    have "fails key (op # ops) = fails key ops"
      and "burst w key (if n = 0 then None else Some latest) (ops @ post)"
      using op Cons.prems(2) by auto
    with Cons.IH [OF \<open>counted (locker_step threshold w l op) key n latest\<close>] Cons.prems(3-5)
    show ?thesis by (simp only: run)
  qed
qed

section \<open>Properties\<close>

text \<open>
  C36. The sliding window holds for the shortest window in use: from a new limiter, let the calls for a key use one window
  of at most an hour and positive limits of at most \<open>L\<close> (a setting may change between them), let every other call use
  a window at least half as long, and let the calls get the mutex in the order of the times they read. Then no interval of the length of the
  window ever sees more than \<open>L\<close> accepted calls for the key, whatever the other keys do and however often the sweep runs. The
  program shares one limiter between the one-minute limits of logins and of the relay and the one-hour limit of registrations: the bound
  holds for the former, and fails for the latter (\<open>mixed_windows_forget\<close>).
\<close>

theorem limiter_window_bound:
  assumes "sorted (map lc_time cs)" "\<forall>c \<in> set cs. t0 \<le> lc_time c \<and> W \<le> 2 * lc_window c \<and> lc_window c \<le> Hour"
    and "\<forall>c \<in> set cs. lc_key c = key \<longrightarrow> lc_window c = W \<and> 0 < lc_limit c \<and> lc_limit c \<le> L" "0 < L" "0 \<le> W" "W \<le> Hour"
  shows "int (in_window W t (times_of key (snd (limiter_run (NewMemoryLimiter t0) cs)))) \<le> L"
proof -
  have "tracks (NewMemoryLimiter t0) key W t0 []"
    by (simp add: tracks_def NewMemoryLimiter_def bucket_def)
  from limiter_run_window [OF this, of L cs] assms show ?thesis by (simp add: in_window_def)
qed

text \<open>A limit of two logins a minute beside a registration: the third login is refused.\<close>

definition demo_calls :: "limiter_call list" where
  "demo_calls = \<lparr>lc_time = 0, lc_key = ''register:ip'', lc_limit = 1, lc_window = Hour\<rparr>
     # map (\<lambda>t. \<lparr>lc_time = t, lc_key = ''login:ip'', lc_limit = 2, lc_window = Minute\<rparr>) [Second, 2 * Second, 3 * Second]"

lemma limiter_window_bound_witness:
  "int (in_window Minute (3 * Second) (times_of ''login:ip'' (snd (limiter_run (NewMemoryLimiter 0) demo_calls)))) \<le> 2"
  by (rule limiter_window_bound) (simp_all add: demo_calls_def Second_def Minute_def Hour_def)

definition mixed_calls :: "limiter_call list" where
  "mixed_calls =
     [\<lparr>lc_time = Second, lc_key = ''register:ip'', lc_limit = 1, lc_window = Hour\<rparr>,
      \<lparr>lc_time = 10 * Minute, lc_key = ''login:ip'', lc_limit = 10, lc_window = Minute\<rparr>,
      \<lparr>lc_time = 10 * Minute + Second, lc_key = ''register:ip'', lc_limit = 1, lc_window = Hour\<rparr>]"

text \<open>
  The bound fails when one limiter serves two window lengths, as api/auth_handlers.go does with
  the one-minute login limit and the one-hour registration limit: a login call sweeps with its own
  short window and drops the registration bucket, so a registration limit of one per hour lets a
  second one through ten minutes after the first.
\<close>

theorem mixed_windows_forget:
  "in_window Hour (10 * Minute + Second)
     (times_of ''register:ip'' (snd (limiter_run (NewMemoryLimiter 0) mixed_calls))) = 2"
  by (simp add: mixed_calls_def limiter_Allow_def limiter_sweep_def NewMemoryLimiter_def bucket_def Let_def
      time_Sub_def wrap64_id i64_def MinInt64_def MaxInt64_def Hour_def Minute_def Second_def
      times_of_def in_window_def)

text \<open>
  C40. The gate is its abstract multiset: in every reachable state the count of requests in flight
  is the size of the multiset, a request is admitted exactly when each of the configured quotas
  (its user's, the global one, and for a large request the large one) has room, and once all
  requests are released the gate is as new, with no user left in its map.
\<close>

theorem gate_admits_iff_room:
  assumes "gate_reach g R"
  shows "gate_InFlight g = int (size R)
    \<and> (fst (fst (gate_Acquire u userLimit limit largeLimit large g)) \<longleftrightarrow>
         (0 < userLimit \<longrightarrow> int (size (filter_mset (\<lambda>x. fst x = u) R)) < userLimit)
       \<and> (0 < limit \<longrightarrow> int (size R) < limit)
       \<and> (large \<and> 0 < largeLimit \<longrightarrow> int (size (filter_mset snd R)) < largeLimit))
    \<and> (R = {#} \<longrightarrow> g = NewConcurrencyGate)"
proof -
  have a: "gate_abs g R" by (rule gate_reach_abs [OF assms])
  have "R = {#} \<Longrightarrow> g = NewConcurrencyGate"
    using a by (cases g) (auto simp: gate_abs_def NewConcurrencyGate_def Let_def)
  then show ?thesis using a gate_abs_user [OF a, of u]
    by (auto simp: gate_Acquire_def gate_InFlight_def gate_abs_def not_less)
qed

lemma gate_admits_iff_room_witness:
  "fst (fst (gate_Acquire 7 2 10 1 True NewConcurrencyGate)) \<and> gate_InFlight NewConcurrencyGate = 0"
  using gate_admits_iff_room [OF gate_reach.new, of 7 2 10 1 True] by simp

text \<open>
  The failure lock engages at the threshold and not before, and stays: in a burst of operations
  a key that has failed \<open>threshold - 1\<close> times is not locked; its next failure at \<open>t\<close> locks it, and
  no operation of the next \<open>lockFor\<close> (failures, successes, other keys, sweeps) releases it before
  \<open>t + lockFor\<close>.
\<close>

theorem failure_lock_engages_and_holds:
  assumes w: "0 \<le> lockFor" "i64 (2 * lockFor)" and th: "threshold = int (Suc (fails key pre))"
    and b: "burst lockFor key None (pre @ [LFail t key])"
    and post: "\<forall>op \<in> set post. t \<le> lop_time op \<and> lop_time op < t + lockFor"
  shows "(\<forall>t' \<ge> zero_time. \<not> locker_Locked t' key (locker_run threshold lockFor (NewFailureLocker t0) pre))
    \<and> (\<forall>t' < t + lockFor. locker_Locked t' key
          (locker_run threshold lockFor (NewFailureLocker t0) (pre @ LFail t key # post)))"
proof
  let ?l = "locker_run threshold lockFor (NewFailureLocker t0) pre"
  have "counted (NewFailureLocker t0) key 0 0" by (simp add: counted_def NewFailureLocker_def)
  from burst_run [OF this, of lockFor pre "[LFail t key]" threshold] b w th
  obtain latest where c: "counted ?l key (fails key pre) latest"
    and close: "0 < fails key pre \<Longrightarrow> t \<le> latest + lockFor" by (fastforce split: if_splits)
  show "\<forall>t' \<ge> zero_time. \<not> locker_Locked t' key ?l"
    using c by (auto simp: counted_def locker_Locked_def split: if_splits)
  have "held_until (t + lockFor) lockFor key (locker_RecordFailure t key threshold lockFor ?l)"
    by (rule counted_fail(2) [OF c close w]) (simp_all add: th)
  then have "held_until (t + lockFor) lockFor key
      (locker_run threshold lockFor (locker_RecordFailure t key threshold lockFor ?l) post)"
    using post w by (intro held_run) (auto simp: i64_def MinInt64_def MaxInt64_def)
  moreover have "locker_run threshold lockFor (NewFailureLocker t0) (pre @ LFail t key # post)
      = locker_run threshold lockFor (locker_RecordFailure t key threshold lockFor ?l) post"
    by (simp add: locker_run_def)
  ultimately show "\<forall>t' < t + lockFor. locker_Locked t' key
      (locker_run threshold lockFor (NewFailureLocker t0) (pre @ LFail t key # post))"
    by (auto intro: held_Locked)
qed

lemma failure_lock_engages_and_holds_witness:
  "locker_Locked (60 * Second) ''alice''
     (locker_run 2 Minute (NewFailureLocker 0)
        ([LFail Second ''alice'', LFail (2 * Second) ''bob''] @ LFail (3 * Second) ''alice''
          # [LReset (4 * Second) ''alice'']))"
  using failure_lock_engages_and_holds [of Minute 2 "''alice''" "[LFail Second ''alice'', LFail (2 * Second) ''bob'']"
      "3 * Second" "[LReset (4 * Second) ''alice'']" 0]
  by (simp add: Minute_def Second_def i64_def MinInt64_def MaxInt64_def)

end
