(* ===== verification/Store.thy ===== *)
theory Store
  imports Domain
begin

text \<open>
  The database of \<^verbatim>\<open>server/internal/store\<close>, as far as the ledger and the relay use it: the
  rows (user.go, apikey.go, ledger.go, redemption.go, usagelog.go, spend.go and the tables, checks and
  unique indexes of the migrations), the SQL transaction, and the queries of ledger.go, spend.go,
  redemption.go and pagination.go. The columns \<open>updated_at\<close>, which no operation reads, are left out.

  A statement is a state transformer that returns a value or an error. What the code cannot know is
  in the environment of a transaction: the clock, the calendar day of an instant in the server's
  zone, the hash of a secret, which statements the database refuses, and how its commit ends. A
  commit may be lost: the client sees an error though the database has kept the writes, the case
  the relay's comments name.
\<close>

section \<open>Rows\<close>

record user_row =
  username :: string
  u_email :: string
  u_role :: string
  u_status :: UserStatus
  credit_balance :: credits
  u_credit_used :: credits
  request_count :: int
  u_departmentID :: "row_id option"
  u_integrationID :: "row_id option"
  u_dailySpendLimit :: credits

record api_key_row =
  k_userID :: row_id
  k_name :: string
  k_keyHash :: string
  k_status :: KeyStatus
  credit_limit :: "credits option"
  k_credit_used :: credits
  k_dailySpendLimit :: credits
  k_projectID :: "row_id option"
  k_expiresAt :: "go_time option"
  k_lastUsedAt :: "go_time option"
  k_deletedAt :: "go_time option"

record ledger_entry =
  le_ID :: row_id
  le_userID :: row_id
  le_entryType :: LedgerEntryType
  le_amount :: credits
  le_balanceAfter :: credits
  le_refType :: string
  le_refID :: row_id
  le_requestID :: string
  le_note :: string
  le_operatorID :: row_id
  le_departmentID :: row_id
  le_integrationID :: row_id
  le_createdAt :: go_time

record redemption_row =
  r_batchID :: string
  r_codeHash :: string
  r_name :: string
  r_credits :: credits
  r_status :: RedemptionStatus
  r_usedByUserID :: "row_id option"
  r_redeemedAt :: "go_time option"
  r_expiresAt :: "go_time option"

record usage_log =
  ul_requestID :: string
  ul_userID :: row_id
  ul_apiKeyID :: row_id
  ul_departmentID :: row_id
  ul_projectID :: row_id
  ul_integrationID :: row_id
  ul_modelName :: string
  ul_upstreamModel :: string
  ul_channelID :: row_id
  ul_protocol :: string
  ul_isStream :: bool
  ul_promptTokens :: int
  ul_completionTokens :: int
  ul_cacheReadTokens :: int
  ul_cacheWriteTokens :: int
  ul_audioInputTokens :: int
  ul_audioOutputTokens :: int
  ul_callCount :: int
  ul_usageSemantic :: UsageSemantic
  ul_usageEstimated :: bool
  ul_peakMultiplierPercent :: int
  ul_creditsPrecharged :: credits
  ul_creditsCharged :: credits
  ul_creditsCost :: credits
  ul_status :: UsageStatus
  ul_errorClass :: ErrorClass
  ul_errorMessage :: string
  ul_latencyMS :: int
  ul_firstByteMS :: int
  ul_clientIP :: string
  ul_priceSnapshot :: string
  ul_createdAt :: go_time

definition zero_usage_log :: usage_log where
  "zero_usage_log = \<lparr>ul_requestID = [], ul_userID = 0, ul_apiKeyID = 0, ul_departmentID = 0,
     ul_projectID = 0, ul_integrationID = 0, ul_modelName = [], ul_upstreamModel = [],
     ul_channelID = 0, ul_protocol = [], ul_isStream = False, ul_promptTokens = 0,
     ul_completionTokens = 0, ul_cacheReadTokens = 0, ul_cacheWriteTokens = 0,
     ul_audioInputTokens = 0, ul_audioOutputTokens = 0, ul_callCount = 0,
     ul_usageSemantic = SemanticUnset, ul_usageEstimated = False, ul_peakMultiplierPercent = 0,
     ul_creditsPrecharged = 0, ul_creditsCharged = 0, ul_creditsCost = 0, ul_status = UsageSettled,
     ul_errorClass = ErrClassNone, ul_errorMessage = [], ul_latencyMS = 0, ul_firstByteMS = 0,
     ul_clientIP = [], ul_priceSnapshot = [], ul_createdAt = zero_time\<rparr>"

text \<open>
  The database. \<open>ledger_seq\<close> is the sequence behind \<open>credit_ledger.id\<close> and
  \<open>clamp_shortfall\<close> the process metric of obs/metrics\_record.go: neither is undone by a
  rollback. \<open>tx_aborted\<close> is the state PostgreSQL puts a transaction in once a statement of it
  has failed.
\<close>

record db =
  users :: "(row_id, user_row) tbl"
  api_keys :: "(row_id, api_key_row) tbl"
  ledger :: "ledger_entry list"
  daily_spend :: "(row_id \<times> int, credits) tbl"
  daily_spend_by_key :: "(row_id \<times> int, credits) tbl"
  redemptions :: "(row_id, redemption_row) tbl"
  usage_logs :: "(string, usage_log) tbl"
  ledger_seq :: row_id
  clamp_shortfall :: "credits list"
  tx_aborted :: bool

section \<open>Statements and transactions\<close>

datatype sql_stmt =
  SelectKeyForUpdate | UpdateKeyPrecharge | UpdateKeyDepleted | SelectUserForUpdate
| SelectDailySpend | SelectKeyDailySpend | UpdateUserBalance | UpsertDailySpend
| UpsertKeyDailySpend | UpdateKeySettle | InsertLedger | UpdateRedemption | SelectRedemption
| SelectOrphans | UpsertUsageLog | UpdateRequestCount | UpdateKeyLastUsed
| CountLedger | SelectLedgerGroups | SelectLedger | SelectMismatches | SelectKeyMismatches

datatype commit_outcome = Committed | CommitFailed | CommitLost

record env =
  now :: go_time
  day_of :: "go_time \<Rightarrow> int"
  hash_key :: "string \<Rightarrow> string"
  stmt_fails :: "sql_stmt \<Rightarrow> bool"
  commit_res :: commit_outcome

datatype error =
  ErrInsufficientCredits | ErrKeyDepleted | ErrDailyLimitExceeded | ErrKeyDailyLimitExceeded
| ErrDuplicateEntry | ErrNotFound | ErrRedemptionUnavailable | ErrRedemptionNotFound
| ErrRedemptionUsed | ErrRedemptionDisabled | ErrRedemptionExpired | ErrZeroAmount
| ErrNegativePrecharge | ErrSessionState | ErrDB sql_stmt | ErrCommit

type_synonym 'a sql = "db \<Rightarrow> (error + 'a) \<times> db"

definition sql_return :: "'a \<Rightarrow> 'a sql" where
  "sql_return x = (\<lambda>s. (Inr x, s))"

definition sql_fail :: "error \<Rightarrow> 'a sql" where
  "sql_fail e = (\<lambda>s. (Inl e, s))"

definition sql_bind :: "'a sql \<Rightarrow> ('a \<Rightarrow> 'b sql) \<Rightarrow> 'b sql" where
  "sql_bind m f = (\<lambda>s. case m s of (Inl e, s') \<Rightarrow> (Inl e, s') | (Inr x, s') \<Rightarrow> f x s')"

text \<open>A statement that the database refuses (a fault, a violated check, an overflow of a \<open>BIGINT\<close>).\<close>

definition stmt_error :: "sql_stmt \<Rightarrow> 'a sql" where
  "stmt_error st = (\<lambda>s. (Inl (ErrDB st), s\<lparr>tx_aborted := True\<rparr>))"

definition exec :: "env \<Rightarrow> sql_stmt \<Rightarrow> 'a sql \<Rightarrow> 'a sql" where
  "exec e st m = (if stmt_fails e st then stmt_error st else m)"

definition rollback :: "db \<Rightarrow> db \<Rightarrow> db" where
  "rollback before after = before\<lparr>ledger_seq := ledger_seq after, clamp_shortfall := clamp_shortfall after\<rparr>"

text \<open>
  \<^verbatim>\<open>gorm.DB.Transaction\<close>: an error of the body rolls back, and so does a commit of an aborted
  transaction, which PostgreSQL turns into a rollback and the driver reports.
\<close>

definition Transaction :: "env \<Rightarrow> 'a sql \<Rightarrow> 'a sql" where
  "Transaction e m s = (case m (s\<lparr>tx_aborted := False\<rparr>) of
       (Inl err, s') \<Rightarrow> (Inl err, rollback s s')
     | (Inr x, s') \<Rightarrow>
         (if tx_aborted s' \<or> commit_res e = CommitFailed then (Inl ErrCommit, rollback s s')
          else if commit_res e = CommitLost then (Inl ErrCommit, s'\<lparr>tx_aborted := tx_aborted s\<rparr>)
          else (Inr x, s'\<lparr>tx_aborted := tx_aborted s\<rparr>)))"

lemma sql_bind_Inr:
  "sql_bind m f s = (Inr y, s'') \<longleftrightarrow> (\<exists>x s'. m s = (Inr x, s') \<and> f x s' = (Inr y, s''))"
  by (auto simp: sql_bind_def split: prod.splits sum.splits)

lemma exec_Inr: "exec e st m s = (Inr y, s') \<longleftrightarrow> \<not> stmt_fails e st \<and> m s = (Inr y, s')"
  by (simp add: exec_def stmt_error_def)

lemma sql_return_Inr: "sql_return x s = (Inr y, s') \<longleftrightarrow> y = x \<and> s' = s"
  by (auto simp: sql_return_def)

lemma sql_fail_Inr: "sql_fail err s = (Inr y, s') \<longleftrightarrow> False"
  by (simp add: sql_fail_def)

lemma stmt_error_Inr: "stmt_error st s = (Inr y, s') \<longleftrightarrow> False"
  by (simp add: stmt_error_def)

lemmas sql_Inr = sql_bind_Inr exec_Inr sql_return_Inr sql_fail_Inr stmt_error_Inr

text \<open>
  Everything a rollback restores. Two states that agree on it differ only in the sequence, the
  metric and the transaction flag.
\<close>

definition same_data :: "db \<Rightarrow> db \<Rightarrow> bool" where
  "same_data a b \<longleftrightarrow> users a = users b \<and> api_keys a = api_keys b \<and> ledger a = ledger b
     \<and> daily_spend a = daily_spend b \<and> daily_spend_by_key a = daily_spend_by_key b
     \<and> redemptions a = redemptions b \<and> usage_logs a = usage_logs b"

lemma same_data_refl [simp]: "same_data a a"
  by (simp add: same_data_def)

lemma same_data_trans: "same_data a b \<Longrightarrow> same_data b c \<Longrightarrow> same_data a c"
  by (simp add: same_data_def)

lemma same_data_rollback [simp]: "same_data (rollback a b) a"
  by (simp add: same_data_def rollback_def)

lemma rollback_seq [simp]: "ledger_seq (rollback a b) = ledger_seq b"
  by (simp add: rollback_def)

lemma rollback_fields [simp]:
  "users (rollback a b) = users a" "api_keys (rollback a b) = api_keys a"
  "ledger (rollback a b) = ledger a" "daily_spend (rollback a b) = daily_spend a"
  "daily_spend_by_key (rollback a b) = daily_spend_by_key a"
  "redemptions (rollback a b) = redemptions a" "usage_logs (rollback a b) = usage_logs a"
  by (simp_all add: rollback_def)

text \<open>
  The three ways a transaction ends: committed with its value; an error, and nothing written; or an
  error though everything was written (the lost commit).
\<close>

lemma Transaction_cases:
  assumes "Transaction e m s = (r, s')"
  obtains (commit) x t where "r = Inr x" "m (s\<lparr>tx_aborted := False\<rparr>) = (Inr x, t)"
      "s' = t\<lparr>tx_aborted := tx_aborted s\<rparr>" "commit_res e = Committed"
  | (failed) err r' t where "r = Inl err" "m (s\<lparr>tx_aborted := False\<rparr>) = (r', t)" "s' = rollback s t"
      "r' = Inl err \<or> err = ErrCommit"
  | (lost) x t where "r = Inl ErrCommit" "m (s\<lparr>tx_aborted := False\<rparr>) = (Inr x, t)"
      "s' = t\<lparr>tx_aborted := tx_aborted s\<rparr>" "commit_res e = CommitLost"
proof -
  obtain r' t where m: "m (s\<lparr>tx_aborted := False\<rparr>) = (r', t)" by fastforce
  show thesis
  proof (cases r')
    case (Inl err)
    then show thesis using assms m failed [of err r' t] by (auto simp: Transaction_def)
  next
    case (Inr x)
    show thesis
    proof (cases "tx_aborted t \<or> commit_res e = CommitFailed")
      case True
      then show thesis using assms m Inr failed by (auto simp: Transaction_def)
    next
      case False
      then have "commit_res e = Committed \<or> commit_res e = CommitLost" using commit_outcome.exhaust by blast
      then show thesis using assms m Inr False commit lost by (auto simp: Transaction_def)
    qed
  qed
qed

end
