(* ===== verification/Billing.thy ===== *)
theory Billing
  imports Store
begin

text \<open>
  \<^verbatim>\<open>server/internal/billing/service.go\<close> and \<^verbatim>\<open>orphan.go\<close>: the atomic adjustment of a
  balance with its ledger entry, grants, redemptions, and the recovery of precharges that were never
  settled. The texts of errors and log lines are not modelled, the notes of the ledger are.
\<close>

section \<open>Adjustments (service.go)\<close>

record Adjustment =
  UserID :: row_id
  Amount :: credits
  EntryType :: LedgerEntryType
  RefType :: string
  RefID :: row_id
  RequestID :: string
  Note :: string
  OperatorID :: row_id
  AffectsUsed :: bool
  ClampToBalance :: bool
  DailyLimit :: credits
  KeyID :: row_id
  KeyDailyLimit :: credits
  KeyPrechargeMode :: bool

definition ProjectedDailySpendExceeds :: "credits \<Rightarrow> credits \<Rightarrow> credits \<Rightarrow> bool" where
  "ProjectedDailySpendExceeds spent delta limit =
     (if limit \<le> 0 then False else wrap64 (spent + delta) > limit)"

text \<open>The note of a clamped settlement, with its two Chinese fragments.\<close>

definition clamp_note :: "string \<Rightarrow> credits \<Rightarrow> string" where
  "clamp_note note shortfall = note
     @ utf8 [0xEF, 0xBC, 0x88, 0xE4, 0xBD, 0x99, 0xE9, 0xA2, 0x9D, 0xE4, 0xB8, 0x8D, 0xE8, 0xB6, 0xB3, 0xEF, 0xBC, 0x8C, 0xE6, 0xAC, 0xA0, 0xE6, 0x89, 0xA3, 0x20]
     @ show_int shortfall @ utf8 [0x20, 0xE7, 0xA7, 0xAF, 0xE5, 0x88, 0x86, 0xEF, 0xBC, 0x89]"

definition lock_key :: "env \<Rightarrow> Adjustment \<Rightarrow> unit sql" where
  "lock_key e adj = (if KeyID adj \<noteq> 0 then exec e SelectKeyForUpdate (sql_return ()) else sql_return ())"

definition mark_depleted :: "env \<Rightarrow> row_id \<Rightarrow> db \<Rightarrow> db" where
  "mark_depleted e keyID s =
     (if stmt_fails e UpdateKeyDepleted then s\<lparr>tx_aborted := True\<rparr>
      else s\<lparr>api_keys := tbl_upd (\<lambda>k. if k_status k = KeyEnabled \<and> credit_limit k \<noteq> None
               then k\<lparr>k_status := KeyDepleted\<rparr> else k) keyID (api_keys s)\<rparr>)"

definition applyKeyCredit :: "env \<Rightarrow> Adjustment \<Rightarrow> credits \<Rightarrow> unit sql" where
  "applyKeyCredit e adj amount =
     (if KeyID adj = 0 \<or> \<not> AffectsUsed adj then sql_return ()
      else if KeyPrechargeMode adj then
        exec e UpdateKeyPrecharge (\<lambda>s.
          let delta = wrap64 (- amount) in
          case tbl_get (api_keys s) (KeyID adj) of
            None \<Rightarrow> (Inl ErrKeyDepleted, mark_depleted e (KeyID adj) s)
          | Some k \<Rightarrow>
              if \<not> i64 (k_credit_used k + delta) then stmt_error UpdateKeyPrecharge s
              else if (case credit_limit k of None \<Rightarrow> True | Some limit \<Rightarrow> k_credit_used k + delta \<le> limit)
              then (Inr (), s\<lparr>api_keys := tbl_upd (\<lambda>k. k\<lparr>k_credit_used := k_credit_used k + delta\<rparr>)
                                (KeyID adj) (api_keys s)\<rparr>)
              else (Inl ErrKeyDepleted, mark_depleted e (KeyID adj) s))
      else if amount = 0 then sql_return ()
      else
        exec e UpdateKeySettle (\<lambda>s.
          case tbl_get (api_keys s) (KeyID adj) of
            None \<Rightarrow> (Inr (), s)
          | Some k \<Rightarrow>
              if \<not> i64 (k_credit_used k - amount) then stmt_error UpdateKeySettle s
              else (Inr (), s\<lparr>api_keys := tbl_upd
                      (\<lambda>k. k\<lparr>k_credit_used := max (k_credit_used k - amount) 0\<rparr>)
                      (KeyID adj) (api_keys s)\<rparr>)))"

definition select_user :: "env \<Rightarrow> row_id \<Rightarrow> user_row sql" where
  "select_user e uid = exec e SelectUserForUpdate (\<lambda>s.
     case tbl_get (users s) uid of None \<Rightarrow> (Inl ErrNotFound, s) | Some u \<Rightarrow> (Inr u, s))"

text \<open>A scan that finds no row leaves the Go struct at zero.\<close>

definition spend_of :: "(row_id \<times> int, credits) tbl \<Rightarrow> row_id \<Rightarrow> int \<Rightarrow> credits" where
  "spend_of t i day = (case tbl_get t (i, day) of None \<Rightarrow> 0 | Some c \<Rightarrow> c)"

definition validateDailyLimits :: "env \<Rightarrow> Adjustment \<Rightarrow> credits \<Rightarrow> int \<Rightarrow> unit sql" where
  "validateDailyLimits e adj amount day =
     (if \<not> AffectsUsed adj \<or> amount \<ge> 0 then sql_return ()
      else sql_bind
        (if DailyLimit adj > 0 then
           exec e SelectDailySpend (\<lambda>s.
             if ProjectedDailySpendExceeds (spend_of (daily_spend s) (UserID adj) day)
                  (wrap64 (- amount)) (DailyLimit adj)
             then (Inl ErrDailyLimitExceeded, s) else (Inr (), s))
         else sql_return ())
        (\<lambda>_. if KeyID adj \<noteq> 0 \<and> KeyDailyLimit adj > 0 then
           exec e SelectKeyDailySpend (\<lambda>s.
             if ProjectedDailySpendExceeds (spend_of (daily_spend_by_key s) (KeyID adj) day)
                  (wrap64 (- amount)) (KeyDailyLimit adj)
             then (Inl ErrKeyDailyLimitExceeded, s) else (Inr (), s))
         else sql_return ()))"

text \<open>The counters of the day; the insert is refused when the row it refers to is missing.\<close>

definition addDailySpend :: "env \<Rightarrow> row_id \<Rightarrow> int \<Rightarrow> credits \<Rightarrow> unit sql" where
  "addDailySpend e uid day delta =
     (if delta = 0 then sql_return ()
      else exec e UpsertDailySpend (\<lambda>s.
        if tbl_get (users s) uid = None \<or> \<not> i64 (spend_of (daily_spend s) uid day + delta)
        then stmt_error UpsertDailySpend s
        else (Inr (), s\<lparr>daily_spend := tbl_upsert delta (\<lambda>c. c + delta) (uid, day) (daily_spend s)\<rparr>)))"

definition addKeyDailySpend :: "env \<Rightarrow> row_id \<Rightarrow> int \<Rightarrow> credits \<Rightarrow> unit sql" where
  "addKeyDailySpend e keyID day delta =
     (if delta = 0 \<or> keyID = 0 then sql_return ()
      else exec e UpsertKeyDailySpend (\<lambda>s.
        if tbl_get (api_keys s) keyID = None \<or> \<not> i64 (spend_of (daily_spend_by_key s) keyID day + delta)
        then stmt_error UpsertKeyDailySpend s
        else (Inr (), s\<lparr>daily_spend_by_key :=
               tbl_upsert delta (\<lambda>c. c + delta) (keyID, day) (daily_spend_by_key s)\<rparr>)))"

definition update_user :: "env \<Rightarrow> Adjustment \<Rightarrow> credits \<Rightarrow> credits \<Rightarrow> credits \<Rightarrow> unit sql" where
  "update_user e adj newBalance oldUsed amount = exec e UpdateUserBalance (\<lambda>s.
     if newBalance < 0 then stmt_error UpdateUserBalance s
     else (Inr (), s\<lparr>users := tbl_upd (\<lambda>u.
       (if AffectsUsed adj then u\<lparr>u_credit_used := wrap64 (oldUsed - amount)\<rparr> else u)
         \<lparr>credit_balance := newBalance\<rparr>) (UserID adj) (users s)\<rparr>))"

definition add_spend :: "env \<Rightarrow> Adjustment \<Rightarrow> int \<Rightarrow> credits \<Rightarrow> unit sql" where
  "add_spend e adj day delta =
     (if AffectsUsed adj then
        sql_bind (addDailySpend e (UserID adj) day delta)
          (\<lambda>_. if KeyID adj \<noteq> 0 then addKeyDailySpend e (KeyID adj) day delta else sql_return ())
      else sql_return ())"

text \<open>The insert takes a number of the sequence before the unique index is checked.\<close>

definition has_entry :: "db \<Rightarrow> string \<Rightarrow> LedgerEntryType \<Rightarrow> bool" where
  "has_entry s rid t \<longleftrightarrow> (\<exists>x \<in> set (ledger s). le_requestID x = rid \<and> le_entryType x = t)"

definition new_entry ::
  "env \<Rightarrow> Adjustment \<Rightarrow> credits \<Rightarrow> credits \<Rightarrow> row_id \<Rightarrow> row_id \<Rightarrow> row_id \<Rightarrow> ledger_entry" where
  "new_entry e adj amount balance departmentID integrationID i =
     \<lparr>le_ID = i, le_userID = UserID adj, le_entryType = EntryType adj, le_amount = amount,
      le_balanceAfter = balance, le_refType = RefType adj, le_refID = RefID adj,
      le_requestID = RequestID adj, le_note = Note adj, le_operatorID = OperatorID adj,
      le_departmentID = departmentID, le_integrationID = integrationID, le_createdAt = now e\<rparr>"

definition writeLedgerEntry ::
  "env \<Rightarrow> Adjustment \<Rightarrow> credits \<Rightarrow> credits \<Rightarrow> row_id \<Rightarrow> row_id \<Rightarrow> ledger_entry sql" where
  "writeLedgerEntry e adj amount balance departmentID integrationID = exec e InsertLedger (\<lambda>s.
     let i = ledger_seq s + 1;
         entry = new_entry e adj amount balance departmentID integrationID i;
         s = s\<lparr>ledger_seq := i\<rparr>
     in if RequestID adj \<noteq> [] \<and> has_entry s (RequestID adj) (EntryType adj)
        then (Inl ErrDuplicateEntry, s\<lparr>tx_aborted := True\<rparr>)
        else (Inr entry, s\<lparr>ledger := ledger s @ [entry]\<rparr>))"

definition ptr_or_zero :: "row_id option \<Rightarrow> row_id" where
  "ptr_or_zero p = (case p of None \<Rightarrow> 0 | Some x \<Rightarrow> x)"

text \<open>
  The balance arithmetic in the middle of \<^verbatim>\<open>applyTx\<close>: the effective amount, the new balance
  and, when a settlement was clamped, the shortfall.
\<close>

definition clamp_amount ::
  "Adjustment \<Rightarrow> credits \<Rightarrow> error + (credits \<times> credits \<times> credits option)" where
  "clamp_amount adj balance =
     (let newBalance = wrap64 (balance + Amount adj)
      in if newBalance < 0 then
           if \<not> ClampToBalance adj then Inl ErrInsufficientCredits
           else Inr (wrap64 (- balance), 0, Some (wrap64 (- newBalance)))
         else Inr (Amount adj, newBalance, None))"

definition noted :: "Adjustment \<Rightarrow> credits option \<Rightarrow> Adjustment" where
  "noted adj shortfall = (case shortfall of None \<Rightarrow> adj | Some sf \<Rightarrow> adj\<lparr>Note := clamp_note (Note adj) sf\<rparr>)"

definition RecordClampShortfall :: "credits option \<Rightarrow> unit sql" where
  "RecordClampShortfall shortfall = (\<lambda>s. (Inr (), case shortfall of None \<Rightarrow> s
     | Some sf \<Rightarrow> s\<lparr>clamp_shortfall := clamp_shortfall s @ [sf]\<rparr>))"

definition applyTx :: "env \<Rightarrow> Adjustment \<Rightarrow> ledger_entry sql" where
  "applyTx e adj =
     sql_bind (lock_key e adj) (\<lambda>_.
     sql_bind (if KeyPrechargeMode adj then applyKeyCredit e adj (Amount adj) else sql_return ()) (\<lambda>_.
     sql_bind (select_user e (UserID adj)) (\<lambda>row.
     case clamp_amount adj (credit_balance row) of
       Inl err \<Rightarrow> sql_fail err
     | Inr (amount, newBalance, shortfall) \<Rightarrow>
         let adj = noted adj shortfall; day = day_of e (now e)
         in sql_bind (RecordClampShortfall shortfall) (\<lambda>_.
            sql_bind (validateDailyLimits e adj amount day) (\<lambda>_.
            sql_bind (update_user e adj newBalance (u_credit_used row) amount) (\<lambda>_.
            sql_bind (add_spend e adj day (wrap64 (- amount))) (\<lambda>_.
            sql_bind (if \<not> KeyPrechargeMode adj then applyKeyCredit e adj amount else sql_return ()) (\<lambda>_.
            writeLedgerEntry e adj amount newBalance
              (ptr_or_zero (u_departmentID row)) (ptr_or_zero (u_integrationID row))))))))))"

text \<open>An exhausted key commits, so that its mark persists, and its error goes to the caller.\<close>

definition Apply :: "env \<Rightarrow> Adjustment \<Rightarrow> ledger_entry sql" where
  "Apply e adj s =
     (case Transaction e (\<lambda>s. case applyTx e adj s of
              (Inl err, s') \<Rightarrow> if err = ErrKeyDepleted then (Inr (Inl err), s') else (Inl err, s')
            | (Inr entry, s') \<Rightarrow> (Inr (Inr entry), s')) s of
        (Inl err, s') \<Rightarrow> (Inl err, s')
      | (Inr r, s') \<Rightarrow> (r, s'))"

section \<open>Grants and redemptions (service.go)\<close>

definition AdminRequestIDPrefix :: string where "AdminRequestIDPrefix = ''admin:''"

definition AdminRequestID :: "string \<Rightarrow> string" where
  "AdminRequestID idempotencyKey = (if idempotencyKey = [] then [] else AdminRequestIDPrefix @ idempotencyKey)"

definition zero_adjustment :: Adjustment where
  "zero_adjustment = \<lparr>UserID = 0, Amount = 0, EntryType = LedgerGrant, RefType = [], RefID = 0,
     RequestID = [], Note = [], OperatorID = 0, AffectsUsed = False, ClampToBalance = False,
     DailyLimit = 0, KeyID = 0, KeyDailyLimit = 0, KeyPrechargeMode = False\<rparr>"

definition grant_adjustment :: "row_id \<Rightarrow> credits \<Rightarrow> row_id \<Rightarrow> string \<Rightarrow> string \<Rightarrow> Adjustment" where
  "grant_adjustment userID amount actorID note idempotencyKey = zero_adjustment
     \<lparr>UserID := userID, Amount := amount,
      EntryType := (if amount < 0 then LedgerRevoke else LedgerGrant),
      RefType := ''admin_user'', RefID := actorID, OperatorID := actorID,
      RequestID := AdminRequestID idempotencyKey, Note := note\<rparr>"

definition Grant :: "env \<Rightarrow> row_id \<Rightarrow> credits \<Rightarrow> row_id \<Rightarrow> string \<Rightarrow> string \<Rightarrow> ledger_entry sql" where
  "Grant e userID amount actorID note idempotencyKey =
     (if amount = 0 then sql_fail ErrZeroAmount
      else Apply e (grant_adjustment userID amount actorID note idempotencyKey))"

definition by_code :: "string \<Rightarrow> (row_id, redemption_row) tbl \<Rightarrow> (row_id \<times> redemption_row) option" where
  "by_code h t = List.find (\<lambda>(i, r). r_codeHash r = h) t"

definition redeemable :: "go_time \<Rightarrow> redemption_row \<Rightarrow> bool" where
  "redeemable t r \<longleftrightarrow> r_status r = RedemptionUnused
     \<and> (case r_expiresAt r of None \<Rightarrow> True | Some x \<Rightarrow> x > t)"

definition redemptionUnavailableReason :: "env \<Rightarrow> string \<Rightarrow> 'a sql" where
  "redemptionUnavailableReason e codeHash = exec e SelectRedemption (\<lambda>s.
     case by_code codeHash (redemptions s) of
       None \<Rightarrow> (Inl ErrRedemptionNotFound, s)
     | Some (i, r) \<Rightarrow>
         (case EffectiveRedemptionStatus (r_status r) (r_expiresAt r) (now e) of
            RedemptionUsed \<Rightarrow> (Inl ErrRedemptionUsed, s)
          | RedemptionDisabled \<Rightarrow> (Inl ErrRedemptionDisabled, s)
          | RedemptionExpired \<Rightarrow> (Inl ErrRedemptionExpired, s)
          | RedemptionUnused \<Rightarrow> (Inl ErrRedemptionUnavailable, s)))"

definition redeem_adjustment :: "row_id \<Rightarrow> row_id \<Rightarrow> redemption_row \<Rightarrow> Adjustment" where
  "redeem_adjustment userID i r = zero_adjustment
     \<lparr>UserID := userID, Amount := r_credits r, EntryType := LedgerRedeem,
      RefType := ''redemption'', RefID := i, Note := r_name r\<rparr>"

definition use_code :: "env \<Rightarrow> row_id \<Rightarrow> row_id \<Rightarrow> db \<Rightarrow> db" where
  "use_code e userID i s = s\<lparr>redemptions := tbl_upd (\<lambda>r. r\<lparr>r_status := RedemptionUsed,
     r_usedByUserID := Some userID, r_redeemedAt := Some (now e)\<rparr>) i (redemptions s)\<rparr>"

text \<open>The body of the transaction: one conditional update that marks the code, then the booking.\<close>

definition redeem_body :: "env \<Rightarrow> row_id \<Rightarrow> string \<Rightarrow> ledger_entry sql" where
  "redeem_body e userID codeHash = exec e UpdateRedemption (\<lambda>s.
     case by_code codeHash (redemptions s) of
       Some (i, r) \<Rightarrow> if redeemable (now e) r then applyTx e (redeem_adjustment userID i r) (use_code e userID i s)
                     else redemptionUnavailableReason e codeHash s
     | None \<Rightarrow> redemptionUnavailableReason e codeHash s)"

definition Redeem :: "env \<Rightarrow> row_id \<Rightarrow> string \<Rightarrow> ledger_entry sql" where
  "Redeem e userID codePlain = Transaction e (redeem_body e userID (hash_key e codePlain))"

section \<open>Orphan precharges (orphan.go)\<close>

definition DefaultOrphanPrechargeThreshold :: go_duration where
  "DefaultOrphanPrechargeThreshold = 15 * Minute"

definition orphanPrechargeNote :: string where
  "orphanPrechargeNote = utf8 [0xE5, 0xAD, 0xA4, 0xE5, 0x84, 0xBF, 0xE9, 0xA2, 0x84, 0xE6, 0x89, 0xA3, 0xE6, 0xB8, 0x85, 0xE7, 0x90, 0x86, 0xE9, 0x80, 0x80, 0xE6, 0xAC, 0xBE, 0xEF, 0xBC, 0x88, 0xE6, 0x9C, 0x8D, 0xE5, 0x8A, 0xA1, 0xE4, 0xB8, 0xAD, 0xE6, 0x96, 0xAD, 0xE6, 0x9C, 0xAA, 0xE7, 0xBB, 0x93, 0xE7, 0xAE, 0x97, 0xEF, 0xBC, 0x89]"

record OrphanPrecharge =
  op_userID :: row_id
  op_requestID :: string
  op_amount :: credits
  op_apiKeyID :: row_id
  op_createdAt :: go_time

record OrphanCleanupResult =
  Scanned :: int
  Refunded :: int
  AlreadyHandled :: int
  RefundedCredits :: credits

definition finalised :: "ledger_entry list \<Rightarrow> string \<Rightarrow> bool" where
  "finalised es rid \<longleftrightarrow> (\<exists>x \<in> set es. le_requestID x = rid
     \<and> (le_entryType x = LedgerRefund \<or> le_entryType x = LedgerSettleAdjust))"

definition is_orphan :: "ledger_entry list \<Rightarrow> go_time \<Rightarrow> ledger_entry \<Rightarrow> bool" where
  "is_orphan es cutoff c \<longleftrightarrow> le_entryType c = LedgerConsume \<and> le_requestID c \<noteq> []
     \<and> le_createdAt c < cutoff \<and> \<not> finalised es (le_requestID c)"

definition orphan_of :: "ledger_entry \<Rightarrow> OrphanPrecharge" where
  "orphan_of c = \<lparr>op_userID = le_userID c, op_requestID = le_requestID c, op_amount = - le_amount c,
     op_apiKeyID = le_refID c, op_createdAt = le_createdAt c\<rparr>"

definition ScanOrphanPrecharges :: "env \<Rightarrow> go_duration \<Rightarrow> OrphanPrecharge list sql" where
  "ScanOrphanPrecharges e olderThan = exec e SelectOrphans (\<lambda>s.
     let cutoff = now e + wrap64 (- olderThan)
     in (Inr (map orphan_of (filter (is_orphan (ledger s) cutoff) (ledger s))), s))"

definition refund_adjustment :: "OrphanPrecharge \<Rightarrow> Adjustment" where
  "refund_adjustment p = zero_adjustment
     \<lparr>UserID := op_userID p, Amount := op_amount p, EntryType := LedgerRefund,
      RefType := ''api_key'', RefID := op_apiKeyID p, RequestID := op_requestID p,
      AffectsUsed := True, Note := orphanPrechargeNote, KeyID := op_apiKeyID p\<rparr>"

definition orphan_trace :: "OrphanPrecharge \<Rightarrow> usage_log" where
  "orphan_trace p = zero_usage_log\<lparr>ul_requestID := op_requestID p, ul_userID := op_userID p,
     ul_apiKeyID := op_apiKeyID p, ul_status := UsageRefunded, ul_creditsPrecharged := op_amount p,
     ul_errorMessage := orphanPrechargeNote, ul_createdAt := op_createdAt p\<rparr>"

definition write_orphan_trace :: "env \<Rightarrow> OrphanPrecharge \<Rightarrow> db \<Rightarrow> db" where
  "write_orphan_trace e p s =
     (if stmt_fails e UpsertUsageLog then s
      else s\<lparr>usage_logs := tbl_upsert (orphan_trace p)
               (\<lambda>l. l\<lparr>ul_status := UsageRefunded, ul_creditsCharged := 0,
                      ul_errorMessage := orphanPrechargeNote\<rparr>)
               (op_requestID p) (usage_logs s)\<rparr>)"

definition refundOrphan :: "env \<Rightarrow> OrphanPrecharge \<Rightarrow> unit sql" where
  "refundOrphan e p s =
     (if op_amount p < 0 then (Inl ErrNegativePrecharge, s)
      else case Apply e (refund_adjustment p) s of
        (Inl err, s') \<Rightarrow> (Inl err, s')
      | (Inr entry, s') \<Rightarrow> (Inr (), write_orphan_trace e p s'))"

text \<open>The loop over the orphans found: each has the environment of its own transaction.\<close>

fun refund_all :: "(nat \<Rightarrow> env) \<Rightarrow> OrphanPrecharge list \<Rightarrow> OrphanCleanupResult \<Rightarrow> db
    \<Rightarrow> (error option \<times> OrphanCleanupResult) \<times> db" where
  "refund_all es [] res s = ((None, res), s)"
| "refund_all es (p # ps) res s =
     (case refundOrphan (es 0) p s of
        (Inl err, s') \<Rightarrow>
          if err = ErrDuplicateEntry
          then refund_all (\<lambda>n. es (Suc n)) ps (res\<lparr>AlreadyHandled := AlreadyHandled res + 1\<rparr>) s'
          else ((Some err, res), s')
      | (Inr _, s') \<Rightarrow> refund_all (\<lambda>n. es (Suc n)) ps
          (res\<lparr>Refunded := Refunded res + 1,
               RefundedCredits := wrap64 (RefundedCredits res + op_amount p)\<rparr>) s')"

definition CleanupOrphanPrecharges :: "env \<Rightarrow> (nat \<Rightarrow> env) \<Rightarrow> go_duration \<Rightarrow> db
    \<Rightarrow> (error option \<times> OrphanCleanupResult) \<times> db" where
  "CleanupOrphanPrecharges e es olderThan s =
     (let zero = \<lparr>Scanned = 0, Refunded = 0, AlreadyHandled = 0, RefundedCredits = 0\<rparr> in
      case ScanOrphanPrecharges e olderThan s of
        (Inl err, s') \<Rightarrow> ((Some err, zero), s')
      | (Inr orphans, s') \<Rightarrow> refund_all es orphans (zero\<lparr>Scanned := int (length orphans)\<rparr>) s')"

end
