(* ===== verification/BillingInv.thy ===== *)
theory BillingInv
  imports Billing
begin

text \<open>
  What the adjustments of Billing.thy guarantee: the effect of a successful adjustment, the books
  (every balance is the sum of its ledger entries), and what a failed one leaves behind.
\<close>

section \<open>The steps of an adjustment, when they succeed\<close>

lemma lock_key_Inr: "lock_key e adj s = (Inr x, s') \<Longrightarrow> s' = s"
  by (auto simp: lock_key_def sql_Inr split: if_splits)

lemma select_user_Inr: "select_user e uid s = (Inr u, s') \<Longrightarrow> s' = s \<and> tbl_get (users s) uid = Some u"
  by (auto simp: select_user_def sql_Inr split: option.splits)

text \<open>What a key's counter becomes: bounded by its limit when it is precharged.\<close>

definition key_after :: "Adjustment \<Rightarrow> credits \<Rightarrow> db \<Rightarrow> (row_id, api_key_row) tbl" where
  "key_after adj amount s =
     (if KeyID adj = 0 \<or> \<not> AffectsUsed adj then api_keys s
      else tbl_upd (\<lambda>k. k\<lparr>k_credit_used := (if KeyPrechargeMode adj
                then k_credit_used k + wrap64 (- amount)
                else if amount = 0 then k_credit_used k else max (k_credit_used k - amount) 0)\<rparr>)
             (KeyID adj) (api_keys s))"

lemma tbl_upd_id: "(\<And>v. tbl_get t k = Some v \<Longrightarrow> f v = v) \<Longrightarrow> tbl_upd f k t = t"
  by (induction t rule: tbl_upd.induct [of _ f k]) (auto simp: tbl_get_def)

lemma applyKeyCredit_Inr:
  assumes "applyKeyCredit e adj amount s = (Inr x, s')"
  shows "s' = s\<lparr>api_keys := key_after adj amount s\<rparr>"
    and "\<lbrakk>KeyPrechargeMode adj; KeyID adj \<noteq> 0; AffectsUsed adj\<rbrakk> \<Longrightarrow>
      \<exists>k. tbl_get (api_keys s) (KeyID adj) = Some k
        \<and> (case credit_limit k of None \<Rightarrow> True | Some l \<Rightarrow> k_credit_used k + wrap64 (- amount) \<le> l)"
proof -
  have n: "tbl_get t k = None \<Longrightarrow> tbl_upd f k t = t" for f k and t :: "(row_id, api_key_row) tbl"
    by (rule tbl_upd_id) simp
  show "s' = s\<lparr>api_keys := key_after adj amount s\<rparr>"
  proof (cases "KeyID adj = 0 \<or> \<not> AffectsUsed adj")
    case True
    then show ?thesis using assms by (auto simp: applyKeyCredit_def key_after_def sql_Inr)
  next
    case False
    then show ?thesis using assms n [of "api_keys s" "KeyID adj"]
      by (cases "KeyPrechargeMode adj"; cases "amount = 0")
        (auto simp: applyKeyCredit_def key_after_def sql_Inr Let_def tbl_upd_id
          split: option.splits if_splits)
  qed
  show "\<lbrakk>KeyPrechargeMode adj; KeyID adj \<noteq> 0; AffectsUsed adj\<rbrakk> \<Longrightarrow>
      \<exists>k. tbl_get (api_keys s) (KeyID adj) = Some k
        \<and> (case credit_limit k of None \<Rightarrow> True | Some l \<Rightarrow> k_credit_used k + wrap64 (- amount) \<le> l)"
    using assms by (auto simp: applyKeyCredit_def sql_Inr Let_def split: option.splits if_splits)
qed

definition within_limit :: "(row_id \<times> int, credits) tbl \<Rightarrow> row_id \<Rightarrow> int \<Rightarrow> credits \<Rightarrow> credits \<Rightarrow> bool" where
  "within_limit t i day delta limit \<longleftrightarrow> 0 < limit \<longrightarrow> wrap64 (spend_of t i day + delta) \<le> limit"

lemma validate_Inr:
  assumes "validateDailyLimits e adj amount day s = (Inr x, s')"
  shows "s' = s"
    and "AffectsUsed adj \<Longrightarrow> amount < 0 \<Longrightarrow>
      within_limit (daily_spend s) (UserID adj) day (wrap64 (- amount)) (DailyLimit adj)"
    and "AffectsUsed adj \<Longrightarrow> amount < 0 \<Longrightarrow> KeyID adj \<noteq> 0 \<Longrightarrow>
      within_limit (daily_spend_by_key s) (KeyID adj) day (wrap64 (- amount)) (KeyDailyLimit adj)"
  using assms
  by (auto simp: validateDailyLimits_def sql_Inr within_limit_def ProjectedDailySpendExceeds_def
      split: if_splits)

definition spend_after :: "bool \<Rightarrow> (row_id \<times> int, credits) tbl \<Rightarrow> row_id \<Rightarrow> int \<Rightarrow> credits
    \<Rightarrow> (row_id \<times> int, credits) tbl" where
  "spend_after on t i day delta = (if on \<and> delta \<noteq> 0 then tbl_upsert delta (\<lambda>c. c + delta) (i, day) t else t)"

lemma add_spend_Inr:
  assumes "add_spend e adj day delta s = (Inr x, s')"
  shows "s' = s\<lparr>daily_spend := spend_after (AffectsUsed adj) (daily_spend s) (UserID adj) day delta,
     daily_spend_by_key := spend_after (AffectsUsed adj \<and> KeyID adj \<noteq> 0) (daily_spend_by_key s)
       (KeyID adj) day delta\<rparr>"
  using assms
  by (auto simp: add_spend_def addDailySpend_def addKeyDailySpend_def spend_after_def sql_Inr
      split: if_splits)

lemma add_spend_range:
  assumes "add_spend e adj day delta s = (Inr x, s')" "AffectsUsed adj" "delta \<noteq> 0"
  shows "i64 (spend_of (daily_spend s) (UserID adj) day + delta)"
    and "KeyID adj \<noteq> 0 \<Longrightarrow> i64 (spend_of (daily_spend_by_key s) (KeyID adj) day + delta)"
  using assms
  by (auto simp: add_spend_def addDailySpend_def addKeyDailySpend_def spend_of_def sql_Inr
      split: if_splits)

lemma update_user_Inr:
  assumes "update_user e adj bal used amount s = (Inr x, s')"
  shows "0 \<le> bal \<and> s' = s\<lparr>users := tbl_upd (\<lambda>u.
       (if AffectsUsed adj then u\<lparr>u_credit_used := wrap64 (used - amount)\<rparr> else u)
         \<lparr>credit_balance := bal\<rparr>) (UserID adj) (users s)\<rparr>"
  using assms by (auto simp: update_user_def sql_Inr split: if_splits)

lemma writeLedgerEntry_Inr:
  assumes "writeLedgerEntry e adj amount bal dep int_id s = (Inr entry, s')"
  shows "entry = new_entry e adj amount bal dep int_id (ledger_seq s + 1)
    \<and> s' = s\<lparr>ledger_seq := ledger_seq s + 1, ledger := ledger s @ [entry]\<rparr>
    \<and> (RequestID adj \<noteq> [] \<longrightarrow> \<not> has_entry s (RequestID adj) (EntryType adj))"
  using assms by (auto simp: writeLedgerEntry_def sql_Inr Let_def has_entry_def split: if_splits)

lemma noted_fields [simp]:
  "UserID (noted adj sf) = UserID adj" "EntryType (noted adj sf) = EntryType adj"
  "RefType (noted adj sf) = RefType adj" "RefID (noted adj sf) = RefID adj"
  "RequestID (noted adj sf) = RequestID adj" "OperatorID (noted adj sf) = OperatorID adj"
  "AffectsUsed (noted adj sf) = AffectsUsed adj" "DailyLimit (noted adj sf) = DailyLimit adj"
  "KeyID (noted adj sf) = KeyID adj" "KeyDailyLimit (noted adj sf) = KeyDailyLimit adj"
  "KeyPrechargeMode (noted adj sf) = KeyPrechargeMode adj"
  by (simp_all add: noted_def split: option.split)

text \<open>
  The whole effect of a successful adjustment, given the row \<open>u\<close> it found, the effective amount, the
  new balance and the shortfall.
\<close>

definition adjusted ::
  "env \<Rightarrow> Adjustment \<Rightarrow> user_row \<Rightarrow> credits \<Rightarrow> credits \<Rightarrow> credits option \<Rightarrow> ledger_entry \<Rightarrow> db \<Rightarrow> db \<Rightarrow> bool" where
  "adjusted e adj u amount bal sf entry s s' \<longleftrightarrow>
     entry = new_entry e (noted adj sf) amount bal (ptr_or_zero (u_departmentID u))
               (ptr_or_zero (u_integrationID u)) (ledger_seq s + 1)
   \<and> users s' = tbl_upd (\<lambda>u'. (if AffectsUsed adj then u'\<lparr>u_credit_used := wrap64 (u_credit_used u - amount)\<rparr>
                  else u')\<lparr>credit_balance := bal\<rparr>) (UserID adj) (users s)
   \<and> api_keys s' = key_after adj (if KeyPrechargeMode adj then Amount adj else amount) s
   \<and> ledger s' = ledger s @ [entry]
   \<and> daily_spend s' = spend_after (AffectsUsed adj) (daily_spend s) (UserID adj) (day_of e (now e)) (wrap64 (- amount))
   \<and> daily_spend_by_key s' = spend_after (AffectsUsed adj \<and> KeyID adj \<noteq> 0) (daily_spend_by_key s)
        (KeyID adj) (day_of e (now e)) (wrap64 (- amount))
   \<and> redemptions s' = redemptions s \<and> usage_logs s' = usage_logs s
   \<and> ledger_seq s' = ledger_seq s + 1"

lemma applyTx_Inr:
  assumes "applyTx e adj s = (Inr entry, s')"
  obtains u amount bal sf where
    "tbl_get (users s) (UserID adj) = Some u"
    "clamp_amount adj (credit_balance u) = Inr (amount, bal, sf)" "0 \<le> bal"
    "adjusted e adj u amount bal sf entry s s'"
    "RequestID adj \<noteq> [] \<longrightarrow> \<not> has_entry s (RequestID adj) (EntryType adj)"
    "AffectsUsed adj \<Longrightarrow> amount < 0 \<Longrightarrow> 0 < DailyLimit adj \<Longrightarrow> wrap64 (- amount) \<noteq> 0 \<Longrightarrow>
       spend_of (daily_spend s) (UserID adj) (day_of e (now e)) + wrap64 (- amount) \<le> DailyLimit adj"
    "AffectsUsed adj \<Longrightarrow> amount < 0 \<Longrightarrow> KeyID adj \<noteq> 0 \<Longrightarrow> 0 < KeyDailyLimit adj \<Longrightarrow> wrap64 (- amount) \<noteq> 0 \<Longrightarrow>
       spend_of (daily_spend_by_key s) (KeyID adj) (day_of e (now e)) + wrap64 (- amount) \<le> KeyDailyLimit adj"
    "\<lbrakk>KeyPrechargeMode adj; KeyID adj \<noteq> 0; AffectsUsed adj\<rbrakk> \<Longrightarrow>
      \<exists>k. tbl_get (api_keys s) (KeyID adj) = Some k
        \<and> (case credit_limit k of None \<Rightarrow> True | Some l \<Rightarrow> k_credit_used k + wrap64 (- Amount adj) \<le> l)"
proof -
  from assms obtain x1 s1 x2 s2 u s3 where
      l: "lock_key e adj s = (Inr x1, s1)"
    and k1: "(if KeyPrechargeMode adj then applyKeyCredit e adj (Amount adj) else sql_return ()) s1 = (Inr x2, s2)"
    and su: "select_user e (UserID adj) s2 = (Inr u, s3)"
    and rest: "(case clamp_amount adj (credit_balance u) of Inl err \<Rightarrow> sql_fail err
     | Inr (amount, newBalance, shortfall) \<Rightarrow>
         let adj = noted adj shortfall; day = day_of e (now e)
         in sql_bind (RecordClampShortfall shortfall) (\<lambda>_.
            sql_bind (validateDailyLimits e adj amount day) (\<lambda>_.
            sql_bind (update_user e adj newBalance (u_credit_used u) amount) (\<lambda>_.
            sql_bind (add_spend e adj day (wrap64 (- amount))) (\<lambda>_.
            sql_bind (if \<not> KeyPrechargeMode adj then applyKeyCredit e adj amount else sql_return ()) (\<lambda>_.
            writeLedgerEntry e adj amount newBalance
              (ptr_or_zero (u_departmentID u)) (ptr_or_zero (u_integrationID u)))))))) s3 = (Inr entry, s')"
    unfolding applyTx_def sql_bind_Inr by blast
  from rest obtain amount bal sf where c: "clamp_amount adj (credit_balance u) = Inr (amount, bal, sf)"
    by (auto simp: sql_Inr split: sum.splits)
  let ?a = "noted adj sf" and ?d = "day_of e (now e)"
  from rest c obtain y0 s4 y1 t1 y2 t2 y3 t3 y4 t4 where
      rc: "RecordClampShortfall sf s3 = (Inr y0, s4)"
    and v: "validateDailyLimits e ?a amount ?d s4 = (Inr y1, t1)"
    and uu: "update_user e ?a bal (u_credit_used u) amount t1 = (Inr y2, t2)"
    and sp: "add_spend e ?a ?d (wrap64 (- amount)) t2 = (Inr y3, t3)"
    and k2: "(if \<not> KeyPrechargeMode ?a then applyKeyCredit e ?a amount else sql_return ()) t3 = (Inr y4, t4)"
    and w: "writeLedgerEntry e ?a amount bal (ptr_or_zero (u_departmentID u))
        (ptr_or_zero (u_integrationID u)) t4 = (Inr entry, s')"
    unfolding Let_def sql_bind_Inr by (simp del: noted_fields add: Let_def sql_bind_Inr) blast
  have s1: "s1 = s" by (rule lock_key_Inr [OF l])
  have s2: "s2 = (if KeyPrechargeMode adj then s\<lparr>api_keys := key_after adj (Amount adj) s\<rparr> else s)"
    using k1 applyKeyCredit_Inr(1) s1 by (auto simp: sql_Inr split: if_splits)
  have s3: "s3 = s2" and us: "tbl_get (users s) (UserID adj) = Some u"
    using select_user_Inr [OF su] s2 by (auto split: if_splits)
  have t1: "t1 = s4" by (rule validate_Inr(1) [OF v])
  have t4: "t4 = (if KeyPrechargeMode adj then t3 else t3\<lparr>api_keys := key_after ?a amount t3\<rparr>)"
    using k2 applyKeyCredit_Inr(1) by (auto simp: sql_Inr split: if_splits)
  note t2 = update_user_Inr [OF uu] and t3 = add_spend_Inr [OF sp] and s' = writeLedgerEntry_Inr [OF w]
  have s4: "users s4 = users s" "api_keys s4 = (if KeyPrechargeMode adj then key_after adj (Amount adj) s else api_keys s)"
    "ledger s4 = ledger s" "daily_spend s4 = daily_spend s" "daily_spend_by_key s4 = daily_spend_by_key s"
    "redemptions s4 = redemptions s" "usage_logs s4 = usage_logs s" "ledger_seq s4 = ledger_seq s"
    using s2 s3 rc by (auto simp: RecordClampShortfall_def split: option.splits)
  have ad: "adjusted e adj u amount bal sf entry s s'"
    unfolding adjusted_def using s' t4 t3 t2 t1 s4 by (simp add: key_after_def)
  have he: "RequestID adj \<noteq> [] \<longrightarrow> \<not> has_entry s (RequestID adj) (EntryType adj)"
    using s' t4 t3 t2 t1 s4 by (simp add: has_entry_def)
  have spend: "spend_of (daily_spend s) (UserID adj) ?d + wrap64 (- amount) \<le> DailyLimit adj"
    if "AffectsUsed adj" "amount < 0" "0 < DailyLimit adj" "wrap64 (- amount) \<noteq> 0"
    using validate_Inr(2) [OF v] add_spend_range(1) [OF sp] that t2 t1 s4
    by (simp add: within_limit_def wrap64_id)
  have kspend: "spend_of (daily_spend_by_key s) (KeyID adj) ?d + wrap64 (- amount) \<le> KeyDailyLimit adj"
    if "AffectsUsed adj" "amount < 0" "KeyID adj \<noteq> 0" "0 < KeyDailyLimit adj" "wrap64 (- amount) \<noteq> 0"
    using validate_Inr(3) [OF v] add_spend_range(2) [OF sp] that t2 t1 s4
    by (simp add: within_limit_def wrap64_id)
  show thesis
    by (rule that [OF us c _ ad he]) (use t2 spend kspend k1 s1 applyKeyCredit_Inr(2) in auto)
qed

section \<open>The books\<close>

definition user_entries :: "row_id \<Rightarrow> ledger_entry \<Rightarrow> bool" where
  "user_entries uid x \<longleftrightarrow> le_userID x = uid"

definition call_type :: "LedgerEntryType \<Rightarrow> bool" where
  "call_type t \<longleftrightarrow> t = LedgerConsume \<or> t = LedgerSettleAdjust \<or> t = LedgerRefund"

definition call_entries :: "row_id \<Rightarrow> ledger_entry \<Rightarrow> bool" where
  "call_entries uid x \<longleftrightarrow> le_userID x = uid \<and> call_type (le_entryType x)"

text \<open>
  Every balance is exactly the sum of its user's entries, as unbounded integers, never negative and
  in range; \<open>credit_used\<close> is the negated sum of the call entries, as far as 64 bits keep it.
\<close>

definition balanced :: "db \<Rightarrow> bool" where
  "balanced s \<longleftrightarrow> (\<forall>uid u. tbl_get (users s) uid = Some u \<longrightarrow>
     credit_balance u = sum_where (user_entries uid) le_amount (ledger s)
     \<and> 0 \<le> credit_balance u \<and> i64 (credit_balance u)
     \<and> u_credit_used u = wrap64 (- sum_where (call_entries uid) le_amount (ledger s)))"

lemma balancedD:
  assumes "balanced s" "tbl_get (users s) uid = Some u"
  shows "credit_balance u = sum_where (user_entries uid) le_amount (ledger s)"
    "0 \<le> credit_balance u" "i64 (credit_balance u)"
    "u_credit_used u = wrap64 (- sum_where (call_entries uid) le_amount (ledger s))"
  using assms unfolding balanced_def by blast+

text \<open>The ledger is numbered upwards, its entries name users that exist, and a request has one entry of a type.\<close>

definition ledger_ok :: "db \<Rightarrow> bool" where
  "ledger_ok s \<longleftrightarrow> sorted_wrt (\<lambda>x y. le_ID x < le_ID y) (ledger s)
     \<and> (\<forall>x \<in> set (ledger s). le_ID x \<le> ledger_seq s \<and> tbl_get (users s) (le_userID x) \<noteq> None)
     \<and> (\<forall>x \<in> set (ledger s). \<forall>y \<in> set (ledger s). le_requestID x \<noteq> [] \<longrightarrow>
          le_requestID x = le_requestID y \<longrightarrow> le_entryType x = le_entryType y \<longrightarrow> x = y)"

text \<open>An entry records the balance its user had after it.\<close>

definition running_ok :: "db \<Rightarrow> bool" where
  "running_ok s \<longleftrightarrow> (\<forall>i < length (ledger s). le_balanceAfter (ledger s ! i)
     = sum_where (user_entries (le_userID (ledger s ! i))) le_amount (take (Suc i) (ledger s)))"

definition books :: "db \<Rightarrow> bool" where
  "books s \<longleftrightarrow> balanced s \<and> ledger_ok s \<and> running_ok s"

text \<open>What the callers guarantee of an adjustment.\<close>

definition sound_adj :: "Adjustment \<Rightarrow> bool" where
  "sound_adj adj \<longleftrightarrow> i64 (Amount adj) \<and> AffectsUsed adj = call_type (EntryType adj)"

lemma i64_uminus: "0 \<le> b \<Longrightarrow> i64 b \<Longrightarrow> i64 (- b)"
  by (simp add: i64_def MinInt64_def MaxInt64_def)

text \<open>
  The sign test after the 64-bit addition sees an overflow as well as an overdraft, so the accepted
  balance is the exact sum.
\<close>

lemma clamp_amount_exact:
  assumes "clamp_amount adj b = Inr (amount, bal, sf)" "0 \<le> b" "i64 b" "i64 (Amount adj)"
  shows "bal = b + amount \<and> 0 \<le> bal \<and> i64 bal \<and> i64 amount"
proof (cases "wrap64 (b + Amount adj) < 0")
  case True
  then have "amount = wrap64 (- b)" "bal = 0"
    using assms(1) by (auto simp: clamp_amount_def Let_def split: if_splits)
  then show ?thesis using assms(2,3) i64_uminus
    by (simp add: wrap64_id) (simp add: i64_def MinInt64_def MaxInt64_def)
next
  case False
  then have "amount = Amount adj" "bal = wrap64 (b + Amount adj)"
    using assms(1) by (auto simp: clamp_amount_def Let_def)
  moreover from False have "wrap64 (b + Amount adj) = b + Amount adj"
    by (intro wrap64_add_nonneg assms(2-4)) simp
  ultimately show ?thesis using False assms(4) wrap64_in_range [of "b + Amount adj"] by simp
qed

lemma new_entry_fields [simp]:
  "le_userID (new_entry e adj a b d i n) = UserID adj" "le_amount (new_entry e adj a b d i n) = a"
  "le_entryType (new_entry e adj a b d i n) = EntryType adj" "le_ID (new_entry e adj a b d i n) = n"
  "le_requestID (new_entry e adj a b d i n) = RequestID adj" "le_balanceAfter (new_entry e adj a b d i n) = b"
  "le_refType (new_entry e adj a b d i n) = RefType adj" "le_refID (new_entry e adj a b d i n) = RefID adj"
  "le_createdAt (new_entry e adj a b d i n) = now e"
  by (simp_all add: new_entry_def)

lemma wrap64_sub_left: "wrap64 (wrap64 a - b) = wrap64 (a - b)"
  using wrap64_add_left [of a "- b"] by simp

lemma adjusted_user:
  assumes "adjusted e adj u amount bal sf entry s s'" "tbl_get (users s) (UserID adj) = Some u"
  shows "tbl_get (users s') uid = (if uid = UserID adj then
     Some ((if AffectsUsed adj then u\<lparr>u_credit_used := wrap64 (u_credit_used u - amount)\<rparr> else u)
             \<lparr>credit_balance := bal\<rparr>) else tbl_get (users s) uid)"
  using assms by (simp add: adjusted_def tbl_get_upd)

lemma balanced_adjusted:
  assumes ad: "adjusted e adj u amount bal sf entry s s'" and u: "tbl_get (users s) (UserID adj) = Some u"
    and c: "clamp_amount adj (credit_balance u) = Inr (amount, bal, sf)"
    and b: "balanced s" and a: "sound_adj adj"
  shows "balanced s'"
  unfolding balanced_def
proof (intro allI impI)
  fix uid w assume w: "tbl_get (users s') uid = Some w"
  note bu = balancedD [OF b u]
  have ex: "bal = credit_balance u + amount \<and> 0 \<le> bal \<and> i64 bal \<and> i64 amount"
    using clamp_amount_exact [OF c bu(2,3)] a unfolding sound_adj_def by blast
  have l: "ledger s' = ledger s @ [entry]" "le_userID entry = UserID adj" "le_amount entry = amount"
      "le_entryType entry = EntryType adj"
    using ad by (auto simp: adjusted_def)
  show "credit_balance w = sum_where (user_entries uid) le_amount (ledger s')
      \<and> 0 \<le> credit_balance w \<and> i64 (credit_balance w)
      \<and> u_credit_used w = wrap64 (- sum_where (call_entries uid) le_amount (ledger s'))"
  proof (cases "uid = UserID adj")
    case True
    with w adjusted_user [OF ad u] have "w = (if AffectsUsed adj
        then u\<lparr>u_credit_used := wrap64 (u_credit_used u - amount)\<rparr> else u)\<lparr>credit_balance := bal\<rparr>" by simp
    moreover have "wrap64 (u_credit_used u - amount)
        = wrap64 (- (sum_where (call_entries (UserID adj)) le_amount (ledger s) + amount))"
      using bu(4) wrap64_sub_left [of "- sum_where (call_entries (UserID adj)) le_amount (ledger s)" amount]
      by (simp only: minus_add_distrib diff_conv_add_uminus)
    ultimately show ?thesis using True l ex bu a
      by (auto simp: user_entries_def call_entries_def sound_adj_def)
  next
    case False
    with w adjusted_user [OF ad u] have "tbl_get (users s) uid = Some w" by simp
    with False l show ?thesis using balancedD [OF b, of uid w]
      by (simp add: user_entries_def call_entries_def)
  qed
qed

lemma ledger_ok_adjusted:
  assumes ad: "adjusted e adj u amount bal sf entry s s'" and u: "tbl_get (users s) (UserID adj) = Some u"
    and n: "RequestID adj \<noteq> [] \<longrightarrow> \<not> has_entry s (RequestID adj) (EntryType adj)" and ok: "ledger_ok s"
  shows "ledger_ok s'"
proof -
  have l: "ledger s' = ledger s @ [entry]" "le_userID entry = UserID adj" "le_ID entry = ledger_seq s + 1"
      "le_entryType entry = EntryType adj" "le_requestID entry = RequestID adj" "ledger_seq s' = ledger_seq s + 1"
    using ad by (auto simp: adjusted_def)
  have us: "tbl_get (users s') i \<noteq> None" if "tbl_get (users s) i \<noteq> None" for i
    using that adjusted_user [OF ad u, of i] by auto
  have "sorted_wrt (\<lambda>x y. le_ID x < le_ID y) (ledger s')"
    using ok l by (fastforce simp: ledger_ok_def sorted_wrt_append)
  moreover have "\<forall>x \<in> set (ledger s'). le_ID x \<le> ledger_seq s' \<and> tbl_get (users s') (le_userID x) \<noteq> None"
    using ok l us u by (fastforce simp: ledger_ok_def)
  moreover have "\<forall>x \<in> set (ledger s'). \<forall>y \<in> set (ledger s'). le_requestID x \<noteq> [] \<longrightarrow>
      le_requestID x = le_requestID y \<longrightarrow> le_entryType x = le_entryType y \<longrightarrow> x = y"
    using ok l n unfolding ledger_ok_def has_entry_def by (auto; metis)
  ultimately show ?thesis by (simp add: ledger_ok_def)
qed

lemma running_ok_adjusted:
  assumes ad: "adjusted e adj u amount bal sf entry s s'" and u: "tbl_get (users s) (UserID adj) = Some u"
    and c: "clamp_amount adj (credit_balance u) = Inr (amount, bal, sf)"
    and b: "balanced s" and a: "sound_adj adj" and r: "running_ok s"
  shows "running_ok s'"
  unfolding running_ok_def
proof (intro allI impI)
  fix i assume i: "i < length (ledger s')"
  have l: "ledger s' = ledger s @ [entry]" "le_userID entry = UserID adj" "le_amount entry = amount"
      "le_balanceAfter entry = bal"
    using ad by (auto simp: adjusted_def)
  have "bal = sum_where (user_entries (UserID adj)) le_amount (ledger s) + amount"
    using clamp_amount_exact [OF c balancedD(2,3) [OF b u]] balancedD(1) [OF b u] a
    by (simp add: sound_adj_def)
  then show "le_balanceAfter (ledger s' ! i)
      = sum_where (user_entries (le_userID (ledger s' ! i))) le_amount (take (Suc i) (ledger s'))"
    using r l i by (cases "i = length (ledger s)") (auto simp: running_ok_def nth_append user_entries_def)
qed

lemma books_applyTx:
  assumes "applyTx e adj s = (Inr entry, s')" "books s" "sound_adj adj"
  shows "books s'"
  using assms(1)
proof (cases rule: applyTx_Inr)
  case (1 u amount bal sf)
  then show ?thesis using assms(2,3) balanced_adjusted [OF 1(4,1,2)] ledger_ok_adjusted [OF 1(4,1,5)]
      running_ok_adjusted [OF 1(4,1,2)] by (simp add: books_def)
qed

lemma books_cong:
  assumes "books s" "users s' = users s" "ledger s' = ledger s" "ledger_seq s \<le> ledger_seq s'"
  shows "books s'"
  using assms by (force simp: books_def balanced_def ledger_ok_def running_ok_def)

section \<open>Failures\<close>

text \<open>Two facts that go through sequencing: the sequence never goes back, and an error a statement never raises.\<close>

definition seq_mono :: "'a sql \<Rightarrow> bool" where
  "seq_mono m \<longleftrightarrow> (\<forall>s r s'. m s = (r, s') \<longrightarrow> ledger_seq s \<le> ledger_seq s')"

definition never :: "error \<Rightarrow> 'a sql \<Rightarrow> bool" where
  "never err m \<longleftrightarrow> (\<forall>s s'. m s \<noteq> (Inl err, s'))"

lemma seq_mono_bind [intro]:
  assumes "seq_mono m" "\<And>x. seq_mono (f x)"
  shows "seq_mono (sql_bind m f)"
  unfolding seq_mono_def
proof (intro allI impI)
  fix s r s' assume b: "sql_bind m f s = (r, s')"
  obtain r1 s1 where m: "m s = (r1, s1)" by fastforce
  then have 1: "ledger_seq s \<le> ledger_seq s1" using assms(1) by (auto simp: seq_mono_def)
  show "ledger_seq s \<le> ledger_seq s'"
  proof (cases r1)
    case (Inl e1)
    then show ?thesis using b m 1 by (simp add: sql_bind_def)
  next
    case (Inr x)
    then have "f x s1 = (r, s')" using b m by (simp add: sql_bind_def)
    then show ?thesis using 1 assms(2) [of x] by (fastforce simp: seq_mono_def)
  qed
qed

lemma seq_mono_exec [intro]: "seq_mono m \<Longrightarrow> seq_mono (exec e st m)"
  by (auto simp: seq_mono_def exec_def stmt_error_def)

lemma seq_mono_simple [intro]: "seq_mono (sql_return x)" "seq_mono (sql_fail err)" "seq_mono (stmt_error st)"
  by (auto simp: seq_mono_def sql_return_def sql_fail_def stmt_error_def)

lemma never_bind:
  "never err m \<Longrightarrow> (\<And>x. never err (f x)) \<Longrightarrow> never err (sql_bind m f)"
  by (fastforce simp: never_def sql_bind_def split: prod.splits sum.splits)

lemma mark_depleted_seq [simp]: "ledger_seq (mark_depleted e k s) = ledger_seq s"
  by (simp add: mark_depleted_def)

lemma seq_mono_steps [intro]:
  "seq_mono (lock_key e adj)" "seq_mono (applyKeyCredit e adj amount)" "seq_mono (select_user e uid)"
  "seq_mono (RecordClampShortfall sf)" "seq_mono (validateDailyLimits e adj amount day)"
  "seq_mono (update_user e adj bal used amount)" "seq_mono (add_spend e adj day delta)"
  "seq_mono (writeLedgerEntry e adj amount bal dep int_id)"
  by (auto simp: seq_mono_def lock_key_def applyKeyCredit_def select_user_def RecordClampShortfall_def
      validateDailyLimits_def update_user_def add_spend_def addDailySpend_def addKeyDailySpend_def
      writeLedgerEntry_def exec_def stmt_error_def sql_return_def sql_bind_def Let_def
      split: if_splits option.splits)

lemma seq_mono_applyTx [intro]: "seq_mono (applyTx e adj)"
  unfolding applyTx_def by (intro seq_mono_bind seq_mono_steps) (auto split: sum.split simp: Let_def intro!: seq_mono_bind seq_mono_steps)

text \<open>A key at its limit: the transaction has changed nothing but the key's mark.\<close>

lemma never_KeyDepleted:
  "never ErrKeyDepleted (lock_key e adj)" "never ErrKeyDepleted (select_user e uid)"
  "never ErrKeyDepleted (RecordClampShortfall sf)" "never ErrKeyDepleted (validateDailyLimits e adj amount day)"
  "never ErrKeyDepleted (update_user e adj bal used amount)" "never ErrKeyDepleted (add_spend e adj day delta)"
  "never ErrKeyDepleted (writeLedgerEntry e adj amount bal dep int_id)"
  "never ErrKeyDepleted (sql_return x)"
  "\<not> KeyPrechargeMode adj \<Longrightarrow> never ErrKeyDepleted (applyKeyCredit e adj amount)"
  by (auto simp: never_def lock_key_def applyKeyCredit_def select_user_def RecordClampShortfall_def
      validateDailyLimits_def update_user_def add_spend_def addDailySpend_def addKeyDailySpend_def
      writeLedgerEntry_def exec_def stmt_error_def sql_return_def sql_bind_def Let_def
      split: if_splits option.splits)

lemma applyTx_KeyDepleted:
  assumes "applyTx e adj s = (Inl ErrKeyDepleted, s')"
  shows "KeyPrechargeMode adj \<and> s' = mark_depleted e (KeyID adj) s"
proof -
  define k where "k = (if KeyPrechargeMode adj then applyKeyCredit e adj (Amount adj) else sql_return ())"
  define rest where "rest = sql_bind (select_user e (UserID adj)) (\<lambda>row.
     case clamp_amount adj (credit_balance row) of
       Inl err \<Rightarrow> sql_fail err
     | Inr (amount, newBalance, shortfall) \<Rightarrow>
         let adj = noted adj shortfall; day = day_of e (now e)
         in sql_bind (RecordClampShortfall shortfall) (\<lambda>_.
            sql_bind (validateDailyLimits e adj amount day) (\<lambda>_.
            sql_bind (update_user e adj newBalance (u_credit_used row) amount) (\<lambda>_.
            sql_bind (add_spend e adj day (wrap64 (- amount))) (\<lambda>_.
            sql_bind (if \<not> KeyPrechargeMode adj then applyKeyCredit e adj amount else sql_return ()) (\<lambda>_.
            writeLedgerEntry e adj amount newBalance
              (ptr_or_zero (u_departmentID row)) (ptr_or_zero (u_integrationID row))))))))"
  have fail: "never ErrKeyDepleted (sql_fail err)" if "clamp_amount adj b = Inl err" for b err
    using that by (auto simp: clamp_amount_def never_def sql_fail_def Let_def split: if_splits)
  have "never ErrKeyDepleted rest"
    unfolding rest_def
    by (rule never_bind never_KeyDepleted)+
      (auto simp: Let_def fail intro!: never_bind never_KeyDepleted split: sum.split prod.split)
  moreover have "applyTx e adj = sql_bind (lock_key e adj) (\<lambda>_. sql_bind k (\<lambda>_. rest))"
    by (simp add: applyTx_def k_def rest_def)
  ultimately obtain x1 s1 where l: "lock_key e adj s = (Inr x1, s1)" and kk: "k s1 = (Inl ErrKeyDepleted, s')"
    using assms never_KeyDepleted(1) [of e adj]
    by (fastforce simp: sql_bind_def never_def split: prod.splits sum.splits)
  from lock_key_Inr [OF l] kk show ?thesis
    by (auto simp: k_def applyKeyCredit_def sql_return_def exec_def stmt_error_def Let_def
        split: if_splits option.splits)
qed

text \<open>
  The outcomes of \<open>Apply\<close>: the entry with its whole effect; an error with nothing written but
  possibly a key's mark; or a lost commit, an error with the effect of success.
\<close>

lemma Apply_cases:
  assumes "Apply e adj s = (r, s')"
  obtains (ok) entry t where "r = Inr entry" "applyTx e adj (s\<lparr>tx_aborted := False\<rparr>) = (Inr entry, t)"
      "s' = t\<lparr>tx_aborted := tx_aborted s\<rparr>"
  | (lost) entry t where "r = Inl ErrCommit" "applyTx e adj (s\<lparr>tx_aborted := False\<rparr>) = (Inr entry, t)"
      "s' = t\<lparr>tx_aborted := tx_aborted s\<rparr>" "commit_res e = CommitLost"
  | (depleted) err where "r = Inl err" "KeyPrechargeMode adj" "err = ErrKeyDepleted \<or> err = ErrCommit"
      "s' = (mark_depleted e (KeyID adj) (s\<lparr>tx_aborted := False\<rparr>))\<lparr>tx_aborted := tx_aborted s\<rparr>"
  | (failed) err where "r = Inl err" "same_data s' s" "ledger_seq s \<le> ledger_seq s'"
proof -
  define m where "m = (\<lambda>s. case applyTx e adj s of
              (Inl err, s') \<Rightarrow> if err = ErrKeyDepleted then (Inr (Inl err), s') else (Inl err, s')
            | (Inr entry, s') \<Rightarrow> (Inr (Inr entry), s'))"
  let ?s = "s\<lparr>tx_aborted := False\<rparr>"
  have ap: "Apply e adj s = (case Transaction e m s of (Inl err, s') \<Rightarrow> (Inl err, s') | (Inr r, s') \<Rightarrow> (r, s'))"
    by (simp add: Apply_def m_def)
  have mI: "(\<exists>en. x = Inr en \<and> applyTx e adj ?s = (Inr en, t))
      \<or> (x = Inl ErrKeyDepleted \<and> KeyPrechargeMode adj \<and> t = mark_depleted e (KeyID adj) ?s)"
    if "m ?s = (Inr x, t)" for x t
    using that applyTx_KeyDepleted [of e adj ?s t]
    by (auto simp: m_def split: prod.splits sum.splits if_splits)
  have mono: "ledger_seq s \<le> ledger_seq t" if "m ?s = (r', t)" for r' t
  proof -
    obtain r1 t1 where a: "applyTx e adj ?s = (r1, t1)" by fastforce
    then have "ledger_seq s \<le> ledger_seq t1"
      using seq_mono_applyTx [of e adj] by (fastforce simp: seq_mono_def)
    moreover have "t = t1" using that a by (auto simp: m_def split: sum.splits if_splits)
    ultimately show ?thesis by simp
  qed
  obtain r1 s1 where T: "Transaction e m s = (r1, s1)" by fastforce
  then show thesis
  proof (cases rule: Transaction_cases)
    case (commit x t)
    then have "r = x" "s' = t\<lparr>tx_aborted := tx_aborted s\<rparr>" using assms ap T by auto
    with mI [OF commit(2)] show thesis using ok depleted by blast
  next
    case (failed err r' t)
    then have "r = Inl err" "s' = rollback s t" using assms ap T by auto
    moreover have "ledger_seq s \<le> ledger_seq t" by (rule mono [OF failed(2)])
    ultimately show thesis using that(4) [of err] by simp
  next
    case (lost x t)
    then have "r = Inl ErrCommit" "s' = t\<lparr>tx_aborted := tx_aborted s\<rparr>" using assms ap T by auto
    with mI [OF lost(2)] lost(4) show thesis using that(2,3) by blast
  qed
qed

section \<open>Every operation keeps the books\<close>

lemma books_aborted [simp]: "books (s\<lparr>tx_aborted := b\<rparr>) = books s"
  by (rule iffI; erule books_cong; simp)

lemma books_same_data: "books s \<Longrightarrow> same_data s' s \<Longrightarrow> ledger_seq s \<le> ledger_seq s' \<Longrightarrow> books s'"
  by (erule books_cong) (auto simp: same_data_def)

lemma books_mark_depleted [simp]: "books s \<Longrightarrow> books (mark_depleted e k s)"
  by (erule books_cong) (auto simp: mark_depleted_def)

lemma books_Apply:
  assumes "Apply e adj s = (r, s')" "books s" "sound_adj adj"
  shows "books s'"
  using assms(1)
proof (cases rule: Apply_cases)
  case (ok entry t)
  with books_applyTx [OF ok(2)] assms show ?thesis by simp
next
  case (lost entry t)
  with books_applyTx [OF lost(2)] assms show ?thesis by simp
next
  case (depleted err)
  with assms show ?thesis by simp
next
  case (failed err)
  show ?thesis by (rule books_same_data [OF assms(2) failed(2,3)])
qed

lemma sound_grant [simp]: "i64 amount \<Longrightarrow> sound_adj (grant_adjustment uid amount actor note key)"
  by (simp add: sound_adj_def grant_adjustment_def zero_adjustment_def call_type_def)

lemma sound_redeem [simp]: "i64 (r_credits r) \<Longrightarrow> sound_adj (redeem_adjustment uid i r)"
  by (simp add: sound_adj_def redeem_adjustment_def zero_adjustment_def call_type_def)

lemma sound_refund [simp]: "i64 (op_amount p) \<Longrightarrow> sound_adj (refund_adjustment p)"
  by (simp add: sound_adj_def refund_adjustment_def zero_adjustment_def call_type_def)

lemma books_Grant: "Grant e uid amount actor note key s = (r, s') \<Longrightarrow> books s \<Longrightarrow> i64 amount \<Longrightarrow> books s'"
  by (auto simp: Grant_def sql_fail_def split: if_splits intro: books_Apply)

lemma reason_not_Inr: "redemptionUnavailableReason e h s \<noteq> (Inr x, s')"
  by (auto simp: redemptionUnavailableReason_def exec_def stmt_error_def
      split: option.splits RedemptionStatus.splits)

lemma redeem_body_Inr:
  assumes "redeem_body e uid h s = (Inr entry, s')"
  obtains i r where "by_code h (redemptions s) = Some (i, r)" "redeemable (now e) r"
    "applyTx e (redeem_adjustment uid i r) (use_code e uid i s) = (Inr entry, s')"
  using assms by (auto simp: redeem_body_def exec_Inr reason_not_Inr split: option.splits if_splits)

lemma seq_mono_redeem: "seq_mono (redeem_body e uid h)"
proof -
  have r: "seq_mono (redemptionUnavailableReason e h :: ledger_entry sql)"
    by (auto simp: seq_mono_def redemptionUnavailableReason_def exec_def stmt_error_def
        split: if_splits option.splits RedemptionStatus.splits)
  have a: "ledger_seq s \<le> ledger_seq s'" if "applyTx e adj (use_code e uid i s) = (x, s')" for adj i x s s'
    using seq_mono_applyTx [of e adj] that by (fastforce simp: seq_mono_def use_code_def)
  show ?thesis
    unfolding redeem_body_def
    by (rule seq_mono_exec, unfold seq_mono_def) (use r a in \<open>auto simp: seq_mono_def split: option.splits if_splits\<close>)
qed

definition codes_ok :: "db \<Rightarrow> bool" where
  "codes_ok s \<longleftrightarrow> (\<forall>(i, r) \<in> set (redemptions s). i64 (r_credits r) \<and> 0 < r_credits r)
     \<and> distinct (map fst (redemptions s)) \<and> distinct (map (r_codeHash \<circ> snd) (redemptions s))"

lemma by_code_in: "by_code h t = Some (i, r) \<Longrightarrow> (i, r) \<in> set t \<and> r_codeHash r = h"
  by (auto simp: by_code_def find_Some_iff intro: nth_mem) (metis nth_mem)+

lemma books_use_code [simp]: "books (use_code e uid i s) = books s"
  by (rule iffI; erule books_cong; simp add: use_code_def)

lemma books_Redeem:
  assumes T: "Redeem e uid code s = (r, s')" and b: "books s" and c: "codes_ok s"
  shows "books s'"
proof -
  have bt: "books t" if "redeem_body e uid (hash_key e code) (s\<lparr>tx_aborted := False\<rparr>) = (Inr entry, t)" for entry t
    using that
  proof (rule redeem_body_Inr)
    fix i w assume *: "by_code (hash_key e code) (redemptions (s\<lparr>tx_aborted := False\<rparr>)) = Some (i, w)"
      "applyTx e (redeem_adjustment uid i w) (use_code e uid i (s\<lparr>tx_aborted := False\<rparr>)) = (Inr entry, t)"
    have "i64 (r_credits w)" using by_code_in [OF *(1)] c by (auto simp: codes_ok_def)
    with books_applyTx [OF *(2)] b show "books t" by simp
  qed
  from T [unfolded Redeem_def] show ?thesis
  proof (cases rule: Transaction_cases)
    case (commit x t)
    with bt show ?thesis by simp
  next
    case (failed err r' t)
    then have "ledger_seq s \<le> ledger_seq t" using seq_mono_redeem by (fastforce simp: seq_mono_def)
    with failed b show ?thesis by (auto intro: books_same_data)
  next
    case (lost x t)
    with bt show ?thesis by simp
  qed
qed

lemma books_trace [simp]: "books (write_orphan_trace e p s) = books s"
  by (rule iffI; erule books_cong; simp add: write_orphan_trace_def)

lemma books_refundOrphan:
  "refundOrphan e p s = (r, s') \<Longrightarrow> books s \<Longrightarrow> i64 (op_amount p) \<Longrightarrow> books s'"
  using books_Apply [of e "refund_adjustment p" s]
  by (auto simp: refundOrphan_def split: if_splits prod.splits sum.splits)

lemma books_refund_all:
  assumes "refund_all es ps res s = (x, s')" "books s" "\<forall>p \<in> set ps. i64 (op_amount p)"
  shows "books s'"
  using assms
proof (induction ps arbitrary: es res s)
  case Nil
  then show ?case by simp
next
  case (Cons p ps)
  obtain r t where r: "refundOrphan (es 0) p s = (r, t)" by fastforce
  have "books t" using books_refundOrphan [OF r] Cons.prems by simp
  with Cons r show ?case by (cases r) (auto split: if_splits)
qed

end
