(* ===== verification/BillingProps.thy ===== *)
theory BillingProps
  imports BillingInv
begin

text \<open>
  The properties of the billing service: what an adjustment promises when it succeeds, when it is
  refused, when it is repeated, and what the redemption of codes and the recovery of orphaned
  precharges guarantee.
\<close>

definition healthy :: "env \<Rightarrow> bool" where
  "healthy e \<longleftrightarrow> (\<forall>st. \<not> stmt_fails e st) \<and> commit_res e = Committed"

lemma exec_healthy: "healthy e \<Longrightarrow> exec e st m = m"
  by (simp add: healthy_def exec_def)

lemma rollback_same: "same_data (rollback s t) s"
  by simp

lemma same_data_aborted [simp]: "same_data (s\<lparr>tx_aborted := b\<rparr>) s"
  by (simp add: same_data_def)

text \<open>A small database to try things on: one user with ten credits, granted by the first entry.\<close>

definition demo_env :: env where
  "demo_env = \<lparr>now = 5 * Hour, day_of = (\<lambda>t. t div (24 * Hour)), hash_key = (\<lambda>p. ''h:'' @ p),
     stmt_fails = (\<lambda>_. False), commit_res = Committed\<rparr>"

definition demo_user :: user_row where
  "demo_user = \<lparr>username = ''ann'', u_email = [], u_role = ''user'', u_status = UserEnabled,
     credit_balance = 10, u_credit_used = 0, request_count = 0, u_departmentID = Some 3,
     u_integrationID = None, u_dailySpendLimit = 0\<rparr>"

definition demo_key :: api_key_row where
  "demo_key = \<lparr>k_userID = 1, k_name = ''k'', k_keyHash = ''h:sk'', k_status = KeyEnabled,
     credit_limit = Some 8, k_credit_used = 0, k_dailySpendLimit = 0, k_projectID = None,
     k_expiresAt = None, k_lastUsedAt = None, k_deletedAt = None\<rparr>"

definition demo_code :: redemption_row where
  "demo_code = \<lparr>r_batchID = ''b'', r_codeHash = ''h:CODE'', r_name = ''gift'', r_credits = 4,
     r_status = RedemptionUnused, r_usedByUserID = None, r_redeemedAt = None, r_expiresAt = None\<rparr>"

definition demo_entry :: ledger_entry where
  "demo_entry = \<lparr>le_ID = 1, le_userID = 1, le_entryType = LedgerGrant, le_amount = 10,
     le_balanceAfter = 10, le_refType = ''admin_user'', le_refID = 9, le_requestID = ''admin:x'', le_note = [],
     le_operatorID = 9, le_departmentID = 3, le_integrationID = 0, le_createdAt = 0\<rparr>"

definition demo_db :: db where
  "demo_db = \<lparr>users = [(1, demo_user)], api_keys = [(7, demo_key)], ledger = [demo_entry],
     daily_spend = [], daily_spend_by_key = [], redemptions = [(2, demo_code)], usage_logs = [],
     ledger_seq = 1, clamp_shortfall = [], tx_aborted = False\<rparr>"

lemmas demo = demo_env_def demo_user_def demo_key_def demo_code_def demo_entry_def demo_db_def

lemma demo_healthy [simp]: "healthy demo_env"
  by (simp add: healthy_def demo_env_def)

lemma demo_books [simp]: "books demo_db"
  by (simp add: books_def balanced_def ledger_ok_def running_ok_def demo user_entries_def call_entries_def
      call_type_def tbl_get_def i64_def MinInt64_def MaxInt64_def wrap64_def)

section \<open>Grants\<close>

lemma applyTx_grant:
  assumes h: "healthy e" and u: "tbl_get (users s) uid = Some u"
    and k: "key = [] \<or> \<not> has_entry s (AdminRequestID key) (if amount < 0 then LedgerRevoke else LedgerGrant)"
  shows "applyTx e (grant_adjustment uid amount actor note key) s =
    (if wrap64 (credit_balance u + amount) < 0 then (Inl ErrInsufficientCredits, s)
     else let entry = new_entry e (grant_adjustment uid amount actor note key) amount
                (wrap64 (credit_balance u + amount)) (ptr_or_zero (u_departmentID u))
                (ptr_or_zero (u_integrationID u)) (ledger_seq s + 1)
       in (Inr entry, s\<lparr>users := tbl_upd (\<lambda>v. v\<lparr>credit_balance := wrap64 (credit_balance u + amount)\<rparr>) uid (users s),
            ledger := ledger s @ [entry], ledger_seq := ledger_seq s + 1\<rparr>))"
proof -
  have k': "AdminRequestID key = [] \<or> \<not> (\<exists>x \<in> set (ledger s). le_requestID x = AdminRequestID key
      \<and> le_entryType x = (if amount < 0 then LedgerRevoke else LedgerGrant))"
    using k by (auto simp: AdminRequestID_def has_entry_def)
  show ?thesis
    using u k'
    by (cases "amount < 0") (auto simp: applyTx_def lock_key_def applyKeyCredit_def select_user_def exec_healthy [OF h]
        validateDailyLimits_def update_user_def add_spend_def writeLedgerEntry_def RecordClampShortfall_def
        sql_bind_def sql_return_def sql_fail_def clamp_amount_def noted_def grant_adjustment_def
        zero_adjustment_def has_entry_def Let_def)
qed

text \<open>
  C19. A grant or a revocation succeeds exactly when the new balance, as an unbounded integer, is
  neither negative nor beyond 64 bits; then the user's balance is exactly that and one entry with
  the amount, the new balance and the operator is appended. Otherwise it reports insufficient
  credits and writes nothing.
\<close>

theorem grant_exact:
  assumes h: "healthy e" and b: "books s" and u: "tbl_get (users s) uid = Some u"
    and a: "i64 amount" "amount \<noteq> 0"
    and fresh: "key = [] \<or> \<not> has_entry s (AdminRequestID key) (if amount < 0 then LedgerRevoke else LedgerGrant)"
    and r: "Grant e uid amount actor note key s = (r, s')"
  shows "if 0 \<le> credit_balance u + amount \<and> credit_balance u + amount \<le> MaxInt64
    then \<exists>entry. r = Inr entry \<and> ledger s' = ledger s @ [entry] \<and> le_userID entry = uid
           \<and> le_amount entry = amount \<and> le_balanceAfter entry = credit_balance u + amount
           \<and> le_operatorID entry = actor
           \<and> tbl_get (users s') uid = Some (u\<lparr>credit_balance := credit_balance u + amount\<rparr>)
    else r = Inl ErrInsufficientCredits \<and> same_data s' s"
proof -
  define adj where "adj = grant_adjustment uid amount actor note key"
  define bal where "bal = wrap64 (credit_balance u + amount)"
  have cu: "0 \<le> credit_balance u" "i64 (credit_balance u)"
    using balancedD [OF _ u] b by (auto simp: books_def)
  have iff: "bal < 0 \<longleftrightarrow> \<not> (0 \<le> credit_balance u + amount \<and> credit_balance u + amount \<le> MaxInt64)"
    using cu a(1) wrap64_id [of "credit_balance u + amount"] wrap64_overflow [of "credit_balance u + amount"]
    by (auto simp: bal_def i64_def MinInt64_def MaxInt64_def)
  have exact: "bal = credit_balance u + amount" if "\<not> bal < 0"
    using that wrap64_add_nonneg [OF cu a(1)] by (simp add: bal_def)
  have ops: "le_operatorID (new_entry e adj amount b d i n) = actor" for b d i n
    by (simp add: new_entry_def adj_def grant_adjustment_def)
  have us: "UserID adj = uid" by (simp add: adj_def grant_adjustment_def)
  have ap: "Apply e adj s = (r, s')" using r a by (simp add: Grant_def adj_def)
  have x: "applyTx e adj (s\<lparr>tx_aborted := False\<rparr>) = (if bal < 0 then (Inl ErrInsufficientCredits, s\<lparr>tx_aborted := False\<rparr>)
     else let entry = new_entry e adj amount bal (ptr_or_zero (u_departmentID u))
                (ptr_or_zero (u_integrationID u)) (ledger_seq s + 1)
       in (Inr entry, s\<lparr>tx_aborted := False, users := tbl_upd (\<lambda>u. u\<lparr>credit_balance := bal\<rparr>) uid (users s),
            ledger := ledger s @ [entry], ledger_seq := ledger_seq s + 1\<rparr>))"
    using applyTx_grant [OF h, of "s\<lparr>tx_aborted := False\<rparr>" uid u key amount actor "note"] u fresh
    by (simp add: adj_def bal_def has_entry_def Let_def)
  have c: "commit_res e = Committed" using h by (simp add: healthy_def)
  show ?thesis
  proof (cases "bal < 0")
    case True
    then have "r = Inl ErrInsufficientCredits \<and> same_data s' s"
      using ap x by (auto simp: Apply_def Transaction_def)
    with True iff show ?thesis by simp
  next
    case False
    define entry where "entry = new_entry e adj amount bal (ptr_or_zero (u_departmentID u))
                (ptr_or_zero (u_integrationID u)) (ledger_seq s + 1)"
    have "r = Inr entry \<and> ledger s' = ledger s @ [entry]
        \<and> users s' = tbl_upd (\<lambda>u. u\<lparr>credit_balance := bal\<rparr>) uid (users s)"
      using False ap x c by (auto simp: Apply_def Transaction_def Let_def entry_def)
    moreover have "le_userID entry = uid" "le_amount entry = amount" "le_operatorID entry = actor"
        "le_balanceAfter entry = credit_balance u + amount"
      using us ops exact [OF False] by (simp_all add: entry_def)
    ultimately show ?thesis
      using False iff exact [OF False] u by (simp add: tbl_get_upd)
  qed
qed

lemma grant_exact_witness:
  "case Grant demo_env 1 (-4) 9 ''fix'' ''k1'' demo_db of (r, s') \<Rightarrow>
     \<exists>entry. r = Inr entry \<and> tbl_get (users s') 1 = Some (demo_user\<lparr>credit_balance := 6\<rparr>)"
proof -
  obtain r s' where g: "Grant demo_env 1 (-4) 9 ''fix'' ''k1'' demo_db = (r, s')" by fastforce
  have u: "tbl_get (users demo_db) 1 = Some demo_user" by (simp add: demo_db_def tbl_get_def)
  have "\<not> has_entry demo_db (AdminRequestID ''k1'') LedgerRevoke"
    by (simp add: has_entry_def demo AdminRequestID_def AdminRequestIDPrefix_def)
  with grant_exact [OF demo_healthy demo_books u _ _ _ g] show ?thesis
    by (auto simp: g demo_user_def i64_def MinInt64_def MaxInt64_def)
qed

section \<open>Refusals, repetitions and limits\<close>

text \<open>What is left of the database when the only thing that may have changed is a key's mark.\<close>

definition only_marked :: "row_id \<Rightarrow> db \<Rightarrow> db \<Rightarrow> bool" where
  "only_marked keyID s s' \<longleftrightarrow> users s' = users s \<and> ledger s' = ledger s \<and> daily_spend s' = daily_spend s
     \<and> daily_spend_by_key s' = daily_spend_by_key s \<and> redemptions s' = redemptions s \<and> usage_logs s' = usage_logs s
     \<and> (\<forall>k. tbl_get (api_keys s') k = tbl_get (api_keys s) k \<or>
          (k = keyID \<and> (\<exists>row. tbl_get (api_keys s) k = Some row \<and> k_status row = KeyEnabled \<and> credit_limit row \<noteq> None
             \<and> tbl_get (api_keys s') k = Some (row\<lparr>k_status := KeyDepleted\<rparr>))))"

lemma only_marked_same: "same_data s' s \<Longrightarrow> only_marked k s s'"
  by (simp add: same_data_def only_marked_def)

lemma only_marked_depleted:
  "only_marked k s ((mark_depleted e k (s\<lparr>tx_aborted := False\<rparr>))\<lparr>tx_aborted := b\<rparr>)"
  by (cases "tbl_get (api_keys s) k") (auto simp: only_marked_def mark_depleted_def tbl_get_upd)

lemma refused_keeps_data:
  assumes "Apply e adj s = (Inl err, s')" "err \<noteq> ErrCommit" "err \<noteq> ErrKeyDepleted"
  shows "same_data s' s \<and> ledger s' = ledger s"
  using assms(1) by (cases rule: Apply_cases) (use assms(2,3) in \<open>auto simp: same_data_def\<close>)

text \<open>
  A refused adjustment writes nothing. Whatever statement fails and however the commit ends, an
  adjustment that reports an error other than a failed commit leaves every table as it was, except
  that an exhausted key may be marked: then the key was enabled and limited, and the caller learns
  that the key is exhausted.
\<close>

theorem refused_adjustment_writes_nothing:
  assumes "Apply e adj s = (Inl err, s')" "err \<noteq> ErrCommit"
  shows "only_marked (KeyID adj) s s' \<and> (err \<noteq> ErrKeyDepleted \<longrightarrow> same_data s' s)"
  using assms(1)
proof (cases rule: Apply_cases)
  case (depleted err')
  then show ?thesis using assms(2) by (auto simp: only_marked_depleted)
qed (use assms(2) in \<open>auto simp: only_marked_same\<close>)

lemma refused_adjustment_writes_nothing_witness:
  "\<exists>s'. Grant demo_env 1 (-11) 9 [] [] demo_db = (Inl ErrInsufficientCredits, s') \<and> same_data s' demo_db"
proof -
  have x: "applyTx demo_env (grant_adjustment 1 (-11) 9 [] []) demo_db = (Inl ErrInsufficientCredits, demo_db)"
    using applyTx_grant [OF demo_healthy, of demo_db 1 demo_user "[]" "-11" 9 "[]"]
    by (simp add: demo_db_def demo_user_def tbl_get_def wrap64_def)
  have d: "demo_db\<lparr>tx_aborted := False\<rparr> = demo_db" by (simp add: demo_db_def)
  obtain s' where a: "Apply demo_env (grant_adjustment 1 (-11) 9 [] []) demo_db = (Inl ErrInsufficientCredits, s')"
    using x d by (simp add: Apply_def Transaction_def)
  from refused_adjustment_writes_nothing [OF a] a show ?thesis by (auto simp: Grant_def)
qed

text \<open>
  An adjustment is booked at most once per request and type: when the ledger already has an entry of the type for the
  request, repeating the adjustment reports an error and writes no entry, balance, daily counter, code or usage log, even when
  its commit is lost. A settlement, refund, grant or redemption repeated leaves every row as it was; of a repeated precharge there is one side effect, for
  the credit limit of the key is checked first: if the key is enabled and limited it may be marked as exhausted, and nothing else of it changes.
\<close>

theorem repeated_adjustment_books_nothing:
  assumes a: "Apply e adj s = (r, s')" and d: "RequestID adj \<noteq> []" "has_entry s (RequestID adj) (EntryType adj)"
  shows "(\<exists>err. r = Inl err) \<and> only_marked (KeyID adj) s s' \<and> (\<not> KeyPrechargeMode adj \<longrightarrow> same_data s' s)"
proof -
  have no: "applyTx e adj (s\<lparr>tx_aborted := False\<rparr>) \<noteq> (Inr entry, t)" for entry t
  proof
    assume "applyTx e adj (s\<lparr>tx_aborted := False\<rparr>) = (Inr entry, t)"
    then show False by (rule applyTx_Inr) (use d in \<open>auto simp: has_entry_def\<close>)
  qed
  from a show ?thesis
    by (cases rule: Apply_cases) (auto simp: no only_marked_depleted only_marked_same)
qed

lemma repeated_adjustment_books_nothing_witness:
  "\<exists>err s'. Grant demo_env 1 10 9 [] ''x'' demo_db = (Inl err, s') \<and> ledger s' = [demo_entry]"
proof -
  obtain r s' where a: "Apply demo_env (grant_adjustment 1 10 9 [] ''x'') demo_db = (r, s')" by fastforce
  have "(\<exists>err. r = Inl err) \<and> only_marked 0 demo_db s' \<and> same_data s' demo_db"
    using repeated_adjustment_books_nothing [OF a]
    by (simp add: grant_adjustment_def zero_adjustment_def AdminRequestID_def AdminRequestIDPrefix_def
        has_entry_def demo)
  then show ?thesis using a by (auto simp: Grant_def only_marked_def demo_db_def)
qed

lemma spend_of_after:
  "spend_of (spend_after on t i day delta) i day = spend_of t i day + (if on then delta else 0)"
  by (simp add: spend_after_def spend_of_def tbl_get_upsert split: option.split)

text \<open>
  C17. The limits hold at the moment of writing: after a precharge that went through, the user's and
  the key's spending of the day are within the limits the adjustment carries, and the key's used
  credits are within the key's own limit.
\<close>

theorem precharge_respects_limits:
  assumes ok: "Apply e adj s = (Inr entry, s')"
    and p: "AffectsUsed adj" "KeyPrechargeMode adj" "\<not> ClampToBalance adj" "KeyID adj \<noteq> 0"
    and a: "i64 (- Amount adj)" "Amount adj < 0"
  shows "(0 < DailyLimit adj \<longrightarrow> spend_of (daily_spend s') (UserID adj) (day_of e (now e)) \<le> DailyLimit adj)
    \<and> (0 < KeyDailyLimit adj \<longrightarrow> spend_of (daily_spend_by_key s') (KeyID adj) (day_of e (now e)) \<le> KeyDailyLimit adj)
    \<and> (\<exists>k. tbl_get (api_keys s') (KeyID adj) = Some k
        \<and> (case credit_limit k of None \<Rightarrow> True | Some l \<Rightarrow> k_credit_used k \<le> l))"
proof -
  from ok obtain t where t: "applyTx e adj (s\<lparr>tx_aborted := False\<rparr>) = (Inr entry, t)"
      and s': "s' = t\<lparr>tx_aborted := tx_aborted s\<rparr>"
    by (cases rule: Apply_cases) auto
  from t show ?thesis
  proof (cases rule: applyTx_Inr)
    case (1 u amount bal sf)
    have am: "amount = Amount adj" using 1(2) p(3) by (auto simp: clamp_amount_def Let_def split: if_splits)
    have w: "wrap64 (- amount) = - amount" using a am by (simp add: wrap64_id)
    from 1(8) [OF p(2,4,1)] obtain k where k: "tbl_get (api_keys s) (KeyID adj) = Some k"
        "case credit_limit k of None \<Rightarrow> True | Some l \<Rightarrow> k_credit_used k + wrap64 (- Amount adj) \<le> l" by auto
    have "tbl_get (api_keys t) (KeyID adj) = Some (k\<lparr>k_credit_used := k_credit_used k + wrap64 (- Amount adj)\<rparr>)"
      using 1(4) p k by (simp add: adjusted_def key_after_def tbl_get_upd)
    with k(2) have "\<exists>k. tbl_get (api_keys s') (KeyID adj) = Some k
        \<and> (case credit_limit k of None \<Rightarrow> True | Some l \<Rightarrow> k_credit_used k \<le> l)"
      by (auto simp: s' split: option.splits)
    moreover have "daily_spend s' = spend_after True (daily_spend s) (UserID adj) (day_of e (now e)) (- amount)"
        "daily_spend_by_key s' = spend_after True (daily_spend_by_key s) (KeyID adj) (day_of e (now e)) (- amount)"
      using 1(4) p w by (auto simp: adjusted_def s')
    ultimately show ?thesis using 1(6,7) p a am w by (simp add: spend_of_after)
  qed
qed

definition demo_precharge :: Adjustment where
  "demo_precharge = zero_adjustment\<lparr>UserID := 1, Amount := -5, EntryType := LedgerConsume, RefType := ''api_key'',
     RefID := 7, RequestID := ''r1'', AffectsUsed := True, DailyLimit := 6, KeyID := 7, KeyPrechargeMode := True\<rparr>"

lemma demo_precharge_ok:
  "\<exists>entry s'. Apply demo_env demo_precharge demo_db = (Inr entry, s')"
  by (simp add: Apply_def Transaction_def applyTx_def lock_key_def applyKeyCredit_def select_user_def
      exec_healthy validateDailyLimits_def update_user_def add_spend_def writeLedgerEntry_def
      RecordClampShortfall_def sql_bind_def sql_return_def sql_fail_def clamp_amount_def noted_def
      demo_precharge_def zero_adjustment_def Let_def demo_db_def demo_key_def demo_user_def tbl_get_def
      wrap64_def i64_def MinInt64_def MaxInt64_def addDailySpend_def addKeyDailySpend_def spend_of_def
      ProjectedDailySpendExceeds_def has_entry_def demo_entry_def)
    (simp add: demo_env_def)

lemma precharge_respects_limits_witness:
  "\<exists>entry s'. Apply demo_env demo_precharge demo_db = (Inr entry, s')
     \<and> spend_of (daily_spend s') 1 (day_of demo_env (now demo_env)) \<le> 6"
proof -
  from demo_precharge_ok obtain entry s' where ok: "Apply demo_env demo_precharge demo_db = (Inr entry, s')" by blast
  from precharge_respects_limits [OF ok] ok show ?thesis
    by (auto simp: demo_precharge_def zero_adjustment_def i64_def MinInt64_def MaxInt64_def)
qed

section \<open>Redemption codes\<close>

lemma by_code_Cons: "by_code h ((i, r) # t) = (if r_codeHash r = h then Some (i, r) else by_code h t)"
  by (simp add: by_code_def)

lemma by_code_upd:
  assumes "by_code h t = Some (i, r)" "distinct (map fst t)" "\<And>r. r_codeHash (f r) = r_codeHash r"
  shows "by_code h (tbl_upd f i t) = Some (i, f r)"
  using assms
proof (induction t)
  case Nil
  then show ?case by (simp add: by_code_def)
next
  case (Cons x t)
  obtain j w where x: "x = (j, w)" by fastforce
  show ?case
  proof (cases "r_codeHash w = h")
    case True
    with Cons.prems show ?thesis by (simp add: x by_code_Cons)
  next
    case False
    with Cons.prems have t: "by_code h t = Some (i, r)" by (simp add: x by_code_Cons)
    then have "j \<noteq> i" using by_code_in [OF t] Cons.prems(2) x by force
    with False t Cons show ?thesis by (simp add: x by_code_Cons)
  qed
qed

lemma Redeem_ok:
  assumes "Redeem e uid code s = (Inr entry, s')"
  obtains i w t where "by_code (hash_key e code) (redemptions s) = Some (i, w)" "redeemable (now e) w"
    "applyTx e (redeem_adjustment uid i w) (use_code e uid i (s\<lparr>tx_aborted := False\<rparr>)) = (Inr entry, t)"
    "s' = t\<lparr>tx_aborted := tx_aborted s\<rparr>"
  using assms [unfolded Redeem_def]
proof (cases rule: Transaction_cases)
  case (commit x t)
  then have b: "redeem_body e uid (hash_key e code) (s\<lparr>tx_aborted := False\<rparr>) = (Inr entry, t)" by simp
  then show thesis by (rule redeem_body_Inr) (use commit that in auto)
qed auto

lemma redeem_refused:
  assumes "by_code (hash_key e code) (redemptions s) = Some (i, w)" "r_status w = RedemptionUsed"
    and r: "Redeem e uid code s = (r, s')"
  shows "(\<exists>err. r = Inl err) \<and> same_data s' s \<and> (healthy e \<longrightarrow> r = Inl ErrRedemptionUsed)"
proof -
  let ?b = "redeem_body e uid (hash_key e code) (s\<lparr>tx_aborted := False\<rparr>)"
  have b: "\<exists>err t. ?b = (Inl err, t) \<and> (healthy e \<longrightarrow> err = ErrRedemptionUsed)"
    using assms(1,2)
    by (auto simp: redeem_body_def exec_def stmt_error_def redeemable_def redemptionUnavailableReason_def
        EffectiveRedemptionStatus_def healthy_def)
  then show ?thesis using r by (auto simp: Redeem_def Transaction_def)
qed

text \<open>
  C20. A code is redeemed at most once. A redemption that goes through books exactly the code's
  credits to the user and leaves the code used; from then on every redemption of it, by anyone and
  under any faults, fails and writes nothing, and on a healthy database reports that the code is
  used.
\<close>

theorem code_redeemed_once:
  assumes ok: "Redeem e uid code s = (Inr entry, s')" and c: "codes_ok s"
    and later: "by_code (hash_key e' code') (redemptions t) = by_code (hash_key e code) (redemptions s')"
    and again: "Redeem e' uid' code' t = (r, t')"
  shows "(\<exists>i w. by_code (hash_key e code) (redemptions s) = Some (i, w) \<and> redeemable (now e) w
       \<and> le_amount entry = r_credits w \<and> le_userID entry = uid \<and> ledger s' = ledger s @ [entry])
    \<and> (\<exists>err. r = Inl err) \<and> same_data t' t \<and> (healthy e' \<longrightarrow> r = Inl ErrRedemptionUsed)"
proof -
  from ok obtain i w x where b: "by_code (hash_key e code) (redemptions s) = Some (i, w)" "redeemable (now e) w"
    and a: "applyTx e (redeem_adjustment uid i w) (use_code e uid i (s\<lparr>tx_aborted := False\<rparr>)) = (Inr entry, x)"
    and s': "s' = x\<lparr>tx_aborted := tx_aborted s\<rparr>"
    by (rule Redeem_ok)
  from a have eff: "le_amount entry = r_credits w \<and> le_userID entry = uid \<and> ledger s' = ledger s @ [entry]
      \<and> redemptions s' = redemptions (use_code e uid i s)"
    by (rule applyTx_Inr)
      (auto simp: adjusted_def s' use_code_def redeem_adjustment_def zero_adjustment_def clamp_amount_def Let_def
        split: if_splits)
  have "\<exists>w'. by_code (hash_key e code) (redemptions s') = Some (i, w') \<and> r_status w' = RedemptionUsed"
    using by_code_upd [OF b(1)] c eff by (auto simp: use_code_def codes_ok_def)
  then obtain w' where "by_code (hash_key e' code') (redemptions t) = Some (i, w')" "r_status w' = RedemptionUsed"
    using later by auto
  from redeem_refused [OF this again] b eff show ?thesis by auto
qed

lemma demo_redeem:
  "\<exists>entry s'. Redeem demo_env 1 ''CODE'' demo_db = (Inr entry, s')"
  by (simp add: Redeem_def redeem_body_def Transaction_def applyTx_def lock_key_def applyKeyCredit_def
      select_user_def exec_healthy validateDailyLimits_def update_user_def add_spend_def writeLedgerEntry_def
      RecordClampShortfall_def sql_bind_def sql_return_def sql_fail_def clamp_amount_def noted_def
      redeem_adjustment_def zero_adjustment_def Let_def demo_db_def demo_user_def tbl_get_def by_code_def
      use_code_def redeemable_def demo_code_def wrap64_def)
    (simp add: demo_env_def)

lemma code_redeemed_once_witness:
  "\<exists>entry s'. Redeem demo_env 1 ''CODE'' demo_db = (Inr entry, s') \<and> le_amount entry = 4
     \<and> fst (Redeem demo_env 1 ''CODE'' s') = Inl ErrRedemptionUsed"
proof -
  from demo_redeem obtain entry s' where ok: "Redeem demo_env 1 ''CODE'' demo_db = (Inr entry, s')" by blast
  obtain r t' where again: "Redeem demo_env 1 ''CODE'' s' = (r, t')" by fastforce
  have "codes_ok demo_db" by (simp add: codes_ok_def demo_db_def demo_code_def i64_def MinInt64_def MaxInt64_def)
  note one = code_redeemed_once [OF ok this refl again]
  have "by_code (hash_key demo_env ''CODE'') (redemptions demo_db) = Some (2, demo_code)"
    by (simp add: by_code_def demo_db_def demo_code_def demo_env_def)
  with one have "le_amount entry = r_credits demo_code" by auto
  moreover have "r = Inl ErrRedemptionUsed" using one demo_healthy by blast
  ultimately show ?thesis using ok again by (auto simp: demo_code_def)
qed

section \<open>Orphan precharges\<close>

text \<open>The only step that reports a duplicate is the insert, which sees the ledger the adjustment started from.\<close>

definition dup_only :: "bool \<Rightarrow> ledger_entry list \<Rightarrow> 'a sql \<Rightarrow> bool" where
  "dup_only P L m \<longleftrightarrow> (\<forall>s s'. ledger s = L \<longrightarrow> m s = (Inl ErrDuplicateEntry, s') \<longrightarrow> P)"

definition keeps :: "ledger_entry list \<Rightarrow> 'a sql \<Rightarrow> bool" where
  "keeps L m \<longleftrightarrow> (\<forall>s x s'. ledger s = L \<longrightarrow> m s = (Inr x, s') \<longrightarrow> ledger s' = L)"

lemma dup_only_bind:
  assumes "dup_only P L m" "keeps L m" "\<And>x. dup_only P L (f x)"
  shows "dup_only P L (sql_bind m f)"
  unfolding dup_only_def
proof (intro allI impI)
  fix s s' assume s: "ledger s = L" and b: "sql_bind m f s = (Inl ErrDuplicateEntry, s')"
  obtain r t where m: "m s = (r, t)" by fastforce
  show P
  proof (cases r)
    case (Inl err)
    with m b have "m s = (Inl ErrDuplicateEntry, s')" by (simp add: sql_bind_def)
    with s assms(1) show ?thesis unfolding dup_only_def by blast
  next
    case (Inr x)
    with m b have "f x t = (Inl ErrDuplicateEntry, s')" by (simp add: sql_bind_def)
    moreover have "ledger t = L" using assms(2) m s Inr unfolding keeps_def by blast
    ultimately show ?thesis using assms(3) [of x] unfolding dup_only_def by blast
  qed
qed

lemma keepsI: "(\<And>s x s'. m s = (Inr x, s') \<Longrightarrow> ledger s' = ledger s) \<Longrightarrow> keeps L m"
  by (simp add: keeps_def)

lemma keeps_lock: "keeps L (lock_key e adj)"
  by (rule keepsI) (drule lock_key_Inr, simp)

lemma keeps_select: "keeps L (select_user e uid)"
  by (rule keepsI) (drule select_user_Inr, simp)

lemma keeps_validate: "keeps L (validateDailyLimits e adj amount day)"
  by (rule keepsI) (drule validate_Inr(1), simp)

lemma keeps_key: "keeps L (applyKeyCredit e adj amount)"
  by (rule keepsI) (drule applyKeyCredit_Inr(1), simp)

lemma keeps_update: "keeps L (update_user e adj bal used amount)"
  by (rule keepsI) (drule update_user_Inr, simp)

lemma keeps_spend: "keeps L (add_spend e adj day delta)"
  by (rule keepsI) (drule add_spend_Inr, simp)

lemma keeps_return: "keeps L (sql_return x)" "keeps L (RecordClampShortfall sf)"
  by (auto simp: keeps_def sql_return_def RecordClampShortfall_def split: option.split)

lemmas keeps_steps = keeps_lock keeps_select keeps_validate keeps_key keeps_update keeps_spend keeps_return

lemma dup_only_steps:
  "dup_only P L (lock_key e adj)" "dup_only P L (applyKeyCredit e adj amount)" "dup_only P L (select_user e uid)"
  "dup_only P L (RecordClampShortfall sf)" "dup_only P L (validateDailyLimits e adj amount day)"
  "dup_only P L (update_user e adj bal used amount)" "dup_only P L (add_spend e adj day delta)"
  "dup_only P L (sql_return x)"
  by (auto simp: dup_only_def lock_key_def applyKeyCredit_def select_user_def RecordClampShortfall_def
      validateDailyLimits_def update_user_def add_spend_def addDailySpend_def addKeyDailySpend_def
      exec_def stmt_error_def sql_return_def sql_bind_def Let_def split: if_splits option.splits)

lemma dup_only_insert:
  "dup_only (\<exists>x \<in> set L. le_requestID x = RequestID adj \<and> le_entryType x = EntryType adj) L
     (writeLedgerEntry e adj amount bal dep int_id)"
  by (auto simp: dup_only_def writeLedgerEntry_def exec_def stmt_error_def has_entry_def Let_def split: if_splits)

lemma applyTx_duplicate:
  assumes "applyTx e adj s = (Inl ErrDuplicateEntry, s')"
  shows "has_entry s (RequestID adj) (EntryType adj)"
proof -
  let ?P = "\<exists>x \<in> set (ledger s). le_requestID x = RequestID adj \<and> le_entryType x = EntryType adj"
  have f: "dup_only ?P (ledger s) (sql_fail err)" if "clamp_amount adj b = Inl err" for b err
    using that by (auto simp: dup_only_def clamp_amount_def sql_fail_def Let_def split: if_splits)
  have i: "dup_only ?P (ledger s) (writeLedgerEntry e (noted adj sf) amount bal dep int_id)" for sf amount bal dep int_id
    using dup_only_insert [of "ledger s" "noted adj sf"] by simp
  have "dup_only ?P (ledger s) (applyTx e adj)"
    unfolding applyTx_def
    by (intro dup_only_bind dup_only_steps keeps_steps)
      (auto simp: Let_def f i keeps_steps dup_only_steps intro!: dup_only_bind split: sum.split prod.split)
  with assms show ?thesis by (auto simp: dup_only_def has_entry_def)
qed

lemma Apply_duplicate:
  assumes "Apply e adj s = (Inl ErrDuplicateEntry, s')"
  shows "has_entry s (RequestID adj) (EntryType adj)"
proof -
  obtain r t where a: "applyTx e adj (s\<lparr>tx_aborted := False\<rparr>) = (r, t)" by fastforce
  then have "r = Inl ErrDuplicateEntry"
    using assms by (auto simp: Apply_def Transaction_def split: sum.splits if_splits)
  with applyTx_duplicate a show ?thesis by (fastforce simp: has_entry_def)
qed

text \<open>One orphan: it is refunded in full by one new entry, or found refunded already.\<close>

definition refund_of :: "OrphanPrecharge \<Rightarrow> ledger_entry \<Rightarrow> bool" where
  "refund_of p x \<longleftrightarrow> le_entryType x = LedgerRefund \<and> le_requestID x = op_requestID p
     \<and> le_userID x = op_userID p \<and> le_amount x = op_amount p"

lemma refundOrphan_Inr:
  assumes "refundOrphan e p s = (Inr u, s')"
  shows "\<exists>x. ledger s' = ledger s @ [x] \<and> refund_of p x"
proof -
  from assms obtain entry t where a: "Apply e (refund_adjustment p) s = (Inr entry, t)"
      and s': "s' = write_orphan_trace e p t"
    by (auto simp: refundOrphan_def split: if_splits prod.splits sum.splits)
  from a obtain x where x: "applyTx e (refund_adjustment p) (s\<lparr>tx_aborted := False\<rparr>) = (Inr entry, x)"
      "ledger t = ledger x" by (cases rule: Apply_cases) auto
  have "ledger x = ledger s @ [entry] \<and> refund_of p entry"
    using x(1)
    by (rule applyTx_Inr)
      (auto simp: adjusted_def refund_of_def refund_adjustment_def zero_adjustment_def clamp_amount_def Let_def
        split: if_splits)
  then show ?thesis using x(2) s' by (simp add: write_orphan_trace_def)
qed

lemma refundOrphan_duplicate:
  assumes "refundOrphan e p s = (Inl ErrDuplicateEntry, s')"
  shows "has_entry s (op_requestID p) LedgerRefund \<and> ledger s' = ledger s"
proof -
  from assms have a: "Apply e (refund_adjustment p) s = (Inl ErrDuplicateEntry, s')"
    by (auto simp: refundOrphan_def split: if_splits prod.splits sum.splits)
  from Apply_duplicate [OF a] refused_keeps_data [OF a] show ?thesis
    by (simp add: refund_adjustment_def zero_adjustment_def)
qed

text \<open>The loop: the new entries are refunds of the orphans it went through, one each at most.\<close>

lemma refund_all_None:
  assumes "refund_all es ps res s = ((None, res'), s')"
  shows "\<exists>new. ledger s' = ledger s @ new \<and> (\<forall>x \<in> set new. \<exists>p \<in> set ps. refund_of p x)
    \<and> (\<forall>p \<in> set ps. finalised (ledger s') (op_requestID p))
    \<and> Refunded res' = Refunded res + int (length new)
    \<and> Refunded res' + AlreadyHandled res' = Refunded res + AlreadyHandled res + int (length ps)
    \<and> Scanned res' = Scanned res
    \<and> RefundedCredits res' = foldl (\<lambda>c x. wrap64 (c + le_amount x)) (RefundedCredits res) new"
  using assms
proof (induction ps arbitrary: es res s)
  case Nil
  then show ?case by simp
next
  case (Cons p ps)
  obtain r t where r: "refundOrphan (es 0) p s = (r, t)" by fastforce
  show ?case
  proof (cases r)
    case (Inr u)
    from refundOrphan_Inr [of "es 0" p s u t] r Inr obtain x where x: "ledger t = ledger s @ [x]" "refund_of p x" by auto
    from Cons.IH [of _ _ t] Cons.prems r Inr obtain new where n: "ledger s' = ledger t @ new"
        "\<forall>x \<in> set new. \<exists>p \<in> set ps. refund_of p x" "\<forall>p \<in> set ps. finalised (ledger s') (op_requestID p)"
        "Refunded res' = Refunded res + 1 + int (length new)"
        "Refunded res' + AlreadyHandled res' = Refunded res + 1 + AlreadyHandled res + int (length ps)"
        "Scanned res' = Scanned res"
        "RefundedCredits res' = foldl (\<lambda>c x. wrap64 (c + le_amount x)) (wrap64 (RefundedCredits res + op_amount p)) new"
      by fastforce
    have "finalised (ledger s') (op_requestID p)"
      using n(1) x by (auto simp: finalised_def refund_of_def)
    with n x show ?thesis by (intro exI [of _ "x # new"]) (auto simp: refund_of_def)
  next
    case (Inl err)
    with Cons.prems r have d: "err = ErrDuplicateEntry" by (auto split: if_splits)
    from refundOrphan_duplicate [of "es 0" p s t] r Inl d
    have h: "has_entry s (op_requestID p) LedgerRefund" "ledger t = ledger s" by auto
    from Cons.IH [of _ _ t] Cons.prems r Inl d obtain new where n: "ledger s' = ledger t @ new"
        "\<forall>x \<in> set new. \<exists>p \<in> set ps. refund_of p x" "\<forall>p \<in> set ps. finalised (ledger s') (op_requestID p)"
        "Refunded res' = Refunded res + int (length new)"
        "Refunded res' + AlreadyHandled res' = Refunded res + (AlreadyHandled res + 1) + int (length ps)"
        "Scanned res' = Scanned res"
        "RefundedCredits res' = foldl (\<lambda>c x. wrap64 (c + le_amount x)) (RefundedCredits res) new"
      by fastforce
    have "finalised (ledger s') (op_requestID p)"
      using n(1) h by (auto simp: finalised_def has_entry_def)
    with n h show ?thesis by (intro exI [of _ new]) auto
  qed
qed

text \<open>
  C21. The recovery is complete and pays once. When it ends without an error, no orphan older than
  the threshold is left; the entries it has written are refunds, each the full amount of one orphan
  to its user, as many as it reports; what it found is what it refunded plus what was refunded
  already.
\<close>

theorem orphan_cleanup_complete:
  assumes "CleanupOrphanPrecharges e es olderThan s = ((None, res), s')"
  shows "\<exists>new. ledger s' = ledger s @ new \<and> Refunded res = int (length new)
    \<and> (\<forall>x \<in> set new. le_entryType x = LedgerRefund
         \<and> (\<exists>c \<in> set (ledger s). is_orphan (ledger s) (now e + wrap64 (- olderThan)) c
              \<and> le_requestID x = le_requestID c \<and> le_userID x = le_userID c \<and> le_amount x = - le_amount c))
    \<and> filter (is_orphan (ledger s') (now e + wrap64 (- olderThan))) (ledger s') = []
    \<and> Scanned res = Refunded res + AlreadyHandled res"
proof -
  let ?cut = "now e + wrap64 (- olderThan)"
  let ?ps = "map orphan_of (filter (is_orphan (ledger s) ?cut) (ledger s))"
  have "\<not> stmt_fails e SelectOrphans"
    using assms by (auto simp: CleanupOrphanPrecharges_def ScanOrphanPrecharges_def exec_def stmt_error_def Let_def)
  with assms have "refund_all es ?ps \<lparr>Scanned = int (length ?ps), Refunded = 0, AlreadyHandled = 0,
      RefundedCredits = 0\<rparr> s = ((None, res), s')"
    by (simp add: CleanupOrphanPrecharges_def ScanOrphanPrecharges_def exec_def Let_def)
  from refund_all_None [OF this] obtain new where n: "ledger s' = ledger s @ new"
      "\<forall>x \<in> set new. \<exists>p \<in> set ?ps. refund_of p x" "\<forall>p \<in> set ?ps. finalised (ledger s') (op_requestID p)"
      "Refunded res = int (length new)" "Refunded res + AlreadyHandled res = int (length ?ps)"
      "Scanned res = int (length ?ps)" by auto
  have "\<not> is_orphan (ledger s') ?cut c" if "c \<in> set (ledger s')" for c
  proof (cases "c \<in> set (ledger s)")
    case False
    with that n(1,2) show ?thesis by (auto simp: is_orphan_def refund_of_def)
  next
    case True
    show ?thesis
    proof
      assume o: "is_orphan (ledger s') ?cut c"
      then have "is_orphan (ledger s) ?cut c" using n(1) by (auto simp: is_orphan_def finalised_def)
      with True n(3) have "finalised (ledger s') (le_requestID c)" by (auto simp: orphan_of_def)
      with o show False by (simp add: is_orphan_def)
    qed
  qed
  then have "filter (is_orphan (ledger s') ?cut) (ledger s') = []" by (simp add: filter_empty_conv)
  moreover have "\<forall>x \<in> set new. le_entryType x = LedgerRefund \<and> (\<exists>c \<in> set (ledger s). is_orphan (ledger s) ?cut c
      \<and> le_requestID x = le_requestID c \<and> le_userID x = le_userID c \<and> le_amount x = - le_amount c)"
    using n(2) by (fastforce simp: refund_of_def orphan_of_def)
  ultimately show ?thesis using n by (intro exI [of _ new]) simp
qed

definition demo_consume :: ledger_entry where
  "demo_consume = demo_entry\<lparr>le_ID := 2, le_entryType := LedgerConsume, le_amount := -5, le_balanceAfter := 5,
     le_refType := ''api_key'', le_refID := 7, le_requestID := ''r1'', le_operatorID := 0\<rparr>"

definition demo_orphan_db :: db where
  "demo_orphan_db = demo_db\<lparr>users := [(1, demo_user\<lparr>credit_balance := 5, u_credit_used := 5\<rparr>)],
     api_keys := [(7, demo_key\<lparr>k_credit_used := 5\<rparr>)], ledger := [demo_entry, demo_consume],
     daily_spend := [((1, 0), 5)], daily_spend_by_key := [((7, 0), 5)], ledger_seq := 2\<rparr>"

lemma demo_scan:
  "ScanOrphanPrecharges demo_env DefaultOrphanPrechargeThreshold demo_orphan_db
     = (Inr [orphan_of demo_consume], demo_orphan_db)"
  by (simp add: ScanOrphanPrecharges_def exec_healthy demo_orphan_db_def is_orphan_def demo_consume_def
      demo_entry_def finalised_def demo_db_def DefaultOrphanPrechargeThreshold_def demo_env_def exec_def
      Hour_def Minute_def Second_def wrap64_def)

lemma demo_cleanup:
  "\<exists>res s'. CleanupOrphanPrecharges demo_env (\<lambda>_. demo_env) DefaultOrphanPrechargeThreshold demo_orphan_db
     = ((None, res), s') \<and> Refunded res = 1"
proof -
  have d: "day_of demo_env (now demo_env) = 0" "commit_res demo_env = Committed"
    by (simp_all add: demo_env_def Hour_def Minute_def Second_def)
  have "\<exists>entry t. Apply demo_env (refund_adjustment (orphan_of demo_consume)) demo_orphan_db = (Inr entry, t)"
    by (simp add: Apply_def Transaction_def applyTx_def lock_key_def applyKeyCredit_def select_user_def
        exec_healthy validateDailyLimits_def update_user_def add_spend_def writeLedgerEntry_def
        RecordClampShortfall_def sql_bind_def sql_return_def sql_fail_def clamp_amount_def noted_def
        refund_adjustment_def orphan_of_def demo_consume_def zero_adjustment_def Let_def demo_orphan_db_def
        demo_db_def demo_key_def demo_user_def tbl_get_def wrap64_def i64_def MinInt64_def MaxInt64_def
        addDailySpend_def addKeyDailySpend_def spend_of_def has_entry_def demo_entry_def d)
  then obtain entry t where a: "Apply demo_env (refund_adjustment (orphan_of demo_consume)) demo_orphan_db
      = (Inr entry, t)" by blast
  have "0 \<le> op_amount (orphan_of demo_consume)" by (simp add: orphan_of_def demo_consume_def)
  with a show ?thesis by (simp add: CleanupOrphanPrecharges_def demo_scan refundOrphan_def Let_def)
qed

lemma orphan_cleanup_complete_witness:
  "\<exists>res s'. CleanupOrphanPrecharges demo_env (\<lambda>_. demo_env) DefaultOrphanPrechargeThreshold demo_orphan_db
     = ((None, res), s') \<and> length (ledger s') = 3"
proof -
  from demo_cleanup obtain res s' where c: "CleanupOrphanPrecharges demo_env (\<lambda>_. demo_env)
      DefaultOrphanPrechargeThreshold demo_orphan_db = ((None, res), s')" "Refunded res = 1" by blast
  from orphan_cleanup_complete [OF c(1)] c show ?thesis by (auto simp: demo_orphan_db_def)
qed

end
