(* ===== verification/Session.thy ===== *)
theory Session
  imports BillingProps
begin

text \<open>
  \<^verbatim>\<open>server/internal/relay/session.go\<close>: the billing session of one request, a state machine that
  precharges, then settles or refunds. Every method holds the session's mutex to its end, so a
  method is one step; between the steps of a session the rest of the program runs.
\<close>

section \<open>The session (session.go)\<close>

datatype sessionState = stateInit | statePrecharged | stateSettled | stateRefunded | stateSettleFailed

text \<open>The states advance one way, in the order of the Go constants' phases.\<close>

fun state_phase :: "sessionState \<Rightarrow> nat" where
  "state_phase stateInit = 0"
| "state_phase statePrecharged = 1"
| "state_phase stateSettled = 2"
| "state_phase stateRefunded = 3"
| "state_phase stateSettleFailed = 4"

lemma state_phase_inj: "state_phase a = state_phase b \<Longrightarrow> a = b"
  by (cases a; cases b) auto

instantiation sessionState :: linorder
begin

definition less_eq_sessionState :: "sessionState \<Rightarrow> sessionState \<Rightarrow> bool" where
  "less_eq_sessionState a b \<longleftrightarrow> state_phase a \<le> state_phase b"

definition less_sessionState :: "sessionState \<Rightarrow> sessionState \<Rightarrow> bool" where
  "less_sessionState a b \<longleftrightarrow> state_phase a < state_phase b"

instance
  by standard (auto simp: less_eq_sessionState_def less_sessionState_def dest: state_phase_inj)

end

record BillingSession =
  state :: sessionState
  requestID :: string
  userID :: row_id
  keyID :: row_id
  precharged :: credits
  dailyLimit :: credits
  keyDailyLimit :: credits

definition NewBillingSession :: "string \<Rightarrow> row_id \<Rightarrow> api_key_row \<Rightarrow> credits \<Rightarrow> BillingSession" where
  "NewBillingSession rid kid key limit = \<lparr>state = stateInit, requestID = rid, userID = k_userID key,
     keyID = kid, precharged = 0, dailyLimit = limit, keyDailyLimit = k_dailySpendLimit key\<rparr>"

definition precharge_adjustment :: "BillingSession \<Rightarrow> credits \<Rightarrow> Adjustment" where
  "precharge_adjustment b amount = zero_adjustment
     \<lparr>UserID := userID b, Amount := wrap64 (- amount), EntryType := LedgerConsume,
      RefType := ''api_key'', RefID := keyID b, RequestID := requestID b, AffectsUsed := True,
      Note := utf8 [0xE8, 0xAF, 0xB7, 0xE6, 0xB1, 0x82, 0xE9, 0xA2, 0x84, 0xE6, 0x89, 0xA3], DailyLimit := dailyLimit b, KeyID := keyID b, KeyDailyLimit := keyDailyLimit b,
      KeyPrechargeMode := True\<rparr>"

definition settle_adjustment :: "BillingSession \<Rightarrow> credits \<Rightarrow> Adjustment" where
  "settle_adjustment b final = zero_adjustment
     \<lparr>UserID := userID b, Amount := wrap64 (- wrap64 (final - precharged b)), EntryType := LedgerSettleAdjust,
      RefType := ''api_key'', RefID := keyID b, RequestID := requestID b, AffectsUsed := True,
      ClampToBalance := True, Note := utf8 [0xE7, 0xBB, 0x93, 0xE7, 0xAE, 0x97, 0xE5, 0xB7, 0xAE, 0xE9, 0xA2, 0x9D], KeyID := keyID b\<rparr>"

definition session_refund_adjustment :: "BillingSession \<Rightarrow> Adjustment" where
  "session_refund_adjustment b = zero_adjustment
     \<lparr>UserID := userID b, Amount := precharged b, EntryType := LedgerRefund,
      RefType := ''api_key'', RefID := keyID b, RequestID := requestID b, AffectsUsed := True,
      Note := utf8 [0xE8, 0xAF, 0xB7, 0xE6, 0xB1, 0x82, 0xE5, 0xA4, 0xB1, 0xE8, 0xB4, 0xA5, 0xE9, 0x80, 0x80, 0xE6, 0xAC, 0xBE], KeyID := keyID b\<rparr>"

type_synonym outcome = "error option \<times> BillingSession \<times> db"

definition Precharge :: "env \<Rightarrow> credits \<Rightarrow> BillingSession \<Rightarrow> db \<Rightarrow> outcome" where
  "Precharge e amount b s =
     (if state b \<noteq> stateInit then (Some ErrSessionState, b, s)
      else if amount < 0 then (Some ErrNegativePrecharge, b, s)
      else case Apply e (precharge_adjustment b amount) s of
          (Inl err, s') \<Rightarrow> (Some err, b, s')
        | (Inr entry, s') \<Rightarrow> (None, b\<lparr>precharged := amount, state := statePrecharged\<rparr>, s'))"

text \<open>
  The two statistics updates after a settlement run outside the transaction; a failure of theirs is
  only logged.
\<close>

definition count_request :: "env \<Rightarrow> BillingSession \<Rightarrow> db \<Rightarrow> db" where
  "count_request e b s =
     (let s = (if stmt_fails e UpdateRequestCount
                  \<or> (\<exists>u \<in> set_option (tbl_get (users s) (userID b)). \<not> i64 (request_count u + 1)) then s
               else s\<lparr>users := tbl_upd (\<lambda>u. u\<lparr>request_count := request_count u + 1\<rparr>) (userID b) (users s)\<rparr>)
      in if stmt_fails e UpdateKeyLastUsed then s
         else s\<lparr>api_keys := tbl_upd (\<lambda>k. k\<lparr>k_lastUsedAt := Some (now e)\<rparr>) (keyID b) (api_keys s)\<rparr>)"

definition Settle :: "env \<Rightarrow> credits \<Rightarrow> BillingSession \<Rightarrow> db \<Rightarrow> outcome" where
  "Settle e final b s =
     (if state b \<noteq> statePrecharged then (None, b, s)
      else case Apply e (settle_adjustment b final) s of
          (Inl err, s') \<Rightarrow>
            if err \<noteq> ErrDuplicateEntry then (Some err, b\<lparr>state := stateSettleFailed\<rparr>, s')
            else (None, b\<lparr>state := stateSettled\<rparr>, count_request e b s')
        | (Inr entry, s') \<Rightarrow> (None, b\<lparr>state := stateSettled\<rparr>, count_request e b s'))"

definition Refund :: "env \<Rightarrow> BillingSession \<Rightarrow> db \<Rightarrow> outcome" where
  "Refund e b s =
     (if state b \<noteq> statePrecharged then (None, b, s)
      else if precharged b > 0 then
        (case Apply e (session_refund_adjustment b) s of
          (Inl err, s') \<Rightarrow>
            if err \<noteq> ErrDuplicateEntry then (Some err, b, s')
            else (None, b\<lparr>state := stateRefunded\<rparr>, s')
        | (Inr entry, s') \<Rightarrow> (None, b\<lparr>state := stateRefunded\<rparr>, s'))
      else (None, b\<lparr>state := stateRefunded\<rparr>, s))"

definition EnsureFinal :: "env \<Rightarrow> BillingSession \<Rightarrow> db \<Rightarrow> outcome" where
  "EnsureFinal e b s =
     (if state b = statePrecharged then (case Refund e b s of (_, b', s') \<Rightarrow> (None, b', s')) else (None, b, s))"

section \<open>What a session leaves in the ledger\<close>

definition trail :: "string \<Rightarrow> db \<Rightarrow> (LedgerEntryType \<times> credits) list" where
  "trail rid s = map (\<lambda>x. (le_entryType x, le_amount x)) (filter (\<lambda>x. le_requestID x = rid) (ledger s))"

definition net :: "string \<Rightarrow> db \<Rightarrow> credits" where
  "net rid s = sum_list (map snd (trail rid s))"

lemma trail_snoc:
  "ledger s' = ledger s @ [x] \<Longrightarrow> le_requestID x = rid \<Longrightarrow>
     trail rid s' = trail rid s @ [(le_entryType x, le_amount x)]"
  by (simp add: trail_def)

lemma trail_same: "ledger s' = ledger s \<Longrightarrow> trail rid s' = trail rid s"
  by (simp add: trail_def)

lemma has_entry_trail: "has_entry s rid t \<longleftrightarrow> t \<in> fst ` set (trail rid s)"
  by (force simp: has_entry_def trail_def)

lemma ledger_count_request [simp]: "ledger (count_request e b s) = ledger s"
  by (simp add: count_request_def Let_def)

lemma books_users:
  assumes "books s" "ledger s' = ledger s" "ledger_seq s' = ledger_seq s"
    and "\<And>uid. tbl_get (users s') uid = None \<longleftrightarrow> tbl_get (users s) uid = None"
    and "\<And>uid u. tbl_get (users s') uid = Some u \<Longrightarrow> \<exists>v. tbl_get (users s) uid = Some v
           \<and> credit_balance u = credit_balance v \<and> u_credit_used u = u_credit_used v"
  shows "books s'"
  unfolding books_def
proof (intro conjI)
  show "balanced s'"
    unfolding balanced_def
  proof (intro allI impI)
    fix uid u assume "tbl_get (users s') uid = Some u"
    with assms(5) obtain v where v: "tbl_get (users s) uid = Some v" "credit_balance u = credit_balance v"
      "u_credit_used u = u_credit_used v" by blast
    from balancedD [OF _ v(1)] assms(1) v(2,3)
    show "credit_balance u = sum_where (user_entries uid) le_amount (ledger s') \<and> 0 \<le> credit_balance u
        \<and> i64 (credit_balance u) \<and> u_credit_used u = wrap64 (- sum_where (call_entries uid) le_amount (ledger s'))"
      by (simp add: books_def assms(2))
  qed
  show "ledger_ok s'" using assms(1,4) unfolding books_def ledger_ok_def assms(2,3) by blast
  show "running_ok s'" using assms(1,2) by (simp add: books_def running_ok_def)
qed

lemma books_count_request [simp]:
  assumes "books s"
  shows "books (count_request e b s)"
  by (rule books_users [OF assms]) (auto simp: count_request_def Let_def tbl_get_upd split: if_splits)

text \<open>
  What a session relies on of the billing service: an adjustment either leaves the log as it was and
  reports an error, or appends one entry for its request and type, which had none, with the exact
  amount unless clamping was asked for; and a duplicate is reported only when there is one.
\<close>

locale ledger_service =
  fixes post :: "'e \<Rightarrow> Adjustment \<Rightarrow> 's \<Rightarrow> (error + ledger_entry) \<times> 's"
    and log :: "'s \<Rightarrow> ledger_entry list"
  assumes post_effect: "post e adj s = (r, s') \<Longrightarrow>
      (log s' = log s \<and> (\<exists>err. r = Inl err))
    \<or> (\<exists>x. log s' = log s @ [x] \<and> le_requestID x = RequestID adj \<and> le_entryType x = EntryType adj
         \<and> (RequestID adj \<noteq> [] \<longrightarrow> (\<forall>y \<in> set (log s). \<not> (le_requestID y = RequestID adj \<and> le_entryType y = EntryType adj)))
         \<and> (ClampToBalance adj \<or> le_amount x = Amount adj)
         \<and> (r = Inr x \<or> r = Inl ErrCommit))"
  and post_duplicate: "post e adj s = (Inl ErrDuplicateEntry, s') \<Longrightarrow>
      \<exists>y \<in> set (log s). le_requestID y = RequestID adj \<and> le_entryType y = EntryType adj"
begin

definition log_trail :: "string \<Rightarrow> 's \<Rightarrow> (LedgerEntryType \<times> credits) list" where
  "log_trail rid s = map (\<lambda>x. (le_entryType x, le_amount x)) (filter (\<lambda>x. le_requestID x = rid) (log s))"

lemma types_log_trail:
  "t \<in> fst ` set (log_trail rid s) \<longleftrightarrow> (\<exists>x \<in> set (log s). le_requestID x = rid \<and> le_entryType x = t)"
  by (force simp: log_trail_def)

lemma post_trail:
  assumes "post e adj s = (r, s')" "RequestID adj = rid" "rid \<noteq> []"
  shows "(log_trail rid s' = log_trail rid s \<and> (\<exists>err. r = Inl err))
    \<or> (EntryType adj \<notin> fst ` set (log_trail rid s)
        \<and> (\<exists>a. log_trail rid s' = log_trail rid s @ [(EntryType adj, a)] \<and> (ClampToBalance adj \<or> a = Amount adj))
        \<and> (r = Inl ErrCommit \<or> (\<exists>entry. r = Inr entry)))"
proof -
  from post_effect [OF assms(1)] consider
      (none) "log s' = log s" "\<exists>err. r = Inl err"
    | (one) x where "log s' = log s @ [x]" "le_requestID x = RequestID adj" "le_entryType x = EntryType adj"
        "\<forall>y \<in> set (log s). \<not> (le_requestID y = RequestID adj \<and> le_entryType y = EntryType adj)"
        "ClampToBalance adj \<or> le_amount x = Amount adj" "r = Inr x \<or> r = Inl ErrCommit"
    using assms(2,3) by blast
  then show ?thesis
  proof cases
    case none
    then show ?thesis by (simp add: log_trail_def)
  next
    case one
    have "log_trail rid s' = log_trail rid s @ [(EntryType adj, le_amount x)]"
      using one(1,2,3) assms(2) by (simp add: log_trail_def)
    moreover have "EntryType adj \<notin> fst ` set (log_trail rid s)"
      using one(4) assms(2) unfolding types_log_trail by auto
    ultimately show ?thesis using one(5,6) by blast
  qed
qed

lemma post_duplicate_trail:
  "post e adj s = (Inl ErrDuplicateEntry, s') \<Longrightarrow> EntryType adj \<in> fst ` set (log_trail (RequestID adj) s)"
  unfolding types_log_trail by (rule post_duplicate)

lemma other_trail:
  assumes "post e adj s = (r, s')" "RequestID adj \<noteq> rid"
  shows "log_trail rid s' = log_trail rid s"
  using post_effect [OF assms(1)] assms(2) by (auto simp: log_trail_def)

end

lemma Apply_effect:
  assumes "Apply e adj s = (r, s')"
  shows "(ledger s' = ledger s \<and> (\<exists>err. r = Inl err))
    \<or> (\<exists>x. ledger s' = ledger s @ [x] \<and> le_requestID x = RequestID adj \<and> le_entryType x = EntryType adj
         \<and> (RequestID adj \<noteq> [] \<longrightarrow> (\<forall>y \<in> set (ledger s). \<not> (le_requestID y = RequestID adj \<and> le_entryType y = EntryType adj)))
         \<and> (ClampToBalance adj \<or> le_amount x = Amount adj)
         \<and> (r = Inr x \<or> r = Inl ErrCommit))"
proof -
  have eff: "ledger t = ledger s @ [x] \<and> le_requestID x = RequestID adj \<and> le_entryType x = EntryType adj
      \<and> (RequestID adj \<noteq> [] \<longrightarrow> (\<forall>y \<in> set (ledger s). \<not> (le_requestID y = RequestID adj \<and> le_entryType y = EntryType adj)))
      \<and> (ClampToBalance adj \<or> le_amount x = Amount adj)"
    if "applyTx e adj (s\<lparr>tx_aborted := False\<rparr>) = (Inr x, t)" for x t
    using that
  proof (rule applyTx_Inr)
    fix u amount bal sf
    assume "clamp_amount adj (credit_balance u) = Inr (amount, bal, sf)"
      and "adjusted e adj u amount bal sf x (s\<lparr>tx_aborted := False\<rparr>) t"
      and "RequestID adj \<noteq> [] \<longrightarrow> \<not> has_entry (s\<lparr>tx_aborted := False\<rparr>) (RequestID adj) (EntryType adj)"
    then show ?thesis
      by (auto simp: adjusted_def has_entry_def clamp_amount_def Let_def split: if_splits)
  qed
  from assms show ?thesis
  proof (cases rule: Apply_cases)
    case (ok entry t)
    with eff [OF ok(2)] show ?thesis by simp
  next
    case (lost entry t)
    with eff [OF lost(2)] show ?thesis by simp
  qed (auto simp: mark_depleted_def same_data_def)
qed

interpretation billing: ledger_service Apply ledger
  by unfold_locales (fact Apply_effect, use Apply_duplicate has_entry_def in blast)

lemma log_trail_ledger [simp]: "billing.log_trail = trail"
  by (intro ext) (simp add: billing.log_trail_def trail_def)

lemmas Apply_trail = billing.post_trail [unfolded log_trail_ledger]
lemmas Apply_duplicate_trail = billing.post_duplicate_trail [unfolded log_trail_ledger]

section \<open>Runs of a session\<close>

text \<open>
  The calls the relay makes: a session is created for a request that has no entries yet, its methods are called with any
  faults, and between two calls the rest of the program may do anything to the database that keeps the books and books
  nothing under the session's request. No settlement is tried once a refund has been: the flag records that. The type does not
  enforce this; arbitrary callers are the subject of \<open>session_use\<close> below.
\<close>

inductive session_run :: "BillingSession \<Rightarrow> bool \<Rightarrow> db \<Rightarrow> bool" where
  create: "books s \<Longrightarrow> rid \<noteq> [] \<Longrightarrow> trail rid s = []
    \<Longrightarrow> session_run (NewBillingSession rid kid key limit) False s"
| others: "session_run b rf s \<Longrightarrow> books s' \<Longrightarrow> trail (requestID b) s' = trail (requestID b) s
    \<Longrightarrow> session_run b rf s'"
| precharge: "session_run b rf s \<Longrightarrow> i64 amount \<Longrightarrow> Precharge e amount b s = (err, b', s')
    \<Longrightarrow> session_run b' rf s'"
| settle: "session_run b False s \<Longrightarrow> i64 final \<Longrightarrow> Settle e final b s = (err, b', s')
    \<Longrightarrow> session_run b' False s'"
| refund: "session_run b rf s \<Longrightarrow> Refund e b s = (err, b', s') \<Longrightarrow> session_run b' True s'"
| ensure: "session_run b rf s \<Longrightarrow> EnsureFinal e b s = (err, b', s') \<Longrightarrow> session_run b' True s'"

inductive_cases session_run_initE: "session_run b rf s"

definition outcome_ok :: "BillingSession \<Rightarrow> bool \<Rightarrow> (LedgerEntryType \<times> credits) list \<Rightarrow> bool" where
  "outcome_ok b rf t \<longleftrightarrow> (case state b of
       stateInit \<Rightarrow> t = [] \<or> (\<exists>c. t = [(LedgerConsume, c)])
     | statePrecharged \<Rightarrow> t = [(LedgerConsume, - precharged b)]
         \<or> (rf \<and> t = [(LedgerConsume, - precharged b), (LedgerRefund, precharged b)])
     | stateSettled \<Rightarrow> (\<exists>a. t = [(LedgerConsume, - precharged b), (LedgerSettleAdjust, a)])
     | stateRefunded \<Rightarrow> t = [(LedgerConsume, - precharged b), (LedgerRefund, precharged b)]
         \<or> (precharged b = 0 \<and> t = [(LedgerConsume, 0)])
     | stateSettleFailed \<Rightarrow> t = [(LedgerConsume, - precharged b)]
         \<or> (\<exists>a. t = [(LedgerConsume, - precharged b), (LedgerSettleAdjust, a)]))"

definition session_inv :: "BillingSession \<Rightarrow> bool \<Rightarrow> db \<Rightarrow> bool" where
  "session_inv b rf s \<longleftrightarrow> books s \<and> requestID b \<noteq> [] \<and> 0 \<le> precharged b \<and> i64 (precharged b)
     \<and> outcome_ok b rf (trail (requestID b) s)"

lemma adjustment_fields [simp]:
  "RequestID (precharge_adjustment b a) = requestID b" "EntryType (precharge_adjustment b a) = LedgerConsume"
  "Amount (precharge_adjustment b a) = wrap64 (- a)" "ClampToBalance (precharge_adjustment b a) = False"
  "RequestID (settle_adjustment b f) = requestID b" "EntryType (settle_adjustment b f) = LedgerSettleAdjust"
  "Amount (settle_adjustment b f) = wrap64 (- wrap64 (f - precharged b))"
  "ClampToBalance (settle_adjustment b f) = True"
  "RequestID (session_refund_adjustment b) = requestID b" "EntryType (session_refund_adjustment b) = LedgerRefund"
  "Amount (session_refund_adjustment b) = precharged b" "ClampToBalance (session_refund_adjustment b) = False"
  "UserID (settle_adjustment b f) = userID b"
  by (simp_all add: precharge_adjustment_def settle_adjustment_def session_refund_adjustment_def zero_adjustment_def)

lemma sound_session [simp]:
  "sound_adj (precharge_adjustment b a)" "sound_adj (settle_adjustment b f)"
  "i64 (precharged b) \<Longrightarrow> sound_adj (session_refund_adjustment b)"
  by (simp_all add: sound_adj_def call_type_def precharge_adjustment_def settle_adjustment_def
      session_refund_adjustment_def zero_adjustment_def)

lemma inv_precharge:
  assumes i: "session_inv b rf s" and a: "i64 amount" and p: "Precharge e amount b s = (err, b', s')"
  shows "session_inv b' rf s'"
proof (cases "state b \<noteq> stateInit \<or> amount < 0")
  case True
  then show ?thesis using i p by (auto simp: Precharge_def split: if_splits)
next
  case False
  then have st: "state b = stateInit" "0 \<le> amount" by auto
  obtain r t where ap: "Apply e (precharge_adjustment b amount) s = (r, t)" by fastforce
  have bk: "books t" by (rule books_Apply [OF ap]) (use i in \<open>auto simp: session_inv_def\<close>)
  have w: "wrap64 (- amount) = - amount" using st a i64_uminus by (simp add: wrap64_id)
  have b': "s' = t" "b' = (if \<exists>en. r = Inr en then b\<lparr>precharged := amount, state := statePrecharged\<rparr> else b)"
    using p ap st by (auto simp: Precharge_def split: sum.splits)
  show ?thesis using Apply_trail [OF ap, of "requestID b"] i st bk a
    by (auto simp: session_inv_def outcome_ok_def b' w)
qed

lemma inv_settle:
  assumes i: "session_inv b False s" and p: "Settle e final b s = (err, b', s')"
  shows "session_inv b' False s'"
proof (cases "state b = statePrecharged")
  case False
  then show ?thesis using i p by (auto simp: Settle_def)
next
  case True
  obtain r t where ap: "Apply e (settle_adjustment b final) s = (r, t)" by fastforce
  have bk: "books t" by (rule books_Apply [OF ap]) (use i in \<open>auto simp: session_inv_def\<close>)
  have tr: "trail (requestID b) s = [(LedgerConsume, - precharged b)]"
    using i True by (simp add: session_inv_def outcome_ok_def)
  have nd: "r \<noteq> Inl ErrDuplicateEntry"
    using Apply_duplicate_trail [of e "settle_adjustment b final" s t] ap tr by auto
  have b': "trail (requestID b) s' = trail (requestID b) t" "books s'"
      "b' = b\<lparr>state := if \<exists>en. r = Inr en then stateSettled else stateSettleFailed\<rparr>"
    using p ap True nd bk by (auto simp: Settle_def trail_def split: sum.splits)
  show ?thesis using Apply_trail [OF ap, of "requestID b"] i True tr
    by (auto simp: session_inv_def outcome_ok_def b')
qed

lemma inv_refund:
  assumes i: "session_inv b rf s" and p: "Refund e b s = (err, b', s')"
  shows "session_inv b' True s'"
proof (cases "state b = statePrecharged \<and> precharged b > 0")
  case False
  then show ?thesis using i p
    by (auto simp: Refund_def session_inv_def outcome_ok_def split: sessionState.splits if_splits)
next
  case True
  obtain r t where ap: "Apply e (session_refund_adjustment b) s = (r, t)" by fastforce
  have bk: "books t" by (rule books_Apply [OF ap]) (use i in \<open>auto simp: session_inv_def\<close>)
  have tr: "trail (requestID b) s = [(LedgerConsume, - precharged b)]
      \<or> trail (requestID b) s = [(LedgerConsume, - precharged b), (LedgerRefund, precharged b)]"
    using i True by (auto simp: session_inv_def outcome_ok_def)
  have d: "trail (requestID b) s = [(LedgerConsume, - precharged b), (LedgerRefund, precharged b)]"
    if "r = Inl ErrDuplicateEntry"
    using Apply_duplicate_trail [of e "session_refund_adjustment b" s t] ap tr that by auto
  have b': "s' = t" "b' = (if (\<exists>en. r = Inr en) \<or> r = Inl ErrDuplicateEntry then b\<lparr>state := stateRefunded\<rparr> else b)"
    using p ap True by (auto simp: Refund_def split: sum.splits if_splits)
  show ?thesis using Apply_trail [OF ap, of "requestID b"] i True tr d bk
    by (auto simp: session_inv_def outcome_ok_def b')
qed

lemma session_run_inv: "session_run b rf s \<Longrightarrow> session_inv b rf s"
proof (induction rule: session_run.induct)
  case (create s rid kid key limit)
  then show ?case
    by (simp add: session_inv_def outcome_ok_def NewBillingSession_def i64_def MinInt64_def MaxInt64_def)
next
  case (others b rf s s')
  then show ?case by (simp add: session_inv_def)
next
  case (precharge b rf s amount e err b' s')
  show ?case by (rule inv_precharge [OF precharge.IH precharge.hyps(2,3)])
next
  case (settle b s final e err b' s')
  show ?case by (rule inv_settle [OF settle.IH settle.hyps(3)])
next
  case (refund b rf s e err b' s')
  show ?case by (rule inv_refund [OF refund.IH refund.hyps(2)])
next
  case (ensure b rf s e err b' s')
  obtain err' where "Refund e b s = (err', b', s')"
    using ensure.hyps(2) by (cases "Refund e b s") (auto simp: EnsureFinal_def Refund_def split: if_splits)
  then show ?case by (rule inv_refund [OF ensure.IH])
qed

section \<open>Sessions in the hands of any caller\<close>

text \<open>
  Here the methods are called in any order and any number of times, a settlement after a refund included, and the orphan
  recovery may refund the request at any moment. The flag tells that a refund was booked the session does not know of: the
  commit of one of its own refunds was lost, or the recovery was at work.
\<close>

inductive session_use :: "BillingSession \<Rightarrow> bool \<Rightarrow> db \<Rightarrow> bool" where
  create: "books s \<Longrightarrow> rid \<noteq> [] \<Longrightarrow> trail rid s = [] \<Longrightarrow> session_use (NewBillingSession rid kid key limit) False s"
| others: "session_use b doubt s \<Longrightarrow> books s' \<Longrightarrow> trail (requestID b) s' = trail (requestID b) s \<Longrightarrow> session_use b doubt s'"
| recovered: "session_use b doubt s \<Longrightarrow> c \<in> set (ledger s) \<Longrightarrow> le_requestID c = requestID b \<Longrightarrow> le_entryType c = LedgerConsume
    \<Longrightarrow> i64 (op_amount (orphan_of c)) \<Longrightarrow> refundOrphan e (orphan_of c) s = (r, s') \<Longrightarrow> session_use b True s'"
| precharge: "session_use b doubt s \<Longrightarrow> i64 amount \<Longrightarrow> Precharge e amount b s = (err, b', s') \<Longrightarrow> session_use b' doubt s'"
| settle: "session_use b doubt s \<Longrightarrow> Settle e final b s = (err, b', s') \<Longrightarrow> session_use b' doubt s'"
| refund: "session_use b doubt s \<Longrightarrow> Refund e b s = (err, b', s') \<Longrightarrow> session_use b' (doubt \<or> commit_res e = CommitLost) s'"
| ensure: "session_use b doubt s \<Longrightarrow> EnsureFinal e b s = (err, b', s') \<Longrightarrow> session_use b' (doubt \<or> commit_res e = CommitLost) s'"

text \<open>What holds of the entries in any case: one of each type at most, and a refund returns the precharge.\<close>

definition entries_ok :: "BillingSession \<Rightarrow> (LedgerEntryType \<times> credits) list \<Rightarrow> bool" where
  "entries_ok b t \<longleftrightarrow> distinct (map fst t) \<and> (\<forall>x \<in> set t. fst x \<in> {LedgerConsume, LedgerSettleAdjust, LedgerRefund})
     \<and> (state b \<noteq> stateInit \<longrightarrow> (LedgerConsume, - precharged b) \<in> set t)
     \<and> (\<forall>a. (LedgerRefund, a) \<in> set t \<longrightarrow> (LedgerConsume, - a) \<in> set t)"

definition use_inv :: "BillingSession \<Rightarrow> bool \<Rightarrow> db \<Rightarrow> bool" where
  "use_inv b doubt s \<longleftrightarrow> books s \<and> requestID b \<noteq> [] \<and> 0 \<le> precharged b \<and> i64 (precharged b)
     \<and> entries_ok b (trail (requestID b) s) \<and> (\<not> doubt \<longrightarrow> outcome_ok b False (trail (requestID b) s))"

lemma use_inv_weaken: "use_inv b doubt s \<Longrightarrow> use_inv b (doubt \<or> d) s"
  by (auto simp: use_inv_def)

lemma not_lost_trail:
  assumes "Apply e adj s = (Inl err, s')" "commit_res e \<noteq> CommitLost"
  shows "ledger s' = ledger s"
  using assms(1)
proof (cases rule: Apply_cases)
  case (lost entry t)
  then show ?thesis using assms(2) by simp
qed (auto simp: mark_depleted_def same_data_def)

lemma entries_snoc:
  "entries_ok b t \<Longrightarrow> ty \<notin> fst ` set t \<Longrightarrow> ty \<in> {LedgerConsume, LedgerSettleAdjust, LedgerRefund}
    \<Longrightarrow> (ty = LedgerRefund \<longrightarrow> (LedgerConsume, - a) \<in> set t) \<Longrightarrow> entries_ok b (t @ [(ty, a)])"
  by (auto simp: entries_ok_def)

lemma entries_state: "state b \<noteq> stateInit \<Longrightarrow> entries_ok b t \<Longrightarrow> entries_ok (b\<lparr>state := st\<rparr>) t"
  by (simp add: entries_ok_def)

lemma use_precharge:
  assumes i: "use_inv b doubt s" and a: "i64 amount" and p: "Precharge e amount b s = (err, b', s')"
  shows "use_inv b' doubt s'"
proof (cases "state b \<noteq> stateInit \<or> amount < 0")
  case True
  then show ?thesis using i p by (auto simp: Precharge_def split: if_splits)
next
  case False
  then have st: "state b = stateInit" "0 \<le> amount" by auto
  obtain r t where ap: "Apply e (precharge_adjustment b amount) s = (r, t)" by fastforce
  have bk: "books t" by (rule books_Apply [OF ap]) (use i in \<open>auto simp: use_inv_def\<close>)
  have w: "wrap64 (- amount) = - amount" using st a i64_uminus by (simp add: wrap64_id)
  have b': "s' = t" "b' = (if \<exists>en. r = Inr en then b\<lparr>precharged := amount, state := statePrecharged\<rparr> else b)"
    using p ap st by (auto simp: Precharge_def split: sum.splits)
  let ?t = "trail (requestID b) s"
  have e: "entries_ok b ?t" using i by (simp add: use_inv_def)
  from Apply_trail [OF ap, of "requestID b"] i consider
      (same) "trail (requestID b) t = ?t" "\<exists>err. r = Inl err"
    | (new) "LedgerConsume \<notin> fst ` set ?t" "trail (requestID b) t = ?t @ [(LedgerConsume, - amount)]"
    unfolding adjustment_fields w use_inv_def by metis
  then show ?thesis
  proof cases
    case same
    then have "b' = b" by (auto simp: b')
    then show ?thesis using i bk same by (simp add: use_inv_def b'(1))
  next
    case new
    have "LedgerRefund \<notin> fst ` set ?t" using e new(1) unfolding entries_ok_def by force
    then have e': "entries_ok (b\<lparr>precharged := amount, state := statePrecharged\<rparr>) (?t @ [(LedgerConsume, - amount)])"
        "entries_ok b (?t @ [(LedgerConsume, - amount)])"
      using e new(1) st unfolding entries_ok_def by (simp_all add: image_iff)
    have o: "?t = []" if "\<not> doubt" using i that new(1) st(1) by (auto simp: use_inv_def outcome_ok_def)
    from b'(2) consider "b' = b" | "b' = b\<lparr>precharged := amount, state := statePrecharged\<rparr>" by metis
    then show ?thesis
    proof cases
      case 1
      then show ?thesis using i bk st(1) e'(2) new(2) o by (simp add: use_inv_def b'(1) outcome_ok_def)
    next
      case 2
      then show ?thesis using i bk st(2) a e'(1) new(2) o by (simp add: use_inv_def b'(1) outcome_ok_def)
    qed
  qed
qed

lemma use_settle:
  assumes i: "use_inv b doubt s" and p: "Settle e final b s = (err, b', s')"
  shows "use_inv b' doubt s'"
proof (cases "state b = statePrecharged")
  case False
  then show ?thesis using i p by (auto simp: Settle_def)
next
  case True
  obtain r t where ap: "Apply e (settle_adjustment b final) s = (r, t)" by fastforce
  have bk: "books t" by (rule books_Apply [OF ap]) (use i in \<open>auto simp: use_inv_def\<close>)
  have dup: "LedgerSettleAdjust \<in> fst ` set (trail (requestID b) s)" if "r = Inl ErrDuplicateEntry"
    using Apply_duplicate_trail [of e "settle_adjustment b final" s t] ap that by auto
  have b': "trail (requestID b) s' = trail (requestID b) t" "books s'"
      "b' = b\<lparr>state := if (\<exists>en. r = Inr en) \<or> r = Inl ErrDuplicateEntry then stateSettled else stateSettleFailed\<rparr>"
    using p ap True bk by (auto simp: Settle_def trail_def split: sum.splits if_splits)
  have e: "entries_ok b (trail (requestID b) t)"
    using Apply_trail [OF ap, of "requestID b"] i by (auto simp: use_inv_def intro: entries_snoc)
  have "outcome_ok b' False (trail (requestID b) t)" if "\<not> doubt"
    using Apply_trail [OF ap, of "requestID b"] i True dup that by (auto simp: use_inv_def outcome_ok_def b')
  then show ?thesis using i True b' entries_state [OF _ e] by (auto simp: use_inv_def)
qed

lemma use_refund:
  assumes i: "use_inv b doubt s" and p: "Refund e b s = (err, b', s')"
  shows "use_inv b' (doubt \<or> commit_res e = CommitLost) s'"
proof (cases "state b = statePrecharged \<and> precharged b > 0")
  case False
  then consider "b' = b" "s' = s" | "state b = statePrecharged" "precharged b = 0" "b' = b\<lparr>state := stateRefunded\<rparr>" "s' = s"
    using p i by (auto simp: Refund_def use_inv_def split: if_splits)
  then show ?thesis
  proof cases
    case 1
    then show ?thesis using use_inv_weaken [OF i] by simp
  next
    case 2
    have "outcome_ok b' False (trail (requestID b) s)" if "\<not> doubt" using i 2 that by (simp add: use_inv_def outcome_ok_def)
    then show ?thesis using i 2 entries_state [of b] by (simp add: use_inv_def)
  qed
next
  case True
  obtain r t where ap: "Apply e (session_refund_adjustment b) s = (r, t)" by fastforce
  have bk: "books t" by (rule books_Apply [OF ap]) (use i in \<open>auto simp: use_inv_def\<close>)
  have dup: "LedgerRefund \<in> fst ` set (trail (requestID b) s)" if "r = Inl ErrDuplicateEntry"
    using Apply_duplicate_trail [of e "session_refund_adjustment b" s t] ap that by auto
  have b': "s' = t" "b' = (if (\<exists>en. r = Inr en) \<or> r = Inl ErrDuplicateEntry then b\<lparr>state := stateRefunded\<rparr> else b)"
    using p ap True by (auto simp: Refund_def split: sum.splits if_splits)
  have e0: "entries_ok b (trail (requestID b) s)" "(LedgerConsume, - precharged b) \<in> set (trail (requestID b) s)"
    using i True by (auto simp: use_inv_def entries_ok_def)
  have e: "entries_ok b (trail (requestID b) t)"
    using Apply_trail [OF ap, of "requestID b"] i e0 by (auto simp: use_inv_def intro!: entries_snoc)
  have "outcome_ok b' False (trail (requestID b) t)" if "\<not> doubt" "commit_res e \<noteq> CommitLost"
  proof -
    have tr: "trail (requestID b) s = [(LedgerConsume, - precharged b)]"
      using i True that(1) by (auto simp: use_inv_def outcome_ok_def)
    have "trail (requestID b) t = trail (requestID b) s" if "r = Inl x" for x
      using not_lost_trail [of e _ s x t] ap that \<open>commit_res e \<noteq> CommitLost\<close> by (simp add: trail_def)
    then show ?thesis using Apply_trail [OF ap, of "requestID b"] i True tr dup by (auto simp: use_inv_def outcome_ok_def b')
  qed
  then show ?thesis using i True b' bk e entries_state [OF _ e] by (auto simp: use_inv_def)
qed

lemma use_recovered:
  assumes i: "use_inv b doubt s" and c: "c \<in> set (ledger s)" "le_requestID c = requestID b" "le_entryType c = LedgerConsume"
    and a: "i64 (op_amount (orphan_of c))" and p: "refundOrphan e (orphan_of c) s = (r, s')"
  shows "use_inv b True s'"
proof -
  have bk: "books s'" using books_refundOrphan [OF p _ a] i by (simp add: use_inv_def)
  have mem: "(LedgerConsume, le_amount c) \<in> set (trail (requestID b) s)" using c by (force simp: trail_def)
  obtain r' t where ap: "Apply e (refund_adjustment (orphan_of c)) s = (r', t)" by fastforce
  have f: "RequestID (refund_adjustment (orphan_of c)) = requestID b" "EntryType (refund_adjustment (orphan_of c)) = LedgerRefund"
      "Amount (refund_adjustment (orphan_of c)) = - le_amount c" "\<not> ClampToBalance (refund_adjustment (orphan_of c))"
    using c by (simp_all add: refund_adjustment_def orphan_of_def zero_adjustment_def)
  have "trail (requestID b) s' = trail (requestID b) s \<or> trail (requestID b) s' = trail (requestID b) t"
    using p ap by (auto simp: refundOrphan_def trail_def write_orphan_trace_def split: if_splits sum.splits)
  moreover have "entries_ok b (trail (requestID b) t)"
    using Apply_trail [OF ap f(1)] i mem f by (auto simp: use_inv_def intro!: entries_snoc)
  ultimately show ?thesis using i bk by (auto simp: use_inv_def)
qed

lemma session_use_inv: "session_use b doubt s \<Longrightarrow> use_inv b doubt s"
proof (induction rule: session_use.induct)
  case (create s rid kid key limit)
  then show ?case
    by (simp add: use_inv_def outcome_ok_def entries_ok_def NewBillingSession_def i64_def MinInt64_def MaxInt64_def)
next
  case (others b doubt s s')
  then show ?case by (simp add: use_inv_def)
next
  case (recovered b doubt s c e r s')
  show ?case by (rule use_recovered [OF recovered.IH recovered.hyps(2-6)])
next
  case (precharge b doubt s amount e err b' s')
  show ?case by (rule use_precharge [OF precharge.IH precharge.hyps(2,3)])
next
  case (settle b doubt s e final err b' s')
  show ?case by (rule use_settle [OF settle.IH settle.hyps(2)])
next
  case (refund b doubt s e err b' s')
  show ?case by (rule use_refund [OF refund.IH refund.hyps(2)])
next
  case (ensure b doubt s e err b' s')
  obtain err' where "Refund e b s = (err', b', s')"
    using ensure.hyps(2) by (cases "Refund e b s") (auto simp: EnsureFinal_def Refund_def split: if_splits)
  then show ?case by (rule use_refund [OF ensure.IH])
qed

section \<open>The start-up guard (cmd/tzl/guard.go, background.go)\<close>

definition BackgroundWriteTimeout :: go_duration where "BackgroundWriteTimeout = 8 * Second"

text \<open>True when the configuration is refused.\<close>

definition checkOrphanTimeoutGuard :: "int \<Rightarrow> go_duration \<Rightarrow> go_duration \<Rightarrow> bool" where
  "checkOrphanTimeoutGuard upstreamTimeoutSec orphanThreshold settlementWindow \<longleftrightarrow>
     (let upstreamTimeout = wrap64 (upstreamTimeoutSec * Second)
      in wrap64 (upstreamTimeout + settlementWindow) \<ge> orphanThreshold)"

section \<open>Properties of sessions\<close>

text \<open>
  C2. One outcome. The methods of a session are called in any order and any number of times (a settlement after a refund
  included), any statement fails, any commit fails or is lost, the recovery of orphans refunds the request at any moment, and the
  rest of the program does anything else that keeps the books. In every case the books stay exact, the request has at most one entry of each
  type, and a refund returns exactly the precharge. And unless a refund was booked without the session knowing (the commit of one of
  its refunds was lost, or the recovery refunded it), the request never has both a settlement and a refund: a session that
  is precharged holds exactly the precharge, a settled one has its precharge and one settlement, a refunded one nets to zero, and
  one whose settlement failed has no refund.
\<close>

theorem session_has_one_outcome:
  assumes "session_use b doubt s"
  defines "t \<equiv> trail (requestID b) s"
  shows "books s \<and> distinct (map fst t) \<and> fst ` set t \<subseteq> {LedgerConsume, LedgerSettleAdjust, LedgerRefund}
    \<and> (\<forall>a. (LedgerRefund, a) \<in> set t \<longrightarrow> (LedgerConsume, - a) \<in> set t)
    \<and> (\<not> doubt \<longrightarrow> \<not> (LedgerSettleAdjust \<in> fst ` set t \<and> LedgerRefund \<in> fst ` set t)
        \<and> (case state b of
             stateInit \<Rightarrow> LedgerSettleAdjust \<notin> fst ` set t \<and> LedgerRefund \<notin> fst ` set t
           | statePrecharged \<Rightarrow> t = [(LedgerConsume, - precharged b)]
           | stateSettled \<Rightarrow> (\<exists>a. t = [(LedgerConsume, - precharged b), (LedgerSettleAdjust, a)])
           | stateRefunded \<Rightarrow> net (requestID b) s = 0
           | stateSettleFailed \<Rightarrow> LedgerRefund \<notin> fst ` set t))"
  using session_use_inv [OF assms(1)] unfolding t_def
  by (auto simp: use_inv_def entries_ok_def outcome_ok_def net_def split: sessionState.splits)

definition demo_session :: BillingSession where
  "demo_session = NewBillingSession ''r9'' 7 demo_key 0"

lemma demo_session_run: "session_run demo_session False demo_db"
  unfolding demo_session_def
proof (rule session_run.create)
  show "trail ''r9'' demo_db = []" by (simp add: trail_def demo_db_def demo_entry_def)
qed simp_all

text \<open>
  C16. A settlement charges exactly the final price. When a precharged session settles with a final
  price that is not negative, the request's net is minus that price, unless the balance cannot cover
  the difference: then the user is left with zero and has paid less than the price, never more. (The
  user's balance plus the precharge must fit 64 bits.)
\<close>

theorem settle_charges_final_price:
  assumes r: "session_run b False s" and st: "state b = statePrecharged"
    and f: "0 \<le> final" "i64 final" and p: "Settle e final b s = (None, b', s')"
    and fit: "\<And>u. tbl_get (users s) (userID b) = Some u \<Longrightarrow> credit_balance u + precharged b \<le> MaxInt64"
  shows "state b' = stateSettled \<and> (net (requestID b) s' = - final
    \<or> (- final < net (requestID b) s' \<and> (\<exists>u. tbl_get (users s') (userID b) = Some u \<and> credit_balance u = 0)))"
proof -
  have i: "books s" "0 \<le> precharged b" "i64 (precharged b)" "trail (requestID b) s = [(LedgerConsume, - precharged b)]"
    using session_run_inv [OF r] st by (auto simp: session_inv_def outcome_ok_def)
  have am: "Amount (settle_adjustment b final) = precharged b - final"
  proof -
    have "i64 (final - precharged b)" "i64 (precharged b - final)"
      using i f by (auto simp: i64_def MinInt64_def MaxInt64_def)
    then show ?thesis by (simp add: wrap64_id)
  qed
  obtain x t where ap: "Apply e (settle_adjustment b final) s = (x, t)" by fastforce
  have nd: "x \<noteq> Inl ErrDuplicateEntry"
    using Apply_duplicate_trail [of e "settle_adjustment b final" s t] ap i(4) by auto
  obtain entry where x: "x = Inr entry" and b': "b' = b\<lparr>state := stateSettled\<rparr>" and s': "s' = count_request e b t"
    using p ap st nd by (auto simp: Settle_def split: sum.splits if_splits)
  from ap x obtain y where y: "applyTx e (settle_adjustment b final) (s\<lparr>tx_aborted := False\<rparr>) = (Inr entry, y)"
      "t = y\<lparr>tx_aborted := tx_aborted s\<rparr>"
    by (cases rule: Apply_cases) auto
  from y(1) show ?thesis
  proof (cases rule: applyTx_Inr)
    case (1 u amount bal sf)
    have u: "tbl_get (users s) (userID b) = Some u" using 1(1) by simp
    have bal: "0 \<le> credit_balance u" "i64 (credit_balance u)"
      using balancedD [OF _ u] i(1) by (auto simp: books_def)
    have rng: "i64 (credit_balance u + (precharged b - final))"
      using bal i(2) f fit [OF u] by (auto simp: i64_def MinInt64_def MaxInt64_def)
    have "trail (requestID b) s' = [(LedgerConsume, - precharged b), (LedgerSettleAdjust, amount)]"
      using 1(4) i(4) by (simp add: trail_def s' y(2) adjusted_def)
    then have n: "net (requestID b) s' = amount - precharged b" by (simp add: net_def)
    show ?thesis
    proof (cases "credit_balance u + (precharged b - final) < 0")
      case False
      then have "amount = precharged b - final"
        using 1(2) am rng by (auto simp: clamp_amount_def Let_def wrap64_id split: if_splits)
      with n b' show ?thesis by simp
    next
      case True
      then have a: "amount = - credit_balance u" "bal = 0"
        using 1(2) am rng bal i64_uminus [OF bal] by (auto simp: clamp_amount_def Let_def wrap64_id split: if_splits)
      have "tbl_get (users t) (userID b) = Some ((if AffectsUsed (settle_adjustment b final)
          then u\<lparr>u_credit_used := wrap64 (u_credit_used u - amount)\<rparr> else u)\<lparr>credit_balance := bal\<rparr>)"
        using adjusted_user [OF 1(4), of "userID b"] u y(2) by simp
      then have "\<exists>w. tbl_get (users s') (userID b) = Some w \<and> credit_balance w = 0"
        using a by (auto simp: s' count_request_def Let_def tbl_get_upd)
      with n a True b' show ?thesis by auto
    qed
  qed
qed

text \<open>The rules that evaluate a session method on a concrete database.\<close>

lemmas eval_rules = Precharge_def Settle_def Refund_def EnsureFinal_def Apply_def Transaction_def applyTx_def
  lock_key_def applyKeyCredit_def select_user_def exec_healthy validateDailyLimits_def update_user_def
  add_spend_def writeLedgerEntry_def RecordClampShortfall_def sql_bind_def sql_return_def sql_fail_def
  clamp_amount_def noted_def precharge_adjustment_def settle_adjustment_def session_refund_adjustment_def
  zero_adjustment_def Let_def demo_db_def demo_key_def demo_user_def tbl_get_def tbl_upsert_def wrap64_def i64_def
  MinInt64_def MaxInt64_def addDailySpend_def addKeyDailySpend_def spend_of_def ProjectedDailySpendExceeds_def
  has_entry_def demo_entry_def demo_session_def NewBillingSession_def new_entry_def ptr_or_zero_def

lemma demo_env_fields: "day_of demo_env (now demo_env) = 0" "commit_res demo_env = Committed"
  by (simp_all add: demo_env_def Hour_def Minute_def Second_def)

lemma demo_precharge_run:
  "\<exists>b s u. Precharge demo_env 5 demo_session demo_db = (None, b, s) \<and> state b = statePrecharged
     \<and> precharged b = 5 \<and> userID b = 1 \<and> requestID b = ''r9'' \<and> tbl_get (users s) 1 = Some u
     \<and> credit_balance u = 5 \<and> (\<exists>b' s'. Settle demo_env 3 b s = (None, b', s'))"
  by (simp add: eval_rules demo_env_fields)

lemma settle_charges_final_price_witness:
  "\<exists>b s b' s'. session_run b False s \<and> Settle demo_env 3 b s = (None, b', s') \<and> state b' = stateSettled
     \<and> - 3 \<le> net ''r9'' s'"
proof -
  from demo_precharge_run obtain b s u b' s' where p: "Precharge demo_env 5 demo_session demo_db = (None, b, s)"
      "state b = statePrecharged" "precharged b = 5" "userID b = 1" "requestID b = ''r9''"
      "tbl_get (users s) 1 = Some u" "credit_balance u = 5" "Settle demo_env 3 b s = (None, b', s')" by blast
  have r: "session_run b False s"
    by (rule session_run.precharge [OF demo_session_run _ p(1)]) (simp add: i64_def MinInt64_def MaxInt64_def)
  from settle_charges_final_price [OF r p(2) _ _ p(8)] p r show ?thesis
    by (intro exI [of _ b] exI [of _ s] exI [of _ b'] exI [of _ s']) (auto simp: i64_def MinInt64_def MaxInt64_def)
qed

text \<open>
  A refund that the database refuses, then a settlement, then another refund: the settlement stands, and nothing is refunded.
\<close>

definition sick_env :: env where "sick_env = demo_env\<lparr>stmt_fails := \<lambda>_. True\<rparr>"

lemma sick [simp]: "stmt_fails sick_env st" "commit_res sick_env \<noteq> CommitLost" "day_of sick_env = day_of demo_env" "now sick_env = now demo_env"
  by (simp_all add: sick_env_def demo_env_def)

lemma exec_sick: "exec sick_env st m = stmt_error st"
  by (simp add: exec_def)

lemma demo_use:
  "\<exists>b1 s1 err b2 s2 b3 s3 b4 s4. Precharge demo_env 5 demo_session demo_db = (None, b1, s1)
     \<and> Refund sick_env b1 s1 = (Some err, b2, s2) \<and> Settle demo_env 3 b2 s2 = (None, b3, s3)
     \<and> Refund demo_env b3 s3 = (None, b4, s4) \<and> state b4 = stateSettled \<and> precharged b4 = 5 \<and> requestID b4 = ''r9''"
  by (simp add: eval_rules demo_env_fields exec_sick stmt_error_def rollback_def)

lemma session_has_one_outcome_witness:
  "\<exists>b s. session_use b False s \<and> state b = stateSettled
     \<and> (\<exists>a. trail ''r9'' s = [(LedgerConsume, - 5), (LedgerSettleAdjust, a)])"
proof -
  from demo_use obtain b1 s1 err b2 s2 b3 s3 b4 s4 where p: "Precharge demo_env 5 demo_session demo_db = (None, b1, s1)"
      "Refund sick_env b1 s1 = (Some err, b2, s2)" "Settle demo_env 3 b2 s2 = (None, b3, s3)"
      "Refund demo_env b3 s3 = (None, b4, s4)" and f: "state b4 = stateSettled" "precharged b4 = 5" "requestID b4 = ''r9''" by blast
  have "session_use demo_session False demo_db"
    unfolding demo_session_def by (rule session_use.create) (simp, simp, simp add: trail_def demo_db_def demo_entry_def)
  then have "session_use b1 False s1" by (rule session_use.precharge [OF _ _ p(1)]) (simp add: i64_def MinInt64_def MaxInt64_def)
  from session_use.refund [OF this p(2)] have "session_use b2 False s2" by simp
  from session_use.refund [OF session_use.settle [OF this p(3)] p(4)] have "session_use b4 False s4" by (simp add: demo_env_fields)
  from session_has_one_outcome [OF this] this show ?thesis by (intro exI [of _ b4] exI [of _ s4]) (simp add: f)
qed

definition open_session :: BillingSession where
  "open_session = (NewBillingSession ''r1'' 7 demo_key 0)\<lparr>precharged := 5, state := statePrecharged\<rparr>"

definition demo_refund :: ledger_entry where
  "demo_refund = new_entry demo_env (refund_adjustment (orphan_of demo_consume)) 5 10 3 0 3"

definition demo_refunded_db :: db where
  "demo_refunded_db = demo_orphan_db\<lparr>users := [(1, demo_user)], api_keys := [(7, demo_key)],
     ledger := [demo_entry, demo_consume, demo_refund], daily_spend := [((1, 0), 0)],
     daily_spend_by_key := [((7, 0), 0)], ledger_seq := 3\<rparr>"

lemma demo_orphan_refund:
  "Apply demo_env (refund_adjustment (orphan_of demo_consume)) demo_orphan_db = (Inr demo_refund, demo_refunded_db)"
  by (simp add: eval_rules demo_env_fields refund_adjustment_def orphan_of_def demo_refunded_db_def
      demo_refund_def demo_orphan_db_def demo_consume_def)

lemma demo_settle_refunded:
  "\<exists>b s. Settle demo_env 1 open_session (demo_refunded_db\<lparr>usage_logs := L\<rparr>) = (None, b, s) \<and> net ''r1'' s = 4"
  by (simp add: eval_rules demo_env_fields refund_adjustment_def orphan_of_def demo_refunded_db_def
      demo_refund_def demo_orphan_db_def demo_consume_def open_session_def count_request_def net_def trail_def)

text \<open>
  Why an open session must not be taken for an orphan: if the recovery refunds the precharge and
  the session settles afterwards, both entries are booked, and the user gains the precharge minus
  the price.
\<close>

theorem settle_after_orphan_refund_credits_twice:
  "case CleanupOrphanPrecharges demo_env (\<lambda>_. demo_env) DefaultOrphanPrechargeThreshold demo_orphan_db of
     (_, s1) \<Rightarrow> (case Settle demo_env 1 open_session s1 of (err, b, s2) \<Rightarrow> err = None \<and> net ''r1'' s2 = 4)"
proof -
  have c: "CleanupOrphanPrecharges demo_env (\<lambda>_. demo_env) DefaultOrphanPrechargeThreshold demo_orphan_db
      = refund_all (\<lambda>_. demo_env) [orphan_of demo_consume]
          \<lparr>Scanned = 1, Refunded = 0, AlreadyHandled = 0, RefundedCredits = 0\<rparr> demo_orphan_db"
    by (simp add: CleanupOrphanPrecharges_def demo_scan Let_def del: refund_all.simps)
  have "0 \<le> op_amount (orphan_of demo_consume)" by (simp add: orphan_of_def demo_consume_def)
  then have r: "refundOrphan demo_env (orphan_of demo_consume) demo_orphan_db
      = (Inr (), write_orphan_trace demo_env (orphan_of demo_consume) demo_refunded_db)"
    by (simp add: refundOrphan_def demo_orphan_refund)
  have "\<exists>L. write_orphan_trace demo_env (orphan_of demo_consume) demo_refunded_db = demo_refunded_db\<lparr>usage_logs := L\<rparr>"
    using demo_healthy unfolding healthy_def by (auto simp: write_orphan_trace_def)
  with demo_settle_refunded show ?thesis
    unfolding c by (auto simp: r split: prod.split) (metis fst_conv snd_conv prod.inject)+
qed

text \<open>
  C22. The start-up guard rules that out: with a configuration it accepts, a precharge is not an
  orphan at any moment up to the upstream deadline plus the settlement window after it was written,
  provided the configured timeout in nanoseconds fits 64 bits.
\<close>

theorem guard_protects_open_sessions:
  assumes g: "\<not> checkOrphanTimeoutGuard sec DefaultOrphanPrechargeThreshold BackgroundWriteTimeout"
    and fit: "0 \<le> sec" "sec * Second \<le> MaxInt64 - BackgroundWriteTimeout"
    and t: "t \<le> le_createdAt c + sec * Second + BackgroundWriteTimeout"
  shows "\<not> is_orphan es (t + wrap64 (- DefaultOrphanPrechargeThreshold)) c"
proof -
  have s: "wrap64 (sec * Second) = sec * Second"
    using fit by (intro wrap64_id) (auto simp: i64_def MinInt64_def MaxInt64_def BackgroundWriteTimeout_def Second_def)
  have "wrap64 (sec * Second + BackgroundWriteTimeout) = sec * Second + BackgroundWriteTimeout"
    using fit by (intro wrap64_id) (auto simp: i64_def MinInt64_def MaxInt64_def BackgroundWriteTimeout_def Second_def)
  then have "sec * Second + BackgroundWriteTimeout < DefaultOrphanPrechargeThreshold"
    using g s by (simp add: checkOrphanTimeoutGuard_def)
  moreover have "wrap64 (- DefaultOrphanPrechargeThreshold) = - DefaultOrphanPrechargeThreshold"
    by (simp add: wrap64_def DefaultOrphanPrechargeThreshold_def Minute_def Second_def)
  ultimately show ?thesis using t by (simp add: is_orphan_def)
qed

lemma guard_protects_open_sessions_witness:
  "\<not> is_orphan [demo_consume] (le_createdAt demo_consume + 608 * Second + wrap64 (- DefaultOrphanPrechargeThreshold))
     demo_consume"
  by (rule guard_protects_open_sessions [of 600])
    (simp_all add: checkOrphanTimeoutGuard_def wrap64_def DefaultOrphanPrechargeThreshold_def
      BackgroundWriteTimeout_def Minute_def Second_def MaxInt64_def)

text \<open>
  The guard does not survive its own overflow: a timeout of some 584 years wraps to less than
  half a second of nanoseconds and is accepted.
\<close>

theorem guard_accepts_overflow:
  "\<not> checkOrphanTimeoutGuard 18446744074 DefaultOrphanPrechargeThreshold BackgroundWriteTimeout"
  by (simp add: checkOrphanTimeoutGuard_def wrap64_def DefaultOrphanPrechargeThreshold_def
      BackgroundWriteTimeout_def Minute_def Second_def)

section \<open>The program's billing operations together\<close>

text \<open>
  The states the database can reach: users and keys are created empty (user creation grants initial
  credits through \<open>Grant\<close>), and from there every billing operation of the program is a step, with
  any environment.
\<close>

definition empty_db :: "(row_id, redemption_row) tbl \<Rightarrow> db" where
  "empty_db codes = \<lparr>users = [], api_keys = [], ledger = [], daily_spend = [], daily_spend_by_key = [],
     redemptions = codes, usage_logs = [], ledger_seq = 0, clamp_shortfall = [], tx_aborted = False\<rparr>"

inductive db_reach :: "db \<Rightarrow> bool" where
  start: "codes_ok (empty_db codes) \<Longrightarrow> db_reach (empty_db codes)"
| add_user: "db_reach s \<Longrightarrow> tbl_get (users s) uid = None \<Longrightarrow> credit_balance u = 0 \<Longrightarrow> u_credit_used u = 0
    \<Longrightarrow> db_reach (s\<lparr>users := users s @ [(uid, u)]\<rparr>)"
| add_key: "db_reach s \<Longrightarrow> db_reach (s\<lparr>api_keys := api_keys s @ [(kid, k)]\<rparr>)"
| grant: "db_reach s \<Longrightarrow> i64 amount \<Longrightarrow> Grant e uid amount actor memo key s = (r, s') \<Longrightarrow> db_reach s'"
| redeem: "db_reach s \<Longrightarrow> codes_ok s \<Longrightarrow> Redeem e uid code s = (r, s') \<Longrightarrow> db_reach s'"
| precharge: "db_reach s \<Longrightarrow> i64 amount \<Longrightarrow> Precharge e amount b s = (err, b', s') \<Longrightarrow> db_reach s'"
| settle: "db_reach s \<Longrightarrow> Settle e final b s = (err, b', s') \<Longrightarrow> db_reach s'"
| refund: "db_reach s \<Longrightarrow> i64 (precharged b) \<Longrightarrow> Refund e b s = (err, b', s') \<Longrightarrow> db_reach s'"
| recover: "db_reach s \<Longrightarrow> i64 (op_amount p) \<Longrightarrow> refundOrphan e p s = (r', s') \<Longrightarrow> db_reach s'"

lemma books_empty: "books (empty_db codes)"
  by (simp add: books_def balanced_def ledger_ok_def running_ok_def empty_db_def tbl_get_def)

lemma books_add_user:
  assumes b: "books s" and n: "tbl_get (users s) uid = None" and u: "credit_balance u = 0" "u_credit_used u = 0"
  shows "books (s\<lparr>users := users s @ [(uid, u)]\<rparr>)"
proof -
  have none: "x \<in> set (ledger s) \<Longrightarrow> le_userID x \<noteq> uid" for x
    using b n by (auto simp: books_def ledger_ok_def)
  have z: "sum_where (user_entries uid) le_amount (ledger s) = 0"
      "sum_where (call_entries uid) le_amount (ledger s) = 0"
    using none by (auto intro!: sum_where_none simp: user_entries_def call_entries_def)
  have "balanced (s\<lparr>users := users s @ [(uid, u)]\<rparr>)"
    unfolding balanced_def
  proof (intro allI impI)
    fix i v assume v: "tbl_get (users (s\<lparr>users := users s @ [(uid, u)]\<rparr>)) i = Some v"
    let ?t = "s\<lparr>users := users s @ [(uid, u)]\<rparr>"
    show "credit_balance v = sum_where (user_entries i) le_amount (ledger ?t) \<and> 0 \<le> credit_balance v
        \<and> i64 (credit_balance v) \<and> u_credit_used v = wrap64 (- sum_where (call_entries i) le_amount (ledger ?t))"
    proof (cases "i = uid")
      case True
      then have "v = u" using v n by (simp add: tbl_get_append)
      then show ?thesis using z u True by (simp add: wrap64_def i64_def MinInt64_def MaxInt64_def)
    next
      case False
      then have "tbl_get (users s) i = Some v" using v by (auto simp: tbl_get_append split: option.splits)
      from balancedD [OF _ this] b show ?thesis by (simp add: books_def)
    qed
  qed
  moreover have "ledger_ok (s\<lparr>users := users s @ [(uid, u)]\<rparr>)"
    using b unfolding books_def ledger_ok_def by (auto simp: tbl_get_append split: option.splits)
  ultimately show ?thesis using b by (simp add: books_def running_ok_def)
qed

lemma db_reach_books: "db_reach s \<Longrightarrow> books s"
proof (induction rule: db_reach.induct)
  case (start codes)
  show ?case by (rule books_empty)
next
  case (add_user s uid u)
  then show ?case by (intro books_add_user)
next
  case (add_key s kid k)
  show ?case by (rule books_cong [OF add_key.IH]) simp_all
next
  case (grant s amount e uid actor memo key r s')
  show ?case by (rule books_Grant [OF grant.hyps(3) grant.IH grant.hyps(2)])
next
  case (redeem s e uid code r s')
  show ?case by (rule books_Redeem [OF redeem.hyps(3) redeem.IH redeem.hyps(2)])
next
  case (precharge s amount e b err b' s')
  obtain r t where ap: "Apply e (precharge_adjustment b amount) s = (r, t)" by fastforce
  have "books t" by (rule books_Apply [OF ap precharge.IH]) simp
  with precharge ap show ?case by (auto simp: Precharge_def split: sum.splits if_splits)
next
  case (settle s e final b err b' s')
  obtain r t where ap: "Apply e (settle_adjustment b final) s = (r, t)" by fastforce
  have "books t" by (rule books_Apply [OF ap settle.IH]) simp
  with settle ap show ?case by (auto simp: Settle_def split: sum.splits if_splits)
next
  case (refund s b e err b' s')
  obtain r t where ap: "Apply e (session_refund_adjustment b) s = (r, t)" by fastforce
  have "books t" by (rule books_Apply [OF ap refund.IH]) (simp add: refund.hyps(2))
  with refund ap show ?case by (auto simp: Refund_def split: sum.splits if_splits)
next
  case (recover s p e r' s')
  show ?case by (rule books_refundOrphan [OF recover.hyps(3) recover.IH recover.hyps(2)])
qed

text \<open>
  C1. The books of the whole program are exact. In every state that any sequence of grants,
  redemptions, precharges, settlements, refunds and recoveries can reach, under any failing
  statements and any lost or failed commits, every user's balance is the sum of the user's entries
  computed without overflow, it is not negative, every entry records the balance after it, and no
  request has two entries of a type.
\<close>

theorem ledger_is_the_truth:
  assumes "db_reach s"
  shows "(\<forall>uid u. tbl_get (users s) uid = Some u \<longrightarrow>
        credit_balance u = sum_where (\<lambda>x. le_userID x = uid) le_amount (ledger s) \<and> 0 \<le> credit_balance u)
    \<and> (\<forall>i < length (ledger s). le_balanceAfter (ledger s ! i)
        = sum_where (\<lambda>x. le_userID x = le_userID (ledger s ! i)) le_amount (take (Suc i) (ledger s)))
    \<and> (\<forall>x \<in> set (ledger s). \<forall>y \<in> set (ledger s). le_requestID x \<noteq> [] \<longrightarrow> le_requestID x = le_requestID y \<longrightarrow>
        le_entryType x = le_entryType y \<longrightarrow> x = y)"
proof -
  have u: "user_entries i = (\<lambda>x. le_userID x = i)" for i by (intro ext) (simp add: user_entries_def)
  have b: "balanced s" "ledger_ok s" "running_ok s" using db_reach_books [OF assms] by (auto simp: books_def)
  show ?thesis
    using balancedD [OF b(1)] b(2,3) unfolding ledger_ok_def running_ok_def u by blast
qed

lemma ledger_is_the_truth_witness:
  "\<exists>s r. Grant demo_env 1 10 9 [] [] (empty_db [] \<lparr>users := [(1, demo_user\<lparr>credit_balance := 0\<rparr>)]\<rparr>) = (r, s)
     \<and> \<not> (\<exists>u. tbl_get (users s) 1 = Some u \<and> credit_balance u < 0)"
proof -
  let ?s = "empty_db [] \<lparr>users := [(1, demo_user\<lparr>credit_balance := 0\<rparr>)]\<rparr>"
  obtain r s where g: "Grant demo_env 1 10 9 [] [] ?s = (r, s)" by fastforce
  have "db_reach (empty_db [] \<lparr>users := users (empty_db []) @ [(1, demo_user\<lparr>credit_balance := 0\<rparr>)]\<rparr>)"
    by (rule db_reach.add_user [OF db_reach.start])
      (simp_all add: codes_ok_def empty_db_def tbl_get_def demo_user_def)
  then have "db_reach ?s" by (simp add: empty_db_def)
  from db_reach.grant [OF this _ g] have "db_reach s" by (simp add: i64_def MinInt64_def MaxInt64_def)
  from ledger_is_the_truth [OF this] have "\<not> (\<exists>u. tbl_get (users s) 1 = Some u \<and> credit_balance u < 0)"
    by fastforce
  with g show ?thesis by blast
qed

end
