(* ===== verification/Json.thy ===== *)
theory Json
  imports Prelude Complex_Main "HOL-Library.List_Lexorder" "HOL-Library.Char_ord"
begin

text \<open>
  Decoded JSON, as Go's \<^verbatim>\<open>encoding/json\<close> gives it to the relay: an \<^verbatim>\<open>any\<close> that is nil, a bool, a
  float64 (here the rational it stands for), a string, a \<^verbatim>\<open>[]any\<close> or a
  \<^verbatim>\<open>map[string]any\<close>. An object is a list of fields; its order is immaterial, reading takes the
  first field of a name, writing replaces it in place, and an object built by the model has each name
  once. The parsing and printing of the text is the standard library's and appears, where an operation
  needs it, as a function argument.
\<close>

datatype json = JNull | JBool bool | JNum rat | JStr string | JArr "json list" | JObj "(string \<times> json) list"

type_synonym jobj = "(string \<times> json) list"

definition jget :: "jobj \<Rightarrow> string \<Rightarrow> json option" where
  "jget ob k = map_of ob k"

definition jset :: "string \<Rightarrow> json \<Rightarrow> jobj \<Rightarrow> jobj" where
  "jset k v ob = AList.update k v ob"

definition jdel :: "string \<Rightarrow> jobj \<Rightarrow> jobj" where
  "jdel k ob = AList.delete k ob"

text \<open>The type assertions \<^verbatim>\<open>v, ok := x.(T)\<close>; a missing field reads as nil.\<close>

fun as_str :: "json option \<Rightarrow> string option" where
  "as_str (Some (JStr s)) = Some s"
| "as_str _ = None"

fun as_num :: "json option \<Rightarrow> rat option" where
  "as_num (Some (JNum n)) = Some n"
| "as_num _ = None"

fun as_bool :: "json option \<Rightarrow> bool option" where
  "as_bool (Some (JBool b)) = Some b"
| "as_bool _ = None"

fun as_arr :: "json option \<Rightarrow> json list option" where
  "as_arr (Some (JArr xs)) = Some xs"
| "as_arr _ = None"

fun as_obj :: "json option \<Rightarrow> jobj option" where
  "as_obj (Some (JObj ob)) = Some ob"
| "as_obj _ = None"

text \<open>The one-value form \<^verbatim>\<open>v, _ := x.(T)\<close> gives the zero value when the assertion fails.\<close>

definition str_or :: "json option \<Rightarrow> string" where
  "str_or v = (case as_str v of None \<Rightarrow> [] | Some s \<Rightarrow> s)"

definition bool_or :: "json option \<Rightarrow> bool" where
  "bool_or v = (case as_bool v of None \<Rightarrow> False | Some b \<Rightarrow> b)"

definition arr_or :: "json option \<Rightarrow> json list" where
  "arr_or v = (case as_arr v of None \<Rightarrow> [] | Some xs \<Rightarrow> xs)"

definition obj_or :: "json option \<Rightarrow> jobj" where
  "obj_or v = (case as_obj v of None \<Rightarrow> [] | Some ob \<Rightarrow> ob)"

definition jint :: "int \<Rightarrow> json" where
  "jint n = JNum (of_int n)"

text \<open>
  \<^verbatim>\<open>int64(f)\<close> truncates towards zero; out of the range of an int64 Go leaves the result to the
  implementation, and amd64 gives the least integer.
\<close>

definition float_to_int64 :: "rat \<Rightarrow> int" where
  "float_to_int64 q = (let n = (if 0 \<le> q then floor q else ceiling q) in if i64 n then n else MinInt64)"

lemma jget_jset [simp]: "jget (jset k v ob) k' = (if k' = k then Some v else jget ob k')"
  by (simp add: jget_def jset_def update_conv')

lemma jget_Nil [simp]: "jget [] k = None"
  by (simp add: jget_def)

lemma jget_Cons [simp]: "jget ((k, v) # ob) k' = (if k' = k then Some v else jget ob k')"
  by (simp add: jget_def)

lemma jget_jdel [simp]: "jget (jdel k ob) k' = (if k' = k then None else jget ob k')"
  by (simp add: jget_def jdel_def delete_conv')

interpretation json_object: keyed_store jget "\<lambda>f k ob. case jget ob k of None \<Rightarrow> ob | Some v \<Rightarrow> jset k (f v) ob"
  by unfold_locales (auto split: option.split)

lemma float_to_int64_int [simp]: "i64 n \<Longrightarrow> float_to_int64 (of_int n) = n"
  by (simp add: float_to_int64_def)

lemma as_simps [simp]:
  "str_or (Some (JStr s)) = s" "str_or None = []" "bool_or (Some (JBool b)) = b" "bool_or None = False"
  "arr_or (Some (JArr xs)) = xs" "arr_or None = []" "obj_or (Some (JObj ob)) = ob" "obj_or None = []"
  by (simp_all add: str_or_def bool_or_def arr_or_def obj_or_def)

section \<open>Text helpers\<close>

text \<open>\<^verbatim>\<open>strings.ToLower\<close> on ASCII letters (the texts it is compared
  with are ASCII or have no case; a few letters outside ASCII, such as the Kelvin sign, have an ASCII
  lower case and are left alone here).\<close>

definition lower_char :: "char \<Rightarrow> char" where
  "lower_char c = (let n = (of_char c :: nat) in if 65 \<le> n \<and> n \<le> 90 then char_of (n + 32) else c)"

definition to_lower :: "string \<Rightarrow> string" where
  "to_lower s = map lower_char s"

fun has_prefix :: "string \<Rightarrow> string \<Rightarrow> bool" where
  "has_prefix [] s = True"
| "has_prefix (p # ps) [] = False"
| "has_prefix (p # ps) (c # cs) = (p = c \<and> has_prefix ps cs)"

fun contains :: "string \<Rightarrow> string \<Rightarrow> bool" where
  "contains [] p = has_prefix p []"
| "contains (c # cs) p = (has_prefix p (c # cs) \<or> contains cs p)"

lemma has_prefix_iff: "has_prefix p s \<longleftrightarrow> (\<exists>t. s = p @ t)"
proof (induction p s rule: has_prefix.induct)
  case (1 s)
  then show ?case by simp
next
  case (2 p ps)
  then show ?case by simp
next
  case (3 p ps c cs)
  then show ?case by auto
qed

lemma contains_iff: "contains s p \<longleftrightarrow> (\<exists>a b. s = a @ p @ b)"
proof (induction s)
  case Nil
  then show ?case by (cases p) auto
next
  case (Cons c cs)
  show ?case
  proof
    assume "contains (c # cs) p"
    then consider "has_prefix p (c # cs)" | "contains cs p" by auto
    then show "\<exists>a b. c # cs = a @ p @ b"
    proof cases
      case 1
      then show ?thesis by (metis append_Nil has_prefix_iff)
    next
      case 2
      then show ?thesis using Cons.IH by (metis append_Cons)
    qed
  next
    assume "\<exists>a b. c # cs = a @ p @ b"
    then obtain a b where e: "c # cs = a @ p @ b" by blast
    show "contains (c # cs) p"
    proof (cases a)
      case Nil
      then have "has_prefix p (c # cs)" using e has_prefix_iff by auto
      then show ?thesis by simp
    next
      case (Cons x xs)
      with e have "contains cs p" using Cons.IH by auto
      then show ?thesis by simp
    qed
  qed
qed

text \<open>\<^verbatim>\<open>strings.TrimRight(s, "/")\<close>.\<close>

definition trim_right_slash :: "string \<Rightarrow> string" where
  "trim_right_slash s = rev (dropWhile (\<lambda>c. c = CHR ''/'') (rev s))"

section \<open>Decoding into Go types\<close>

text \<open>
  Decoding into a slice fails when one element does; a null element is the zero value.
\<close>

fun all_some :: "'a option list \<Rightarrow> 'a list option" where
  "all_some [] = Some []"
| "all_some (None # xs) = None"
| "all_some (Some x # xs) = map_option ((#) x) (all_some xs)"

fun json_string :: "json \<Rightarrow> string option" where
  "json_string (JStr s) = Some s"
| "json_string JNull = Some []"
| "json_string _ = None"

text \<open>
  Decoding into a struct takes a key in any case of letters; of several keys for one field the last one
  counts, where a null is no value at all for a scalar or a nested struct and the nil value for a slice,
  a map or a pointer. A legal number for an int64 is an integer in its range (the spelling of the literal is not
  kept: Go refuses 1.0 and 1e3, which read as integers here).
\<close>

definition struct_get :: "jobj \<Rightarrow> string \<Rightarrow> json option" where
  "struct_get fs k = map_option snd (List.find (\<lambda>(k', v). to_lower k' = to_lower k) (rev fs))"

definition scalar_get :: "jobj \<Rightarrow> string \<Rightarrow> json option" where
  "scalar_get fs k = struct_get (filter (\<lambda>(k', v). v \<noteq> JNull) fs) k"

definition rd_str :: "jobj \<Rightarrow> string \<Rightarrow> string option" where
  "rd_str fs k = (case scalar_get fs k of None \<Rightarrow> Some [] | Some (JStr s) \<Rightarrow> Some s | _ \<Rightarrow> None)"

definition rat_int64 :: "rat \<Rightarrow> int option" where
  "rat_int64 q = (if of_int (floor q) = q \<and> i64 (floor q) then Some (floor q) else None)"

definition rd_int :: "jobj \<Rightarrow> string \<Rightarrow> int option" where
  "rd_int fs k = (case scalar_get fs k of None \<Rightarrow> Some 0 | Some (JNum q) \<Rightarrow> rat_int64 q | _ \<Rightarrow> None)"

definition rd_struct :: "jobj \<Rightarrow> string \<Rightarrow> (jobj \<Rightarrow> 'a option) \<Rightarrow> 'a option" where
  "rd_struct fs k f = (case scalar_get fs k of None \<Rightarrow> f [] | Some (JObj ob) \<Rightarrow> f ob | _ \<Rightarrow> None)"

definition rd_ptr :: "jobj \<Rightarrow> string \<Rightarrow> (jobj \<Rightarrow> 'a option) \<Rightarrow> 'a option option" where
  "rd_ptr fs k f = (case struct_get fs k of None \<Rightarrow> Some None | Some JNull \<Rightarrow> Some None
     | Some (JObj ob) \<Rightarrow> map_option Some (f ob) | _ \<Rightarrow> None)"

fun rd_elem :: "(jobj \<Rightarrow> 'a option) \<Rightarrow> json \<Rightarrow> 'a option" where
  "rd_elem f JNull = f []"
| "rd_elem f (JObj ob) = f ob"
| "rd_elem f _ = None"

definition rd_list :: "jobj \<Rightarrow> string \<Rightarrow> (jobj \<Rightarrow> 'a option) \<Rightarrow> 'a list option" where
  "rd_list fs k f = (case struct_get fs k of None \<Rightarrow> Some [] | Some JNull \<Rightarrow> Some []
     | Some (JArr xs) \<Rightarrow> all_some (map (rd_elem f) xs) | _ \<Rightarrow> None)"

text \<open>A whole document into a struct or a map: null is the zero value, another value is an error.\<close>

definition document_fields :: "json option \<Rightarrow> jobj option" where
  "document_fields v = (case v of Some (JObj fs) \<Rightarrow> Some fs | Some JNull \<Rightarrow> Some [] | _ \<Rightarrow> None)"

lemma find_append: "List.find P (xs @ ys) = (case List.find P xs of None \<Rightarrow> List.find P ys | Some x \<Rightarrow> Some x)"
  by (induction xs) auto

lemma struct_get_Cons: "struct_get ((k', v) # fs) k = (case struct_get fs k of Some x \<Rightarrow> Some x
    | None \<Rightarrow> if to_lower k' = to_lower k then Some v else None)"
  by (cases "List.find (\<lambda>(k', v). to_lower k' = to_lower k) (rev fs)")
    (auto simp: struct_get_def find_append split: option.split)

lemma scalar_get_Cons: "scalar_get ((k', v) # fs) k = (case scalar_get fs k of Some x \<Rightarrow> Some x
    | None \<Rightarrow> if v \<noteq> JNull \<and> to_lower k' = to_lower k then Some v else None)"
  by (simp add: scalar_get_def struct_get_Cons split: option.split)

lemma struct_get_Nil [simp]: "struct_get [] k = None" "scalar_get [] k = None"
  by (simp_all add: struct_get_def scalar_get_def)

lemma rat_int64_of_int [simp]: "i64 n \<Longrightarrow> rat_int64 (of_int n) = Some n"
  by (simp add: rat_int64_def)

lemma rd_Nil [simp]: "rd_str [] k = Some []" "rd_int [] k = Some 0" "rd_struct [] k f = f []"
    "rd_ptr [] k f = Some None" "rd_list [] k f = Some []"
  by (simp_all add: rd_str_def rd_int_def rd_struct_def rd_ptr_def rd_list_def)

lemma all_some_map [simp]: "(\<And>x. x \<in> set xs \<Longrightarrow> f x = Some (g x)) \<Longrightarrow> all_some (map f xs) = Some (map g xs)"
  by (induction xs) auto

lemma all_some_length: "all_some xs = Some ys \<Longrightarrow> length ys = length xs"
  by (induction xs arbitrary: ys rule: all_some.induct) auto

section \<open>The standard library\<close>

text \<open>
  \<^verbatim>\<open>encoding/json\<close> as the relay uses it: the value of a text with its numbers exactly as written, the text
  of a value, and the rounding of a number to a float64, which happens when a text is decoded into an
  \<^verbatim>\<open>any\<close>. Of \<^verbatim>\<open>net/http\<close> only whether a request can be made for a URL.
\<close>

record json_lib =
  json_Unmarshal :: "string \<Rightarrow> json option"
  json_Marshal :: "json \<Rightarrow> string"
  json_float64 :: "rat \<Rightarrow> rat"
  http_url_ok :: "string \<Rightarrow> bool"

primrec round_numbers :: "(rat \<Rightarrow> rat) \<Rightarrow> json \<Rightarrow> json" where
  "round_numbers f JNull = JNull"
| "round_numbers f (JBool b) = JBool b"
| "round_numbers f (JNum n) = JNum (f n)"
| "round_numbers f (JStr s) = JStr s"
| "round_numbers f (JArr xs) = JArr (map (round_numbers f) xs)"
| "round_numbers f (JObj fs) = JObj (map (map_prod (\<lambda>k. k) (round_numbers f)) fs)"

definition as_any :: "json_lib \<Rightarrow> json \<Rightarrow> json" where
  "as_any lib v = round_numbers (json_float64 lib) v"

definition unmarshal_any :: "json_lib \<Rightarrow> string \<Rightarrow> json option" where
  "unmarshal_any lib s = map_option (as_any lib) (json_Unmarshal lib s)"

text \<open>Building an object: fields set one after the other, some only under a condition.\<close>

definition set_if :: "bool \<Rightarrow> string \<Rightarrow> json \<Rightarrow> jobj \<Rightarrow> jobj" where
  "set_if c k v ob = (if c then jset k v ob else ob)"

definition set_opt :: "string \<Rightarrow> ('a \<Rightarrow> json) \<Rightarrow> 'a option \<Rightarrow> jobj \<Rightarrow> jobj" where
  "set_opt k f v ob = (case v of None \<Rightarrow> ob | Some x \<Rightarrow> jset k (f x) ob)"

lemma jget_set_if [simp]: "jget (set_if c k v ob) k' = (if c \<and> k' = k then Some v else jget ob k')"
  by (simp add: set_if_def)

lemma jget_set_opt [simp]: "jget (set_opt k f v ob) k' = (if k' = k \<and> v \<noteq> None then Some (f (the v)) else jget ob k')"
  by (cases v) (auto simp: set_opt_def)

text \<open>A nil slice is written as null, an empty one as an empty array; a nil map is null.\<close>

definition jslice :: "json list \<Rightarrow> json" where "jslice xs = (if xs = [] then JNull else JArr xs)"

definition jmap :: "jobj option \<Rightarrow> json" where "jmap m = (case m of None \<Rightarrow> JNull | Some ob \<Rightarrow> JObj ob)"

text \<open>A library that knows one document, for examples.\<close>

definition one_document :: "json \<Rightarrow> json_lib" where
  "one_document v = \<lparr>json_Unmarshal = (\<lambda>s. if s = ''document'' then Some v else None),
     json_Marshal = (\<lambda>_. ''document''), json_float64 = (\<lambda>q. q), http_url_ok = (\<lambda>u. True)\<rparr>"

lemma one_document: "json_Unmarshal (one_document v) (json_Marshal (one_document v) v) = Some v"
  by (simp add: one_document_def)

text \<open>\<^verbatim>\<open>TrimSpace\<close> of bytes and strings: the white space of Unicode, at both ends.\<close>

definition space_runes :: "string list" where
  "space_runes = map utf8 ([[9], [10], [11], [12], [13], [32], [0xC2, 0x85], [0xC2, 0xA0], [0xE1, 0x9A, 0x80],
     [0xE2, 0x80, 0xA8], [0xE2, 0x80, 0xA9], [0xE2, 0x80, 0xAF], [0xE2, 0x81, 0x9F], [0xE3, 0x80, 0x80]]
     @ map (\<lambda>n. [0xE2, 0x80, 0x80 + n]) [0 ..< 11])"

definition space_prefix :: "string \<Rightarrow> nat" where
  "space_prefix s = (case List.find (\<lambda>r. has_prefix r s) space_runes of None \<Rightarrow> 0 | Some r \<Rightarrow> length r)"

definition space_suffix :: "string \<Rightarrow> nat" where
  "space_suffix s = (case List.find (\<lambda>r. has_prefix (rev r) (rev s)) space_runes of None \<Rightarrow> 0 | Some r \<Rightarrow> length r)"

function trim_left :: "string \<Rightarrow> string" where
  "trim_left s = (if s = [] \<or> space_prefix s = 0 then s else trim_left (drop (space_prefix s) s))"
  by pat_completeness auto
termination by (relation "measure length") auto

function trim_right :: "string \<Rightarrow> string" where
  "trim_right s = (if s = [] \<or> space_suffix s = 0 then s else trim_right (take (length s - space_suffix s) s))"
  by pat_completeness auto
termination by (relation "measure length") auto

declare trim_left.simps [simp del] trim_right.simps [simp del]

definition TrimSpace :: "string \<Rightarrow> string" where "TrimSpace s = trim_right (trim_left s)"


end
