(* ===== verification/Channels.thy ===== *)
theory Channels
  imports Store Json
begin

text \<open>
  Choosing where a request goes, \<^verbatim>\<open>server/internal/relay\<close>: model policies (policy.go), provider
  prefixes (provider\_route.go), the weighted choice by priority (selector.go), the affinity table
  (affinity.go, channel\_selector.go), the classification of upstream errors (errclass.go) and the
  health of channels with their automatic disabling (health.go, channel\_health.go).
\<close>

section \<open>Channels (store/channel.go)\<close>

record channel =
  ch_ID :: row_id
  ch_Name :: string
  ch_Provider :: string
  ch_Protocol :: string
  ch_BaseURL :: string
  ch_APIKeyEncrypted :: string
  ch_Models :: "json option"
  ch_ModelMapping :: "json option"
  ch_Status :: ChannelStatus
  ch_Priority :: int
  ch_Weight :: int
  ch_ParamOverride :: "json option"
  ch_HeaderOverride :: "json option"
  ch_TestModel :: string
  ch_LastTestAt :: "go_time option"
  ch_LastTestLatencyMS :: "int option"
  ch_DisabledReason :: string

text \<open>
  Decoding into a \<^verbatim>\<open>[]string\<close> or \<^verbatim>\<open>map[string]string\<close>: null leaves the zero
  value, a null element is the empty string, and any other type is an error; the column is given
  decoded, \<^term>\<open>None\<close> when it holds no legal JSON.
\<close>

fun decode_strings :: "json option \<Rightarrow> string list option" where
  "decode_strings (Some JNull) = Some []"
| "decode_strings (Some (JArr xs)) = all_some (map json_string xs)"
| "decode_strings _ = None"

fun decode_string_map :: "json option \<Rightarrow> (string \<times> string) list option" where
  "decode_string_map (Some JNull) = Some []"
| "decode_string_map (Some (JObj fs)) = all_some (map (\<lambda>(k, v). map_option (Pair k) (json_string v)) fs)"
| "decode_string_map _ = None"

definition MappedModel :: "channel \<Rightarrow> string \<Rightarrow> string" where
  "MappedModel c publicName =
     (case decode_string_map (ch_ModelMapping c) of
        None \<Rightarrow> publicName
      | Some mapping \<Rightarrow> (case map_of mapping publicName of
            Some up \<Rightarrow> if up \<noteq> [] then up else publicName
          | None \<Rightarrow> publicName))"

text \<open>
  \<^verbatim>\<open>ModelList\<close> and \<^verbatim>\<open>HeaderOverrides\<close> ignore the error: an element of another type is then
  left at the empty string.
\<close>

definition string_or_empty :: "json \<Rightarrow> string" where
  "string_or_empty v = (case json_string v of None \<Rightarrow> [] | Some s \<Rightarrow> s)"

definition ModelList :: "channel \<Rightarrow> string list" where
  "ModelList c = (case ch_Models c of Some (JArr xs) \<Rightarrow> map string_or_empty xs | _ \<Rightarrow> [])"

definition HeaderOverrides :: "channel \<Rightarrow> (string \<times> string) list" where
  "HeaderOverrides c = (case ch_HeaderOverride c of Some (JObj fs) \<Rightarrow> map (\<lambda>(k, v). (k, string_or_empty v)) fs | _ \<Rightarrow> [])"

definition ParamOverrides :: "channel \<Rightarrow> jobj" where
  "ParamOverrides c = (case ch_ParamOverride c of Some (JObj fs) \<Rightarrow> fs | _ \<Rightarrow> [])"

text \<open>The candidates: enabled channels whose models contain the name, by priority, then by id.\<close>

definition serves :: "string \<Rightarrow> channel \<Rightarrow> bool" where
  "serves model c \<longleftrightarrow> ch_Status c = ChannelEnabled
     \<and> (case ch_Models c of Some (JArr xs) \<Rightarrow> JStr model \<in> set xs | _ \<Rightarrow> False)"

definition ListEnabledForModel :: "channel list \<Rightarrow> string \<Rightarrow> channel list" where
  "ListEnabledForModel table model =
     sort_key (\<lambda>c. - ch_Priority c) (sort_key ch_ID (filter (serves model) table))"

section \<open>Model policies (policy.go)\<close>

text \<open>
  A layer as stored: no bytes at all, bytes that are no JSON, or a JSON value. The result is the set
  of allowed models when the layer applies, or an error.
\<close>

datatype policy_raw = PolicyEmpty | PolicyBad | PolicyJson json

fun parseModelPolicy :: "policy_raw \<Rightarrow> unit + string list option" where
  "parseModelPolicy PolicyEmpty = Inr None"
| "parseModelPolicy PolicyBad = Inl ()"
| "parseModelPolicy (PolicyJson v) = (case decode_strings (Some v) of
      None \<Rightarrow> Inl ()
    | Some ms \<Rightarrow> if ms = [] then Inr None else Inr (Some ms))"

fun allows_layers :: "policy_raw list \<Rightarrow> string \<Rightarrow> unit + bool" where
  "allows_layers [] model = Inr True"
| "allows_layers (l # ls) model = (case parseModelPolicy l of
      Inl () \<Rightarrow> Inl ()
    | Inr None \<Rightarrow> allows_layers ls model
    | Inr (Some ms) \<Rightarrow> if model \<notin> set ms then Inr False else allows_layers ls model)"

definition AllowsModel :: "policy_raw \<Rightarrow> policy_raw \<Rightarrow> policy_raw \<Rightarrow> string \<Rightarrow> unit + bool" where
  "AllowsModel department user key model = allows_layers [department, user, key] model"

text \<open>The set a layer stands for: everything when it does not apply.\<close>

definition layer_set :: "policy_raw \<Rightarrow> string set option" where
  "layer_set l = (case parseModelPolicy l of Inl _ \<Rightarrow> None | Inr None \<Rightarrow> Some UNIV | Inr (Some ms) \<Rightarrow> Some (set ms))"

section \<open>Provider prefixes (provider\_route.go)\<close>

definition providerSlugs :: "(string \<times> string) list" where
  "providerSlugs = [
     (''openai'', ''openai''), (''anthropic'', ''anthropic''), (''gemini'', ''gemini''), (''google'', ''gemini''),
     (''glm'', ''zhipu''), (''zhipu'', ''zhipu''), (''chatglm'', ''zhipu''), (''kimi'', ''moonshot''),
     (''moonshot'', ''moonshot''), (''deepseek'', ''deepseek''), (''qwen'', ''qwen''), (''tongyi'', ''qwen''),
     (''minimax'', ''minimax''), (''xai'', ''xai''), (''grok'', ''xai''), (''custom'', ''custom'')]"

definition SlugToProvider :: "string \<Rightarrow> string option" where
  "SlugToProvider slug = map_of providerSlugs (to_lower slug)"

definition filterByProvider :: "channel list \<Rightarrow> string \<Rightarrow> channel list" where
  "filterByProvider channels provider =
     (if provider = [] then channels else filter (\<lambda>c. ch_Provider c = provider) channels)"

section \<open>The weighted choice (selector.go)\<close>

text \<open>\<^verbatim>\<open>rand.Intn\<close> is an argument: its result on \<open>n > 0\<close> is in the range from 0 up to \<open>n\<close>.\<close>

fun weighted_pick :: "int \<Rightarrow> channel list \<Rightarrow> channel option" where
  "weighted_pick pick [] = None"
| "weighted_pick pick (c # cs) =
     (let pick = pick - (ch_Weight c + 1) in if pick < 0 then Some c else weighted_pick pick cs)"

definition total_weight :: "channel list \<Rightarrow> int" where
  "total_weight tier = foldl (\<lambda>s c. s + (ch_Weight c + 1)) 0 tier"

function SelectChannel :: "(int \<Rightarrow> int) \<Rightarrow> channel list \<Rightarrow> row_id set \<Rightarrow> channel option" where
  "SelectChannel rnd [] exclude = None"
| "SelectChannel rnd (c # cs) exclude =
     (let same = (\<lambda>d. ch_Priority d = ch_Priority c);
          tier = filter (\<lambda>d. ch_ID d \<notin> exclude) (takeWhile same (c # cs));
          rest = dropWhile same (c # cs)
      in if tier = [] then SelectChannel rnd rest exclude
         else (case weighted_pick (rnd (total_weight tier)) tier of
            Some x \<Rightarrow> Some x
          | None \<Rightarrow> SelectChannel rnd rest exclude))"
  by pat_completeness auto

termination
  by (relation "measure (\<lambda>(rnd, cs, ex). length cs)") (auto simp: le_imp_less_Suc length_dropWhile_le)

section \<open>Affinity (affinity.go, channel\_selector.go)\<close>

definition affinityTTL :: go_duration where "affinityTTL = 30 * Minute"
definition affinityMaxEntries :: nat where "affinityMaxEntries = 10000"

datatype affinitySource = affinitySourceNone | affinitySourceUserID | affinitySourceCacheKey | affinitySourceAPIKey
datatype affinityOutcome = affinityOff | affinityMiss | affinityHit | affinityDrift

record affinityEntry =
  channelID :: row_id
  expiresAt :: go_time
  lastAccess :: go_time

text \<open>The table is a list of entries with distinct keys; its order is the order a Go loop visits it.\<close>

type_synonym affinityTable = "(string, affinityEntry) tbl"

definition affinity_key :: "string \<Rightarrow> string \<Rightarrow> string" where
  "affinity_key model key = model @ '':'' @ key"

definition aff_lookup :: "go_time \<Rightarrow> string \<Rightarrow> string \<Rightarrow> affinityTable \<Rightarrow> row_id option \<times> affinityTable" where
  "aff_lookup t model key tab =
     (if key = [] then (None, tab)
      else case tbl_get tab (affinity_key model key) of
          None \<Rightarrow> (None, tab)
        | Some e \<Rightarrow> if t > expiresAt e then (None, tab)
            else (Some (channelID e), tbl_upd (\<lambda>e. e\<lparr>lastAccess := t\<rparr>) (affinity_key model key) tab))"

fun oldest :: "affinityTable \<Rightarrow> (string \<times> affinityEntry) option" where
  "oldest [] = None"
| "oldest (x # xs) = (case oldest xs of None \<Rightarrow> Some x
     | Some y \<Rightarrow> if lastAccess (snd y) < lastAccess (snd x) then Some y else Some x)"

lemma oldest_in: "oldest tab = Some x \<Longrightarrow> x \<in> set tab"
  by (induction tab arbitrary: x) (auto split: option.splits if_splits)

lemma oldest_None: "oldest tab = None \<longleftrightarrow> tab = []"
  by (cases tab) (auto split: option.splits)

definition tbl_del :: "'k \<Rightarrow> ('k, 'v) tbl \<Rightarrow> ('k, 'v) tbl" where
  "tbl_del k t = filter (\<lambda>(k', v). k' \<noteq> k) t"

function evict_oldest :: "affinityTable \<Rightarrow> affinityTable" where
  "evict_oldest tab =
     (if length tab \<le> affinityMaxEntries then tab
      else case oldest tab of None \<Rightarrow> tab | Some (k, e) \<Rightarrow> evict_oldest (tbl_del k tab))"
  by pat_completeness auto

termination
proof (relation "measure length", simp)
  fix tab :: affinityTable and p k e
  assume "oldest tab = Some p" "(k, e) = p"
  then have "(k, e) \<in> set tab" using oldest_in by blast
  then show "(tbl_del k tab, tab) \<in> measure length"
    by (auto simp: tbl_del_def intro!: length_filter_less)
qed

declare evict_oldest.simps [simp del]

definition evictLocked :: "go_time \<Rightarrow> affinityTable \<Rightarrow> affinityTable" where
  "evictLocked t tab = evict_oldest (filter (\<lambda>(k, e). \<not> t > expiresAt e) tab)"

definition aff_bind :: "go_time \<Rightarrow> string \<Rightarrow> string \<Rightarrow> row_id \<Rightarrow> affinityTable \<Rightarrow> affinityTable" where
  "aff_bind t model key cid tab =
     (if key = [] then tab
      else let e = \<lparr>channelID = cid, expiresAt = t + affinityTTL, lastAccess = t\<rparr>;
               tab = tbl_upsert e (\<lambda>_. e) (affinity_key model key) tab
           in if length tab > affinityMaxEntries then evictLocked t tab else tab)"

datatype downstream = dsOpenAI | dsAnthropic

definition extractAffinityKey :: "jobj \<Rightarrow> downstream \<Rightarrow> row_id \<Rightarrow> string \<times> affinitySource" where
  "extractAffinityKey body ds keyID =
     (let uid = (case as_obj (jget body ''metadata'') of None \<Rightarrow> [] | Some md \<Rightarrow> str_or (jget md ''user_id''));
          pck = str_or (jget body ''prompt_cache_key'')
      in if ds = dsAnthropic \<and> uid \<noteq> [] then (uid, affinitySourceUserID)
         else if ds = dsOpenAI \<and> pck \<noteq> [] then (pck, affinitySourceCacheKey)
         else if keyID > 0 then (''key:'' @ show_int keyID, affinitySourceAPIKey)
         else ([], affinitySourceNone))"

fun topAvailablePriority :: "channel list \<Rightarrow> row_id set \<Rightarrow> int option" where
  "topAvailablePriority [] exclude = None"
| "topAvailablePriority (c # cs) exclude =
     (if ch_ID c \<notin> exclude then Some (ch_Priority c) else topAvailablePriority cs exclude)"

fun find_bound :: "channel list \<Rightarrow> row_id \<Rightarrow> int \<Rightarrow> row_id set \<Rightarrow> channel option" where
  "find_bound [] bound tp exclude = None"
| "find_bound (c # cs) bound tp exclude =
     (if ch_ID c = bound \<and> ch_Priority c = tp \<and> bound \<notin> exclude then Some c
      else find_bound cs bound tp exclude)"

definition selectWithAffinity :: "(int \<Rightarrow> int) \<Rightarrow> go_time \<Rightarrow> channel list \<Rightarrow> row_id set \<Rightarrow> string \<Rightarrow> string
    \<Rightarrow> affinityTable \<Rightarrow> (channel option \<times> affinityOutcome) \<times> affinityTable" where
  "selectWithAffinity rnd t channels exclude model key tab =
     (if key = [] then ((SelectChannel rnd channels exclude, affinityOff), tab)
      else case aff_lookup t model key tab of
          (None, tab) \<Rightarrow> ((SelectChannel rnd channels exclude, affinityMiss), tab)
        | (Some bound, tab) \<Rightarrow>
            (case topAvailablePriority channels exclude of
               None \<Rightarrow> ((SelectChannel rnd channels exclude, affinityDrift), tab)
             | Some tp \<Rightarrow>
                 (case find_bound channels bound tp exclude of
                    Some c \<Rightarrow> ((Some c, affinityHit), tab)
                  | None \<Rightarrow> ((SelectChannel rnd channels exclude, affinityDrift), tab))))"

section \<open>Upstream errors (errclass.go)\<close>

definition balanceKeywords :: "string list" where
  "balanceKeywords = [''insufficient balance'', ''insufficient funds'', ''insufficient_quota'',
     ''token quota is not enough'', utf8 [0xE4, 0xBD, 0x99, 0xE9, 0xA2, 0x9D, 0xE4, 0xB8, 0x8D, 0xE8, 0xB6, 0xB3], utf8 [0xE6, 0xAC, 0xA0, 0xE8, 0xB4, 0xB9], utf8 [0xE8, 0xB4, 0xA6, 0xE6, 0x88, 0xB7, 0xE4, 0xBD, 0x99, 0xE9, 0xA2, 0x9D], utf8 [0xE9, 0xA2, 0x9D, 0xE5, 0xBA, 0xA6, 0xE5, 0xB7, 0xB2, 0xE7, 0x94, 0xA8, 0xE5, 0xB0, 0xBD]]"

fun any_contained :: "string list \<Rightarrow> string \<Rightarrow> bool" where
  "any_contained [] s = False"
| "any_contained (kw # kws) s = (if contains s kw then True else any_contained kws s)"

definition containsBalanceKeyword :: "string \<Rightarrow> bool" where
  "containsBalanceKeyword lower = any_contained balanceKeywords lower"

definition ClassifyUpstreamError :: "int \<Rightarrow> string \<Rightarrow> ErrorClass" where
  "ClassifyUpstreamError status body =
     (let lower = to_lower body in
      if status = 401 \<or> status = 403 then ErrClassAuthFatal
      else if status = 402 then ErrClassQuotaFatal
      else if status = 429 then ErrClassRateLimited
      else if status \<ge> 500 then ErrClassTransient
      else if status \<ge> 400 then
        (if contains lower ''invalid_api_key'' \<or> contains lower ''account_deactivated'' then ErrClassAuthFatal
         else if containsBalanceKeyword lower then ErrClassQuotaFatal
         else ErrClassBadRequest)
      else ErrClassNone)"

definition CountsTowardAutoDisable :: "ErrorClass \<Rightarrow> bool" where
  "CountsTowardAutoDisable c \<longleftrightarrow> c = ErrClassAuthFatal \<or> c = ErrClassQuotaFatal"

fun ShouldRetryNextChannel :: "ErrorClass \<Rightarrow> bool" where
  "ShouldRetryNextChannel ErrClassAuthFatal = True"
| "ShouldRetryNextChannel ErrClassQuotaFatal = True"
| "ShouldRetryNextChannel ErrClassRateLimited = True"
| "ShouldRetryNextChannel ErrClassTransient = True"
| "ShouldRetryNextChannel _ = False"

section \<open>Channel health (health.go, channel\_health.go)\<close>

fun error_class_str :: "ErrorClass \<Rightarrow> string" where
  "error_class_str ErrClassNone = []"
| "error_class_str ErrClassAuthFatal = ''auth_fatal''"
| "error_class_str ErrClassQuotaFatal = ''quota_fatal''"
| "error_class_str ErrClassRateLimited = ''rate_limited''"
| "error_class_str ErrClassTransient = ''transient''"
| "error_class_str ErrClassBadRequest = ''bad_request''"
| "error_class_str ErrClassStreamAborted = ''stream_aborted''"

text \<open>
  The counters, the table of channels, and the channels an alert was raised for. What the code cannot
  know is given to each step: the threshold setting, and whether the database takes the write.
\<close>

record channel_state =
  fatal_failures :: "row_id \<Rightarrow> int option"
  channels :: "(row_id, channel) tbl"
  disable_alerts :: "row_id list"

definition health_fail :: "row_id \<Rightarrow> channel_state \<Rightarrow> int \<times> channel_state" where
  "health_fail i h = (let n = (case fatal_failures h i of None \<Rightarrow> 0 | Some n \<Rightarrow> n) + 1
     in (n, h\<lparr>fatal_failures := (fatal_failures h)(i := Some n)\<rparr>))"

definition health_reset :: "row_id \<Rightarrow> channel_state \<Rightarrow> channel_state" where
  "health_reset i h = h\<lparr>fatal_failures := (fatal_failures h)(i := None)\<rparr>"

definition AutoDisable :: "bool \<Rightarrow> row_id \<Rightarrow> string \<Rightarrow> channel_state \<Rightarrow> bool \<times> channel_state" where
  "AutoDisable write_fails i reason h =
     (if write_fails \<or> tbl_get (channels h) i = None then (False, h)
      else (True, h\<lparr>channels := tbl_upd (\<lambda>c. c\<lparr>ch_Status := ChannelAutoDisabled, ch_DisabledReason := reason\<rparr>)
                       i (channels h)\<rparr>))"

definition disable_reason :: "int \<Rightarrow> ErrorClass \<Rightarrow> int \<Rightarrow> string" where
  "disable_reason count class status =
     utf8 [0xE8, 0x87, 0xAA, 0xE5, 0x8A, 0xA8, 0xE7, 0xA6, 0x81, 0xE7, 0x94, 0xA8, 0xEF, 0xBC, 0x9A, 0xE8, 0xBF, 0x9E, 0xE7, 0xBB, 0xAD, 0x20]
     @ show_int count @ utf8 [0x20, 0xE6, 0xAC, 0xA1, 0xE8, 0x87, 0xB4, 0xE5, 0x91, 0xBD, 0xE9, 0x94, 0x99, 0xE8, 0xAF, 0xAF, 0xEF, 0xBC, 0x88]
     @ error_class_str class @ utf8 [0xEF, 0xBC, 0x8C, 0x48, 0x54, 0x54, 0x50, 0x20] @ show_int status @ utf8 [0xEF, 0xBC, 0x89]"

definition NoteSuccess :: "row_id \<Rightarrow> channel_state \<Rightarrow> channel_state" where
  "NoteSuccess i h = health_reset i h"

definition NoteFailure :: "int \<Rightarrow> bool \<Rightarrow> row_id \<Rightarrow> ErrorClass \<Rightarrow> int \<Rightarrow> channel_state \<Rightarrow> channel_state" where
  "NoteFailure threshold write_fails i class status h =
     (if \<not> CountsTowardAutoDisable class then h
      else case health_fail i h of (count, h) \<Rightarrow>
        if threshold \<le> 0 \<or> count < threshold then h
        else case AutoDisable write_fails i (disable_reason count class status) h of
            (False, h) \<Rightarrow> h
          | (True, h) \<Rightarrow> (health_reset i h)\<lparr>disable_alerts := disable_alerts h @ [i]\<rparr>)"

text \<open>The half-open probe: the outcome of decrypting the key and of the test request is given.\<close>

datatype probe_result = ProbeNoKey | ProbeFailed int | ProbeOK int

definition probeChannel :: "go_time \<Rightarrow> bool \<Rightarrow> probe_result \<Rightarrow> row_id \<Rightarrow> channel_state \<Rightarrow> channel_state" where
  "probeChannel t write_fails r i h =
     (case r of
        ProbeNoKey \<Rightarrow> h
      | ProbeFailed latency \<Rightarrow>
          (if write_fails then h
           else h\<lparr>channels := tbl_upd (\<lambda>c. c\<lparr>ch_LastTestAt := Some t, ch_LastTestLatencyMS := Some latency\<rparr>)
                     i (channels h)\<rparr>)
      | ProbeOK latency \<Rightarrow>
          (if write_fails \<or> tbl_get (channels h) i = None then h
           else health_reset i (h\<lparr>channels := tbl_upd (\<lambda>c. c\<lparr>ch_LastTestAt := Some t,
                    ch_LastTestLatencyMS := Some latency, ch_Status := ChannelEnabled, ch_DisabledReason := []\<rparr>)
                    i (channels h)\<rparr>)))"

definition ProbeAutoDisabledChannels ::
  "go_time \<Rightarrow> (row_id \<Rightarrow> bool) \<Rightarrow> (row_id \<Rightarrow> probe_result) \<Rightarrow> channel_state \<Rightarrow> channel_state" where
  "ProbeAutoDisabledChannels t write_fails probe h =
     foldl (\<lambda>h i. probeChannel t (write_fails i) (probe i) i h) h
       (map fst (filter (\<lambda>(i, c). ch_Status c = ChannelAutoDisabled) (channels h)))"

datatype health_event = HSuccess row_id | HFailure row_id ErrorClass int

fun health_step :: "int \<Rightarrow> channel_state \<Rightarrow> health_event \<Rightarrow> channel_state" where
  "health_step threshold h (HSuccess i) = NoteSuccess i h"
| "health_step threshold h (HFailure i class status) = NoteFailure threshold False i class status h"

definition health_run :: "int \<Rightarrow> channel_state \<Rightarrow> health_event list \<Rightarrow> channel_state" where
  "health_run threshold = foldl (health_step threshold)"

text \<open>Consecutive fatal failures of a channel: other channels and non-fatal errors do not count, a success resets.\<close>

fun streak_step :: "row_id \<Rightarrow> nat \<Rightarrow> health_event \<Rightarrow> nat" where
  "streak_step i n (HSuccess j) = (if j = i then 0 else n)"
| "streak_step i n (HFailure j class status) = (if j = i \<and> CountsTowardAutoDisable class then Suc n else n)"

definition streak :: "row_id \<Rightarrow> health_event list \<Rightarrow> nat" where
  "streak i = foldl (streak_step i) 0"

section \<open>Lemmas: the choice\<close>

definition candidates :: "channel list \<Rightarrow> bool" where
  "candidates cs \<longleftrightarrow> sorted_wrt (\<lambda>c d. ch_Priority d \<le> ch_Priority c) cs \<and> distinct (map ch_ID cs)
     \<and> (\<forall>c \<in> set cs. 0 \<le> ch_Weight c)"

definition fair_rnd :: "(int \<Rightarrow> int) \<Rightarrow> bool" where
  "fair_rnd rnd \<longleftrightarrow> (\<forall>n > 0. 0 \<le> rnd n \<and> rnd n < n)"

lemma weighted_pick_in: "weighted_pick k cs = Some c \<Longrightarrow> c \<in> set cs"
  by (induction k cs rule: weighted_pick.induct) (auto simp: Let_def split: if_splits)

lemma total_weight_sum: "total_weight cs = (\<Sum>c\<leftarrow>cs. ch_Weight c + 1)"
proof -
  have "foldl (\<lambda>s c. s + (ch_Weight c + 1)) a cs = a + (\<Sum>c\<leftarrow>cs. ch_Weight c + 1)" for a
    by (induction cs arbitrary: a) auto
  then show ?thesis by (simp add: total_weight_def)
qed

lemma weighted_pick_some:
  "k < total_weight cs \<Longrightarrow> cs \<noteq> [] \<Longrightarrow> \<exists>c. weighted_pick k cs = Some c"
proof (induction k cs rule: weighted_pick.induct)
  case (1 k)
  then show ?case by simp
next
  case (2 k c cs)
  show ?case
  proof (cases "k - (ch_Weight c + 1) < 0")
    case True
    then show ?thesis by simp
  next
    case False
    then have "k - (ch_Weight c + 1) < total_weight cs" using "2.prems" by (simp add: total_weight_sum)
    moreover from this False have "cs \<noteq> []" by (auto simp: total_weight_sum)
    ultimately show ?thesis using "2.IH" [OF refl False] False by simp
  qed
qed

lemma total_weight_pos: "cs \<noteq> [] \<Longrightarrow> \<forall>c \<in> set cs. 0 \<le> ch_Weight c \<Longrightarrow> 0 < total_weight cs"
proof (induction cs)
  case (Cons c cs)
  then show ?case by (cases cs) (auto simp: total_weight_sum)
qed simp

lemma SelectChannel_ok:
  assumes "candidates cs" "fair_rnd rnd"
  shows "case SelectChannel rnd cs ex of
      None \<Rightarrow> \<forall>c \<in> set cs. ch_ID c \<in> ex
    | Some c \<Rightarrow> c \<in> set cs \<and> ch_ID c \<notin> ex \<and> (\<forall>d \<in> set cs. ch_ID d \<notin> ex \<longrightarrow> ch_Priority d \<le> ch_Priority c)"
  using assms
proof (induction rnd cs ex rule: SelectChannel.induct)
  case (1 rnd ex)
  then show ?case by simp
next
  case (2 rnd c cs ex)
  define same where "same = (\<lambda>d :: channel. ch_Priority d = ch_Priority c)"
  define tier where "tier = filter (\<lambda>d. ch_ID d \<notin> ex) (takeWhile same (c # cs))"
  define rest where "rest = dropWhile same (c # cs)"
  have eq: "SelectChannel rnd (c # cs) ex = (if tier = [] then SelectChannel rnd rest ex
      else case weighted_pick (rnd (total_weight tier)) tier of Some x \<Rightarrow> Some x | None \<Rightarrow> SelectChannel rnd rest ex)"
    unfolding SelectChannel.simps(2) Let_def tier_def rest_def same_def by (rule refl)
  have split: "c # cs = takeWhile same (c # cs) @ rest" by (simp add: rest_def)
  have in_rest: "set (c # cs) = set (takeWhile same (c # cs)) \<union> set rest" using split by (metis set_append)
  have cand: "candidates rest"
    using "2.prems"(1) split unfolding candidates_def by (metis UnCI distinct_append map_append set_append sorted_wrt_append)
  show ?case
  proof (cases "tier = []")
    case True
    have ih: "case SelectChannel rnd rest ex of None \<Rightarrow> \<forall>c \<in> set rest. ch_ID c \<in> ex
      | Some x \<Rightarrow> x \<in> set rest \<and> ch_ID x \<notin> ex \<and> (\<forall>d \<in> set rest. ch_ID d \<notin> ex \<longrightarrow> ch_Priority d \<le> ch_Priority x)"
      using "2.IH"(1) [OF refl refl refl] True cand "2.prems"(2)
      unfolding tier_def rest_def same_def by blast
    have out: "\<forall>d \<in> set (takeWhile same (c # cs)). ch_ID d \<in> ex"
      using True by (simp add: tier_def filter_empty_conv)
    show ?thesis using ih out in_rest True unfolding eq
      by (auto split: option.splits)
  next
    case False
    have w: "\<forall>d \<in> set tier. 0 \<le> ch_Weight d"
      using "2.prems"(1) in_rest by (auto simp: candidates_def tier_def)
    obtain x where x: "weighted_pick (rnd (total_weight tier)) tier = Some x"
      using weighted_pick_some [OF _ False] total_weight_pos [OF False w] "2.prems"(2)
      by (auto simp: fair_rnd_def)
    have xt: "x \<in> set tier" by (rule weighted_pick_in [OF x])
    then have xtw: "x \<in> set (takeWhile same (c # cs))" and xo: "ch_ID x \<notin> ex" by (auto simp: tier_def)
    have xx: "x \<in> set (c # cs)" "ch_Priority x = ch_Priority c"
      using set_takeWhileD [OF xtw] by (simp_all add: same_def)
    have "ch_Priority d \<le> ch_Priority x" if "d \<in> set (c # cs)" for d
      using "2.prems"(1) that xx(2) by (auto simp: candidates_def)
    with xx xo x False show ?thesis unfolding eq by simp
  qed
qed


text \<open>
  The reference reading of the selector: the channels that share the highest priority still available,
  one of them drawn.
\<close>

definition top_tier :: "channel list \<Rightarrow> row_id set \<Rightarrow> channel list" where
  "top_tier cs ex = filter (\<lambda>c. ch_ID c \<notin> ex \<and> topAvailablePriority cs ex = Some (ch_Priority c)) cs"

lemma topAvailablePriority_None: "topAvailablePriority cs ex = None \<longleftrightarrow> (\<forall>c \<in> set cs. ch_ID c \<in> ex)"
  by (induction cs) auto

lemma topAvailablePriority_append:
  "topAvailablePriority (as @ bs) ex
     = (case topAvailablePriority as ex of None \<Rightarrow> topAvailablePriority bs ex | Some p \<Rightarrow> Some p)"
  by (induction as) auto

lemma topAvailablePriority_Some:
  "topAvailablePriority cs ex = Some p \<Longrightarrow> \<exists>c \<in> set cs. ch_ID c \<notin> ex \<and> ch_Priority c = p"
  by (induction cs) (auto split: if_splits)

lemma topAvailablePriority_max:
  "topAvailablePriority cs ex = Some p \<Longrightarrow> candidates cs \<Longrightarrow> c \<in> set cs \<Longrightarrow> ch_ID c \<notin> ex \<Longrightarrow> ch_Priority c \<le> p"
  by (induction cs) (auto simp: candidates_def split: if_splits)

lemma top_tier_empty: "top_tier cs ex = [] \<longleftrightarrow> (\<forall>c \<in> set cs. ch_ID c \<in> ex)"
proof (cases "topAvailablePriority cs ex")
  case None
  then show ?thesis by (auto simp: top_tier_def topAvailablePriority_None)
next
  case (Some p)
  then show ?thesis using topAvailablePriority_Some [OF Some]
    by (auto simp: top_tier_def filter_empty_conv)
qed

lemma candidates_append: "candidates (as @ bs) \<Longrightarrow> candidates as \<and> candidates bs"
  by (auto simp: candidates_def sorted_wrt_append)

lemma below_head:
  assumes "candidates (c # cs)" "d \<in> set (dropWhile (\<lambda>d. ch_Priority d = ch_Priority c) (c # cs))"
  shows "ch_Priority d < ch_Priority c"
proof -
  let ?P = "\<lambda>d. ch_Priority d = ch_Priority c"
  have "dropWhile ?P (c # cs) \<noteq> []" using assms(2) by (rule list.set_cases) simp_all
  then obtain e es where r: "dropWhile ?P (c # cs) = e # es" unfolding neq_Nil_conv by blast
  have ne: "ch_Priority e \<noteq> ch_Priority c" using hd_dropWhile [of ?P "c # cs"] unfolding r by simp
  have "dropWhile ?P (c # cs) = dropWhile ?P cs" by simp
  then have mem: "set (e # es) \<subseteq> set cs" using set_dropWhileD [of _ ?P cs] unfolding r [symmetric] by auto
  have le: "ch_Priority e \<le> ch_Priority c" using mem assms(1) by (auto simp: candidates_def)
  have "candidates (e # es)" using assms(1) r candidates_append [of "takeWhile ?P (c # cs)" "e # es"]
    by (metis takeWhile_dropWhile_id)
  then have "ch_Priority d \<le> ch_Priority e" using assms(2) unfolding r by (auto simp: candidates_def)
  with ne le show ?thesis by linarith
qed

lemma tier_filter:
  assumes "\<And>d. d \<in> set as \<Longrightarrow> ch_Priority d = p" "\<And>d. d \<in> set bs \<Longrightarrow> ch_Priority d < p"
  shows "filter (\<lambda>d. ch_ID d \<notin> ex \<and> Some p = Some (ch_Priority d)) (as @ bs) = filter (\<lambda>d. ch_ID d \<notin> ex) as"
proof -
  have "filter (\<lambda>d. ch_ID d \<notin> ex \<and> Some p = Some (ch_Priority d)) as = filter (\<lambda>d. ch_ID d \<notin> ex) as"
    by (rule filter_cong) (use assms(1) in auto)
  moreover have "filter (\<lambda>d. ch_ID d \<notin> ex \<and> Some p = Some (ch_Priority d)) bs = []"
    using assms(2) by (fastforce simp: filter_empty_conv)
  ultimately show ?thesis by simp
qed

lemma tier_weight: "candidates cs \<Longrightarrow> \<forall>d \<in> set (top_tier cs ex). 0 \<le> ch_Weight d"
  by (simp add: candidates_def top_tier_def)

lemma SelectChannel_tier:
  assumes "candidates cs" "fair_rnd rnd"
  shows "SelectChannel rnd cs ex
      = (let tier = top_tier cs ex in if tier = [] then None else weighted_pick (rnd (total_weight tier)) tier)"
  using assms
proof (induction rnd cs ex rule: SelectChannel.induct)
  case (1 rnd ex)
  then show ?case by (simp add: top_tier_def Let_def)
next
  case (2 rnd c cs ex)
  let ?P = "\<lambda>d. ch_Priority d = ch_Priority c"
  define tier where "tier = filter (\<lambda>d. ch_ID d \<notin> ex) (takeWhile ?P (c # cs))"
  define rest where "rest = dropWhile ?P (c # cs)"
  have split: "c # cs = takeWhile ?P (c # cs) @ rest" by (simp add: rest_def)
  have cand: "candidates rest" using "2.prems"(1) split candidates_append by metis
  have eq: "SelectChannel rnd (c # cs) ex = (if tier = [] then SelectChannel rnd rest ex
      else case weighted_pick (rnd (total_weight tier)) tier of Some x \<Rightarrow> Some x | None \<Rightarrow> SelectChannel rnd rest ex)"
    unfolding SelectChannel.simps(2) Let_def tier_def rest_def by (rule refl)
  have tw: "d \<in> set (takeWhile ?P (c # cs)) \<Longrightarrow> ch_Priority d = ch_Priority c" for d
    using set_takeWhileD by fastforce
  show ?case
  proof (cases "tier = []")
    case True
    have out: "\<forall>d \<in> set (takeWhile ?P (c # cs)). ch_ID d \<in> ex"
      using True unfolding tier_def filter_empty_conv by blast
    have tp: "topAvailablePriority (c # cs) ex = topAvailablePriority rest ex"
      unfolding split [symmetric] by (subst split, subst topAvailablePriority_append)
        (use out topAvailablePriority_None [of "takeWhile ?P (c # cs)" ex] in simp)
    have "top_tier (c # cs) ex = top_tier rest ex"
      unfolding top_tier_def tp by (subst split, subst filter_append) (use out in simp)
    moreover have "SelectChannel rnd rest ex
        = (let tier = top_tier rest ex in if tier = [] then None else weighted_pick (rnd (total_weight tier)) tier)"
      using "2.IH"(1) [OF refl refl refl] True cand "2.prems"(2) unfolding tier_def rest_def by blast
    ultimately show ?thesis using True unfolding eq by simp
  next
    case False
    then obtain d where d: "d \<in> set (takeWhile ?P (c # cs))" "ch_ID d \<notin> ex"
      unfolding tier_def filter_empty_conv by blast
    have "topAvailablePriority (takeWhile ?P (c # cs)) ex = Some (ch_Priority c)"
    proof (cases "topAvailablePriority (takeWhile ?P (c # cs)) ex")
      case None
      then show ?thesis using d unfolding topAvailablePriority_None by blast
    next
      case (Some p)
      then show ?thesis using topAvailablePriority_Some [OF Some] tw by metis
    qed
    then have tp: "topAvailablePriority (c # cs) ex = Some (ch_Priority c)"
      by (subst split, subst topAvailablePriority_append) simp
    have "filter (\<lambda>d. ch_ID d \<notin> ex \<and> Some (ch_Priority c) = Some (ch_Priority d)) (takeWhile ?P (c # cs) @ rest) = tier"
      unfolding tier_def using tw below_head [OF "2.prems"(1)] unfolding rest_def by (rule tier_filter)
    then have tt: "top_tier (c # cs) ex = tier"
      unfolding top_tier_def tp using split by metis
    have w: "\<forall>d \<in> set tier. 0 \<le> ch_Weight d"
      using tier_weight [OF "2.prems"(1), of ex] unfolding tt .
    obtain x where x: "weighted_pick (rnd (total_weight tier)) tier = Some x"
      using weighted_pick_some [OF _ False] total_weight_pos [OF False w] "2.prems"(2)
      unfolding fair_rnd_def by blast
    show ?thesis using x False unfolding eq tt by (simp only: Let_def if_False option.case)
  qed
qed

end
