(* ===== verification/Choice.thy ===== *)
theory Choice
  imports Channels
begin

text \<open>
  What the choice of a channel promises: the reading of the weighted draw as a count, the interface
  \<open>channel_picker\<close> between the selectors and the retry loop of retry.go and pipeline.go with the
  lemmas of the loop, and the properties of policies, affinity and automatic disabling.
\<close>

section \<open>The weighted draw\<close>

lemma weighted_pick_shift: "weighted_pick k (c # cs) = (if k < ch_Weight c + 1 then Some c else weighted_pick (k - (ch_Weight c + 1)) cs)"
  by (simp add: Let_def)

lemma weighted_pick_count:
  assumes "distinct cs" "\<forall>c \<in> set cs. 0 \<le> ch_Weight c" "c \<in> set cs"
  shows "card {k. 0 \<le> k \<and> weighted_pick k cs = Some c} = nat (ch_Weight c + 1)"
  using assms
proof (induction cs)
  case Nil
  then show ?case by simp
next
  case (Cons d ds)
  let ?w = "ch_Weight d + 1"
  have wd: "0 < ?w" using Cons.prems by auto
  show ?case
  proof (cases "c = d")
    case True
    have "{k. 0 \<le> k \<and> weighted_pick k (d # ds) = Some c} = {0 ..< ?w}"
      using True Cons.prems(1) weighted_pick_in by (fastforce simp: weighted_pick_shift split: if_splits)
    then show ?thesis using True by simp
  next
    case False
    have "{k. 0 \<le> k \<and> weighted_pick k (d # ds) = Some c}
        = (\<lambda>k. k + ?w) ` {k. 0 \<le> k \<and> weighted_pick k ds = Some c}" (is "?L = ?f ` ?R")
    proof
      show "?L \<subseteq> ?f ` ?R"
      proof
        fix k assume "k \<in> ?L"
        then have "k - ?w \<in> ?R" using False by (auto simp: weighted_pick_shift split: if_splits)
        then show "k \<in> ?f ` ?R" by (metis (no_types, lifting) diff_add_cancel imageI)
      qed
      show "?f ` ?R \<subseteq> ?L" using wd by (auto simp: weighted_pick_shift)
    qed
    then have "card ?L = card ?R" by (simp add: card_image inj_on_def)
    then show ?thesis using Cons False by simp
  qed
qed

lemma weighted_pick_beyond: "total_weight cs \<le> k \<Longrightarrow> \<forall>c \<in> set cs. 0 \<le> ch_Weight c \<Longrightarrow> weighted_pick k cs = None"
proof (induction cs arbitrary: k)
  case (Cons c cs)
  have "0 \<le> (\<Sum>c\<leftarrow>cs. ch_Weight c + 1)" using Cons.prems(2) by (intro sum_list_nonneg) auto
  then have "\<not> k < ch_Weight c + 1" using Cons.prems(1) by (simp add: total_weight_sum)
  then show ?case using Cons by (simp add: weighted_pick_shift total_weight_sum)
qed simp

definition draws :: "channel list \<Rightarrow> row_id set \<Rightarrow> channel \<Rightarrow> int set" where
  "draws cs ex c = {k. 0 \<le> k \<and> k < total_weight (top_tier cs ex) \<and> SelectChannel (\<lambda>n. k mod n) cs ex = Some c}"

lemma top_tier_distinct: "candidates cs \<Longrightarrow> distinct (top_tier cs ex)"
  by (simp add: candidates_def top_tier_def distinct_map)

lemma draws_eq:
  assumes "candidates cs" "c \<in> set (top_tier cs ex)"
  shows "draws cs ex c = {k. 0 \<le> k \<and> weighted_pick k (top_tier cs ex) = Some c}"
proof -
  let ?t = "top_tier cs ex"
  have ne: "?t \<noteq> []" using assms(2) by auto
  have sel: "SelectChannel (\<lambda>n. k mod n) cs ex = weighted_pick k ?t" if "0 \<le> k" "k < total_weight ?t" for k
    using SelectChannel_tier [OF assms(1), of "\<lambda>n. k mod n" ex] ne that by (simp add: fair_rnd_def Let_def)
  show ?thesis
  proof (intro set_eqI iffI; clarsimp simp: draws_def sel)
    fix k assume k: "0 \<le> k" "weighted_pick k ?t = Some c"
    then have "k < total_weight ?t" using weighted_pick_beyond [OF _ tier_weight [OF assms(1)], of ex k] by force
    then show "k < total_weight ?t \<and> SelectChannel (\<lambda>n. k mod n) cs ex = Some c" using k sel by simp
  qed
qed


section \<open>The retry loop and its interface\<close>

text \<open>
  The loop of \<^verbatim>\<open>relayWithRetry\<close>: \<open>pick\<close> is the selector (it may change the state, as the
  affinity table records the access), \<open>attempt_on\<close> is \<^verbatim>\<open>tryChannel\<close> and says whether the request is
  finished. The result lists the channels tried, in order.
\<close>

fun retry_loop :: "(nat \<Rightarrow> 's \<Rightarrow> channel list \<Rightarrow> row_id set \<Rightarrow> channel option \<times> 's) \<Rightarrow> (nat \<Rightarrow> channel \<Rightarrow> 's \<Rightarrow> bool \<times> 's)
    \<Rightarrow> nat \<Rightarrow> nat \<Rightarrow> channel list \<Rightarrow> row_id set \<Rightarrow> 's \<Rightarrow> (channel list \<times> bool) \<times> 's" where
  "retry_loop pick attempt_on attempt 0 cs tried s = (([], False), s)"
| "retry_loop pick attempt_on attempt (Suc n) cs tried s =
     (case pick attempt s cs tried of
        (None, s) \<Rightarrow> (([], False), s)
      | (Some c, s) \<Rightarrow>
          (case attempt_on attempt c s of
             (True, s) \<Rightarrow> (([c], True), s)
           | (False, s) \<Rightarrow>
               (case retry_loop pick attempt_on (attempt + 1) n cs (insert (ch_ID c) tried) s of
                  ((used, fin), s) \<Rightarrow> ((c # used, fin), s))))"

locale channel_picker =
  fixes pick :: "nat \<Rightarrow> 's \<Rightarrow> channel list \<Rightarrow> row_id set \<Rightarrow> channel option \<times> 's"
    and fine :: "'s \<Rightarrow> bool"
  assumes pick_fine: "fine s \<Longrightarrow> fine (snd (pick a s cs ex))"
    and pick_sound: "candidates cs \<Longrightarrow> fine s \<Longrightarrow> fst (pick a s cs ex) = Some c \<Longrightarrow>
      c \<in> set cs \<and> ch_ID c \<notin> ex \<and> (\<forall>d \<in> set cs. ch_ID d \<notin> ex \<longrightarrow> ch_Priority d \<le> ch_Priority c)"
    and pick_complete: "candidates cs \<Longrightarrow> fine s \<Longrightarrow> fst (pick a s cs ex) = None \<Longrightarrow> \<forall>d \<in> set cs. ch_ID d \<in> ex"

text \<open>A contract of the client's step: trying a channel keeps the selector usable.\<close>

locale channel_retry = channel_picker +
  fixes attempt_on :: "nat \<Rightarrow> channel \<Rightarrow> 's \<Rightarrow> bool \<times> 's"
  assumes try_fine: "fine s \<Longrightarrow> fine (snd (attempt_on a c s))"
begin

lemma loop_step:
  assumes "candidates cs" "fine s" "retry_loop pick attempt_on a (Suc n) cs ex s = ((used, fin), s')"
  obtains (none) "used = []" "\<not> fin" "\<forall>d \<in> set cs. ch_ID d \<in> ex" "fine s'"
  | (some) c s1 s2 d rest where "used = c # rest" "c \<in> set cs" "ch_ID c \<notin> ex"
      "\<forall>d \<in> set cs. ch_ID d \<notin> ex \<longrightarrow> ch_Priority d \<le> ch_Priority c" "fine s1" "attempt_on a c s1 = (d, s2)" "fine s2"
      "d \<Longrightarrow> rest = [] \<and> fin \<and> s' = s2"
      "\<not> d \<Longrightarrow> retry_loop pick attempt_on (a + 1) n cs (insert (ch_ID c) ex) s2 = ((rest, fin), s')"
proof -
  obtain co s1 where p: "pick a s cs ex = (co, s1)" by fastforce
  have f1: "fine s1" using pick_fine [OF assms(2), of a cs ex] p by simp
  show thesis
  proof (cases co)
    case None
    then show thesis using assms(3) p f1 pick_complete [OF assms(1,2), of a ex] by (intro none) auto
  next
    case (Some c)
    obtain d s2 where t: "attempt_on a c s1 = (d, s2)" by fastforce
    have f2: "fine s2" using try_fine [OF f1, of a c] t by simp
    have c: "c \<in> set cs" "ch_ID c \<notin> ex" "\<forall>d \<in> set cs. ch_ID d \<notin> ex \<longrightarrow> ch_Priority d \<le> ch_Priority c"
      using pick_sound [OF assms(1,2), of a ex c] p Some by auto
    show thesis
    proof (cases d)
      case True
      then show thesis using assms(3) p Some t by (intro some [OF _ c f1 t f2]) auto
    next
      case False
      obtain r f s3 where r: "retry_loop pick attempt_on (a + 1) n cs (insert (ch_ID c) ex) s2 = ((r, f), s3)"
        by (metis prod.exhaust)
      then show thesis using assms(3) p Some t False by (intro some [OF _ c f1 t f2]) auto
    qed
  qed
qed

lemma loop_attempts:
  "candidates cs \<Longrightarrow> fine s \<Longrightarrow> retry_loop pick attempt_on a n cs ex s = ((used, fin), s') \<Longrightarrow>
     length used \<le> n \<and> set used \<subseteq> set cs \<and> distinct (map ch_ID used) \<and> (\<forall>c \<in> set used. ch_ID c \<notin> ex) \<and> fine s'"
proof (induction n arbitrary: a ex s used)
  case (Suc n)
  from Suc.prems show ?case
  proof (cases rule: loop_step)
    case (some c s1 s2 d rest)
    show ?thesis
    proof (cases d)
      case False
      have "length rest \<le> n \<and> set rest \<subseteq> set cs \<and> distinct (map ch_ID rest)
          \<and> (\<forall>c' \<in> set rest. ch_ID c' \<notin> insert (ch_ID c) ex) \<and> fine s'"
        by (rule Suc.IH [OF Suc.prems(1) some(7) some(9) [OF False]])
      with some(1-3) show ?thesis by auto
    qed (use some in auto)
  qed auto
qed auto

lemma loop_exhaustive:
  "candidates cs \<Longrightarrow> fine s \<Longrightarrow> retry_loop pick attempt_on a n cs ex s = ((used, False), s') \<Longrightarrow>
     length used = n \<or> (\<forall>c \<in> set cs. ch_ID c \<in> ex \<union> ch_ID ` set used)"
proof (induction n arbitrary: a ex s used)
  case (Suc n)
  from Suc.prems show ?case
  proof (cases rule: loop_step)
    case (some c s1 s2 d rest)
    then have "\<not> d" by auto
    then have "length rest = n \<or> (\<forall>c' \<in> set cs. ch_ID c' \<in> insert (ch_ID c) ex \<union> ch_ID ` set rest)"
      using Suc.IH [OF Suc.prems(1) some(7) some(9)] by blast
    with some(1) show ?thesis by auto
  qed auto
qed auto

lemma loop_priorities:
  "candidates cs \<Longrightarrow> fine s \<Longrightarrow> retry_loop pick attempt_on a n cs ex s = ((used, fin), s') \<Longrightarrow>
     sorted_wrt (\<lambda>c d. ch_Priority d \<le> ch_Priority c) used"
proof (induction n arbitrary: a ex s used)
  case (Suc n)
  from Suc.prems show ?case
  proof (cases rule: loop_step)
    case (some c s1 s2 d rest)
    show ?thesis
    proof (cases d)
      case False
      have "sorted_wrt (\<lambda>c d. ch_Priority d \<le> ch_Priority c) rest"
        by (rule Suc.IH [OF Suc.prems(1) some(7) some(9) [OF False]])
      moreover have "set rest \<subseteq> set cs" "\<forall>c' \<in> set rest. ch_ID c' \<notin> insert (ch_ID c) ex"
        using loop_attempts [OF Suc.prems(1) some(7) some(9) [OF False]] by auto
      ultimately show ?thesis using some(1,4) by auto
    qed (use some in auto)
  qed auto
qed auto

end

section \<open>The selectors provide the interface\<close>

text \<open>
  One state for both: what the world gives at each choice (the draw and the clock) and the affinity
  table.
\<close>

record picker_state =
  draw_stream :: "nat \<Rightarrow> int \<Rightarrow> int"
  clock_stream :: "nat \<Rightarrow> go_time"
  aff_table :: affinityTable
  outcomes :: "affinityOutcome list"

definition fair_state :: "'a picker_state_scheme \<Rightarrow> bool" where
  "fair_state s \<longleftrightarrow> (\<forall>i. fair_rnd (draw_stream s i))"

definition Select :: "string \<Rightarrow> string \<Rightarrow> nat \<Rightarrow> 'a picker_state_scheme \<Rightarrow> channel list \<Rightarrow> row_id set
    \<Rightarrow> channel option \<times> 'a picker_state_scheme" where
  "Select model key attempt s cs tried =
     (case selectWithAffinity (draw_stream s attempt) (clock_stream s attempt) cs tried model key (aff_table s) of
        ((co, out), tab) \<Rightarrow> (co, s\<lparr>aff_table := tab, outcomes := outcomes s @ [out]\<rparr>))"

lemma find_bound_Some:
  "find_bound cs b tp ex = Some c \<Longrightarrow> c \<in> set cs \<and> ch_ID c = b \<and> ch_Priority c = tp \<and> ch_ID c \<notin> ex"
  by (induction cs) (auto split: if_splits)

lemma selectWithAffinity_cases:
  assumes "selectWithAffinity rnd t cs ex model key tab = ((co, out), tab')"
  obtains (drawn) "co = SelectChannel rnd cs ex" "out \<noteq> affinityHit"
  | (bound) c b tp where "co = Some c" "out = affinityHit" "topAvailablePriority cs ex = Some tp"
      "find_bound cs b tp ex = Some c" "fst (aff_lookup t model key tab) = Some b"
proof (cases "key = []")
  case True
  then show thesis using assms by (intro drawn) (auto simp: selectWithAffinity_def)
next
  case False
  obtain ob tab1 where l: "aff_lookup t model key tab = (ob, tab1)" by fastforce
  show thesis
  proof (cases ob)
    case None
    then show thesis using assms False l by (intro drawn) (auto simp: selectWithAffinity_def)
  next
    case (Some b)
    show thesis
    proof (cases "topAvailablePriority cs ex")
      case None
      then show thesis using assms False l Some by (intro drawn) (auto simp: selectWithAffinity_def)
    next
      case tp: (Some tp)
      show thesis
      proof (cases "find_bound cs b tp ex")
        case None
        then show thesis using assms False l Some tp by (intro drawn) (auto simp: selectWithAffinity_def)
      next
        case f: (Some c)
        show thesis by (rule bound [OF _ _ tp f]) (use assms False l Some tp f in \<open>auto simp: selectWithAffinity_def\<close>)
      qed
    qed
  qed
qed

lemma selectWithAffinity_ok:
  assumes "candidates cs" "fair_rnd rnd" "selectWithAffinity rnd t cs ex model key tab = ((co, out), tab')"
  shows "case co of None \<Rightarrow> \<forall>c \<in> set cs. ch_ID c \<in> ex
    | Some c \<Rightarrow> c \<in> set cs \<and> ch_ID c \<notin> ex \<and> (\<forall>d \<in> set cs. ch_ID d \<notin> ex \<longrightarrow> ch_Priority d \<le> ch_Priority c)"
  using assms(3)
proof (cases rule: selectWithAffinity_cases)
  case drawn
  then show ?thesis using SelectChannel_ok [OF assms(1,2), of ex] by simp
next
  case (bound c b tp)
  then show ?thesis
    using find_bound_Some [OF bound(4)] topAvailablePriority_max [OF bound(3) assms(1)] by auto
qed

interpretation selector: channel_picker "Select model key" fair_state
proof
  fix s :: "'a picker_state_scheme" and a cs ex c
  obtain co out tab where p: "selectWithAffinity (draw_stream s a) (clock_stream s a) cs ex model key (aff_table s) = ((co, out), tab)"
    by (metis prod.exhaust)
  show "fair_state s \<Longrightarrow> fair_state (snd (Select model key a s cs ex))"
    by (simp add: Select_def p fair_state_def)
  show "candidates cs \<Longrightarrow> fair_state s \<Longrightarrow> fst (Select model key a s cs ex) = Some c \<Longrightarrow>
      c \<in> set cs \<and> ch_ID c \<notin> ex \<and> (\<forall>d \<in> set cs. ch_ID d \<notin> ex \<longrightarrow> ch_Priority d \<le> ch_Priority c)"
    using selectWithAffinity_ok [OF _ _ p] by (simp add: Select_def p fair_state_def)
  show "candidates cs \<Longrightarrow> fair_state s \<Longrightarrow> fst (Select model key a s cs ex) = None \<Longrightarrow> \<forall>d \<in> set cs. ch_ID d \<in> ex"
    using selectWithAffinity_ok [OF _ _ p] by (simp add: Select_def p fair_state_def)
qed


section \<open>Candidates from the store\<close>

definition channel_rows :: "channel list \<Rightarrow> bool" where
  "channel_rows table \<longleftrightarrow> distinct (map ch_ID table) \<and> (\<forall>c \<in> set table. 0 \<le> ch_Weight c)"

lemma candidates_ListEnabledForModel:
  assumes "channel_rows table"
  shows "candidates (ListEnabledForModel table model)"
proof -
  let ?l = "sort_key ch_ID (filter (serves model) table)"
  have "distinct (map ch_ID (filter (serves model) table))"
    using assms by (simp add: channel_rows_def distinct_map inj_on_def)
  then have "distinct (map ch_ID (sort_key (\<lambda>c. - ch_Priority c) ?l))"
    by (simp add: distinct_map)
  moreover have "sorted (map (\<lambda>c. - ch_Priority c) (sort_key (\<lambda>c. - ch_Priority c) ?l))" by simp
  ultimately show ?thesis
    using assms unfolding candidates_def ListEnabledForModel_def channel_rows_def
    by (auto simp: sorted_map)
qed

lemma candidates_filter: "candidates cs \<Longrightarrow> candidates (filter P cs)"
  by (auto simp: candidates_def sorted_wrt_filter distinct_map inj_on_def)

lemma candidates_filterByProvider: "candidates cs \<Longrightarrow> candidates (filterByProvider cs provider)"
  by (simp add: filterByProvider_def candidates_filter)

section \<open>The affinity table\<close>

lemma oldest_least: "oldest tab = Some y \<Longrightarrow> x \<in> set tab \<Longrightarrow> lastAccess (snd y) \<le> lastAccess (snd x)"
  by (induction tab arbitrary: y) (auto simp: oldest_None split: option.splits if_splits)

lemma evict_oldest_length: "length (evict_oldest tab) \<le> affinityMaxEntries"
proof (induction tab rule: evict_oldest.induct)
  case (1 tab)
  show ?case
  proof (cases "length tab \<le> affinityMaxEntries")
    case False
    then obtain k e where ke: "oldest tab = Some (k, e)" using oldest_None [of tab] by fastforce
    show ?thesis using 1 [OF False ke refl] False ke by (simp add: evict_oldest.simps [of tab])
  qed (simp add: evict_oldest.simps [of tab])
qed

lemma tbl_get_iff: "distinct (map fst t) \<Longrightarrow> tbl_get t k = Some v \<longleftrightarrow> (k, v) \<in> set t"
  by (simp add: tbl_get_def)

text \<open>An entry is not evicted as long as fewer other keys than the table has room for were used since.\<close>

lemma evict_oldest_keeps:
  assumes "distinct (map fst tab)" "(k, e) \<in> set tab" "finite T" "card T < affinityMaxEntries"
    "\<And>k' e'. (k', e') \<in> set tab \<Longrightarrow> k' \<noteq> k \<Longrightarrow> k' \<notin> T \<Longrightarrow> lastAccess e' < lastAccess e"
  shows "(k, e) \<in> set (evict_oldest tab)"
  using assms
proof (induction tab rule: evict_oldest.induct)
  case (1 tab)
  show ?case
  proof (cases "length tab \<le> affinityMaxEntries")
    case True
    then show ?thesis using "1.prems" by (simp add: evict_oldest.simps [of tab])
  next
    case False
    then obtain k1 e1 where ke: "oldest tab = Some (k1, e1)" using oldest_None [of tab] by fastforce
    have "\<exists>x \<in> set tab. fst x \<noteq> k \<and> fst x \<notin> T"
    proof (rule ccontr)
      assume "\<not> ?thesis"
      then have "set (map fst tab) \<subseteq> insert k T" by auto
      then have "card (set (map fst tab)) \<le> card (insert k T)" by (rule card_mono [rotated]) (use "1.prems"(3) in simp)
      also have "\<dots> \<le> affinityMaxEntries" using card_insert_le_m1 [of "Suc (card T)" T k] "1.prems"(3,4) by (simp add: card_insert_if)
      finally show False using distinct_card [OF "1.prems"(1)] False by simp
    qed
    then obtain k2 e2 where k2: "(k2, e2) \<in> set tab" "k2 \<noteq> k" "k2 \<notin> T" by force
    have "lastAccess e1 \<le> lastAccess e2" using oldest_least [OF ke k2(1)] by simp
    then have "lastAccess e1 < lastAccess e" using "1.prems"(5) [OF k2] by simp
    then have "k1 \<noteq> k" using oldest_in [OF ke] "1.prems"(1,2) by (metis eq_key_imp_eq_value less_irrefl)
    then have "(k, e) \<in> set (tbl_del k1 tab)" using "1.prems"(2) by (auto simp: tbl_del_def)
    moreover have "distinct (map fst (tbl_del k1 tab))"
      using "1.prems"(1) by (auto simp: tbl_del_def distinct_map inj_on_def)
    moreover have "lastAccess e' < lastAccess e" if "(k', e') \<in> set (tbl_del k1 tab)" "k' \<noteq> k" "k' \<notin> T" for k' e'
      using "1.prems"(5) that by (auto simp: tbl_del_def)
    ultimately show ?thesis using 1(1) [OF False ke refl] "1.prems"(3,4) False ke by (simp add: evict_oldest.simps [of tab])
  qed
qed

lemma evict_oldest_sub: "distinct (map fst tab) \<Longrightarrow> set (evict_oldest tab) \<subseteq> set tab \<and> distinct (map fst (evict_oldest tab))"
proof (induction tab rule: evict_oldest.induct)
  case (1 tab)
  show ?case
  proof (cases "length tab \<le> affinityMaxEntries")
    case False
    then obtain k1 e1 where ke: "oldest tab = Some (k1, e1)" using oldest_None [of tab] by fastforce
    have "distinct (map fst (tbl_del k1 tab))" "set (tbl_del k1 tab) \<subseteq> set tab"
      using "1.prems" by (auto simp: tbl_del_def distinct_map inj_on_def)
    then show ?thesis using 1(1) [OF False ke refl] False ke by (auto simp: evict_oldest.simps [of tab])
  qed (use "1.prems" in \<open>simp add: evict_oldest.simps [of tab]\<close>)
qed

lemma keys_tbl_upsert: "distinct (map fst t) \<Longrightarrow> distinct (map fst (tbl_upsert v f k t))"
  by (auto simp: tbl_upsert_def tbl_get_def keys_tbl_upd map_of_eq_None_iff split: option.splits)

lemma tbl_upsert_mem: "(k', v') \<in> set (tbl_upsert v f k t) \<Longrightarrow> k' \<noteq> k \<Longrightarrow> (k', v') \<in> set t"
proof -
  have "(k', v') \<in> set (tbl_upd f k t) \<Longrightarrow> k' \<noteq> k \<Longrightarrow> (k', v') \<in> set t" by (induction t) (auto split: if_splits)
  then show "(k', v') \<in> set (tbl_upsert v f k t) \<Longrightarrow> k' \<noteq> k \<Longrightarrow> (k', v') \<in> set t"
    by (auto simp: tbl_upsert_def split: option.splits)
qed

text \<open>The calls of the table, each at the time it reads: a lookup before a request, a binding after a successful one.\<close>

datatype aff_event = AffLookup (aff_time: go_time) (aff_model: string) (aff_given: string)
  | AffBind (aff_time: go_time) (aff_model: string) (aff_given: string) (aff_channel: row_id)

definition aff_key :: "aff_event \<Rightarrow> string" where
  "aff_key e = affinity_key (aff_model e) (aff_given e)"

fun aff_step :: "aff_event \<Rightarrow> affinityTable \<Rightarrow> affinityTable" where
  "aff_step (AffLookup t m k) tab = snd (aff_lookup t m k tab)"
| "aff_step (AffBind t m k c) tab = aff_bind t m k c tab"

definition aff_run :: "aff_event list \<Rightarrow> affinityTable \<Rightarrow> affinityTable" where
  "aff_run es tab = fold aff_step es tab"

text \<open>What is known of a table: its bound, and the keys that may have been used at or after a time.\<close>

definition used_since :: "go_time \<Rightarrow> string set \<Rightarrow> affinityTable \<Rightarrow> bool" where
  "used_since t T tab \<longleftrightarrow> distinct (map fst tab) \<and> length tab \<le> affinityMaxEntries
     \<and> (\<forall>k e. tbl_get tab k = Some e \<longrightarrow> k \<notin> T \<longrightarrow> lastAccess e < t)"

definition bound_to :: "string \<Rightarrow> row_id \<Rightarrow> go_time \<Rightarrow> go_time \<Rightarrow> affinityTable \<Rightarrow> bool" where
  "bound_to k cid t end tab \<longleftrightarrow> (\<exists>e. tbl_get tab k = Some e \<and> channelID e = cid \<and> expiresAt e = end \<and> t \<le> lastAccess e)"

lemma bind_spec:
  fixes t :: go_time and model key :: string and cid :: row_id
  assumes "distinct (map fst tab)" "length tab \<le> affinityMaxEntries"
  defines "tab' \<equiv> aff_bind t model key cid tab"
  shows "distinct (map fst tab')" "length tab' \<le> affinityMaxEntries"
    "tbl_get tab' k = Some e \<Longrightarrow> tbl_get tab k = Some e \<or> k = affinity_key model key \<and> lastAccess e = t"
proof -
  let ?e = "\<lparr>channelID = cid, expiresAt = t + affinityTTL, lastAccess = t\<rparr>"
  let ?t1 = "tbl_upsert ?e (\<lambda>_. ?e) (affinity_key model key) tab"
  have d: "distinct (map fst ?t1)" using assms(1) by (rule keys_tbl_upsert)
  have f: "distinct (map fst (filter (\<lambda>(k, e). \<not> t > expiresAt e) ?t1))" using d by (rule distinct_map_filter)
  have ev: "distinct (map fst (evictLocked t ?t1))" "set (evictLocked t ?t1) \<subseteq> set ?t1"
    using evict_oldest_sub [OF f] unfolding evictLocked_def by auto
  have tab': "tab' = tab \<or> tab' = ?t1 \<or> tab' = evictLocked t ?t1" by (auto simp: tab'_def aff_bind_def Let_def)
  then show dt: "distinct (map fst tab')" using assms(1) d ev by auto
  show "length tab' \<le> affinityMaxEntries"
    using assms(2) evict_oldest_length by (auto simp: tab'_def aff_bind_def Let_def evictLocked_def)
  assume "tbl_get tab' k = Some e"
  then have "tbl_get tab k = Some e \<or> tbl_get ?t1 k = Some e"
    using tab' ev(2) by (auto simp: tbl_get_iff assms(1) d ev(1))
  then show "tbl_get tab k = Some e \<or> k = affinity_key model key \<and> lastAccess e = t"
    by (auto simp: tbl_get_upsert split: if_splits option.splits)
qed

lemma step_used:
  assumes "used_since t T tab" "aff_time e < t \<or> aff_key e \<in> T"
  shows "used_since t T (aff_step e tab)"
proof (cases e)
  case (AffLookup u m k)
  then show ?thesis using assms
    by (auto simp: used_since_def aff_lookup_def aff_key_def keys_tbl_upd tbl_get_upd split: option.splits if_splits)
     (metis length_map keys_tbl_upd)+
next
  case (AffBind u m k c)
  have d: "distinct (map fst tab)" "length tab \<le> affinityMaxEntries" using assms(1) by (simp_all add: used_since_def)
  show ?thesis unfolding used_since_def AffBind aff_step.simps
  proof (intro conjI allI impI)
    fix x y assume "tbl_get (aff_bind u m k c tab) x = Some y" "x \<notin> T"
    then show "lastAccess y < t" using bind_spec(3) [OF d, of u m k c x y] assms AffBind by (auto simp: used_since_def aff_key_def)
  qed (rule bind_spec(1,2) [OF d])+
qed

lemma run_used: "used_since t T tab \<Longrightarrow> \<forall>e \<in> set es. aff_time e < t \<or> aff_key e \<in> T \<Longrightarrow> used_since t T (aff_run es tab)"
  by (induction es arbitrary: tab) (auto simp: aff_run_def intro: step_used)

text \<open>A binding survives the calls for other keys and the lookups of its own.\<close>

lemma bind_keeps:
  assumes u: "used_since t T tab" "finite T" "card (T - {k}) < affinityMaxEntries" and b: "bound_to k cid t end tab"
    and e: "u \<le> end" "t \<le> u" "affinity_key m key \<in> T" "affinity_key m key \<noteq> k"
  shows "bound_to k cid t end (aff_bind u m key c tab)"
proof -
  let ?e = "\<lparr>channelID = c, expiresAt = u + affinityTTL, lastAccess = u\<rparr>"
  let ?t1 = "tbl_upsert ?e (\<lambda>_. ?e) (affinity_key m key) tab"
  have d: "distinct (map fst tab)" using u(1) by (simp add: used_since_def)
  have d1: "distinct (map fst ?t1)" using d by (rule keys_tbl_upsert)
  obtain y where y: "tbl_get tab k = Some y" "channelID y = cid" "expiresAt y = end" "t \<le> lastAccess y"
    using b by (auto simp: bound_to_def)
  have g1: "tbl_get ?t1 k = Some y" using y(1) e(4) by (simp add: tbl_get_upsert)
  let ?t2 = "filter (\<lambda>(k, e). \<not> u > expiresAt e) ?t1"
  have d2: "distinct (map fst ?t2)" using d1 by (rule distinct_map_filter)
  have m2: "(k, y) \<in> set ?t2" using g1 y(3) e(1) by (simp add: tbl_get_iff [OF d1])
  have old: "lastAccess e' < lastAccess y" if "(k', e') \<in> set ?t2" "k' \<noteq> k" "k' \<notin> T - {k}" for k' e'
  proof -
    have "tbl_get ?t1 k' = Some e'" using that(1) by (simp add: tbl_get_iff [OF d1])
    then have "tbl_get tab k' = Some e'" using that(2,3) e(3) by (auto simp: tbl_get_upsert split: if_splits)
    then show ?thesis using u(1) that y(4) by (force simp: used_since_def)
  qed
  have "(k, y) \<in> set (evictLocked u ?t1)" unfolding evictLocked_def
    by (rule evict_oldest_keeps [OF d2 m2 _ u(3) old]) (use u(2) in simp)
  then have "tbl_get (evictLocked u ?t1) k = Some y"
    using evict_oldest_sub [OF d2] by (simp add: tbl_get_iff evictLocked_def)
  then have "tbl_get (aff_bind u m key c tab) k = Some y" using g1 y(1) by (simp add: aff_bind_def Let_def)
  then show ?thesis using y by (simp add: bound_to_def)
qed

lemma lookup_keeps: "bound_to k cid t end tab \<Longrightarrow> t \<le> u \<Longrightarrow> bound_to k cid t end (snd (aff_lookup u m key tab))"
  by (auto simp: bound_to_def aff_lookup_def tbl_get_upd split: option.splits)

text \<open>The calls between a binding and a request: none binds the key anew, and not too many other keys are used.\<close>

definition undisturbed :: "string \<Rightarrow> go_time \<Rightarrow> go_time \<Rightarrow> aff_event list \<Rightarrow> bool" where
  "undisturbed k t t' es \<longleftrightarrow> (\<forall>e \<in> set es. t \<le> aff_time e \<and> aff_time e \<le> t' \<and> (aff_key e = k \<longrightarrow> is_AffLookup e))
     \<and> card (aff_key ` set es - {k}) < affinityMaxEntries"

lemma run_keeps:
  assumes "used_since t T tab" "finite T" "card (T - {k}) < affinityMaxEntries" "bound_to k cid t end tab"
    and "\<forall>e \<in> set es. t \<le> aff_time e \<and> aff_time e \<le> end \<and> aff_key e \<in> T \<and> (aff_key e = k \<longrightarrow> is_AffLookup e)"
  shows "bound_to k cid t end (aff_run es tab)"
  using assms(1,4,5)
proof (induction es arbitrary: tab)
  case (Cons e es)
  have "used_since t T (aff_step e tab)" using Cons.prems by (intro step_used) auto
  moreover have "bound_to k cid t end (aff_step e tab)"
    using Cons.prems bind_keeps [OF Cons.prems(1) assms(2,3) Cons.prems(2)] lookup_keeps [OF Cons.prems(2)]
    by (cases e) (auto simp: aff_key_def)
  ultimately show ?case using Cons by (simp add: aff_run_def)
qed (simp add: aff_run_def)

lemma top_tier_mem:
  "c \<in> set (top_tier cs ex) \<Longrightarrow> c \<in> set cs \<and> ch_ID c \<notin> ex \<and> topAvailablePriority cs ex = Some (ch_Priority c)"
  by (simp add: top_tier_def)

lemma find_bound_unique:
  "distinct (map ch_ID cs) \<Longrightarrow> c \<in> set cs \<Longrightarrow> ch_ID c \<notin> ex \<Longrightarrow> find_bound cs (ch_ID c) (ch_Priority c) ex = Some c"
  by (induction cs) (auto simp: inj_on_def image_iff)

section \<open>Automatic disabling\<close>

definition quiet :: "int \<Rightarrow> row_id \<Rightarrow> health_event list \<Rightarrow> bool" where
  "quiet threshold i es \<longleftrightarrow> list_all (\<lambda>n. int (streak i (take n es)) < threshold) [0 ..< Suc (length es)]"

lemma quiet_snoc: "quiet threshold i (es @ [e]) \<longleftrightarrow> quiet threshold i es \<and> int (streak i (es @ [e])) < threshold"
  by (auto simp: quiet_def list_all_iff)

lemma streak_snoc: "streak i (es @ [e]) = streak_step i (streak i es) e"
  by (simp add: streak_def)

lemma health_run_snoc: "health_run threshold h (es @ [e]) = health_step threshold (health_run threshold h es) e"
  by (simp add: health_run_def)

lemma AutoDisable_other:
  "AutoDisable w j r h = (b, h') \<Longrightarrow> j \<noteq> i \<Longrightarrow>
     tbl_get (channels h') i = tbl_get (channels h) i \<and> fatal_failures h' = fatal_failures h \<and> disable_alerts h' = disable_alerts h"
  by (auto simp: AutoDisable_def tbl_get_upd split: if_splits)

lemma NoteFailure_other:
  "j \<noteq> i \<Longrightarrow> tbl_get (channels (NoteFailure threshold w j class status h)) i = tbl_get (channels h) i
     \<and> fatal_failures (NoteFailure threshold w j class status h) i = fatal_failures h i
     \<and> (i \<in> set (disable_alerts (NoteFailure threshold w j class status h)) \<longleftrightarrow> i \<in> set (disable_alerts h))"
  by (auto simp: NoteFailure_def health_fail_def health_reset_def AutoDisable_def tbl_get_upd Let_def
      split: prod.splits if_splits "bool.splits")

lemma NoteFailure_uncounted: "\<not> CountsTowardAutoDisable class \<Longrightarrow> NoteFailure threshold w i class status h = h"
  by (simp add: NoteFailure_def)

definition counted :: "channel_state \<Rightarrow> row_id \<Rightarrow> int" where
  "counted h i = (case fatal_failures h i of None \<Rightarrow> 0 | Some n \<Rightarrow> n)"

lemma health_quiet:
  assumes "quiet threshold i es" "counted h i = 0" "i \<notin> set (disable_alerts h)"
  shows "counted (health_run threshold h es) i = int (streak i es)
    \<and> tbl_get (channels (health_run threshold h es)) i = tbl_get (channels h) i
    \<and> i \<notin> set (disable_alerts (health_run threshold h es))"
  using assms(1)
proof (induction es rule: rev_induct)
  case Nil
  then show ?case using assms(2,3) by (simp add: health_run_def streak_def)
next
  case (snoc e es)
  let ?h = "health_run threshold h es"
  have ih: "counted ?h i = int (streak i es)" "tbl_get (channels ?h) i = tbl_get (channels h) i"
    "i \<notin> set (disable_alerts ?h)" and lt: "int (streak i (es @ [e])) < threshold"
    using snoc by (auto simp: quiet_snoc)
  show ?case
  proof (cases e)
    case (HSuccess j)
    then show ?thesis using ih
      by (auto simp: health_run_snoc streak_snoc NoteSuccess_def health_reset_def counted_def)
  next
    case (HFailure j cls status)
    show ?thesis
    proof (cases "j = i \<and> CountsTowardAutoDisable cls")
      case True
      then show ?thesis using ih lt HFailure
        by (auto simp: health_run_snoc streak_snoc NoteFailure_def health_fail_def counted_def Let_def)
    next
      case False
      then show ?thesis using ih HFailure NoteFailure_other [of j i] NoteFailure_uncounted
        by (cases "j = i") (auto simp: health_run_snoc streak_snoc counted_def)
    qed
  qed
qed

section \<open>Policies\<close>

lemma allows_layers_iff:
  "allows_layers ls model = Inr True \<longleftrightarrow>
     list_all (\<lambda>l. case layer_set l of None \<Rightarrow> False | Some S \<Rightarrow> model \<in> S) ls"
proof (induction ls)
  case (Cons l ls)
  show ?case
  proof (cases "parseModelPolicy l")
    case (Inl e)
    then show ?thesis by (simp add: layer_set_def split: unit.split)
  next
    case (Inr r)
    then show ?thesis using Cons by (cases r) (simp_all add: layer_set_def)
  qed
qed simp

section \<open>Properties\<close>

definition channel0 :: "row_id \<Rightarrow> int \<Rightarrow> int \<Rightarrow> channel" where
  "channel0 i p w = \<lparr>ch_ID = i, ch_Name = [], ch_Provider = ''openai'', ch_Protocol = ''openai_compat'', ch_BaseURL = [],
     ch_APIKeyEncrypted = [], ch_Models = Some (JArr [JStr ''m'']), ch_ModelMapping = None, ch_Status = ChannelEnabled,
     ch_Priority = p, ch_Weight = w, ch_ParamOverride = None, ch_HeaderOverride = None, ch_TestModel = [],
     ch_LastTestAt = None, ch_LastTestLatencyMS = None, ch_DisabledReason = []\<rparr>"

lemma channel0_simps [simp]:
  "ch_ID (channel0 i p w) = i" "ch_Priority (channel0 i p w) = p" "ch_Weight (channel0 i p w) = w"
  "ch_Status (channel0 i p w) = ChannelEnabled" "ch_Models (channel0 i p w) = Some (JArr [JStr ''m''])"
  by (simp_all add: channel0_def)

text \<open>C33. The weighted choice is proportional: of the draws \<^verbatim>\<open>rand.Intn\<close> can return for the
  channels that share the highest priority still available, exactly weight + 1 choose a given one of them, and
  a channel that is not among them is never chosen.\<close>

theorem SelectChannel_proportional:
  assumes "candidates cs"
  shows "card (draws cs ex c) = (if c \<in> set (top_tier cs ex) then nat (ch_Weight c + 1) else 0)"
proof (cases "c \<in> set (top_tier cs ex)")
  case True
  then show ?thesis
    using draws_eq [OF assms True] weighted_pick_count [OF top_tier_distinct [OF assms] tier_weight [OF assms] True] by simp
next
  case False
  have "draws cs ex c = {}"
    using SelectChannel_tier [OF assms, of "\<lambda>n. _ mod n" ex] weighted_pick_in False
    by (auto simp: draws_def fair_rnd_def Let_def split: if_splits)
  then show ?thesis using False by simp
qed

theorem SelectChannel_proportional_witness:
  "card (draws [channel0 1 5 2, channel0 2 5 0, channel0 3 1 7] {2} (channel0 1 5 2)) = 3"
  using SelectChannel_proportional [of "[channel0 1 5 2, channel0 2 5 0, channel0 3 1 7]" "{2}" "channel0 1 5 2"]
  by (simp add: candidates_def top_tier_def)

text \<open>C34. Affinity holds. Whatever calls the table had before, let a successful request bind its key to a channel at a
  time later than those; let any calls follow that do not bind the same key anew, with fewer than 10000 other keys in
  them, whose bindings may evict entries. Then a request of that key within 30 minutes of the binding goes to the same channel,
  whatever the draw, provided the channel is in the top available tier (priority takes precedence over affinity by design);
  and the table keeps its bound of 10000 entries throughout.\<close>

theorem affinity_sticks:
  fixes before after :: "aff_event list" and t :: go_time and model key :: string and c :: channel
  assumes "\<forall>e \<in> set before. aff_time e < t" "undisturbed (affinity_key model key) t t' after"
    and "key \<noteq> []" "t \<le> t'" "t' \<le> t + affinityTTL"
    and "candidates cs" "c \<in> set (top_tier cs ex)"
  defines "tab \<equiv> aff_run after (aff_bind t model key (ch_ID c) (aff_run before []))"
  shows "fst (selectWithAffinity rnd t' cs ex model key tab) = (Some c, affinityHit) \<and> length tab \<le> affinityMaxEntries"
proof -
  let ?k = "affinity_key model key" and ?tab0 = "aff_run before []"
  let ?T = "insert ?k (aff_key ` set after)" and ?e = "\<lparr>channelID = ch_ID c, expiresAt = t + affinityTTL, lastAccess = t\<rparr>"
  have card: "card (?T - {?k}) < affinityMaxEntries" using assms(2) by (simp add: undisturbed_def)
  have u0: "used_since t {} ?tab0" by (rule run_used) (use assms(1) in \<open>auto simp: used_since_def tbl_get_def\<close>)
  then have u0': "used_since t ?T ?tab0" by (simp add: used_since_def)
  then have u1: "used_since t ?T (aff_bind t model key (ch_ID c) ?tab0)"
    using step_used [of t ?T ?tab0 "AffBind t model key (ch_ID c)"] by (simp add: aff_key_def)
  let ?t1 = "tbl_upsert ?e (\<lambda>_. ?e) ?k ?tab0"
  have d1: "distinct (map fst ?t1)" using u0 by (intro keys_tbl_upsert) (simp add: used_since_def)
  let ?t2 = "filter (\<lambda>(k, e). \<not> t > expiresAt e) ?t1"
  have d2: "distinct (map fst ?t2)" using d1 by (rule distinct_map_filter)
  have g1: "tbl_get ?t1 ?k = Some ?e" by (simp add: tbl_get_upsert split: option.split)
  have "(?k, ?e) \<in> set (evict_oldest ?t2)"
  proof (rule evict_oldest_keeps [OF d2, of _ _ "{}"])
    have "(?k, ?e) \<in> set ?t1" using g1 tbl_get_iff [OF d1] by blast
    moreover have "\<not> t > t + affinityTTL" by (simp add: affinityTTL_def Minute_def Second_def)
    ultimately show "(?k, ?e) \<in> set ?t2" by simp
    fix k' e' assume "(k', e') \<in> set ?t2" "k' \<noteq> ?k"
    then have "tbl_get ?tab0 k' = Some e'" by (auto simp: tbl_get_upsert simp flip: tbl_get_iff [OF d1])
    then show "lastAccess e' < lastAccess ?e" using u0 by (simp add: used_since_def)
  qed (simp_all add: affinityMaxEntries_def)
  then have "tbl_get (evictLocked t ?t1) ?k = Some ?e"
    using evict_oldest_sub [OF d2] by (simp add: tbl_get_iff evictLocked_def)
  then have b1: "bound_to ?k (ch_ID c) t (t + affinityTTL) (aff_bind t model key (ch_ID c) ?tab0)"
    using g1 assms(3) by (simp add: bound_to_def aff_bind_def Let_def)
  have "used_since t ?T tab" unfolding tab_def by (rule run_used [OF u1]) simp
  moreover have "bound_to ?k (ch_ID c) t (t + affinityTTL) tab" unfolding tab_def
    by (rule run_keeps [OF u1 _ card b1]) (use assms(2,5) in \<open>auto simp: undisturbed_def\<close>)
  moreover have "find_bound cs (ch_ID c) (ch_Priority c) ex = Some c" "topAvailablePriority cs ex = Some (ch_Priority c)"
    using find_bound_unique top_tier_mem [OF assms(7)] assms(6) unfolding candidates_def by blast+
  ultimately show ?thesis using assms(3,5) by (auto simp: selectWithAffinity_def aff_lookup_def bound_to_def used_since_def)
qed

theorem affinity_sticks_witness:
  "fst (selectWithAffinity (\<lambda>n. 0) 60 [channel0 1 5 2, channel0 2 5 0] {} ''m'' ''u''
       (aff_run [AffLookup 20 ''m'' ''u'', AffBind 30 ''m'' ''v'' 1] (aff_bind 10 ''m'' ''u'' 2 (aff_run [AffBind 5 ''m'' ''u'' 1] []))))
     = (Some (channel0 2 5 0), affinityHit)"
proof -
  have "aff_key ` {AffLookup 20 ''m'' ''u'', AffBind 30 ''m'' ''v'' 1} - {affinity_key ''m'' ''u''} \<subseteq> {affinity_key ''m'' ''v''}"
    by (auto simp: aff_key_def)
  then have "card (aff_key ` {AffLookup 20 ''m'' ''u'', AffBind 30 ''m'' ''v'' 1} - {affinity_key ''m'' ''u''}) \<le> 1"
    using card_mono [of "{affinity_key ''m'' ''v''}"] by fastforce
  then have "undisturbed (affinity_key ''m'' ''u'') 10 60 [AffLookup 20 ''m'' ''u'', AffBind 30 ''m'' ''v'' 1]"
    by (simp add: undisturbed_def affinityMaxEntries_def aff_key_def affinity_key_def)
  from affinity_sticks [OF _ this, of "[AffBind 5 ''m'' ''u'' 1]" "[channel0 1 5 2, channel0 2 5 0]" "channel0 2 5 0" "{}" "\<lambda>n. 0"]
  show ?thesis by (simp add: affinityTTL_def Minute_def Second_def candidates_def top_tier_def)
qed

text \<open>A model passes the policies exactly when the department's, the user's and the key's layers all
  parse and all allow it: the layers intersect, an empty layer allows everything, and a layer that cannot be
  read never lets a request through.\<close>

theorem AllowsModel_intersection:
  "AllowsModel d u k model = Inr True \<longleftrightarrow>
     list_all (\<lambda>l. case layer_set l of None \<Rightarrow> False | Some S \<Rightarrow> model \<in> S) [d, u, k]"
  unfolding AllowsModel_def by (rule allows_layers_iff)

text \<open>C35. A channel is disabled exactly at the threshold: as long as its streak of consecutive fatal failures
  stays below the setting its row does not change, and the failure that completes the streak disables it,
  raises the alert and restarts the count.\<close>

theorem auto_disable_at_threshold:
  assumes "quiet threshold i es" "counted h i = 0" "i \<notin> set (disable_alerts h)"
    and "tbl_get (channels h) i = Some c" "CountsTowardAutoDisable class"
  shows "tbl_get (channels (health_run threshold h es)) i = Some c
    \<and> (let h' = health_run threshold h (es @ [HFailure i class status]) in
        if int (streak i es) + 1 = threshold
        then tbl_get (channels h') i = Some (c\<lparr>ch_Status := ChannelAutoDisabled,
               ch_DisabledReason := disable_reason threshold class status\<rparr>)
             \<and> i \<in> set (disable_alerts h') \<and> counted h' i = 0
        else tbl_get (channels h') i = Some c \<and> i \<notin> set (disable_alerts h'))"
proof -
  note q = health_quiet [OF assms(1-3)]
  have pos: "int (streak i es) < threshold" using assms(1) by (auto simp: quiet_def list_all_iff)
  show ?thesis
    using q assms(4,5) pos
    by (auto simp: health_run_snoc NoteFailure_def health_fail_def health_reset_def AutoDisable_def tbl_get_upd
        counted_def Let_def split: option.splits)
qed

theorem auto_disable_at_threshold_witness:
  "tbl_get (channels (health_run 2 \<lparr>fatal_failures = (\<lambda>_. None), channels = [(1, channel0 1 0 0)], disable_alerts = []\<rparr>
      [HFailure 1 ErrClassAuthFatal 401, HFailure 1 ErrClassTransient 500, HFailure 1 ErrClassQuotaFatal 402])) 1
     = Some ((channel0 1 0 0)\<lparr>ch_Status := ChannelAutoDisabled,
         ch_DisabledReason := disable_reason 2 ErrClassQuotaFatal 402\<rparr>)"
  using auto_disable_at_threshold [of 2 1 "[HFailure 1 ErrClassAuthFatal 401, HFailure 1 ErrClassTransient 500]"
      "\<lparr>fatal_failures = (\<lambda>_. None), channels = [(1, channel0 1 0 0)], disable_alerts = []\<rparr>" "channel0 1 0 0"
      ErrClassQuotaFatal 402]
  by (simp add: quiet_def streak_def counted_def CountsTowardAutoDisable_def tbl_get_def Let_def eval_nat_numeral)

end
