(* ===== verification/Messages.thy ===== *)
theory Messages
  imports Prelude
begin

text \<open>
  The texts of answers, log entries and notices of the relay and the settings that are not ASCII,
  as the bytes of their UTF-8 encoding; each is named for what it says.
\<close>

definition msg_and_model :: string where
  "msg_and_model = utf8 [32, 228, 184, 142, 230, 168, 161, 229, 158, 139, 32]"

definition msg_anthropic_no_format :: string where
  "msg_anthropic_no_format = utf8 [65, 110, 116, 104, 114, 111, 112, 105, 99, 32, 229, 141, 143, 232, 174, 174, 230, 151, 160,
     229, 142, 159, 231, 148, 159, 231, 187, 147, 230, 158, 132, 229, 140, 150, 232, 190, 147, 229,
     135, 186, 229, 173, 151, 230, 174, 181]"

definition msg_anthropic_no_logprobs :: string where
  "msg_anthropic_no_logprobs = utf8 [65, 110, 116, 104, 114, 111, 112, 105, 99, 32, 229, 141, 143, 232, 174, 174, 228, 184, 141,
     230, 148, 175, 230, 140, 129, 229, 175, 185, 230, 149, 176, 230, 166, 130, 231, 142, 135]"

definition msg_anthropic_no_seed :: string where
  "msg_anthropic_no_seed = utf8 [65, 110, 116, 104, 114, 111, 112, 105, 99, 32, 229, 141, 143, 232, 174, 174, 228, 184, 141,
     230, 148, 175, 230, 140, 129, 231, 161, 174, 229, 174, 154, 230, 128, 167, 231, 167, 141, 229,
     173, 144]"

definition msg_anthropic_parse_failed :: string where
  "msg_anthropic_parse_failed = utf8 [65, 110, 116, 104, 114, 111, 112, 105, 99, 32, 229, 147, 141, 229, 186, 148, 232, 167, 163,
     230, 158, 144, 229, 164, 177, 232, 180, 165]"

definition msg_bad_json :: string where
  "msg_bad_json = utf8 [232, 175, 183, 230, 177, 130, 228, 189, 147, 228, 184, 141, 230, 152, 175, 229, 144, 136, 230,
     179, 149, 32, 74, 83, 79, 78]"

definition msg_bad_response :: string where
  "msg_bad_response = utf8 [228, 184, 138, 230, 184, 184, 229, 147, 141, 229, 186, 148, 230, 160, 188, 229, 188, 143, 229,
     188, 130, 229, 184, 184]"

definition msg_balance_short :: string where
  "msg_balance_short = utf8 [231, 167, 175, 229, 136, 134, 228, 189, 153, 233, 162, 157, 228, 184, 141, 232, 182, 179]"

definition msg_billed_actual :: string where
  "msg_billed_actual = utf8 [32, 229, 188, 160, 239, 188, 140, 230, 140, 137, 229, 174, 158, 233, 153, 133, 229, 188, 160,
     230, 149, 176, 232, 174, 161, 232, 180, 185]"

definition msg_billing_error :: string where
  "msg_billing_error = utf8 [232, 174, 161, 232, 180, 185, 231, 179, 187, 231, 187, 159, 229, 188, 130, 229, 184, 184]"

definition msg_billing_is :: string where
  "msg_billing_is = utf8 [32, 231, 154, 132, 232, 174, 161, 232, 180, 185, 230, 150, 185, 229, 188, 143, 239, 188, 136]"

definition msg_billing_mismatch :: string where
  "msg_billing_mismatch = utf8 [239, 188, 137, 228, 184, 142, 230, 156, 172, 231, 171, 175, 231, 130, 185, 228, 184, 141, 229,
     140, 185, 233, 133, 141, 239, 188, 140, 232, 175, 183, 232, 129, 148, 231, 179, 187, 231, 174,
     161, 231, 144, 134, 229, 145, 152, 230, 160, 184, 229, 175, 185, 230, 168, 161, 229, 158, 139,
     233, 133, 141, 231, 189, 174]"

definition msg_build_failed :: string where
  "msg_build_failed = utf8 [230, 158, 132, 229, 187, 186, 228, 184, 138, 230, 184, 184, 232, 175, 183, 230, 177, 130, 229,
     164, 177, 232, 180, 165]"

definition msg_call_it :: string where
  "msg_call_it = utf8 [32, 232, 176, 131, 231, 148, 168]"

definition msg_channel_config :: string where
  "msg_channel_config = utf8 [230, 184, 160, 233, 129, 147, 233, 133, 141, 231, 189, 174, 229, 188, 130, 229, 184, 184]"

definition msg_close_paren :: string where
  "msg_close_paren = utf8 [239, 188, 137]"

definition msg_codec_for :: string where
  "msg_codec_for = utf8 [114, 101, 108, 97, 121, 58, 32, 229, 141, 143, 232, 174, 174, 32]"

definition msg_codec_missing :: string where
  "msg_codec_missing = utf8 [32, 230, 156, 170, 230, 179, 168, 229, 134, 140, 32, 99, 111, 100, 101, 99, 239, 188, 136, 232,
     175, 183, 232, 161, 165, 229, 133, 168, 32, 99, 111, 100, 101, 99, 32, 230, 179, 168, 229, 134,
     140, 239, 188, 137]"

definition msg_connect_failed :: string where
  "msg_connect_failed = utf8 [228, 184, 138, 230, 184, 184, 232, 191, 158, 230, 142, 165, 229, 164, 177, 232, 180, 165]"

definition msg_credits :: string where
  "msg_credits = utf8 [32, 231, 167, 175, 229, 136, 134]"

definition msg_daily_pre :: string where
  "msg_daily_pre = utf8 [229, 183, 178, 232, 190, 190, 229, 189, 147, 230, 151, 165, 232, 138, 177, 232, 180, 185, 228,
     184, 138, 233, 153, 144, 239, 188, 154, 229, 189, 147, 230, 151, 165, 229, 183, 178, 230, 182,
     136, 232, 180, 185, 32]"

definition msg_daily_reached :: string where
  "msg_daily_reached = utf8 [229, 183, 178, 232, 190, 190, 229, 189, 147, 230, 151, 165, 232, 138, 177, 232, 180, 185, 228,
     184, 138, 233, 153, 144, 239, 188, 140, 232, 175, 183, 230, 152, 142, 230, 151, 165, 229, 134,
     141, 232, 175, 149, 230, 136, 150, 232, 129, 148, 231, 179, 187, 231, 174, 161, 231, 144, 134,
     229, 145, 152, 228, 184, 138, 232, 176, 131]"

definition msg_endpoint_text :: string where
  "msg_endpoint_text = utf8 [47, 118, 49, 47, 99, 104, 97, 116, 47, 99, 111, 109, 112, 108, 101, 116, 105, 111, 110, 115,
     32, 230, 136, 150, 32, 47, 118, 49, 47, 109, 101, 115, 115, 97, 103, 101, 115]"

definition msg_endpoint_unsupported :: string where
  "msg_endpoint_unsupported = utf8 [32, 228, 184, 141, 230, 148, 175, 230, 140, 129, 230, 156, 172, 231, 171, 175, 231, 130, 185,
     239, 188, 140, 232, 175, 183, 228, 189, 191, 231, 148, 168, 32]"

definition msg_fewer_than :: string where
  "msg_fewer_than = utf8 [32, 229, 188, 160, 239, 188, 140, 229, 176, 145, 228, 186, 142, 232, 175, 183, 230, 177, 130,
     231, 154, 132, 32]"

definition msg_gemini_no_logprobs :: string where
  "msg_gemini_no_logprobs = utf8 [71, 101, 109, 105, 110, 105, 32, 229, 141, 143, 232, 174, 174, 228, 184, 141, 230, 148, 175,
     230, 140, 129, 229, 175, 185, 230, 149, 176, 230, 166, 130, 231, 142, 135]"

definition msg_gemini_no_parallel :: string where
  "msg_gemini_no_parallel = utf8 [71, 101, 109, 105, 110, 105, 32, 229, 141, 143, 232, 174, 174, 228, 184, 141, 230, 148, 175,
     230, 140, 129, 231, 166, 129, 231, 148, 168, 229, 185, 182, 232, 161, 140, 229, 183, 165, 229,
     133, 183, 232, 176, 131, 231, 148, 168]"

definition msg_gemini_no_seed :: string where
  "msg_gemini_no_seed = utf8 [71, 101, 109, 105, 110, 105, 32, 229, 141, 143, 232, 174, 174, 228, 184, 141, 230, 148, 175,
     230, 140, 129, 231, 161, 174, 229, 174, 154, 230, 128, 167, 231, 167, 141, 229, 173, 144]"

definition msg_gemini_parse_failed :: string where
  "msg_gemini_parse_failed = utf8 [71, 101, 109, 105, 110, 105, 32, 229, 147, 141, 229, 186, 148, 232, 167, 163, 230, 158, 144,
     229, 164, 177, 232, 180, 165]"

definition msg_key_daily_pre :: string where
  "msg_key_daily_pre = utf8 [229, 183, 178, 232, 190, 190, 232, 175, 165, 32, 75, 101, 121, 32, 229, 189, 147, 230, 151,
     165, 232, 138, 177, 232, 180, 185, 228, 184, 138, 233, 153, 144, 239, 188, 154, 232, 175, 165,
     32, 75, 101, 121, 32, 229, 189, 147, 230, 151, 165, 229, 183, 178, 230, 182, 136, 232, 180,
     185, 32]"

definition msg_key_daily_reached :: string where
  "msg_key_daily_reached = utf8 [232, 175, 165, 229, 175, 134, 233, 146, 165, 229, 183, 178, 232, 190, 190, 229, 189, 147, 230,
     151, 165, 232, 138, 177, 232, 180, 185, 228, 184, 138, 233, 153, 144, 239, 188, 140, 232, 175,
     183, 230, 152, 142, 230, 151, 165, 229, 134, 141, 232, 175, 149, 230, 136, 150, 230, 141, 162,
     231, 148, 168, 229, 133, 182, 228, 187, 150, 229, 175, 134, 233, 146, 165]"

definition msg_key_not_allowed :: string where
  "msg_key_not_allowed = utf8 [232, 175, 165, 229, 175, 134, 233, 146, 165, 230, 151, 160, 230, 157, 131, 232, 174, 191, 233,
     151, 174, 230, 168, 161, 229, 158, 139, 32]"

definition msg_key_quota :: string where
  "msg_key_quota = utf8 [229, 175, 134, 233, 146, 165, 233, 162, 157, 229, 186, 166, 228, 184, 141, 232, 182, 179]"

definition msg_limit_is :: string where
  "msg_limit_is = utf8 [32, 231, 167, 175, 229, 136, 134, 239, 188, 140, 228, 184, 138, 233, 153, 144, 32]"

definition msg_mismatch :: string where
  "msg_mismatch = utf8 [32, 228, 184, 141, 228, 184, 128, 232, 135, 180]"

definition msg_model_missing :: string where
  "msg_model_missing = utf8 [231, 188, 186, 229, 176, 145, 32, 109, 111, 100, 101, 108, 32, 229, 173, 151, 230, 174, 181]"

definition msg_model_unknown :: string where
  "msg_model_unknown = utf8 [230, 168, 161, 229, 158, 139, 228, 184, 141, 229, 173, 152, 229, 156, 168, 230, 136, 150, 230,
     156, 170, 228, 184, 138, 230, 158, 182, 58, 32]"

definition msg_no_call_price :: string where
  "msg_no_call_price = utf8 [230, 168, 161, 229, 158, 139, 230, 156, 170, 233, 133, 141, 231, 189, 174, 230, 140, 137, 230,
     172, 161, 229, 141, 149, 228, 187, 183]"

definition msg_no_channel :: string where
  "msg_no_channel = utf8 [230, 178, 161, 230, 156, 137, 229, 143, 175, 231, 148, 168, 230, 184, 160, 233, 129, 147]"

definition msg_no_channel_for_model :: string where
  "msg_no_channel_for_model = utf8 [230, 178, 161, 230, 156, 137, 229, 143, 175, 231, 148, 168, 230, 184, 160, 233, 129, 147, 230,
     137, 191, 232, 189, 189, 232, 175, 165, 230, 168, 161, 229, 158, 139]"

definition msg_no_channel_log :: string where
  "msg_no_channel_log = utf8 [230, 151, 160, 229, 143, 175, 231, 148, 168, 230, 184, 160, 233, 129, 147]"

definition msg_no_stream :: string where
  "msg_no_stream = utf8 [230, 156, 141, 229, 138, 161, 228, 184, 141, 230, 148, 175, 230, 140, 129, 230, 181, 129, 229,
     188, 143, 232, 190, 147, 229, 135, 186]"

definition msg_no_top_k :: string where
  "msg_no_top_k = utf8 [79, 112, 101, 110, 65, 73, 32, 99, 104, 97, 116, 32, 231, 171, 175, 231, 130, 185, 228, 184,
     141, 230, 148, 175, 230, 140, 129, 232, 175, 165, 233, 135, 135, 230, 160, 183, 229, 143, 130,
     230, 149, 176]"

definition msg_not_priced :: string where
  "msg_not_priced = utf8 [230, 168, 161, 229, 158, 139, 230, 154, 130, 228, 184, 141, 229, 143, 175, 231, 148, 168, 239,
     188, 136, 230, 156, 170, 233, 133, 141, 231, 189, 174, 229, 174, 154, 228, 187, 183, 239, 188,
     137]"

definition msg_open_paren :: string where
  "msg_open_paren = utf8 [239, 188, 136]"

definition msg_openai_no_parallel :: string where
  "msg_openai_no_parallel = utf8 [79, 112, 101, 110, 65, 73, 32, 229, 141, 143, 232, 174, 174, 228, 184, 141, 230, 148, 175, 230,
     140, 129, 231, 166, 129, 231, 148, 168, 229, 185, 182, 232, 161, 140, 229, 183, 165, 229, 133,
     183, 232, 176, 131, 231, 148, 168]"

definition msg_openai_parse_failed :: string where
  "msg_openai_parse_failed = utf8 [79, 112, 101, 110, 65, 73, 32, 229, 147, 141, 229, 186, 148, 232, 167, 163, 230, 158, 144, 229,
     164, 177, 232, 180, 165]"

definition msg_owner_is :: string where
  "msg_owner_is = utf8 [32, 231, 154, 132, 229, 189, 146, 229, 177, 158, 229, 142, 130, 229, 149, 134, 32]"

definition msg_policy_malformed :: string where
  "msg_policy_malformed = utf8 [230, 168, 161, 229, 158, 139, 232, 174, 191, 233, 151, 174, 231, 173, 150, 231, 149, 165, 233,
     133, 141, 231, 189, 174, 230, 156, 137, 232, 175, 175, 239, 188, 140, 232, 175, 183, 232, 129,
     148, 231, 179, 187, 231, 174, 161, 231, 144, 134, 229, 145, 152]"

definition msg_protocol_unsupported :: string where
  "msg_protocol_unsupported = utf8 [232, 175, 165, 230, 168, 161, 229, 158, 139, 231, 154, 132, 229, 144, 175, 231, 148, 168, 230,
     184, 160, 233, 129, 147, 229, 141, 143, 232, 174, 174, 229, 157, 135, 228, 184, 141, 230, 148,
     175, 230, 140, 129, 229, 189, 147, 229, 137, 141, 231, 171, 175, 231, 130, 185, 239, 188, 136,
     228, 187, 133, 230, 148, 175, 230, 140, 129, 32, 79, 112, 101, 110, 65, 73, 32, 229, 133, 188,
     229, 174, 185, 229, 141, 143, 232, 174, 174, 230, 184, 160, 233, 129, 147, 239, 188, 137]"

definition msg_protocol_unsupported_log :: string where
  "msg_protocol_unsupported_log = utf8 [229, 144, 175, 231, 148, 168, 230, 184, 160, 233, 129, 147, 231, 154, 132, 229, 141, 143, 232,
     174, 174, 229, 157, 135, 228, 184, 141, 230, 148, 175, 230, 140, 129, 229, 189, 147, 229, 137,
     141, 231, 171, 175, 231, 130, 185]"

definition msg_read_failed :: string where
  "msg_read_failed = utf8 [232, 175, 187, 229, 143, 150, 228, 184, 138, 230, 184, 184, 229, 147, 141, 229, 186, 148, 229,
     164, 177, 232, 180, 165]"

definition msg_response_no_json :: string where
  "msg_response_no_json = utf8 [228, 184, 138, 230, 184, 184, 229, 147, 141, 229, 186, 148, 228, 184, 141, 230, 152, 175, 229,
     144, 136, 230, 179, 149, 32, 74, 83, 79, 78]"

definition msg_set_audit_least :: string where
  "msg_set_audit_least = utf8 [229, 174, 161, 232, 174, 161, 228, 191, 157, 231, 149, 153, 229, 164, 169, 230, 149, 176, 228,
     184, 186, 32, 48, 239, 188, 136, 228, 184, 141, 230, 184, 133, 231, 144, 134, 239, 188, 137,
     230, 136, 150, 228, 184, 141, 229, 176, 145, 228, 186, 142, 32, 51, 48, 32, 229, 164, 169]"

definition msg_set_audit_most :: string where
  "msg_set_audit_most = utf8 [229, 174, 161, 232, 174, 161, 228, 191, 157, 231, 149, 153, 229, 164, 169, 230, 149, 176, 228,
     184, 141, 229, 190, 151, 232, 182, 133, 232, 191, 135, 32, 51, 54, 53, 48]"

definition msg_set_base_slash :: string where
  "msg_set_base_slash = utf8 [65, 80, 73, 32, 229, 159, 186, 229, 157, 128, 230, 156, 171, 229, 176, 190, 228, 184, 141, 232,
     166, 129, 229, 184, 166, 230, 150, 156, 230, 157, 160]"

definition msg_set_base_url :: string where
  "msg_set_base_url = utf8 [65, 80, 73, 32, 229, 159, 186, 229, 157, 128, 233, 161, 187, 230, 152, 175, 229, 174, 140, 230,
     149, 180, 231, 154, 132, 32, 104, 116, 116, 112, 47, 104, 116, 116, 112, 115, 32, 229, 156,
     176, 229, 157, 128, 239, 188, 140, 228, 190, 139, 229, 166, 130, 32, 104, 116, 116, 112, 115,
     58, 47, 47, 97, 112, 105, 46, 101, 120, 97, 109, 112, 108, 101, 46, 99, 111, 109]"

definition msg_set_body :: string where
  "msg_set_body = utf8 [232, 175, 183, 230, 177, 130, 228, 189, 147, 228, 184, 138, 233, 153, 144, 228, 184, 141, 229,
     190, 151, 228, 184, 186, 232, 180, 159, 230, 149, 176]"

definition msg_set_conc :: string where
  "msg_set_conc = utf8 [229, 185, 182, 229, 143, 145, 232, 175, 183, 230, 177, 130, 230, 128, 187, 228, 184, 138, 233,
     153, 144, 233, 161, 187, 229, 156, 168, 32, 48, 45, 49, 48, 48, 48, 32, 228, 185, 139, 233,
     151, 180, 239, 188, 136, 48, 32, 61, 32, 228, 184, 141, 233, 153, 144, 229, 136, 182, 239, 188,
     137]"

definition msg_set_dedup :: string where
  "msg_set_dedup = utf8 [229, 145, 138, 232, 173, 166, 230, 138, 145, 229, 136, 182, 231, 170, 151, 229, 143, 163, 233,
     161, 187, 229, 156, 168, 32, 48, 45, 56, 54, 52, 48, 48, 32, 231, 167, 146, 228, 185, 139, 233,
     151, 180]"

definition msg_set_error_rate :: string where
  "msg_set_error_rate = utf8 [229, 164, 177, 232, 180, 165, 231, 142, 135, 233, 152, 136, 229, 128, 188, 233, 161, 187, 229,
     156, 168, 32, 48, 45, 49, 48, 48, 32, 228, 185, 139, 233, 151, 180, 239, 188, 136, 48, 32, 61,
     32, 229, 133, 179, 233, 151, 173, 239, 188, 137]"

definition msg_set_failures :: string where
  "msg_set_failures = utf8 [232, 191, 158, 231, 187, 173, 229, 164, 177, 232, 180, 165, 233, 152, 136, 229, 128, 188, 233,
     161, 187, 229, 156, 168, 32, 48, 45, 49, 48, 48, 32, 228, 185, 139, 233, 151, 180]"

definition msg_set_format :: string where
  "msg_set_format = utf8 [230, 138, 165, 230, 150, 135, 230, 160, 188, 229, 188, 143, 233, 161, 187, 228, 184, 186, 32,
     103, 101, 110, 101, 114, 105, 99, 227, 128, 129, 100, 105, 110, 103, 116, 97, 108, 107, 227,
     128, 129, 102, 101, 105, 115, 104, 117, 227, 128, 129, 119, 101, 99, 111, 109, 32, 230, 136,
     150, 32, 115, 108, 97, 99, 107, 32, 228, 185, 139, 228, 184, 128]"

definition msg_set_key_rpm :: string where
  "msg_set_key_rpm = utf8 [230, 140, 137, 229, 175, 134, 233, 146, 165, 233, 153, 144, 230, 181, 129, 233, 161, 187, 229,
     156, 168, 32, 48, 45, 49, 48, 48, 48, 48, 48, 32, 228, 185, 139, 233, 151, 180, 239, 188, 136,
     48, 32, 61, 32, 228, 184, 141, 233, 153, 144, 230, 181, 129, 239, 188, 137]"

definition msg_set_keys :: string where
  "msg_set_keys = utf8 [229, 141, 149, 231, 148, 168, 230, 136, 183, 229, 175, 134, 233, 146, 165, 230, 149, 176, 233,
     135, 143, 228, 184, 138, 233, 153, 144, 233, 161, 187, 229, 156, 168, 32, 48, 45, 49, 48, 48,
     48, 32, 228, 185, 139, 233, 151, 180, 239, 188, 136, 48, 32, 61, 32, 228, 184, 141, 233, 153,
     144, 229, 136, 182, 239, 188, 137]"

definition msg_set_large :: string where
  "msg_set_large = utf8 [229, 164, 167, 232, 175, 183, 230, 177, 130, 229, 185, 182, 229, 143, 145, 228, 184, 138, 233,
     153, 144, 233, 161, 187, 229, 156, 168, 32, 48, 45, 49, 48, 48, 48, 32, 228, 185, 139, 233,
     151, 180, 239, 188, 136, 48, 32, 61, 32, 228, 184, 141, 233, 153, 144, 229, 136, 182, 239, 188,
     137]"

definition msg_set_latency :: string where
  "msg_set_latency = utf8 [232, 128, 151, 230, 151, 182, 233, 152, 136, 229, 128, 188, 228, 184, 141, 229, 190, 151, 228,
     184, 186, 232, 180, 159, 230, 149, 176, 239, 188, 136, 48, 32, 61, 32, 229, 133, 179, 233, 151,
     173, 239, 188, 137]"

definition msg_set_low :: string where
  "msg_set_low = utf8 [228, 189, 153, 233, 162, 157, 233, 162, 132, 232, 173, 166, 233, 152, 136, 229, 128, 188, 228,
     184, 141, 229, 190, 151, 228, 184, 186, 232, 180, 159, 230, 149, 176, 239, 188, 136, 48, 32,
     61, 32, 229, 133, 179, 233, 151, 173, 233, 162, 132, 232, 173, 166, 239, 188, 137]"

definition msg_set_min_requests :: string where
  "msg_set_min_requests = utf8 [230, 156, 128, 229, 176, 143, 232, 175, 183, 230, 177, 130, 230, 149, 176, 228, 184, 141, 229,
     190, 151, 228, 184, 186, 232, 180, 159, 230, 149, 176]"

definition msg_set_mode :: string where
  "msg_set_mode = utf8 [230, 140, 137, 230, 156, 136, 229, 143, 145, 230, 148, 190, 229, 143, 163, 229, 190, 132, 233,
     161, 187, 228, 184, 186, 32, 116, 111, 112, 117, 112, 32, 230, 136, 150, 32, 97, 100, 100]"

definition msg_set_monthly :: string where
  "msg_set_monthly = utf8 [230, 140, 137, 230, 156, 136, 229, 143, 145, 230, 148, 190, 233, 162, 157, 229, 186, 166, 228,
     184, 141, 229, 190, 151, 228, 184, 186, 232, 180, 159, 230, 149, 176, 239, 188, 136, 48, 32,
     61, 32, 229, 133, 179, 233, 151, 173, 239, 188, 137]"

definition msg_set_must_be_url :: string where
  "msg_set_must_be_url = utf8 [233, 161, 187, 230, 152, 175, 229, 174, 140, 230, 149, 180, 231, 154, 132, 32, 104, 116, 116,
     112, 47, 104, 116, 116, 112, 115, 32, 229, 156, 176, 229, 157, 128]"

definition msg_set_orphan :: string where
  "msg_set_orphan = utf8 [229, 155, 158, 230, 148, 182, 233, 151, 180, 233, 154, 148, 233, 161, 187, 229, 156, 168, 32,
     48, 45, 56, 54, 52, 48, 48, 32, 231, 167, 146, 228, 185, 139, 233, 151, 180]"

definition msg_set_port :: string where
  "msg_set_port = utf8 [83, 77, 84, 80, 32, 231, 171, 175, 229, 143, 163, 233, 161, 187, 229, 156, 168, 32, 49, 45, 54,
     53, 53, 51, 53, 32, 228, 185, 139, 233, 151, 180]"

definition msg_set_probe :: string where
  "msg_set_probe = utf8 [230, 142, 162, 230, 181, 139, 233, 151, 180, 233, 154, 148, 233, 161, 187, 229, 156, 168, 32,
     48, 45, 51, 54, 48, 48, 32, 231, 167, 146, 228, 185, 139, 233, 151, 180]"

definition msg_set_rate :: string where
  "msg_set_rate = utf8 [229, 133, 145, 230, 141, 162, 231, 142, 135, 229, 191, 133, 233, 161, 187, 228, 184, 186, 230,
     173, 163, 230, 149, 176]"

definition msg_set_record_days :: string where
  "msg_set_record_days = utf8 [229, 189, 149, 229, 136, 182, 228, 191, 157, 231, 149, 153, 229, 164, 169, 230, 149, 176, 228,
     184, 141, 229, 190, 151, 228, 184, 186, 232, 180, 159, 230, 149, 176, 239, 188, 136, 48, 32,
     61, 32, 228, 184, 141, 230, 184, 133, 231, 144, 134, 239, 188, 137]"

definition msg_set_retries :: string where
  "msg_set_retries = utf8 [233, 135, 141, 232, 175, 149, 230, 184, 160, 233, 129, 147, 230, 149, 176, 233, 161, 187, 229,
     156, 168, 32, 49, 45, 49, 48, 32, 228, 185, 139, 233, 151, 180]"

definition msg_set_sample :: string where
  "msg_set_sample = utf8 [229, 189, 149, 229, 136, 182, 233, 135, 135, 230, 160, 183, 231, 142, 135, 233, 161, 187, 229,
     156, 168, 32, 48, 45, 49, 48, 48, 48, 48, 32, 228, 185, 139, 233, 151, 180, 239, 188, 136, 48,
     32, 61, 32, 228, 184, 141, 229, 189, 149, 239, 188, 140, 49, 48, 48, 48, 48, 32, 61, 32, 229,
     133, 168, 229, 189, 149, 239, 188, 137]"

definition msg_set_stream :: string where
  "msg_set_stream = utf8 [230, 181, 129, 229, 188, 143, 231, 180, 175, 232, 174, 161, 228, 184, 138, 233, 153, 144, 228,
     184, 141, 229, 190, 151, 228, 184, 186, 232, 180, 159, 230, 149, 176]"

definition msg_set_symbol_empty :: string where
  "msg_set_symbol_empty = utf8 [232, 180, 167, 229, 184, 129, 231, 172, 166, 229, 143, 183, 228, 184, 141, 232, 131, 189, 228,
     184, 186, 231, 169, 186]"

definition msg_set_symbol_long :: string where
  "msg_set_symbol_long = utf8 [232, 180, 167, 229, 184, 129, 231, 172, 166, 229, 143, 183, 232, 191, 135, 233, 149, 191, 239,
     188, 136, 226, 137, 164, 56, 32, 229, 173, 151, 231, 172, 166, 239, 188, 137]"

definition msg_set_tls :: string where
  "msg_set_tls = utf8 [229, 138, 160, 229, 175, 134, 230, 150, 185, 229, 188, 143, 233, 161, 187, 228, 184, 186, 32,
     115, 116, 97, 114, 116, 116, 108, 115, 227, 128, 129, 116, 108, 115, 32, 230, 136, 150, 32,
     110, 111, 110, 101, 32, 228, 185, 139, 228, 184, 128]"

definition msg_set_usage_least :: string where
  "msg_set_usage_least = utf8 [231, 148, 168, 233, 135, 143, 230, 151, 165, 229, 191, 151, 228, 191, 157, 231, 149, 153, 229,
     164, 169, 230, 149, 176, 228, 184, 186, 32, 48, 239, 188, 136, 228, 184, 141, 230, 184, 133,
     231, 144, 134, 239, 188, 137, 230, 136, 150, 228, 184, 141, 229, 176, 145, 228, 186, 142, 32,
     51, 48, 32, 229, 164, 169]"

definition msg_set_usage_most :: string where
  "msg_set_usage_most = utf8 [231, 148, 168, 233, 135, 143, 230, 151, 165, 229, 191, 151, 228, 191, 157, 231, 149, 153, 229,
     164, 169, 230, 149, 176, 228, 184, 141, 229, 190, 151, 232, 182, 133, 232, 191, 135, 32, 51,
     54, 53, 48]"

definition msg_set_usd :: string where
  "msg_set_usd = utf8 [230, 177, 135, 231, 142, 135, 229, 191, 133, 233, 161, 187, 228, 184, 186, 230, 173, 163, 230,
     149, 176]"

definition msg_set_user_conc :: string where
  "msg_set_user_conc = utf8 [229, 141, 149, 231, 148, 168, 230, 136, 183, 229, 185, 182, 229, 143, 145, 229, 173, 144, 233,
     133, 141, 233, 162, 157, 233, 161, 187, 229, 156, 168, 32, 48, 45, 49, 48, 48, 48, 32, 228,
     185, 139, 233, 151, 180, 239, 188, 136, 48, 32, 61, 32, 228, 184, 141, 233, 153, 144, 229, 136,
     182, 239, 188, 137]"

definition msg_set_user_rpm :: string where
  "msg_set_user_rpm = utf8 [230, 140, 137, 231, 148, 168, 230, 136, 183, 233, 153, 144, 230, 181, 129, 233, 161, 187, 229,
     156, 168, 32, 48, 45, 49, 48, 48, 48, 48, 48, 32, 228, 185, 139, 233, 151, 180, 239, 188, 136,
     48, 32, 61, 32, 228, 184, 141, 233, 153, 144, 230, 181, 129, 239, 188, 137]"

definition msg_set_webhook :: string where
  "msg_set_webhook = utf8 [229, 145, 138, 232, 173, 166, 32, 87, 101, 98, 104, 111, 111, 107, 32, 229, 156, 176, 229, 157,
     128]"

definition msg_settle_failed :: string where
  "msg_settle_failed = utf8 [231, 187, 147, 231, 174, 151, 229, 134, 153, 229, 133, 165, 229, 164, 177, 232, 180, 165, 239,
     188, 140, 233, 162, 132, 230, 137, 163, 228, 191, 157, 231, 149, 153, 239, 188, 140, 229, 190,
     133, 229, 173, 164, 229, 132, 191, 233, 162, 132, 230, 137, 163, 230, 184, 133, 231, 144, 134,
     232, 161, 165, 229, 129, 191]"

definition msg_stream_aborted :: string where
  "msg_stream_aborted = utf8 [228, 184, 138, 230, 184, 184, 230, 181, 129, 232, 175, 187, 229, 143, 150, 228, 184, 173, 230,
     150, 173, 239, 188, 154]"

definition msg_the_model :: string where
  "msg_the_model = utf8 [230, 168, 161, 229, 158, 139, 32]"

definition msg_unsupported_feature :: string where
  "msg_unsupported_feature = utf8 [114, 101, 108, 97, 121, 58, 32, 231, 155, 174, 230, 160, 135, 228, 184, 138, 230, 184, 184,
     229, 141, 143, 232, 174, 174, 228, 184, 141, 230, 148, 175, 230, 140, 129, 232, 175, 165, 229,
     173, 151, 230, 174, 181, 239, 188, 140, 232, 175, 183, 230, 148, 185, 231, 148, 168, 229, 144,
     140, 229, 141, 143, 232, 174, 174, 230, 184, 160, 233, 129, 147, 230, 136, 150, 231, 167, 187,
     233, 153, 164, 232, 175, 165, 229, 173, 151, 230, 174, 181]"

definition msg_upstream_http :: string where
  "msg_upstream_http = utf8 [228, 184, 138, 230, 184, 184, 233, 148, 153, 232, 175, 175, 239, 188, 136, 72, 84, 84, 80, 32]"

definition msg_upstream_returned :: string where
  "msg_upstream_returned = utf8 [228, 184, 138, 230, 184, 184, 229, 174, 158, 233, 153, 133, 232, 191, 148, 229, 155, 158, 32]"

definition msg_url_provider :: string where
  "msg_url_provider = utf8 [85, 82, 76, 32, 229, 137, 141, 231, 188, 128, 32, 112, 114, 111, 118, 105, 100, 101, 114, 32]"

definition msg_yen :: string where
  "msg_yen = utf8 [194, 165]"

end
