(* ===== verification/Canonical.thy ===== *)
theory Canonical
  imports Domain Channels Messages
begin

text \<open>
  The form every chat request, response and stream event takes between two wire formats
  (\<^verbatim>\<open>relay/canonical.go\<close>), the usage reports of the three upstream formats and their normalisation
  (openai.go, codec\_anthropic.go, codec\_gemini.go), and the fields no target may silently drop
  (\<^verbatim>\<open>ErrUnsupportedFeature\<close> of codec.go).

  A content part is a datatype with the fields its type uses; the Go struct has all the fields
  in every part, and no code fills the others. An event likewise.
\<close>

section \<open>Requests, responses, events (canonical.go)\<close>

datatype CanonPart =
    PartText (p_Text: string)
  | PartThinking (p_Text: string)
  | PartImage (p_ImageURL: string) (p_ImageMIME: string)
  | PartToolUse (p_ToolID: string) (p_ToolName: string) (p_ToolArgs: string)
  | PartToolResult (p_ToolResultID: string) (p_ToolResult: string) (p_ToolIsError: bool)

record CanonMessage =
  cm_Role :: string
  cm_Parts :: "CanonPart list"

record CanonTool =
  ct_Name :: string
  ct_Description :: string
  ct_Schema :: "jobj option"

definition ToolChoiceAuto :: string where "ToolChoiceAuto = ''auto''"
definition ToolChoiceRequired :: string where "ToolChoiceRequired = ''required''"
definition ToolChoiceNone :: string where "ToolChoiceNone = ''none''"
definition ToolChoiceTool :: string where "ToolChoiceTool = ''tool''"

record ToolChoice =
  tc_Mode :: string
  tc_Name :: string
  tc_DisableParallel :: bool

record ThinkingConfig =
  th_Enabled :: bool
  th_BudgetTokens :: int

record LogprobsConfig =
  lp_Enabled :: bool
  lp_TopN :: int

record ResponseFormat =
  rf_Type :: string
  rf_JSONSchema :: "jobj option"

record CanonRequest =
  cr_Model :: string
  cr_System :: string
  cr_Messages :: "CanonMessage list"
  cr_MaxTokens :: int
  cr_Temperature :: "rat option"
  cr_TopP :: "rat option"
  cr_Stop :: "string list"
  cr_Stream :: bool
  cr_Tools :: "CanonTool list"
  cr_ToolChoice :: "ToolChoice option"
  cr_TopK :: "int option"
  cr_Seed :: "int option"
  cr_Logprobs :: "LogprobsConfig option"
  cr_ResponseFormat :: "ResponseFormat option"
  cr_Thinking :: "ThinkingConfig option"
  cr_Metadata :: "(string \<times> string) list"

record CanonResponse =
  rs_ID :: string
  rs_Model :: string
  rs_Parts :: "CanonPart list"
  rs_StopReason :: string

datatype CanonEvent =
    EvTextDelta string
  | EvToolUseStart string string
  | EvToolArgsDelta string
  | EvBlockStop
  | EvFinish string

definition StopEndTurn :: string where "StopEndTurn = ''end_turn''"
definition StopMaxTokens :: string where "StopMaxTokens = ''max_tokens''"
definition StopToolUse :: string where "StopToolUse = ''tool_use''"
definition StopStopSequence :: string where "StopStopSequence = ''stop_sequence''"

definition openaiFinishToCanon :: "string \<Rightarrow> string" where
  "openaiFinishToCanon reason =
     (if reason = ''length'' then StopMaxTokens
      else if reason = ''tool_calls'' \<or> reason = ''function_call'' then StopToolUse
      else if reason = ''content_filter'' then StopEndTurn
      else StopEndTurn)"

definition canonStopToOpenAI :: "string \<Rightarrow> string" where
  "canonStopToOpenAI reason =
     (if reason = StopMaxTokens then ''length'' else if reason = StopToolUse then ''tool_calls'' else ''stop'')"

lemmas stop_defs = StopEndTurn_def StopMaxTokens_def StopToolUse_def StopStopSequence_def

section \<open>Usage (openai.go, codec\_anthropic.go, codec\_gemini.go)\<close>

record openaiUsage =
  ou_PromptTokens :: int
  ou_CompletionTokens :: int
  ou_CachedTokens :: int
  ou_PromptAudioTokens :: int
  ou_CompletionAudioTokens :: int

record anthropicUsage =
  au_InputTokens :: int
  au_OutputTokens :: int
  au_CacheReadInputTokens :: int
  au_CacheCreationInputTokens :: int

record geminiUsage =
  gu_PromptTokenCount :: int
  gu_CandidatesTokenCount :: int
  gu_CachedContentTokenCount :: int

text \<open>What \<^verbatim>\<open>encoding/json\<close> makes of the struct tags.\<close>

definition read_openaiUsage :: "jobj \<Rightarrow> openaiUsage option" where
  "read_openaiUsage fs =
     Option.bind (rd_int fs ''prompt_tokens'') (\<lambda>prompt.
     Option.bind (rd_int fs ''completion_tokens'') (\<lambda>completion.
     Option.bind (rd_struct fs ''prompt_tokens_details'' (\<lambda>d.
       Option.bind (rd_int d ''cached_tokens'') (\<lambda>c. map_option (Pair c) (rd_int d ''audio_tokens'')))) (\<lambda>(cached, audio).
     Option.bind (rd_struct fs ''completion_tokens_details'' (\<lambda>d. rd_int d ''audio_tokens'')) (\<lambda>out_audio.
       Some \<lparr>ou_PromptTokens = prompt, ou_CompletionTokens = completion, ou_CachedTokens = cached,
             ou_PromptAudioTokens = audio, ou_CompletionAudioTokens = out_audio\<rparr>))))"

definition read_anthropicUsage :: "jobj \<Rightarrow> anthropicUsage option" where
  "read_anthropicUsage fs =
     Option.bind (rd_int fs ''input_tokens'') (\<lambda>i.
     Option.bind (rd_int fs ''output_tokens'') (\<lambda>n.
     Option.bind (rd_int fs ''cache_read_input_tokens'') (\<lambda>r.
     Option.bind (rd_int fs ''cache_creation_input_tokens'') (\<lambda>w.
       Some \<lparr>au_InputTokens = i, au_OutputTokens = n, au_CacheReadInputTokens = r, au_CacheCreationInputTokens = w\<rparr>))))"

definition read_geminiUsage :: "jobj \<Rightarrow> geminiUsage option" where
  "read_geminiUsage fs =
     Option.bind (rd_int fs ''promptTokenCount'') (\<lambda>p.
     Option.bind (rd_int fs ''candidatesTokenCount'') (\<lambda>n.
     Option.bind (rd_int fs ''cachedContentTokenCount'') (\<lambda>c.
       Some \<lparr>gu_PromptTokenCount = p, gu_CandidatesTokenCount = n, gu_CachedContentTokenCount = c\<rparr>)))"

definition normalizeOpenAIUsage :: "openaiUsage \<Rightarrow> NormalizedUsage" where
  "normalizeOpenAIUsage u =
     (let base = wrap64 (wrap64 (ou_PromptTokens u - ou_CachedTokens u) - ou_PromptAudioTokens u);
          base = (if base < 0 then 0 else base);
          output = wrap64 (ou_CompletionTokens u - ou_CompletionAudioTokens u);
          output = (if output < 0 then 0 else output)
      in zero_usage\<lparr>BaseInput := base, CacheRead := ou_CachedTokens u, Output := output,
           AudioInput := ou_PromptAudioTokens u, AudioOutput := ou_CompletionAudioTokens u, Semantic := SemanticOpenAI\<rparr>)"

definition normalizeAnthropicUsage :: "anthropicUsage \<Rightarrow> NormalizedUsage" where
  "normalizeAnthropicUsage u = zero_usage\<lparr>BaseInput := au_InputTokens u, CacheRead := au_CacheReadInputTokens u,
     CacheWrite := au_CacheCreationInputTokens u, Output := au_OutputTokens u, Semantic := SemanticAnthropic\<rparr>"

definition normalizeGeminiUsage :: "geminiUsage \<Rightarrow> NormalizedUsage" where
  "normalizeGeminiUsage u =
     (let base = wrap64 (gu_PromptTokenCount u - gu_CachedContentTokenCount u);
          base = (if base < 0 then 0 else base)
      in zero_usage\<lparr>BaseInput := base, CacheRead := gu_CachedContentTokenCount u,
           Output := gu_CandidatesTokenCount u, Semantic := SemanticGemini\<rparr>)"

section \<open>Fields a target cannot express (codec.go)\<close>

text \<open>The texts of the other errors of building a request are never shown.\<close>

datatype build_error = ErrUnsupportedFeature string | BuildFailed

text \<open>\<^verbatim>\<open>unsupportedFeature\<close>: the field and why, behind the text of the error.\<close>

definition unsupportedFeature :: "string \<Rightarrow> string \<Rightarrow> build_error" where
  "unsupportedFeature field reason =
     (if reason = [] then ErrUnsupportedFeature (msg_unsupported_feature @ '': '' @ field)
      else ErrUnsupportedFeature (msg_unsupported_feature @ '': '' @ field @ msg_open_paren @ reason @ msg_close_paren))"

section \<open>What normalising keeps\<close>

text \<open>Normalising an OpenAI report charges every reported token once: as long as the reported parts fit in
  their totals, the four input kinds add up to the prompt tokens and the two output kinds to the completion
  tokens, and when they do not fit (the cached and audio tokens exceed the total) nothing goes negative and at
  least the total is charged.\<close>

theorem openai_usage_conserved:
  assumes "\<forall>x \<in> {ou_PromptTokens u, ou_CompletionTokens u, ou_CachedTokens u, ou_PromptAudioTokens u,
      ou_CompletionAudioTokens u}. 0 \<le> x \<and> i64 x"
    and "ou_CachedTokens u + ou_PromptAudioTokens u \<le> MaxInt64"
  defines "n \<equiv> normalizeOpenAIUsage u"
  shows "BaseInput n + CacheRead n + CacheWrite n + AudioInput n
      = max (ou_PromptTokens u) (ou_CachedTokens u + ou_PromptAudioTokens u)
    \<and> Output n + AudioOutput n = max (ou_CompletionTokens u) (ou_CompletionAudioTokens u)
    \<and> (\<forall>x \<in> {BaseInput n, CacheRead n, CacheWrite n, AudioInput n, Output n, AudioOutput n}. 0 \<le> x)"
proof -
  have a: "wrap64 (ou_PromptTokens u - ou_CachedTokens u) = ou_PromptTokens u - ou_CachedTokens u"
    using assms(1) by (intro wrap64_id) (auto simp: i64_def MinInt64_def MaxInt64_def)
  have b: "wrap64 (ou_PromptTokens u - ou_CachedTokens u - ou_PromptAudioTokens u)
      = ou_PromptTokens u - ou_CachedTokens u - ou_PromptAudioTokens u"
    using assms(1,2) by (intro wrap64_id) (auto simp: i64_def MinInt64_def MaxInt64_def)
  have c: "wrap64 (ou_CompletionTokens u - ou_CompletionAudioTokens u) = ou_CompletionTokens u - ou_CompletionAudioTokens u"
    using assms(1) by (intro wrap64_id) (auto simp: i64_def MinInt64_def MaxInt64_def)
  show ?thesis
    using assms(1) unfolding n_def normalizeOpenAIUsage_def by (auto simp: a b c zero_usage_def Let_def)
qed

theorem openai_usage_conserved_witness:
  "let n = normalizeOpenAIUsage \<lparr>ou_PromptTokens = 100, ou_CompletionTokens = 20, ou_CachedTokens = 60,
       ou_PromptAudioTokens = 10, ou_CompletionAudioTokens = 5\<rparr>
   in BaseInput n + CacheRead n + CacheWrite n + AudioInput n = 100 \<and> Output n + AudioOutput n = 20"
  using openai_usage_conserved [of "\<lparr>ou_PromptTokens = 100, ou_CompletionTokens = 20, ou_CachedTokens = 60,
       ou_PromptAudioTokens = 10, ou_CompletionAudioTokens = 5\<rparr>"]
  by (simp add: i64_def MinInt64_def MaxInt64_def)

end
