(* ===== verification/CodecOpenAI.thy ===== *)
theory CodecOpenAI
  imports Canonical
begin

text \<open>
  The OpenAI wire format (\<^verbatim>\<open>relay/codec_openai.go\<close>): a chat request to the canonical form and back, a
  response likewise, and the mapping of thinking budgets to the three efforts OpenAI has.
\<close>

section \<open>Requests to canonical\<close>

definition strings_of :: "json list \<Rightarrow> string list" where
  "strings_of xs = List.map_filter (\<lambda>x. as_str (Some x)) xs"

definition budgetToReasoningEffort :: "int \<Rightarrow> string" where
  "budgetToReasoningEffort budget = (if budget < 8000 then ''low'' else if budget < 24000 then ''medium'' else ''high'')"

definition reasoningEffortToBudget :: "string \<Rightarrow> int" where
  "reasoningEffortToBudget effort =
     (if effort = ''low'' then 4000 else if effort = ''medium'' then 16000
      else if effort = ''high'' then 32000 else 16000)"

fun openai_stop :: "json option \<Rightarrow> string list" where
  "openai_stop (Some (JStr s)) = [s]"
| "openai_stop (Some (JArr xs)) = strings_of xs"
| "openai_stop _ = []"

definition openai_tool :: "json \<Rightarrow> CanonTool option" where
  "openai_tool tool = (case as_obj (jget (obj_or (Some tool)) ''function'') of None \<Rightarrow> None
     | Some fn \<Rightarrow> Some \<lparr>ct_Name = str_or (jget fn ''name''), ct_Description = str_or (jget fn ''description''),
         ct_Schema = as_obj (jget fn ''parameters'')\<rparr>)"

fun openai_tool_choice :: "json option \<Rightarrow> ToolChoice option" where
  "openai_tool_choice (Some (JStr tc)) = Some \<lparr>tc_Mode = tc, tc_Name = [], tc_DisableParallel = False\<rparr>"
| "openai_tool_choice (Some (JObj tc)) = (case as_obj (jget tc ''function'') of None \<Rightarrow> None
     | Some fn \<Rightarrow> Some \<lparr>tc_Mode = ToolChoiceTool, tc_Name = str_or (jget fn ''name''), tc_DisableParallel = False\<rparr>)"
| "openai_tool_choice _ = None"

fun openai_part :: "json \<Rightarrow> CanonPart option" where
  "openai_part (JObj pm) =
     (if jget pm ''type'' = Some (JStr ''text'') then Some (PartText (str_or (jget pm ''text'')))
      else if jget pm ''type'' = Some (JStr ''image_url'')
      then Some (PartImage (str_or (jget (obj_or (jget pm ''image_url'')) ''url'')) [])
      else None)"
| "openai_part _ = None"

definition openai_call :: "json \<Rightarrow> CanonPart option" where
  "openai_call call = (let cm = obj_or (Some call) in
     case as_obj (jget cm ''function'') of None \<Rightarrow> None
     | Some fn \<Rightarrow> Some (PartToolUse (str_or (jget cm ''id'')) (str_or (jget fn ''name'')) (str_or (jget fn ''arguments''))))"

fun openai_content :: "json option \<Rightarrow> CanonPart list" where
  "openai_content (Some (JStr content)) = (if content \<noteq> [] then [PartText content] else [])"
| "openai_content (Some (JArr content)) = List.map_filter openai_part content"
| "openai_content _ = []"

definition openai_message :: "string \<Rightarrow> jobj \<Rightarrow> CanonMessage" where
  "openai_message role mm =
     (if role = ''tool''
      then \<lparr>cm_Role = role, cm_Parts =
        [PartToolResult (str_or (jget mm ''tool_call_id'')) (str_or (jget mm ''content'')) False]\<rparr>
      else \<lparr>cm_Role = role, cm_Parts = openai_content (jget mm ''content'')
        @ List.map_filter openai_call (arr_or (jget mm ''tool_calls''))\<rparr>)"

definition add_line :: "string \<Rightarrow> string \<Rightarrow> string" where
  "add_line sys txt = (if sys \<noteq> [] then sys @ [CHR 0x0A] @ txt else txt)"

text \<open>The loop over the messages: the system text so far, then the messages.\<close>

fun openai_messages :: "json list \<Rightarrow> string \<Rightarrow> string \<times> CanonMessage list" where
  "openai_messages [] sys = (sys, [])"
| "openai_messages (JObj mm # ms) sys =
     (let role = str_or (jget mm ''role'') in
      if role = ''system'' \<or> role = ''developer''
      then openai_messages ms (case as_str (jget mm ''content'') of None \<Rightarrow> sys | Some txt \<Rightarrow> add_line sys txt)
      else case openai_messages ms sys of (sys, msgs) \<Rightarrow> (sys, openai_message role mm # msgs))"
| "openai_messages (_ # ms) sys = openai_messages ms sys"

definition openai_logprobs :: "jobj \<Rightarrow> LogprobsConfig option" where
  "openai_logprobs b = (if as_bool (jget b ''logprobs'') = Some True
     then Some \<lparr>lp_Enabled = True, lp_TopN = (case as_num (jget b ''top_logprobs'') of None \<Rightarrow> 0 | Some n \<Rightarrow> float_to_int64 n)\<rparr>
     else None)"

definition openai_response_format :: "jobj \<Rightarrow> ResponseFormat option" where
  "openai_response_format b = (case as_obj (jget b ''response_format'') of None \<Rightarrow> None
     | Some rf \<Rightarrow> Some \<lparr>rf_Type = str_or (jget rf ''type''), rf_JSONSchema =
         (case as_obj (jget rf ''json_schema'') of None \<Rightarrow> None | Some js \<Rightarrow> as_obj (jget js ''schema''))\<rparr>)"

definition openai_max_tokens :: "jobj \<Rightarrow> int" where
  "openai_max_tokens b = (case as_num (jget b ''max_tokens'') of
       Some mt \<Rightarrow> float_to_int64 mt
     | None \<Rightarrow> (case as_num (jget b ''max_completion_tokens'') of Some mt \<Rightarrow> float_to_int64 mt | None \<Rightarrow> 0))"

definition decodeOpenAIRequest :: "jobj \<Rightarrow> string + CanonRequest" where
  "decodeOpenAIRequest b =
     (let model = str_or (jget b ''model'') in
      if model = [] then Inl msg_model_missing
      else case openai_messages (arr_or (jget b ''messages'')) [] of (sys, msgs) \<Rightarrow> Inr
        \<lparr>cr_Model = model, cr_System = sys, cr_Messages = msgs, cr_MaxTokens = openai_max_tokens b,
         cr_Temperature = as_num (jget b ''temperature''), cr_TopP = as_num (jget b ''top_p''),
         cr_Stop = openai_stop (jget b ''stop''), cr_Stream = bool_or (jget b ''stream''),
         cr_Tools = List.map_filter openai_tool (arr_or (jget b ''tools'')),
         cr_ToolChoice = openai_tool_choice (jget b ''tool_choice''),
         cr_TopK = map_option float_to_int64 (as_num (jget b ''top_k'')),
         cr_Seed = map_option float_to_int64 (as_num (jget b ''seed'')),
         cr_Logprobs = openai_logprobs b, cr_ResponseFormat = openai_response_format b,
         cr_Thinking = (let re = str_or (jget b ''reasoning_effort'') in
            if re \<noteq> [] then Some \<lparr>th_Enabled = True, th_BudgetTokens = reasoningEffortToBudget re\<rparr> else None),
         cr_Metadata = (let u = str_or (jget b ''user'') in if u \<noteq> [] then [(''user_id'', u)] else [])\<rparr>)"

section \<open>Canonical to requests\<close>

definition openai_tool_json :: "CanonTool \<Rightarrow> json" where
  "openai_tool_json t = JObj [(''type'', JStr ''function''), (''function'', JObj [(''name'', JStr (ct_Name t)),
     (''description'', JStr (ct_Description t)), (''parameters'', jmap (ct_Schema t))])]"

definition openai_tool_choice_json :: "ToolChoice \<Rightarrow> json option" where
  "openai_tool_choice_json tc =
     (if tc_Mode tc \<in> {ToolChoiceAuto, ToolChoiceRequired, ToolChoiceNone} then Some (JStr (tc_Mode tc))
      else if tc_Mode tc = ToolChoiceTool
      then Some (JObj [(''type'', JStr ''function''), (''function'', JObj [(''name'', JStr (tc_Name tc))])])
      else None)"

fun is_tool_result :: "CanonPart \<Rightarrow> bool" where
  "is_tool_result (PartToolResult i r e) = True" | "is_tool_result _ = False"

fun is_tool_use :: "CanonPart \<Rightarrow> bool" where
  "is_tool_use (PartToolUse i n a) = True" | "is_tool_use _ = False"

fun is_image :: "CanonPart \<Rightarrow> bool" where
  "is_image (PartImage u m) = True" | "is_image _ = False"

fun is_text :: "CanonPart \<Rightarrow> bool" where
  "is_text (PartText t) = True" | "is_text _ = False"

definition hasImage :: "CanonPart list \<Rightarrow> bool" where "hasImage parts = list_ex is_image parts"

fun openai_part_json :: "CanonPart \<Rightarrow> json option" where
  "openai_part_json (PartText t) = Some (JObj [(''type'', JStr ''text''), (''text'', JStr t)])"
| "openai_part_json (PartImage url mime) =
     Some (JObj [(''type'', JStr ''image_url''), (''image_url'', JObj [(''url'', JStr url)])])"
| "openai_part_json _ = None"

text \<open>The field \<^verbatim>\<open>Text\<close> of a part that has none is empty.\<close>

fun text_of_part :: "CanonPart \<Rightarrow> string" where
  "text_of_part (PartText t) = t"
| "text_of_part (PartThinking t) = t"
| "text_of_part _ = []"

fun openai_result_json :: "CanonPart \<Rightarrow> json" where
  "openai_result_json (PartToolResult i r e) =
     JObj [(''role'', JStr ''tool''), (''tool_call_id'', JStr i), (''content'', JStr r)]"
| "openai_result_json _ = JNull"

fun openai_call_json :: "CanonPart \<Rightarrow> json" where
  "openai_call_json (PartToolUse i n a) = JObj [(''id'', JStr i), (''type'', JStr ''function''),
     (''function'', JObj [(''name'', JStr n), (''arguments'', JStr a)])]"
| "openai_call_json _ = JNull"

definition openai_message_json :: "CanonMessage \<Rightarrow> json list" where
  "openai_message_json m =
     (let toolResults = filter is_tool_result (cm_Parts m);
          toolUses = filter is_tool_use (cm_Parts m);
          textParts = filter (\<lambda>p. \<not> is_tool_result p \<and> \<not> is_tool_use p) (cm_Parts m);
          content = (if hasImage textParts then JArr (List.map_filter openai_part_json textParts)
                     else JStr (concat (map text_of_part textParts)))
      in map openai_result_json toolResults
         @ (if textParts = [] \<and> toolUses = [] then []
            else [JObj (set_if (toolUses \<noteq> []) ''tool_calls'' (JArr (map openai_call_json toolUses))
                    [(''role'', JStr (cm_Role m)), (''content'', content)])]))"

definition openai_format_json :: "ResponseFormat \<Rightarrow> json" where
  "openai_format_json rf = JObj (set_opt ''json_schema'' (\<lambda>sch. JObj [(''schema'', JObj sch)]) (rf_JSONSchema rf)
     [(''type'', JStr (rf_Type rf))])"

definition encodeOpenAIRequest :: "CanonRequest \<Rightarrow> string \<Rightarrow> jobj" where
  "encodeOpenAIRequest req upstreamModel =
     (let b = [(''model'', JStr upstreamModel)];
          b = set_if (cr_MaxTokens req > 0) ''max_tokens'' (jint (cr_MaxTokens req)) b;
          b = set_opt ''temperature'' JNum (cr_Temperature req) b;
          b = set_opt ''top_p'' JNum (cr_TopP req) b;
          b = set_if (cr_Stop req \<noteq> []) ''stop'' (JArr (map JStr (cr_Stop req))) b;
          b = set_opt ''seed'' jint (cr_Seed req) b;
          b = set_opt ''logprobs'' (\<lambda>l. JBool (lp_Enabled l)) (cr_Logprobs req) b;
          b = (case cr_Logprobs req of None \<Rightarrow> b | Some l \<Rightarrow> set_if (lp_TopN l > 0) ''top_logprobs'' (jint (lp_TopN l)) b);
          b = set_opt ''response_format'' openai_format_json (cr_ResponseFormat req) b;
          b = (case cr_Thinking req of None \<Rightarrow> b | Some th \<Rightarrow>
                 set_if (th_Enabled th) ''reasoning_effort'' (JStr (budgetToReasoningEffort (th_BudgetTokens th))) b);
          b = set_opt ''user'' JStr (map_of (cr_Metadata req) ''user_id'') b;
          b = set_if (cr_Stream req) ''stream'' (JBool True) b;
          b = set_if (cr_Stream req) ''stream_options'' (JObj [(''include_usage'', JBool True)]) b;
          b = set_if (cr_Tools req \<noteq> []) ''tools'' (JArr (map openai_tool_json (cr_Tools req))) b;
          b = set_opt ''tool_choice'' (\<lambda>v. v) (Option.bind (cr_ToolChoice req) openai_tool_choice_json) b;
          msgs = (if cr_System req \<noteq> [] then [JObj [(''role'', JStr ''system''), (''content'', JStr (cr_System req))]] else [])
            @ concat (map openai_message_json (cr_Messages req))
      in jset ''messages'' (jslice msgs) b)"

definition rejectOpenAIUnsupported :: "CanonRequest \<Rightarrow> build_error option" where
  "rejectOpenAIUnsupported canon =
     (if cr_TopK canon \<noteq> None then Some (unsupportedFeature ''top_k'' msg_no_top_k)
      else if (case cr_ToolChoice canon of None \<Rightarrow> False | Some tc \<Rightarrow> tc_DisableParallel tc)
      then Some (unsupportedFeature ''tool_choice.disable_parallel_tool_use'' msg_openai_no_parallel)
      else None)"

section \<open>Responses\<close>

record openai_call_struct =
  oc_Index :: int
  oc_ID :: string
  oc_Name :: string
  oc_Arguments :: string

definition read_openai_call :: "jobj \<Rightarrow> openai_call_struct option" where
  "read_openai_call fs =
     Option.bind (rd_int fs ''index'') (\<lambda>idx.
     Option.bind (rd_str fs ''id'') (\<lambda>i.
     Option.bind (rd_struct fs ''function'' (\<lambda>f.
       Option.bind (rd_str f ''name'') (\<lambda>n. map_option (Pair n) (rd_str f ''arguments'')))) (\<lambda>(n, a).
       Some \<lparr>oc_Index = idx, oc_ID = i, oc_Name = n, oc_Arguments = a\<rparr>)))"

text \<open>A choice: its finish reason, and the content and calls of its message (a delta in a stream).\<close>

definition read_openai_choice :: "string \<Rightarrow> (jobj \<Rightarrow> 'a option) \<Rightarrow> jobj \<Rightarrow> (string \<times> string \<times> 'a list) option" where
  "read_openai_choice field call fs =
     Option.bind (rd_str fs ''finish_reason'') (\<lambda>fin.
     map_option (Pair fin) (rd_struct fs field (\<lambda>m.
       Option.bind (rd_str m ''content'') (\<lambda>c. map_option (Pair c) (rd_list m ''tool_calls'' call)))))"

definition read_message_call :: "jobj \<Rightarrow> CanonPart option" where
  "read_message_call fs =
     Option.bind (rd_str fs ''id'') (\<lambda>i.
     rd_struct fs ''function'' (\<lambda>f.
       Option.bind (rd_str f ''name'') (\<lambda>n. map_option (PartToolUse i n) (rd_str f ''arguments''))))"

definition openai_response_parts :: "string \<times> CanonPart list \<Rightarrow> CanonPart list" where
  "openai_response_parts m = (if fst m \<noteq> [] then [PartText (fst m)] else []) @ snd m"

definition openai_response_of :: "jobj \<Rightarrow> (CanonResponse \<times> NormalizedUsage) option" where
  "openai_response_of fs =
     Option.bind (rd_str fs ''id'') (\<lambda>i.
     Option.bind (rd_str fs ''model'') (\<lambda>model.
     Option.bind (rd_list fs ''choices'' (read_openai_choice ''message'' read_message_call)) (\<lambda>choices.
     Option.bind (rd_struct fs ''usage'' read_openaiUsage) (\<lambda>usage.
       Some (case choices of [] \<Rightarrow> \<lparr>rs_ID = i, rs_Model = model, rs_Parts = [], rs_StopReason = []\<rparr>
         | (fin, m) # _ \<Rightarrow> \<lparr>rs_ID = i, rs_Model = model, rs_Parts = openai_response_parts m,
             rs_StopReason = openaiFinishToCanon fin\<rparr>,
         normalizeOpenAIUsage usage)))))"

definition decodeOpenAIResponse :: "json_lib \<Rightarrow> string \<Rightarrow> string + (CanonResponse \<times> NormalizedUsage)" where
  "decodeOpenAIResponse lib raw =
     (case Option.bind (document_fields (json_Unmarshal lib raw)) openai_response_of of
        None \<Rightarrow> Inl msg_openai_parse_failed | Some r \<Rightarrow> Inr r)"

definition openai_message_of :: "CanonPart list \<Rightarrow> jobj" where
  "openai_message_of parts =
     (let txt = concat (map text_of_part (filter is_text parts));
          calls = map openai_call_json (filter is_tool_use parts)
      in set_if (calls \<noteq> []) ''tool_calls'' (JArr calls)
           [(''role'', JStr ''assistant''), (''content'', if txt \<noteq> [] then JStr txt else JNull)])"

definition openai_usage_json :: "NormalizedUsage \<Rightarrow> jobj" where
  "openai_usage_json u = [(''prompt_tokens'', jint (wrap64 (BaseInput u + CacheRead u))),
     (''completion_tokens'', jint (Output u)),
     (''total_tokens'', jint (wrap64 (wrap64 (BaseInput u + CacheRead u) + Output u)))]"

definition encodeOpenAIResponse_value :: "CanonResponse \<Rightarrow> string \<Rightarrow> NormalizedUsage \<Rightarrow> json" where
  "encodeOpenAIResponse_value resp publicModel usage =
     JObj [(''id'', JStr (if rs_ID resp = [] then ''chatcmpl-relay'' else rs_ID resp)),
       (''object'', JStr ''chat.completion''), (''model'', JStr publicModel),
       (''choices'', JArr [JObj [(''index'', jint 0), (''message'', JObj (openai_message_of (rs_Parts resp))),
          (''finish_reason'', JStr (canonStopToOpenAI (rs_StopReason resp)))]]),
       (''usage'', JObj (jset ''prompt_tokens_details'' (JObj [(''cached_tokens'', jint (CacheRead usage))])
          (openai_usage_json usage)))]"

definition encodeOpenAIResponse :: "json_lib \<Rightarrow> CanonResponse \<Rightarrow> string \<Rightarrow> NormalizedUsage \<Rightarrow> string" where
  "encodeOpenAIResponse lib resp publicModel usage = json_Marshal lib (encodeOpenAIResponse_value resp publicModel usage)"

section \<open>Round trips\<close>

lemma effort_round_trip: "e \<in> {''low'', ''medium'', ''high''} \<Longrightarrow> budgetToReasoningEffort (reasoningEffortToBudget e) = e"
  by (auto simp: budgetToReasoningEffort_def reasoningEffortToBudget_def)

lemma stop_round_trip: "s \<in> {StopEndTurn, StopMaxTokens, StopToolUse} \<Longrightarrow> openaiFinishToCanon (canonStopToOpenAI s) = s"
  by (auto simp: openaiFinishToCanon_def canonStopToOpenAI_def stop_defs)

lemma stop_normalised: "openaiFinishToCanon (canonStopToOpenAI s) = (if s \<in> {StopMaxTokens, StopToolUse} then s else StopEndTurn)"
  by (auto simp: openaiFinishToCanon_def canonStopToOpenAI_def stop_defs)

lemmas read_struct = rd_str_def rd_int_def rd_struct_def rd_ptr_def rd_list_def scalar_get_Cons struct_get_Cons
  to_lower_def lower_char_def

lemma read_message_call_json: "is_tool_use p \<Longrightarrow> rd_elem read_message_call (openai_call_json p) = Some p"
  by (cases p) (simp_all add: read_message_call_def read_struct)

lemma read_message_calls:
  "all_some (map (\<lambda>x. rd_elem read_message_call (openai_call_json x)) (filter is_tool_use ps)) = Some (filter is_tool_use ps)"
  using all_some_map [of "filter is_tool_use ps" "\<lambda>x. rd_elem read_message_call (openai_call_json x)" "\<lambda>x. x"]
  by (simp add: read_message_call_json)

lemma read_message_of:
  "Option.bind (rd_str (openai_message_of ps) ''content'')
     (\<lambda>c. map_option (Pair c) (rd_list (openai_message_of ps) ''tool_calls'' read_message_call))
   = Some (concat (map text_of_part (filter is_text ps)), filter is_tool_use ps)"
  by (cases "filter is_tool_use ps = []")
    (auto simp: openai_message_of_def Let_def read_struct set_if_def jset_def o_def read_message_calls)

text \<open>The parts an OpenAI client sees: the texts as one, then the calls.\<close>

definition openai_view :: "CanonPart list \<Rightarrow> CanonPart list" where
  "openai_view ps = openai_response_parts (concat (map text_of_part (filter is_text ps)), filter is_tool_use ps)"

lemma openai_view_idem: "openai_view (openai_view ps) = openai_view ps"
proof -
  have "filter is_text (filter is_tool_use ps) = []"
    by (induction ps) (auto elim: is_text.elims is_tool_use.elims)
  then show ?thesis by (auto simp: openai_view_def openai_response_parts_def)
qed

definition openai_usage_view :: "NormalizedUsage \<Rightarrow> NormalizedUsage" where
  "openai_usage_view u = zero_usage\<lparr>BaseInput := BaseInput u, CacheRead := CacheRead u, Output := Output u,
     Semantic := SemanticOpenAI\<rparr>"

lemma read_usage_view:
  assumes "0 \<le> BaseInput u" "0 \<le> CacheRead u" "0 \<le> Output u" "BaseInput u + CacheRead u \<le> MaxInt64" "Output u \<le> MaxInt64"
  shows "map_option normalizeOpenAIUsage (read_openaiUsage (jset ''prompt_tokens_details''
      (JObj [(''cached_tokens'', jint (CacheRead u))]) (openai_usage_json u))) = Some (openai_usage_view u)"
proof -
  have r: "i64 (BaseInput u)" "i64 (CacheRead u)" "i64 (Output u)" "i64 (BaseInput u + CacheRead u)" "i64 (- CacheRead u)"
    using assms by (auto simp: i64_def MinInt64_def MaxInt64_def)
  show ?thesis
    using r assms by (simp add: read_openaiUsage_def read_struct openai_usage_json_def jset_def jint_def
        normalizeOpenAIUsage_def openai_usage_view_def zero_usage_def wrap64_id Let_def del: of_int_add)
qed

text \<open>A response in the canonical form reaches an OpenAI client whole: what such a client decodes from the encoded
  body is the response's id, the public model, its texts as one text followed by all its tool calls with their arguments, the
  stop reason among the three OpenAI knows, and the usage without the cache writes.\<close>

theorem openai_response_round_trip:
  assumes "json_Unmarshal lib (json_Marshal lib v) = Some v" "v = encodeOpenAIResponse_value resp model u"
    and "0 \<le> BaseInput u" "0 \<le> CacheRead u" "0 \<le> Output u" "BaseInput u + CacheRead u \<le> MaxInt64" "Output u \<le> MaxInt64"
  shows "decodeOpenAIResponse lib (encodeOpenAIResponse lib resp model u) = Inr
    (\<lparr>rs_ID = (if rs_ID resp = [] then ''chatcmpl-relay'' else rs_ID resp), rs_Model = model,
      rs_Parts = openai_view (rs_Parts resp),
      rs_StopReason = (if rs_StopReason resp \<in> {StopMaxTokens, StopToolUse} then rs_StopReason resp else StopEndTurn)\<rparr>,
     openai_usage_view u)"
proof -
  obtain us where us: "read_openaiUsage (jset ''prompt_tokens_details''
      (JObj [(''cached_tokens'', jint (CacheRead u))]) (openai_usage_json u)) = Some us"
    "normalizeOpenAIUsage us = openai_usage_view u"
    using read_usage_view [OF assms(3-7)] by auto
  show ?thesis
    using assms(1) us unfolding decodeOpenAIResponse_def encodeOpenAIResponse_def assms(2)
    by (simp add: document_fields_def encodeOpenAIResponse_value_def openai_response_of_def read_struct
        read_openai_choice_def read_message_of [unfolded read_struct] stop_normalised openai_view_def)
qed

theorem openai_response_round_trip_witness:
  "let v = encodeOpenAIResponse_value \<lparr>rs_ID = [], rs_Model = ''x'', rs_Parts = [PartText ''a'', PartToolUse ''1'' ''f'' ''{}'', PartText ''b''],
        rs_StopReason = StopToolUse\<rparr> ''m'' (zero_usage\<lparr>BaseInput := 3, Output := 4\<rparr>)
   in map_sum id fst (decodeOpenAIResponse (one_document v) (encodeOpenAIResponse (one_document v)
        \<lparr>rs_ID = [], rs_Model = ''x'', rs_Parts = [PartText ''a'', PartToolUse ''1'' ''f'' ''{}'', PartText ''b''],
        rs_StopReason = StopToolUse\<rparr> ''m'' (zero_usage\<lparr>BaseInput := 3, Output := 4\<rparr>)))
      = Inr \<lparr>rs_ID = ''chatcmpl-relay'', rs_Model = ''m'', rs_Parts = [PartText ''ab'', PartToolUse ''1'' ''f'' ''{}''],
          rs_StopReason = StopToolUse\<rparr>"
  unfolding Let_def
  by (subst openai_response_round_trip [OF one_document refl])
    (simp_all add: zero_usage_def MaxInt64_def openai_view_def openai_response_parts_def)

end
