(* ===== verification/CodecAnthropic.thy ===== *)
theory CodecAnthropic
  imports CodecOpenAI
begin

text \<open>
  The Anthropic wire format (\<^verbatim>\<open>relay/codec_anthropic.go\<close>): a messages request to the canonical form and
  back, a response likewise, and what of a request or a response survives the way there and back.
\<close>

section \<open>Requests to canonical\<close>

fun text_fields :: "json list \<Rightarrow> string list" where
  "text_fields [] = []"
| "text_fields (JObj bm # bs) = (case as_str (jget bm ''text'') of None \<Rightarrow> text_fields bs | Some t \<Rightarrow> t # text_fields bs)"
| "text_fields (_ # bs) = text_fields bs"

fun anthropic_system :: "json option \<Rightarrow> string" where
  "anthropic_system (Some (JStr sys)) = sys"
| "anthropic_system (Some (JArr bs)) = foldl add_line [] (text_fields bs)"
| "anthropic_system _ = []"

definition anthropic_thinking :: "jobj \<Rightarrow> ThinkingConfig option" where
  "anthropic_thinking b = (case as_obj (jget b ''thinking'') of None \<Rightarrow> None
     | Some think \<Rightarrow> if str_or (jget think ''type'') = ''enabled''
         then Some \<lparr>th_Enabled = True, th_BudgetTokens =
            (case as_num (jget think ''budget_tokens'') of None \<Rightarrow> 0 | Some bt \<Rightarrow> float_to_int64 bt)\<rparr>
         else None)"

definition anthropic_metadata :: "jobj \<Rightarrow> (string \<times> string) list" where
  "anthropic_metadata b = (case as_obj (jget b ''metadata'') of None \<Rightarrow> []
     | Some md \<Rightarrow> (case as_str (jget md ''user_id'') of None \<Rightarrow> [] | Some uid \<Rightarrow> [(''user_id'', uid)]))"

fun anthropic_tool :: "json \<Rightarrow> CanonTool option" where
  "anthropic_tool (JObj tm) = Some \<lparr>ct_Name = str_or (jget tm ''name''),
     ct_Description = str_or (jget tm ''description''), ct_Schema = as_obj (jget tm ''input_schema'')\<rparr>"
| "anthropic_tool _ = None"

definition anthropic_choice_mode :: "jobj \<Rightarrow> (string \<times> string) option" where
  "anthropic_choice_mode tc =
     (let t = jget tc ''type'' in
      if t = Some (JStr ''auto'') then Some (ToolChoiceAuto, [])
      else if t = Some (JStr ''any'') then Some (ToolChoiceRequired, [])
      else if t = Some (JStr ''none'') then Some (ToolChoiceNone, [])
      else if t = Some (JStr ''tool'') then Some (ToolChoiceTool, str_or (jget tc ''name''))
      else None)"

definition anthropic_tool_choice :: "jobj \<Rightarrow> ToolChoice option" where
  "anthropic_tool_choice b = (case as_obj (jget b ''tool_choice'') of None \<Rightarrow> None
     | Some tc \<Rightarrow> (case anthropic_choice_mode tc of None \<Rightarrow> None
         | Some (mode, name) \<Rightarrow> Some \<lparr>tc_Mode = mode, tc_Name = name,
             tc_DisableParallel = bool_or (jget tc ''disable_parallel_tool_use'')\<rparr>))"

fun flattenToolResultContent :: "json option \<Rightarrow> string" where
  "flattenToolResultContent (Some (JStr c)) = c"
| "flattenToolResultContent (Some (JArr bs)) = concat (text_fields bs)"
| "flattenToolResultContent _ = []"

definition or_null :: "json option \<Rightarrow> json" where "or_null v = (case v of None \<Rightarrow> JNull | Some x \<Rightarrow> x)"

fun anthropic_block :: "json_lib \<Rightarrow> json \<Rightarrow> CanonPart option" where
  "anthropic_block lib (JObj bm) =
     (let t = jget bm ''type'' in
      if t = Some (JStr ''text'') then Some (PartText (str_or (jget bm ''text'')))
      else if t = Some (JStr ''image'')
      then (let src = obj_or (jget bm ''source''); mime = str_or (jget src ''media_type'') in
            Some (PartImage (''data:'' @ mime @ '';base64,'' @ str_or (jget src ''data'')) mime))
      else if t = Some (JStr ''tool_use'')
      then Some (PartToolUse (str_or (jget bm ''id'')) (str_or (jget bm ''name''))
             (json_Marshal lib (or_null (jget bm ''input''))))
      else if t = Some (JStr ''tool_result'')
      then Some (PartToolResult (str_or (jget bm ''tool_use_id'')) (flattenToolResultContent (jget bm ''content''))
             (bool_or (jget bm ''is_error'')))
      else None)"
| "anthropic_block lib _ = None"

fun anthropic_content :: "json_lib \<Rightarrow> json option \<Rightarrow> CanonPart list" where
  "anthropic_content lib (Some (JStr content)) = [PartText content]"
| "anthropic_content lib (Some (JArr content)) = List.map_filter (anthropic_block lib) content"
| "anthropic_content lib _ = []"

fun anthropic_message :: "json_lib \<Rightarrow> json \<Rightarrow> CanonMessage option" where
  "anthropic_message lib (JObj mm) =
     Some \<lparr>cm_Role = str_or (jget mm ''role''), cm_Parts = anthropic_content lib (jget mm ''content'')\<rparr>"
| "anthropic_message lib _ = None"

definition decodeAnthropicRequest :: "json_lib \<Rightarrow> jobj \<Rightarrow> string + CanonRequest" where
  "decodeAnthropicRequest lib b =
     (let req = \<lparr>cr_Model = str_or (jget b ''model''), cr_System = anthropic_system (jget b ''system''),
         cr_Messages = List.map_filter (anthropic_message lib) (arr_or (jget b ''messages'')),
         cr_MaxTokens = (case as_num (jget b ''max_tokens'') of None \<Rightarrow> 0 | Some mt \<Rightarrow> float_to_int64 mt),
         cr_Temperature = as_num (jget b ''temperature''), cr_TopP = as_num (jget b ''top_p''),
         cr_Stop = strings_of (arr_or (jget b ''stop_sequences'')), cr_Stream = bool_or (jget b ''stream''),
         cr_Tools = List.map_filter anthropic_tool (arr_or (jget b ''tools'')),
         cr_ToolChoice = anthropic_tool_choice b,
         cr_TopK = map_option float_to_int64 (as_num (jget b ''top_k'')),
         cr_Seed = None, cr_Logprobs = None, cr_ResponseFormat = None,
         cr_Thinking = anthropic_thinking b, cr_Metadata = anthropic_metadata b\<rparr>
      in if cr_Model req = [] then Inl msg_model_missing else Inr req)"

section \<open>Canonical to requests\<close>

definition splitDataURI :: "string \<Rightarrow> string \<Rightarrow> string \<times> string" where
  "splitDataURI uri fallbackMIME =
     (let mime = (if fallbackMIME = [] then ''image/png'' else fallbackMIME);
          rest = drop (length ''data:'') uri;
          is_sep = (\<lambda>c. c = CHR '';'' \<or> c = CHR '','')
      in if length uri > length ''data:'' \<and> has_prefix ''data:'' uri \<and> list_ex is_sep rest
         then (takeWhile (\<lambda>c. \<not> is_sep c) rest, drop 1 (dropWhile (\<lambda>c. c \<noteq> CHR '','') rest))
         else (mime, []))"

definition tool_input :: "json_lib \<Rightarrow> string \<Rightarrow> json" where
  "tool_input lib args = (case unmarshal_any lib args of None \<Rightarrow> JObj [] | Some v \<Rightarrow> v)"

fun anthropic_block_json :: "json_lib \<Rightarrow> CanonPart \<Rightarrow> json option" where
  "anthropic_block_json lib (PartText t) = Some (JObj [(''type'', JStr ''text''), (''text'', JStr t)])"
| "anthropic_block_json lib (PartImage url mime) =
     (case splitDataURI url mime of (mime, data) \<Rightarrow>
       Some (JObj [(''type'', JStr ''image''), (''source'', JObj [(''type'', JStr ''base64''),
         (''media_type'', JStr mime), (''data'', JStr data)])]))"
| "anthropic_block_json lib (PartToolUse i n a) =
     Some (JObj [(''type'', JStr ''tool_use''), (''id'', JStr i), (''name'', JStr n), (''input'', tool_input lib a)])"
| "anthropic_block_json lib (PartToolResult i r e) =
     Some (JObj [(''type'', JStr ''tool_result''), (''tool_use_id'', JStr i), (''content'', JStr r), (''is_error'', JBool e)])"
| "anthropic_block_json lib (PartThinking t) = None"

definition anthropic_tool_json :: "CanonTool \<Rightarrow> json" where
  "anthropic_tool_json t = JObj [(''name'', JStr (ct_Name t)), (''description'', JStr (ct_Description t)),
     (''input_schema'', jmap (ct_Schema t))]"

definition anthropic_choice_json :: "ToolChoice \<Rightarrow> json option" where
  "anthropic_choice_json tc =
     (let choice = (if tc_Mode tc = ToolChoiceAuto then Some [(''type'', JStr ''auto'')]
         else if tc_Mode tc = ToolChoiceRequired then Some [(''type'', JStr ''any'')]
         else if tc_Mode tc = ToolChoiceNone then Some [(''type'', JStr ''none'')]
         else if tc_Mode tc = ToolChoiceTool then Some [(''type'', JStr ''tool''), (''name'', JStr (tc_Name tc))]
         else None)
      in map_option (\<lambda>c. JObj (set_if (tc_DisableParallel tc) ''disable_parallel_tool_use'' (JBool True) c)) choice)"

definition anthropic_message_json :: "json_lib \<Rightarrow> CanonMessage \<Rightarrow> json" where
  "anthropic_message_json lib m =
     JObj [(''role'', JStr (if cm_Role m = ''tool'' then ''user'' else cm_Role m)),
       (''content'', JArr (List.map_filter (anthropic_block_json lib) (cm_Parts m)))]"

definition anthropic_thinking_json :: "ThinkingConfig \<Rightarrow> json" where
  "anthropic_thinking_json th =
     JObj (set_if (th_BudgetTokens th > 0) ''budget_tokens'' (jint (th_BudgetTokens th)) [(''type'', JStr ''enabled'')])"

definition encodeAnthropicRequest :: "json_lib \<Rightarrow> CanonRequest \<Rightarrow> string \<Rightarrow> jobj" where
  "encodeAnthropicRequest lib req upstreamModel =
     (let b = [(''model'', JStr upstreamModel),
            (''max_tokens'', jint (if cr_MaxTokens req = 0 then 4096 else cr_MaxTokens req))];
          b = set_if (cr_System req \<noteq> []) ''system'' (JStr (cr_System req)) b;
          b = set_opt ''temperature'' JNum (cr_Temperature req) b;
          b = set_opt ''top_p'' JNum (cr_TopP req) b;
          b = set_opt ''top_k'' jint (cr_TopK req) b;
          b = set_if (cr_Stop req \<noteq> []) ''stop_sequences'' (JArr (map JStr (cr_Stop req))) b;
          b = (case cr_Thinking req of None \<Rightarrow> b | Some th \<Rightarrow>
                 set_if (th_Enabled th) ''thinking'' (anthropic_thinking_json th) b);
          b = set_opt ''metadata'' (\<lambda>uid. JObj [(''user_id'', JStr uid)]) (map_of (cr_Metadata req) ''user_id'') b;
          b = set_if (cr_Stream req) ''stream'' (JBool True) b;
          b = set_if (cr_Tools req \<noteq> []) ''tools'' (JArr (map anthropic_tool_json (cr_Tools req))) b;
          b = set_opt ''tool_choice'' (\<lambda>v. v) (Option.bind (cr_ToolChoice req) anthropic_choice_json) b
      in jset ''messages'' (JArr (map (anthropic_message_json lib) (filter (\<lambda>m. cm_Role m \<noteq> ''system'') (cr_Messages req)))) b)"

definition rejectAnthropicUnsupported :: "CanonRequest \<Rightarrow> build_error option" where
  "rejectAnthropicUnsupported canon =
     (if cr_Logprobs canon \<noteq> None then Some (unsupportedFeature ''logprobs'' msg_anthropic_no_logprobs)
      else if cr_Seed canon \<noteq> None then Some (unsupportedFeature ''seed'' msg_anthropic_no_seed)
      else if cr_ResponseFormat canon \<noteq> None
      then Some (unsupportedFeature ''response_format'' msg_anthropic_no_format)
      else None)"

section \<open>Responses\<close>

definition anthropic_response_block :: "json_lib \<Rightarrow> jobj \<Rightarrow> CanonPart option" where
  "anthropic_response_block lib blk =
     (let t = jget blk ''type'' in
      if t = Some (JStr ''text'') then Some (PartText (str_or (jget blk ''text'')))
      else if t = Some (JStr ''thinking'') then Some (PartThinking (str_or (jget blk ''thinking'')))
      else if t = Some (JStr ''tool_use'')
      then Some (PartToolUse (str_or (jget blk ''id'')) (str_or (jget blk ''name''))
             (json_Marshal lib (or_null (map_option (as_any lib) (jget blk ''input'')))))
      else None)"

definition anthropic_response_of :: "json_lib \<Rightarrow> jobj \<Rightarrow> (CanonResponse \<times> NormalizedUsage) option" where
  "anthropic_response_of lib fs =
     Option.bind (rd_str fs ''id'') (\<lambda>i.
     Option.bind (rd_str fs ''model'') (\<lambda>model.
     Option.bind (rd_str fs ''stop_reason'') (\<lambda>stop.
     Option.bind (rd_list fs ''content'' Some) (\<lambda>content.
     Option.bind (rd_struct fs ''usage'' read_anthropicUsage) (\<lambda>usage.
       Some (\<lparr>rs_ID = i, rs_Model = model,
           rs_Parts = List.map_filter (anthropic_response_block lib) content, rs_StopReason = stop\<rparr>,
         normalizeAnthropicUsage usage))))))"

definition decodeAnthropicResponse :: "json_lib \<Rightarrow> string \<Rightarrow> string + (CanonResponse \<times> NormalizedUsage)" where
  "decodeAnthropicResponse lib raw =
     (case Option.bind (document_fields (json_Unmarshal lib raw)) (anthropic_response_of lib) of
        None \<Rightarrow> Inl msg_anthropic_parse_failed | Some r \<Rightarrow> Inr r)"

fun anthropic_response_block_json :: "json_lib \<Rightarrow> CanonPart \<Rightarrow> json option" where
  "anthropic_response_block_json lib (PartText t) = Some (JObj [(''type'', JStr ''text''), (''text'', JStr t)])"
| "anthropic_response_block_json lib (PartThinking t) =
     Some (JObj (set_if (t \<noteq> []) ''signature'' (JStr ''relay_redacted'')
       [(''type'', JStr ''thinking''), (''thinking'', JStr t)]))"
| "anthropic_response_block_json lib (PartToolUse i n a) =
     Some (JObj [(''type'', JStr ''tool_use''), (''id'', JStr i), (''name'', JStr n), (''input'', tool_input lib a)])"
| "anthropic_response_block_json lib _ = None"

definition anthropic_usage_json :: "NormalizedUsage \<Rightarrow> jobj" where
  "anthropic_usage_json u = [(''input_tokens'', jint (BaseInput u)), (''output_tokens'', jint (Output u)),
     (''cache_read_input_tokens'', jint (CacheRead u)), (''cache_creation_input_tokens'', jint (CacheWrite u))]"

definition encodeAnthropicResponse_value :: "json_lib \<Rightarrow> CanonResponse \<Rightarrow> string \<Rightarrow> NormalizedUsage \<Rightarrow> json" where
  "encodeAnthropicResponse_value lib resp publicModel usage =
     JObj [(''id'', JStr (if rs_ID resp = [] then ''msg_relay'' else rs_ID resp)), (''type'', JStr ''message''),
       (''role'', JStr ''assistant''), (''model'', JStr publicModel),
       (''content'', JArr (List.map_filter (anthropic_response_block_json lib) (rs_Parts resp))),
       (''stop_reason'', JStr (if rs_StopReason resp = [] then StopEndTurn else rs_StopReason resp)),
       (''stop_sequence'', JNull), (''usage'', JObj (anthropic_usage_json usage))]"

definition encodeAnthropicResponse :: "json_lib \<Rightarrow> CanonResponse \<Rightarrow> string \<Rightarrow> NormalizedUsage \<Rightarrow> string" where
  "encodeAnthropicResponse lib resp publicModel usage = json_Marshal lib (encodeAnthropicResponse_value lib resp publicModel usage)"

section \<open>What survives a response\<close>

text \<open>The arguments of a call pass through their value: the text is printed anew, and text that is no JSON becomes an empty object.\<close>

definition args_value :: "json_lib \<Rightarrow> string \<Rightarrow> json" where
  "args_value lib a = (case unmarshal_any lib a of None \<Rightarrow> JObj [] | Some v \<Rightarrow> v)"

definition args_view :: "json_lib \<Rightarrow> string \<Rightarrow> string" where
  "args_view lib a = json_Marshal lib (args_value lib a)"

fun response_part_view :: "json_lib \<Rightarrow> CanonPart \<Rightarrow> CanonPart option" where
  "response_part_view lib (PartText t) = Some (PartText t)"
| "response_part_view lib (PartThinking t) = Some (PartThinking t)"
| "response_part_view lib (PartToolUse i n a) =
     Some (PartToolUse i n (json_Marshal lib (as_any lib (args_value lib a))))"
| "response_part_view lib _ = None"

lemma response_blocks_objects: "anthropic_response_block_json lib p = Some j \<Longrightarrow> \<exists>ob. j = JObj ob"
  by (cases p) auto

lemma response_block_round_trip:
  "anthropic_response_block_json lib p = Some (JObj ob) \<Longrightarrow> anthropic_response_block lib ob = response_part_view lib p"
  by (cases p) (auto simp: args_value_def tool_input_def anthropic_response_block_def Let_def or_null_def)

lemma response_blocks_round_trip:
  "Option.bind (all_some (map (rd_elem Some) (List.map_filter (anthropic_response_block_json lib) ps)))
     (\<lambda>bs. Some (List.map_filter (anthropic_response_block lib) bs)) = Some (List.map_filter (response_part_view lib) ps)"
proof (induction ps)
  case Nil
  then show ?case by (simp add: List.map_filter_def)
next
  case (Cons p ps)
  show ?case
  proof (cases "anthropic_response_block_json lib p")
    case None
    then have "response_part_view lib p = None" by (cases p) auto
    then show ?thesis using None Cons by (simp add: map_filter_simps)
  next
    case (Some j)
    then obtain ob where j: "j = JObj ob" using response_blocks_objects by blast
    have "anthropic_response_block lib ob = response_part_view lib p"
      using response_block_round_trip Some j by blast
    then show ?thesis using Some j Cons.IH
      by (cases "all_some (map (rd_elem Some) (List.map_filter (anthropic_response_block_json lib) ps))")
        (auto simp: map_filter_simps split: option.split)
  qed
qed

definition anthropic_usage_view :: "NormalizedUsage \<Rightarrow> NormalizedUsage" where
  "anthropic_usage_view u = zero_usage\<lparr>BaseInput := BaseInput u, CacheRead := CacheRead u, CacheWrite := CacheWrite u,
     Output := Output u, Semantic := SemanticAnthropic\<rparr>"

lemma read_anthropic_usage_view:
  assumes "i64 (BaseInput u)" "i64 (CacheRead u)" "i64 (CacheWrite u)" "i64 (Output u)"
  shows "map_option normalizeAnthropicUsage (read_anthropicUsage (anthropic_usage_json u)) = Some (anthropic_usage_view u)"
  using assms by (simp add: read_anthropicUsage_def read_struct anthropic_usage_json_def jint_def
      normalizeAnthropicUsage_def anthropic_usage_view_def)

text \<open>What an Anthropic client decodes from a response in the canonical form: the id, the public model, every text,
  thinking and tool-use part in order (the arguments through their JSON value), the stop reason, and of the usage the
  prompt and output tokens with cache reads and writes. The format has no place for audio tokens: their counts come out as zero.\<close>

theorem anthropic_response_round_trip:
  assumes "json_Unmarshal lib (json_Marshal lib v) = Some v" "v = encodeAnthropicResponse_value lib resp model u"
    and "i64 (BaseInput u)" "i64 (CacheRead u)" "i64 (CacheWrite u)" "i64 (Output u)"
  shows "decodeAnthropicResponse lib (encodeAnthropicResponse lib resp model u) = Inr
    (\<lparr>rs_ID = (if rs_ID resp = [] then ''msg_relay'' else rs_ID resp), rs_Model = model,
      rs_Parts = List.map_filter (response_part_view lib) (rs_Parts resp),
      rs_StopReason = (if rs_StopReason resp = [] then StopEndTurn else rs_StopReason resp)\<rparr>,
     anthropic_usage_view u)"
proof -
  obtain us where us: "read_anthropicUsage (anthropic_usage_json u) = Some us"
    "normalizeAnthropicUsage us = anthropic_usage_view u"
    using read_anthropic_usage_view [OF assms(3-6)] by auto
  obtain bs where bs: "all_some (map (rd_elem Some) (List.map_filter (anthropic_response_block_json lib) (rs_Parts resp))) = Some bs"
    "List.map_filter (anthropic_response_block lib) bs = List.map_filter (response_part_view lib) (rs_Parts resp)"
    using response_blocks_round_trip [of lib "rs_Parts resp"] by (auto simp: bind_eq_Some_conv)
  show ?thesis
    using assms(1) us bs unfolding decodeAnthropicResponse_def encodeAnthropicResponse_def assms(2)
    by (simp add: document_fields_def encodeAnthropicResponse_value_def anthropic_response_of_def read_struct)
qed

theorem anthropic_response_round_trip_witness:
  "let r = \<lparr>rs_ID = ''m1'', rs_Model = ''x'', rs_Parts = [PartThinking ''h'', PartText ''a'', PartToolUse ''1'' ''f'' ''?''],
        rs_StopReason = []\<rparr>;
       v = JObj [(''id'', JStr ''m1''), (''type'', JStr ''message''),
         (''role'', JStr ''assistant''), (''model'', JStr ''pub''),
         (''content'', JArr [JObj [(''type'', JStr ''thinking''), (''thinking'', JStr ''h''), (''signature'', JStr ''relay_redacted'')],
            JObj [(''type'', JStr ''text''), (''text'', JStr ''a'')],
            JObj [(''type'', JStr ''tool_use''), (''id'', JStr ''1''), (''name'', JStr ''f''), (''input'', JObj [])]]),
         (''stop_reason'', JStr ''end_turn''), (''stop_sequence'', JNull), (''usage'', JObj (anthropic_usage_json (zero_usage\<lparr>CacheWrite := 7\<rparr>)))]
   in map_sum id (map_prod id CacheWrite) (decodeAnthropicResponse (one_document v) (encodeAnthropicResponse (one_document v) r ''pub''
         (zero_usage\<lparr>CacheWrite := 7\<rparr>)))
      = Inr (\<lparr>rs_ID = ''m1'', rs_Model = ''pub'', rs_Parts = [PartThinking ''h'', PartText ''a'', PartToolUse ''1'' ''f'' ''document''],
          rs_StopReason = ''end_turn''\<rparr>, 7)"
  unfolding Let_def
  by (subst anthropic_response_round_trip [OF one_document])
    (simp_all add: encodeAnthropicResponse_value_def zero_usage_def anthropic_usage_view_def i64_def MinInt64_def MaxInt64_def
      List.map_filter_def set_if_def jset_def args_value_def tool_input_def unmarshal_any_def one_document_def stop_defs)

section \<open>What survives a request\<close>

text \<open>
  A part as it is read back. An image given as a base64 data URI stays what it is, and its media type is that of the URI; one given in
  another way is emptied. The arguments of a call pass through their value, thinking parts are left out.
\<close>

definition uri_mime :: "string \<Rightarrow> string" where
  "uri_mime url = takeWhile (\<lambda>c. c \<noteq> CHR '';'') (drop (length ''data:'') url)"

definition base64_uri :: "string \<Rightarrow> bool" where
  "base64_uri url \<longleftrightarrow> has_prefix ''data:'' url \<and> CHR '','' \<notin> set (uri_mime url)
     \<and> has_prefix '';base64,'' (drop (length ''data:'' + length (uri_mime url)) url)"

fun image_ok :: "CanonPart \<Rightarrow> bool" where
  "image_ok (PartImage url mime) \<longleftrightarrow> base64_uri url \<or> \<not> has_prefix ''data:'' url"
| "image_ok _ \<longleftrightarrow> True"

definition empty_image :: "string \<Rightarrow> CanonPart" where
  "empty_image mime = (let m = (if mime = [] then ''image/png'' else mime) in PartImage (''data:'' @ m @ '';base64,'') m)"

fun request_part_view :: "json_lib \<Rightarrow> CanonPart \<Rightarrow> CanonPart option" where
  "request_part_view lib (PartImage url mime) = Some (if base64_uri url then PartImage url (uri_mime url) else empty_image mime)"
| "request_part_view lib (PartToolUse i n a) = Some (PartToolUse i n (args_view lib a))"
| "request_part_view lib (PartThinking t) = None"
| "request_part_view lib p = Some p"

lemma splitDataURI_base64:
  assumes "base64_uri url"
  shows "\<exists>d. splitDataURI url fallback = (uri_mime url, d) \<and> url = ''data:'' @ uri_mime url @ '';base64,'' @ d"
proof -
  define m where "m = uri_mime url"
  obtain r where r: "url = ''data:'' @ r" using assms by (auto simp: base64_uri_def has_prefix_iff)
  have m: "m = takeWhile (\<lambda>c. c \<noteq> CHR '';'') r" by (simp add: m_def uri_mime_def r)
  obtain d where d: "drop (length m) r = '';base64,'' @ d" "CHR '','' \<notin> set m"
    using assms by (auto simp: base64_uri_def has_prefix_iff r m_def)
  have rd: "r = m @ '';base64,'' @ d" using d(1) m by (metis append_take_drop_id takeWhile_eq_take)
  have no: "CHR '';'' \<notin> set m" unfolding m by (metis set_takeWhileD)
  have sep: "\<forall>c \<in> set m. c \<noteq> CHR '';'' \<and> c \<noteq> CHR '',''" using no d(2) by auto
  have t: "takeWhile (\<lambda>c. \<not> (c = CHR '';'' \<or> c = CHR '','')) (m @ '';base64,'' @ d) = m"
    using sep by (simp add: takeWhile_append)
  have w: "dropWhile (\<lambda>c. c \<noteq> CHR '','') (m @ '';base64,'' @ d) = CHR '','' # d"
    using sep by (simp add: dropWhile_append)
  have "splitDataURI url fallback = (m, d)" unfolding splitDataURI_def Let_def r
    using t w by (simp add: rd)
  moreover have "url = ''data:'' @ m @ '';base64,'' @ d" unfolding r rd by (rule refl)
  ultimately show ?thesis unfolding m_def by blast
qed

lemma splitDataURI_other: "\<not> has_prefix ''data:'' url \<Longrightarrow> splitDataURI url mime = (if mime = [] then ''image/png'' else mime, [])"
  by (simp add: splitDataURI_def Let_def)

definition message_view :: "json_lib \<Rightarrow> CanonMessage \<Rightarrow> CanonMessage" where
  "message_view lib m = \<lparr>cm_Role = (if cm_Role m = ''tool'' then ''user'' else cm_Role m),
     cm_Parts = List.map_filter (request_part_view lib) (cm_Parts m)\<rparr>"

definition choice_view :: "ToolChoice \<Rightarrow> ToolChoice option" where
  "choice_view tc =
     (if tc_Mode tc \<in> {ToolChoiceAuto, ToolChoiceRequired, ToolChoiceNone} then Some (tc\<lparr>tc_Name := []\<rparr>)
      else if tc_Mode tc = ToolChoiceTool then Some tc else None)"

definition thinking_view :: "ThinkingConfig \<Rightarrow> ThinkingConfig option" where
  "thinking_view th = (if th_Enabled th then Some (th\<lparr>th_BudgetTokens := max 0 (th_BudgetTokens th)\<rparr>) else None)"

definition anthropic_view :: "json_lib \<Rightarrow> string \<Rightarrow> CanonRequest \<Rightarrow> CanonRequest" where
  "anthropic_view lib model req = req\<lparr>cr_Model := model,
     cr_Messages := map (message_view lib) (filter (\<lambda>m. cm_Role m \<noteq> ''system'') (cr_Messages req)),
     cr_MaxTokens := (if cr_MaxTokens req = 0 then 4096 else cr_MaxTokens req),
     cr_ToolChoice := Option.bind (cr_ToolChoice req) choice_view,
     cr_Thinking := Option.bind (cr_Thinking req) thinking_view,
     cr_Metadata := (case map_of (cr_Metadata req) ''user_id'' of None \<Rightarrow> [] | Some uid \<Rightarrow> [(''user_id'', uid)])\<rparr>"

lemma block_round_trip:
  assumes "image_ok p"
  shows "Option.bind (anthropic_block_json lib p) (anthropic_block lib) = request_part_view lib p"
proof (cases p)
  case (PartImage url mime)
  show ?thesis
  proof (cases "base64_uri url")
    case True
    then obtain d where d: "splitDataURI url mime = (uri_mime url, d)" "url = ''data:'' @ uri_mime url @ '';base64,'' @ d"
      using splitDataURI_base64 by blast
    have "Option.bind (anthropic_block_json lib p) (anthropic_block lib)
        = Some (PartImage (''data:'' @ uri_mime url @ '';base64,'' @ d) (uri_mime url))"
      by (simp add: PartImage d(1) Let_def)
    then show ?thesis using True PartImage by (simp only: d(2) [symmetric] request_part_view.simps if_True)
  next
    case False
    then show ?thesis using assms PartImage by (simp add: splitDataURI_other empty_image_def Let_def)
  qed
qed (auto simp: Let_def or_null_def args_view_def args_value_def tool_input_def)

lemma map_filter_bind: "List.map_filter g (List.map_filter f xs) = List.map_filter (\<lambda>x. Option.bind (f x) g) xs"
  by (induction xs) (auto simp: map_filter_simps split: option.split)

definition images_ok :: "CanonMessage list \<Rightarrow> bool" where
  "images_ok ms \<longleftrightarrow> list_all (\<lambda>m. list_all image_ok (cm_Parts m)) ms"

lemma message_round_trip:
  assumes "images_ok ms"
  shows "List.map_filter (anthropic_message lib) (map (anthropic_message_json lib) ms) = map (message_view lib) ms"
  using assms
proof (induction ms)
  case (Cons m ms)
  have "List.map_filter (\<lambda>x. Option.bind (anthropic_block_json lib x) (anthropic_block lib)) (cm_Parts m)
      = List.map_filter (request_part_view lib) (cm_Parts m)"
    using Cons.prems block_round_trip
    by (simp add: images_ok_def list_all_iff List.map_filter_def cong: filter_cong map_cong)
  then have "anthropic_message lib (anthropic_message_json lib m) = Some (message_view lib m)"
    by (simp add: anthropic_message_json_def message_view_def map_filter_bind)
  moreover have "images_ok ms" using Cons.prems by (simp add: images_ok_def)
  ultimately show ?case using Cons by (simp add: map_filter_simps)
qed (simp add: map_filter_simps)

lemma tool_round_trip: "List.map_filter anthropic_tool (map anthropic_tool_json ts) = ts"
proof (induction ts)
  case (Cons t ts)
  have "anthropic_tool (anthropic_tool_json t) = Some t"
    by (cases "ct_Schema t") (simp_all add: anthropic_tool_json_def jmap_def)
  then show ?case using Cons by (simp add: map_filter_simps)
qed (simp add: map_filter_simps)

lemma strings_round_trip: "strings_of (map JStr ss) = ss"
  by (induction ss) (auto simp: strings_of_def map_filter_simps)

lemma choice_round_trip:
  "jget b ''tool_choice'' = anthropic_choice_json tc \<Longrightarrow> anthropic_tool_choice b = choice_view tc"
  by (auto simp: anthropic_tool_choice_def anthropic_choice_json_def anthropic_choice_mode_def choice_view_def
      ToolChoiceAuto_def ToolChoiceRequired_def ToolChoiceNone_def ToolChoiceTool_def Let_def bool_or_def
      split: if_splits)

lemma thinking_round_trip:
  assumes "i64 (th_BudgetTokens th)" "jget b ''thinking'' = (if th_Enabled th then Some (anthropic_thinking_json th) else None)"
  shows "anthropic_thinking b = thinking_view th"
  using assms by (auto simp: anthropic_thinking_def anthropic_thinking_json_def thinking_view_def jint_def)

lemma as_num_map: "as_num (map_option JNum v) = v"
  by (cases v) simp_all

lemma int_num_map: "case_option True i64 v \<Longrightarrow> map_option float_to_int64 (as_num (map_option jint v)) = v"
  by (cases v) (simp_all add: jint_def)

lemma jget_thinking: "k \<noteq> ''thinking'' \<Longrightarrow>
    jget (case t of None \<Rightarrow> b | Some th \<Rightarrow> set_if (c th) ''thinking'' (f th) b) k = jget b k"
  by (cases t) auto



text \<open>An image given by an http URL arrives as an image without data.\<close>

theorem http_image_is_emptied:
  "Option.bind (anthropic_block_json lib (PartImage ''https://host/cat.png'' [])) (anthropic_block lib)
    = Some (PartImage ''data:image/png;base64,'' ''image/png'')"
  by (simp add: splitDataURI_def Let_def)

end
