(* ===== verification/CodecGemini.thy ===== *)
theory CodecGemini
  imports CodecAnthropic
begin

text \<open>
  The Gemini wire format (\<^verbatim>\<open>relay/codec_gemini.go\<close>), which the gateway speaks to upstreams only: a canonical
  request to a \<^verbatim>\<open>generateContent\<close> body, and a response to the canonical form.
\<close>

section \<open>Canonical to requests\<close>

text \<open>A result part carries no tool name (the field \<^verbatim>\<open>ToolName\<close> is set for calls only), so the name sent is empty.\<close>

fun gemini_part_json :: "json_lib \<Rightarrow> CanonPart \<Rightarrow> json option" where
  "gemini_part_json lib (PartText t) = Some (JObj [(''text'', JStr t)])"
| "gemini_part_json lib (PartImage url mime) =
     (case splitDataURI url mime of (mime, data) \<Rightarrow>
       Some (JObj [(''inlineData'', JObj [(''mimeType'', JStr mime), (''data'', JStr data)])]))"
| "gemini_part_json lib (PartToolUse i n a) =
     Some (JObj [(''functionCall'', JObj [(''name'', JStr n), (''args'', tool_input lib a)])])"
| "gemini_part_json lib (PartToolResult i r e) =
     Some (JObj [(''functionResponse'', JObj [(''name'', JStr []), (''response'', JObj [(''result'', JStr r)])])])"
| "gemini_part_json lib (PartThinking t) = None"

definition gemini_message_json :: "json_lib \<Rightarrow> CanonMessage \<Rightarrow> json option" where
  "gemini_message_json lib m =
     (let parts = List.map_filter (gemini_part_json lib) (cm_Parts m) in
      if parts = [] then None
      else Some (JObj [(''role'', JStr (if cm_Role m = ''assistant'' then ''model'' else ''user'')), (''parts'', JArr parts)]))"

definition gemini_thinking_json :: "ThinkingConfig \<Rightarrow> json" where
  "gemini_thinking_json th = JObj (set_if (th_BudgetTokens th > 0) ''thinkingBudget'' (jint (th_BudgetTokens th))
     [(''includeThoughts'', JBool True)])"

definition gemini_format :: "ResponseFormat \<Rightarrow> jobj \<Rightarrow> jobj" where
  "gemini_format rf g =
     (if rf_Type rf = ''json_schema'' \<and> rf_JSONSchema rf \<noteq> None
      then set_opt ''responseSchema'' JObj (rf_JSONSchema rf) (jset ''responseMimeType'' (JStr ''application/json'') g)
      else if rf_Type rf = ''json_object'' then jset ''responseMimeType'' (JStr ''application/json'') g
      else g)"

definition gemini_config :: "CanonRequest \<Rightarrow> jobj" where
  "gemini_config req =
     (let g = set_if (cr_MaxTokens req > 0) ''maxOutputTokens'' (jint (cr_MaxTokens req)) [];
          g = set_opt ''temperature'' JNum (cr_Temperature req) g;
          g = set_opt ''topP'' JNum (cr_TopP req) g;
          g = set_opt ''topK'' jint (cr_TopK req) g;
          g = set_if (cr_Stop req \<noteq> []) ''stopSequences'' (JArr (map JStr (cr_Stop req))) g;
          g = (case cr_Thinking req of None \<Rightarrow> g | Some th \<Rightarrow>
                 set_if (th_Enabled th) ''thinkingConfig'' (gemini_thinking_json th) g)
      in case cr_ResponseFormat req of None \<Rightarrow> g | Some rf \<Rightarrow> gemini_format rf g)"

definition gemini_tool_json :: "CanonTool \<Rightarrow> json" where
  "gemini_tool_json t = JObj [(''name'', JStr (ct_Name t)), (''description'', JStr (ct_Description t)),
     (''parameters'', jmap (ct_Schema t))]"

definition encodeGeminiRequest :: "json_lib \<Rightarrow> CanonRequest \<Rightarrow> jobj" where
  "encodeGeminiRequest lib req =
     (let b = set_if (cr_System req \<noteq> []) ''systemInstruction''
            (JObj [(''parts'', JArr [JObj [(''text'', JStr (cr_System req))]])]) [];
          b = set_if (gemini_config req \<noteq> []) ''generationConfig'' (JObj (gemini_config req)) b;
          b = set_if (cr_Tools req \<noteq> []) ''tools''
            (JArr [JObj [(''functionDeclarations'', JArr (map gemini_tool_json (cr_Tools req)))]]) b
      in jset ''contents'' (jslice (List.map_filter (gemini_message_json lib) (cr_Messages req))) b)"

definition rejectGeminiUnsupported :: "CanonRequest \<Rightarrow> build_error option" where
  "rejectGeminiUnsupported canon =
     (if cr_Logprobs canon \<noteq> None then Some (unsupportedFeature ''logprobs'' msg_gemini_no_logprobs)
      else if cr_Seed canon \<noteq> None then Some (unsupportedFeature ''seed'' msg_gemini_no_seed)
      else if (case cr_ToolChoice canon of None \<Rightarrow> False | Some tc \<Rightarrow> tc_DisableParallel tc)
      then Some (unsupportedFeature ''tool_choice.disable_parallel_tool_use'' msg_gemini_no_parallel)
      else None)"

section \<open>Responses\<close>

text \<open>A candidate: its finish reason and the parts of its content.\<close>

definition read_gemini_candidate :: "jobj \<Rightarrow> (string \<times> jobj list) option" where
  "read_gemini_candidate fs =
     Option.bind (rd_str fs ''finishReason'') (\<lambda>fin.
     map_option (Pair fin) (rd_struct fs ''content'' (\<lambda>c. rd_list c ''parts'' Some)))"

definition call_id :: "int \<Rightarrow> string" where "call_id n = ''call_'' @ show_int n"

definition gemini_call_args :: "json_lib \<Rightarrow> jobj \<Rightarrow> string" where
  "gemini_call_args lib fc = json_Marshal lib (or_null (map_option (as_any lib) (jget fc ''args'')))"

fun gemini_parts :: "json_lib \<Rightarrow> jobj list \<Rightarrow> int \<Rightarrow> CanonPart list \<times> int" where
  "gemini_parts lib [] toolIdx = ([], toolIdx)"
| "gemini_parts lib (p # ps) toolIdx =
     (let txt = (case as_str (jget p ''text'') of None \<Rightarrow> [] | Some t \<Rightarrow> [PartText t]) in
      if bool_or (jget p ''thought'')
      then (case gemini_parts lib ps toolIdx of (rest, n) \<Rightarrow>
              (txt @ (case as_str (jget p ''text'') of None \<Rightarrow> [] | Some t \<Rightarrow> [PartThinking t]) @ rest, n))
      else case as_obj (jget p ''functionCall'') of
          None \<Rightarrow> (case gemini_parts lib ps toolIdx of (rest, n) \<Rightarrow> (txt @ rest, n))
        | Some fc \<Rightarrow> (case gemini_parts lib ps (toolIdx + 1) of (rest, n) \<Rightarrow>
            (txt @ [PartToolUse (call_id (toolIdx + 1)) (str_or (jget fc ''name'')) (gemini_call_args lib fc)] @ rest, n)))"

definition gemini_response_of :: "json_lib \<Rightarrow> jobj \<Rightarrow> (CanonResponse \<times> NormalizedUsage) option" where
  "gemini_response_of lib fs =
     Option.bind (rd_list fs ''candidates'' read_gemini_candidate) (\<lambda>cands.
     Option.bind (rd_struct fs ''usageMetadata'' read_geminiUsage) (\<lambda>usage.
       Some (case cands of [] \<Rightarrow> \<lparr>rs_ID = ''gemini_relay'', rs_Model = [], rs_Parts = [], rs_StopReason = []\<rparr>
         | (fin, ps) # _ \<Rightarrow> (case gemini_parts lib ps 0 of (parts, calls) \<Rightarrow>
             \<lparr>rs_ID = ''gemini_relay'', rs_Model = [], rs_Parts = parts,
               rs_StopReason = (if calls > 0 then StopToolUse
                 else if to_lower fin = ''max_tokens'' then StopMaxTokens else StopEndTurn)\<rparr>),
         normalizeGeminiUsage usage)))"

definition decodeGeminiResponse :: "json_lib \<Rightarrow> string \<Rightarrow> string + (CanonResponse \<times> NormalizedUsage)" where
  "decodeGeminiResponse lib raw =
     (case Option.bind (document_fields (json_Unmarshal lib raw)) (gemini_response_of lib) of
        None \<Rightarrow> Inl msg_gemini_parse_failed | Some r \<Rightarrow> Inr r)"

text \<open>
  A part marked as a thought is delivered twice: once as text, which a client shows as the answer, and once as
  thinking. The comment in the code says such a part becomes thinking.
\<close>

lemma gemini_thought_leaks_into_text:
  "gemini_parts lib [[(''text'', JStr t), (''thought'', JBool True)]] n = ([PartText t, PartThinking t], n)"
  by simp

lemma gemini_result_unnamed:
  "gemini_part_json lib (PartToolResult i r e) = Some (JObj [(''functionResponse'', JObj fr)]) \<Longrightarrow> jget fr ''name'' = Some (JStr [])"
  by auto

end
