(* ===== verification/StreamCodec.thy ===== *)
theory StreamCodec
  imports CodecGemini
begin

text \<open>
  Streams (\<^verbatim>\<open>relay/stream_codec.go\<close>): three decoders turn the payloads of an upstream's server-sent events
  into canonical events and pick up the usage, two encoders turn canonical events into the frames of a client. A frame
  is kept as the value it carries; \<open>render_frame\<close> gives its bytes.
\<close>

section \<open>Upstream decoders\<close>

record openaiStreamDecoder =
  od_usage :: NormalizedUsage
  od_usageFound :: bool
  od_openToolIdx :: int
  od_textOpen :: bool

definition newOpenAIStreamDecoder :: openaiStreamDecoder where
  "newOpenAIStreamDecoder = \<lparr>od_usage = zero_usage, od_usageFound = False, od_openToolIdx = -1, od_textOpen = False\<rparr>"

text \<open>The calls of a delta, one after the other.\<close>

fun openai_delta_calls :: "openai_call_struct list \<Rightarrow> openaiStreamDecoder \<Rightarrow> CanonEvent list \<times> openaiStreamDecoder" where
  "openai_delta_calls [] d = ([], d)"
| "openai_delta_calls (call # calls) d =
     (let (start, d) =
        (if oc_ID call \<noteq> [] \<or> oc_Name call \<noteq> []
         then ((if od_openToolIdx d \<ge> 0 \<or> od_textOpen d then [EvBlockStop] else [])
                 @ [EvToolUseStart (oc_ID call) (oc_Name call)],
               (if od_openToolIdx d \<ge> 0 \<or> od_textOpen d then d\<lparr>od_textOpen := False\<rparr> else d)\<lparr>od_openToolIdx := oc_Index call\<rparr>)
         else ([], d));
        args = (if oc_Arguments call \<noteq> [] then [EvToolArgsDelta (oc_Arguments call)] else [])
      in case openai_delta_calls calls d of (rest, d) \<Rightarrow> (start @ args @ rest, d))"

definition openai_delta_text :: "string \<Rightarrow> openaiStreamDecoder \<Rightarrow> CanonEvent list \<times> openaiStreamDecoder" where
  "openai_delta_text content d =
     (if content = [] then ([], d)
      else ((if od_openToolIdx d \<ge> 0 then [EvBlockStop] else []) @ [EvTextDelta content],
            (if od_openToolIdx d \<ge> 0 then d\<lparr>od_openToolIdx := -1\<rparr> else d)\<lparr>od_textOpen := True\<rparr>))"

definition openai_delta_finish :: "string \<Rightarrow> openaiStreamDecoder \<Rightarrow> CanonEvent list \<times> openaiStreamDecoder" where
  "openai_delta_finish fin d =
     (if fin = [] then ([], d)
      else ((if od_openToolIdx d \<ge> 0 \<or> od_textOpen d then [EvBlockStop] else []) @ [EvFinish (openaiFinishToCanon fin)],
            (if od_openToolIdx d \<ge> 0 \<or> od_textOpen d then d\<lparr>od_openToolIdx := -1, od_textOpen := False\<rparr> else d)))"

fun openai_delta_choices :: "(string \<times> string \<times> openai_call_struct list) list \<Rightarrow> openaiStreamDecoder
    \<Rightarrow> CanonEvent list \<times> openaiStreamDecoder" where
  "openai_delta_choices [] d = ([], d)"
| "openai_delta_choices ((fin, content, calls) # cs) d =
     (case openai_delta_text content d of (e1, d) \<Rightarrow>
      case openai_delta_calls calls d of (e2, d) \<Rightarrow>
      case openai_delta_finish fin d of (e3, d) \<Rightarrow>
      case openai_delta_choices cs d of (rest, d) \<Rightarrow> (e1 @ e2 @ e3 @ rest, d))"

definition read_openai_chunk :: "jobj \<Rightarrow> ((string \<times> string \<times> openai_call_struct list) list \<times> openaiUsage option) option" where
  "read_openai_chunk fs =
     Option.bind (rd_list fs ''choices'' (read_openai_choice ''delta'' read_openai_call)) (\<lambda>cs.
     map_option (Pair cs) (rd_ptr fs ''usage'' read_openaiUsage))"

definition openai_Decode :: "json_lib \<Rightarrow> string \<Rightarrow> openaiStreamDecoder \<Rightarrow> CanonEvent list \<times> openaiStreamDecoder" where
  "openai_Decode lib payload d =
     (case Option.bind (document_fields (json_Unmarshal lib payload)) read_openai_chunk of
        None \<Rightarrow> ([], d)
      | Some (cs, usage) \<Rightarrow> openai_delta_choices cs
          (case usage of None \<Rightarrow> d
           | Some u \<Rightarrow> if ou_PromptTokens u > 0 \<or> ou_CompletionTokens u > 0
               then d\<lparr>od_usage := normalizeOpenAIUsage u, od_usageFound := True\<rparr> else d))"

record anthropicStreamDecoder =
  ad_usage :: NormalizedUsage
  ad_usageFound :: bool
  ad_blockType :: string

definition newAnthropicStreamDecoder :: anthropicStreamDecoder where
  "newAnthropicStreamDecoder = \<lparr>ad_usage = zero_usage, ad_usageFound = False, ad_blockType = []\<rparr>"

record anthropic_delta =
  de_Type :: string
  de_Text :: string
  de_PartialJSON :: string
  de_StopReason :: string

record anthropic_event =
  ae_Type :: string
  ae_Message :: "anthropicUsage option"
  ae_ContentBlock :: "(string \<times> string \<times> string) option"
  ae_Delta :: "anthropic_delta option"
  ae_Usage :: "anthropicUsage option"

definition read_anthropic_event :: "jobj \<Rightarrow> anthropic_event option" where
  "read_anthropic_event fs =
     Option.bind (rd_str fs ''type'') (\<lambda>t.
     Option.bind (rd_ptr fs ''message'' (\<lambda>m. rd_struct m ''usage'' read_anthropicUsage)) (\<lambda>m.
     Option.bind (rd_ptr fs ''content_block'' (\<lambda>c. Option.bind (rd_str c ''type'') (\<lambda>ct.
       Option.bind (rd_str c ''id'') (\<lambda>i. map_option (\<lambda>n. (ct, i, n)) (rd_str c ''name''))))) (\<lambda>c.
     Option.bind (rd_ptr fs ''delta'' (\<lambda>d. Option.bind (rd_str d ''type'') (\<lambda>dt.
       Option.bind (rd_str d ''text'') (\<lambda>txt. Option.bind (rd_str d ''partial_json'') (\<lambda>pj.
       map_option (\<lambda>sr. \<lparr>de_Type = dt, de_Text = txt, de_PartialJSON = pj, de_StopReason = sr\<rparr>) (rd_str d ''stop_reason'')))))) (\<lambda>d.
     map_option (\<lambda>u. \<lparr>ae_Type = t, ae_Message = m, ae_ContentBlock = c, ae_Delta = d, ae_Usage = u\<rparr>)
       (rd_ptr fs ''usage'' read_anthropicUsage)))))"

definition is_thinking_block :: "string \<Rightarrow> bool" where
  "is_thinking_block t \<longleftrightarrow> t = ''thinking'' \<or> t = ''redacted_thinking''"

definition anthropic_event_step :: "anthropic_event \<Rightarrow> anthropicStreamDecoder \<Rightarrow> CanonEvent list \<times> anthropicStreamDecoder" where
  "anthropic_event_step ev d =
     (if ae_Type ev = ''message_start'' then
        (case ae_Message ev of None \<Rightarrow> ([], d)
         | Some u \<Rightarrow> ([], d\<lparr>ad_usage := (ad_usage d)\<lparr>BaseInput := au_InputTokens u, CacheRead := au_CacheReadInputTokens u,
              CacheWrite := au_CacheCreationInputTokens u, Semantic := SemanticAnthropic\<rparr>, ad_usageFound := True\<rparr>))
      else if ae_Type ev = ''content_block_start'' then
        (case ae_ContentBlock ev of None \<Rightarrow> ([], d)
         | Some (t, i, n) \<Rightarrow> ((if t = ''tool_use'' then [EvToolUseStart i n] else []), d\<lparr>ad_blockType := t\<rparr>))
      else if ae_Type ev = ''content_block_delta'' then
        (case ae_Delta ev of None \<Rightarrow> ([], d)
         | Some dl \<Rightarrow> if is_thinking_block (ad_blockType d) then ([], d)
             else if de_Type dl = ''text_delta'' then ([EvTextDelta (de_Text dl)], d)
             else if de_Type dl = ''input_json_delta'' then ([EvToolArgsDelta (de_PartialJSON dl)], d)
             else ([], d))
      else if ae_Type ev = ''content_block_stop'' then
        ((if is_thinking_block (ad_blockType d) then [] else [EvBlockStop]), d\<lparr>ad_blockType := []\<rparr>)
      else if ae_Type ev = ''message_delta'' then
        ((case ae_Delta ev of None \<Rightarrow> [] | Some dl \<Rightarrow> if de_StopReason dl \<noteq> [] then [EvFinish (de_StopReason dl)] else []),
         (case ae_Usage ev of None \<Rightarrow> d
          | Some u \<Rightarrow> d\<lparr>ad_usage := (ad_usage d)\<lparr>Output := au_OutputTokens u\<rparr>, ad_usageFound := True\<rparr>))
      else ([], d))"

definition anthropic_Decode :: "json_lib \<Rightarrow> string \<Rightarrow> anthropicStreamDecoder \<Rightarrow> CanonEvent list \<times> anthropicStreamDecoder" where
  "anthropic_Decode lib payload d =
     (case Option.bind (document_fields (json_Unmarshal lib payload)) read_anthropic_event of
        None \<Rightarrow> ([], d) | Some ev \<Rightarrow> anthropic_event_step ev d)"

record geminiStreamDecoder =
  gd_usage :: NormalizedUsage
  gd_usageFound :: bool
  gd_toolIdx :: int

definition newGeminiStreamDecoder :: geminiStreamDecoder where
  "newGeminiStreamDecoder = \<lparr>gd_usage = zero_usage, gd_usageFound = False, gd_toolIdx = 0\<rparr>"

fun gemini_delta_parts :: "json_lib \<Rightarrow> jobj list \<Rightarrow> int \<Rightarrow> CanonEvent list \<times> int" where
  "gemini_delta_parts lib [] n = ([], n)"
| "gemini_delta_parts lib (p # ps) n =
     (let txt = (let t = str_or (jget p ''text'') in if t \<noteq> [] then [EvTextDelta t] else []) in
      case as_obj (jget p ''functionCall'') of
        None \<Rightarrow> (case gemini_delta_parts lib ps n of (rest, n) \<Rightarrow> (txt @ rest, n))
      | Some fc \<Rightarrow> (case gemini_delta_parts lib ps (n + 1) of (rest, n') \<Rightarrow>
          (txt @ [EvToolUseStart (call_id (n + 1)) (str_or (jget fc ''name'')),
             EvToolArgsDelta (gemini_call_args lib fc), EvBlockStop] @ rest, n')))"

fun gemini_delta_candidates :: "json_lib \<Rightarrow> (string \<times> jobj list) list \<Rightarrow> int \<Rightarrow> CanonEvent list \<times> int" where
  "gemini_delta_candidates lib [] n = ([], n)"
| "gemini_delta_candidates lib ((fin, ps) # cs) n =
     (case gemini_delta_parts lib ps n of (e1, n) \<Rightarrow>
      case gemini_delta_candidates lib cs n of (rest, n) \<Rightarrow>
        (e1 @ (if fin \<noteq> [] then [EvFinish (if fin = ''MAX_TOKENS'' then StopMaxTokens else StopEndTurn)] else []) @ rest, n))"

definition gemini_Decode :: "json_lib \<Rightarrow> string \<Rightarrow> geminiStreamDecoder \<Rightarrow> CanonEvent list \<times> geminiStreamDecoder" where
  "gemini_Decode lib payload d =
     (case Option.bind (document_fields (json_Unmarshal lib payload)) (\<lambda>fs.
        Option.bind (rd_list fs ''candidates'' read_gemini_candidate) (\<lambda>cs.
        map_option (Pair cs) (rd_ptr fs ''usageMetadata'' read_geminiUsage))) of
        None \<Rightarrow> ([], d)
      | Some (cs, usage) \<Rightarrow>
          (let d = (case usage of None \<Rightarrow> d
              | Some u \<Rightarrow> if gu_PromptTokenCount u > 0
                  then d\<lparr>gd_usage := normalizeGeminiUsage u, gd_usageFound := True\<rparr> else d)
           in case gemini_delta_candidates lib cs (gd_toolIdx d) of (evs, n) \<Rightarrow> (evs, d\<lparr>gd_toolIdx := n\<rparr>)))"

text \<open>The Go interface \<^verbatim>\<open>streamDecoder\<close>.\<close>

datatype streamDecoder = DecOpenAI openaiStreamDecoder | DecAnthropic anthropicStreamDecoder | DecGemini geminiStreamDecoder

fun Decode :: "json_lib \<Rightarrow> string \<Rightarrow> streamDecoder \<Rightarrow> CanonEvent list \<times> streamDecoder" where
  "Decode lib payload (DecOpenAI d) = map_prod id DecOpenAI (openai_Decode lib payload d)"
| "Decode lib payload (DecAnthropic d) = map_prod id DecAnthropic (anthropic_Decode lib payload d)"
| "Decode lib payload (DecGemini d) = map_prod id DecGemini (gemini_Decode lib payload d)"

fun decoder_Usage :: "streamDecoder \<Rightarrow> NormalizedUsage \<times> bool" where
  "decoder_Usage (DecOpenAI d) = (od_usage d, od_usageFound d)"
| "decoder_Usage (DecAnthropic d) = (ad_usage d, ad_usageFound d)"
| "decoder_Usage (DecGemini d) = (gd_usage d, gd_usageFound d)"

section \<open>Client encoders\<close>

datatype frame = SseEvent string json | SseData json | SseDone

definition render_frame :: "json_lib \<Rightarrow> frame \<Rightarrow> string" where
  "render_frame lib f = (case f of
       SseEvent ev payload \<Rightarrow> ''event: '' @ ev @ [CHR 0x0A] @ ''data: '' @ json_Marshal lib payload @ [CHR 0x0A, CHR 0x0A]
     | SseData payload \<Rightarrow> ''data: '' @ json_Marshal lib payload @ [CHR 0x0A, CHR 0x0A]
     | SseDone \<Rightarrow> ''data: [DONE]'' @ [CHR 0x0A, CHR 0x0A])"

record anthropicStreamEncoder =
  en_publicModel :: string
  en_started :: bool
  en_blockIndex :: int
  en_blockOpen :: bool
  en_blockType :: string
  en_stopReason :: string

definition newAnthropicStreamEncoder :: "string \<Rightarrow> anthropicStreamEncoder" where
  "newAnthropicStreamEncoder publicModel = \<lparr>en_publicModel = publicModel, en_started = False, en_blockIndex = -1,
     en_blockOpen = False, en_blockType = [], en_stopReason = []\<rparr>"

definition message_start_json :: "string \<Rightarrow> json" where
  "message_start_json model = JObj [(''type'', JStr ''message_start''),
     (''message'', JObj [(''id'', JStr ''msg_relay''), (''type'', JStr ''message''), (''role'', JStr ''assistant''),
       (''model'', JStr model), (''content'', JArr []), (''stop_reason'', JNull), (''stop_sequence'', JNull),
       (''usage'', JObj [(''input_tokens'', jint 0), (''output_tokens'', jint 0)])])]"

definition ensureStart :: "anthropicStreamEncoder \<Rightarrow> frame list \<times> anthropicStreamEncoder" where
  "ensureStart e = (if en_started e then ([], e)
     else ([SseEvent ''message_start'' (message_start_json (en_publicModel e))], e\<lparr>en_started := True\<rparr>))"

definition block_frame :: "string \<Rightarrow> int \<Rightarrow> (string \<times> json) list \<Rightarrow> frame" where
  "block_frame t i extra = SseEvent t (JObj ((''type'', JStr t) # (''index'', jint i) # extra))"

definition closeBlock :: "anthropicStreamEncoder \<Rightarrow> frame list \<times> anthropicStreamEncoder" where
  "closeBlock e = (if \<not> en_blockOpen e then ([], e)
     else ([block_frame ''content_block_stop'' (en_blockIndex e) []], e\<lparr>en_blockOpen := False\<rparr>))"

definition open_block :: "string \<Rightarrow> jobj \<Rightarrow> anthropicStreamEncoder \<Rightarrow> frame list \<times> anthropicStreamEncoder" where
  "open_block t block e =
     (case closeBlock e of (f, e) \<Rightarrow>
        let e = e\<lparr>en_blockIndex := en_blockIndex e + 1, en_blockOpen := True, en_blockType := t\<rparr>
        in (f @ [block_frame ''content_block_start'' (en_blockIndex e) [(''content_block'', JObj block)]], e))"

definition anthropic_encode_event :: "CanonEvent \<Rightarrow> anthropicStreamEncoder \<Rightarrow> frame list \<times> anthropicStreamEncoder" where
  "anthropic_encode_event ev e = (case ev of
       EvTextDelta txt \<Rightarrow>
         (case (if \<not> en_blockOpen e \<or> en_blockType e \<noteq> ''text''
                then open_block ''text'' [(''type'', JStr ''text''), (''text'', JStr [])] e else ([], e)) of (f, e) \<Rightarrow>
            (f @ [block_frame ''content_block_delta'' (en_blockIndex e)
               [(''delta'', JObj [(''type'', JStr ''text_delta''), (''text'', JStr txt)])]], e))
     | EvToolUseStart i n \<Rightarrow> open_block ''tool_use''
         [(''type'', JStr ''tool_use''), (''id'', JStr i), (''name'', JStr n), (''input'', JObj [])] e
     | EvToolArgsDelta a \<Rightarrow> ([block_frame ''content_block_delta'' (en_blockIndex e)
         [(''delta'', JObj [(''type'', JStr ''input_json_delta''), (''partial_json'', JStr a)])]], e)
     | EvBlockStop \<Rightarrow> closeBlock e
     | EvFinish stop \<Rightarrow> ([], e\<lparr>en_stopReason := stop\<rparr>))"

definition anthropic_Encode :: "CanonEvent \<Rightarrow> anthropicStreamEncoder \<Rightarrow> frame list \<times> anthropicStreamEncoder" where
  "anthropic_Encode ev e = (case ensureStart e of (f, e) \<Rightarrow>
     case anthropic_encode_event ev e of (g, e) \<Rightarrow> (f @ g, e))"

definition message_delta_json :: "string \<Rightarrow> NormalizedUsage \<Rightarrow> json" where
  "message_delta_json stop u = JObj [(''type'', JStr ''message_delta''),
     (''delta'', JObj [(''stop_reason'', JStr stop), (''stop_sequence'', JNull)]),
     (''usage'', JObj (anthropic_usage_json u))]"

definition anthropic_Finish :: "NormalizedUsage \<Rightarrow> anthropicStreamEncoder \<Rightarrow> frame list \<times> anthropicStreamEncoder" where
  "anthropic_Finish usage e = (case ensureStart e of (f, e) \<Rightarrow> case closeBlock e of (g, e) \<Rightarrow>
     (f @ g @ [SseEvent ''message_delta'' (message_delta_json (if en_stopReason e = [] then StopEndTurn else en_stopReason e) usage),
        SseEvent ''message_stop'' (JObj [(''type'', JStr ''message_stop'')])], e))"

record openaiStreamEncoder =
  eo_publicModel :: string
  eo_stopReason :: string
  eo_toolIndex :: int
  eo_inTool :: bool

definition newOpenAIStreamEncoder :: "string \<Rightarrow> openaiStreamEncoder" where
  "newOpenAIStreamEncoder publicModel = \<lparr>eo_publicModel = publicModel, eo_stopReason = [], eo_toolIndex = -1, eo_inTool = False\<rparr>"

definition chunk_json :: "string \<Rightarrow> json list \<Rightarrow> jobj \<Rightarrow> json" where
  "chunk_json model choices extra = JObj ([(''id'', JStr ''chatcmpl-relay''), (''object'', JStr ''chat.completion.chunk''),
     (''model'', JStr model), (''choices'', JArr choices)] @ extra)"

definition openai_chunk :: "openaiStreamEncoder \<Rightarrow> jobj \<Rightarrow> json \<Rightarrow> frame" where
  "openai_chunk e delta finish = SseData (chunk_json (eo_publicModel e)
     [JObj [(''index'', jint 0), (''delta'', JObj delta), (''finish_reason'', finish)]] [])"

definition openai_Encode :: "CanonEvent \<Rightarrow> openaiStreamEncoder \<Rightarrow> frame list \<times> openaiStreamEncoder" where
  "openai_Encode ev e = (case ev of
       EvTextDelta txt \<Rightarrow> ([openai_chunk e [(''content'', JStr txt)] JNull], e)
     | EvToolUseStart i n \<Rightarrow>
         (let e = e\<lparr>eo_toolIndex := eo_toolIndex e + 1, eo_inTool := True\<rparr>
          in ([openai_chunk e [(''tool_calls'', JArr [JObj [(''index'', jint (eo_toolIndex e)), (''id'', JStr i),
                 (''type'', JStr ''function''), (''function'', JObj [(''name'', JStr n), (''arguments'', JStr [])])]])] JNull], e))
     | EvToolArgsDelta a \<Rightarrow> ([openai_chunk e [(''tool_calls'', JArr [JObj [(''index'', jint (eo_toolIndex e)),
         (''function'', JObj [(''arguments'', JStr a)])]])] JNull], e)
     | EvBlockStop \<Rightarrow> ([], e)
     | EvFinish stop \<Rightarrow> ([], e\<lparr>eo_stopReason := stop\<rparr>))"

definition openai_Finish :: "NormalizedUsage \<Rightarrow> openaiStreamEncoder \<Rightarrow> frame list \<times> openaiStreamEncoder" where
  "openai_Finish usage e =
     ([openai_chunk e [] (JStr (if eo_stopReason e = [] then ''stop'' else canonStopToOpenAI (eo_stopReason e))),
       SseData (chunk_json (eo_publicModel e) [] [(''usage'', JObj (openai_usage_json usage))]),
       SseDone], e)"

text \<open>The Go interface \<^verbatim>\<open>streamEncoder\<close>.\<close>

datatype streamEncoder = EncAnthropic anthropicStreamEncoder | EncOpenAI openaiStreamEncoder

fun Encode :: "CanonEvent \<Rightarrow> streamEncoder \<Rightarrow> frame list \<times> streamEncoder" where
  "Encode ev (EncAnthropic e) = map_prod id EncAnthropic (anthropic_Encode ev e)"
| "Encode ev (EncOpenAI e) = map_prod id EncOpenAI (openai_Encode ev e)"

fun encoder_Finish :: "NormalizedUsage \<Rightarrow> streamEncoder \<Rightarrow> frame list \<times> streamEncoder" where
  "encoder_Finish usage (EncAnthropic e) = map_prod id EncAnthropic (anthropic_Finish usage e)"
| "encoder_Finish usage (EncOpenAI e) = map_prod id EncOpenAI (openai_Finish usage e)"

text \<open>A run of events through an encoder.\<close>

fun encode_all :: "CanonEvent list \<Rightarrow> streamEncoder \<Rightarrow> frame list \<times> streamEncoder" where
  "encode_all [] e = ([], e)"
| "encode_all (ev # evs) e = (case Encode ev e of (f, e) \<Rightarrow> case encode_all evs e of (g, e) \<Rightarrow> (f @ g, e))"

end
