(* ===== verification/StreamProps.thy ===== *)
theory StreamProps
  imports StreamCodec
begin

text \<open>
  What a client sees of an encoded stream: whether the frames follow Anthropic's event protocol, and the message
  each kind of client puts together from its frames.
\<close>

section \<open>The protocol of an Anthropic stream\<close>

text \<open>
  The states of a client that checks the protocol: before the start, between content blocks (the index the next one must have),
  in a block (its index and type), after the final delta, done.
\<close>

datatype protocol = PFresh | PBetween int | PIn int string | PDelta | PDone

fun event_fields :: "frame \<Rightarrow> (string \<times> jobj) option" where
  "event_fields (SseEvent t (JObj ob)) = (if jget ob ''type'' = Some (JStr t) then Some (t, ob) else None)"
| "event_fields _ = None"

definition has_index :: "jobj \<Rightarrow> int \<Rightarrow> bool" where "has_index ob n \<longleftrightarrow> jget ob ''index'' = Some (jint n)"

definition inner_type :: "jobj \<Rightarrow> string \<Rightarrow> string" where
  "inner_type ob k = str_or (jget (obj_or (jget ob k)) ''type'')"

definition delta_fits :: "string \<Rightarrow> string \<Rightarrow> bool" where
  "delta_fits block delta \<longleftrightarrow> (block = ''text'' \<and> delta = ''text_delta'') \<or> (block = ''tool_use'' \<and> delta = ''input_json_delta'')"

definition protocol_step :: "protocol \<Rightarrow> frame \<Rightarrow> protocol option" where
  "protocol_step s f = (case event_fields f of None \<Rightarrow> None
     | Some (t, ob) \<Rightarrow> (case s of
         PFresh \<Rightarrow> if t = ''message_start'' then Some (PBetween 0) else None
       | PBetween n \<Rightarrow> if t = ''content_block_start'' \<and> has_index ob n then Some (PIn n (inner_type ob ''content_block''))
           else if t = ''message_delta'' then Some PDelta else None
       | PIn n b \<Rightarrow> if t = ''content_block_delta'' \<and> has_index ob n \<and> delta_fits b (inner_type ob ''delta'') then Some (PIn n b)
           else if t = ''content_block_stop'' \<and> has_index ob n then Some (PBetween (n + 1)) else None
       | PDelta \<Rightarrow> if t = ''message_stop'' then Some PDone else None
       | PDone \<Rightarrow> None))"

fun protocol_run :: "protocol \<Rightarrow> frame list \<Rightarrow> protocol option" where
  "protocol_run s [] = Some s"
| "protocol_run s (f # fs) = (case protocol_step s f of None \<Rightarrow> None | Some s \<Rightarrow> protocol_run s fs)"

lemma protocol_run_append:
  "protocol_run s (fs @ gs) = (case protocol_run s fs of None \<Rightarrow> None | Some s \<Rightarrow> protocol_run s gs)"
  by (induction fs arbitrary: s) (auto split: option.split)

text \<open>Whether a tool block is the current one; arguments outside of one break the order.\<close>

fun tool_track :: "bool \<Rightarrow> CanonEvent list \<Rightarrow> bool option" where
  "tool_track t [] = Some t"
| "tool_track t (EvTextDelta x # evs) = tool_track False evs"
| "tool_track t (EvToolUseStart i n # evs) = tool_track True evs"
| "tool_track t (EvToolArgsDelta a # evs) = (if t then tool_track t evs else None)"
| "tool_track t (EvBlockStop # evs) = tool_track False evs"
| "tool_track t (EvFinish s # evs) = tool_track t evs"

definition orderly :: "CanonEvent list \<Rightarrow> bool" where "orderly evs \<longleftrightarrow> tool_track False evs \<noteq> None"

lemma tool_track_append:
  "tool_track t (evs @ evs') = (case tool_track t evs of None \<Rightarrow> None | Some t \<Rightarrow> tool_track t evs')"
  by (induction t evs rule: tool_track.induct) auto

definition encoder_state :: "anthropicStreamEncoder \<Rightarrow> protocol" where
  "encoder_state e = (if \<not> en_started e then PFresh
     else if en_blockOpen e then PIn (en_blockIndex e) (en_blockType e) else PBetween (en_blockIndex e + 1))"

definition encoder_fine :: "anthropicStreamEncoder \<Rightarrow> bool" where
  "encoder_fine e \<longleftrightarrow> (en_started e \<or> (\<not> en_blockOpen e \<and> en_blockIndex e = -1))"

definition in_tool :: "anthropicStreamEncoder \<Rightarrow> bool" where
  "in_tool e \<longleftrightarrow> en_blockOpen e \<and> en_blockType e = ''tool_use''"

lemma jint_eq [simp]: "jint m = jint n \<longleftrightarrow> m = n"
  by (simp add: jint_def)

lemma event_fields_block [simp]: "event_fields (block_frame t i extra) = Some (t, (''type'', JStr t) # (''index'', jint i) # extra)"
  by (simp add: block_frame_def)

lemmas protocol_simps = protocol_step_def encoder_state_def has_index_def inner_type_def delta_fits_def
  closeBlock_def open_block_def ensureStart_def message_start_json_def message_delta_json_def

lemma ensureStart_protocol:
  assumes "encoder_fine e" "ensureStart e = (f, e')"
  shows "protocol_run (encoder_state e) f = Some (encoder_state e')" "encoder_fine e'" "en_started e'" "in_tool e' = in_tool e"
  using assms by (auto simp: protocol_simps encoder_fine_def in_tool_def split: if_splits)

lemma anthropic_event_protocol:
  assumes "encoder_fine e" "en_started e" "anthropic_encode_event ev e = (f, e')"
  shows "encoder_fine e' \<and> en_started e' \<and> (case tool_track (in_tool e) [ev] of
      Some t \<Rightarrow> protocol_run (encoder_state e) f = Some (encoder_state e') \<and> in_tool e' = t
    | None \<Rightarrow> protocol_run (encoder_state e) f = None)"
  using assms
  by (cases ev) (auto simp: anthropic_encode_event_def protocol_simps encoder_fine_def in_tool_def Let_def split: if_splits)

lemma anthropic_Encode_protocol:
  assumes "encoder_fine e" "anthropic_Encode ev e = (f, e')"
  shows "encoder_fine e' \<and> (case tool_track (in_tool e) [ev] of
      Some t \<Rightarrow> protocol_run (encoder_state e) f = Some (encoder_state e') \<and> in_tool e' = t
    | None \<Rightarrow> protocol_run (encoder_state e) f = None)"
proof -
  obtain f1 e1 where s: "ensureStart e = (f1, e1)" by fastforce
  obtain f2 e2 where g: "anthropic_encode_event ev e1 = (f2, e2)" by fastforce
  note st = ensureStart_protocol [OF assms(1) s]
  have "f = f1 @ f2" "e' = e2" using assms(2) s g by (auto simp: anthropic_Encode_def)
  then show ?thesis
    using st anthropic_event_protocol [OF st(2,3) g] by (auto simp: protocol_run_append split: option.splits)
qed

lemma anthropic_Finish_protocol:
  assumes "encoder_fine e"
  shows "protocol_run (encoder_state e) (fst (anthropic_Finish u e)) = Some PDone"
proof -
  obtain f1 e1 where s: "ensureStart e = (f1, e1)" by fastforce
  note st = ensureStart_protocol [OF assms s]
  show ?thesis using st s
    by (auto simp: anthropic_Finish_def protocol_run_append protocol_step_def encoder_state_def closeBlock_def
        has_index_def message_delta_json_def split: prod.split if_splits)
qed

lemma encode_all_protocol:
  assumes "encoder_fine e"
  shows "\<exists>f e'. encode_all evs (EncAnthropic e) = (f, EncAnthropic e') \<and> encoder_fine e' \<and>
    (case tool_track (in_tool e) evs of
      Some t \<Rightarrow> protocol_run (encoder_state e) f = Some (encoder_state e') \<and> in_tool e' = t
    | None \<Rightarrow> protocol_run (encoder_state e) f = None)"
  using assms
proof (induction evs arbitrary: e)
  case Nil
  then show ?case by simp
next
  case (Cons ev evs)
  obtain f1 e1 where s: "anthropic_Encode ev e = (f1, e1)" by fastforce
  note st = anthropic_Encode_protocol [OF Cons.prems s]
  obtain f2 e2 where r: "encode_all evs (EncAnthropic e1) = (f2, EncAnthropic e2)" "encoder_fine e2"
    "case tool_track (in_tool e1) evs of Some t \<Rightarrow> protocol_run (encoder_state e1) f2 = Some (encoder_state e2) \<and> in_tool e2 = t
     | None \<Rightarrow> protocol_run (encoder_state e1) f2 = None"
    using Cons.IH [of e1] st by blast
  have t: "tool_track (in_tool e) (ev # evs) = (case tool_track (in_tool e) [ev] of None \<Rightarrow> None | Some t \<Rightarrow> tool_track t evs)"
    using tool_track_append [of "in_tool e" "[ev]" evs] by simp
  show ?case
    using s st r t by (auto simp: protocol_run_append split: option.splits)
qed

text \<open>The whole stream of a sequence of events.\<close>

definition anthropic_stream :: "string \<Rightarrow> CanonEvent list \<Rightarrow> NormalizedUsage \<Rightarrow> frame list" where
  "anthropic_stream model evs u = (case encode_all evs (EncAnthropic (newAnthropicStreamEncoder model)) of
     (f, e) \<Rightarrow> f @ fst (encoder_Finish u e))"

text \<open>C29. The frames an Anthropic client gets follow Anthropic's protocol, from \<^verbatim>\<open>message_start\<close> over blocks numbered from
  zero, each opened, filled with deltas of its type and closed, to one \<^verbatim>\<open>message_delta\<close> and one
  \<^verbatim>\<open>message_stop\<close>, exactly when the events are orderly: arguments come only while a tool block is the current
  one. Text without a block, a missing or a repeated block end or no event at all do no harm.\<close>

theorem anthropic_stream_protocol:
  "protocol_run PFresh (anthropic_stream model evs u) = Some PDone \<longleftrightarrow> orderly evs"
proof -
  let ?e = "newAnthropicStreamEncoder model"
  have fine: "encoder_fine ?e" "encoder_state ?e = PFresh" "in_tool ?e = False"
    by (simp_all add: newAnthropicStreamEncoder_def encoder_fine_def encoder_state_def in_tool_def)
  obtain f e' where r: "encode_all evs (EncAnthropic ?e) = (f, EncAnthropic e')" "encoder_fine e'"
    "case tool_track False evs of Some t \<Rightarrow> protocol_run PFresh f = Some (encoder_state e') \<and> in_tool e' = t
     | None \<Rightarrow> protocol_run PFresh f = None"
    using encode_all_protocol [OF fine(1), of evs, unfolded fine(2,3)] by blast
  show ?thesis
    using r anthropic_Finish_protocol [OF r(2)]
    by (auto simp: anthropic_stream_def orderly_def protocol_run_append split: option.splits)
qed

section \<open>What the upstream decoders guarantee\<close>

text \<open>A run of payloads through a decoder.\<close>

fun decode_all :: "json_lib \<Rightarrow> string list \<Rightarrow> streamDecoder \<Rightarrow> CanonEvent list \<times> streamDecoder" where
  "decode_all lib [] d = ([], d)"
| "decode_all lib (p # ps) d = (case Decode lib p d of (evs, d) \<Rightarrow> case decode_all lib ps d of (rest, d) \<Rightarrow> (evs @ rest, d))"

lemma gemini_parts_orderly: "tool_track False (fst (gemini_delta_parts lib ps n)) = Some False"
  by (induction lib ps n rule: gemini_delta_parts.induct)
    (auto simp: Let_def tool_track_append split: option.split prod.split)

lemma gemini_candidates_orderly: "tool_track False (fst (gemini_delta_candidates lib cs n)) = Some False"
proof (induction cs arbitrary: n)
  case Nil
  then show ?case by simp
next
  case (Cons c cs)
  obtain fin ps where c: "c = (fin, ps)" by fastforce
  obtain e1 n1 where g: "gemini_delta_parts lib ps n = (e1, n1)" by fastforce
  obtain e2 n2 where r: "gemini_delta_candidates lib cs n1 = (e2, n2)" by fastforce
  show ?case using gemini_parts_orderly [of lib ps n] Cons.IH [of n1] c g r by (auto simp: tool_track_append)
qed

lemma gemini_decode_orderly:
  "\<exists>evs d'. decode_all lib ps (DecGemini d) = (evs, DecGemini d') \<and> tool_track False evs = Some False"
proof (induction ps arbitrary: d)
  case Nil
  then show ?case by simp
next
  case (Cons p ps)
  obtain evs d1 where s: "gemini_Decode lib p d = (evs, d1)" by fastforce
  have "tool_track False evs = Some False"
    using s gemini_candidates_orderly [of lib] by (auto simp: gemini_Decode_def Let_def split: option.splits prod.splits) (metis fst_conv)+
  then show ?case using Cons.IH [of d1] s by (auto simp: tool_track_append)
qed

text \<open>
  An OpenAI upstream gives no such guarantee: arguments after a text, which the decoder takes for the end of
  the call, break the protocol, and the index of the call they belong to is not looked at.
\<close>

lemma openai_interleaved_arguments_misattributed:
  "fst (openai_delta_calls [\<lparr>oc_Index = 0, oc_ID = ''a'', oc_Name = ''f'', oc_Arguments = []\<rparr>,
      \<lparr>oc_Index = 1, oc_ID = ''b'', oc_Name = ''g'', oc_Arguments = []\<rparr>,
      \<lparr>oc_Index = 0, oc_ID = [], oc_Name = [], oc_Arguments = ''{}''\<rparr>] newOpenAIStreamDecoder)
   = [EvToolUseStart ''a'' ''f'', EvBlockStop, EvToolUseStart ''b'' ''g'', EvToolArgsDelta ''{}'']"
  by (simp add: newOpenAIStreamDecoder_def Let_def)

lemma openai_text_between_arguments_disorderly:
  "\<not> orderly (fst (openai_delta_choices [([], [], [\<lparr>oc_Index = 0, oc_ID = ''a'', oc_Name = ''f'', oc_Arguments = []\<rparr>]),
      ([], ''hm'', [\<lparr>oc_Index = 0, oc_ID = [], oc_Name = [], oc_Arguments = ''{}''\<rparr>])] newOpenAIStreamDecoder))"
  by (simp add: newOpenAIStreamDecoder_def openai_delta_text_def openai_delta_finish_def orderly_def Let_def)

section \<open>The message a client puts together\<close>

type_synonym message = "string \<times> (string \<times> string \<times> string) list"

definition add_args :: "nat \<Rightarrow> string \<Rightarrow> (string \<times> string \<times> string) list \<Rightarrow> (string \<times> string \<times> string) list" where
  "add_args i a calls = (if i < length calls then calls[i := (case calls ! i of (c, n, as) \<Rightarrow> (c, n, as @ a))] else calls)"

fun event_message :: "CanonEvent \<Rightarrow> message \<Rightarrow> message" where
  "event_message (EvTextDelta t) (txt, calls) = (txt @ t, calls)"
| "event_message (EvToolUseStart i n) (txt, calls) = (txt, calls @ [(i, n, [])])"
| "event_message (EvToolArgsDelta a) (txt, calls) = (txt, add_args (length calls - 1) a calls)"
| "event_message _ m = m"

text \<open>An Anthropic client adds arguments to its latest call.\<close>

definition anthropic_client :: "frame \<Rightarrow> message \<Rightarrow> message" where
  "anthropic_client f m = (case event_fields f of None \<Rightarrow> m | Some (t, ob) \<Rightarrow>
     (case m of (txt, calls) \<Rightarrow>
        let block = obj_or (jget ob ''content_block''); delta = obj_or (jget ob ''delta'') in
        if t = ''content_block_start'' \<and> jget block ''type'' = Some (JStr ''tool_use'')
        then (txt, calls @ [(str_or (jget block ''id''), str_or (jget block ''name''), [])])
        else if t = ''content_block_delta'' \<and> jget delta ''type'' = Some (JStr ''text_delta'')
        then (txt @ str_or (jget delta ''text''), calls)
        else if t = ''content_block_delta'' \<and> jget delta ''type'' = Some (JStr ''input_json_delta'')
        then (txt, add_args (length calls - 1) (str_or (jget delta ''partial_json'')) calls)
        else (txt, calls)))"

text \<open>An OpenAI client opens a call when it sees an id and adds arguments to the call of the index.\<close>

definition openai_client_call :: "jobj \<Rightarrow> (string \<times> string \<times> string) list \<Rightarrow> (string \<times> string \<times> string) list" where
  "openai_client_call call calls =
     (let fn = obj_or (jget call ''function''); args = str_or (jget fn ''arguments'') in
      case as_str (jget call ''id'') of
        Some i \<Rightarrow> calls @ [(i, str_or (jget fn ''name''), args)]
      | None \<Rightarrow> (case as_num (jget call ''index'') of None \<Rightarrow> calls
          | Some q \<Rightarrow> if q < 0 then calls else add_args (nat (floor q)) args calls))"

fun first_object :: "json list \<Rightarrow> jobj" where
  "first_object (JObj ob # xs) = ob"
| "first_object xs = []"

fun openai_client :: "frame \<Rightarrow> message \<Rightarrow> message" where
  "openai_client (SseData (JObj ob)) (txt, calls) =
     (let delta = obj_or (jget (first_object (arr_or (jget ob ''choices''))) ''delta'') in
      (txt @ str_or (jget delta ''content''),
       (case as_arr (jget delta ''tool_calls'') of None \<Rightarrow> calls | Some cs \<Rightarrow> openai_client_call (first_object cs) calls)))"
| "openai_client _ m = m"

lemma client_frames [simp]:
  "anthropic_client (SseEvent ''message_start'' (message_start_json model)) m = m"
  "anthropic_client (block_frame ''content_block_stop'' i extra) m = m"
  "anthropic_client (block_frame ''content_block_start'' i [(''content_block'', JObj [(''type'', JStr ''text''), (''text'', JStr [])])]) m = m"
  "anthropic_client (block_frame ''content_block_start'' i [(''content_block'',
     JObj [(''type'', JStr ''tool_use''), (''id'', JStr c), (''name'', JStr n), (''input'', JObj [])])]) m = event_message (EvToolUseStart c n) m"
  "anthropic_client (block_frame ''content_block_delta'' i [(''delta'', JObj [(''type'', JStr ''text_delta''), (''text'', JStr txt)])]) m
     = event_message (EvTextDelta txt) m"
  "anthropic_client (block_frame ''content_block_delta'' i [(''delta'', JObj [(''type'', JStr ''input_json_delta''), (''partial_json'', JStr a)])]) m
     = event_message (EvToolArgsDelta a) m"
  "anthropic_client (SseEvent ''message_delta'' (message_delta_json stop u)) m = m"
  "anthropic_client (SseEvent ''message_stop'' (JObj [(''type'', JStr ''message_stop'')])) m = m"
  by (cases m; simp add: anthropic_client_def message_start_json_def message_delta_json_def)+

lemma closeBlock_client [simp]: "fold anthropic_client (fst (closeBlock e)) m = m"
  by (simp add: closeBlock_def)

lemma ensureStart_client [simp]: "fold anthropic_client (fst (ensureStart e)) m = m"
  by (simp add: ensureStart_def)

lemma anthropic_encode_client: "fold anthropic_client (fst (anthropic_encode_event ev e)) m = event_message ev m"
  by (cases ev) (simp_all add: anthropic_encode_event_def open_block_def Let_def split: prod.split, simp_all add: closeBlock_def)

lemma anthropic_client_event:
  "fold anthropic_client (fst (anthropic_Encode ev e)) m = event_message ev m"
proof -
  obtain f e1 where s: "ensureStart e = (f, e1)" by fastforce
  then have "fold anthropic_client f m = m" using ensureStart_client [of e m] by simp
  then show ?thesis using s anthropic_encode_client [of ev e1 m] by (auto simp: anthropic_Encode_def split: prod.splits)
qed

lemma anthropic_client_finish: "fold anthropic_client (fst (anthropic_Finish u e)) m = m"
proof -
  obtain f e1 where s: "ensureStart e = (f, e1)" by fastforce
  obtain g e2 where c: "closeBlock e1 = (g, e2)" by fastforce
  have "fold anthropic_client f m = m" "fold anthropic_client g m = m"
    using s c ensureStart_client [of e m] closeBlock_client [of e1 m] by simp_all
  then show ?thesis using s c by (simp add: anthropic_Finish_def)
qed

lemma anthropic_client_all:
  "\<exists>f e'. encode_all evs (EncAnthropic e) = (f, EncAnthropic e') \<and> fold anthropic_client f m = fold event_message evs m"
proof (induction evs arbitrary: e m)
  case (Cons ev evs)
  obtain f1 e1 where s: "anthropic_Encode ev e = (f1, e1)" by fastforce
  have "fold anthropic_client f1 m = event_message ev m" using anthropic_client_event [of ev e m] s by simp
  then show ?case using Cons.IH [of e1 "event_message ev m"] s by auto
qed simp

definition call_count_is :: "openaiStreamEncoder \<Rightarrow> message \<Rightarrow> bool" where
  "call_count_is e m \<longleftrightarrow> eo_toolIndex e = int (length (snd m)) - 1"

lemma openai_client_chunk: "openai_client (openai_chunk e delta fin) (txt, calls) =
    (txt @ str_or (jget delta ''content''),
     (case as_arr (jget delta ''tool_calls'') of None \<Rightarrow> calls | Some cs \<Rightarrow> openai_client_call (first_object cs) calls))"
  by (simp add: openai_chunk_def chunk_json_def)

lemma openai_client_args: "openai_client_call [(''index'', jint i), (''function'', JObj [(''arguments'', JStr a)])] calls
    = (if i < 0 then calls else add_args (nat i) a calls)"
  by (simp add: openai_client_call_def jint_def)

lemma openai_client_event:
  assumes "call_count_is e m" "openai_Encode ev e = (f, e')"
  shows "fold openai_client f m = event_message ev m \<and> call_count_is e' (event_message ev m)"
proof -
  obtain s cs where m: "m = (s, cs)" by fastforce
  have i: "eo_toolIndex e = int (length cs) - 1" using assms(1) m by (simp add: call_count_is_def)
  show ?thesis
  proof (cases ev)
    case (EvToolUseStart c n)
    then show ?thesis using assms(2) m i
      by (auto simp: openai_Encode_def Let_def openai_client_chunk openai_client_call_def call_count_is_def)
  next
    case (EvToolArgsDelta a)
    have "nat (int (length cs) - 1) = length cs - 1" by simp
    then show ?thesis using assms(2) m i EvToolArgsDelta
      by (auto simp: openai_Encode_def openai_client_chunk openai_client_args call_count_is_def add_args_def)
  qed (use assms(2) m i in \<open>auto simp: openai_Encode_def openai_client_chunk call_count_is_def\<close>)
qed

lemma openai_client_all:
  assumes "call_count_is e m"
  shows "\<exists>f e'. encode_all evs (EncOpenAI e) = (f, EncOpenAI e') \<and> fold openai_client f m = fold event_message evs m"
  using assms
proof (induction evs arbitrary: e m)
  case (Cons ev evs)
  obtain f1 e1 where s: "openai_Encode ev e = (f1, e1)" by fastforce
  note st = openai_client_event [OF Cons.prems s]
  then show ?case using Cons.IH [of e1 "event_message ev m"] s by auto
qed simp

definition openai_stream :: "string \<Rightarrow> CanonEvent list \<Rightarrow> NormalizedUsage \<Rightarrow> frame list" where
  "openai_stream model evs u = (case encode_all evs (EncOpenAI (newOpenAIStreamEncoder model)) of
     (f, e) \<Rightarrow> f @ fst (encoder_Finish u e))"

text \<open>The two encoders are equivalent: from the same events, whatever they are, an Anthropic client and an
  OpenAI client put together the same message, the text and the calls with their names and arguments that the events
  say.\<close>

theorem stream_encoders_agree:
  "fold anthropic_client (anthropic_stream model evs u) ([], []) = fold event_message evs ([], [])
   \<and> fold openai_client (openai_stream model evs u) ([], []) = fold event_message evs ([], [])"
proof -
  obtain f e' where a: "encode_all evs (EncAnthropic (newAnthropicStreamEncoder model)) = (f, EncAnthropic e')"
    "fold anthropic_client f ([], []) = fold event_message evs ([], [])"
    using anthropic_client_all by blast
  have "call_count_is (newOpenAIStreamEncoder model) ([], [])" by (simp add: call_count_is_def newOpenAIStreamEncoder_def)
  then obtain g e'' where b: "encode_all evs (EncOpenAI (newOpenAIStreamEncoder model)) = (g, EncOpenAI e'')"
    "fold openai_client g ([], []) = fold event_message evs ([], [])"
    using openai_client_all by blast
  have "fold openai_client (fst (openai_Finish u e'')) m = m" for m
    by (cases m) (simp add: openai_Finish_def openai_chunk_def chunk_json_def)
  then show ?thesis using a b by (simp add: anthropic_stream_def openai_stream_def anthropic_client_finish)
qed

end
