(* ===== verification/Conduit.thy ===== *)
theory Conduit
  imports StreamProps
begin

text \<open>
  The channel between a client's wire format and an upstream's (\<^verbatim>\<open>relay/conduit.go\<close>, the registry of
  codec.go, the request and response handling of openai.go): the same format is passed through with
  the model name changed, different ones go through the canonical form.
\<close>

section \<open>Requests to an upstream\<close>

text \<open>Header names are kept in lower case; setting one replaces it.\<close>

record http_request =
  hr_url :: string
  hr_headers :: "(string \<times> string) list"
  hr_body :: string

definition header_set :: "string \<Rightarrow> string \<Rightarrow> (string \<times> string) list \<Rightarrow> (string \<times> string) list" where
  "header_set k v hs = AList.update (to_lower k) v hs"

definition apply_params :: "channel \<Rightarrow> jobj \<Rightarrow> jobj" where
  "apply_params ch b = fold (\<lambda>(k, v) b. jset k v b) (ParamOverrides ch) b"

definition apply_headers :: "channel \<Rightarrow> (string \<times> string) list \<Rightarrow> (string \<times> string) list" where
  "apply_headers ch hs = fold (\<lambda>(k, v) hs. header_set k v hs) (HeaderOverrides ch) hs"

text \<open>Marshalling a decoded body cannot fail, so only the URL can.\<close>

definition new_request :: "json_lib \<Rightarrow> channel \<Rightarrow> string \<Rightarrow> (string \<times> string) list \<Rightarrow> jobj \<Rightarrow> build_error + http_request" where
  "new_request lib ch path headers b =
     (let url = trim_right_slash (ch_BaseURL ch) @ path in
      if \<not> http_url_ok lib url then Inl BuildFailed
      else Inr \<lparr>hr_url = url,
        hr_headers = apply_headers ch (fold (\<lambda>(k, v) hs. header_set k v hs) headers [(''content-type'', ''application/json'')]),
        hr_body = json_Marshal lib (JObj b)\<rparr>)"

definition with_usage_option :: "bool \<Rightarrow> jobj \<Rightarrow> jobj" where
  "with_usage_option stream b = set_if stream ''stream_options''
     (JObj (jset ''include_usage'' (JBool True) (obj_or (jget b ''stream_options'')))) b"

definition openai_sent_body :: "channel \<Rightarrow> string \<Rightarrow> bool \<Rightarrow> jobj \<Rightarrow> jobj" where
  "openai_sent_body ch upstreamModel stream b =
     apply_params ch (with_usage_option stream (jset ''model'' (JStr upstreamModel) b))"

definition buildOpenAIRequest :: "json_lib \<Rightarrow> channel \<Rightarrow> string \<Rightarrow> jobj \<Rightarrow> string \<Rightarrow> bool \<Rightarrow> string \<Rightarrow> build_error + http_request" where
  "buildOpenAIRequest lib ch apiKey b upstreamModel stream path =
     new_request lib ch path [(''authorization'', ''Bearer '' @ apiKey)] (openai_sent_body ch upstreamModel stream b)"

definition anthropic_headers :: "string \<Rightarrow> (string \<times> string) list" where
  "anthropic_headers apiKey = [(''x-api-key'', apiKey), (''anthropic-version'', ''2023-06-01'')]"

definition buildAnthropicRequest :: "json_lib \<Rightarrow> channel \<Rightarrow> string \<Rightarrow> jobj \<Rightarrow> string \<Rightarrow> build_error + http_request" where
  "buildAnthropicRequest lib ch apiKey b upstreamModel =
     new_request lib ch ''/v1/messages'' (anthropic_headers apiKey)
       (apply_params ch (jset ''model'' (JStr upstreamModel) b))"

definition buildGeminiRequest :: "json_lib \<Rightarrow> channel \<Rightarrow> string \<Rightarrow> jobj \<Rightarrow> string \<Rightarrow> bool \<Rightarrow> build_error + http_request" where
  "buildGeminiRequest lib ch apiKey b upstreamModel stream =
     new_request lib ch (''/v1beta/models/'' @ upstreamModel
         @ (if stream then '':streamGenerateContent?alt=sse'' else '':generateContent''))
       [(''x-goog-api-key'', apiKey)] b"

section \<open>Responses of the same format (openai.go, conduit.go)\<close>

text \<open>
  A response that is null decodes into a nil map without an error, and setting the model in it panics.
\<close>

datatype transform_result = Transformed string NormalizedUsage bool | TransformError string | TransformPanic

definition raw_usage :: "(jobj \<Rightarrow> 'u option) \<Rightarrow> json \<Rightarrow> 'u option" where
  "raw_usage rd v = Option.bind (document_fields (Some v)) rd"

definition usage_field :: "(jobj \<Rightarrow> 'u option) \<Rightarrow> ('u \<Rightarrow> NormalizedUsage) \<Rightarrow> jobj \<Rightarrow> NormalizedUsage" where
  "usage_field rd normalise fs = (case jget fs ''usage'' of None \<Rightarrow> zero_usage
     | Some v \<Rightarrow> (case raw_usage rd v of None \<Rightarrow> zero_usage | Some u \<Rightarrow> normalise u))"

definition pass_response :: "json_lib \<Rightarrow> (jobj \<Rightarrow> NormalizedUsage) \<Rightarrow> string \<Rightarrow> string \<Rightarrow> transform_result" where
  "pass_response lib usage_of publicModel raw =
     (case json_Unmarshal lib raw of
        Some (JObj fs) \<Rightarrow> Transformed (json_Marshal lib (JObj (jset ''model'' (JStr publicModel) fs)))
            (usage_of fs) (TotalTokens (usage_of fs) > 0)
      | Some JNull \<Rightarrow> TransformPanic
      | _ \<Rightarrow> TransformError msg_response_no_json)"

definition parseOpenAIResponse :: "json_lib \<Rightarrow> string \<Rightarrow> string \<Rightarrow> transform_result" where
  "parseOpenAIResponse lib raw publicModel =
     pass_response lib (usage_field read_openaiUsage normalizeOpenAIUsage) publicModel raw"

definition rewriteOpenAIChunk :: "json_lib \<Rightarrow> string \<Rightarrow> string \<Rightarrow> string \<times> NormalizedUsage option" where
  "rewriteOpenAIChunk lib data publicModel =
     (case json_Unmarshal lib data of
        Some (JObj fs) \<Rightarrow>
          (json_Marshal lib (JObj (set_if (jget fs ''model'' \<noteq> None) ''model'' (JStr publicModel) fs)),
           case jget fs ''usage'' of None \<Rightarrow> None
           | Some v \<Rightarrow> if v = JNull then None
               else (case raw_usage read_openaiUsage v of None \<Rightarrow> None
                 | Some u \<Rightarrow> if ou_PromptTokens u > 0 \<or> ou_CompletionTokens u > 0 then Some (normalizeOpenAIUsage u) else None))
      | Some JNull \<Rightarrow> (json_Marshal lib JNull, None)
      | _ \<Rightarrow> (data, None))"

definition data_frame :: "string \<Rightarrow> string" where
  "data_frame payload = ''data: '' @ payload @ [CHR 0x0A, CHR 0x0A]"

definition event_frame :: "string \<Rightarrow> string \<Rightarrow> string" where
  "event_frame ev payload = ''event: '' @ ev @ [CHR 0x0A] @ data_frame payload"

text \<open>An Anthropic event on its way through: the model of \<^verbatim>\<open>message_start\<close> is replaced.\<close>

definition start_payload :: "json_lib \<Rightarrow> string \<Rightarrow> jobj \<Rightarrow> string" where
  "start_payload lib publicModel fs =
     (case as_any lib (JObj fs) of
        JObj full \<Rightarrow> json_Marshal lib (JObj (case as_obj (jget full ''message'') of None \<Rightarrow> full
          | Some msg \<Rightarrow> jset ''message'' (JObj (jset ''model'' (JStr publicModel) msg)) full))
      | v \<Rightarrow> json_Marshal lib v)"

definition rewriteAnthropicEvent :: "json_lib \<Rightarrow> string \<Rightarrow> string \<Rightarrow> string" where
  "rewriteAnthropicEvent lib publicModel payload =
     (case json_Unmarshal lib payload of
        Some (JObj fs) \<Rightarrow>
          (let evType = str_or (jget fs ''type'');
               payload = (if evType = ''message_start'' then start_payload lib publicModel fs else payload)
           in if evType = [] then data_frame payload else event_frame evType payload)
      | _ \<Rightarrow> data_frame payload)"

section \<open>The registry of codecs (codec.go)\<close>

datatype codec = openaiCodec | anthropicCodec | geminiCodec

definition codecRegistry :: "(string \<times> codec) list" where
  "codecRegistry = [(''openai_compat'', openaiCodec), (''anthropic'', anthropicCodec), (''gemini'', geminiCodec)]"

definition codecFor :: "string \<Rightarrow> codec option" where "codecFor p = map_of codecRegistry p"

definition refuse_or :: "build_error option \<Rightarrow> jobj \<Rightarrow> build_error + jobj" where
  "refuse_or r b = (case r of Some e \<Rightarrow> Inl e | None \<Rightarrow> Inr b)"

fun EncodeBody :: "json_lib \<Rightarrow> codec \<Rightarrow> CanonRequest \<Rightarrow> string \<Rightarrow> build_error + jobj" where
  "EncodeBody lib openaiCodec canon m = refuse_or (rejectOpenAIUnsupported canon) (encodeOpenAIRequest canon m)"
| "EncodeBody lib anthropicCodec canon m = refuse_or (rejectAnthropicUnsupported canon) (encodeAnthropicRequest lib canon m)"
| "EncodeBody lib geminiCodec canon m = refuse_or (rejectGeminiUnsupported canon) (encodeGeminiRequest lib canon)"

fun BuildHTTPRequest :: "json_lib \<Rightarrow> codec \<Rightarrow> channel \<Rightarrow> string \<Rightarrow> string \<Rightarrow> jobj \<Rightarrow> bool \<Rightarrow> build_error + http_request" where
  "BuildHTTPRequest lib openaiCodec ch apiKey m b stream = buildOpenAIRequest lib ch apiKey b m stream ''/chat/completions''"
| "BuildHTTPRequest lib anthropicCodec ch apiKey m b stream = buildAnthropicRequest lib ch apiKey b m"
| "BuildHTTPRequest lib geminiCodec ch apiKey m b stream = buildGeminiRequest lib ch apiKey b m stream"

fun DecodeResponse :: "json_lib \<Rightarrow> codec \<Rightarrow> string \<Rightarrow> string + (CanonResponse \<times> NormalizedUsage)" where
  "DecodeResponse lib openaiCodec raw = decodeOpenAIResponse lib raw"
| "DecodeResponse lib anthropicCodec raw = decodeAnthropicResponse lib raw"
| "DecodeResponse lib geminiCodec raw = decodeGeminiResponse lib raw"

fun NewStreamDecoder :: "codec \<Rightarrow> streamDecoder" where
  "NewStreamDecoder openaiCodec = DecOpenAI newOpenAIStreamDecoder"
| "NewStreamDecoder anthropicCodec = DecAnthropic newAnthropicStreamDecoder"
| "NewStreamDecoder geminiCodec = DecGemini newGeminiStreamDecoder"

section \<open>Conduits (conduit.go)\<close>

text \<open>The implementations of the Go interface \<^verbatim>\<open>conduit\<close> and of \<^verbatim>\<open>conduitStream\<close>.\<close>

datatype conduit =
    OpenAIPassthrough jobj string bool
  | AnthropicPassthrough jobj string bool
  | CanonicalConduit downstream string CanonRequest string

datatype conduit_stream =
    OpenAIPassStream string NormalizedUsage bool
  | AnthropicPassStream string anthropicStreamDecoder
  | CanonicalStream streamDecoder streamEncoder bool

definition newConduit :: "json_lib \<Rightarrow> downstream \<Rightarrow> channel \<Rightarrow> jobj \<Rightarrow> string \<Rightarrow> bool \<Rightarrow> string + conduit" where
  "newConduit lib ds ch b publicModel stream =
     (if ds = dsOpenAI \<and> ch_Protocol ch = ''openai_compat'' then Inr (OpenAIPassthrough b publicModel stream)
      else if ds = dsAnthropic \<and> ch_Protocol ch = ''anthropic'' then Inr (AnthropicPassthrough b publicModel stream)
      else case (if ds = dsOpenAI then decodeOpenAIRequest b else decodeAnthropicRequest lib b) of
          Inl e \<Rightarrow> Inl e
        | Inr canon \<Rightarrow> Inr (CanonicalConduit ds (ch_Protocol ch) (canon\<lparr>cr_Stream := stream\<rparr>) publicModel))"

fun BuildRequest :: "json_lib \<Rightarrow> conduit \<Rightarrow> channel \<Rightarrow> string \<Rightarrow> string \<Rightarrow> build_error + http_request" where
  "BuildRequest lib (OpenAIPassthrough b publicModel stream) ch apiKey upstreamModel =
     buildOpenAIRequest lib ch apiKey b upstreamModel stream ''/chat/completions''"
| "BuildRequest lib (AnthropicPassthrough b publicModel stream) ch apiKey upstreamModel =
     buildAnthropicRequest lib ch apiKey b upstreamModel"
| "BuildRequest lib (CanonicalConduit ds up canon publicModel) ch apiKey upstreamModel =
     (case codecFor up of None \<Rightarrow> Inl BuildFailed
      | Some c \<Rightarrow> (case EncodeBody lib c canon upstreamModel of Inl e \<Rightarrow> Inl e
          | Inr b \<Rightarrow> BuildHTTPRequest lib c ch apiKey upstreamModel b (cr_Stream canon)))"

definition canonical_reply :: "json_lib \<Rightarrow> downstream \<Rightarrow> CanonResponse \<Rightarrow> string \<Rightarrow> NormalizedUsage \<Rightarrow> string" where
  "canonical_reply lib ds resp publicModel usage =
     (if ds = dsOpenAI then encodeOpenAIResponse lib resp publicModel usage
      else encodeAnthropicResponse lib resp publicModel usage)"

fun TransformResponse :: "json_lib \<Rightarrow> conduit \<Rightarrow> string \<Rightarrow> transform_result" where
  "TransformResponse lib (OpenAIPassthrough b publicModel stream) raw = parseOpenAIResponse lib raw publicModel"
| "TransformResponse lib (AnthropicPassthrough b publicModel stream) raw =
     pass_response lib (usage_field read_anthropicUsage normalizeAnthropicUsage) publicModel raw"
| "TransformResponse lib (CanonicalConduit ds up canon publicModel) raw =
     (case codecFor up of None \<Rightarrow> TransformError (msg_codec_for @ CHR 0x22 # up @ CHR 0x22 # msg_codec_missing)
      | Some c \<Rightarrow> (case DecodeResponse lib c raw of Inl e \<Rightarrow> TransformError e
          | Inr (resp, usage) \<Rightarrow> Transformed (canonical_reply lib ds resp publicModel usage) usage (TotalTokens usage > 0)))"

text \<open>A stream of an unregistered protocol panics; no request for one gets that far.\<close>

fun NewStream :: "conduit \<Rightarrow> conduit_stream option" where
  "NewStream (OpenAIPassthrough b publicModel stream) = Some (OpenAIPassStream publicModel zero_usage False)"
| "NewStream (AnthropicPassthrough b publicModel stream) = Some (AnthropicPassStream publicModel newAnthropicStreamDecoder)"
| "NewStream (CanonicalConduit ds up canon publicModel) =
     (case codecFor up of None \<Rightarrow> None
      | Some c \<Rightarrow> Some (CanonicalStream (NewStreamDecoder c)
          (if ds = dsAnthropic then EncAnthropic (newAnthropicStreamEncoder publicModel)
           else EncOpenAI (newOpenAIStreamEncoder publicModel)) False))"

fun ProcessPayload :: "json_lib \<Rightarrow> string \<Rightarrow> conduit_stream \<Rightarrow> string list \<times> conduit_stream" where
  "ProcessPayload lib payload (OpenAIPassStream publicModel usage found) =
     (case rewriteOpenAIChunk lib payload publicModel of (out, u) \<Rightarrow>
       ([data_frame out], case u of None \<Rightarrow> OpenAIPassStream publicModel usage found
          | Some u \<Rightarrow> OpenAIPassStream publicModel u True))"
| "ProcessPayload lib payload (AnthropicPassStream publicModel d) =
     ([rewriteAnthropicEvent lib publicModel payload], AnthropicPassStream publicModel (snd (anthropic_Decode lib payload d)))"
| "ProcessPayload lib payload (CanonicalStream d e fin) =
     (case Decode lib payload d of (evs, d) \<Rightarrow> case encode_all evs e of (frames, e) \<Rightarrow>
       (map (render_frame lib) frames, CanonicalStream d e fin))"

fun ProcessDone :: "json_lib \<Rightarrow> conduit_stream \<Rightarrow> string list \<times> conduit_stream" where
  "ProcessDone lib (OpenAIPassStream publicModel usage found) =
     ([data_frame ''[DONE]''], OpenAIPassStream publicModel usage found)"
| "ProcessDone lib (AnthropicPassStream publicModel d) = ([], AnthropicPassStream publicModel d)"
| "ProcessDone lib (CanonicalStream d e fin) =
     (if fin then ([], CanonicalStream d e fin)
      else case encoder_Finish (fst (decoder_Usage d)) e of (frames, e) \<Rightarrow>
        (map (render_frame lib) frames, CanonicalStream d e True))"

fun stream_Usage :: "conduit_stream \<Rightarrow> NormalizedUsage \<times> bool" where
  "stream_Usage (OpenAIPassStream publicModel usage found) = (usage, found)"
| "stream_Usage (AnthropicPassStream publicModel d) = (ad_usage d, ad_usageFound d)"
| "stream_Usage (CanonicalStream d e fin) = decoder_Usage d"

end
