(* ===== verification/Text.thy ===== *)
theory Text
  imports Prelude
begin

text \<open>
  \<^verbatim>\<open>server/internal/strutil\<close>: cutting a text at a number of bytes without splitting a character.
  A Go string is a list of bytes; what the code uses of \<^verbatim>\<open>unicode/utf8\<close> is written out.
\<close>

section \<open>UTF-8 (unicode/utf8)\<close>

abbreviation byte_of :: "char \<Rightarrow> nat" where "byte_of \<equiv> of_char"

definition RuneStart :: "char \<Rightarrow> bool" where
  "RuneStart b \<longleftrightarrow> \<not> (128 \<le> byte_of b \<and> byte_of b < 192)"

definition cont_in :: "nat \<Rightarrow> nat \<Rightarrow> char \<Rightarrow> bool" where
  "cont_in lo hi b \<longleftrightarrow> lo \<le> byte_of b \<and> byte_of b \<le> hi"

abbreviation is_cont :: "char \<Rightarrow> bool" where "is_cont \<equiv> cont_in 128 191"

text \<open>The length of the legal encoding a text starts with, 0 when it starts with none.\<close>

fun lead_len :: "nat \<Rightarrow> nat" where
  "lead_len x = (if x < 128 then 1 else if x < 194 then 0 else if x < 224 then 2
     else if x < 240 then 3 else if x < 245 then 4 else 0)"

fun conts :: "nat \<Rightarrow> string \<Rightarrow> bool" where
  "conts x [] = True"
| "conts x (b # bs) = (cont_in (if x = 224 then 160 else if x = 240 then 144 else 128)
                          (if x = 237 then 159 else if x = 244 then 143 else 191) b \<and> list_all is_cont bs)"

fun rune_len :: "string \<Rightarrow> nat" where
  "rune_len [] = 0"
| "rune_len (a # s) =
     (let n = lead_len (byte_of a) in if n - 1 \<le> length s \<and> conts (byte_of a) (take (n - 1) s) then n else 0)"

declare lead_len.simps [simp del]

function ValidString :: "string \<Rightarrow> bool" where
  "ValidString s = (if s = [] then True else if rune_len s = 0 then False else ValidString (drop (rune_len s) s))"
  by pat_completeness auto
termination by (relation "measure length") auto

function ToValidUTF8 :: "string \<Rightarrow> string" where
  "ToValidUTF8 s = (if s = [] then [] else if rune_len s = 0 then ToValidUTF8 (drop 1 s)
     else take (rune_len s) s @ ToValidUTF8 (drop (rune_len s) s))"
  by pat_completeness auto
termination by (relation "measure length") auto

declare ValidString.simps [simp del] ToValidUTF8.simps [simp del]

section \<open>Truncate (strutil)\<close>

fun back_to_start :: "string \<Rightarrow> nat \<Rightarrow> nat" where
  "back_to_start s 0 = 0"
| "back_to_start s (Suc n) = (if \<not> RuneStart (s ! Suc n) then back_to_start s n else Suc n)"

definition Truncate :: "string \<Rightarrow> int \<Rightarrow> string" where
  "Truncate s maxBytes =
     (if maxBytes \<le> 0 then []
      else let s = (if int (length s) > maxBytes then take (back_to_start s (nat maxBytes)) s else s)
           in if ValidString s then s else ToValidUTF8 s)"

section \<open>Lemmas\<close>

lemma lead_len_4: "lead_len x \<le> 4"
  by (simp add: lead_len.simps)

lemma rune_len_bounds: "rune_len s \<le> length s \<and> rune_len s \<le> 4"
  by (cases s) (auto simp: Let_def lead_len_4)

lemma cont_not_start: "cont_in lo hi b \<Longrightarrow> 128 \<le> lo \<Longrightarrow> hi \<le> 191 \<Longrightarrow> \<not> RuneStart b"
  by (simp add: cont_in_def RuneStart_def)

lemma conts_not_start: "conts x bs \<Longrightarrow> i < length bs \<Longrightarrow> \<not> RuneStart (bs ! i)"
  by (cases bs; cases i) (auto simp: list_all_length cont_in_def RuneStart_def split: if_splits)

lemma rune_len_cont: "0 < i \<Longrightarrow> i < rune_len s \<Longrightarrow> \<not> RuneStart (s ! i)"
proof (cases s)
  case (Cons a t)
  assume i: "0 < i" "i < rune_len s"
  let ?n = "lead_len (byte_of a)"
  have c: "conts (byte_of a) (take (?n - 1) t)" "i < ?n" "?n - 1 \<le> length t"
    using i Cons by (auto simp: Let_def split: if_splits)
  have "\<not> RuneStart (take (?n - 1) t ! (i - 1))"
    by (rule conts_not_start [OF c(1)]) (use c i(1) in auto)
  then show ?thesis using Cons i(1) c(2) by (simp add: nth_Cons')
qed simp

lemma rune_len_take: "0 < rune_len s \<Longrightarrow> rune_len s \<le> k \<Longrightarrow> rune_len (take k s) = rune_len s"
  by (cases s; cases k) (auto simp: Let_def min_def split: if_splits)

lemma rune_len_append: "0 < rune_len s \<Longrightarrow> rune_len (take (rune_len s) s @ r) = rune_len s"
proof (cases s)
  case (Cons a t)
  assume "0 < rune_len s"
  then have n: "lead_len (byte_of a) - 1 \<le> length t" "conts (byte_of a) (take (lead_len (byte_of a) - 1) t)"
    "0 < lead_len (byte_of a)" and e: "rune_len s = lead_len (byte_of a)"
    using Cons by (auto simp: Let_def split: if_splits)
  then obtain m where m: "lead_len (byte_of a) = Suc m" by (cases "lead_len (byte_of a)") auto
  show ?thesis using n Cons unfolding e m by (simp add: Let_def m)
qed simp

lemma ValidString_Nil [simp]: "ValidString []"
  by (simp add: ValidString.simps)

lemma ValidString_step:
  "0 < rune_len s \<Longrightarrow> ValidString s = ValidString (drop (rune_len s) s)"
  by (subst ValidString.simps) auto

lemma ValidString_take:
  "ValidString s \<Longrightarrow> k \<le> length s \<Longrightarrow> k = length s \<or> RuneStart (s ! k) \<Longrightarrow> ValidString (take k s)"
proof (induction s arbitrary: k rule: ValidString.induct)
  case (1 s)
  show ?case
  proof (cases "s = [] \<or> k = 0")
    case False
    let ?n = "rune_len s"
    have n: "0 < ?n" using 1(2) False by (auto simp: ValidString.simps [of s] split: if_splits)
    have "?n \<le> k" using rune_len_cont [of k s] rune_len_bounds [of s] 1(4) False by (metis gr0I not_less)
    then have rl: "rune_len (take k s) = ?n" and dr: "drop ?n (take k s) = take (k - ?n) (drop ?n s)"
      using rune_len_take [OF n] by (simp_all add: drop_take)
    have "ValidString (take (k - ?n) (drop ?n s))"
    proof (rule 1(1))
      show "ValidString (drop ?n s)" using 1(2) n ValidString_step by blast
      show "k - ?n \<le> length (drop ?n s)" using 1(3) by simp
      show "k - ?n = length (drop ?n s) \<or> RuneStart (drop ?n s ! (k - ?n))"
        using 1(4) \<open>?n \<le> k\<close> rune_len_bounds [of s] by auto
    qed (use False n in auto)
    then show ?thesis using ValidString_step [of "take k s"] n rl dr by simp
  qed auto
qed

lemma ValidString_ToValidUTF8: "ValidString (ToValidUTF8 s)"
proof (induction s rule: ToValidUTF8.induct)
  case (1 s)
  show ?case
  proof (cases "s = [] \<or> rune_len s = 0")
    case True
    then show ?thesis using 1(1) by (cases "s = []") (simp_all add: ToValidUTF8.simps [of s] ToValidUTF8.simps [of "[]"])
  next
    case False
    let ?n = "rune_len s" and ?r = "ToValidUTF8 (drop (rune_len s) s)"
    have e: "ToValidUTF8 s = take ?n s @ ?r" using False by (simp add: ToValidUTF8.simps [of s])
    have "rune_len (take ?n s @ ?r) = ?n" using rune_len_append False by blast
    moreover have "drop ?n (take ?n s @ ?r) = ?r" using rune_len_bounds [of s] by simp
    ultimately show ?thesis using ValidString_step [of "take ?n s @ ?r"] 1(2) False e by simp
  qed
qed

lemma length_ToValidUTF8: "length (ToValidUTF8 s) \<le> length s"
proof (induction s rule: ToValidUTF8.induct)
  case (1 s)
  then show ?case using rune_len_bounds [of s] by (auto simp: ToValidUTF8.simps [of s])
qed

lemma back_to_start_le: "back_to_start s n \<le> n"
  by (induction n) auto

lemma back_to_start_start: "back_to_start s n = 0 \<or> RuneStart (s ! back_to_start s n)"
  by (induction n) auto

lemma back_to_start_skips: "back_to_start s n < i \<Longrightarrow> i \<le> n \<Longrightarrow> \<not> RuneStart (s ! i)"
  by (induction n) (auto simp: le_Suc_eq split: if_splits)

lemma ValidString_near_start:
  "ValidString s \<Longrightarrow> k < length s \<Longrightarrow> \<exists>j \<le> k. k < j + 4 \<and> RuneStart (s ! j)"
proof (induction s arbitrary: k rule: ValidString.induct)
  case (1 s)
  let ?n = "rune_len s"
  have ne: "s \<noteq> []" and n: "0 < ?n" using 1(2,3) by (auto simp: ValidString.simps [of s] split: if_splits)
  show ?case
  proof (cases "k < ?n")
    case True
    have "RuneStart (s ! 0)" using n by (cases s) (auto simp: RuneStart_def Let_def lead_len.simps split: if_splits)
    then show ?thesis using True rune_len_bounds [of s] by (intro exI [of _ 0]) auto
  next
    case False
    have "ValidString (drop ?n s)" using 1(2) n ValidString_step by blast
    then obtain j where "j \<le> k - ?n" "k - ?n < j + 4" "RuneStart (drop ?n s ! j)"
      using 1(1) [OF ne, of "k - ?n"] n 1(3) False by (metis (no_types, lifting) diff_less_mono length_drop less_irrefl not_less)
    then show ?thesis using False 1(3) rune_len_bounds [of s] by (intro exI [of _ "?n + j"]) auto
  qed
qed

lemma ValidString_ascii: "list_all (\<lambda>c. byte_of c < 128) s \<Longrightarrow> ValidString s"
proof (induction s)
  case (Cons c s)
  then show ?case using ValidString_step [of "c # s"] by (simp add: Let_def lead_len.simps)
qed simp

section \<open>Properties\<close>

text \<open>A truncated text is within the limit and legal UTF-8 whatever the input bytes are; of a legal text it
  is a prefix, the text itself when that fits, and otherwise at most three bytes shorter than the limit.\<close>

theorem Truncate_sound:
  "int (length (Truncate s m)) \<le> max 0 m \<and> ValidString (Truncate s m)
   \<and> (ValidString s \<longrightarrow> take (length (Truncate s m)) s = Truncate s m
       \<and> (int (length s) \<le> m \<longrightarrow> Truncate s m = s)
       \<and> (0 < m \<and> m < int (length s) \<longrightarrow> m - 3 \<le> int (length (Truncate s m))))"
proof (cases "0 < m \<and> m < int (length s)")
  case False
  then show ?thesis using ValidString_ToValidUTF8 [of s] length_ToValidUTF8 [of s]
    by (cases "s = []"; cases "0 < m") (auto simp: Truncate_def Let_def max_def)
next
  case True
  let ?b = "back_to_start s (nat m)"
  let ?t = "take ?b s"
  have b: "?b \<le> nat m" "nat m < length s" using back_to_start_le True by auto
  have t: "Truncate s m = (if ValidString ?t then ?t else ToValidUTF8 ?t)" "length ?t = ?b"
    using True b by (simp_all add: Truncate_def Let_def)
  have v: "ValidString ?t \<and> m - 3 \<le> int ?b" if s: "ValidString s"
  proof
    show "ValidString ?t"
    proof (cases "?b = 0")
      case False
      then show ?thesis using ValidString_take [OF s, of ?b] b back_to_start_start [of s "nat m"] by simp
    qed simp
    obtain j where j: "j \<le> nat m" "nat m < j + 4" "RuneStart (s ! j)" using ValidString_near_start [OF s b(2)] by blast
    then have "j \<le> ?b" using back_to_start_skips [of s "nat m" j] by force
    then show "m - 3 \<le> int ?b" using j(2) by linarith
  qed
  have len: "length (Truncate s m) \<le> ?b" using t length_ToValidUTF8 [of ?t] by auto
  have val: "ValidString (Truncate s m)" using t ValidString_ToValidUTF8 [of ?t] by simp
  show ?thesis using len val v t b True by auto
qed

theorem Truncate_sound_witness:
  "0 \<le> int (length (Truncate ''abcdef'' 3)) \<and> length (Truncate ''abcdef'' 3) \<le> 3 \<and> ValidString (Truncate ''abcdef'' 3)
   \<and> take (length (Truncate ''abcdef'' 3)) ''abcdef'' = Truncate ''abcdef'' 3"
  using Truncate_sound [of "''abcdef''" 3] ValidString_ascii [of "''abcdef''"] by simp

end
