(* ===== verification/Relay.thy ===== *)
theory Relay
  imports Conduit Session Choice Pricing Text
begin

text \<open>
  The relay, \<^verbatim>\<open>server/internal/relay\<close>: what happens to one request from its body to its
  answer (pipeline.go, retry.go, sse.go, the estimates of openai.go and count\_tokens.go, and the model
  catalogue of store/model.go it consults). The conversions between the wire formats are those of
  \<open>Conduit\<close>.

  What the code cannot know is in the \<open>world\<close>: how the database answers each call and what the
  rest of the program has done to it since the one before, the clock, the upstreams, and which writes to the
  client fail. Calls are numbered in the order the request makes them.
\<close>

section \<open>The model catalogue (store/model.go)\<close>

record model_row =
  m_Name :: string
  m_Modality :: Modality
  m_BillingMode :: BillingMode
  m_Status :: ModelStatus
  m_Provider :: string
  m_Alias :: string
  m_Price :: "Price option"
  m_PeakRules :: "PeakRule list"

definition GetByName :: "model_row list \<Rightarrow> string \<Rightarrow> model_row option" where
  "GetByName ms name = List.find (\<lambda>m. m_Name m = name) ms"

text \<open>
  The two resolutions report an error never and the empty name when nothing matches; the callers treat both
  alike. PostgreSQL's \<^verbatim>\<open>LOWER\<close> is taken on ASCII letters.
\<close>

definition ResolveAlias :: "model_row list \<Rightarrow> string \<Rightarrow> string" where
  "ResolveAlias ms alias = (if alias = [] then []
     else case List.find (\<lambda>m. m_Alias m = alias) ms of None \<Rightarrow> [] | Some m \<Rightarrow> m_Name m)"

definition ResolveNameFold :: "model_row list \<Rightarrow> string \<Rightarrow> string" where
  "ResolveNameFold ms name = (if name = [] then []
     else case List.find (\<lambda>m. to_lower (m_Name m) = to_lower name) ms of None \<Rightarrow> [] | Some m \<Rightarrow> m_Name m)"

section \<open>Estimates (openai.go, count\_tokens.go, extra\_endpoints.go)\<close>

definition estimateTokensFromText :: "int \<Rightarrow> int" where
  "estimateTokensFromText byteLen =
     (let n = go_quo byteLen 4 in if n < 1 \<and> byteLen > 0 then 1 else n)"

text \<open>The text of content parts: their \<^verbatim>\<open>text\<close> strings, other parts count nothing.\<close>

fun part_text_len :: "json \<Rightarrow> int" where
  "part_text_len (JObj p) = int (length (str_or (jget p ''text'')))"
| "part_text_len _ = 0"

fun content_text_len :: "json option \<Rightarrow> int" where
  "content_text_len (Some (JStr s)) = int (length s)"
| "content_text_len (Some (JArr ps)) = sum_list (map part_text_len ps)"
| "content_text_len _ = 0"

fun message_text_len :: "json \<Rightarrow> int" where
  "message_text_len (JObj m) = content_text_len (jget m ''content'')"
| "message_text_len _ = 0"

definition estimatePromptTokens :: "jobj \<Rightarrow> int" where
  "estimatePromptTokens body =
     estimateTokensFromText (sum_list (map message_text_len (arr_or (jget body ''messages'')))
       + int (length (str_or (jget body ''input''))))"

definition textLenOfAnthropicField :: "json option \<Rightarrow> int" where
  "textLenOfAnthropicField v = content_text_len v"

definition estimateAnthropicInputTokens :: "jobj \<Rightarrow> int" where
  "estimateAnthropicInputTokens body =
     wrap64 (estimatePromptTokens body + estimateTokensFromText (textLenOfAnthropicField (jget body ''system'')))"

fun input_item_len :: "json \<Rightarrow> int" where
  "input_item_len (JStr s) = int (length s)"
| "input_item_len _ = 0"

definition estimateEmbeddingInputTokens :: "jobj \<Rightarrow> int" where
  "estimateEmbeddingInputTokens body =
     estimateTokensFromText (case jget body ''input'' of
         Some (JStr s) \<Rightarrow> int (length s)
       | Some (JArr xs) \<Rightarrow> sum_list (map input_item_len xs)
       | _ \<Rightarrow> 0)"

section \<open>Answers\<close>

datatype body = BJson json | BBytes string

text \<open>What is written to the client, in order: a whole answer, the head of a stream, a frame of it.\<close>

datatype reply = Reply int body | StreamHead | Frame string

definition WriteOpenAIError :: "int \<Rightarrow> string \<Rightarrow> string \<Rightarrow> reply" where
  "WriteOpenAIError status code message = Reply status (BJson (JObj [(''error'',
     JObj [(''message'', JStr message), (''type'', JStr code), (''code'', JStr code)])]))"

definition WriteAnthropicError :: "int \<Rightarrow> string \<Rightarrow> string \<Rightarrow> reply" where
  "WriteAnthropicError status code message = Reply status (BJson (JObj [(''type'', JStr ''error''),
     (''error'', JObj [(''type'', JStr code), (''message'', JStr message)])]))"

type_synonym relayError = "int \<times> string \<times> string"

definition no_error :: relayError where "no_error = (0, [], [])"

definition maxRelayBodyBytes :: nat where "maxRelayBodyBytes = 20971520"

section \<open>The world of a request\<close>

record upstream_body =
  ub_raw :: string
  ub_read_fails :: bool
  ub_lines :: "string list"
  ub_scan_error :: "string option"

datatype upstream = UpNetError | UpStatus int string | UpOK upstream_body

record cost_row =
  c_currency :: string
  c_price :: Price

record world =
  w_env :: "nat \<Rightarrow> env"
  w_others :: "nat \<Rightarrow> db \<Rightarrow> db"
  w_time :: "nat \<Rightarrow> go_time"
  w_zone :: zone_db
  w_setting :: "string \<Rightarrow> int"
  w_models :: "model_row list"
  w_models_fail :: bool
  w_channels :: "channel list option"
  w_cost :: "row_id \<Rightarrow> string \<Rightarrow> cost_row option"
  w_decrypt :: "string \<Rightarrow> string option"
  w_lib :: json_lib
  w_upstream :: "nat \<Rightarrow> channel \<Rightarrow> http_request \<Rightarrow> upstream"
  w_write_fails :: "nat \<Rightarrow> bool"
  w_error_text :: "error \<Rightarrow> string"
  w_disable_fails :: bool
  w_queueTakes :: "nat \<Rightarrow> bool"

text \<open>
  \<open>finished\<close> are the usage logs of the request handed to the log writer, each with whether its queue took it; the writer is
  the subject of the theory LogWriter.
\<close>

record relay_state = picker_state +
  database :: db
  sess :: BillingSession
  health :: channel_state
  ulog :: usage_log
  lastErr :: relayError
  finished :: "(usage_log \<times> bool) list"
  replies :: "reply list"
  policy_alerts :: "string list"
  audio_zero_price :: "int list"
  affinity_metrics :: "affinityOutcome list"
  panicked :: bool
  ticks :: nat

text \<open>A call of the billing session: the rest of the program has run before it.\<close>

definition db_call :: "world \<Rightarrow> (env \<Rightarrow> BillingSession \<Rightarrow> db \<Rightarrow> outcome) \<Rightarrow> relay_state \<Rightarrow> error option \<times> relay_state" where
  "db_call w f s = (case f (w_env w (ticks s)) (sess s) (w_others w (ticks s) (database s)) of
     (err, b, d) \<Rightarrow> (err, s\<lparr>sess := b, database := d, ticks := ticks s + 1\<rparr>))"

definition write_reply :: "reply \<Rightarrow> relay_state \<Rightarrow> relay_state" where
  "write_reply r s = s\<lparr>replies := replies s @ [r]\<rparr>"

definition upd_log :: "(usage_log \<Rightarrow> usage_log) \<Rightarrow> relay_state \<Rightarrow> relay_state" where
  "upd_log f s = s\<lparr>ulog := f (ulog s)\<rparr>"

definition milliseconds_since :: "world \<Rightarrow> go_time \<Rightarrow> relay_state \<Rightarrow> int" where
  "milliseconds_since w start s = go_quo (time_Sub (w_time w (ticks s)) start) 1000000"

text \<open>The log goes to the bounded queue of the log writer, which drops it when it is full or closed.\<close>

definition finishLog :: "world \<Rightarrow> go_time \<Rightarrow> relay_state \<Rightarrow> relay_state" where
  "finishLog w start s =
     (let l = (ulog s)\<lparr>ul_latencyMS := milliseconds_since w start s\<rparr>
      in s\<lparr>ulog := l, finished := finished s @ [(l, w_queueTakes w (ticks s))], ticks := ticks s + 1\<rparr>)"

text \<open>The ending all failures share: refund, answer, mark the log as refunded, write the log.\<close>

definition refund_and_reply :: "world \<Rightarrow> go_time \<Rightarrow> reply \<Rightarrow> (usage_log \<Rightarrow> usage_log) \<Rightarrow> relay_state \<Rightarrow> relay_state" where
  "refund_and_reply w start r f s =
     finishLog w start (upd_log (\<lambda>l. f (l\<lparr>ul_status := UsageRefunded\<rparr>)) (write_reply r (snd (db_call w Refund s))))"

section \<open>Identity and admission (pipeline.go)\<close>

record Identity =
  i_userID :: row_id
  i_user :: user_row
  i_userPolicy :: policy_raw
  i_keyID :: row_id
  i_key :: api_key_row
  i_keyPolicy :: policy_raw
  i_department :: "policy_raw option"
  i_provider :: string

definition or_zero :: "row_id option \<Rightarrow> row_id" where
  "or_zero r = (case r of None \<Rightarrow> 0 | Some i \<Rightarrow> i)"

definition DepartmentID :: "Identity \<Rightarrow> row_id" where "DepartmentID i = or_zero (u_departmentID (i_user i))"
definition IntegrationID :: "Identity \<Rightarrow> row_id" where "IntegrationID i = or_zero (u_integrationID (i_user i))"
definition ProjectID :: "Identity \<Rightarrow> row_id" where "ProjectID i = or_zero (k_projectID (i_key i))"

definition departmentPolicy :: "Identity \<Rightarrow> policy_raw" where
  "departmentPolicy i = (case i_department i of None \<Rightarrow> PolicyEmpty | Some p \<Rightarrow> p)"

definition identityAllowsModel :: "Identity \<Rightarrow> string \<Rightarrow> unit + bool" where
  "identityAllowsModel i model = AllowsModel (departmentPolicy i) (i_userPolicy i) (i_keyPolicy i) model"

fun endpointForModality :: "Modality \<Rightarrow> string" where
  "endpointForModality ModalityEmbedding = ''/v1/embeddings''"
| "endpointForModality ModalityImage = ''/v1/images/generations''"
| "endpointForModality ModalityText = msg_endpoint_text"

fun billing_mode_str :: "BillingMode \<Rightarrow> string" where
  "billing_mode_str BillPerToken = ''per_token''"
| "billing_mode_str BillPerCall = ''per_call''"

definition quoted :: "string \<Rightarrow> string" where "quoted s = CHR 0x22 # s @ [CHR 0x22]"

definition evaluateMultiplier :: "world \<Rightarrow> model_row \<Rightarrow> relay_state \<Rightarrow> int" where
  "evaluateMultiplier w m s = EvaluatePeakMultiplier (w_zone w) (m_PeakRules m) (w_time w (ticks s))"

text \<open>The refusals of \<^verbatim>\<open>prepareModel\<close>, in its order; otherwise the model, its price and the multiplier.\<close>

type_synonym err_writer = "int \<Rightarrow> string \<Rightarrow> string \<Rightarrow> reply"

definition prepareModel :: "world \<Rightarrow> Identity \<Rightarrow> string \<Rightarrow> Modality \<Rightarrow> BillingMode \<Rightarrow> err_writer \<Rightarrow> relay_state
    \<Rightarrow> (model_row \<times> Price \<times> int) option \<times> relay_state" where
  "prepareModel w i publicModel wantModality wantBilling writeErr s =
     (case identityAllowsModel i publicModel of
        Inl _ \<Rightarrow> (None, write_reply (writeErr 403 ''model_not_allowed'' msg_policy_malformed)
            (s\<lparr>policy_alerts := policy_alerts s @ [''policy_malformed:user:'' @ show_int (i_userID i)]\<rparr>))
      | Inr allowed \<Rightarrow>
        if \<not> allowed then (None, write_reply (writeErr 403 ''model_not_allowed'' (msg_key_not_allowed @ publicModel)) s)
        else case (if w_models_fail w then None else GetByName (w_models w) publicModel) of
          None \<Rightarrow> (None, write_reply (writeErr 404 ''model_not_found'' (msg_model_unknown @ publicModel)) s)
        | Some m \<Rightarrow>
          if m_Status m \<noteq> ModelEnabled
          then (None, write_reply (writeErr 404 ''model_not_found'' (msg_model_unknown @ publicModel)) s)
          else if i_provider i \<noteq> [] \<and> m_Provider m \<noteq> i_provider i
          then (None, write_reply (writeErr 400 ''model_provider_mismatch''
                 (msg_url_provider @ quoted (i_provider i) @ msg_and_model @ quoted publicModel @ msg_owner_is
                  @ quoted (m_Provider m) @ msg_mismatch)) s)
          else if m_Modality m \<noteq> wantModality
          then (None, write_reply (writeErr 400 ''model_endpoint_mismatch''
                 (msg_the_model @ publicModel @ msg_endpoint_unsupported @ endpointForModality (m_Modality m) @ msg_call_it)) s)
          else if m_BillingMode m \<noteq> wantBilling
          then (None, write_reply (writeErr 400 ''model_endpoint_mismatch''
                 (msg_the_model @ publicModel @ msg_billing_is @ billing_mode_str (m_BillingMode m)
                  @ msg_billing_mismatch)) s)
          else case m_Price m of
            None \<Rightarrow> (None, write_reply (writeErr 503 ''model_not_priced'' msg_not_priced) s)
          | Some p \<Rightarrow> (Some (m, p, evaluateMultiplier w m s), s\<lparr>ticks := ticks s + 1\<rparr>))"

section \<open>Daily limits and the precharge (pipeline.go, store/spend.go)\<close>

definition TodaySpend :: "env \<Rightarrow> row_id \<Rightarrow> go_time \<Rightarrow> db \<Rightarrow> credits option" where
  "TodaySpend e uid t d = (if stmt_fails e SelectDailySpend then None else Some (spend_of (daily_spend d) uid (day_of e t)))"

definition TodaySpendByKey :: "env \<Rightarrow> row_id \<Rightarrow> go_time \<Rightarrow> db \<Rightarrow> credits option" where
  "TodaySpendByKey e kid t d =
     (if stmt_fails e SelectKeyDailySpend then None else Some (spend_of (daily_spend_by_key d) kid (day_of e t)))"

text \<open>A refused precharge: by the early check, with what was spent and the limit, or by the billing service.\<close>

datatype pre_error = PreDaily credits credits | PreKeyDaily credits credits | PreBilling error

definition limit_check :: "credits \<Rightarrow> credits \<Rightarrow> credits option \<Rightarrow> (credits \<Rightarrow> credits \<Rightarrow> pre_error) \<Rightarrow> pre_error option" where
  "limit_check limit precharge spent err =
     (case spent of None \<Rightarrow> None
      | Some n \<Rightarrow> if wrap64 (n + precharge) > limit then Some (err n limit) else None)"

definition checkUserDailySpendLimit :: "world \<Rightarrow> Identity \<Rightarrow> credits \<Rightarrow> relay_state \<Rightarrow> pre_error option \<times> relay_state" where
  "checkUserDailySpendLimit w i precharge s =
     (let limit = u_dailySpendLimit (i_user i); n = ticks s; d = w_others w n (database s) in
      if limit \<le> 0 then (None, s)
      else (limit_check limit precharge (TodaySpend (w_env w n) (i_userID i) (w_time w n) d) PreDaily,
            s\<lparr>database := d, ticks := n + 1\<rparr>))"

definition checkKeyDailySpendLimit :: "world \<Rightarrow> Identity \<Rightarrow> credits \<Rightarrow> relay_state \<Rightarrow> pre_error option \<times> relay_state" where
  "checkKeyDailySpendLimit w i precharge s =
     (let limit = k_dailySpendLimit (i_key i); n = ticks s; d = w_others w n (database s) in
      if limit \<le> 0 then (None, s)
      else (limit_check limit precharge (TodaySpendByKey (w_env w n) (i_keyID i) (w_time w n) d) PreKeyDaily,
            s\<lparr>database := d, ticks := n + 1\<rparr>))"

definition checkDailySpendLimit :: "world \<Rightarrow> Identity \<Rightarrow> credits \<Rightarrow> relay_state \<Rightarrow> pre_error option \<times> relay_state" where
  "checkDailySpendLimit w i precharge s =
     (case checkUserDailySpendLimit w i precharge s of
        (Some e, s) \<Rightarrow> (Some e, s)
      | (None, s) \<Rightarrow> checkKeyDailySpendLimit w i precharge s)"

fun pre_error_text :: "world \<Rightarrow> pre_error \<Rightarrow> string" where
  "pre_error_text w (PreDaily spent limit) =
     msg_daily_pre @ show_int spent @ msg_limit_is @ show_int limit @ msg_credits"
| "pre_error_text w (PreKeyDaily spent limit) =
     msg_key_daily_pre @ show_int spent @ msg_limit_is @ show_int limit @ msg_credits"
| "pre_error_text w (PreBilling e) = w_error_text w e"

definition precharge_reply :: "err_writer \<Rightarrow> pre_error \<Rightarrow> reply" where
  "precharge_reply writeErr err =
     (case err of
        PreKeyDaily _ _ \<Rightarrow> writeErr 429 ''key_daily_spend_limit_exceeded'' msg_key_daily_reached
      | PreBilling ErrKeyDailyLimitExceeded \<Rightarrow>
          writeErr 429 ''key_daily_spend_limit_exceeded'' msg_key_daily_reached
      | PreDaily _ _ \<Rightarrow> writeErr 429 ''daily_spend_limit_exceeded'' msg_daily_reached
      | PreBilling ErrDailyLimitExceeded \<Rightarrow>
          writeErr 429 ''daily_spend_limit_exceeded'' msg_daily_reached
      | PreBilling ErrKeyDepleted \<Rightarrow> writeErr 402 ''key_quota_exceeded'' msg_key_quota
      | PreBilling ErrInsufficientCredits \<Rightarrow> writeErr 402 ''insufficient_credits'' msg_balance_short
      | _ \<Rightarrow> writeErr 500 ''internal_error'' msg_billing_error)"

definition request_log :: "Identity \<Rightarrow> string \<Rightarrow> string \<Rightarrow> bool \<Rightarrow> int \<Rightarrow> credits \<Rightarrow> usage_log" where
  "request_log i rid model stream multiplier precharge = zero_usage_log
     \<lparr>ul_requestID := rid, ul_userID := i_userID i, ul_apiKeyID := i_keyID i, ul_departmentID := DepartmentID i,
      ul_projectID := ProjectID i, ul_integrationID := IntegrationID i, ul_modelName := model, ul_isStream := stream,
      ul_peakMultiplierPercent := multiplier, ul_creditsPrecharged := precharge\<rparr>"

definition writeFailLog :: "world \<Rightarrow> Identity \<Rightarrow> string \<Rightarrow> string \<Rightarrow> bool \<Rightarrow> go_time \<Rightarrow> UsageStatus \<Rightarrow> ErrorClass \<Rightarrow> string
    \<Rightarrow> credits \<Rightarrow> int \<Rightarrow> relay_state \<Rightarrow> relay_state" where
  "writeFailLog w i rid model stream start status cls msg prech multiplier s =
     finishLog w start (s\<lparr>ulog := (request_log i rid model stream multiplier prech)
        \<lparr>ul_status := status, ul_errorClass := cls, ul_errorMessage := Truncate msg 500\<rparr>\<rparr>)"

definition rejectPrecharge :: "world \<Rightarrow> Identity \<Rightarrow> string \<Rightarrow> string \<Rightarrow> bool \<Rightarrow> go_time \<Rightarrow> int \<Rightarrow> pre_error \<Rightarrow> err_writer
    \<Rightarrow> relay_state \<Rightarrow> relay_state" where
  "rejectPrecharge w i rid model stream start multiplier err writeErr s =
     writeFailLog w i rid model stream start UsageFailed ErrClassNone (pre_error_text w err) 0 multiplier
       (write_reply (precharge_reply writeErr err) s)"

section \<open>Settling a served request (pipeline.go)\<close>

definition computeCost :: "world \<Rightarrow> row_id \<Rightarrow> string \<Rightarrow> NormalizedUsage \<Rightarrow> credits" where
  "computeCost w cid modelName usage =
     (if cid = 0 then 0
      else case w_cost w cid modelName of None \<Rightarrow> 0
        | Some c \<Rightarrow> ComputeCostCredits usage ((c_price c)\<lparr>AudioInputPrice := 0, AudioOutputPrice := 0\<rparr>) (c_currency c)
            (w_setting w ''usd_cny_rate_milli'') (w_setting w ''exchange_rate_credits_per_cny''))"

text \<open>\<^verbatim>\<open>json.Marshal\<close> writes the keys of a map in order and the fields of the price as declared.\<close>

definition json_field :: "string \<Rightarrow> int \<Rightarrow> string" where
  "json_field name v = quoted name @ '':'' @ show_int v"

definition price_snapshot :: "Price \<Rightarrow> int \<Rightarrow> string" where
  "price_snapshot p multiplier =
     ''{'' @ json_field ''multiplier_percent'' multiplier @ '','' @ quoted ''price'' @ '':{''
     @ json_field ''InputPrice'' (InputPrice p) @ '','' @ json_field ''OutputPrice'' (OutputPrice p) @ '',''
     @ json_field ''CacheReadPrice'' (CacheReadPrice p) @ '','' @ json_field ''CacheWritePrice'' (CacheWritePrice p) @ '',''
     @ json_field ''AudioInputPrice'' (AudioInputPrice p) @ '','' @ json_field ''AudioOutputPrice'' (AudioOutputPrice p) @ '',''
     @ json_field ''PerCallPrice'' (PerCallPrice p) @ ''}}''"

definition log_outcome :: "error option \<Rightarrow> usage_log \<Rightarrow> usage_log" where
  "log_outcome err l = (case err of
       Some _ \<Rightarrow> l\<lparr>ul_status := UsageFailed, ul_errorMessage := msg_settle_failed\<rparr>
     | None \<Rightarrow> l\<lparr>ul_status := UsageSettled\<rparr>)"

definition log_usage :: "NormalizedUsage \<Rightarrow> usage_log \<Rightarrow> usage_log" where
  "log_usage u l = l\<lparr>ul_promptTokens := wrap64 (wrap64 (BaseInput u + CacheRead u) + CacheWrite u),
     ul_completionTokens := Output u, ul_cacheReadTokens := CacheRead u, ul_cacheWriteTokens := CacheWrite u,
     ul_audioInputTokens := AudioInput u, ul_audioOutputTokens := AudioOutput u, ul_callCount := CallCount u,
     ul_usageSemantic := Semantic u, ul_usageEstimated := Estimated u\<rparr>"

definition log_charge :: "credits \<Rightarrow> BillingSession \<Rightarrow> usage_log \<Rightarrow> usage_log" where
  "log_charge final b l = (if ul_status l = UsageSettled then l\<lparr>ul_creditsCharged := final\<rparr>
     else l\<lparr>ul_creditsCharged := precharged b\<rparr>)"

definition note_audio :: "NormalizedUsage \<Rightarrow> Price \<Rightarrow> relay_state \<Rightarrow> relay_state" where
  "note_audio u p s = (if (AudioInput u > 0 \<or> AudioOutput u > 0) \<and> AudioInputPrice p \<le> 0 \<and> AudioOutputPrice p \<le> 0
     then s\<lparr>audio_zero_price := audio_zero_price s @ [wrap64 (AudioInput u + AudioOutput u)]\<rparr> else s)"

definition settleAndLog :: "world \<Rightarrow> NormalizedUsage \<Rightarrow> credits \<Rightarrow> Price \<Rightarrow> int \<Rightarrow> go_time \<Rightarrow> relay_state \<Rightarrow> relay_state" where
  "settleAndLog w usage final p multiplier start s =
     (case db_call w (\<lambda>e. Settle e final) s of (err, s) \<Rightarrow>
        let s = upd_log (log_charge final (sess s)) (upd_log (log_usage usage) (upd_log (log_outcome err) s));
            s = note_audio usage p s;
            s = upd_log (\<lambda>l. l\<lparr>ul_creditsCost := computeCost w (ul_channelID l) (ul_modelName l) usage,
                  ul_priceSnapshot := price_snapshot p multiplier\<rparr>) s
        in finishLog w start s)"

section \<open>The two kinds of responses (pipeline.go, sse.go)\<close>

record relayCtx =
  a_ds :: downstream
  a_body :: jobj
  a_bodyLen :: int
  a_flusher :: bool
  a_publicModel :: string
  a_stream :: bool
  a_price :: Price
  a_multiplier :: int
  a_start :: go_time
  a_writeErr :: err_writer
  a_affinityKey :: string
  a_affinitySrc :: affinitySource

definition contentLengthOfBody :: "relayCtx \<Rightarrow> int" where
  "contentLengthOfBody a = (if a_bodyLen a > 0 then a_bodyLen a else 0)"

definition jsonResponse :: "world \<Rightarrow> relayCtx \<Rightarrow> upstream_body \<Rightarrow> conduit \<Rightarrow> relay_state \<Rightarrow> relay_state" where
  "jsonResponse w a resp cd s =
     (if ub_read_fails resp then
        refund_and_reply w (a_start a) (a_writeErr a 502 ''upstream_error'' msg_read_failed)
          (\<lambda>l. l\<lparr>ul_errorMessage := msg_read_failed\<rparr>) s
      else case TransformResponse (w_lib w) cd (take maxRelayBodyBytes (ub_raw resp)) of
          TransformPanic \<Rightarrow> s\<lparr>panicked := True\<rparr>
        | TransformError e \<Rightarrow> refund_and_reply w (a_start a) (a_writeErr a 502 ''upstream_error'' msg_bad_response)
            (\<lambda>l. l\<lparr>ul_errorMessage := e\<rparr>) s
        | Transformed out usage usageFound \<Rightarrow>
            let usage = (if \<not> usageFound then usage\<lparr>BaseInput := estimateTokensFromText (contentLengthOfBody a),
                    Output := estimateTokensFromText (int (length out)), Estimated := True\<rparr> else usage);
                final = CalcTokenCredits usage (a_price a) (a_multiplier a)
            in write_reply (Reply 200 (BBytes out))
                 (settleAndLog w usage final (a_price a) (a_multiplier a) (a_start a) s))"

definition ssePrefixData :: string where "ssePrefixData = ''data: ''"
definition sseDoneMarker :: string where "sseDoneMarker = ''[DONE]''"

text \<open>The state of the stream loop: the conduit's, whether the client is gone, the bytes produced, the end seen.\<close>

record stream_loop =
  sl_cs :: conduit_stream
  sl_clientGone :: bool
  sl_outputBytes :: int
  sl_doneSent :: bool

fun writeFrames :: "world \<Rightarrow> string list \<Rightarrow> stream_loop \<Rightarrow> relay_state \<Rightarrow> stream_loop \<times> relay_state" where
  "writeFrames w [] l s = (l, s)"
| "writeFrames w (f # fs) l s =
     (let l = l\<lparr>sl_outputBytes := sl_outputBytes l + int (length f)\<rparr> in
      if sl_clientGone l then writeFrames w fs l s
      else if w_write_fails w (length (replies s)) then writeFrames w fs (l\<lparr>sl_clientGone := True\<rparr>) s
      else writeFrames w fs l (write_reply (Frame f) s))"

fun stream_lines :: "world \<Rightarrow> string list \<Rightarrow> stream_loop \<Rightarrow> relay_state
    \<Rightarrow> stream_loop \<times> relay_state" where
  "stream_lines w [] l s = (l, s)"
| "stream_lines w (line # lines) l s =
     (if \<not> has_prefix ssePrefixData line then stream_lines w lines l s
      else let payload = TrimSpace (drop (length ssePrefixData) line) in
        if payload = sseDoneMarker then
          (case ProcessDone (w_lib w) (sl_cs l) of (fs, cs) \<Rightarrow>
             case writeFrames w fs (l\<lparr>sl_cs := cs\<rparr>) s of (l, s) \<Rightarrow>
               stream_lines w lines (l\<lparr>sl_doneSent := True\<rparr>) s)
        else
          (case ProcessPayload (w_lib w) payload (sl_cs l) of (fs, cs) \<Rightarrow>
             case writeFrames w fs (l\<lparr>sl_cs := cs\<rparr>) s of (l, s) \<Rightarrow> stream_lines w lines l s))"

definition note_abort :: "string option \<Rightarrow> relay_state \<Rightarrow> relay_state" where
  "note_abort err s = (case err of None \<Rightarrow> s
     | Some e \<Rightarrow> upd_log (\<lambda>l. l\<lparr>ul_errorClass := ErrClassStreamAborted,
          ul_errorMessage := Truncate (msg_stream_aborted @ e) 500\<rparr>) s)"

definition streamResponse :: "world \<Rightarrow> relayCtx \<Rightarrow> upstream_body \<Rightarrow> conduit \<Rightarrow> relay_state \<Rightarrow> relay_state" where
  "streamResponse w a resp cd s =
     (if \<not> a_flusher a then
        refund_and_reply w (a_start a) (a_writeErr a 500 ''internal_error'' msg_no_stream) (\<lambda>l. l) s
      else case NewStream cd of None \<Rightarrow> s\<lparr>panicked := True\<rparr> | Some st \<Rightarrow>
        let l = \<lparr>sl_cs = st, sl_clientGone = False, sl_outputBytes = 0, sl_doneSent = False\<rparr> in
        case stream_lines w (ub_lines resp) l (write_reply StreamHead s) of (l, s) \<Rightarrow>
        let s = note_abort (ub_scan_error resp) s in
        case (if sl_doneSent l then (l, s)
              else case ProcessDone (w_lib w) (sl_cs l) of (fs, cs) \<Rightarrow> writeFrames w fs (l\<lparr>sl_cs := cs\<rparr>) s) of (l, s) \<Rightarrow>
        case stream_Usage (sl_cs l) of (usage, usageFound) \<Rightarrow>
        let usage = (if \<not> usageFound then usage\<lparr>BaseInput := estimateTokensFromText (contentLengthOfBody a),
                Output := estimateTokensFromText (sl_outputBytes l), Estimated := True\<rparr> else usage);
            final = CalcTokenCredits usage (a_price a) (a_multiplier a)
        in settleAndLog w usage final (a_price a) (a_multiplier a) (a_start a) s)"

section \<open>Trying a channel, and the next one (retry.go, pipeline.go)\<close>

definition passUpstreamError :: "world \<Rightarrow> int \<Rightarrow> string \<Rightarrow> downstream \<Rightarrow> reply" where
  "passUpstreamError w status b ds =
     (let plain = (if ds = dsAnthropic then WriteAnthropicError status ''upstream_error'' (Truncate b 300)
                   else WriteOpenAIError status ''upstream_error'' (Truncate b 300))
      in case unmarshal_any (w_lib w) b of
           Some (JObj fs) \<Rightarrow> if jget fs ''error'' \<noteq> None then Reply status (BJson (JObj fs)) else plain
         | _ \<Rightarrow> plain)"

definition upstream_status_error :: "int \<Rightarrow> relayError" where
  "upstream_status_error status = (502, ''upstream_error'', msg_upstream_http @ show_int status @ msg_close_paren)"

definition note_failure :: "world \<Rightarrow> channel \<Rightarrow> ErrorClass \<Rightarrow> int \<Rightarrow> relay_state \<Rightarrow> relay_state" where
  "note_failure w ch cls status s =
     s\<lparr>health := NoteFailure (w_setting w ''channel_disable_failure_threshold'') (w_disable_fails w) (ch_ID ch) cls status (health s)\<rparr>"

text \<open>A 200 from the upstream: the failures are forgotten, the affinity bound, the log filled in.\<close>

definition note_success :: "world \<Rightarrow> relayCtx \<Rightarrow> channel \<Rightarrow> string \<Rightarrow> relay_state \<Rightarrow> relay_state" where
  "note_success w a ch upstreamModel s =
     s\<lparr>health := NoteSuccess (ch_ID ch) (health s),
       aff_table := aff_bind (w_time w (ticks s)) (a_publicModel a) (a_affinityKey a) (ch_ID ch) (aff_table s),
       ulog := (ulog s)\<lparr>ul_channelID := ch_ID ch, ul_upstreamModel := upstreamModel, ul_protocol := ch_Protocol ch,
         ul_firstByteMS := milliseconds_since w (a_start a) s\<rparr>,
       ticks := ticks s + 1\<rparr>"

definition failed_with :: "relayError \<Rightarrow> relay_state \<Rightarrow> bool \<times> relay_state" where
  "failed_with e s = (False, s\<lparr>lastErr := e\<rparr>)"

text \<open>An answer other than 200, as both relays treat it (the second block is the same in extra\_endpoints.go).\<close>

definition upstream_refused :: "world \<Rightarrow> go_time \<Rightarrow> downstream \<Rightarrow> channel \<Rightarrow> int \<Rightarrow> string \<Rightarrow> relay_state \<Rightarrow> bool \<times> relay_state" where
  "upstream_refused w start ds ch status errBody s =
     (let errBody = take 8192 errBody; cls = ClassifyUpstreamError status errBody;
          s = note_failure w ch cls status (upd_log (\<lambda>l. l\<lparr>ul_errorClass := cls\<rparr>) s)
      in if \<not> ShouldRetryNextChannel cls
         then (True, refund_and_reply w start (passUpstreamError w status errBody ds)
            (\<lambda>l. l\<lparr>ul_channelID := ch_ID ch, ul_errorMessage := Truncate errBody 500\<rparr>) s)
         else failed_with (upstream_status_error status) s)"

definition handle_upstream :: "world \<Rightarrow> relayCtx \<Rightarrow> channel \<Rightarrow> string \<Rightarrow> conduit \<Rightarrow> upstream \<Rightarrow> relay_state
    \<Rightarrow> bool \<times> relay_state" where
  "handle_upstream w a ch upstreamModel cd resp s =
     (case resp of
        UpNetError \<Rightarrow> failed_with (502, ''upstream_error'', msg_connect_failed)
           (upd_log (\<lambda>l. l\<lparr>ul_errorClass := ErrClassTransient\<rparr>) s)
      | UpStatus status errBody \<Rightarrow> upstream_refused w (a_start a) (a_ds a) ch status errBody s
      | UpOK b \<Rightarrow>
          let s = note_success w a ch upstreamModel s
          in (True, if a_stream a then streamResponse w a b cd s else jsonResponse w a b cd s))"

definition tryChannel :: "world \<Rightarrow> relayCtx \<Rightarrow> nat \<Rightarrow> channel \<Rightarrow> relay_state \<Rightarrow> bool \<times> relay_state" where
  "tryChannel w a attempt ch s =
     (let upstreamModel = MappedModel ch (a_publicModel a) in
      case w_decrypt w (ch_APIKeyEncrypted ch) of
        None \<Rightarrow> failed_with (503, ''channel_error'', msg_channel_config) s
      | Some apiKey \<Rightarrow>
        (case newConduit (w_lib w) (a_ds a) ch (a_body a) (a_publicModel a) (a_stream a) of
           Inl e \<Rightarrow> (True, refund_and_reply w (a_start a) (a_writeErr a 400 ''invalid_request_error'' e)
              (\<lambda>l. l\<lparr>ul_errorMessage := e\<rparr>) s)
         | Inr cd \<Rightarrow>
           (case BuildRequest (w_lib w) cd ch apiKey upstreamModel of
              Inl (ErrUnsupportedFeature e) \<Rightarrow>
                (True, refund_and_reply w (a_start a) (a_writeErr a 400 ''unsupported_feature'' e)
                  (\<lambda>l. l\<lparr>ul_errorMessage := e\<rparr>) s)
            | Inl BuildFailed \<Rightarrow> failed_with (500, ''internal_error'', msg_build_failed) s
            | Inr req \<Rightarrow> handle_upstream w a ch upstreamModel cd (w_upstream w attempt ch req) s)))"

text \<open>The selector as the loop calls it: the metrics of affinity are counted on the first attempt only.\<close>

definition relay_pick :: "relayCtx \<Rightarrow> nat \<Rightarrow> relay_state \<Rightarrow> channel list \<Rightarrow> row_id set \<Rightarrow> channel option \<times> relay_state" where
  "relay_pick a attempt s cs tried =
     (case Select (a_publicModel a) (a_affinityKey a) attempt s cs tried of
        (None, s) \<Rightarrow> (None, s)
      | (Some c, s) \<Rightarrow> (Some c,
          if attempt = 0 \<and> a_affinitySrc a \<noteq> affinitySourceNone \<and> last (outcomes s) \<noteq> affinityOff
          then s\<lparr>affinity_metrics := affinity_metrics s @ [last (outcomes s)]\<rparr> else s))"

definition no_channel_reply :: "world \<Rightarrow> relayCtx \<Rightarrow> relay_state \<Rightarrow> relay_state" where
  "no_channel_reply w a s = refund_and_reply w (a_start a) (a_writeErr a 503 ''no_channel'' msg_no_channel_for_model)
     (\<lambda>l. l\<lparr>ul_errorMessage := msg_no_channel_log\<rparr>) s"

definition all_failed :: "world \<Rightarrow> go_time \<Rightarrow> err_writer \<Rightarrow> relay_state \<Rightarrow> relay_state" where
  "all_failed w start writeErr s =
     (let e = (if fst (lastErr s) = 0 then (503, ''no_channel'', msg_no_channel) else lastErr s)
      in refund_and_reply w start (writeErr (fst e) (fst (snd e)) (snd (snd e)))
           (\<lambda>l. l\<lparr>ul_errorMessage := snd (snd e)\<rparr>) s)"

definition relayWithRetry :: "world \<Rightarrow> relayCtx \<Rightarrow> string \<Rightarrow> relay_state \<Rightarrow> relay_state" where
  "relayWithRetry w a provider s =
     (case w_channels w of
        None \<Rightarrow> no_channel_reply w a s
      | Some table \<Rightarrow>
        let cs = ListEnabledForModel table (a_publicModel a) in
        if cs = [] then no_channel_reply w a s
        else let cs = filterByProvider cs provider in
        if cs = [] then no_channel_reply w a s
        else case retry_loop (relay_pick a) (tryChannel w a) 0 (nat (w_setting w ''relay_max_retries'')) cs {}
               (s\<lparr>lastErr := no_error\<rparr>) of
            ((used, True), s) \<Rightarrow> s
          | ((used, False), s) \<Rightarrow> all_failed w (a_start a) (a_writeErr a) s)"

section \<open>A chat request (pipeline.go)\<close>

record request =
  rq_body :: "json option"
  rq_len :: int
  rq_flusher :: bool
  rq_requestID :: string
  rq_clientIP :: string

text \<open>Decoding into a map: an object, or null for an empty one.\<close>

definition decode_body :: "json option \<Rightarrow> jobj option" where
  "decode_body j = (case j of Some (JObj fs) \<Rightarrow> Some fs | Some JNull \<Rightarrow> Some [] | _ \<Rightarrow> None)"

definition resolve_model :: "world \<Rightarrow> string \<Rightarrow> string" where
  "resolve_model w name =
     (if w_models_fail w then name
      else let name = (let r = ResolveAlias (w_models w) name in if r \<noteq> [] then r else name)
           in (let r = ResolveNameFold (w_models w) name in if r \<noteq> [] then r else name))"

definition chat_precharge :: "world \<Rightarrow> jobj \<Rightarrow> Price \<Rightarrow> int \<Rightarrow> credits" where
  "chat_precharge w b p multiplier =
     (let promptEstimate = estimatePromptTokens b; minTokens = w_setting w ''precharge_min_tokens'';
          promptEstimate = (if promptEstimate < minTokens then minTokens else promptEstimate);
          maxTokens = (case as_num (jget b ''max_tokens'') of
              Some mt \<Rightarrow> if mt > 0 then float_to_int64 mt else w_setting w ''precharge_default_max_tokens''
            | None \<Rightarrow> w_setting w ''precharge_default_max_tokens'')
      in CalcTokenCredits (zero_usage\<lparr>BaseInput := promptEstimate, Output := maxTokens\<rparr>) p multiplier)"

text \<open>
  A precharged request: the early check and the precharge, then \<open>served\<close>, and at the end, whatever
  happened, the deferred \<^verbatim>\<open>EnsureFinal\<close>. A panic ends \<open>served\<close> at once (the flag
  \<open>panicked\<close>); after the deferred call the recoverer of the router answers with an empty 500.
\<close>

definition recovered :: "relay_state \<Rightarrow> relay_state" where
  "recovered s = (if panicked s then write_reply (Reply 500 (BBytes [])) s else s)"

definition with_precharge :: "world \<Rightarrow> Identity \<Rightarrow> request \<Rightarrow> string \<Rightarrow> bool \<Rightarrow> go_time \<Rightarrow> int \<Rightarrow> credits \<Rightarrow> err_writer
    \<Rightarrow> (relay_state \<Rightarrow> relay_state) \<Rightarrow> relay_state \<Rightarrow> relay_state" where
  "with_precharge w i rq model stream start multiplier precharge writeErr served s =
     (let s = s\<lparr>sess := NewBillingSession (rq_requestID rq) (i_keyID i) (i_key i) (u_dailySpendLimit (i_user i))\<rparr> in
      case checkDailySpendLimit w i precharge s of
        (Some e, s) \<Rightarrow> rejectPrecharge w i (rq_requestID rq) model stream start multiplier e writeErr s
      | (None, s) \<Rightarrow>
        (case db_call w (\<lambda>e. Precharge e precharge) s of
           (Some e, s) \<Rightarrow> rejectPrecharge w i (rq_requestID rq) model stream start multiplier (PreBilling e) writeErr s
         | (None, s) \<Rightarrow> recovered (snd (db_call w EnsureFinal (served (s\<lparr>ulog :=
              (request_log i (rq_requestID rq) model stream multiplier precharge)\<lparr>ul_clientIP := rq_clientIP rq\<rparr>\<rparr>))))))"

definition handleChat :: "world \<Rightarrow> Identity \<Rightarrow> downstream \<Rightarrow> err_writer \<Rightarrow> request \<Rightarrow> relay_state \<Rightarrow> relay_state" where
  "handleChat w i ds writeErr rq s =
     (let start = w_time w (ticks s); s = s\<lparr>ticks := ticks s + 1\<rparr> in
      case decode_body (rq_body rq) of
        None \<Rightarrow> write_reply (writeErr 400 ''invalid_request_error'' msg_bad_json) s
      | Some b \<Rightarrow>
        let publicModel = str_or (jget b ''model'') in
        if publicModel = [] then write_reply (writeErr 400 ''invalid_request_error'' msg_model_missing) s
        else
        let publicModel = resolve_model w publicModel; stream = bool_or (jget b ''stream'') in
        case prepareModel w i publicModel ModalityText BillPerToken writeErr s of
          (None, s) \<Rightarrow> s
        | (Some (m, p, multiplier), s) \<Rightarrow>
          let (key, src) = extractAffinityKey b ds (i_keyID i) in
          with_precharge w i rq publicModel stream start multiplier (chat_precharge w b p multiplier) writeErr
            (relayWithRetry w \<lparr>a_ds = ds, a_body = b, a_bodyLen = rq_len rq, a_flusher = rq_flusher rq,
               a_publicModel = m_Name m, a_stream = stream, a_price = p, a_multiplier = multiplier, a_start = start,
               a_writeErr = writeErr, a_affinityKey = key, a_affinitySrc = src\<rparr> (i_provider i)) s)"

definition HandleChatCompletions :: "world \<Rightarrow> Identity \<Rightarrow> request \<Rightarrow> relay_state \<Rightarrow> relay_state" where
  "HandleChatCompletions w i rq s = handleChat w i dsOpenAI WriteOpenAIError rq s"

definition HandleMessages :: "world \<Rightarrow> Identity \<Rightarrow> request \<Rightarrow> relay_state \<Rightarrow> relay_state" where
  "HandleMessages w i rq s = handleChat w i dsAnthropic WriteAnthropicError rq s"

section \<open>Embeddings and images (extra\_endpoints.go)\<close>

definition countImageItems :: "world \<Rightarrow> string \<Rightarrow> int option" where
  "countImageItems w raw =
     (case json_Unmarshal (w_lib w) raw of
        Some (JObj fs) \<Rightarrow> (case struct_get fs ''data'' of Some (JArr xs) \<Rightarrow> Some (int (length xs)) | _ \<Rightarrow> None)
      | _ \<Rightarrow> None)"

record simpleCtx =
  sc_body :: jobj
  sc_path :: string
  sc_perCall :: bool
  sc_callCount :: int
  sc_publicModel :: string
  sc_price :: Price
  sc_multiplier :: int
  sc_start :: go_time

text \<open>The bill of an image request: the images returned when they are fewer than asked for.\<close>

definition simple_per_call :: "world \<Rightarrow> simpleCtx \<Rightarrow> string \<Rightarrow> usage_log \<Rightarrow> NormalizedUsage \<times> credits \<times> usage_log" where
  "simple_per_call w c raw l =
     (let (billedCalls, l) = (case countImageItems w raw of
              Some returned \<Rightarrow> if returned < sc_callCount c
                then (returned, l\<lparr>ul_errorMessage := msg_upstream_returned @ show_int returned
                       @ msg_fewer_than @ show_int (sc_callCount c) @ msg_billed_actual\<rparr>)
                else (sc_callCount c, l)
            | None \<Rightarrow> (sc_callCount c, l))
      in (zero_usage\<lparr>CallCount := billedCalls, Semantic := SemanticOpenAI\<rparr>,
          CalcPerCallCredits billedCalls (sc_price c) (sc_multiplier c), l))"

definition simple_per_token :: "simpleCtx \<Rightarrow> NormalizedUsage \<Rightarrow> bool \<Rightarrow> NormalizedUsage \<times> credits" where
  "simple_per_token c usage usageFound =
     (let usage = (if \<not> usageFound then usage\<lparr>BaseInput := estimateEmbeddingInputTokens (sc_body c), Estimated := True\<rparr> else usage);
          usage = usage\<lparr>Output := 0\<rparr>
      in (usage, CalcTokenCredits usage (sc_price c) (sc_multiplier c)))"

definition simple_success :: "world \<Rightarrow> simpleCtx \<Rightarrow> channel \<Rightarrow> string \<Rightarrow> relay_state \<Rightarrow> relay_state" where
  "simple_success w c ch upstreamModel s =
     s\<lparr>health := NoteSuccess (ch_ID ch) (health s),
       ulog := (ulog s)\<lparr>ul_channelID := ch_ID ch, ul_upstreamModel := upstreamModel, ul_protocol := ch_Protocol ch,
         ul_firstByteMS := milliseconds_since w (sc_start c) s\<rparr>,
       ticks := ticks s + 1\<rparr>"

definition simple_response :: "world \<Rightarrow> simpleCtx \<Rightarrow> channel \<Rightarrow> string \<Rightarrow> upstream_body \<Rightarrow> relay_state \<Rightarrow> relay_state" where
  "simple_response w c ch upstreamModel b s =
     (if ub_read_fails b then
        refund_and_reply w (sc_start c) (WriteOpenAIError 502 ''upstream_error'' msg_read_failed) (\<lambda>l. l) s
      else
        let raw = take maxRelayBodyBytes (ub_raw b);
            s = simple_success w c ch upstreamModel s;
            transformed = parseOpenAIResponse (w_lib w) raw (sc_publicModel c);
            (out, usage, usageFound) = (case transformed of Transformed out usage found \<Rightarrow> (out, usage, found) | _ \<Rightarrow> (raw, zero_usage, False));
            (usage, final, l) = (if sc_perCall c then simple_per_call w c raw (ulog s)
                else case simple_per_token c usage usageFound of (u, f) \<Rightarrow> (u, f, ulog s))
        in if transformed = TransformPanic then s\<lparr>panicked := True\<rparr>
           else write_reply (Reply 200 (BBytes out))
             (settleAndLog w usage final (sc_price c) (sc_multiplier c) (sc_start c) (s\<lparr>ulog := l\<rparr>)))"

definition simple_try :: "world \<Rightarrow> simpleCtx \<Rightarrow> nat \<Rightarrow> channel \<Rightarrow> relay_state \<Rightarrow> bool \<times> relay_state" where
  "simple_try w c attempt ch s =
     (let upstreamModel = MappedModel ch (sc_publicModel c) in
      case w_decrypt w (ch_APIKeyEncrypted ch) of
        None \<Rightarrow> failed_with (503, ''channel_error'', msg_channel_config) s
      | Some apiKey \<Rightarrow>
        (case buildOpenAIRequest (w_lib w) ch apiKey (sc_body c) upstreamModel False (sc_path c) of
           Inl _ \<Rightarrow> failed_with (500, ''internal_error'', msg_build_failed) s
         | Inr req \<Rightarrow>
           (case w_upstream w attempt ch req of
              UpNetError \<Rightarrow> failed_with (502, ''upstream_error'', msg_connect_failed)
                (upd_log (\<lambda>l. l\<lparr>ul_errorClass := ErrClassTransient\<rparr>) s)
            | UpStatus status errBody \<Rightarrow> upstream_refused w (sc_start c) dsOpenAI ch status errBody s
            | UpOK b \<Rightarrow> (True, simple_response w c ch upstreamModel b s))))"

definition simple_pick :: "nat \<Rightarrow> relay_state \<Rightarrow> channel list \<Rightarrow> row_id set \<Rightarrow> channel option \<times> relay_state" where
  "simple_pick attempt s cs tried = (SelectChannel (draw_stream s attempt) cs tried, s)"

definition simple_served :: "world \<Rightarrow> simpleCtx \<Rightarrow> Modality \<Rightarrow> string \<Rightarrow> relay_state \<Rightarrow> relay_state" where
  "simple_served w c modality provider s =
     (let channels = (case w_channels w of None \<Rightarrow> [] | Some table \<Rightarrow> ListEnabledForModel table (sc_publicModel c));
          channels = filterByProvider channels provider;
          candidates = filter (\<lambda>ch. ProtocolSupportsModality (ch_Protocol ch) modality) channels
      in if candidates = [] then
           (if channels \<noteq> [] then
              refund_and_reply w (sc_start c) (WriteOpenAIError 503 ''channel_protocol_unsupported''
                  msg_protocol_unsupported)
                (\<lambda>l. l\<lparr>ul_errorMessage := msg_protocol_unsupported_log\<rparr>) s
            else refund_and_reply w (sc_start c) (WriteOpenAIError 503 ''no_channel'' msg_no_channel_for_model)
                (\<lambda>l. l\<lparr>ul_errorMessage := msg_no_channel_log\<rparr>) s)
         else case retry_loop simple_pick (simple_try w c) 0 (nat (w_setting w ''relay_max_retries'')) candidates {}
               (s\<lparr>lastErr := no_error\<rparr>) of
            ((used, True), s) \<Rightarrow> s
          | ((used, False), s) \<Rightarrow> all_failed w (sc_start c) WriteOpenAIError s)"

definition simple_call_count :: "jobj \<Rightarrow> int" where
  "simple_call_count b = (case as_num (jget b ''n'') of Some n \<Rightarrow> if n > 0 then float_to_int64 n else 1 | None \<Rightarrow> 1)"

definition embedding_precharge :: "world \<Rightarrow> jobj \<Rightarrow> Price \<Rightarrow> int \<Rightarrow> credits" where
  "embedding_precharge w b p multiplier =
     (let est = estimateEmbeddingInputTokens b; minTokens = w_setting w ''precharge_min_tokens'';
          est = (if est < minTokens then minTokens else est)
      in CalcTokenCredits (zero_usage\<lparr>BaseInput := est\<rparr>) p multiplier)"

definition handleSimpleRelay :: "world \<Rightarrow> Identity \<Rightarrow> string \<Rightarrow> Modality \<Rightarrow> bool \<Rightarrow> request \<Rightarrow> relay_state \<Rightarrow> relay_state" where
  "handleSimpleRelay w i path modality perCall rq s =
     (let start = w_time w (ticks s); s = s\<lparr>ticks := ticks s + 1\<rparr> in
      case decode_body (rq_body rq) of
        None \<Rightarrow> write_reply (WriteOpenAIError 400 ''invalid_request_error'' msg_bad_json) s
      | Some b \<Rightarrow>
        let publicModel = str_or (jget b ''model'') in
        if publicModel = [] then write_reply (WriteOpenAIError 400 ''invalid_request_error'' msg_model_missing) s
        else
        case prepareModel w i publicModel modality (if perCall then BillPerCall else BillPerToken) WriteOpenAIError s of
          (None, s) \<Rightarrow> s
        | (Some (m, p, multiplier), s) \<Rightarrow>
          let callCount = simple_call_count b in
          if perCall \<and> PerCallPrice p \<le> 0
          then write_reply (WriteOpenAIError 503 ''model_not_priced'' msg_no_call_price) s
          else
          let precharge = (if perCall then CalcPerCallCredits callCount p multiplier else embedding_precharge w b p multiplier)
          in with_precharge w i rq publicModel False start multiplier precharge WriteOpenAIError
               (simple_served w \<lparr>sc_body = b, sc_path = path, sc_perCall = perCall, sc_callCount = callCount,
                  sc_publicModel = publicModel, sc_price = p, sc_multiplier = multiplier, sc_start = start\<rparr>
                  modality (i_provider i)) s)"

definition HandleEmbeddings :: "world \<Rightarrow> Identity \<Rightarrow> request \<Rightarrow> relay_state \<Rightarrow> relay_state" where
  "HandleEmbeddings w i rq s = handleSimpleRelay w i ''/embeddings'' ModalityEmbedding False rq s"

definition HandleImages :: "world \<Rightarrow> Identity \<Rightarrow> request \<Rightarrow> relay_state \<Rightarrow> relay_state" where
  "HandleImages w i rq s = handleSimpleRelay w i ''/images/generations'' ModalityImage True rq s"

end
