(* ===== verification/RelayProps.thy ===== *)
theory RelayProps
  imports Relay
begin

text \<open>
  What a relayed request promises: its billing session runs as session.go requires whatever the upstreams,
  the database and the client do, one usage log is handed to the log writer, and its status tells what the ledger holds.
\<close>

section \<open>The session within a request\<close>

definition relay_inv :: "string \<Rightarrow> bool \<Rightarrow> relay_state \<Rightarrow> bool" where
  "relay_inv rid rf s \<longleftrightarrow> session_run (sess s) rf (database s) \<and> requestID (sess s) = rid"

text \<open>The rest of the program keeps the books and books nothing under this request.\<close>

definition others_ok :: "world \<Rightarrow> string \<Rightarrow> bool" where
  "others_ok w rid \<longleftrightarrow> (\<forall>n d. books d \<longrightarrow> books (w_others w n d) \<and> trail rid (w_others w n d) = trail rid d)"

lemma run_books: "session_run b rf s \<Longrightarrow> books s"
  using session_run_inv by (auto simp: session_inv_def)

lemma relay_inv_others:
  assumes "relay_inv rid rf s" "others_ok w rid"
  shows "session_run (sess s) rf (w_others w n (database s))"
proof -
  have r: "session_run (sess s) rf (database s)" "requestID (sess s) = rid" using assms(1) by (auto simp: relay_inv_def)
  have "books (w_others w n (database s)) \<and> trail rid (w_others w n (database s)) = trail rid (database s)"
    using assms(2) run_books [OF r(1)] unfolding others_ok_def by blast
  then show ?thesis using session_run.others [OF r(1)] r(2) by blast
qed

lemma Refund_keeps:
  "Refund e b d = (err, b', d') \<Longrightarrow> requestID b' = requestID b \<and> precharged b' = precharged b
     \<and> (state b = statePrecharged \<longrightarrow> state b' \<in> {statePrecharged, stateRefunded})
     \<and> (state b \<noteq> statePrecharged \<longrightarrow> b' = b \<and> d' = d)"
  by (auto simp: Refund_def split: if_splits prod.splits sum.splits)

lemma EnsureFinal_keeps:
  "EnsureFinal e b d = (err, b', d') \<Longrightarrow> requestID b' = requestID b \<and> precharged b' = precharged b
     \<and> (state b = statePrecharged \<longrightarrow> state b' \<in> {statePrecharged, stateRefunded})
     \<and> (state b \<noteq> statePrecharged \<longrightarrow> b' = b \<and> d' = d)"
  using Refund_keeps [of e b d _ b' d'] by (auto simp: EnsureFinal_def split: if_splits prod.splits)

lemma Settle_keeps:
  "Settle e f b d = (err, b', d') \<Longrightarrow> requestID b' = requestID b \<and> precharged b' = precharged b
     \<and> (state b = statePrecharged \<longrightarrow> state b' = (if err = None then stateSettled else stateSettleFailed))"
  by (auto simp: Settle_def split: if_splits prod.splits sum.splits)

text \<open>What a step that does not bill leaves alone, and what a step that ends the request does.\<close>

definition same_core :: "relay_state \<Rightarrow> relay_state \<Rightarrow> bool" where
  "same_core s t \<longleftrightarrow> sess t = sess s \<and> database t = database s \<and> finished t = finished s
     \<and> ul_creditsPrecharged (ulog t) = ul_creditsPrecharged (ulog s) \<and> draw_stream t = draw_stream s"

lemma same_core_refl [simp]: "same_core s s"
  by (simp add: same_core_def)

lemma same_core_trans: "same_core s t \<Longrightarrow> same_core t u \<Longrightarrow> same_core s u"
  by (simp add: same_core_def)

definition open_at :: "string \<Rightarrow> relay_state \<Rightarrow> bool" where
  "open_at rid s \<longleftrightarrow> relay_inv rid False s \<and> state (sess s) = statePrecharged"

lemma open_at_same: "same_core s t \<Longrightarrow> open_at rid s \<Longrightarrow> open_at rid t"
  by (simp add: same_core_def open_at_def relay_inv_def)

definition ending :: "string \<Rightarrow> usage_log \<Rightarrow> relay_state \<Rightarrow> bool" where
  "ending rid l s \<longleftrightarrow>
     (ul_status l = UsageRefunded \<and> relay_inv rid True s \<and> state (sess s) \<in> {statePrecharged, stateRefunded})
   \<or> (ul_status l = UsageSettled \<and> relay_inv rid False s \<and> state (sess s) = stateSettled)
   \<or> (ul_status l = UsageFailed \<and> relay_inv rid False s \<and> state (sess s) = stateSettleFailed)"

definition ended :: "string \<Rightarrow> relay_state \<Rightarrow> relay_state \<Rightarrow> bool" where
  "ended rid s t \<longleftrightarrow> ((\<exists>l q. finished t = finished s @ [(l, q)] \<and> ul_creditsPrecharged l = ul_creditsPrecharged (ulog s)
       \<and> ending rid l t)
     \<or> (panicked t \<and> finished t = finished s \<and> open_at rid t)) \<and> precharged (sess t) = precharged (sess s) \<and> draw_stream t = draw_stream s"

lemma ended_same: "same_core s t \<Longrightarrow> ended rid t u \<Longrightarrow> ended rid s u"
  by (simp add: same_core_def ended_def)

lemma same_core_write_reply [simp]: "same_core s (write_reply r s)"
  by (simp add: same_core_def write_reply_def)

lemma ended_write_reply: "ended rid s t \<Longrightarrow> ended rid s (write_reply r t)"
  by (simp add: ended_def ending_def open_at_def relay_inv_def write_reply_def)

lemma ended_panic: "open_at rid s \<Longrightarrow> ended rid s (s\<lparr>panicked := True\<rparr>)"
  by (simp add: ended_def open_at_def relay_inv_def)

section \<open>The endings\<close>

lemma ended_refund_and_reply:
  assumes o: "open_at rid s" and w: "others_ok w rid"
    and f: "\<And>l. ul_status (f l) = ul_status l" "\<And>l. ul_creditsPrecharged (f l) = ul_creditsPrecharged l"
  shows "ended rid s (refund_and_reply w start r f s)"
proof -
  obtain err b d where R: "Refund (w_env w (ticks s)) (sess s) (w_others w (ticks s) (database s)) = (err, b, d)"
    by (metis prod.exhaust)
  have run: "session_run (sess s) False (w_others w (ticks s) (database s))"
    using relay_inv_others o w by (auto simp: open_at_def)
  have "session_run b True d" by (rule session_run.refund [OF run R])
  then show ?thesis using Refund_keeps [OF R] o
    by (simp add: ended_def ending_def relay_inv_def open_at_def refund_and_reply_def db_call_def R finishLog_def Let_def
        upd_log_def write_reply_def f)
qed

lemma ended_settleAndLog:
  assumes o: "open_at rid s" and w: "others_ok w rid" and f: "i64 final"
  shows "ended rid s (settleAndLog w usage final p m start s)"
proof -
  obtain err b d where S: "Settle (w_env w (ticks s)) final (sess s) (w_others w (ticks s) (database s)) = (err, b, d)"
    by (metis prod.exhaust)
  have run: "session_run (sess s) False (w_others w (ticks s) (database s))"
    using relay_inv_others o w by (auto simp: open_at_def)
  have r: "session_run b False d" by (rule session_run.settle [OF run f S])
  show ?thesis
    using Settle_keeps [OF S] o r
    by (cases err)
      (simp_all add: ended_def ending_def relay_inv_def open_at_def settleAndLog_def db_call_def S finishLog_def Let_def
        upd_log_def log_outcome_def log_usage_def log_charge_def note_audio_def)
qed

lemma CalcTokenCredits_i64: "i64 (CalcTokenCredits u p m)"
  using CalcTokenCredits_range [of u p m] by (auto simp: i64_def MinInt64_def)

lemma same_core_writeFrames: "writeFrames w fs l s = (l', s') \<Longrightarrow> same_core s s'"
  by (induction w fs l s arbitrary: l' s' rule: writeFrames.induct)
     (auto simp: Let_def split: if_splits intro: same_core_trans [OF same_core_write_reply])

lemma same_core_stream_lines: "stream_lines w ls l s = (l', s') \<Longrightarrow> same_core s s'"
  by (induction w ls l s arbitrary: l' s' rule: stream_lines.induct)
     (auto simp: Let_def split: if_splits prod.splits dest!: same_core_writeFrames intro: same_core_trans)

lemma same_core_note_abort [simp]: "same_core s (note_abort e s)"
  by (simp add: note_abort_def same_core_def upd_log_def split: option.split)

lemma ended_jsonResponse:
  assumes "open_at rid s" "others_ok w rid"
  shows "ended rid s (jsonResponse w a resp cd s)"
  unfolding jsonResponse_def
  by (auto simp: Let_def split: transform_result.split
      intro!: ended_refund_and_reply ended_settleAndLog ended_write_reply ended_panic assms CalcTokenCredits_i64)

lemma ended_streamResponse:
  assumes "open_at rid s" "others_ok w rid"
  shows "ended rid s (streamResponse w a resp cd s)"
proof (cases "a_flusher a")
  case False
  then show ?thesis unfolding streamResponse_def using assms by (auto intro!: ended_refund_and_reply)
next
  case True
  show ?thesis
  proof (cases "NewStream cd")
    case None
    then show ?thesis unfolding streamResponse_def using True by (simp add: ended_panic assms)
  next
    case (Some st)
    let ?l = "\<lparr>sl_cs = st, sl_clientGone = False, sl_outputBytes = 0, sl_doneSent = False\<rparr>"
    obtain l s1 where 1: "stream_lines w (ub_lines resp) ?l (write_reply StreamHead s) = (l, s1)" by fastforce
    obtain l2 s2 where 2: "(if sl_doneSent l then (l, note_abort (ub_scan_error resp) s1)
        else case ProcessDone (w_lib w) (sl_cs l) of (fs, cs) \<Rightarrow> writeFrames w fs (l\<lparr>sl_cs := cs\<rparr>) (note_abort (ub_scan_error resp) s1)) = (l2, s2)"
      by (metis prod.exhaust)
    have "same_core s s1"
      by (rule same_core_trans [OF same_core_write_reply same_core_stream_lines [OF 1]])
    moreover have "same_core (note_abort (ub_scan_error resp) s1) s2"
      using 2 by (auto split: if_splits prod.splits dest: same_core_writeFrames)
    ultimately have c: "same_core s s2" using same_core_trans same_core_note_abort by metis
    have e: "ended rid s (settleAndLog w u (CalcTokenCredits u p m) p m t0 s2)" for u p m t0
      by (rule ended_same [OF c ended_settleAndLog [OF open_at_same [OF c assms(1)] assms(2) CalcTokenCredits_i64]])
    show ?thesis unfolding streamResponse_def using True Some by (simp add: 1 2 Let_def e split: prod.split)
  qed
qed

section \<open>The loop over the channels\<close>

text \<open>A relation every step that does not finish keeps, and one the finishing step establishes.\<close>

lemma retry_loop_rel:
  assumes refl: "\<And>s. R s s" and trans: "\<And>s t u. R s t \<Longrightarrow> R t u \<Longrightarrow> R s u"
    and pick: "\<And>a s cs ex. R s (snd (pick a s cs ex))"
    and fails: "\<And>a c s s'. P s \<Longrightarrow> attempt_on a c s = (False, s') \<Longrightarrow> R s s'"
    and ends: "\<And>a c s s'. P s \<Longrightarrow> attempt_on a c s = (True, s') \<Longrightarrow> E s s'"
    and keep: "\<And>s t. R s t \<Longrightarrow> P s \<Longrightarrow> P t" and comp: "\<And>s t u. R s t \<Longrightarrow> E t u \<Longrightarrow> E s u"
    and P: "P s" and run: "retry_loop pick attempt_on a n cs ex s = ((used, fin), s')"
  shows "if fin then E s s' else R s s'"
  using P run
proof (induction n arbitrary: a ex s used)
  case 0
  then show ?case using refl by auto
next
  case (Suc n)
  obtain co s1 where p: "pick a s cs ex = (co, s1)" by fastforce
  have r1: "R s s1" using pick [of s a cs ex] p by simp
  have P1: "P s1" by (rule keep [OF r1 Suc.prems(1)])
  show ?case
  proof (cases co)
    case None
    then show ?thesis using Suc.prems(2) p r1 by auto
  next
    case (Some c)
    obtain d s2 where t: "attempt_on a c s1 = (d, s2)" by fastforce
    show ?thesis
    proof (cases d)
      case True
      then show ?thesis using Suc.prems(2) p Some t comp [OF r1 ends [OF P1]] by auto
    next
      case False
      have r2: "R s1 s2" using fails [OF P1] t False by simp
      obtain rest where "retry_loop pick attempt_on (a + 1) n cs (insert (ch_ID c) ex) s2 = ((rest, fin), s')"
        using Suc.prems(2) p Some t False by (auto split: prod.splits)
      from Suc.IH [OF keep [OF r2 P1] this] show ?thesis using r1 r2 trans comp by (auto split: if_splits)
    qed
  qed
qed

lemma same_core_upd [simp]:
  "same_core s (upd_log (\<lambda>l. l\<lparr>ul_errorClass := c\<rparr>) s)" "same_core s (note_failure w ch cls st s)"
  "same_core s (note_success w a ch m s)" "same_core s (s\<lparr>lastErr := e\<rparr>)" "same_core s (s\<lparr>ticks := n\<rparr>)"
  by (simp_all add: same_core_def upd_log_def note_failure_def note_success_def)

lemma same_core_relay_pick: "same_core s (snd (relay_pick a n s cs ex))"
proof -
  obtain co out tab where "selectWithAffinity (draw_stream s n) (clock_stream s n) cs ex (a_publicModel a) (a_affinityKey a)
      (aff_table s) = ((co, out), tab)" by (metis prod.exhaust)
  then show ?thesis by (cases co) (simp_all add: relay_pick_def Select_def same_core_def)
qed

lemma upstream_refused_ends:
  assumes o: "open_at rid s" and w: "others_ok w rid" and t: "upstream_refused w start ds ch status b s = (d, s')"
  shows "if d then ended rid s s' else same_core s s'"
proof -
  let ?cls = "ClassifyUpstreamError status (take 8192 b)"
  let ?s = "note_failure w ch ?cls status (upd_log (\<lambda>l. l\<lparr>ul_errorClass := ?cls\<rparr>) s)"
  have c: "same_core s ?s" by (rule same_core_trans [OF same_core_upd(1) same_core_upd(2)])
  show ?thesis
  proof (cases "ShouldRetryNextChannel ?cls")
    case True
    then show ?thesis using t same_core_trans [OF c same_core_upd(4) [of _ "upstream_status_error status"]]
      by (auto simp: upstream_refused_def failed_with_def Let_def)
  next
    case False
    then show ?thesis using t ended_same [OF c ended_refund_and_reply [OF open_at_same [OF c o] w]]
      by (auto simp: upstream_refused_def Let_def)
  qed
qed

lemma handle_upstream_ends:
  assumes o: "open_at rid s" and w: "others_ok w rid" and t: "handle_upstream w a ch m cd resp s = (d, s')"
  shows "if d then ended rid s s' else same_core s s'"
proof (cases resp)
  case UpNetError
  then show ?thesis using t by (auto simp: handle_upstream_def failed_with_def same_core_def upd_log_def)
next
  case (UpStatus status b)
  then show ?thesis using t upstream_refused_ends [OF o w] by (simp add: handle_upstream_def)
next
  case (UpOK b)
  have c: "same_core s (note_success w a ch m s)" by simp
  show ?thesis
    using t UpOK ended_same [OF c ended_jsonResponse [OF open_at_same [OF c o] w]]
      ended_same [OF c ended_streamResponse [OF open_at_same [OF c o] w]]
    by (auto simp: handle_upstream_def Let_def)
qed

lemma tryChannel_ends:
  assumes "open_at rid s" "others_ok w rid" "tryChannel w a n ch s = (d, s')"
  shows "if d then ended rid s s' else same_core s s'"
proof (cases "w_decrypt w (ch_APIKeyEncrypted ch)")
  case None
  then show ?thesis using assms(3) by (auto simp: tryChannel_def failed_with_def)
next
  case k: (Some apiKey)
  show ?thesis
  proof (cases "newConduit (w_lib w) (a_ds a) ch (a_body a) (a_publicModel a) (a_stream a)")
    case (Inl e)
    then show ?thesis using assms(3) k ended_refund_and_reply [OF assms(1,2)] by (auto simp: tryChannel_def)
  next
    case (Inr cd)
    let ?m = "MappedModel ch (a_publicModel a)"
    show ?thesis
    proof (cases "BuildRequest (w_lib w) cd ch apiKey ?m")
      case b: (Inl e)
      then show ?thesis using assms(3) k Inr ended_refund_and_reply [OF assms(1,2)]
        by (cases e) (auto simp: tryChannel_def failed_with_def)
    next
      case b: (Inr u)
      then show ?thesis using assms(3) k Inr handle_upstream_ends [OF assms(1,2)]
        by (auto simp: tryChannel_def)
    qed
  qed
qed

lemma ended_relayWithRetry:
  assumes "open_at rid s" "others_ok w rid"
  shows "ended rid s (relayWithRetry w a provider s)"
proof -
  have none: "ended rid s (no_channel_reply w a s)"
    unfolding no_channel_reply_def by (rule ended_refund_and_reply [OF assms]) simp_all
  show ?thesis
  proof (cases "w_channels w")
    case None
    then show ?thesis using none by (simp add: relayWithRetry_def)
  next
    case (Some table)
    let ?cs = "ListEnabledForModel table (a_publicModel a)"
    let ?fs = "filterByProvider ?cs provider"
    let ?s = "s\<lparr>lastErr := no_error\<rparr>"
    have c: "same_core s ?s" by simp
    show ?thesis
    proof (cases "?cs = [] \<or> ?fs = []")
      case True
      then show ?thesis using none Some by (auto simp: relayWithRetry_def Let_def)
    next
      case False
      obtain used fin s' where l: "retry_loop (relay_pick a) (tryChannel w a) 0 (nat (w_setting w ''relay_max_retries''))
          ?fs {} ?s = ((used, fin), s')" by (metis prod.exhaust)
      have "if fin then ended rid ?s s' else same_core ?s s'"
      proof (rule retry_loop_rel [where P = "open_at rid" and R = same_core, OF _ _ _ _ _ _ _ _ l])
        show "open_at rid ?s" by (rule open_at_same [OF c assms(1)])
      qed (use tryChannel_ends [OF _ assms(2)] in \<open>auto intro: same_core_relay_pick same_core_trans open_at_same ended_same\<close>)
      moreover have "ended rid s (all_failed w (a_start a) (a_writeErr a) s')" if "same_core ?s s'"
      proof -
        have c': "same_core s s'" by (rule same_core_trans [OF c that])
        show ?thesis unfolding all_failed_def Let_def
          by (rule ended_same [OF c' ended_refund_and_reply [OF open_at_same [OF c' assms(1)] assms(2)]]) simp_all
      qed
      ultimately show ?thesis using Some False l ended_same [OF c]
        by (cases fin) (simp_all add: relayWithRetry_def Let_def)
    qed
  qed
qed

section \<open>A whole request\<close>

text \<open>
  What the ledger may hold of a request, by the status of its log: nothing billed but the settlement, a
  returned precharge (or one still held because both refunds failed), or a precharge or settlement the
  database did not confirm.
\<close>

definition log_truth :: "UsageStatus \<Rightarrow> credits \<Rightarrow> sessionState \<Rightarrow> (LedgerEntryType \<times> credits) list \<Rightarrow> bool" where
  "log_truth st p fin t = (case st of
       UsageSettled \<Rightarrow> (\<exists>a. t = [(LedgerConsume, - p), (LedgerSettleAdjust, a)])
     | UsageRefunded \<Rightarrow> t = [(LedgerConsume, - p), (LedgerRefund, p)] \<or> (p = 0 \<and> t = [(LedgerConsume, 0)])
         \<or> (fin = statePrecharged \<and> t = [(LedgerConsume, - p)])
     | UsageFailed \<Rightarrow> t = [] \<or> (\<exists>c. t = [(LedgerConsume, c)]) \<or> (\<exists>a. t = [(LedgerConsume, - p), (LedgerSettleAdjust, a)]))"

definition outcome_of :: "string \<Rightarrow> relay_state \<Rightarrow> relay_state \<Rightarrow> bool" where
  "outcome_of rid s s' \<longleftrightarrow> books (database s')
     \<and> ((finished s' = finished s \<and> trail rid (database s') = [])
       \<or> (\<exists>l q. finished s' = finished s @ [(l, q)]
            \<and> log_truth (ul_status l) (ul_creditsPrecharged l) (state (sess s')) (trail rid (database s')))
       \<or> (panicked s' \<and> finished s' = finished s
            \<and> log_truth UsageRefunded (precharged (sess s')) (state (sess s')) (trail rid (database s'))))"

lemma ended_EnsureFinal:
  assumes e: "ended rid s t" and p: "ul_creditsPrecharged (ulog s) = precharged (sess s)" and w: "others_ok w rid"
  shows "outcome_of rid s (snd (db_call w EnsureFinal t))"
proof -
  obtain err b d where E: "EnsureFinal (w_env w (ticks t)) (sess t) (w_others w (ticks t) (database t)) = (err, b, d)"
    by (metis prod.exhaust)
  let ?o = "w_others w (ticks t) (database t)"
  obtain rf where rf: "relay_inv rid rf t" using e by (auto simp: ended_def ending_def open_at_def)
  have "session_run b True d" by (rule session_run.ensure [OF relay_inv_others [OF rf w] E])
  then have bk: "books d" and i: "session_inv b True d" using run_books session_run_inv by blast+
  have rid: "requestID b = rid" "precharged b = precharged (sess t)"
    using EnsureFinal_keeps [OF E] rf by (auto simp: relay_inv_def)
  have nr: "session_inv (sess t) rf' ?o" if "relay_inv rid rf' t" for rf'
    by (rule session_run_inv [OF relay_inv_others [OF that w]])
  have refunded: "log_truth UsageRefunded (precharged b) (state b) (trail rid d)"
    if "state (sess t) \<in> {statePrecharged, stateRefunded}"
    using that EnsureFinal_keeps [OF E] i rid by (auto simp: log_truth_def session_inv_def outcome_ok_def)
  show ?thesis
  proof (cases "\<exists>l q. finished t = finished s @ [(l, q)] \<and> ul_creditsPrecharged l = ul_creditsPrecharged (ulog s) \<and> ending rid l t")
    case True
    then obtain l q where l: "finished t = finished s @ [(l, q)]" "ul_creditsPrecharged l = precharged (sess t)" "ending rid l t"
      using e p by (auto simp: ended_def)
    have "log_truth (ul_status l) (ul_creditsPrecharged l) (state b) (trail rid d)"
      using l(3) unfolding ending_def
    proof (elim disjE conjE)
      assume "ul_status l = UsageRefunded" "state (sess t) \<in> {statePrecharged, stateRefunded}"
      then show ?thesis using refunded l(2) rid by simp
    next
      assume a: "ul_status l = UsageSettled" "state (sess t) = stateSettled" "relay_inv rid False t"
      then show ?thesis using EnsureFinal_keeps [OF E] nr [OF a(3)] l(2) rid
        by (auto simp: log_truth_def session_inv_def outcome_ok_def)
    next
      assume a: "ul_status l = UsageFailed" "state (sess t) = stateSettleFailed" "relay_inv rid False t"
      then show ?thesis using EnsureFinal_keeps [OF E] nr [OF a(3)] l(2) rid
        by (auto simp: log_truth_def session_inv_def outcome_ok_def)
    qed
    then show ?thesis using l(1) bk by (auto simp: outcome_of_def db_call_def E)
  next
    case False
    then have "panicked t" "finished t = finished s" "state (sess t) = statePrecharged"
      using e by (auto simp: ended_def open_at_def)
    then show ?thesis using refunded bk by (simp add: outcome_of_def db_call_def E)
  qed
qed

lemma outcome_recovered: "outcome_of rid s t \<Longrightarrow> outcome_of rid s (recovered t)"
  by (cases "panicked t") (auto simp: outcome_of_def recovered_def write_reply_def)

lemma outcome_reject:
  assumes "books (database s)" "finished s = finished s0" "trail rid (database s) = [] \<or> (\<exists>c. trail rid (database s) = [(LedgerConsume, c)])"
  shows "outcome_of rid s0 (rejectPrecharge w i r m st start mult err we s)"
  using assms
  by (auto simp: outcome_of_def rejectPrecharge_def writeFailLog_def finishLog_def Let_def write_reply_def log_truth_def)

lemma check_keeps:
  assumes "checkDailySpendLimit w i p s = (r, s')" "others_ok w rid" "books (database s)"
  shows "books (database s') \<and> trail rid (database s') = trail rid (database s) \<and> sess s' = sess s \<and> finished s' = finished s"
proof -
  have o: "books (w_others w n d) \<and> trail rid (w_others w n d) = trail rid d" if "books d" for n d
    using assms(2) that by (auto simp: others_ok_def)
  show ?thesis using assms(1,3) o
    by (auto simp: checkDailySpendLimit_def checkUserDailySpendLimit_def checkKeyDailySpendLimit_def Let_def
        split: prod.splits option.splits if_splits)
qed

lemma outcome_with_precharge:
  assumes rid: "rq_requestID rq = rid" "rid \<noteq> []" and b: "books (database s)" "trail rid (database s) = []"
    and w: "others_ok w rid" and p: "i64 precharge"
    and served: "\<And>t. open_at rid t \<Longrightarrow> ended rid t (served t)"
  shows "outcome_of rid s (with_precharge w i rq model stream start m precharge we served s)"
proof -
  let ?b = "NewBillingSession rid (i_keyID i) (i_key i) (u_dailySpendLimit (i_user i))"
  let ?s = "s\<lparr>sess := ?b\<rparr>"
  obtain r s1 where c: "checkDailySpendLimit w i precharge ?s = (r, s1)" by fastforce
  have s1: "books (database s1)" "trail rid (database s1) = []" "sess s1 = ?b" "finished s1 = finished s"
    using check_keeps [OF c w] b by auto
  show ?thesis
  proof (cases r)
    case (Some e)
    then show ?thesis using c s1 rid by (simp add: with_precharge_def Let_def outcome_reject)
  next
    case None
    obtain err b' d where P: "Precharge (w_env w (ticks s1)) precharge ?b (w_others w (ticks s1) (database s1)) = (err, b', d)"
      by (metis prod.exhaust)
    have run0: "session_run ?b False (w_others w (ticks s1) (database s1))"
      using w s1(1,2) rid(2) by (intro session_run.create) (auto simp: others_ok_def)
    have run: "session_run b' False d" by (rule session_run.precharge [OF run0 p P])
    show ?thesis
    proof (cases err)
      case e: (Some e)
      have "b' = ?b" using P e by (auto simp: Precharge_def split: if_splits prod.splits sum.splits)
      then have "trail rid d = [] \<or> (\<exists>c. trail rid d = [(LedgerConsume, c)])"
        using session_run_inv [OF run] by (auto simp: session_inv_def outcome_ok_def NewBillingSession_def)
      then show ?thesis using c None P e s1 rid run_books [OF run]
        by (simp add: with_precharge_def Let_def db_call_def outcome_reject)
    next
      case n: None
      have b': "precharged b' = precharge" "state b' = statePrecharged" "requestID b' = rid"
        using P n by (auto simp: Precharge_def NewBillingSession_def split: if_splits prod.splits sum.splits)
      let ?t = "s1\<lparr>sess := b', database := d, ticks := ticks s1 + 1, ulog := (request_log i rid model stream m precharge)
          \<lparr>ul_clientIP := rq_clientIP rq\<rparr>\<rparr>"
      have o: "open_at rid ?t" using b' run by (simp add: open_at_def relay_inv_def)
      have "outcome_of rid ?t (recovered (snd (db_call w EnsureFinal (served ?t))))"
        by (rule outcome_recovered [OF ended_EnsureFinal [OF served [OF o] _ w]]) (simp add: b' request_log_def)
      then show ?thesis using c None P n s1 rid by (simp add: with_precharge_def Let_def db_call_def outcome_of_def)
    qed
  qed
qed

lemma prepareModel_keeps:
  "prepareModel w i m wm wb we s = (r, s') \<Longrightarrow> database s' = database s \<and> finished s' = finished s"
  by (auto simp: prepareModel_def write_reply_def Let_def split: sum.splits if_splits option.splits)

lemma outcome_handleChat:
  assumes rid: "rq_requestID rq = rid" "rid \<noteq> []" and b: "books (database s)" "trail rid (database s) = []"
    and w: "others_ok w rid"
  shows "outcome_of rid s (handleChat w i ds we rq s)"
proof -
  have early: "outcome_of rid s t" if "database t = database s" "finished t = finished s" for t
    using that b by (simp add: outcome_of_def)
  let ?s = "s\<lparr>ticks := ticks s + 1\<rparr>"
  show ?thesis
  proof (cases "decode_body (rq_body rq)")
    case None
    then show ?thesis by (simp add: handleChat_def Let_def write_reply_def early)
  next
    case (Some bd)
    let ?m = "resolve_model w (str_or (jget bd ''model''))"
    show ?thesis
    proof (cases "str_or (jget bd ''model'') = []")
      case True
      then show ?thesis using Some by (simp add: handleChat_def Let_def write_reply_def early)
    next
      case False
      obtain r s1 where pm: "prepareModel w i ?m ModalityText BillPerToken we ?s = (r, s1)" by fastforce
      have s1: "database s1 = database s" "finished s1 = finished s" using prepareModel_keeps [OF pm] by auto
      show ?thesis
      proof (cases r)
        case None
        then show ?thesis using Some False pm s1 by (simp add: handleChat_def Let_def early)
      next
        case r: (Some mp)
        obtain m p mult where mp: "mp = (m, p, mult)" by (metis prod.exhaust)
        obtain key src where k: "extractAffinityKey bd ds (i_keyID i) = (key, src)" by fastforce
        have "outcome_of rid s1 (with_precharge w i rq ?m st start mult pre we (relayWithRetry w a pv) s1)"
          if "i64 pre" for st start pre a pv
          by (rule outcome_with_precharge [OF rid _ _ w that ended_relayWithRetry [OF _ w]]) (use s1 b in auto)
        then have "outcome_of rid s (with_precharge w i rq ?m st start mult (chat_precharge w bd p mult) we (relayWithRetry w a pv) s1)" for st start a pv
          using s1 CalcTokenCredits_i64 by (auto simp: outcome_of_def chat_precharge_def Let_def)
        then show ?thesis using Some False pm r mp k by (simp add: handleChat_def Let_def)
      qed
    qed
  qed
qed

section \<open>Embeddings and images\<close>

lemma CalcPerCallCredits_i64: "i64 (CalcPerCallCredits n p m)"
  using CalcPerCallCredits_range [of n p m] by (auto simp: i64_def MinInt64_def)

lemma simple_per_call_keeps:
  "simple_per_call w c raw l = (u, f, l') \<Longrightarrow> ul_creditsPrecharged l' = ul_creditsPrecharged l \<and> i64 f"
  using CalcPerCallCredits_i64 by (auto simp: simple_per_call_def Let_def split: option.splits if_splits)

lemma ended_simple_response:
  assumes o: "open_at rid s" and w: "others_ok w rid"
  shows "ended rid s (simple_response w c ch m b s)"
proof (cases "ub_read_fails b")
  case True
  then show ?thesis using ended_refund_and_reply [OF assms] by (simp add: simple_response_def)
next
  case False
  let ?raw = "take maxRelayBodyBytes (ub_raw b)"
  let ?s = "simple_success w c ch m s"
  have c: "same_core s ?s" by (simp add: simple_success_def same_core_def)
  have e: "ended rid s (settleAndLog w u f p mu st (?s\<lparr>ulog := l\<rparr>))"
    if "i64 f" "ul_creditsPrecharged l = ul_creditsPrecharged (ulog ?s)" for u f p mu st l
  proof -
    have c': "same_core s (?s\<lparr>ulog := l\<rparr>)" using c that(2) by (simp add: same_core_def)
    show ?thesis by (rule ended_same [OF c' ended_settleAndLog [OF open_at_same [OF c' o] w that(1)]])
  qed
  let ?t = "parseOpenAIResponse (w_lib w) ?raw (sc_publicModel c)"
  obtain out us fd where t: "(case ?t of Transformed out us fd \<Rightarrow> (out, us, fd) | _ \<Rightarrow> (?raw, zero_usage, False)) = (out, us, fd)"
    by (metis prod.exhaust)
  obtain u f l where k: "(if sc_perCall c then simple_per_call w c ?raw (ulog ?s)
      else case simple_per_token c us fd of (u, f) \<Rightarrow> (u, f, ulog ?s)) = (u, f, l)" by (metis prod.exhaust)
  have "i64 f \<and> ul_creditsPrecharged l = ul_creditsPrecharged (ulog ?s)"
  proof (cases "sc_perCall c")
    case True
    then show ?thesis using k simple_per_call_keeps [of w c ?raw "ulog ?s" u f l] by simp
  next
    case False
    then show ?thesis using k CalcTokenCredits_i64 by (auto simp: simple_per_token_def Let_def)
  qed
  moreover have "ended rid s (?s\<lparr>panicked := True\<rparr>)"
    by (rule ended_same [OF c ended_panic [OF open_at_same [OF c o]]])
  ultimately show ?thesis using False e by (simp add: simple_response_def Let_def t k ended_write_reply)
qed

lemma simple_try_ends:
  assumes "open_at rid s" "others_ok w rid" "simple_try w c n ch s = (d, s')"
  shows "if d then ended rid s s' else same_core s s'"
proof (cases "w_decrypt w (ch_APIKeyEncrypted ch)")
  case None
  then show ?thesis using assms(3) by (auto simp: simple_try_def failed_with_def)
next
  case k: (Some apiKey)
  let ?m = "MappedModel ch (sc_publicModel c)"
  show ?thesis
  proof (cases "buildOpenAIRequest (w_lib w) ch apiKey (sc_body c) ?m False (sc_path c)")
    case (Inl e)
    then show ?thesis using assms(3) k by (auto simp: simple_try_def failed_with_def)
  next
    case (Inr u)
    show ?thesis
    proof (cases "w_upstream w n ch u")
      case UpNetError
      then show ?thesis using assms(3) k Inr by (auto simp: simple_try_def failed_with_def same_core_def upd_log_def)
    next
      case (UpStatus st b)
      then show ?thesis using assms(3) k Inr upstream_refused_ends [OF assms(1,2)] by (simp add: simple_try_def)
    next
      case (UpOK b)
      then show ?thesis using assms(3) k Inr ended_simple_response [OF assms(1,2)] by (auto simp: simple_try_def)
    qed
  qed
qed

lemma ended_simple_served:
  assumes "open_at rid s" "others_ok w rid"
  shows "ended rid s (simple_served w c modality provider s)"
proof -
  let ?s = "s\<lparr>lastErr := no_error\<rparr>"
  have c: "same_core s ?s" by simp
  have loop: "ended rid s (case retry_loop simple_pick (simple_try w c) 0 n cs {} ?s of
      ((used, True), s) \<Rightarrow> s | ((used, False), s) \<Rightarrow> all_failed w st we s)" for n cs st we
  proof -
    obtain used fin s' where l: "retry_loop simple_pick (simple_try w c) 0 n cs {} ?s = ((used, fin), s')" by (metis prod.exhaust)
    have "if fin then ended rid ?s s' else same_core ?s s'"
    proof (rule retry_loop_rel [where P = "open_at rid" and R = same_core, OF _ _ _ _ _ _ _ _ l])
      show "open_at rid ?s" by (rule open_at_same [OF c assms(1)])
    qed (use simple_try_ends [OF _ assms(2)] in \<open>auto simp: simple_pick_def intro: same_core_trans open_at_same ended_same\<close>)
    moreover have "ended rid s (all_failed w st we s')" if "same_core ?s s'"
    proof -
      have c': "same_core s s'" by (rule same_core_trans [OF c that])
      show ?thesis unfolding all_failed_def Let_def
        by (rule ended_same [OF c' ended_refund_and_reply [OF open_at_same [OF c' assms(1)] assms(2)]]) simp_all
    qed
    ultimately show ?thesis using l ended_same [OF c] by (cases fin) simp_all
  qed
  show ?thesis unfolding simple_served_def Let_def
    by (auto intro!: ended_refund_and_reply [OF assms] loop)
qed

lemma outcome_handleSimpleRelay:
  assumes rid: "rq_requestID rq = rid" "rid \<noteq> []" and b: "books (database s)" "trail rid (database s) = []"
    and w: "others_ok w rid"
  shows "outcome_of rid s (handleSimpleRelay w i path modality perCall rq s)"
proof -
  have early: "outcome_of rid s t" if "database t = database s" "finished t = finished s" for t
    using that b by (simp add: outcome_of_def)
  show ?thesis
  proof (cases "decode_body (rq_body rq)")
    case None
    then show ?thesis by (simp add: handleSimpleRelay_def Let_def write_reply_def early)
  next
    case (Some bd)
    let ?m = "str_or (jget bd ''model'')"
    obtain r s1 where pm: "prepareModel w i ?m modality (if perCall then BillPerCall else BillPerToken) WriteOpenAIError
        (s\<lparr>ticks := ticks s + 1\<rparr>) = (r, s1)" by fastforce
    have s1: "database s1 = database s" "finished s1 = finished s" using prepareModel_keeps [OF pm] by auto
    show ?thesis
    proof (cases "?m = [] \<or> r = None")
      case True
      then show ?thesis using Some pm s1
        by (cases "?m = []") (auto simp: handleSimpleRelay_def Let_def write_reply_def early)
    next
      case False
      then obtain m p mult where r: "r = Some (m, p, mult)" by (metis option.exhaust prod.exhaust)
      have go: "outcome_of rid s (with_precharge w i rq ?m False st mult pre WriteOpenAIError (simple_served w c md pv) s1)"
        if "i64 pre" for st pre c md pv
      proof -
        have "outcome_of rid s1 (with_precharge w i rq ?m False st mult pre WriteOpenAIError (simple_served w c md pv) s1)"
          by (rule outcome_with_precharge [OF rid _ _ w that ended_simple_served [OF _ w]]) (use s1 b in auto)
        then show ?thesis using s1 by (simp add: outcome_of_def)
      qed
      have pre: "i64 (if perCall then CalcPerCallCredits n p mult else embedding_precharge w bd p mult)" for n
        using CalcPerCallCredits_i64 CalcTokenCredits_i64 by (simp add: embedding_precharge_def Let_def)
      show ?thesis
      proof (cases "perCall \<and> PerCallPrice p \<le> 0")
        case True
        then show ?thesis using Some False pm r s1 by (simp add: handleSimpleRelay_def Let_def write_reply_def early)
      next
        case ok: False
        have "str_or (jget bd ''model'') \<noteq> []" using False by blast
        then show ?thesis using Some pm r go [OF pre] unfolding handleSimpleRelay_def
          by (simp only: Let_def option.case prod.case if_False ok simp_thms)
      qed
    qed
  qed
qed

section \<open>The interface to the selectors\<close>

lemma fair_relay_pick: "fair_state s \<Longrightarrow> fair_state (snd (relay_pick a n s cs ex))"
  using same_core_relay_pick [of s a n cs ex] by (simp add: same_core_def fair_state_def)

lemma fst_relay_pick:
  "fst (relay_pick a n s cs ex) = fst (Select (a_publicModel a) (a_affinityKey a) n s cs ex)"
  by (simp add: relay_pick_def split: prod.split option.split)

interpretation relay_choice: channel_picker "relay_pick a" fair_state
proof
  fix s n cs ex c
  show "fair_state s \<Longrightarrow> fair_state (snd (relay_pick a n s cs ex))" by (rule fair_relay_pick)
  show "candidates cs \<Longrightarrow> fair_state s \<Longrightarrow> fst (relay_pick a n s cs ex) = Some c \<Longrightarrow>
      c \<in> set cs \<and> ch_ID c \<notin> ex \<and> (\<forall>d \<in> set cs. ch_ID d \<notin> ex \<longrightarrow> ch_Priority d \<le> ch_Priority c)"
    unfolding fst_relay_pick by (rule selector.pick_sound)
  show "candidates cs \<Longrightarrow> fair_state s \<Longrightarrow> fst (relay_pick a n s cs ex) = None \<Longrightarrow> \<forall>d \<in> set cs. ch_ID d \<in> ex"
    unfolding fst_relay_pick by (rule selector.pick_complete)
qed

interpretation simple_choice: channel_picker simple_pick fair_state
proof
  fix s n cs ex c
  show "fair_state s \<Longrightarrow> fair_state (snd (simple_pick n s cs ex))" by (simp add: simple_pick_def)
  show "candidates cs \<Longrightarrow> fair_state s \<Longrightarrow> fst (simple_pick n s cs ex) = Some c \<Longrightarrow>
      c \<in> set cs \<and> ch_ID c \<notin> ex \<and> (\<forall>d \<in> set cs. ch_ID d \<notin> ex \<longrightarrow> ch_Priority d \<le> ch_Priority c)"
    using SelectChannel_ok [of cs "draw_stream s n" ex] by (simp add: simple_pick_def fair_state_def)
  show "candidates cs \<Longrightarrow> fair_state s \<Longrightarrow> fst (simple_pick n s cs ex) = None \<Longrightarrow> \<forall>d \<in> set cs. ch_ID d \<in> ex"
    using SelectChannel_ok [of cs "draw_stream s n" ex] by (simp add: simple_pick_def fair_state_def)
qed

lemma draws_writeFrames: "writeFrames w fs l s = (l', s') \<Longrightarrow> draw_stream s' = draw_stream s"
  using same_core_writeFrames [of w fs l s l' s'] by (auto simp: same_core_def)

lemma draws_stream_lines: "stream_lines w ls l s = (l', s') \<Longrightarrow> draw_stream s' = draw_stream s"
  using same_core_stream_lines [of w ls l s l' s'] by (auto simp: same_core_def)

lemma draws_simps [simp]:
  "draw_stream (write_reply r s) = draw_stream s" "draw_stream (upd_log f s) = draw_stream s"
  "draw_stream (finishLog w t s) = draw_stream s" "draw_stream (snd (db_call w g s)) = draw_stream s"
  "draw_stream (note_audio u p s) = draw_stream s" "draw_stream (note_failure w c k st s) = draw_stream s"
  "draw_stream (note_success w a c m s) = draw_stream s" "draw_stream (note_abort e s) = draw_stream s"
  "draw_stream (snd (failed_with le s)) = draw_stream s"
  by (simp_all add: write_reply_def upd_log_def finishLog_def Let_def db_call_def note_audio_def note_failure_def
      note_success_def note_abort_def failed_with_def split: prod.split option.split)

lemma draws_refund_and_reply [simp]: "draw_stream (refund_and_reply w t r f s) = draw_stream s"
  by (simp add: refund_and_reply_def)

lemma draws_settleAndLog [simp]: "draw_stream (settleAndLog w u f p m t s) = draw_stream s"
proof -
  obtain err s1 where d: "db_call w (\<lambda>e. Settle e f) s = (err, s1)" by fastforce
  then have "draw_stream s1 = draw_stream s" using draws_simps(4) [of w "\<lambda>e. Settle e f" s] by simp
  then show ?thesis by (simp add: settleAndLog_def d Let_def)
qed

lemma draws_jsonResponse [simp]: "draw_stream (jsonResponse w a b cd s) = draw_stream s"
  by (simp add: jsonResponse_def Let_def split: transform_result.split)

lemma draws_streamResponse [simp]: "draw_stream (streamResponse w a b cd s) = draw_stream s"
proof (cases "a_flusher a")
  case True
  show ?thesis
  proof (cases "NewStream cd")
    case (Some st)
    obtain l s1 where 1: "stream_lines w (ub_lines b) \<lparr>sl_cs = st, sl_clientGone = False,
        sl_outputBytes = 0, sl_doneSent = False\<rparr> (write_reply StreamHead s) = (l, s1)" by fastforce
    obtain l2 s2 where 2: "(if sl_doneSent l then (l, note_abort (ub_scan_error b) s1)
        else case ProcessDone (w_lib w) (sl_cs l) of (fs, cs) \<Rightarrow> writeFrames w fs (l\<lparr>sl_cs := cs\<rparr>) (note_abort (ub_scan_error b) s1)) = (l2, s2)"
      by (metis prod.exhaust)
    have "draw_stream s2 = draw_stream s"
      using 2 draws_stream_lines [OF 1] by (auto split: if_splits prod.splits dest: draws_writeFrames)
    then show ?thesis using True Some by (simp add: streamResponse_def 1 2 Let_def split: prod.split)
  qed (use True in \<open>simp add: streamResponse_def\<close>)
qed (simp add: streamResponse_def)

lemma draws_handle_upstream: "draw_stream (snd (handle_upstream w a ch m cd resp s)) = draw_stream s"
  by (simp add: handle_upstream_def upstream_refused_def Let_def split: upstream.split)

lemma fair_tryChannel: "fair_state s \<Longrightarrow> fair_state (snd (tryChannel w a n ch s))"
  by (auto simp: draws_handle_upstream fair_state_def tryChannel_def Let_def split: option.split sum.split build_error.split)

interpretation relay_retry: channel_retry "relay_pick a" fair_state "tryChannel w a"
  by unfold_locales (rule fair_tryChannel)

section \<open>Properties\<close>

text \<open>A concrete world and request for the witnesses: one model, one channel, an upstream that answers.\<close>

definition demo_price :: Price where
  "demo_price = \<lparr>InputPrice = 0, OutputPrice = 1000000, CacheReadPrice = 0, CacheWritePrice = 0, AudioInputPrice = 0,
     AudioOutputPrice = 0, PerCallPrice = 2\<rparr>"

definition demo_model :: model_row where
  "demo_model = \<lparr>m_Name = ''m'', m_Modality = ModalityText, m_BillingMode = BillPerToken, m_Status = ModelEnabled,
     m_Provider = ''openai'', m_Alias = [], m_Price = Some demo_price, m_PeakRules = []\<rparr>"

definition demo_world :: world where
  "demo_world = \<lparr>w_env = (\<lambda>_. demo_env), w_others = (\<lambda>_ d. d), w_time = (\<lambda>_. 0), w_zone = (\<lambda>_. None),
     w_setting = (\<lambda>k. if k = ''relay_max_retries'' then 3 else 4), w_models = [demo_model], w_models_fail = False,
     w_channels = Some [channel0 1 5 2], w_cost = (\<lambda>_ _. None), w_decrypt = Some,
     w_lib = one_document (JObj [(''usage'', JObj [(''completion_tokens'', jint 3)])]),
     w_upstream = (\<lambda>_ _ _. UpOK \<lparr>ub_raw = ''document'', ub_read_fails = False,
       ub_lines = [], ub_scan_error = None\<rparr>), w_write_fails = (\<lambda>_. False),
     w_error_text = (\<lambda>_. []), w_disable_fails = False, w_queueTakes = (\<lambda>_. True)\<rparr>"

definition demo_identity :: Identity where
  "demo_identity = \<lparr>i_userID = 1, i_user = demo_user, i_userPolicy = PolicyEmpty, i_keyID = 7, i_key = demo_key,
     i_keyPolicy = PolicyEmpty, i_department = None, i_provider = []\<rparr>"

definition demo_request :: request where
  "demo_request = \<lparr>rq_body = Some (JObj [(''model'', JStr ''m''), (''max_tokens'', jint 4)]), rq_len = 40, rq_flusher = True,
     rq_requestID = ''r9'', rq_clientIP = []\<rparr>"

definition demo_state :: relay_state where
  "demo_state = \<lparr>draw_stream = (\<lambda>_ _. 0), clock_stream = (\<lambda>_. 0), aff_table = [], outcomes = [], database = demo_db,
     sess = demo_session, health = \<lparr>fatal_failures = (\<lambda>_. None), channels = [], disable_alerts = []\<rparr>,
     ulog = zero_usage_log, lastErr = no_error, finished = [], replies = [], policy_alerts = [], audio_zero_price = [],
     affinity_metrics = [], panicked = False, ticks = 0\<rparr>"

lemma demo_world_ok: "others_ok demo_world rid" "books (database demo_state)" "trail ''r9'' (database demo_state) = []"
  using run_books [OF demo_session_run]
  by (simp_all add: others_ok_def demo_world_def demo_state_def trail_def demo_db_def demo_entry_def)

text \<open>C3. Whatever the upstreams answer, the client does, the database refuses or loses, and the rest of the program
  does meanwhile, a chat request ends in one of three ways. It was turned away: nothing is booked and there is no usage log. Or
  exactly one usage log was handed to the log writer (whose bounded queue may drop it), and its status tells what the ledger
  holds: settled means one precharge and one settlement, refunded means the precharge returned (or still held, the session
  unfinished, when the database refused both refunds), and failed never means a settlement on top of a refund. Or its handling
  panicked (as an upstream's null body makes it): there is no log, and the ledger holds what it does for a refunded one. The books stay
  exact in every case.\<close>

theorem chat_request_accounted:
  assumes "rq_requestID rq = rid" "rid \<noteq> []" "books (database s)" "trail rid (database s) = []" "others_ok w rid"
  shows "outcome_of rid s (handleChat w i ds writeErr rq s)"
  by (rule outcome_handleChat [OF assms])

theorem chat_request_accounted_witness:
  "outcome_of ''r9'' demo_state (handleChat demo_world demo_identity dsOpenAI WriteOpenAIError demo_request demo_state)"
  by (rule chat_request_accounted) (simp_all add: demo_world_ok demo_request_def)

text \<open>The same accounting holds for embedding and image requests.\<close>

theorem simple_request_accounted:
  assumes "rq_requestID rq = rid" "rid \<noteq> []" "books (database s)" "trail rid (database s) = []" "others_ok w rid"
  shows "outcome_of rid s (handleSimpleRelay w i path modality perCall rq s)"
  by (rule outcome_handleSimpleRelay [OF assms])

theorem simple_request_accounted_witness:
  "outcome_of ''r9'' demo_state (handleSimpleRelay demo_world demo_identity ''/embeddings'' ModalityEmbedding False
     demo_request demo_state)"
  by (rule simple_request_accounted) (simp_all add: demo_world_ok demo_request_def)

text \<open>C32. The loop over the channels tries at most the configured number, each channel once, only enabled
  channels of the locked provider that serve the model, never one of a higher priority after one of a lower; and
  when it gives up, it has used all its tries or has tried every such channel.\<close>

theorem relay_tries_channels:
  assumes "channel_rows table" "fair_state s"
    and "cs = filterByProvider (ListEnabledForModel table model) provider"
    and "retry_loop (relay_pick a) (tryChannel w a) 0 n cs {} s = ((used, fin), s')"
  shows "length used \<le> n \<and> distinct (map ch_ID used) \<and> set used \<subseteq> set cs
    \<and> sorted_wrt (\<lambda>c d. ch_Priority d \<le> ch_Priority c) used
    \<and> (fin \<or> length used = n \<or> ch_ID ` set cs \<subseteq> ch_ID ` set used)"
proof -
  have c: "candidates cs"
    unfolding assms(3) by (rule candidates_filterByProvider [OF candidates_ListEnabledForModel [OF assms(1)]])
  show ?thesis
    using relay_retry.loop_attempts [OF c assms(2,4)] relay_retry.loop_priorities [OF c assms(2,4)]
      relay_retry.loop_exhaustive [OF c assms(2), of a w 0 n "{}" used s'] assms(4) by (cases fin) auto
qed

definition demo_ctx :: relayCtx where
  "demo_ctx = \<lparr>a_ds = dsOpenAI, a_body = [], a_bodyLen = 0, a_flusher = True, a_publicModel = ''m'', a_stream = False,
     a_price = demo_price, a_multiplier = 100, a_start = 0, a_writeErr = WriteOpenAIError, a_affinityKey = [],
     a_affinitySrc = affinitySourceNone\<rparr>"

theorem relay_tries_channels_witness:
  "length (fst (fst (retry_loop (relay_pick demo_ctx) (tryChannel (demo_world\<lparr>w_decrypt := \<lambda>_. None\<rparr>) demo_ctx) 0 2
     (filterByProvider (ListEnabledForModel [channel0 1 5 2, channel0 2 5 0, channel0 3 1 7] ''m'') []) {} demo_state))) \<le> 2"
proof -
  let ?cs = "filterByProvider (ListEnabledForModel [channel0 1 5 2, channel0 2 5 0, channel0 3 1 7] ''m'') []"
  obtain used fin s' where r: "retry_loop (relay_pick demo_ctx) (tryChannel (demo_world\<lparr>w_decrypt := \<lambda>_. None\<rparr>) demo_ctx) 0 2
      ?cs {} demo_state = ((used, fin), s')" by (metis prod.exhaust)
  have "channel_rows [channel0 1 5 2, channel0 2 5 0, channel0 3 1 7]" "fair_state demo_state"
    by (simp_all add: channel_rows_def fair_state_def fair_rnd_def demo_state_def)
  from relay_tries_channels [OF this refl r] show ?thesis unfolding r by simp
qed

text \<open>A request for half an image is free: the count of images is truncated to zero, so nothing is
  precharged and nothing billed, however many images the upstream returns.\<close>

theorem fractional_image_count_is_free:
  "CalcPerCallCredits (simple_call_count ((''n'', JNum (1/2)) # b)) p m = 0
   \<and> fst (snd (simple_per_call w (c\<lparr>sc_callCount := simple_call_count ((''n'', JNum (1/2)) # b)\<rparr>) raw l)) = 0"
proof -
  have "\<lfloor>1 / 2 :: rat\<rfloor> = 0" by (rule floor_unique) simp_all
  then have z: "simple_call_count ((''n'', JNum (1/2)) # b) = 0"
    by (simp add: simple_call_count_def float_to_int64_def i64_def MinInt64_def MaxInt64_def)
  have f: "CalcPerCallCredits 0 p m = 0" for p m
    by (simp add: CalcPerCallCredits_def addMul_def ceilBigDiv_def Let_def BaseMultiplierPercent_def MaxInt64_def)
  have "\<not> r < 0" if "countImageItems w raw = Some r" for r
    using that by (auto simp: countImageItems_def split: option.splits json.splits)
  then show ?thesis unfolding z by (auto simp: f simple_per_call_def Let_def split: option.split)
qed

text \<open>A \<^verbatim>\<open>max\_tokens\<close> beyond 64 bits turns negative when it is converted, and the precharge
  then covers the prompt only.\<close>

theorem huge_max_tokens_precharges_prompt_only:
  "chat_precharge w ((''max_tokens'', JNum 10000000000000000000) # b) p m
     = CalcTokenCredits (zero_usage\<lparr>BaseInput := max (estimatePromptTokens b) (w_setting w ''precharge_min_tokens'')\<rparr>) p m"
proof -
  have e: "estimatePromptTokens ((''max_tokens'', JNum 10000000000000000000) # b) = estimatePromptTokens b"
    by (simp add: estimatePromptTokens_def)
  have f: "float_to_int64 10000000000000000000 = MinInt64"
    by (simp add: float_to_int64_def i64_def MinInt64_def MaxInt64_def)
  show ?thesis by (auto simp: chat_precharge_def e f Let_def CalcTokenCredits_def addMul_def MinInt64_def zero_usage_def max_def)
qed

end
