(* ===== verification/ConduitProps.thy ===== *)
theory ConduitProps
  imports Conduit Choice
begin

text \<open>
  What the conduits promise: the exact request a passed-through call makes, which cross-format requests are refused, and
  that a stream for an Anthropic client fed by a Gemini upstream always is a complete message.
\<close>

section \<open>The request that is sent\<close>

lemma jget_apply_params:
  "jget (apply_params ch b) k = (case map_of (rev (ParamOverrides ch)) k of Some v \<Rightarrow> Some v | None \<Rightarrow> jget b k)"
proof -
  have "jget (fold (\<lambda>(k, v) b. jset k v b) ps b) k = (case map_of (rev ps) k of Some v \<Rightarrow> Some v | None \<Rightarrow> jget b k)" for ps
    by (induction ps rule: rev_induct) (auto split: prod.split option.split)
  then show ?thesis by (simp add: apply_params_def)
qed

lemma header_get: "map_of (header_set k v hs) k' = (if k' = to_lower k then Some v else map_of hs k')"
  by (simp add: header_set_def update_conv')

lemma header_kept: "n \<notin> (\<lambda>(k, v). to_lower k) ` set hs' \<Longrightarrow> map_of (fold (\<lambda>(k, v) hs. header_set k v hs) hs' hs) n = map_of hs n"
proof (induction hs' arbitrary: hs)
  case (Cons h hs')
  obtain k v where h: "h = (k, v)" by fastforce
  have "to_lower k \<noteq> n" "n \<notin> (\<lambda>(k, v). to_lower k) ` set hs'" using Cons.prems h by force+
  then show ?case using Cons.IH [of "header_set k v hs"] h by (auto simp: header_get)
qed simp

definition overridden :: "channel \<Rightarrow> string \<Rightarrow> bool" where
  "overridden ch n \<longleftrightarrow> n \<in> (\<lambda>(k, v). to_lower k) ` set (HeaderOverrides ch)"

lemma lower_names: "to_lower ''authorization'' = ''authorization''" "to_lower ''content-type'' = ''content-type''"
  "to_lower ''x-api-key'' = ''x-api-key''" "to_lower ''anthropic-version'' = ''anthropic-version''"
  by (simp_all add: to_lower_def lower_char_def)

lemma new_request_exact:
  assumes "http_url_ok lib (trim_right_slash (ch_BaseURL ch) @ path)"
  obtains r where "new_request lib ch path headers b = Inr r" "hr_url r = trim_right_slash (ch_BaseURL ch) @ path"
    "hr_body r = json_Marshal lib (JObj b)"
    "\<And>n. \<not> overridden ch n \<Longrightarrow> map_of (hr_headers r) n
       = map_of (fold (\<lambda>(k, v) hs. header_set k v hs) headers [(''content-type'', ''application/json'')]) n"
  using assms that by (simp add: new_request_def apply_headers_def overridden_def header_kept)

text \<open>The path of a chat call in the format of a client, and the headers that carry the channel's key.\<close>

definition pass_path :: "downstream \<Rightarrow> string" where
  "pass_path ds = (if ds = dsOpenAI then ''/chat/completions'' else ''/v1/messages'')"

definition key_headers :: "downstream \<Rightarrow> string \<Rightarrow> (string \<times> string) list" where
  "key_headers ds apiKey = (if ds = dsOpenAI then [(''authorization'', ''Bearer '' @ apiKey)]
     else [(''x-api-key'', apiKey), (''anthropic-version'', ''2023-06-01'')])"

text \<open>C28. A call whose client and channel speak the same format (OpenAI or Anthropic) is passed through: what is sent is the client's
  body with nothing changed but the model, the parameters the channel overrides and, for an OpenAI stream, the usage option (kept
  beside the client's own stream options); it goes to the channel's base URL at the path of the format, as JSON, with the channel's
  key in the header of the format (and the version header of Anthropic), unless the channel overrides a header.\<close>

theorem passthrough_request_exact:
  assumes "http_url_ok lib (trim_right_slash (ch_BaseURL ch) @ pass_path ds)"
    and "ch_Protocol ch = (if ds = dsOpenAI then ''openai_compat'' else ''anthropic'')"
  shows "\<exists>cd r b. newConduit lib ds ch body publicModel stream = Inr cd \<and> BuildRequest lib cd ch apiKey upstreamModel = Inr r
    \<and> hr_url r = trim_right_slash (ch_BaseURL ch) @ pass_path ds \<and> hr_body r = json_Marshal lib (JObj b)
    \<and> jget b = (\<lambda>k. case map_of (rev (ParamOverrides ch)) k of Some v \<Rightarrow> Some v | None \<Rightarrow>
         if k = ''model'' then Some (JStr upstreamModel)
         else if k = ''stream_options'' \<and> stream \<and> ds = dsOpenAI
         then Some (JObj (jset ''include_usage'' (JBool True) (obj_or (jget body ''stream_options''))))
         else jget body k)
    \<and> (\<forall>(n, v) \<in> set ((''content-type'', ''application/json'') # key_headers ds apiKey).
         overridden ch n \<or> map_of (hr_headers r) n = Some v)"
proof (cases ds)
  case dsOpenAI
  have u: "http_url_ok lib (trim_right_slash (ch_BaseURL ch) @ ''/chat/completions'')" using assms(1) by (simp add: pass_path_def dsOpenAI)
  let ?b = "openai_sent_body ch upstreamModel stream body"
  obtain r where r: "new_request lib ch ''/chat/completions'' [(''authorization'', ''Bearer '' @ apiKey)] ?b = Inr r"
    "hr_url r = trim_right_slash (ch_BaseURL ch) @ ''/chat/completions''" "hr_body r = json_Marshal lib (JObj ?b)"
    "\<And>n. \<not> overridden ch n \<Longrightarrow> map_of (hr_headers r) n = map_of (fold (\<lambda>(k, v) hs. header_set k v hs)
       [(''authorization'', ''Bearer '' @ apiKey)] [(''content-type'', ''application/json'')]) n"
    using new_request_exact [OF u] by metis
  have "jget ?b = (\<lambda>k. case map_of (rev (ParamOverrides ch)) k of Some v \<Rightarrow> Some v | None \<Rightarrow>
         if k = ''model'' then Some (JStr upstreamModel)
         else if k = ''stream_options'' \<and> stream \<and> ds = dsOpenAI
         then Some (JObj (jset ''include_usage'' (JBool True) (obj_or (jget body ''stream_options''))))
         else jget body k)"
    by (auto simp: openai_sent_body_def jget_apply_params with_usage_option_def fun_eq_iff dsOpenAI split: option.split)
  moreover have "overridden ch n \<or> map_of (hr_headers r) n = Some v"
    if "(n, v) \<in> set ((''content-type'', ''application/json'') # key_headers ds apiKey)" for n v
    using r(4) [of n] that by (cases "overridden ch n") (auto simp: key_headers_def dsOpenAI header_get lower_names)
  moreover have "newConduit lib ds ch body publicModel stream = Inr (OpenAIPassthrough body publicModel stream)"
    using assms(2) by (simp add: newConduit_def dsOpenAI)
  ultimately show ?thesis using r(1-3) by (auto simp: buildOpenAIRequest_def pass_path_def dsOpenAI)
next
  case dsAnthropic
  have u: "http_url_ok lib (trim_right_slash (ch_BaseURL ch) @ ''/v1/messages'')" using assms(1) by (simp add: pass_path_def dsAnthropic)
  let ?b = "apply_params ch (jset ''model'' (JStr upstreamModel) body)"
  obtain r where r: "new_request lib ch ''/v1/messages'' [(''x-api-key'', apiKey), (''anthropic-version'', ''2023-06-01'')] ?b = Inr r"
    "hr_url r = trim_right_slash (ch_BaseURL ch) @ ''/v1/messages''" "hr_body r = json_Marshal lib (JObj ?b)"
    "\<And>n. \<not> overridden ch n \<Longrightarrow> map_of (hr_headers r) n = map_of (fold (\<lambda>(k, v) hs. header_set k v hs)
       [(''x-api-key'', apiKey), (''anthropic-version'', ''2023-06-01'')] [(''content-type'', ''application/json'')]) n"
    using new_request_exact [OF u] by metis
  have "jget ?b = (\<lambda>k. case map_of (rev (ParamOverrides ch)) k of Some v \<Rightarrow> Some v | None \<Rightarrow>
         if k = ''model'' then Some (JStr upstreamModel)
         else if k = ''stream_options'' \<and> stream \<and> ds = dsOpenAI
         then Some (JObj (jset ''include_usage'' (JBool True) (obj_or (jget body ''stream_options''))))
         else jget body k)"
    by (auto simp: jget_apply_params fun_eq_iff dsAnthropic split: option.split)
  moreover have "overridden ch n \<or> map_of (hr_headers r) n = Some v"
    if "(n, v) \<in> set ((''content-type'', ''application/json'') # key_headers ds apiKey)" for n v
    using r(4) [of n] that by (cases "overridden ch n") (auto simp: key_headers_def dsAnthropic header_get lower_names)
  moreover have "newConduit lib ds ch body publicModel stream = Inr (AnthropicPassthrough body publicModel stream)"
    using assms(2) by (simp add: newConduit_def dsAnthropic)
  ultimately show ?thesis using r(1-3) by (auto simp: buildAnthropicRequest_def anthropic_headers_def pass_path_def dsAnthropic)
qed

definition demo_anthropic_channel :: channel where
  "demo_anthropic_channel = (channel0 1 0 0)\<lparr>ch_Protocol := ''anthropic'', ch_BaseURL := ''http://a/''\<rparr>"

theorem passthrough_request_exact_witness:
  "\<exists>cd r b. newConduit (one_document JNull) dsAnthropic demo_anthropic_channel [(''model'', JStr ''pub''), (''top_k'', JNull)] ''pub'' True = Inr cd
     \<and> BuildRequest (one_document JNull) cd demo_anthropic_channel ''k'' ''up'' = Inr r
     \<and> hr_url r = ''http://a/v1/messages'' \<and> hr_body r = json_Marshal (one_document JNull) (JObj b)
     \<and> jget b ''model'' = Some (JStr ''up'') \<and> jget b ''top_k'' = Some JNull \<and> map_of (hr_headers r) ''x-api-key'' = Some ''k''"
proof -
  let ?l = "one_document JNull" and ?c = demo_anthropic_channel
  have url: "trim_right_slash (ch_BaseURL ?c) @ pass_path dsAnthropic = ''http://a/v1/messages''"
    by (simp add: demo_anthropic_channel_def trim_right_slash_def pass_path_def)
  have ok: "http_url_ok ?l (trim_right_slash (ch_BaseURL ?c) @ pass_path dsAnthropic)"
      "ch_Protocol ?c = (if dsAnthropic = dsOpenAI then ''openai_compat'' else ''anthropic'')"
    by (simp_all add: one_document_def demo_anthropic_channel_def)
  have none: "ParamOverrides ?c = []" "\<not> overridden ?c ''x-api-key''"
    by (simp_all add: demo_anthropic_channel_def channel0_def ParamOverrides_def overridden_def HeaderOverrides_def)
  note t = passthrough_request_exact [OF ok, of "[(''model'', JStr ''pub''), (''top_k'', JNull)]" "''pub''" True "''k''" "''up''"]
  from t obtain cd r b where f: "newConduit ?l dsAnthropic ?c [(''model'', JStr ''pub''), (''top_k'', JNull)] ''pub'' True = Inr cd"
      "BuildRequest ?l cd ?c ''k'' ''up'' = Inr r" "hr_url r = ''http://a/v1/messages''" "hr_body r = json_Marshal ?l (JObj b)"
    and b: "\<And>k. jget b k = (if k = ''model'' then Some (JStr ''up'') else jget [(''model'', JStr ''pub''), (''top_k'', JNull)] k)"
    and h: "map_of (hr_headers r) ''x-api-key'' = Some ''k''"
    unfolding url by (elim exE conjE) (simp add: none key_headers_def)
  have "jget b ''model'' = Some (JStr ''up'')" "jget b ''top_k'' = Some JNull" by (simp_all add: b)
  then show ?thesis using f h by blast
qed

section \<open>Refused features\<close>

definition refused :: "json_lib \<Rightarrow> downstream \<Rightarrow> channel \<Rightarrow> jobj \<Rightarrow> bool \<Rightarrow> bool" where
  "refused lib ds ch body stream \<longleftrightarrow> (case newConduit lib ds ch body [] stream of Inl _ \<Rightarrow> False
     | Inr cd \<Rightarrow> (case BuildRequest lib cd ch [] [] of Inl (ErrUnsupportedFeature e) \<Rightarrow> True | _ \<Rightarrow> False))"

definition wants_no_parallel :: "jobj \<Rightarrow> bool" where
  "wants_no_parallel body \<longleftrightarrow> (case anthropic_tool_choice body of None \<Rightarrow> False | Some tc \<Rightarrow> tc_DisableParallel tc)"

lemma new_request_not_refused [simp]: "new_request lib ch path hs b \<noteq> Inl (ErrUnsupportedFeature e)"
  by (simp add: new_request_def Let_def)

lemma new_request_case [simp]:
  "(case new_request lib ch path hs b of Inl (ErrUnsupportedFeature e) \<Rightarrow> True | Inl BuildFailed \<Rightarrow> False | Inr r \<Rightarrow> False) = False"
  by (auto simp: new_request_def Let_def)

lemma refused_canonical:
  assumes "newConduit lib ds ch body [] stream = Inr (CanonicalConduit ds (ch_Protocol ch) canon [])"
    and "codecFor (ch_Protocol ch) = Some c"
  shows "refused lib ds ch body stream \<longleftrightarrow> (case c of
      openaiCodec \<Rightarrow> cr_TopK canon \<noteq> None \<or> case_option False tc_DisableParallel (cr_ToolChoice canon)
    | anthropicCodec \<Rightarrow> cr_Logprobs canon \<noteq> None \<or> cr_Seed canon \<noteq> None \<or> cr_ResponseFormat canon \<noteq> None
    | geminiCodec \<Rightarrow> cr_Logprobs canon \<noteq> None \<or> cr_Seed canon \<noteq> None \<or> case_option False tc_DisableParallel (cr_ToolChoice canon))"
  using assms
  by (cases c) (auto simp: refused_def refuse_or_def rejectOpenAIUnsupported_def rejectAnthropicUnsupported_def
      rejectGeminiUnsupported_def unsupportedFeature_def buildOpenAIRequest_def buildAnthropicRequest_def
      buildGeminiRequest_def split: option.splits)

text \<open>C27. A call that crosses formats is refused as unsupported exactly when its body carries a field the target format does
  not have: log probabilities, a seed or a response format for an Anthropic channel, log probabilities, a seed or
  non-parallel tool calls for a Gemini channel, top-k or non-parallel tool calls for an OpenAI channel. No other field causes a
  refusal, and no passed-through call is refused.\<close>

theorem unsupported_fields_refused:
  assumes "str_or (jget body ''model'') \<noteq> []"
  shows "(ch_Protocol ch = ''anthropic'' \<longrightarrow> refused lib dsOpenAI ch body stream \<longleftrightarrow>
      as_bool (jget body ''logprobs'') = Some True \<or> as_num (jget body ''seed'') \<noteq> None \<or> as_obj (jget body ''response_format'') \<noteq> None)
    \<and> (ch_Protocol ch = ''gemini'' \<longrightarrow> refused lib dsOpenAI ch body stream \<longleftrightarrow>
      as_bool (jget body ''logprobs'') = Some True \<or> as_num (jget body ''seed'') \<noteq> None)
    \<and> (ch_Protocol ch = ''gemini'' \<longrightarrow> refused lib dsAnthropic ch body stream \<longleftrightarrow> wants_no_parallel body)
    \<and> (ch_Protocol ch = ''openai_compat'' \<longrightarrow> refused lib dsAnthropic ch body stream \<longleftrightarrow>
      as_num (jget body ''top_k'') \<noteq> None \<or> wants_no_parallel body)
    \<and> (ch_Protocol ch = ''openai_compat'' \<longrightarrow> \<not> refused lib dsOpenAI ch body stream)
    \<and> (ch_Protocol ch = ''anthropic'' \<longrightarrow> \<not> refused lib dsAnthropic ch body stream)"
proof -
  obtain canon where o1: "decodeOpenAIRequest body = Inr canon" and
    o2: "cr_Logprobs canon = openai_logprobs body" "cr_Seed canon = map_option float_to_int64 (as_num (jget body ''seed''))"
      "cr_ResponseFormat canon = openai_response_format body" "cr_ToolChoice canon = openai_tool_choice (jget body ''tool_choice'')"
    using assms by (cases "openai_messages (arr_or (jget body ''messages'')) []") (auto simp: decodeOpenAIRequest_def Let_def)
  obtain canon' where a1: "decodeAnthropicRequest lib body = Inr canon'" and
    a2: "cr_Logprobs canon' = None" "cr_Seed canon' = None" "cr_ResponseFormat canon' = None"
      "cr_TopK canon' = map_option float_to_int64 (as_num (jget body ''top_k''))" "cr_ToolChoice canon' = anthropic_tool_choice body"
    using assms by (auto simp: decodeAnthropicRequest_def Let_def)
  have parallel: "\<not> case_option False tc_DisableParallel (openai_tool_choice v)" for v
    by (cases v rule: openai_tool_choice.cases) (auto split: option.split)
  have logprobs: "openai_logprobs body \<noteq> None \<longleftrightarrow> as_bool (jget body ''logprobs'') = Some True"
    by (simp add: openai_logprobs_def)
  have format: "openai_response_format body \<noteq> None \<longleftrightarrow> as_obj (jget body ''response_format'') \<noteq> None"
    by (simp add: openai_response_format_def split: option.split)
  note nc = newConduit_def o1 a1
  have r1: "ch_Protocol ch = ''anthropic'' \<Longrightarrow> refused lib dsOpenAI ch body stream \<longleftrightarrow>
      as_bool (jget body ''logprobs'') = Some True \<or> as_num (jget body ''seed'') \<noteq> None \<or> as_obj (jget body ''response_format'') \<noteq> None"
    using logprobs format
    by (subst refused_canonical [where canon = "canon\<lparr>cr_Stream := stream\<rparr>" and c = anthropicCodec])
      (simp_all add: nc o2 codecFor_def codecRegistry_def)
  have r2: "ch_Protocol ch = ''gemini'' \<Longrightarrow> refused lib dsOpenAI ch body stream \<longleftrightarrow>
      as_bool (jget body ''logprobs'') = Some True \<or> as_num (jget body ''seed'') \<noteq> None"
    using logprobs parallel
    by (subst refused_canonical [where canon = "canon\<lparr>cr_Stream := stream\<rparr>" and c = geminiCodec])
      (simp_all add: nc o2 codecFor_def codecRegistry_def)
  have r3: "ch_Protocol ch = ''gemini'' \<Longrightarrow> refused lib dsAnthropic ch body stream \<longleftrightarrow> wants_no_parallel body"
    by (subst refused_canonical [where canon = "canon'\<lparr>cr_Stream := stream\<rparr>" and c = geminiCodec])
      (simp_all add: nc a2 codecFor_def codecRegistry_def wants_no_parallel_def)
  have r4: "ch_Protocol ch = ''openai_compat'' \<Longrightarrow> refused lib dsAnthropic ch body stream \<longleftrightarrow>
      as_num (jget body ''top_k'') \<noteq> None \<or> wants_no_parallel body"
    by (subst refused_canonical [where canon = "canon'\<lparr>cr_Stream := stream\<rparr>" and c = openaiCodec])
      (simp_all add: nc a2 codecFor_def codecRegistry_def wants_no_parallel_def)
  have r5: "ch_Protocol ch = ''openai_compat'' \<Longrightarrow> \<not> refused lib dsOpenAI ch body stream"
    by (simp add: refused_def newConduit_def buildOpenAIRequest_def new_request_def Let_def)
  have r6: "ch_Protocol ch = ''anthropic'' \<Longrightarrow> \<not> refused lib dsAnthropic ch body stream"
    by (simp add: refused_def newConduit_def buildAnthropicRequest_def new_request_def Let_def)
  show ?thesis using r1 r2 r3 r4 r5 r6 by blast
qed

theorem unsupported_fields_refused_witness:
  "refused (one_document JNull) dsOpenAI ((channel0 1 0 0)\<lparr>ch_Protocol := ''anthropic''\<rparr>)
     [(''model'', JStr ''m''), (''seed'', JNum 7)] True"
  using unsupported_fields_refused [of "[(''model'', JStr ''m''), (''seed'', JNum 7)]"
      "(channel0 1 0 0)\<lparr>ch_Protocol := ''anthropic''\<rparr>" "one_document JNull" True]
  by simp

section \<open>A stream from Gemini to an Anthropic client\<close>

fun payload_frames :: "json_lib \<Rightarrow> string list \<Rightarrow> conduit_stream \<Rightarrow> string list \<times> conduit_stream" where
  "payload_frames lib [] st = ([], st)"
| "payload_frames lib (p # ps) st = (case ProcessPayload lib p st of (f, st) \<Rightarrow>
     case payload_frames lib ps st of (g, st) \<Rightarrow> (f @ g, st))"

lemma encode_all_append: "encode_all (evs @ evs') e = (case encode_all evs e of (f, e) \<Rightarrow>
    case encode_all evs' e of (g, e) \<Rightarrow> (f @ g, e))"
  by (induction evs arbitrary: e) (auto split: prod.split)

lemma payload_frames_canonical:
  "payload_frames lib ps (CanonicalStream d e fin) = (case decode_all lib ps d of (evs, d') \<Rightarrow>
     case encode_all evs e of (f, e') \<Rightarrow> (map (render_frame lib) f, CanonicalStream d' e' fin))"
  by (induction ps arbitrary: d e) (auto simp: encode_all_append split: prod.split)

text \<open>C30. Whatever a Gemini upstream sends, in however many payloads, legal or not, an Anthropic client gets a complete
  message: the frames up to the end of the stream follow the protocol to its final \<^verbatim>\<open>message_stop\<close>, and a second
  end of the stream adds nothing.\<close>

theorem gemini_stream_completes:
  "newConduit lib dsAnthropic ch body model stream = Inr cd \<Longrightarrow> ch_Protocol ch = ''gemini'' \<Longrightarrow>
   case NewStream cd of None \<Rightarrow> False | Some st \<Rightarrow>
     (case payload_frames lib payloads st of (f, st) \<Rightarrow>
      case ProcessDone lib st of (g, st) \<Rightarrow>
        (\<exists>frames. f @ g = map (render_frame lib) frames \<and> protocol_run PFresh frames = Some PDone)
        \<and> fst (ProcessDone lib st) = [])"
proof -
  assume cd: "newConduit lib dsAnthropic ch body model stream = Inr cd" and p: "ch_Protocol ch = ''gemini''"
  obtain canon where c: "cd = CanonicalConduit dsAnthropic ''gemini'' canon model"
    using cd p by (auto simp: newConduit_def split: sum.splits)
  have st: "NewStream cd = Some (CanonicalStream (DecGemini newGeminiStreamDecoder)
      (EncAnthropic (newAnthropicStreamEncoder model)) False)"
    by (simp add: c codecFor_def codecRegistry_def)
  obtain evs d' where d: "decode_all lib payloads (DecGemini newGeminiStreamDecoder) = (evs, DecGemini d')" "orderly evs"
    using gemini_decode_orderly by (fastforce simp: orderly_def)
  obtain f e' where e: "encode_all evs (EncAnthropic (newAnthropicStreamEncoder model)) = (f, e')" by fastforce
  obtain g e'' where g: "encoder_Finish (gd_usage d') e' = (g, e'')" by fastforce
  have "protocol_run PFresh (f @ g) = Some PDone"
    using anthropic_stream_protocol [of model evs "gd_usage d'"] d(2) e g by (simp add: anthropic_stream_def)
  then show ?thesis using st d(1) e g
    by (auto simp: payload_frames_canonical simp flip: map_append)
qed

theorem gemini_stream_completes_witness:
  "case newConduit (one_document JNull) dsAnthropic ((channel0 1 0 0)\<lparr>ch_Protocol := ''gemini''\<rparr>) [(''model'', JStr ''m'')] ''m'' True of
     Inl _ \<Rightarrow> False
   | Inr cd \<Rightarrow> (case NewStream cd of None \<Rightarrow> False | Some st \<Rightarrow>
       (case payload_frames (one_document JNull) [''document'', ''?''] st of (f, st) \<Rightarrow>
        case ProcessDone (one_document JNull) st of (g, st) \<Rightarrow>
          (\<exists>frames. f @ g = map (render_frame (one_document JNull)) frames \<and> protocol_run PFresh frames = Some PDone)
          \<and> fst (ProcessDone (one_document JNull) st) = []))"
proof (cases "newConduit (one_document JNull) dsAnthropic ((channel0 1 0 0)\<lparr>ch_Protocol := ''gemini''\<rparr>) [(''model'', JStr ''m'')] ''m'' True")
  case (Inl e)
  then show ?thesis by (simp add: newConduit_def decodeAnthropicRequest_def)
next
  case (Inr cd)
  then show ?thesis using gemini_stream_completes [OF Inr, of "[''document'', ''?'']"] by simp
qed

section \<open>A response that is null\<close>

text \<open>
  Handling a response panics exactly when it was passed through and the upstream's body is null; the decoder
  leaves a nil map without an error, and the model is then written into it.
\<close>

lemma null_response_panics:
  "TransformResponse lib cd raw = TransformPanic \<longleftrightarrow>
     (case cd of CanonicalConduit ds up canon m \<Rightarrow> False | _ \<Rightarrow> json_Unmarshal lib raw = Some JNull)"
  by (cases cd) (auto simp: parseOpenAIResponse_def pass_response_def split: option.splits json.splits sum.splits prod.splits)

end
