(* ===== verification/CountTokens.thy ===== *)
theory CountTokens
  imports RelayProps
begin

text \<open>
  The token count endpoint (\<^verbatim>\<open>relay/count_tokens.go\<close>): a count from an Anthropic channel when one answers,
  the gateway's own estimate otherwise. It neither bills nor logs.
\<close>

definition countTokensMaxAttempts :: nat where "countTokensMaxAttempts = 2"

definition count_body :: "channel \<Rightarrow> string \<Rightarrow> jobj \<Rightarrow> jobj" where
  "count_body ch upstreamModel b =
     apply_params ch (jdel ''max_tokens'' (jdel ''stream'' (jset ''model'' (JStr upstreamModel) b)))"

definition buildCountTokensRequest :: "json_lib \<Rightarrow> channel \<Rightarrow> string \<Rightarrow> jobj \<Rightarrow> string \<Rightarrow> build_error + http_request" where
  "buildCountTokensRequest lib ch apiKey b upstreamModel =
     new_request lib ch ''/v1/messages/count_tokens'' (anthropic_headers apiKey) (count_body ch upstreamModel b)"

text \<open>One attempt: nothing when the key, the request, the connection, the status or the body fails.\<close>

definition count_attempt :: "world \<Rightarrow> jobj \<Rightarrow> string \<Rightarrow> nat \<Rightarrow> channel \<Rightarrow> string option" where
  "count_attempt w b publicModel attempt ch =
     (case w_decrypt w (ch_APIKeyEncrypted ch) of None \<Rightarrow> None
      | Some apiKey \<Rightarrow>
        (case buildCountTokensRequest (w_lib w) ch apiKey b (MappedModel ch publicModel) of Inl _ \<Rightarrow> None
         | Inr req \<Rightarrow>
           (case w_upstream w attempt ch req of
              UpOK r \<Rightarrow> if ub_read_fails r then None else Some (take 8192 (ub_raw r))
            | _ \<Rightarrow> None)))"

text \<open>The loop: the channels tried, in order, and the count.\<close>

fun count_loop :: "(nat \<Rightarrow> int \<Rightarrow> int) \<Rightarrow> (nat \<Rightarrow> channel \<Rightarrow> string option) \<Rightarrow> channel list \<Rightarrow> nat \<Rightarrow> nat \<Rightarrow> row_id set
    \<Rightarrow> channel list \<times> string option" where
  "count_loop rnd try_one cs attempt 0 tried = ([], None)"
| "count_loop rnd try_one cs attempt (Suc n) tried =
     (case SelectChannel (rnd attempt) cs tried of
        None \<Rightarrow> ([], None)
      | Some ch \<Rightarrow> (case try_one attempt ch of
          Some raw \<Rightarrow> ([ch], Some raw)
        | None \<Rightarrow> (case count_loop rnd try_one cs (attempt + 1) n (insert (ch_ID ch) tried) of
            (used, r) \<Rightarrow> (ch # used, r))))"

definition count_candidates :: "world \<Rightarrow> string \<Rightarrow> string \<Rightarrow> channel list" where
  "count_candidates w publicModel provider =
     (case w_channels w of None \<Rightarrow> []
      | Some table \<Rightarrow> filter (\<lambda>ch. ch_Protocol ch = ''anthropic'')
          (filterByProvider (ListEnabledForModel table publicModel) provider))"

definition forwardCountTokens :: "world \<Rightarrow> jobj \<Rightarrow> string \<Rightarrow> string \<Rightarrow> relay_state \<Rightarrow> channel list \<times> string option" where
  "forwardCountTokens w b publicModel provider s =
     count_loop (draw_stream s) (count_attempt w b publicModel) (count_candidates w publicModel provider) 0
       countTokensMaxAttempts {}"

definition HandleCountTokens :: "world \<Rightarrow> Identity \<Rightarrow> json option \<Rightarrow> relay_state \<Rightarrow> relay_state" where
  "HandleCountTokens w i j s =
     (case decode_body j of
        None \<Rightarrow> write_reply (WriteAnthropicError 400 ''invalid_request_error'' msg_bad_json) s
      | Some b \<Rightarrow>
        let publicModel = str_or (jget b ''model'') in
        if publicModel = [] then write_reply (WriteAnthropicError 400 ''invalid_request_error'' msg_model_missing) s
        else case prepareModel w i publicModel ModalityText BillPerToken WriteAnthropicError s of
          (None, s) \<Rightarrow> s
        | (Some (m, p, multiplier), s) \<Rightarrow>
          (case snd (forwardCountTokens w b (m_Name m) (i_provider i) s) of
             Some raw \<Rightarrow> write_reply (Reply 200 (BBytes raw)) s
           | None \<Rightarrow> write_reply (Reply 200 (BJson (JObj [(''input_tokens'', jint (estimateAnthropicInputTokens b))]))) s))"

section \<open>What the endpoint leaves alone\<close>

lemma prepareModel_rest:
  "prepareModel w i m wm wb we s = (r, s') \<Longrightarrow> database s' = database s \<and> sess s' = sess s \<and> finished s' = finished s
     \<and> health s' = health s \<and> aff_table s' = aff_table s \<and> ulog s' = ulog s
     \<and> (r \<noteq> None \<longrightarrow> replies s' = replies s) \<and> (r = None \<longrightarrow> (\<exists>x. replies s' = replies s @ [x]))"
  by (auto simp: prepareModel_def write_reply_def Let_def split: sum.splits if_splits option.splits)

lemma count_loop_used:
  assumes "candidates cs" "\<And>k. fair_rnd (rnd k)" "count_loop rnd try_one cs a n tried = (used, r)"
  shows "length used \<le> n \<and> distinct (map ch_ID used) \<and> set used \<subseteq> set cs \<and> ch_ID ` set used \<inter> tried = {}
    \<and> (r = None \<longrightarrow> length used = n \<or> ch_ID ` set cs \<subseteq> tried \<union> ch_ID ` set used)"
  using assms(3)
proof (induction n arbitrary: a tried used r)
  case 0
  then show ?case by simp
next
  case (Suc n)
  show ?case
  proof (cases "SelectChannel (rnd a) cs tried")
    case None
    then show ?thesis using Suc.prems SelectChannel_ok [OF assms(1) assms(2) [of a], of tried] by auto
  next
    case (Some ch)
    have ok: "ch \<in> set cs" "ch_ID ch \<notin> tried" using SelectChannel_ok [OF assms(1) assms(2) [of a], of tried] Some by auto
    show ?thesis
    proof (cases "try_one a ch")
      case t: (Some raw)
      then show ?thesis using Suc.prems Some ok by auto
    next
      case None
      obtain rest q where q: "count_loop rnd try_one cs (a + 1) n (insert (ch_ID ch) tried) = (rest, q)" by fastforce
      have u: "used = ch # rest" "r = q" using Suc.prems Some None q by auto
      show ?thesis using Suc.IH [OF q] u ok by auto
    qed
  qed
qed

lemma candidates_count: "w_channels w = Some table \<Longrightarrow> channel_rows table \<Longrightarrow> candidates (count_candidates w m pv)"
  using candidates_filterByProvider [OF candidates_ListEnabledForModel, of table m pv]
  by (auto simp: count_candidates_def candidates_def sorted_wrt_filter distinct_map inj_on_def)

text \<open>Counting tokens is free and harmless: the call writes exactly one answer, books nothing, logs nothing, and
  touches neither the health nor the affinity of any channel, whatever the upstreams answer; it asks at most two channels,
  each once, all of them enabled Anthropic channels of the locked provider, and falls back to its own estimate only after
  two failures or when no other such channel is left.\<close>

theorem count_tokens_is_free:
  assumes "w_channels w = Some table" "channel_rows table" "fair_state s"
  shows "(let s' = HandleCountTokens w i j s in
      database s' = database s \<and> sess s' = sess s \<and> finished s' = finished s \<and> health s' = health s
      \<and> aff_table s' = aff_table s \<and> ulog s' = ulog s \<and> (\<exists>x. replies s' = replies s @ [x]))
    \<and> (let (used, r) = forwardCountTokens w b model provider s in
      length used \<le> 2 \<and> distinct (map ch_ID used) \<and> set used \<subseteq> set (count_candidates w model provider)
      \<and> (r = None \<longrightarrow> length used = 2 \<or> ch_ID ` set (count_candidates w model provider) \<subseteq> ch_ID ` set used))"
proof
  have one: "\<exists>x. replies (write_reply r t) = replies t @ [x]" for r t by (simp add: write_reply_def)
  show "let s' = HandleCountTokens w i j s in
      database s' = database s \<and> sess s' = sess s \<and> finished s' = finished s \<and> health s' = health s
      \<and> aff_table s' = aff_table s \<and> ulog s' = ulog s \<and> (\<exists>x. replies s' = replies s @ [x])"
  proof (cases "decode_body j")
    case None
    then show ?thesis by (simp add: HandleCountTokens_def write_reply_def)
  next
    case (Some bd)
    obtain r t where p: "prepareModel w i (str_or (jget bd ''model'')) ModalityText BillPerToken WriteAnthropicError s = (r, t)"
      by fastforce
    show ?thesis
    proof (cases "str_or (jget bd ''model'') = [] \<or> r = None")
      case True
      then show ?thesis using Some p prepareModel_rest [OF p]
        by (cases "str_or (jget bd ''model'') = []") (auto simp: HandleCountTokens_def write_reply_def)
    next
      case False
      then obtain m pr mult where r: "r = Some (m, pr, mult)" by (metis option.exhaust prod.exhaust)
      have "str_or (jget bd ''model'') \<noteq> []" using False by blast
      then show ?thesis using Some p r prepareModel_rest [OF p]
        by (cases "snd (forwardCountTokens w bd (m_Name m) (i_provider i) t)")
          (simp_all add: HandleCountTokens_def write_reply_def)
    qed
  qed
  obtain used r where u: "forwardCountTokens w b model provider s = (used, r)" by fastforce
  have f: "fair_rnd (draw_stream s k)" for k using assms(3) by (simp add: fair_state_def)
  show "let (used, r) = forwardCountTokens w b model provider s in
      length used \<le> 2 \<and> distinct (map ch_ID used) \<and> set used \<subseteq> set (count_candidates w model provider)
      \<and> (r = None \<longrightarrow> length used = 2 \<or> ch_ID ` set (count_candidates w model provider) \<subseteq> ch_ID ` set used)"
    using count_loop_used [where rnd = "draw_stream s" and a = 0 and tried = "{}", OF candidates_count [OF assms(1,2)] f] u
    by (simp add: forwardCountTokens_def countTokensMaxAttempts_def)
qed

theorem count_tokens_is_free_witness:
  "database (HandleCountTokens demo_world demo_identity (Some (JObj [(''model'', JStr ''m'')])) demo_state) = database demo_state
   \<and> length (fst (forwardCountTokens demo_world [] ''m'' [] demo_state)) \<le> 2"
proof -
  have "channel_rows [channel0 1 5 2]" "fair_state demo_state"
    by (simp_all add: channel_rows_def fair_state_def fair_rnd_def demo_state_def)
  from count_tokens_is_free [OF _ this, of demo_world demo_identity "Some (JObj [(''model'', JStr ''m'')])" "[]" "''m''" "[]"]
  show ?thesis by (auto simp: demo_world_def Let_def split: prod.splits)
qed

end
