(* ===== verification/Settings.thy ===== *)
theory Settings
  imports Json Domain Messages
begin

text \<open>
  The settings of the site (\<^verbatim>\<open>store/setting.go\<close>, \<^verbatim>\<open>store/setting_cache.go\<close>): the registry of legal keys with
  their types, defaults and checks, and the repository with its cache of 30 seconds. The registry's
  descriptions, texts for the administration pages, are left out; the enumerations offered to them are kept.
\<close>

section \<open>The registry\<close>

datatype SettingKind = SettingInt64 | SettingBool | SettingString

datatype setting_value = SvInt int | SvBool bool | SvStr string

text \<open>\<^verbatim>\<open>url.Parse\<close> is an argument: the scheme and the host, or an error.\<close>

type_synonym url_parser = "string \<Rightarrow> (string \<times> string) option"

record SettingDef =
  sd_Key :: string
  sd_Kind :: SettingKind
  sd_Default :: setting_value
  sd_Validate :: "setting_value \<Rightarrow> string option"
  sd_Options :: "string list"

definition auditLogProtectedDays :: int where "auditLogProtectedDays = 30"

text \<open>The checks; a value of another type never reaches them.\<close>

definition at_least :: "int \<Rightarrow> string \<Rightarrow> setting_value \<Rightarrow> string option" where
  "at_least lo msg v = (case v of SvInt n \<Rightarrow> if n < lo then Some msg else None | _ \<Rightarrow> None)"

definition between :: "int \<Rightarrow> int \<Rightarrow> string \<Rightarrow> setting_value \<Rightarrow> string option" where
  "between lo hi msg v = (case v of SvInt n \<Rightarrow> if n < lo \<or> n > hi then Some msg else None | _ \<Rightarrow> None)"

definition retention :: "int \<Rightarrow> string \<Rightarrow> string \<Rightarrow> setting_value \<Rightarrow> string option" where
  "retention least msg_least msg_most v = (case v of SvInt n \<Rightarrow>
       if n \<noteq> 0 \<and> n < least then Some msg_least else if n > 3650 then Some msg_most else None | _ \<Rightarrow> None)"

definition one_of :: "(string \<Rightarrow> bool) \<Rightarrow> string \<Rightarrow> setting_value \<Rightarrow> string option" where
  "one_of legal msg v = (case v of SvStr s \<Rightarrow> if legal s then None else Some msg | _ \<Rightarrow> None)"

definition valid_symbol :: "setting_value \<Rightarrow> string option" where
  "valid_symbol v = (case v of SvStr s \<Rightarrow>
       if TrimSpace s = [] then Some msg_set_symbol_empty
       else if length s > 8 then Some msg_set_symbol_long else None
     | _ \<Rightarrow> Some msg_set_symbol_empty)"

definition http_address :: "url_parser \<Rightarrow> string \<Rightarrow> bool" where
  "http_address parse s = (case parse s of None \<Rightarrow> False
     | Some (scheme, host) \<Rightarrow> (scheme = ''http'' \<or> scheme = ''https'') \<and> host \<noteq> [])"

definition validateOptionalHTTPURL :: "url_parser \<Rightarrow> string \<Rightarrow> setting_value \<Rightarrow> string option" where
  "validateOptionalHTTPURL parse label v = (case v of SvStr t \<Rightarrow>
       (let s = TrimSpace t in
        if s = [] then None else if \<not> http_address parse s then Some (label @ msg_set_must_be_url) else None)
     | _ \<Rightarrow> None)"

definition valid_server_address :: "url_parser \<Rightarrow> setting_value \<Rightarrow> string option" where
  "valid_server_address parse v = (case v of SvStr t \<Rightarrow>
       (let s = TrimSpace t in
        if s = [] then None
        else if \<not> http_address parse s then Some msg_set_base_url
        else if last s = CHR ''/'' then Some msg_set_base_slash else None)
     | _ \<Rightarrow> None)"

definition setting :: "string \<Rightarrow> setting_value \<Rightarrow> (setting_value \<Rightarrow> string option) \<Rightarrow> SettingDef" where
  "setting k d v = \<lparr>sd_Key = k, sd_Kind = (case d of SvInt _ \<Rightarrow> SettingInt64 | SvBool _ \<Rightarrow> SettingBool | SvStr _ \<Rightarrow> SettingString),
     sd_Default = d, sd_Validate = v, sd_Options = []\<rparr>"

abbreviation no_check :: "setting_value \<Rightarrow> string option" where "no_check \<equiv> \<lambda>_. None"

definition SMTPSecurities :: "string list" where "SMTPSecurities = [''starttls'', ''tls'', ''none'']"
definition MonthlyGrantModes :: "string list" where "MonthlyGrantModes = [''topup'', ''add'']"

definition site_settings :: "SettingDef list" where
  "site_settings = [
     setting ''site_name'' (SvStr ''Token Zen'') no_check,
     setting ''exchange_rate_credits_per_cny'' (SvInt 1000000) (at_least 1 msg_set_rate),
     setting ''currency_symbol'' (SvStr msg_yen) valid_symbol,
     setting ''usd_cny_rate_milli'' (SvInt 7200) (at_least 1 msg_set_usd),
     setting ''register_enabled'' (SvBool False) no_check,
     setting ''low_balance_threshold_credits'' (SvInt 100000) (at_least 0 msg_set_low),
     setting ''user_balance_notice_enabled'' (SvBool True) no_check,
     setting ''profile_display_name_editable'' (SvBool True) no_check,
     setting ''profile_email_editable'' (SvBool True) no_check,
     setting ''monthly_grant_credits'' (SvInt 0) (at_least 0 msg_set_monthly),
     (setting ''monthly_grant_mode'' (SvStr ''topup'') (one_of MonthlyGrantMode_Valid msg_set_mode))
       \<lparr>sd_Options := MonthlyGrantModes\<rparr>]"

definition request_settings :: "url_parser \<Rightarrow> SettingDef list" where
  "request_settings parse = [
     setting ''relay_max_retries'' (SvInt 3) (between 1 10 msg_set_retries),
     setting ''precharge_min_tokens'' (SvInt 500) no_check,
     setting ''precharge_default_max_tokens'' (SvInt 8192) no_check,
     setting ''rate_limit_per_key_rpm'' (SvInt 120) (between 0 100000 msg_set_key_rpm),
     setting ''rate_limit_per_user_rpm'' (SvInt 240) (between 0 100000 msg_set_user_rpm),
     setting ''max_concurrent_requests_per_user'' (SvInt 10) (between 0 1000 msg_set_user_conc),
     setting ''max_keys_per_user'' (SvInt 20) (between 0 1000 msg_set_keys),
     setting ''max_concurrent_requests'' (SvInt 40) (between 0 1000 msg_set_conc),
     setting ''max_concurrent_large_requests'' (SvInt 2) (between 0 1000 msg_set_large),
     setting ''channel_disable_failure_threshold'' (SvInt 3) (between 0 100 msg_set_failures),
     setting ''channel_probe_interval_sec'' (SvInt 60) (between 0 3600 msg_set_probe),
     setting ''server_address'' (SvStr []) (valid_server_address parse),
     setting ''orphan_cleanup_interval_sec'' (SvInt 300) (between 0 86400 msg_set_orphan)]"

definition alert_settings :: "url_parser \<Rightarrow> SettingDef list" where
  "alert_settings parse = [
     setting ''audit_log_retention_days'' (SvInt 180) (retention auditLogProtectedDays
       msg_set_audit_least msg_set_audit_most),
     setting ''usage_log_retention_days'' (SvInt 90) (retention 30
       msg_set_usage_least msg_set_usage_most),
     setting ''usage_rollup_enabled'' (SvBool True) no_check,
     setting ''alert_dedup_window_sec'' (SvInt 3600) (between 0 86400 msg_set_dedup),
     setting ''alert_error_rate_percent'' (SvInt 20) (between 0 100 msg_set_error_rate),
     setting ''alert_error_rate_min_requests'' (SvInt 50) (at_least 0 msg_set_min_requests),
     setting ''alert_latency_p95_ms'' (SvInt 0) (at_least 0 msg_set_latency),
     setting ''alert_webhook_url'' (SvStr []) (validateOptionalHTTPURL parse msg_set_webhook),
     (setting ''alert_webhook_format'' (SvStr ''generic'') (one_of WebhookFormat_Valid
       msg_set_format))\<lparr>sd_Options := WebhookFormats\<rparr>,
     setting ''alert_webhook_secret'' (SvStr []) no_check,
     setting ''alert_smtp_host'' (SvStr []) no_check,
     setting ''alert_smtp_port'' (SvInt 587) (between 1 65535 msg_set_port),
     setting ''alert_smtp_username'' (SvStr []) no_check,
     setting ''alert_smtp_password'' (SvStr []) no_check,
     (setting ''alert_smtp_tls'' (SvStr ''starttls'') (one_of SMTPSecurity_Valid msg_set_tls))
       \<lparr>sd_Options := SMTPSecurities\<rparr>,
     setting ''alert_smtp_from'' (SvStr []) no_check,
     setting ''alert_email_to'' (SvStr []) no_check]"

definition record_settings :: "SettingDef list" where
  "record_settings = [
     setting ''record_enabled'' (SvBool False) no_check,
     setting ''record_sample_rate_permyriad'' (SvInt 0) (between 0 10000 msg_set_sample),
     setting ''record_max_body_bytes'' (SvInt 2097152) (at_least 0 msg_set_body),
     setting ''record_max_stream_bytes'' (SvInt 4194304) (at_least 0 msg_set_stream),
     setting ''record_redact_request_body'' (SvBool False) no_check,
     setting ''record_retention_days'' (SvInt 7) (at_least 0 msg_set_record_days)]"

definition SettingDefs :: "url_parser \<Rightarrow> SettingDef list" where
  "SettingDefs parse = site_settings @ request_settings parse @ alert_settings parse @ record_settings"

lemmas registry = SettingDefs_def site_settings_def request_settings_def alert_settings_def record_settings_def

definition settingDef :: "url_parser \<Rightarrow> string \<Rightarrow> SettingDef option" where
  "settingDef parse key = List.find (\<lambda>d. sd_Key d = key) (SettingDefs parse)"

section \<open>The repository\<close>

text \<open>The table of rows, as decoded JSON, and the cache, whose items hold a value or the fact that there is no row.\<close>

record settings_state =
  st_rows :: "string \<rightharpoonup> json"
  st_cache :: "string \<rightharpoonup> setting_value option \<times> go_time"

definition settings_ttl :: go_duration where "settings_ttl = 30 * Second"

definition cache_get :: "go_time \<Rightarrow> string \<Rightarrow> settings_state \<Rightarrow> setting_value option option" where
  "cache_get t key s = (case st_cache s key of None \<Rightarrow> None | Some (v, e) \<Rightarrow> if t > e then None else Some v)"

definition cache_put :: "go_time \<Rightarrow> string \<Rightarrow> setting_value option \<Rightarrow> settings_state \<Rightarrow> settings_state" where
  "cache_put t key v s = s\<lparr>st_cache := (st_cache s)(key \<mapsto> (v, t + settings_ttl))\<rparr>"

definition cache_invalidate :: "string \<Rightarrow> settings_state \<Rightarrow> settings_state" where
  "cache_invalidate key s = s\<lparr>st_cache := (st_cache s)(key := None)\<rparr>"

text \<open>Decoding accepts null for every kind, as the zero value.\<close>

fun decodeSettingValue :: "SettingKind \<Rightarrow> json \<Rightarrow> setting_value option" where
  "decodeSettingValue SettingInt64 JNull = Some (SvInt 0)"
| "decodeSettingValue SettingInt64 (JNum q) = map_option SvInt (rat_int64 q)"
| "decodeSettingValue SettingInt64 _ = None"
| "decodeSettingValue SettingBool JNull = Some (SvBool False)"
| "decodeSettingValue SettingBool (JBool b) = Some (SvBool b)"
| "decodeSettingValue SettingBool _ = None"
| "decodeSettingValue SettingString JNull = Some (SvStr [])"
| "decodeSettingValue SettingString (JStr s) = Some (SvStr s)"
| "decodeSettingValue SettingString _ = None"

text \<open>Reading: an error of the database (\<open>fails\<close>) or of the decoding, or the value, \<^term>\<open>None\<close> when not set.\<close>

definition setting_get :: "url_parser \<Rightarrow> go_time \<Rightarrow> bool \<Rightarrow> string \<Rightarrow> settings_state
    \<Rightarrow> (unit + setting_value option) \<times> settings_state" where
  "setting_get parse t fails key s =
     (case cache_get t key s of
        Some v \<Rightarrow> (Inr v, s)
      | None \<Rightarrow>
        if fails then (Inl (), s)
        else case st_rows s key of
          None \<Rightarrow> (Inr None, cache_put t key None s)
        | Some row \<Rightarrow> (case settingDef parse key of
            None \<Rightarrow> (Inr None, s)
          | Some d \<Rightarrow> (case decodeSettingValue (sd_Kind d) row of
              None \<Rightarrow> (Inl (), s)
            | Some v \<Rightarrow> (Inr (Some v), cache_put t key (Some v) s))))"

definition effective :: "SettingDef \<Rightarrow> unit + setting_value option \<Rightarrow> setting_value" where
  "effective d r = (case r of Inr (Some v) \<Rightarrow> v | _ \<Rightarrow> sd_Default d)"

text \<open>A type assertion on a value of another type would panic; \<open>settings_typed\<close> below shows that none does.\<close>

fun int_of_value :: "setting_value \<Rightarrow> int option" where
  "int_of_value (SvInt n) = Some n" | "int_of_value _ = None"

fun bool_of_value :: "setting_value \<Rightarrow> bool option" where
  "bool_of_value (SvBool b) = Some b" | "bool_of_value _ = None"

fun string_of_value :: "setting_value \<Rightarrow> string option" where
  "string_of_value (SvStr s) = Some s" | "string_of_value _ = None"

definition typed_get :: "(setting_value \<Rightarrow> 'a option) \<Rightarrow> SettingKind \<Rightarrow> 'a \<Rightarrow> url_parser \<Rightarrow> go_time \<Rightarrow> bool \<Rightarrow> string
    \<Rightarrow> settings_state \<Rightarrow> 'a option \<times> settings_state" where
  "typed_get assert kind zero parse t fails key s =
     (case settingDef parse key of
        None \<Rightarrow> (Some zero, s)
      | Some d \<Rightarrow> if sd_Kind d \<noteq> kind then (Some zero, s)
          else case setting_get parse t fails key s of (r, s) \<Rightarrow> (assert (effective d r), s))"

definition GetInt64 :: "url_parser \<Rightarrow> go_time \<Rightarrow> bool \<Rightarrow> string \<Rightarrow> settings_state \<Rightarrow> int option \<times> settings_state" where
  "GetInt64 = typed_get int_of_value SettingInt64 0"

definition GetBool :: "url_parser \<Rightarrow> go_time \<Rightarrow> bool \<Rightarrow> string \<Rightarrow> settings_state \<Rightarrow> bool option \<times> settings_state" where
  "GetBool = typed_get bool_of_value SettingBool False"

definition GetString :: "url_parser \<Rightarrow> go_time \<Rightarrow> bool \<Rightarrow> string \<Rightarrow> settings_state \<Rightarrow> string option \<times> settings_state" where
  "GetString = typed_get string_of_value SettingString []"

datatype set_error = UnknownSetting string | WrongType string SettingKind | InvalidValue string | SaveFailed

definition setting_Set :: "url_parser \<Rightarrow> bool \<Rightarrow> string \<Rightarrow> json \<Rightarrow> settings_state \<Rightarrow> set_error option \<times> settings_state" where
  "setting_Set parse fails key raw s =
     (case settingDef parse key of
        None \<Rightarrow> (Some (UnknownSetting key), s)
      | Some d \<Rightarrow> (case decodeSettingValue (sd_Kind d) raw of
          None \<Rightarrow> (Some (WrongType key (sd_Kind d)), s)
        | Some v \<Rightarrow> (case sd_Validate d v of
            Some e \<Rightarrow> (Some (InvalidValue e), s)
          | None \<Rightarrow> if fails then (Some SaveFailed, s)
              else (None, cache_invalidate key (s\<lparr>st_rows := (st_rows s)(key \<mapsto> raw)\<rparr>)))))"

definition setting_Effective :: "url_parser \<Rightarrow> go_time \<Rightarrow> bool \<Rightarrow> string \<Rightarrow> settings_state
    \<Rightarrow> setting_value option \<times> settings_state" where
  "setting_Effective parse t fails key s =
     (case settingDef parse key of None \<Rightarrow> (None, s)
      | Some d \<Rightarrow> (case setting_get parse t fails key s of (r, s) \<Rightarrow> (Some (effective d r), s)))"

text \<open>The list for the administration pages: key, kind, value, default and options.\<close>

fun effective_items :: "url_parser \<Rightarrow> (string \<Rightarrow> go_time) \<Rightarrow> (string \<Rightarrow> bool) \<Rightarrow> SettingDef list \<Rightarrow> settings_state
    \<Rightarrow> (string \<times> SettingKind \<times> setting_value \<times> setting_value \<times> string list) list \<times> settings_state" where
  "effective_items parse t fails [] s = ([], s)"
| "effective_items parse t fails (d # ds) s =
     (case setting_get parse (t (sd_Key d)) (fails (sd_Key d)) (sd_Key d) s of (r, s) \<Rightarrow>
      case effective_items parse t fails ds s of (items, s) \<Rightarrow>
        ((sd_Key d, sd_Kind d, effective d r, sd_Default d, sd_Options d) # items, s))"

definition EffectiveAll :: "url_parser \<Rightarrow> (string \<Rightarrow> go_time) \<Rightarrow> (string \<Rightarrow> bool) \<Rightarrow> settings_state
    \<Rightarrow> (string \<times> SettingKind \<times> setting_value \<times> setting_value \<times> string list) list \<times> settings_state" where
  "EffectiveAll parse t fails s = effective_items parse t fails (SettingDefs parse) s"

section \<open>What the repository keeps\<close>

fun kind_of :: "setting_value \<Rightarrow> SettingKind" where
  "kind_of (SvInt n) = SettingInt64" | "kind_of (SvBool b) = SettingBool" | "kind_of (SvStr s) = SettingString"

definition legal_value :: "SettingDef \<Rightarrow> setting_value \<Rightarrow> bool" where
  "legal_value d v \<longleftrightarrow> kind_of v = sd_Kind d \<and> sd_Validate d v = None"

lemma setting_fields [simp]: "sd_Key (setting k d v) = k" "sd_Default (setting k d v) = d" "sd_Validate (setting k d v) = v"
    "sd_Kind (setting k d v) = kind_of d"
  by (cases d; simp add: setting_def)+

lemma decode_kind: "decodeSettingValue k j = Some v \<Longrightarrow> kind_of v = k"
  by (induction k j rule: decodeSettingValue.induct) auto

lemma default_symbol: "valid_symbol (SvStr msg_yen) = None"
  by code_simp

lemma trim_empty [simp]: "TrimSpace [] = []"
  by (simp add: TrimSpace_def trim_left.simps trim_right.simps)

lemma default_choices: "MonthlyGrantMode_Valid ''topup''" "WebhookFormat_Valid ''generic''" "SMTPSecurity_Valid ''starttls''"
  by (simp_all add: MonthlyGrantMode_Valid_def WebhookFormat_Valid_def WebhookFormats_def SMTPSecurity_Valid_def)

lemmas default_checks = legal_value_def at_least_def between_def retention_def one_of_def default_symbol
  validateOptionalHTTPURL_def valid_server_address_def auditLogProtectedDays_def default_choices

lemma legal_options [simp]: "legal_value (d\<lparr>sd_Options := xs\<rparr>) v = legal_value d v"
  by (simp add: legal_value_def)

lemma defaults_legal: "list_all (\<lambda>d. legal_value d (sd_Default d)) (SettingDefs parse)"
  unfolding registry append.simps list.pred_inject
  by (intro conjI; simp add: default_checks)

lemma settingDef_legal: "settingDef parse key = Some d \<Longrightarrow> legal_value d (sd_Default d) \<and> sd_Key d = key"
  using defaults_legal [of parse] by (auto simp: settingDef_def find_Some_iff list_all_length)

text \<open>What the table says of a key: the decoded row, \<^term>\<open>None\<close> without one.\<close>

definition table_value :: "url_parser \<Rightarrow> string \<Rightarrow> settings_state \<Rightarrow> setting_value option" where
  "table_value parse key s = (case st_rows s key of None \<Rightarrow> None
     | Some row \<Rightarrow> Option.bind (settingDef parse key) (\<lambda>d. decodeSettingValue (sd_Kind d) row))"

definition settings_inv :: "url_parser \<Rightarrow> settings_state \<Rightarrow> bool" where
  "settings_inv parse s \<longleftrightarrow>
     (\<forall>key row. st_rows s key = Some row \<longrightarrow>
        (\<exists>d v. settingDef parse key = Some d \<and> decodeSettingValue (sd_Kind d) row = Some v \<and> legal_value d v))
   \<and> (\<forall>key v e. st_cache s key = Some (v, e) \<longrightarrow> v = table_value parse key s)"

datatype settings_op = ReadSetting go_time bool string | WriteSetting bool string json

fun settings_step :: "url_parser \<Rightarrow> settings_op \<Rightarrow> settings_state \<Rightarrow> settings_state" where
  "settings_step parse (ReadSetting t fails key) s = snd (setting_Effective parse t fails key s)"
| "settings_step parse (WriteSetting fails key raw) s = snd (setting_Set parse fails key raw s)"

definition empty_settings :: settings_state where
  "empty_settings = \<lparr>st_rows = Map.empty, st_cache = Map.empty\<rparr>"

lemma get_keeps:
  assumes i: "settings_inv parse s" and g: "setting_get parse t fails key s = (r, s')"
  shows "settings_inv parse s' \<and> st_rows s' = st_rows s \<and> (\<not> fails \<longrightarrow> r = Inr (table_value parse key s))
    \<and> (r = Inl () \<or> r = Inr (table_value parse key s))"
proof -
  have rows: "\<exists>d v. settingDef parse key = Some d \<and> decodeSettingValue (sd_Kind d) row = Some v" if "st_rows s key = Some row" for row
    using i that unfolding settings_inv_def by blast
  have put: "settings_inv parse (cache_put t key (table_value parse key s) s)"
    using i by (auto simp: settings_inv_def cache_put_def table_value_def)
  have hit: "v = table_value parse key s" if "cache_get t key s = Some v" for v
    using i that by (auto simp: settings_inv_def cache_get_def split: option.splits if_splits)
  show ?thesis
  proof (cases "cache_get t key s")
    case (Some v)
    then show ?thesis using g i hit by (auto simp: setting_get_def)
  next
    case None
    show ?thesis
    proof (cases "st_rows s key")
      case n: None
      then have "table_value parse key s = None" by (simp add: table_value_def)
      then show ?thesis using g i None n put by (auto simp: setting_get_def cache_put_def split: if_splits)
    next
      case (Some row)
      then obtain d v where d: "settingDef parse key = Some d" "decodeSettingValue (sd_Kind d) row = Some v" using rows by blast
      then have "table_value parse key s = Some v" using Some by (simp add: table_value_def)
      then show ?thesis using g i None Some d put by (auto simp: setting_get_def cache_put_def split: if_splits)
    qed
  qed
qed

lemma Effective_keeps: "settings_inv parse s \<Longrightarrow> settings_inv parse (snd (setting_Effective parse t fails key s))"
  using get_keeps [of parse s t fails key]
  by (cases "setting_get parse t fails key s") (auto simp: setting_Effective_def split: option.split)

lemma Set_keeps: "settings_inv parse s \<Longrightarrow> settings_inv parse (snd (setting_Set parse fails key raw s))"
  by (auto simp: setting_Set_def settings_inv_def cache_invalidate_def table_value_def legal_value_def dest: decode_kind
      split: option.splits)

lemma settings_reachable: "settings_inv parse (fold (settings_step parse) ops empty_settings)"
proof (induction ops rule: rev_induct)
  case Nil
  then show ?case by (simp add: settings_inv_def empty_settings_def)
next
  case (snoc op ops)
  then show ?case by (cases op) (simp_all add: Effective_keeps Set_keeps)
qed

lemma effective_legal:
  assumes "settings_inv parse s" "settingDef parse key = Some d" "setting_get parse t fails key s = (r, s')"
  shows "legal_value d (effective d r)"
proof -
  have "legal_value d v" if t: "table_value parse key s = Some v" for v
  proof -
    obtain row where r: "st_rows s key = Some row" using t by (auto simp: table_value_def split: option.splits)
    then obtain e w where "settingDef parse key = Some e" "decodeSettingValue (sd_Kind e) row = Some w" "legal_value e w"
      using assms(1) unfolding settings_inv_def by blast
    then show ?thesis using t r assms(2) by (simp add: table_value_def)
  qed
  then show ?thesis
    using get_keeps [OF assms(1,3)] settingDef_legal [OF assms(2)]
    by (cases "table_value parse key s") (auto simp: effective_def)
qed

text \<open>C39. Every value a reader of the settings gets has the type of its key and passes the check of its key, whatever
  was written, read, refused or failed before, and whether the read itself finds the database; so no type assertion
  panics, and a reader may rely on the registered bounds.\<close>

theorem settings_typed:
  fixes ops :: "settings_op list"
  assumes "settingDef parse key = Some d"
  defines "s \<equiv> fold (settings_step parse) ops empty_settings"
  shows "(\<exists>v. fst (setting_Effective parse t fails key s) = Some v \<and> legal_value d v)
    \<and> (sd_Kind d = SettingInt64 \<longrightarrow> (\<exists>n. fst (GetInt64 parse t fails key s) = Some n \<and> legal_value d (SvInt n)))
    \<and> (sd_Kind d = SettingBool \<longrightarrow> (\<exists>b. fst (GetBool parse t fails key s) = Some b \<and> legal_value d (SvBool b)))
    \<and> (sd_Kind d = SettingString \<longrightarrow> (\<exists>x. fst (GetString parse t fails key s) = Some x \<and> legal_value d (SvStr x)))"
proof -
  obtain r s' where g: "setting_get parse t fails key s = (r, s')" by fastforce
  have "legal_value d (effective d r)" unfolding s_def
    by (rule effective_legal [OF settings_reachable assms(1)]) (use g s_def in simp)
  then show ?thesis using assms(1) g
    by (cases "effective d r") (auto simp: setting_Effective_def GetInt64_def GetBool_def GetString_def typed_get_def legal_value_def)
qed

theorem settings_typed_witness:
  "\<exists>n. fst (GetInt64 (\<lambda>_. None) 5 False ''relay_max_retries'' (fold (settings_step (\<lambda>_. None))
       [WriteSetting False ''relay_max_retries'' (JNum 40), WriteSetting False ''relay_max_retries'' (JNum 7)] empty_settings)) = Some n
     \<and> 1 \<le> n \<and> n \<le> 10"
proof -
  have d: "settingDef (\<lambda>_. None) ''relay_max_retries'' = Some (setting ''relay_max_retries'' (SvInt 3) (between 1 10 msg_set_retries))"
    by (simp add: settingDef_def registry)
  show ?thesis
    using settings_typed [OF d, where t = 5 and fails = False and ops = "[WriteSetting False ''relay_max_retries'' (JNum 40), WriteSetting False ''relay_max_retries'' (JNum 7)]"]
    by (auto simp: legal_value_def between_def split: if_splits)
qed

text \<open>
  With several requests at a time the cache is not transparent: a reader that has read the old row before a write and
  puts it into the cache after the write's invalidation serves the old value for the life time of the item.
\<close>

lemma late_put_serves_stale_value:
  assumes "settingDef parse key = Some d" "decodeSettingValue (sd_Kind d) old = Some v" "st_rows s key = Some old"
    "fst (setting_Set parse False key new s) = None" "t' \<le> t + settings_ttl"
  shows "fst (setting_get parse t' False key (cache_put t key (Some v) (snd (setting_Set parse False key new s)))) = Inr (Some v)"
    and "table_value parse key (cache_put t key (Some v) (snd (setting_Set parse False key new s)))
      = decodeSettingValue (sd_Kind d) new"
  using assms by (auto simp: setting_get_def cache_get_def cache_put_def setting_Set_def cache_invalidate_def table_value_def
      split: option.splits)

text \<open>The cache is transparent: within the process, a read that does not fail gives what the table holds at that
  moment, the decoded row or else the default, however recently the key was written and whatever is cached.\<close>

theorem settings_cache_transparent:
  fixes ops :: "settings_op list"
  assumes "settingDef parse key = Some d"
  defines "s \<equiv> fold (settings_step parse) ops empty_settings"
  shows "fst (setting_Effective parse t False key s)
    = Some (case table_value parse key s of None \<Rightarrow> sd_Default d | Some v \<Rightarrow> v)"
proof -
  obtain r s' where g: "setting_get parse t False key s = (r, s')" by fastforce
  have "r = Inr (table_value parse key s)"
    using get_keeps [OF settings_reachable [of parse ops], of t False key] g by (simp add: s_def)
  then show ?thesis using assms(1) g by (simp add: setting_Effective_def effective_def)
qed

theorem settings_cache_transparent_witness:
  "fst (setting_Effective (\<lambda>_. None) 5 False ''site_name'' (fold (settings_step (\<lambda>_. None))
     [ReadSetting 0 False ''site_name'', WriteSetting False ''site_name'' (JStr ''x'')] empty_settings)) = Some (SvStr ''x'')"
proof -
  have d: "settingDef (\<lambda>_. None) ''site_name'' = Some (setting ''site_name'' (SvStr ''Token Zen'') no_check)"
    by (simp add: settingDef_def registry)
  show ?thesis
    unfolding settings_cache_transparent [OF d]
    by (simp add: d table_value_def setting_Effective_def setting_get_def setting_Set_def cache_get_def cache_put_def
        cache_invalidate_def empty_settings_def)
qed

end
