(* ===== verification/Ledger.thy ===== *)
theory Ledger
  imports Session "HOL-Library.Multiset"
begin

text \<open>
  The queries over the ledger (\<^verbatim>\<open>store/ledger.go\<close>): the filtered list, the list in which the entries of one
  call are merged into one row, and the two reconciliations. Dates of a filter are instants; a type that is
  no entry type is left out of the filters, it finds nothing.
\<close>

section \<open>Pages (pagination.go)\<close>

definition DefaultPageSize :: int where "DefaultPageSize = 20"
definition MaxPageSize :: int where "MaxPageSize = 100"

definition NormalizePagination :: "int \<Rightarrow> int \<Rightarrow> int \<times> int" where
  "NormalizePagination page pageSize =
     (if page < 1 then 1 else page,
      let pageSize = if pageSize < 1 then DefaultPageSize else pageSize in
      if pageSize > MaxPageSize then MaxPageSize else pageSize)"

text \<open>\<open>OFFSET (page - 1) * pageSize LIMIT pageSize\<close>; the query builder leaves out an offset that is not positive.\<close>

definition page_of :: "int \<Rightarrow> int \<Rightarrow> 'a list \<Rightarrow> 'a list" where
  "page_of page pageSize xs = take (nat pageSize) (drop (nat (wrap64 ((page - 1) * pageSize))) xs)"

section \<open>The list\<close>

record LedgerListFilter =
  lf_UserID :: row_id
  lf_EntryType :: "LedgerEntryType option"
  lf_StartTime :: "go_time option"
  lf_EndTime :: "go_time option"
  lf_IntegrationID :: "row_id option"
  lf_Page :: int
  lf_PageSize :: int

definition optional :: "('a \<Rightarrow> bool) \<Rightarrow> 'a option \<Rightarrow> bool" where
  "optional p x = (case x of None \<Rightarrow> True | Some y \<Rightarrow> p y)"

definition ledger_matches :: "LedgerListFilter \<Rightarrow> ledger_entry \<Rightarrow> bool" where
  "ledger_matches f x \<longleftrightarrow> (lf_UserID f > 0 \<longrightarrow> le_userID x = lf_UserID f)
     \<and> optional (\<lambda>t. le_entryType x = t) (lf_EntryType f)
     \<and> optional (\<lambda>t. le_createdAt x \<ge> t) (lf_StartTime f)
     \<and> optional (\<lambda>t. le_createdAt x < t) (lf_EndTime f)
     \<and> optional (\<lambda>i. le_integrationID x = i) (lf_IntegrationID f)"

definition newest_first :: "('a \<Rightarrow> row_id) \<Rightarrow> 'a list \<Rightarrow> 'a list" where
  "newest_first f xs = sort_key (\<lambda>x. - f x) xs"

definition ledger_List :: "env \<Rightarrow> LedgerListFilter \<Rightarrow> (ledger_entry list \<times> int) sql" where
  "ledger_List e f =
     sql_bind (exec e CountLedger (\<lambda>s. (Inr (int (length (filter (ledger_matches f) (ledger s)))), s))) (\<lambda>total.
       case NormalizePagination (lf_Page f) (lf_PageSize f) of (page, pageSize) \<Rightarrow>
       exec e SelectLedger (\<lambda>s.
         (Inr (page_of page pageSize (newest_first le_ID (filter (ledger_matches f) (ledger s))), total), s)))"

section \<open>The merged list\<close>

definition callEntryTypes :: "LedgerEntryType list" where
  "callEntryTypes = [LedgerConsume, LedgerSettleAdjust, LedgerRefund]"

definition isCallEntry :: "LedgerEntryType \<Rightarrow> bool" where
  "isCallEntry t \<longleftrightarrow> List.member callEntryTypes t"

text \<open>The key of a group, as the SQL expression and as the Go function.\<close>

definition mergedGroupKey :: "ledger_entry \<Rightarrow> string" where
  "mergedGroupKey x = (if le_entryType x \<in> {LedgerConsume, LedgerSettleAdjust, LedgerRefund} \<and> le_requestID x \<noteq> []
     then ''req:'' @ le_requestID x else ''entry:'' @ show_int (le_ID x))"

definition ledgerGroupKeyOf :: "ledger_entry \<Rightarrow> string" where
  "ledgerGroupKeyOf x = (if isCallEntry (le_entryType x) \<and> le_requestID x \<noteq> []
     then ''req:'' @ le_requestID x else ''entry:'' @ show_int (le_ID x))"

record MergedLedgerRow =
  mr_ID :: row_id
  mr_RequestID :: string
  mr_EntryType :: LedgerEntryType
  mr_Amount :: credits
  mr_BalanceAfter :: credits
  mr_Note :: string
  mr_CreatedAt :: go_time
  mr_Entries :: "ledger_entry list"

record MergedLedgerFilter =
  mf_UserID :: row_id
  mf_EntryType :: "LedgerEntryType option"
  mf_OnlyCalls :: bool
  mf_Page :: int
  mf_PageSize :: int

definition merged_base :: "MergedLedgerFilter \<Rightarrow> ledger_entry list \<Rightarrow> ledger_entry list" where
  "merged_base f es = filter (\<lambda>x. le_userID x = mf_UserID f
     \<and> (if mf_OnlyCalls f then isCallEntry (le_entryType x)
        else optional (\<lambda>t. le_entryType x = t) (mf_EntryType f))) es"

definition merged_row :: "ledger_entry list \<Rightarrow> MergedLedgerRow" where
  "merged_row grp =
     (let first = hd grp; latest = last grp;
          row = \<lparr>mr_ID = le_ID latest, mr_RequestID = [], mr_EntryType = le_entryType first,
                 mr_Amount = foldl (\<lambda>a x. wrap64 (a + le_amount x)) 0 grp, mr_BalanceAfter = le_balanceAfter latest,
                 mr_Note = le_note first, mr_CreatedAt = le_createdAt first, mr_Entries = grp\<rparr>
      in if isCallEntry (le_entryType first) \<and> le_requestID first \<noteq> []
         then row\<lparr>mr_RequestID := le_requestID first, mr_EntryType := LedgerConsume\<rparr> else row)"

definition mergeLedgerGroups :: "string list \<Rightarrow> ledger_entry list \<Rightarrow> MergedLedgerRow list" where
  "mergeLedgerGroups order es =
     map merged_row (filter (\<lambda>g. g \<noteq> []) (map (\<lambda>k. filter (\<lambda>x. ledgerGroupKeyOf x = k) es) order))"

text \<open>\<open>GROUP BY\<close> with \<open>MAX(id)\<close>, ordered by it, newest first.\<close>

definition merged_groups :: "ledger_entry list \<Rightarrow> (row_id \<times> string) list" where
  "merged_groups base = newest_first fst
     (map (\<lambda>k. (Max (le_ID ` set (filter (\<lambda>x. mergedGroupKey x = k) base)), k)) (remdups (map mergedGroupKey base)))"

definition ListMerged :: "env \<Rightarrow> MergedLedgerFilter \<Rightarrow> (MergedLedgerRow list \<times> int) sql" where
  "ListMerged e f =
     sql_bind (exec e CountLedger (\<lambda>s. (Inr (int (card (mergedGroupKey ` set (merged_base f (ledger s))))), s))) (\<lambda>total.
       if total = 0 then sql_return ([], 0)
       else case NormalizePagination (mf_Page f) (mf_PageSize f) of (page, pageSize) \<Rightarrow>
         sql_bind (exec e SelectLedgerGroups (\<lambda>s.
           (Inr (page_of page pageSize (merged_groups (merged_base f (ledger s)))), s))) (\<lambda>groups.
         if groups = [] then sql_return ([], total)
         else exec e SelectLedger (\<lambda>s.
           (Inr (mergeLedgerGroups (map snd groups)
              (sort_key le_ID (filter (\<lambda>x. le_userID x = mf_UserID f \<and> mergedGroupKey x \<in> set (map snd groups)) (ledger s))),
             total), s))))"

definition GetByRequestEntry :: "env \<Rightarrow> string \<Rightarrow> LedgerEntryType \<Rightarrow> ledger_entry sql" where
  "GetByRequestEntry e rid entryType = exec e SelectLedger (\<lambda>s.
     case List.find (\<lambda>x. le_requestID x = rid \<and> le_entryType x = entryType) (sort_key le_ID (ledger s)) of
       None \<Rightarrow> (Inl ErrNotFound, s) | Some x \<Rightarrow> (Inr x, s))"

definition CountByUser :: "env \<Rightarrow> row_id \<Rightarrow> int sql" where
  "CountByUser e uid = exec e CountLedger (\<lambda>s.
     (Inr (int (length (filter (\<lambda>x. le_userID x = uid) (ledger s)))), s))"

section \<open>The reconciliations\<close>

record Mismatch =
  mm_ID :: row_id
  mm_Name :: string
  mm_Booked :: credits
  mm_LedgerSum :: credits
  mm_Difference :: credits

text \<open>The rows of a table by primary key. A sum is computed without overflow and read into 64 bits.\<close>

definition rows_by_id :: "(row_id, 'v) tbl \<Rightarrow> (row_id \<times> 'v) list" where
  "rows_by_id t = map (\<lambda>i. (i, the (tbl_get t i))) (sort (remdups (map fst t)))"

definition scan_mismatches :: "sql_stmt \<Rightarrow> Mismatch list \<Rightarrow> Mismatch list sql" where
  "scan_mismatches st rows s =
     (if list_all (\<lambda>r. i64 (mm_LedgerSum r) \<and> i64 (mm_Difference r)) rows then (Inr rows, s) else stmt_error st s)"

definition user_mismatch :: "ledger_entry list \<Rightarrow> row_id \<times> user_row \<Rightarrow> Mismatch" where
  "user_mismatch es = (\<lambda>(i, u). let total = sum_where (\<lambda>x. le_userID x = i) le_amount es in
     \<lparr>mm_ID = i, mm_Name = username u, mm_Booked = credit_balance u, mm_LedgerSum = total,
      mm_Difference = credit_balance u - total\<rparr>)"

definition Reconcile :: "env \<Rightarrow> Mismatch list sql" where
  "Reconcile e = exec e SelectMismatches (\<lambda>s. scan_mismatches SelectMismatches
     (filter (\<lambda>r. mm_Booked r \<noteq> mm_LedgerSum r) (map (user_mismatch (ledger s)) (rows_by_id (users s)))) s)"

definition key_entries :: "row_id \<Rightarrow> ledger_entry \<Rightarrow> bool" where
  "key_entries i x \<longleftrightarrow> le_refType x = ''api_key'' \<and> le_refID x = i"

definition key_mismatch :: "ledger_entry list \<Rightarrow> row_id \<times> api_key_row \<Rightarrow> Mismatch" where
  "key_mismatch es = (\<lambda>(i, k). let total = sum_where (key_entries i) le_amount es in
     \<lparr>mm_ID = i, mm_Name = k_name k, mm_Booked = k_credit_used k, mm_LedgerSum = total,
      mm_Difference = k_credit_used k + total\<rparr>)"

definition ReconcileAPIKeys :: "env \<Rightarrow> Mismatch list sql" where
  "ReconcileAPIKeys e = exec e SelectKeyMismatches (\<lambda>s. scan_mismatches SelectKeyMismatches
     (filter (\<lambda>r. mm_Booked r \<noteq> - mm_LedgerSum r) (map (key_mismatch (ledger s)) (rows_by_id (api_keys s)))) s)"

section \<open>Pages and groups\<close>

lemma concat_pages: "concat (map (\<lambda>p. take n (drop (p * n) xs)) [0..<N]) = take (N * n) xs"
proof (induction N)
  case (Suc N)
  then show ?case using take_add [of "N * n" n xs] by (simp add: add.commute)
qed simp

lemma mset_groups:
  "distinct ks \<Longrightarrow> mset (concat (map (\<lambda>k. filter (\<lambda>x. f x = k) xs) ks)) = mset (filter (\<lambda>x. f x \<in> set ks) xs)"
proof (induction ks)
  case (Cons k ks)
  have "mset (filter (\<lambda>x. f x = k) ys) + mset (filter (\<lambda>x. f x \<in> set ks) ys) = mset (filter (\<lambda>x. f x = k \<or> f x \<in> set ks) ys)"
    for ys using Cons.prems by (induction ys) auto
  then show ?case using Cons by simp
qed simp

lemma foldl_wrap64: "foldl (\<lambda>a x. wrap64 (a + f x)) a xs = (if xs = [] then a else wrap64 (a + sum_list (map f xs)))"
proof (induction xs arbitrary: a)
  case (Cons x xs)
  show ?case by (simp add: Cons.IH wrap64_add_left add.assoc)
qed simp

lemma newest_first_strict:
  assumes "distinct (map f xs)"
  shows "sorted_wrt (\<lambda>a b. f b < f a) (newest_first f xs)"
proof -
  have "sorted_wrt (\<le>) (map (\<lambda>x. - f x) (newest_first f xs))" unfolding newest_first_def by simp
  then have s: "sorted_wrt (\<lambda>a b. f b \<le> f a) (newest_first f xs)" by (simp add: sorted_map)
  have "mset (map f (newest_first f xs)) = mset (map f xs)" by (simp add: newest_first_def)
  then have "distinct (map f (newest_first f xs))" using assms mset_eq_imp_distinct_iff by blast
  with s show ?thesis
    by (auto simp: sorted_wrt_iff_nth_less distinct_conv_nth order_less_le)
qed

lemma wrap64_add_right: "wrap64 (a + wrap64 b) = wrap64 (a + b)"
  using wrap64_add_left [of b a] by (simp add: add.commute)

lemma same_key: "mergedGroupKey = ledgerGroupKeyOf"
  by (intro ext) (auto simp: mergedGroupKey_def ledgerGroupKeyOf_def isCallEntry_def callEntryTypes_def)

definition group_of :: "ledger_entry list \<Rightarrow> string \<Rightarrow> ledger_entry list" where
  "group_of es k = filter (\<lambda>x. ledgerGroupKeyOf x = k) es"

lemma group_of_nonempty: "k \<in> ledgerGroupKeyOf ` set es \<Longrightarrow> group_of es k \<noteq> []"
  by (auto simp: group_of_def filter_empty_conv)

definition by_id :: "ledger_entry list \<Rightarrow> bool" where
  "by_id es \<longleftrightarrow> sorted_wrt (\<lambda>x y. le_ID x < le_ID y) es"

lemma by_id_filter [simp]: "by_id es \<Longrightarrow> by_id (filter p es)"
  by (simp add: by_id_def sorted_wrt_filter)

lemma by_id_sort: "by_id es \<Longrightarrow> sort_key le_ID es = es"
  by (rule sort_key_id_if_sorted) (auto simp: by_id_def sorted_map elim: sorted_wrt_mono_rel [rotated])

lemma by_id_max: "by_id es \<Longrightarrow> es \<noteq> [] \<Longrightarrow> Max (le_ID ` set es) = le_ID (last es)"
proof (induction es rule: rev_induct)
  case (snoc x es)
  then have "\<forall>y \<in> set es. le_ID y < le_ID x" by (simp add: by_id_def sorted_wrt_append)
  then show ?case by (auto intro!: Max_eqI simp: less_imp_le)
qed simp

lemma by_id_inj: "by_id es \<Longrightarrow> x \<in> set es \<Longrightarrow> y \<in> set es \<Longrightarrow> le_ID x = le_ID y \<Longrightarrow> x = y"
proof (induction es)
  case (Cons z es)
  then show ?case by (auto simp: by_id_def)
qed simp

lemma merged_groups_ok:
  assumes "by_id base"
  shows "distinct (map snd (merged_groups base))" "set (map snd (merged_groups base)) = ledgerGroupKeyOf ` set base"
    "sorted_wrt (\<lambda>a b. fst b < fst a) (merged_groups base)"
    "(m, k) \<in> set (merged_groups base) \<Longrightarrow> m = le_ID (last (group_of base k))"
    "length (merged_groups base) = card (ledgerGroupKeyOf ` set base)"
proof -
  let ?ks = "remdups (map ledgerGroupKeyOf base)"
  let ?g = "\<lambda>k. (Max (le_ID ` set (filter (\<lambda>x. ledgerGroupKeyOf x = k) base)), k)"
  have mg: "merged_groups base = newest_first fst (map ?g ?ks)"
    by (simp add: merged_groups_def same_key)
  have ms: "mset (merged_groups base) = mset (map ?g ?ks)" unfolding mg newest_first_def by simp
  have top: "Max (le_ID ` set (group_of base k)) = le_ID (last (group_of base k))" if "k \<in> set ?ks" for k
    using that assms by (intro by_id_max) (auto simp: group_of_nonempty, simp add: group_of_def)
  have in_group: "last (group_of base k) \<in> set base \<and> ledgerGroupKeyOf (last (group_of base k)) = k" if "k \<in> set ?ks" for k
  proof -
    have "last (group_of base k) \<in> set (group_of base k)"
      using that group_of_nonempty by (intro last_in_set) auto
    then show ?thesis by (simp add: group_of_def)
  qed
  have "mset (map snd (merged_groups base)) = mset ?ks"
    using arg_cong [OF ms, of "image_mset snd"] by (simp add: image_mset.compositionality comp_def)
  then show "distinct (map snd (merged_groups base))"
    by (metis distinct_remdups mset_eq_imp_distinct_iff)
  show "set (map snd (merged_groups base)) = ledgerGroupKeyOf ` set base"
  proof -
    have "set (map snd (merged_groups base)) = set ?ks"
      using \<open>mset (map snd (merged_groups base)) = mset ?ks\<close> by (rule mset_eq_setD)
    then show ?thesis by simp
  qed
  show "length (merged_groups base) = card (ledgerGroupKeyOf ` set base)"
    using mset_eq_length [OF ms] by (simp add: length_remdups_card_conv)
  show "m = le_ID (last (group_of base k))" if "(m, k) \<in> set (merged_groups base)"
    using that mset_eq_setD [OF ms] top by (auto simp: group_of_def)
  have "inj_on (fst \<circ> ?g) (set ?ks)"
  proof (rule inj_onI)
    fix a b assume k: "a \<in> set ?ks" "b \<in> set ?ks" and e: "(fst \<circ> ?g) a = (fst \<circ> ?g) b"
    have "le_ID (last (group_of base a)) = le_ID (last (group_of base b))"
      using e top [OF k(1)] top [OF k(2)] by (simp add: group_of_def)
    then have "last (group_of base a) = last (group_of base b)"
      using by_id_inj [OF assms] in_group k by blast
    then show "a = b" using in_group k by metis
  qed
  then have "distinct (map fst (map ?g ?ks))" by (simp add: distinct_map comp_def)
  from newest_first_strict [OF this] show "sorted_wrt (\<lambda>a b. fst b < fst a) (merged_groups base)"
    by (simp add: mg)
qed

lemma page_rows:
  assumes "by_id es" "set ks \<subseteq> ledgerGroupKeyOf ` set (filter p es)"
  shows "mergeLedgerGroups ks (sort_key le_ID (filter (\<lambda>x. p x \<and> mergedGroupKey x \<in> set ks) es))
    = map (\<lambda>k. merged_row (group_of (filter p es) k)) ks"
proof -
  have g: "filter (\<lambda>x. ledgerGroupKeyOf x = k) (filter (\<lambda>x. p x \<and> ledgerGroupKeyOf x \<in> set ks) es) = group_of (filter p es) k"
    if "k \<in> set ks" for k
    using that by (auto simp: group_of_def intro!: filter_cong)
  have n: "filter (\<lambda>g. g \<noteq> []) (map (group_of (filter p es)) ks) = map (group_of (filter p es)) ks"
  proof (rule filter_True, rule ballI)
    fix g assume "g \<in> set (map (group_of (filter p es)) ks)"
    then obtain k where k: "k \<in> set ks" "g = group_of (filter p es) k" by auto
    have "k \<in> ledgerGroupKeyOf ` set (filter p es)" by (rule subsetD [OF assms(2) k(1)])
    then show "g \<noteq> []" unfolding k(2) by (rule group_of_nonempty)
  qed
  have "map (\<lambda>k. filter (\<lambda>x. ledgerGroupKeyOf x = k) (filter (\<lambda>x. p x \<and> ledgerGroupKeyOf x \<in> set ks) es)) ks
      = map (group_of (filter p es)) ks"
    using g by (intro map_cong) auto
  with n show ?thesis
    unfolding mergeLedgerGroups_def same_key by_id_sort [OF by_id_filter [OF assms(1)]]
    by (simp only: map_map comp_def)
qed

lemma merged_row_fields [simp]:
  "mr_Entries (merged_row g) = g" "mr_ID (merged_row g) = le_ID (last g)"
  "g \<noteq> [] \<Longrightarrow> mr_Amount (merged_row g) = wrap64 (sum_list (map le_amount g))"
  by (simp_all add: merged_row_def Let_def foldl_wrap64)

definition merged_all :: "ledger_entry list \<Rightarrow> MergedLedgerRow list" where
  "merged_all base = map (\<lambda>g. merged_row (group_of base (snd g))) (merged_groups base)"

text \<open>The page a healthy database answers with, and the number of rows.\<close>

lemma ListMerged_page:
  assumes "by_id (ledger s)" "\<And>st. \<not> stmt_fails e st"
    "NormalizePagination (mf_Page f) (mf_PageSize f) = (page, ps)"
  defines "base \<equiv> merged_base f (ledger s)"
  assumes "merged_base f (ledger s) = filter (\<lambda>x. le_userID x = mf_UserID f) (ledger s)"
  shows "ListMerged e f s = (Inr (page_of page ps (merged_all base), int (length (merged_all base))), s)"
proof -
  let ?gs = "page_of page ps (merged_groups base)"
  have b: "by_id base" unfolding base_def merged_base_def by (rule by_id_filter [OF assms(1)])
  note mg = merged_groups_ok [OF b]
  have ks: "set (map snd ?gs) \<subseteq> ledgerGroupKeyOf ` set base"
    using mg(2) by (auto simp: page_of_def dest!: in_set_takeD in_set_dropD)
  have len: "card (mergedGroupKey ` set base) = length (merged_all base)"
    using mg(5) by (simp add: merged_all_def same_key)
  have rows: "mergeLedgerGroups (map snd ?gs) (sort_key le_ID (filter (\<lambda>x. le_userID x = mf_UserID f
      \<and> mergedGroupKey x \<in> set (map snd ?gs)) (ledger s))) = page_of page ps (merged_all base)"
    using page_rows [OF assms(1), of "map snd ?gs" "\<lambda>x. le_userID x = mf_UserID f"] ks assms(5)
    by (simp add: base_def merged_all_def page_of_def take_map drop_map comp_def)
  have e0: "page_of page ps (merged_all base) = []" if "merged_all base = [] \<or> ?gs = []"
    using that by (auto simp: merged_all_def page_of_def take_map drop_map)
  show ?thesis
    using rows e0 len assms(2,3)
    by (auto simp: ListMerged_def sql_bind_def sql_return_def exec_def base_def [symmetric] merged_all_def)
qed

lemma page_of_nth:
  assumes "1 \<le> ps" "int (length xs) \<le> MaxInt64" "p * nat ps < length xs"
  shows "page_of (int (Suc p)) ps xs = take (nat ps) (drop (p * nat ps) xs)"
proof -
  have "int p * ps = int (p * nat ps)" using assms(1) by simp
  moreover have "0 \<le> int (p * nat ps)" "int (p * nat ps) \<le> MaxInt64" using assms(2,3) by linarith+
  then have "i64 (int (p * nat ps))" unfolding i64_def MinInt64_def by linarith
  ultimately have "nat (wrap64 (int p * ps)) = p * nat ps" by (simp only: wrap64_id nat_int)
  then show ?thesis by (simp add: page_of_def)
qed

lemma all_pages:
  assumes "1 \<le> ps" "int (length xs) \<le> MaxInt64"
  shows "concat (map (\<lambda>p. page_of (int p) ps xs) [1..<Suc (nat ((int (length xs) + ps - 1) div ps))]) = xs"
proof -
  let ?n = "nat ps" and ?N = "(length xs + nat ps - 1) div nat ps"
  have n: "0 < ?n" using assms(1) by simp
  have N: "nat ((int (length xs) + ps - 1) div ps) = ?N"
    using assms(1) by (simp add: nat_div_distrib nat_diff_distrib nat_add_distrib)
  have low: "p * ?n < length xs" if "p < ?N" for p
  proof -
    have "Suc p * ?n \<le> length xs + ?n - 1" using that n by (simp add: less_eq_div_iff_mult_less_eq flip: Suc_le_eq)
    then show ?thesis using n by simp
  qed
  have high: "length xs \<le> ?N * ?n"
  proof -
    have "length xs + ?n - 1 < ?n + ?n * ?N" by (rule dividend_less_times_div [OF n])
    then show ?thesis using n by (simp only: mult.commute [of ?N]) linarith
  qed
  have "concat (map (\<lambda>p. page_of (int p) ps xs) [1..<Suc ?N]) = concat (map (\<lambda>p. page_of (int (Suc p)) ps xs) [0..<?N])"
    by (simp add: map_Suc_upt [symmetric] comp_def del: upt_Suc map_Suc_upt)
  also have "\<dots> = concat (map (\<lambda>p. take ?n (drop (p * ?n) xs)) [0..<?N])"
    using page_of_nth [OF assms] low by (intro arg_cong [where f = concat] map_cong) auto
  finally show ?thesis using N high by (simp add: concat_pages)
qed

definition merged_page :: "env \<Rightarrow> MergedLedgerFilter \<Rightarrow> db \<Rightarrow> nat \<Rightarrow> MergedLedgerRow list" where
  "merged_page e f s p = (case fst (ListMerged e (f\<lparr>mf_Page := int p\<rparr>) s) of Inr (rows, _) \<Rightarrow> rows | Inl _ \<Rightarrow> [])"

lemma merged_all_entries:
  assumes "by_id base"
  shows "mset (concat (map mr_Entries (merged_all base))) = mset base"
proof -
  have "concat (map mr_Entries (merged_all base))
      = concat (map (\<lambda>k. filter (\<lambda>x. ledgerGroupKeyOf x = k) base) (map snd (merged_groups base)))"
    by (simp add: merged_all_def group_of_def comp_def)
  also have "mset \<dots> = mset (filter (\<lambda>x. ledgerGroupKeyOf x \<in> set (map snd (merged_groups base))) base)"
    by (rule mset_groups [OF merged_groups_ok(1) [OF assms]])
  also have "filter (\<lambda>x. ledgerGroupKeyOf x \<in> set (map snd (merged_groups base))) base = base"
    unfolding merged_groups_ok(2) [OF assms] by (rule filter_True) blast
  finally show ?thesis .
qed

lemma merged_all_group:
  assumes "by_id base" "a \<in> set (merged_all base)"
  obtains k where "k \<in> ledgerGroupKeyOf ` set base" "a = merged_row (group_of base k)" "group_of base k \<noteq> []"
proof -
  from assms(2) obtain g where g: "g \<in> set (merged_groups base)" "a = merged_row (group_of base (snd g))"
    by (auto simp: merged_all_def)
  then have "snd g \<in> ledgerGroupKeyOf ` set base" using merged_groups_ok(2) [OF assms(1)] by auto
  with g show thesis using that group_of_nonempty by blast
qed

lemma merged_all_amount:
  assumes "by_id base"
  shows "wrap64 (sum_list (map mr_Amount (merged_all base))) = wrap64 (sum_list (map le_amount base))"
proof -
  have w: "wrap64 (sum_list (map mr_Amount rows)) = wrap64 (sum_list (map le_amount (concat (map mr_Entries rows))))"
    if "\<forall>a \<in> set rows. mr_Amount a = wrap64 (sum_list (map le_amount (mr_Entries a)))" for rows
    using that
  proof (induction rows)
    case (Cons a rows)
    then have IH: "wrap64 (sum_list (map mr_Amount rows)) = wrap64 (sum_list (map le_amount (concat (map mr_Entries rows))))"
      by simp
    have "wrap64 (sum_list (map mr_Amount (a # rows)))
        = wrap64 (sum_list (map le_amount (mr_Entries a)) + wrap64 (sum_list (map mr_Amount rows)))"
      using Cons.prems by (simp add: wrap64_add_left wrap64_add_right)
    also have "\<dots> = wrap64 (sum_list (map le_amount (concat (map mr_Entries (a # rows)))))"
      unfolding IH by (simp add: wrap64_add_right)
    finally show ?case .
  qed simp
  have "\<forall>a \<in> set (merged_all base). mr_Amount a = wrap64 (sum_list (map le_amount (mr_Entries a)))"
    by (auto elim!: merged_all_group [OF assms])
  from w [OF this] have "wrap64 (sum_list (map mr_Amount (merged_all base)))
      = wrap64 (sum_list (map le_amount (concat (map mr_Entries (merged_all base)))))" .
  also have "sum_list (map le_amount (concat (map mr_Entries (merged_all base)))) = sum_list (map le_amount base)"
    using arg_cong [OF merged_all_entries [OF assms], of "\<lambda>m. sum_mset (image_mset le_amount m)"]
    by (simp only: mset_map [symmetric] sum_mset_sum_list)
  finally show ?thesis .
qed

text \<open>
  C38. The merged list loses nothing and shows nothing twice. Over the pages of any legal size the rows come newest
  first, as many as the total says; together they hold every entry of the user exactly once, the entries of one call
  are in one row, and the net amounts add up to the balance (as 64-bit numbers).
\<close>

theorem merged_pages_cover:
  assumes "db_reach s" "\<And>st. \<not> stmt_fails e st" "1 \<le> mf_PageSize f" "mf_PageSize f \<le> MaxPageSize"
    "\<not> mf_OnlyCalls f" "mf_EntryType f = None" "int (length (ledger s)) \<le> MaxInt64"
  shows "\<exists>total. (\<forall>p. \<exists>rows. fst (ListMerged e (f\<lparr>mf_Page := p\<rparr>) s) = Inr (rows, total))
    \<and> (let rows = concat (map (merged_page e f s) [1..<Suc (nat ((total + mf_PageSize f - 1) div mf_PageSize f))]) in
        int (length rows) = total
      \<and> mset (concat (map mr_Entries rows)) = mset (filter (\<lambda>x. le_userID x = mf_UserID f) (ledger s))
      \<and> sorted_wrt (\<lambda>a b. mr_ID b < mr_ID a) rows
      \<and> (\<forall>a \<in> set rows. \<forall>b \<in> set rows. \<forall>x \<in> set (mr_Entries a). \<forall>y \<in> set (mr_Entries b).
           isCallEntry (le_entryType x) \<and> isCallEntry (le_entryType y) \<and> le_requestID x \<noteq> []
           \<and> le_requestID x = le_requestID y \<longrightarrow> a = b)
      \<and> (\<forall>u. tbl_get (users s) (mf_UserID f) = Some u \<longrightarrow> credit_balance u = wrap64 (sum_list (map mr_Amount rows))))"
proof -
  let ?base = "filter (\<lambda>x. le_userID x = mf_UserID f) (ledger s)"
  have bk: "balanced s" "by_id (ledger s)"
    using db_reach_books [OF assms(1)] by (auto simp: books_def ledger_ok_def by_id_def)
  then have b: "by_id ?base" by simp
  have mb: "merged_base (f\<lparr>mf_Page := p\<rparr>) (ledger s) = ?base" for p
    using assms(5,6) by (simp add: merged_base_def optional_def)
  have norm_page: "NormalizePagination p (mf_PageSize f) = (if p < 1 then 1 else p, mf_PageSize f)" for p
    using assms(3,4) by (simp add: NormalizePagination_def Let_def)
  have page: "ListMerged e (f\<lparr>mf_Page := p\<rparr>) s
      = (Inr (page_of (if p < 1 then 1 else p) (mf_PageSize f) (merged_all ?base), int (length (merged_all ?base))), s)" for p
    using ListMerged_page [OF bk(2) assms(2), where f = "f\<lparr>mf_Page := p\<rparr>"] norm_page [of p] mb [of p] by simp
  have "length (merged_all ?base) \<le> length ?base"
    using merged_groups_ok(5) [OF b] card_image_le [of "set ?base" ledgerGroupKeyOf] card_length [of ?base]
    by (simp add: merged_all_def)
  then have small: "int (length (merged_all ?base)) \<le> MaxInt64"
    using assms(7) length_filter_le [of "\<lambda>x. le_userID x = mf_UserID f" "ledger s"] by linarith
  let ?N = "Suc (nat ((int (length (merged_all ?base)) + mf_PageSize f - 1) div mf_PageSize f))"
  have "map (merged_page e f s) [1..<?N] = map (\<lambda>p. page_of (int p) (mf_PageSize f) (merged_all ?base)) [1..<?N]"
  proof (rule map_cong [OF refl])
    fix p assume "p \<in> set [1..<?N]"
    then have "\<not> int p < 1" by (simp only: set_upt atLeastLessThan_iff) linarith
    then show "merged_page e f s p = page_of (int p) (mf_PageSize f) (merged_all ?base)"
      by (simp only: merged_page_def page) simp
  qed
  then have rows: "concat (map (merged_page e f s) [1..<?N]) = merged_all ?base"
    by (simp only: all_pages [OF assms(3) small])
  have newest: "sorted_wrt (\<lambda>a b. mr_ID b < mr_ID a) (merged_all ?base)"
    using merged_groups_ok(3) [OF b] merged_groups_ok(4) [OF b]
    by (auto simp: merged_all_def sorted_wrt_map elim!: sorted_wrt_mono_rel [rotated])
  have one_row: "a = c" if "a \<in> set (merged_all ?base)" "c \<in> set (merged_all ?base)" "x \<in> set (mr_Entries a)"
      "y \<in> set (mr_Entries c)" "isCallEntry (le_entryType x)" "isCallEntry (le_entryType y)"
      "le_requestID x \<noteq> []" "le_requestID x = le_requestID y" for a c x y
    using that by (auto elim!: merged_all_group [OF b] simp: group_of_def ledgerGroupKeyOf_def)
  have "credit_balance u = wrap64 (sum_list (map mr_Amount (merged_all ?base)))"
    if "tbl_get (users s) (mf_UserID f) = Some u" for u
    using balancedD(1,3) [OF bk(1) that] merged_all_amount [OF b]
    by (simp add: sum_where_def user_entries_def [abs_def] wrap64_id)
  moreover have "\<exists>rows. fst (ListMerged e (f\<lparr>mf_Page := p\<rparr>) s) = Inr (rows, int (length (merged_all ?base)))" for p
    by (simp add: page)
  ultimately show ?thesis
    using merged_all_entries [OF b] newest one_row
    by (intro exI [of _ "int (length (merged_all ?base))"]) (simp only: Let_def rows simp_thms, metis)
qed

lemma db_reach_seeded:
  assumes "credit_balance u = 0" "u_credit_used u = 0"
  shows "db_reach (empty_db [] \<lparr>users := [(i, u)]\<rparr>)"
proof -
  have "db_reach (empty_db [] \<lparr>users := users (empty_db []) @ [(i, u)]\<rparr>)"
    by (rule db_reach.add_user [OF db_reach.start])
      (use assms in \<open>simp_all add: codes_ok_def empty_db_def tbl_get_def\<close>)
  then show ?thesis by (simp add: empty_db_def)
qed

lemma demo_granted:
  "\<exists>s. db_reach s \<and> fst (Grant demo_env 1 10 9 [] [] (empty_db [] \<lparr>users := [(1, demo_user\<lparr>credit_balance := 0\<rparr>)]\<rparr>)) \<noteq> Inl ErrZeroAmount
     \<and> length (ledger s) = 1 \<and> (\<exists>u. tbl_get (users s) 1 = Some u \<and> credit_balance u = 10)"
proof -
  let ?s = "empty_db [] \<lparr>users := [(1, demo_user\<lparr>credit_balance := 0\<rparr>)]\<rparr>"
  have r: "db_reach ?s" by (rule db_reach_seeded) (simp_all add: demo_user_def)
  obtain x s where g: "Grant demo_env 1 10 9 [] [] ?s = (x, s)" by fastforce
  have "db_reach s" by (rule db_reach.grant [OF r _ g]) (simp add: i64_def MinInt64_def MaxInt64_def)
  moreover have "x \<noteq> Inl ErrZeroAmount \<and> length (ledger s) = 1 \<and> (\<exists>u. tbl_get (users s) 1 = Some u \<and> credit_balance u = 10)"
    using g by (auto simp: Grant_def grant_adjustment_def AdminRequestID_def empty_db_def eval_rules demo_env_fields)
  ultimately show ?thesis using g by auto
qed

theorem merged_pages_cover_witness:
  "\<exists>s rows total. ListMerged demo_env \<lparr>mf_UserID = 1, mf_EntryType = None, mf_OnlyCalls = False, mf_Page = 1, mf_PageSize = 20\<rparr> s
      = (Inr (rows, total), s) \<and> length (ledger s) = 1"
proof -
  let ?f = "\<lparr>mf_UserID = 1, mf_EntryType = None, mf_OnlyCalls = False, mf_Page = 7, mf_PageSize = 20\<rparr>"
  obtain s where s: "db_reach s" "length (ledger s) = 1" using demo_granted by blast
  have h: "\<not> stmt_fails demo_env st" for st using demo_healthy by (simp add: healthy_def)
  obtain total where "\<forall>p. \<exists>rows. fst (ListMerged demo_env (?f\<lparr>mf_Page := p\<rparr>) s) = Inr (rows, total)"
    using merged_pages_cover [OF s(1) h, of ?f] s(2) by (auto simp: MaxPageSize_def MaxInt64_def)
  then obtain rows where "fst (ListMerged demo_env (?f\<lparr>mf_Page := 1\<rparr>) s) = Inr (rows, total)" by blast
  moreover have "snd (ListMerged demo_env (?f\<lparr>mf_Page := 1\<rparr>) s) = s"
    by (simp add: ListMerged_def sql_bind_def sql_return_def exec_def h split: prod.split)
  ultimately show ?thesis using s(2) by (metis MergedLedgerFilter.update_convs(4) prod.collapse)
qed

section \<open>What the reconciliations say\<close>

lemma rows_by_id: "(i, v) \<in> set (rows_by_id t) \<longleftrightarrow> tbl_get t i = Some v"
proof -
  have "i \<in> fst ` set t \<longleftrightarrow> tbl_get t i \<noteq> None" by (simp add: tbl_get_def map_of_eq_None_iff)
  then show ?thesis by (auto simp: rows_by_id_def)
qed

lemma ball_rows_by_id: "(\<forall>x \<in> set (rows_by_id t). P x) \<longleftrightarrow> (\<forall>i v. tbl_get t i = Some v \<longrightarrow> P (i, v))"
  using rows_by_id [of _ _ t] by (metis surj_pair)

text \<open>An answer without rows is exact: there is one when the books agree, and only then.\<close>

lemma Reconcile_clean:
  assumes "\<not> stmt_fails e SelectMismatches"
  shows "Reconcile e s = (Inr [], s) \<longleftrightarrow>
    (\<forall>uid u. tbl_get (users s) uid = Some u \<longrightarrow> credit_balance u = sum_where (\<lambda>x. le_userID x = uid) le_amount (ledger s))"
proof -
  have "filter (\<lambda>r. mm_Booked r \<noteq> mm_LedgerSum r) (map (user_mismatch (ledger s)) (rows_by_id (users s))) = [] \<longleftrightarrow>
    (\<forall>uid u. tbl_get (users s) uid = Some u \<longrightarrow> credit_balance u = sum_where (\<lambda>x. le_userID x = uid) le_amount (ledger s))"
    by (auto simp: filter_empty_conv ball_rows_by_id user_mismatch_def Let_def)
  moreover have "Reconcile e s = (Inr [], s) \<longleftrightarrow>
      filter (\<lambda>r. mm_Booked r \<noteq> mm_LedgerSum r) (map (user_mismatch (ledger s)) (rows_by_id (users s))) = []"
    using assms by (auto simp: Reconcile_def exec_def scan_mismatches_def stmt_error_def)
  ultimately show ?thesis by blast
qed

definition key_books :: "db \<Rightarrow> bool" where
  "key_books s \<longleftrightarrow> (\<forall>i k. tbl_get (api_keys s) i = Some k \<longrightarrow>
     k_credit_used k = - sum_where (key_entries i) le_amount (ledger s))"

lemma ReconcileAPIKeys_clean:
  assumes "\<not> stmt_fails e SelectKeyMismatches"
  shows "ReconcileAPIKeys e s = (Inr [], s) \<longleftrightarrow> key_books s"
proof -
  have "filter (\<lambda>r. mm_Booked r \<noteq> - mm_LedgerSum r) (map (key_mismatch (ledger s)) (rows_by_id (api_keys s))) = [] \<longleftrightarrow> key_books s"
    by (auto simp: filter_empty_conv ball_rows_by_id key_mismatch_def Let_def key_books_def)
  moreover have "ReconcileAPIKeys e s = (Inr [], s) \<longleftrightarrow>
      filter (\<lambda>r. mm_Booked r \<noteq> - mm_LedgerSum r) (map (key_mismatch (ledger s)) (rows_by_id (api_keys s))) = []"
    using assms by (auto simp: ReconcileAPIKeys_def exec_def scan_mismatches_def stmt_error_def)
  ultimately show ?thesis by blast
qed

text \<open>
  C37. The nightly reconciliation never finds a mismatch: in every state the billing operations can reach it answers
  with the empty list; and it is no formality, for in any state at all the empty list means that every balance is the
  sum of its entries.
\<close>

theorem reconcile_finds_nothing:
  assumes "db_reach s" "\<not> stmt_fails e SelectMismatches"
  shows "Reconcile e s = (Inr [], s)
    \<and> (\<forall>t. Reconcile e t = (Inr [], t) \<longrightarrow> (\<forall>uid u. tbl_get (users t) uid = Some u \<longrightarrow>
         credit_balance u = sum_where (\<lambda>x. le_userID x = uid) le_amount (ledger t)))"
proof -
  have "user_entries i = (\<lambda>x. le_userID x = i)" for i by (intro ext) (simp add: user_entries_def)
  then show ?thesis
    using db_reach_books [OF assms(1)] balancedD(1) by (simp add: Reconcile_clean [OF assms(2)] books_def)
qed

lemma reconcile_finds_nothing_witness:
  "\<exists>s u. Reconcile demo_env s = (Inr [], s) \<and> tbl_get (users s) 1 = Some u \<and> credit_balance u = 10"
proof -
  obtain s u where s: "db_reach s" "tbl_get (users s) 1 = Some u" "credit_balance u = 10" using demo_granted by blast
  have "\<not> stmt_fails demo_env SelectMismatches" using demo_healthy by (simp add: healthy_def)
  from reconcile_finds_nothing [OF s(1) this] s show ?thesis by blast
qed

text \<open>
  What the callers of \<open>Apply\<close> guarantee of a key: an adjustment names a key in its reference exactly when it also
  counts for the key, and a precharge is never clamped.
\<close>

definition linked :: "Adjustment \<Rightarrow> bool" where
  "linked adj \<longleftrightarrow> (if RefType adj = ''api_key'' then KeyID adj = RefID adj \<and> KeyID adj \<noteq> 0 \<and> AffectsUsed adj
       else KeyID adj = 0 \<or> \<not> AffectsUsed adj)
     \<and> i64 (- Amount adj) \<and> (KeyPrechargeMode adj \<longrightarrow> \<not> ClampToBalance adj)"

definition covered :: "Adjustment \<Rightarrow> db \<Rightarrow> bool" where
  "covered adj s \<longleftrightarrow> (\<not> KeyPrechargeMode adj \<longrightarrow>
     (\<forall>k. tbl_get (api_keys s) (KeyID adj) = Some k \<longrightarrow> max 0 (Amount adj) \<le> k_credit_used k))"

lemma linked_session:
  assumes "keyID b \<noteq> 0"
  shows "0 \<le> amount \<Longrightarrow> i64 amount \<Longrightarrow> linked (precharge_adjustment b amount)"
    "0 \<le> precharged b \<Longrightarrow> i64 (precharged b) \<Longrightarrow> 0 \<le> final \<Longrightarrow> i64 final \<Longrightarrow> linked (settle_adjustment b final)"
    "0 \<le> precharged b \<Longrightarrow> i64 (precharged b) \<Longrightarrow> linked (session_refund_adjustment b)"
proof -
  have n: "i64 (- x)" if "0 \<le> x" "i64 x" for x using that by (simp add: i64_def MinInt64_def MaxInt64_def)
  have d: "wrap64 (- wrap64 (y - x)) = x - y \<and> i64 (y - x)" if "0 \<le> x" "i64 x" "0 \<le> y" "i64 y" for x y
    using that by (simp add: wrap64_id i64_def MinInt64_def MaxInt64_def)
  show "0 \<le> amount \<Longrightarrow> i64 amount \<Longrightarrow> linked (precharge_adjustment b amount)"
    using assms n [of amount] by (simp add: linked_def precharge_adjustment_def zero_adjustment_def wrap64_id)
  show "0 \<le> precharged b \<Longrightarrow> i64 (precharged b) \<Longrightarrow> 0 \<le> final \<Longrightarrow> i64 final \<Longrightarrow> linked (settle_adjustment b final)"
    using assms d [of "precharged b" final] by (simp add: linked_def settle_adjustment_def zero_adjustment_def)
  show "0 \<le> precharged b \<Longrightarrow> i64 (precharged b) \<Longrightarrow> linked (session_refund_adjustment b)"
    using assms n [of "precharged b"] by (simp add: linked_def session_refund_adjustment_def zero_adjustment_def)
qed

lemma key_books_applyTx:
  assumes "applyTx e adj s = (Inr entry, s')" "key_books s" "linked adj" "covered adj s" "balanced s"
  shows "key_books s'"
  using assms(1)
proof (cases rule: applyTx_Inr)
  case (1 u amount bal sf)
  have b: "0 \<le> credit_balance u" "i64 (credit_balance u)" using balancedD [OF assms(5) 1(1)] by simp_all
  have a: "amount = Amount adj \<or> ClampToBalance adj \<and> amount \<le> 0"
    using 1(2) b i64_uminus [OF b] by (auto simp: clamp_amount_def Let_def wrap64_id split: if_splits)
  have entry: "ledger s' = ledger s @ [entry]" "le_refType entry = RefType adj" "le_refID entry = RefID adj" "le_amount entry = amount"
    and keys: "api_keys s' = key_after adj (if KeyPrechargeMode adj then Amount adj else amount) s"
    using 1(4) by (auto simp: adjusted_def new_entry_def)
  show ?thesis
    unfolding key_books_def
  proof (intro allI impI)
    fix i k' assume k': "tbl_get (api_keys s') i = Some k'"
    show "k_credit_used k' = - sum_where (key_entries i) le_amount (ledger s')"
    proof (cases "RefType adj = ''api_key'' \<and> i = KeyID adj")
      case True
      then have l: "KeyID adj = RefID adj" "KeyID adj \<noteq> 0" "AffectsUsed adj" "i64 (- Amount adj)"
          "KeyPrechargeMode adj \<longrightarrow> \<not> ClampToBalance adj" using assms(3) by (auto simp: linked_def)
      obtain k where k: "tbl_get (api_keys s) i = Some k"
        using k' keys True l by (auto simp: key_after_def tbl_get_upd split: if_splits)
      have used: "k_credit_used k' = k_credit_used k - amount"
      proof (cases "KeyPrechargeMode adj")
        case True
        then show ?thesis using k' keys k l a \<open>RefType adj = ''api_key'' \<and> i = KeyID adj\<close>
          by (auto simp: key_after_def tbl_get_upd wrap64_id)
      next
        case False
        have "max 0 (Amount adj) \<le> k_credit_used k" using assms(4) k False True by (simp add: covered_def)
        then have "amount \<le> k_credit_used k" using a by auto
        then show ?thesis using k' keys k l False True by (auto simp: key_after_def tbl_get_upd max_def)
      qed
      have "key_entries i entry" using entry True l by (simp add: key_entries_def)
      then show ?thesis using used assms(2) k entry by (simp add: key_books_def)
    next
      case False
      have "\<not> key_entries i entry" using False assms(3) entry by (auto simp: key_entries_def linked_def)
      moreover have "\<exists>k. tbl_get (api_keys s) i = Some k \<and> k_credit_used k' = k_credit_used k"
        using k' keys False assms(3) by (auto simp: key_after_def tbl_get_upd linked_def split: if_splits)
      ultimately show ?thesis using assms(2) entry by (auto simp: key_books_def)
    qed
  qed
qed

text \<open>
  The reconciliation of the keys stays clean over every adjustment the program makes, whatever faults occur,
  unless a settlement or refund gives back more than the key has used, which the counter cuts off at zero while the
  ledger books it in full.
\<close>

theorem key_reconciliation_kept:
  assumes "ReconcileAPIKeys e s = (Inr [], s)" "\<not> stmt_fails e SelectKeyMismatches" "balanced s"
    "Apply e' adj s = (r, s')" "linked adj" "covered adj s"
  shows "ReconcileAPIKeys e s' = (Inr [], s')"
proof -
  have k: "key_books s" using assms(1) ReconcileAPIKeys_clean [OF assms(2)] by blast
  have ap: "key_books t" if "applyTx e' adj (s\<lparr>tx_aborted := False\<rparr>) = (Inr entry, t)" for entry t
  proof (rule key_books_applyTx [OF that _ assms(5)])
    show "key_books (s\<lparr>tx_aborted := False\<rparr>)" using k by (simp add: key_books_def)
    show "covered adj (s\<lparr>tx_aborted := False\<rparr>)" using assms(6) by (simp add: covered_def)
    have "balanced (s\<lparr>tx_aborted := False\<rparr>) = balanced s" by (simp add: balanced_def)
    then show "balanced (s\<lparr>tx_aborted := False\<rparr>)" using assms(3) by blast
  qed
  from assms(4) have "key_books s'"
  proof (cases rule: Apply_cases)
    case (ok entry t)
    then show ?thesis using ap [OF ok(2)] by (simp add: key_books_def)
  next
    case (lost entry t)
    then show ?thesis using ap [OF lost(2)] by (simp add: key_books_def)
  next
    case (depleted err)
    then show ?thesis using k by (auto simp: mark_depleted_def key_books_def tbl_get_upd split: if_splits)
  next
    case (failed err)
    then show ?thesis using k by (simp add: same_data_def key_books_def)
  qed
  then show ?thesis using ReconcileAPIKeys_clean [OF assms(2)] by blast
qed

lemma key_reconciliation_kept_witness:
  "\<exists>r s'. Apply demo_env (precharge_adjustment demo_session 5) demo_db = (r, s') \<and> ReconcileAPIKeys demo_env s' = (Inr [], s')"
proof -
  have h: "\<not> stmt_fails demo_env SelectKeyMismatches" using demo_healthy by (simp add: healthy_def)
  have k: "ReconcileAPIKeys demo_env demo_db = (Inr [], demo_db)"
    by (simp add: ReconcileAPIKeys_clean [OF h] key_books_def demo_db_def demo_key_def demo_entry_def tbl_get_def key_entries_def)
  have b: "balanced demo_db" using demo_books by (simp add: books_def)
  have l: "linked (precharge_adjustment demo_session 5)"
    by (rule linked_session) (simp_all add: demo_session_def NewBillingSession_def i64_def MinInt64_def MaxInt64_def)
  have c: "covered (precharge_adjustment demo_session 5) demo_db" by (simp add: covered_def precharge_adjustment_def)
  obtain r s' where ap: "Apply demo_env (precharge_adjustment demo_session 5) demo_db = (r, s')" by fastforce
  from key_reconciliation_kept [OF k h b ap l c] ap show ?thesis by blast
qed

text \<open>
  The comment of the reconciliation calls a drift impossible. It is not: a session that settles after its precharge was
  refunded as an orphan leaves the key's counter at zero and its ledger sum positive.
\<close>

lemma late_settlement_drifts:
  "\<exists>b s. Settle demo_env 1 open_session demo_refunded_db = (None, b, s)
     \<and> ReconcileAPIKeys demo_env demo_refunded_db = (Inr [], demo_refunded_db) \<and> ReconcileAPIKeys demo_env s \<noteq> (Inr [], s)"
proof -
  have h: "\<not> stmt_fails demo_env SelectKeyMismatches" using demo_healthy by (simp add: healthy_def)
  have f: "\<not> stmt_fails demo_env st" for st using demo_healthy by (simp add: healthy_def)
  show ?thesis
    unfolding ReconcileAPIKeys_clean [OF h]
    by (simp add: eval_rules demo_env_fields refund_adjustment_def orphan_of_def demo_refunded_db_def f
        demo_refund_def demo_orphan_db_def demo_consume_def open_session_def count_request_def key_books_def key_entries_def)
qed

end
