(* ===== verification/SiteMessages.thy ===== *)
theory SiteMessages
  imports Prelude
begin

text \<open>
  The texts of answers and notices outside the relay that are not ASCII,
  as the bytes of their UTF-8 encoding; each is named for what it says.
\<close>

definition msg_entry_bad_key :: string where
  "msg_entry_bad_key = utf8 [65, 80, 73, 32, 75, 101, 121, 32, 230, 151, 160, 230, 149, 136]"

definition msg_entry_ip_bad :: string where
  "msg_entry_ip_bad = utf8 [230, 157, 165, 230, 186, 144, 32, 73, 80, 32, 231, 153, 189, 229, 144, 141, 229, 141, 149, 233,
     133, 141, 231, 189, 174, 230, 156, 137, 232, 175, 175, 239, 188, 140, 232, 175, 183, 232, 129,
     148, 231, 179, 187, 231, 174, 161, 231, 144, 134, 229, 145, 152]"

definition msg_entry_ip_denied :: string where
  "msg_entry_ip_denied = utf8 [230, 157, 165, 230, 186, 144, 32, 73, 80, 32, 228, 184, 141, 229, 156, 168, 231, 153, 189, 229,
     144, 141, 229, 141, 149, 229, 134, 133]"

definition msg_entry_key_disabled :: string where
  "msg_entry_key_disabled = utf8 [65, 80, 73, 32, 75, 101, 121, 32, 229, 183, 178, 232, 162, 171, 231, 166, 129, 231, 148, 168]"

definition msg_entry_key_expired :: string where
  "msg_entry_key_expired = utf8 [65, 80, 73, 32, 75, 101, 121, 32, 229, 183, 178, 232, 191, 135, 230, 156, 159]"

definition msg_entry_key_unavailable :: string where
  "msg_entry_key_unavailable = utf8 [65, 80, 73, 32, 75, 101, 121, 32, 228, 184, 141, 229, 143, 175, 231, 148, 168]"

definition msg_entry_models_failed :: string where
  "msg_entry_models_failed = utf8 [230, 159, 165, 232, 175, 162, 230, 168, 161, 229, 158, 139, 229, 164, 177, 232, 180, 165]"

definition msg_entry_no_key :: string where
  "msg_entry_no_key = utf8 [231, 188, 186, 229, 176, 145, 230, 136, 150, 233, 157, 158, 230, 179, 149, 231, 154, 132, 32,
     65, 80, 73, 32, 75, 101, 121]"

definition msg_entry_overloaded :: string where
  "msg_entry_overloaded = utf8 [230, 156, 141, 229, 138, 161, 229, 185, 182, 229, 143, 145, 229, 183, 178, 230, 187, 161, 239,
     188, 140, 232, 175, 183, 231, 168, 141, 229, 144, 142, 233, 135, 141, 232, 175, 149]"

definition msg_entry_provider :: string where
  "msg_entry_provider = utf8 [230, 156, 170, 231, 159, 165, 231, 154, 132, 32, 112, 114, 111, 118, 105, 100, 101, 114, 32,
     229, 137, 141, 231, 188, 128, 32]"

definition msg_entry_rate :: string where
  "msg_entry_rate = utf8 [232, 175, 183, 230, 177, 130, 232, 191, 135, 228, 186, 142, 233, 162, 145, 231, 185, 129, 239,
     188, 140, 232, 175, 183, 231, 168, 141, 229, 144, 142, 233, 135, 141, 232, 175, 149]"

definition msg_entry_user_disabled :: string where
  "msg_entry_user_disabled = utf8 [232, 180, 166, 229, 143, 183, 228, 184, 141, 229, 143, 175, 231, 148, 168]"

end
