(* ===== verification/Entry.thy ===== *)
theory Entry
  imports RelayProps RateLimit SiteMessages
begin

text \<open>
  The entry of the relaying endpoints (\<^verbatim>\<open>api/relay_handlers.go\<close>, \<^verbatim>\<open>auth/apikey.go\<close>): the API key and
  its owner, the two rate limits, the concurrency gate around the relay, and the list of models a key may call.
  The parsers of \<^verbatim>\<open>net\<close> are arguments; an address is the value they give for its text.
\<close>

section \<open>Keys (auth/apikey.go, store/apikey.go)\<close>

definition KeyPlainPrefix :: string where "KeyPlainPrefix = ''tzl-''"
definition ServiceTokenPlainPrefix :: string where "ServiceTokenPlainPrefix = ''tzs-''"

definition LooksLikeKey :: "string \<Rightarrow> bool" where
  "LooksLikeKey s \<longleftrightarrow> has_prefix KeyPlainPrefix s \<and> length s > length KeyPlainPrefix + 16"

definition LooksLikeServiceToken :: "string \<Rightarrow> bool" where
  "LooksLikeServiceToken s \<longleftrightarrow> has_prefix ServiceTokenPlainPrefix s \<and> length s > length ServiceTokenPlainPrefix + 16"

definition TrimPrefix :: "string \<Rightarrow> string \<Rightarrow> string" where
  "TrimPrefix p s = (if has_prefix p s then drop (length p) s else s)"

text \<open>Deleted keys are never found.\<close>

definition GetByHash :: "(row_id, api_key_row) tbl \<Rightarrow> string \<Rightarrow> (row_id \<times> api_key_row) option" where
  "GetByHash t h = List.find (\<lambda>(i, k). k_keyHash k = h \<and> k_deletedAt k = None) t"

section \<open>The world of an entry\<close>

type_synonym ip = "nat list"

record net_lib =
  net_ParseIP :: "string \<Rightarrow> ip option"
  net_ParseCIDR :: "string \<Rightarrow> (ip \<Rightarrow> bool) option"

datatype entry_query = QueryKey | QueryUser | QueryDepartment | MarkExpired | QueryModels | QueryChannels

record http_in =
  hr_Authorization :: string
  hr_APIKey :: string
  hr_ClientIP :: string
  hr_ContentLength :: int

record entry_world =
  ew_hash :: "string \<Rightarrow> string"
  ew_now :: go_time
  ew_query_fails :: "entry_query \<Rightarrow> bool"
  ew_keyIPs :: "row_id \<Rightarrow> policy_raw"
  ew_keyModels :: "row_id \<Rightarrow> policy_raw"
  ew_userModels :: "row_id \<Rightarrow> policy_raw"
  ew_departments :: "row_id \<Rightarrow> policy_raw option"
  ew_net :: net_lib
  ew_alerts :: bool
  ew_key_time :: go_time
  ew_user_time :: go_time
  ew_setting :: "string \<Rightarrow> int"
  ew_gate_others :: "ConcurrencyGate \<Rightarrow> ConcurrencyGate"

record entry_state =
  e_limiter :: "MemoryLimiter option"
  e_gate :: "ConcurrencyGate option"
  e_alerts :: "string list"
  e_relay :: relay_state

definition e_reply :: "reply \<Rightarrow> entry_state \<Rightarrow> entry_state" where
  "e_reply r s = s\<lparr>e_relay := write_reply r (e_relay s)\<rparr>"

definition e_db :: "(db \<Rightarrow> db) \<Rightarrow> entry_state \<Rightarrow> entry_state" where
  "e_db f s = s\<lparr>e_relay := (e_relay s)\<lparr>database := f (database (e_relay s))\<rparr>\<rparr>"

section \<open>Who calls\<close>

text \<open>\<^term>\<open>None\<close> is the error of a list that cannot be read.\<close>

definition entry_matches :: "net_lib \<Rightarrow> ip \<Rightarrow> string \<Rightarrow> bool" where
  "entry_matches lib ip entry = (case net_ParseCIDR lib entry of
       Some cidr \<Rightarrow> cidr ip
     | None \<Rightarrow> (case net_ParseIP lib entry of Some p \<Rightarrow> p = ip | None \<Rightarrow> False))"

definition keyAllowsIP :: "net_lib \<Rightarrow> policy_raw \<Rightarrow> string \<Rightarrow> bool option" where
  "keyAllowsIP lib raw clientIP =
     (case raw of
        PolicyEmpty \<Rightarrow> Some True
      | PolicyBad \<Rightarrow> None
      | PolicyJson v \<Rightarrow> (case decode_strings (Some v) of
          None \<Rightarrow> None
        | Some es \<Rightarrow>
          if es = [] then Some True
          else (case net_ParseIP lib clientIP of None \<Rightarrow> Some False
            | Some ip \<Rightarrow> Some (list_ex (entry_matches lib ip) es))))"

definition raiseAlert :: "entry_world \<Rightarrow> string \<Rightarrow> entry_state \<Rightarrow> entry_state" where
  "raiseAlert w dedupKey s = (if ew_alerts w then s\<lparr>e_alerts := e_alerts s @ [dedupKey]\<rparr> else s)"

definition mark_expired :: "entry_world \<Rightarrow> row_id \<Rightarrow> db \<Rightarrow> db" where
  "mark_expired w kid d =
     (if ew_query_fails w MarkExpired then d
      else d\<lparr>api_keys := tbl_upd (\<lambda>k. if k_deletedAt k = None then k\<lparr>k_status := KeyExpired\<rparr> else k) kid (api_keys d)\<rparr>)"

definition department_of :: "entry_world \<Rightarrow> user_row \<Rightarrow> policy_raw option" where
  "department_of w u = (case u_departmentID u of None \<Rightarrow> None
     | Some i \<Rightarrow> if ew_query_fails w QueryDepartment then None else ew_departments w i)"

definition token_of :: "http_in \<Rightarrow> string" where
  "token_of r = (let token = TrimPrefix ''Bearer '' (hr_Authorization r) in if token = [] then hr_APIKey r else token)"

definition refuse :: "int \<Rightarrow> string \<Rightarrow> string \<Rightarrow> entry_state \<Rightarrow> 'a option \<times> entry_state" where
  "refuse status code message s = (None, e_reply (WriteOpenAIError status code message) s)"

definition apiKeyIdentity :: "entry_world \<Rightarrow> http_in \<Rightarrow> entry_state \<Rightarrow> Identity option \<times> entry_state" where
  "apiKeyIdentity w r s =
     (if \<not> LooksLikeKey (token_of r) then refuse 401 ''invalid_api_key'' msg_entry_no_key s
      else case (if ew_query_fails w QueryKey then None
                 else GetByHash (api_keys (database (e_relay s))) (ew_hash w (token_of r))) of
        None \<Rightarrow> refuse 401 ''invalid_api_key'' msg_entry_bad_key s
      | Some (kid, key) \<Rightarrow>
        if k_status key = KeyDisabled then refuse 403 ''key_disabled'' msg_entry_key_disabled s
        else if k_status key \<noteq> KeyEnabled then refuse 403 ''key_unavailable'' msg_entry_key_unavailable s
        else if (case k_expiresAt key of None \<Rightarrow> False | Some x \<Rightarrow> x < ew_now w)
        then refuse 403 ''key_expired'' msg_entry_key_expired (e_db (mark_expired w kid) s)
        else case keyAllowsIP (ew_net w) (ew_keyIPs w kid) (hr_ClientIP r) of
          None \<Rightarrow> refuse 403 ''ip_not_allowed'' msg_entry_ip_bad
              (raiseAlert w (''policy_malformed:key:'' @ show_int kid) s)
        | Some allowed \<Rightarrow>
          if \<not> allowed then refuse 403 ''ip_not_allowed'' msg_entry_ip_denied s
          else case (if ew_query_fails w QueryUser then None else tbl_get (users (database (e_relay s))) (k_userID key)) of
            None \<Rightarrow> refuse 403 ''user_disabled'' msg_entry_user_disabled s
          | Some u \<Rightarrow>
            if u_status u \<noteq> UserEnabled then refuse 403 ''user_disabled'' msg_entry_user_disabled s
            else (Some \<lparr>i_userID = k_userID key, i_user = u, i_userPolicy = ew_userModels w (k_userID key), i_keyID = kid,
                        i_key = key, i_keyPolicy = ew_keyModels w kid, i_department = department_of w u, i_provider = []\<rparr>, s))"

section \<open>Limits and the gate\<close>

definition largeRequestBodyBytes :: int where "largeRequestBodyBytes = 1048576"

definition isLargeRequest :: "http_in \<Rightarrow> bool" where
  "isLargeRequest r \<longleftrightarrow> hr_ContentLength r < 0 \<or> hr_ContentLength r > largeRequestBodyBytes"

text \<open>Both windows are asked, also when the first refuses.\<close>

definition check_rates :: "entry_world \<Rightarrow> Identity \<Rightarrow> MemoryLimiter \<Rightarrow> bool \<times> MemoryLimiter" where
  "check_rates w i l =
     (case limiter_Allow (ew_key_time w) (''key:'' @ show_int (i_keyID i)) (ew_setting w ''rate_limit_per_key_rpm'') Minute l of
        (keyOK, l) \<Rightarrow>
      case limiter_Allow (ew_user_time w) (''user:'' @ show_int (i_userID i)) (ew_setting w ''rate_limit_per_user_rpm'') Minute l of
        (userOK, l) \<Rightarrow> (keyOK \<and> userOK, l))"

definition enter_gate :: "entry_world \<Rightarrow> Identity \<Rightarrow> http_in \<Rightarrow> ConcurrencyGate \<Rightarrow> bool \<times> ConcurrencyGate" where
  "enter_gate w i r g =
     (case gate_Acquire (i_userID i) (ew_setting w ''max_concurrent_requests_per_user'')
         (ew_setting w ''max_concurrent_requests'') (ew_setting w ''max_concurrent_large_requests'') (isLargeRequest r) g of
        ((ok, reason), g) \<Rightarrow> (ok, g))"

text \<open>The part before the relay: the identity it is called with, if it is.\<close>

definition guard_admit :: "entry_world \<Rightarrow> http_in \<Rightarrow> entry_state \<Rightarrow> Identity option \<times> entry_state" where
  "guard_admit w r s =
     (case apiKeyIdentity w r s of
        (None, s) \<Rightarrow> (None, s)
      | (Some i, s) \<Rightarrow>
        (case (case e_limiter s of None \<Rightarrow> (True, s)
                | Some l \<Rightarrow> (case check_rates w i l of (ok, l) \<Rightarrow> (ok, s\<lparr>e_limiter := Some l\<rparr>))) of
          (False, s) \<Rightarrow> refuse 429 ''rate_limited'' msg_entry_rate s
        | (True, s) \<Rightarrow>
          (case (case e_gate s of None \<Rightarrow> (True, s)
                  | Some g \<Rightarrow> (case enter_gate w i r g of (ok, g) \<Rightarrow> (ok, s\<lparr>e_gate := Some g\<rparr>))) of
            (False, s) \<Rightarrow> refuse 503 ''overloaded'' msg_entry_overloaded s
          | (True, s) \<Rightarrow> (Some i, s))))"

text \<open>Other requests use the gate while the relay runs; the slot is given back however the relay ends.\<close>

definition guardV1 :: "entry_world \<Rightarrow> (Identity \<Rightarrow> relay_state \<Rightarrow> relay_state) \<Rightarrow> http_in \<Rightarrow> entry_state \<Rightarrow> entry_state" where
  "guardV1 w fn r s =
     (case guard_admit w r s of
        (None, s) \<Rightarrow> s
      | (Some i, s) \<Rightarrow>
        (let s = s\<lparr>e_relay := fn i (e_relay s)\<rparr>
         in s\<lparr>e_gate := map_option (\<lambda>g. gate_Release (i_userID i) (isLargeRequest r) (ew_gate_others w g)) (e_gate s)\<rparr>))"

section \<open>The endpoints\<close>

definition handleV1ChatCompletions :: "entry_world \<Rightarrow> world \<Rightarrow> request \<Rightarrow> http_in \<Rightarrow> entry_state \<Rightarrow> entry_state" where
  "handleV1ChatCompletions w rw rq = guardV1 w (\<lambda>i. HandleChatCompletions rw i rq)"

definition handleV1Messages :: "entry_world \<Rightarrow> world \<Rightarrow> request \<Rightarrow> http_in \<Rightarrow> entry_state \<Rightarrow> entry_state" where
  "handleV1Messages w rw rq = guardV1 w (\<lambda>i. HandleMessages rw i rq)"

definition handleV1Embeddings :: "entry_world \<Rightarrow> world \<Rightarrow> request \<Rightarrow> http_in \<Rightarrow> entry_state \<Rightarrow> entry_state" where
  "handleV1Embeddings w rw rq = guardV1 w (\<lambda>i. HandleEmbeddings rw i rq)"

definition handleV1Images :: "entry_world \<Rightarrow> world \<Rightarrow> request \<Rightarrow> http_in \<Rightarrow> entry_state \<Rightarrow> entry_state" where
  "handleV1Images w rw rq = guardV1 w (\<lambda>i. HandleImages rw i rq)"

text \<open>The endpoints with a provider in the path: the prefix is resolved before anything else.\<close>

definition requireProvider :: "string \<Rightarrow> entry_state \<Rightarrow> string option \<times> entry_state" where
  "requireProvider slug s =
     (case SlugToProvider slug of
        Some p \<Rightarrow> (Some p, s)
      | None \<Rightarrow> refuse 404 ''provider_not_found'' (msg_entry_provider @ quoted slug) s)"

definition withProvider :: "string \<Rightarrow> (Identity \<Rightarrow> relay_state \<Rightarrow> relay_state) \<Rightarrow> Identity \<Rightarrow> relay_state \<Rightarrow> relay_state" where
  "withProvider provider fn i = fn (i\<lparr>i_provider := provider\<rparr>)"

definition handleV1Provider :: "entry_world \<Rightarrow> (Identity \<Rightarrow> relay_state \<Rightarrow> relay_state) \<Rightarrow> string \<Rightarrow> http_in \<Rightarrow> entry_state \<Rightarrow> entry_state" where
  "handleV1Provider w fn slug r s =
     (case requireProvider slug s of
        (None, s) \<Rightarrow> s
      | (Some p, s) \<Rightarrow> guardV1 w (withProvider p fn) r s)"

section \<open>The list of models\<close>

text \<open>
  The count of the enabled channels that carry a model: the query reads every element of the column as text
  (\<open>json_text\<close> for one that is no string), and fails when a column holds no array.
\<close>

fun element_text :: "(json \<Rightarrow> string option) \<Rightarrow> json \<Rightarrow> string option" where
  "element_text json_text (JStr s) = Some s"
| "element_text json_text v = json_text v"

fun channel_elements :: "json option \<Rightarrow> json list option" where
  "channel_elements (Some (JArr xs)) = Some xs"
| "channel_elements None = Some []"
| "channel_elements _ = None"

definition enabled_channels :: "channel list \<Rightarrow> channel list" where
  "enabled_channels cs = filter (\<lambda>c. ch_Status c = ChannelEnabled) cs"

definition CountEnabledByModel :: "(json \<Rightarrow> string option) \<Rightarrow> channel list \<Rightarrow> (string \<Rightarrow> nat) option" where
  "CountEnabledByModel json_text cs =
     (case all_some (map (\<lambda>c. channel_elements (ch_Models c)) (enabled_channels cs)) of
        None \<Rightarrow> None
      | Some xss \<Rightarrow> Some (\<lambda>name. length (filter (\<lambda>x. element_text json_text x = Some name) (concat xss))))"

definition identity_allows :: "Identity \<Rightarrow> model_row \<Rightarrow> bool" where
  "identity_allows i m \<longleftrightarrow> AllowsModel (departmentPolicy i) (i_userPolicy i) (i_keyPolicy i) (m_Name m) = Inr True"

definition model_item :: "(string \<Rightarrow> int) \<Rightarrow> model_row \<Rightarrow> json" where
  "model_item created m = JObj [(''id'', JStr (m_Name m)), (''object'', JStr ''model''), (''owned_by'', JStr ''token-zen''),
     (''created'', jint (created (m_Name m)))]"

definition list_answer :: "(string \<Rightarrow> int) \<Rightarrow> model_row list \<Rightarrow> reply" where
  "list_answer created ms = Reply 200 (BJson (JObj [(''object'', JStr ''list''), (''data'', JArr (map (model_item created) ms))]))"

text \<open>The models shown, \<^term>\<open>None\<close> when a query fails. The table of models is in the order of their names.\<close>

definition enabled_models :: "entry_world \<Rightarrow> model_row list \<Rightarrow> model_row list option" where
  "enabled_models w ms = (if ew_query_fails w QueryModels then None else Some (filter (\<lambda>m. m_Status m = ModelEnabled) ms))"

definition v1_models :: "entry_world \<Rightarrow> (json \<Rightarrow> string option) \<Rightarrow> model_row list \<Rightarrow> channel list \<Rightarrow> Identity \<Rightarrow> model_row list option" where
  "v1_models w json_text ms cs i =
     (case (enabled_models w ms, if ew_query_fails w QueryChannels then None else CountEnabledByModel json_text cs) of
        (Some ms, Some counts) \<Rightarrow> Some (filter (\<lambda>m. identity_allows i m \<and> counts (m_Name m) \<noteq> 0) ms)
      | _ \<Rightarrow> None)"

definition v1_provider_models :: "entry_world \<Rightarrow> string \<Rightarrow> model_row list \<Rightarrow> channel list \<Rightarrow> Identity \<Rightarrow> model_row list option" where
  "v1_provider_models w provider ms cs i =
     (case (enabled_models w ms, if ew_query_fails w QueryChannels then None else Some (enabled_channels cs)) of
        (Some ms, Some cs) \<Rightarrow>
          (let carried = concat (map ModelList (filter (\<lambda>c. ch_Provider c = provider) cs))
           in Some (filter (\<lambda>m. identity_allows i m \<and> m_Provider m = provider \<and> m_Name m \<in> set carried) ms))
      | _ \<Rightarrow> None)"

definition answer_models :: "(string \<Rightarrow> int) \<Rightarrow> model_row list option \<Rightarrow> reply" where
  "answer_models created found = (case found of
       None \<Rightarrow> WriteOpenAIError 500 ''internal_error'' msg_entry_models_failed
     | Some ms \<Rightarrow> list_answer created ms)"

definition handleV1Models :: "entry_world \<Rightarrow> (json \<Rightarrow> string option) \<Rightarrow> (string \<Rightarrow> int) \<Rightarrow> model_row list \<Rightarrow> channel list
    \<Rightarrow> http_in \<Rightarrow> entry_state \<Rightarrow> entry_state" where
  "handleV1Models w json_text created ms cs r s =
     (case apiKeyIdentity w r s of (None, s) \<Rightarrow> s
      | (Some i, s) \<Rightarrow> e_reply (answer_models created (v1_models w json_text ms cs i)) s)"

definition handleV1ProviderModels :: "entry_world \<Rightarrow> (string \<Rightarrow> int) \<Rightarrow> model_row list \<Rightarrow> channel list \<Rightarrow> string
    \<Rightarrow> http_in \<Rightarrow> entry_state \<Rightarrow> entry_state" where
  "handleV1ProviderModels w created ms cs slug r s =
     (case requireProvider slug s of (None, s) \<Rightarrow> s
      | (Some p, s) \<Rightarrow> (case apiKeyIdentity w r s of (None, s) \<Rightarrow> s
        | (Some i, s) \<Rightarrow> e_reply (answer_models created (v1_provider_models w p ms cs i)) s))"

section \<open>What is left of a key\<close>

definition key_remaining :: "api_key_row \<Rightarrow> credits option" where
  "key_remaining k = map_option (\<lambda>limit. let remaining = wrap64 (limit - k_credit_used k)
       in if remaining < 0 then 0 else remaining) (credit_limit k)"

definition jopt_int :: "int option \<Rightarrow> json" where
  "jopt_int x = (case x of None \<Rightarrow> JNull | Some n \<Rightarrow> jint n)"

definition handleV1KeyInfo :: "entry_world \<Rightarrow> http_in \<Rightarrow> entry_state \<Rightarrow> entry_state" where
  "handleV1KeyInfo w r s =
     (case apiKeyIdentity w r s of (None, s) \<Rightarrow> s
      | (Some i, s) \<Rightarrow> e_reply (Reply 200 (BJson (JObj
          [(''key_name'', JStr (k_name (i_key i))), (''key_credit_limit'', jopt_int (credit_limit (i_key i))),
           (''key_credit_used'', jint (k_credit_used (i_key i))), (''key_credit_remaining'', jopt_int (key_remaining (i_key i))),
           (''user_credit_balance'', jint (credit_balance (i_user i))),
           (''user_credit_used'', jint (u_credit_used (i_user i)))]))) s)"

section \<open>Who gets in\<close>

definition is_error :: "int list \<Rightarrow> reply \<Rightarrow> bool" where
  "is_error codes x \<longleftrightarrow> (\<exists>status \<in> set codes. \<exists>code message. x = WriteOpenAIError status code message)"

text \<open>The key and the owner a request is let in with.\<close>

definition entitled :: "entry_world \<Rightarrow> http_in \<Rightarrow> db \<Rightarrow> Identity \<Rightarrow> bool" where
  "entitled w r d i \<longleftrightarrow> LooksLikeKey (token_of r)
     \<and> GetByHash (api_keys d) (ew_hash w (token_of r)) = Some (i_keyID i, i_key i)
     \<and> k_status (i_key i) = KeyEnabled \<and> (case k_expiresAt (i_key i) of None \<Rightarrow> True | Some x \<Rightarrow> ew_now w \<le> x)
     \<and> keyAllowsIP (ew_net w) (ew_keyIPs w (i_keyID i)) (hr_ClientIP r) = Some True
     \<and> i_userID i = k_userID (i_key i) \<and> tbl_get (users d) (i_userID i) = Some (i_user i) \<and> u_status (i_user i) = UserEnabled"

text \<open>All a refused request may change: the answer, an alert, and the mark of a key that has expired.\<close>

definition turned_away :: "entry_world \<Rightarrow> int list \<Rightarrow> entry_state \<Rightarrow> entry_state \<Rightarrow> bool" where
  "turned_away w codes s s' \<longleftrightarrow>
     (\<exists>x. is_error codes x \<and> replies (e_relay s') = replies (e_relay s) @ [x]) \<and> e_gate s' = e_gate s
     \<and> (\<exists>kid. database (e_relay s') = database (e_relay s)
          \<or> (\<exists>k h x. GetByHash (api_keys (database (e_relay s))) h = Some (kid, k) \<and> k_expiresAt k = Some x \<and> x < ew_now w
              \<and> database (e_relay s') = mark_expired w kid (database (e_relay s))))"

lemma refuse_turned_away:
  "status \<in> set codes \<Longrightarrow> turned_away w codes s (snd (refuse status code message s))"
  by (auto simp: turned_away_def refuse_def e_reply_def write_reply_def is_error_def)

lemma turned_away_mono: "turned_away w codes s t \<Longrightarrow> set codes \<subseteq> set codes' \<Longrightarrow> turned_away w codes' s t"
proof -
  have "is_error codes x \<Longrightarrow> set codes \<subseteq> set codes' \<Longrightarrow> is_error codes' x" for x unfolding is_error_def by blast
  then show "turned_away w codes s t \<Longrightarrow> set codes \<subseteq> set codes' \<Longrightarrow> turned_away w codes' s t" unfolding turned_away_def by blast
qed

lemma apiKeyIdentity_cases:
  assumes "apiKeyIdentity w r s = (found, s')"
  shows "case found of Some i \<Rightarrow> s' = s \<and> entitled w r (database (e_relay s)) i
      | None \<Rightarrow> turned_away w [401, 403] s s' \<and> e_limiter s' = e_limiter s"
proof -
  have expired: "turned_away w [401, 403] s (snd (refuse 403 code message (e_db (mark_expired w kid) s)))"
    if "GetByHash (api_keys (database (e_relay s))) h = Some (kid, k)" "k_expiresAt k = Some x" "x < ew_now w" for kid k x code message h
    using that by (auto simp: turned_away_def refuse_def e_reply_def write_reply_def is_error_def e_db_def)
  have alert: "turned_away w [401, 403] s (snd (refuse 403 code message (raiseAlert w key s)))" for key code message
    by (auto simp: turned_away_def refuse_def e_reply_def write_reply_def is_error_def raiseAlert_def)
  have lim: "e_limiter (snd (refuse status code message t)) = e_limiter t" for status code message t
    by (simp add: refuse_def e_reply_def)
  have side: "e_limiter (e_db f s) = e_limiter s" "e_limiter (raiseAlert w key s) = e_limiter s" for f key
    by (simp_all add: e_db_def raiseAlert_def)
  have none: "fst (refuse status code message t) = None" for status code message t by (simp add: refuse_def)
  have split: "refuse status code message t = (found, s') \<Longrightarrow> found = None \<and> s' = snd (refuse status code message t)"
    for status code message t and found :: "Identity option" by (auto simp: refuse_def)
  show ?thesis
    using assms
    by (auto simp: apiKeyIdentity_def entitled_def lim side
        dest!: split split: if_splits option.splits prod.splits intro: refuse_turned_away expired alert)
qed

text \<open>
  C14. Nobody gets past the entry without a right to. The relay is called, on an untouched database, only for a key that
  is found by the hash of the token, enabled, not deleted, not expired, called from an allowed address, and owned by an
  enabled user; every other request gets exactly one error, and nothing else changes but the mark of a key that has
  expired: no slot of the gate is taken and no credit is touched.
\<close>

theorem guard_admits_only_entitled:
  "case guard_admit w r s of
     (Some i, s') \<Rightarrow> e_relay s' = e_relay s \<and> entitled w r (database (e_relay s)) i
   | (None, s') \<Rightarrow> turned_away w [401, 403, 429, 503] s s' \<and> guardV1 w fn r s = s'"
proof -
  obtain found t where a: "apiKeyIdentity w r s = (found, t)" by fastforce
  note id = apiKeyIdentity_cases [OF a]
  show ?thesis
  proof (cases found)
    case None
    then have "turned_away w [401, 403] s t" using id by simp
    then have "turned_away w [401, 403, 429, 503] s t" by (rule turned_away_mono) simp
    then show ?thesis using a None by (simp add: guard_admit_def guardV1_def)
  next
    case (Some i)
    then have i: "t = s" "entitled w r (database (e_relay s)) i" using id by simp_all
    obtain ok u where rates: "(case e_limiter s of None \<Rightarrow> (True, s)
        | Some l \<Rightarrow> (case check_rates w i l of (ok, l) \<Rightarrow> (ok, s\<lparr>e_limiter := Some l\<rparr>))) = (ok, u)" by fastforce
    then have u: "e_relay u = e_relay s" "e_gate u = e_gate s" by (auto split: option.splits prod.splits)
    show ?thesis
    proof (cases ok)
      case False
      have "turned_away w [401, 403, 429, 503] u (snd (refuse 429 ''rate_limited'' msg_entry_rate u))"
        by (rule refuse_turned_away) simp
      then have "turned_away w [401, 403, 429, 503] s (snd (refuse 429 ''rate_limited'' msg_entry_rate u))"
        using u by (simp add: turned_away_def)
      then show ?thesis using a Some i rates False by (simp add: guard_admit_def guardV1_def refuse_def)
    next
      case True
      obtain ok2 v where gate: "(case e_gate u of None \<Rightarrow> (True, u)
          | Some g \<Rightarrow> (case enter_gate w i r g of (ok, g) \<Rightarrow> (ok, u\<lparr>e_gate := Some g\<rparr>))) = (ok2, v)" by fastforce
      then have v: "e_relay v = e_relay s" "\<not> ok2 \<Longrightarrow> e_gate v = e_gate s"
        using u by (auto simp: enter_gate_def gate_Acquire_def split: option.splits prod.splits if_splits)
      show ?thesis
      proof (cases ok2)
        case False
        have "turned_away w [401, 403, 429, 503] v (snd (refuse 503 ''overloaded'' msg_entry_overloaded v))"
          by (rule refuse_turned_away) simp
        then have "turned_away w [401, 403, 429, 503] s (snd (refuse 503 ''overloaded'' msg_entry_overloaded v))"
          using v False by (simp add: turned_away_def)
        then show ?thesis using a Some i rates True gate False by (simp add: guard_admit_def guardV1_def refuse_def)
      next
        case True
        then show ?thesis using a Some i rates \<open>ok\<close> gate v by (simp add: guard_admit_def)
      qed
    qed
  qed
qed

text \<open>
  A slot of the gate is given back exactly once. Where the gate stands for the requests \<open>R\<close> in flight, and the
  other requests turn them into \<open>others R\<close> while this one is relayed, the gate afterwards stands for \<open>R\<close> when the
  request was refused and for \<open>others R\<close> when it was relayed, whatever the relay did and however it ended.
\<close>

theorem guard_gives_slot_back:
  assumes "e_gate s = Some g" "gate_abs g R"
    "\<And>h x. gate_abs h (add_mset x R) \<Longrightarrow> gate_abs (ew_gate_others w h) (add_mset x (others R))"
  shows "\<exists>g'. e_gate (guardV1 w fn r s) = Some g'
    \<and> gate_abs g' (if fst (guard_admit w r s) = None then R else others R)"
proof -
  obtain found t where a: "guard_admit w r s = (found, t)" by fastforce
  show ?thesis
  proof (cases found)
    case None
    then show ?thesis using a assms(1,2) guard_admits_only_entitled [where w = w and r = r and s = s and fn = fn] by (simp add: turned_away_def)
  next
    case (Some i)
    obtain found' t' where id: "apiKeyIdentity w r s = (found', t')" by fastforce
    then have id: "apiKeyIdentity w r s = (Some i, s)"
      using a Some apiKeyIdentity_cases [OF id] by (auto simp: guard_admit_def refuse_def split: option.splits prod.splits bool.splits)
    obtain g' where g': "e_gate t = Some g'" "enter_gate w i r g = (True, g')"
      using a Some id assms(1)
      by (auto simp: guard_admit_def refuse_def split: option.splits prod.splits bool.splits)
    have "gate_abs g' (add_mset (i_userID i, isLargeRequest r) R)"
      using g'(2) by (auto simp: enter_gate_def split: prod.splits intro: gate_abs_acquire [OF assms(2)])
    then have "gate_abs (ew_gate_others w g') (add_mset (i_userID i, isLargeRequest r) (others R))" by (rule assms(3))
    from gate_abs_release [OF this, of "i_userID i" "isLargeRequest r"] show ?thesis
      using a Some g'(1) by (simp add: guardV1_def Let_def)
  qed
qed

section \<open>The models listed\<close>

text \<open>The column of every channel holds an array of names, as the administration of channels writes it.\<close>

definition carries_names :: "channel list \<Rightarrow> bool" where
  "carries_names cs \<longleftrightarrow> (\<forall>c \<in> set cs. \<exists>ns. ch_Models c = Some (JArr (map JStr ns)))"

lemma carries_namesE:
  assumes "carries_names cs" "c \<in> set cs"
  obtains ns where "ch_Models c = Some (JArr (map JStr ns))"
  using assms by (auto simp: carries_names_def)

lemma ListEnabledForModel_nonempty:
  "filterByProvider (ListEnabledForModel cs name) pv \<noteq> [] \<longleftrightarrow> (\<exists>c \<in> set cs. serves name c \<and> (pv = [] \<or> ch_Provider c = pv))"
proof -
  have m: "set (ListEnabledForModel cs name) = {c \<in> set cs. serves name c}" by (auto simp: ListEnabledForModel_def)
  show ?thesis
  proof (cases "pv = []")
    case True
    then show ?thesis using m by (auto simp: filterByProvider_def simp flip: set_empty)
  next
    case False
    then show ?thesis using m by (auto simp: filterByProvider_def filter_empty_conv)
  qed
qed

lemma count_positive:
  assumes "carries_names cs" "CountEnabledByModel jt cs = Some counts"
  shows "counts name \<noteq> 0 \<longleftrightarrow> (\<exists>c \<in> set cs. serves name c)"
proof -
  define names where "names c = (SOME ns. ch_Models c = Some (JArr (map JStr ns)))" for c :: channel
  have n: "ch_Models c = Some (JArr (map JStr (names c)))" if "c \<in> set cs" for c
    using carries_namesE [OF assms(1) that] unfolding names_def by (metis (mono_tags, lifting) someI)
  have "map (\<lambda>c. channel_elements (ch_Models c)) (enabled_channels cs) = map (\<lambda>c. Some (map JStr (names c))) (enabled_channels cs)"
    using n by (intro map_cong) (auto simp: enabled_channels_def)
  then have c: "counts = (\<lambda>name. length (filter (\<lambda>x. element_text jt x = Some name) (concat (map (\<lambda>c. map JStr (names c)) (enabled_channels cs)))))"
    using assms(2) by (simp add: CountEnabledByModel_def)
  have "counts name \<noteq> 0 \<longleftrightarrow> (\<exists>c \<in> set (enabled_channels cs). name \<in> set (names c))"
    unfolding c by (auto simp: filter_empty_conv)
  also have "\<dots> \<longleftrightarrow> (\<exists>c \<in> set cs. serves name c)"
    using n by (fastforce simp: enabled_channels_def serves_def)
  finally show ?thesis .
qed

lemma count_defined:
  assumes "carries_names cs"
  shows "CountEnabledByModel jt cs \<noteq> None"
proof -
  have "all_some (map (\<lambda>c. channel_elements (ch_Models c)) xs) \<noteq> None" if "set xs \<subseteq> set cs" for xs
    using that
  proof (induction xs)
    case (Cons c xs)
    then obtain ns where "ch_Models c = Some (JArr (map JStr ns))" using carries_namesE [OF assms, of c] by auto
    then show ?case using Cons by (auto split: option.splits)
  qed simp
  from this [of "enabled_channels cs"] show ?thesis
    by (auto simp: CountEnabledByModel_def enabled_channels_def split: option.splits)
qed

lemma carried_names:
  assumes "carries_names cs" "c \<in> set cs"
  shows "name \<in> set (ModelList c) \<longleftrightarrow> (case ch_Models c of Some (JArr xs) \<Rightarrow> JStr name \<in> set xs | _ \<Rightarrow> False)"
proof -
  obtain ns where "ch_Models c = Some (JArr (map JStr ns))" by (rule carries_namesE [OF assms])
  then show ?thesis by (auto simp: ModelList_def string_or_empty_def image_iff)
qed

definition listed :: "entry_world \<Rightarrow> (json \<Rightarrow> string option) \<Rightarrow> string \<Rightarrow> model_row list \<Rightarrow> channel list \<Rightarrow> Identity \<Rightarrow> model_row list option" where
  "listed w json_text provider ms cs i =
     (if provider = [] then v1_models w json_text ms cs i else v1_provider_models w provider ms cs i)"

lemma model_listed_iff:
  assumes "carries_names cs" "listed w json_text provider ms cs i = Some found"
  shows "m \<in> set found \<longleftrightarrow> m \<in> set ms \<and> m_Status m = ModelEnabled \<and> identity_allows i m
    \<and> (provider = [] \<or> m_Provider m = provider) \<and> filterByProvider (ListEnabledForModel cs (m_Name m)) provider \<noteq> []"
proof (cases "provider = []")
  case True
  obtain counts where c: "CountEnabledByModel json_text cs = Some counts" using count_defined [OF assms(1)] by fast
  then show ?thesis
    using assms(2) True count_positive [OF assms(1) c, of "m_Name m"]
    unfolding ListEnabledForModel_nonempty
    by (auto simp: listed_def v1_models_def enabled_models_def split: if_splits)
next
  case False
  have "m_Name m \<in> set (concat (map ModelList (filter (\<lambda>c. ch_Provider c = provider) (enabled_channels cs))))
      \<longleftrightarrow> (\<exists>c \<in> set cs. serves (m_Name m) c \<and> ch_Provider c = provider)"
    using carried_names [OF assms(1), of _ "m_Name m"] by (auto simp: enabled_channels_def serves_def)
  then show ?thesis
    using assms(2) False unfolding ListEnabledForModel_nonempty
    by (auto simp: listed_def v1_provider_models_def enabled_models_def Let_def split: if_splits)
qed

lemma GetByName_distinct: "distinct (map m_Name ms) \<Longrightarrow> m \<in> set ms \<Longrightarrow> GetByName ms (m_Name m) = Some m"
  unfolding GetByName_def by (induction ms) (auto simp: image_iff)

text \<open>The endpoints a model can be called at, what each asks of the model, and the channels it tries.\<close>

datatype endpoint = ChatEndpoint | EmbeddingEndpoint | ImageEndpoint

fun endpoint_modality :: "endpoint \<Rightarrow> Modality" where
  "endpoint_modality ChatEndpoint = ModalityText"
| "endpoint_modality EmbeddingEndpoint = ModalityEmbedding"
| "endpoint_modality ImageEndpoint = ModalityImage"

fun endpoint_billing :: "endpoint \<Rightarrow> BillingMode" where
  "endpoint_billing ImageEndpoint = BillPerCall"
| "endpoint_billing _ = BillPerToken"

definition endpoint_channels :: "endpoint \<Rightarrow> string \<Rightarrow> string \<Rightarrow> channel list \<Rightarrow> channel list" where
  "endpoint_channels ep model provider cs =
     (let channels = filterByProvider (ListEnabledForModel cs model) provider
      in if ep = ChatEndpoint then channels
         else filter (\<lambda>ch. ProtocolSupportsModality (ch_Protocol ch) (endpoint_modality ep)) channels)"

definition reaches_channel :: "world \<Rightarrow> Identity \<Rightarrow> string \<Rightarrow> endpoint \<Rightarrow> string \<Rightarrow> err_writer \<Rightarrow> relay_state \<Rightarrow> channel list \<Rightarrow> bool" where
  "reaches_channel rw i provider ep model we s cs \<longleftrightarrow>
     (case fst (prepareModel rw (i\<lparr>i_provider := provider\<rparr>) model (endpoint_modality ep) (endpoint_billing ep) we s) of
        None \<Rightarrow> False | Some (m, p, k) \<Rightarrow> ep = ImageEndpoint \<longrightarrow> PerCallPrice p > 0)
     \<and> endpoint_channels ep model provider cs \<noteq> []"

lemma reaches_channel_iff:
  assumes "carries_names cs" "listed w json_text provider ms cs i = Some found" "distinct (map m_Name ms)"
    "w_models rw = ms" "\<not> w_models_fail rw" "m \<in> set ms"
  shows "reaches_channel rw i provider ep (m_Name m) we s cs \<longleftrightarrow>
      m \<in> set found \<and> m_Modality m = endpoint_modality ep \<and> m_BillingMode m = endpoint_billing ep
    \<and> (\<exists>p. m_Price m = Some p \<and> (ep = ImageEndpoint \<longrightarrow> PerCallPrice p > 0))
    \<and> (ep = ChatEndpoint \<or> (\<exists>c \<in> set (filterByProvider (ListEnabledForModel cs (m_Name m)) provider).
          ProtocolSupportsModality (ch_Protocol c) (endpoint_modality ep)))"
proof -
  have g: "GetByName (w_models rw) (m_Name m) = Some m" using GetByName_distinct [OF assms(3,6)] assms(4) by simp
  have i: "identityAllowsModel (i\<lparr>i_provider := provider\<rparr>) (m_Name m) = Inr True \<longleftrightarrow> identity_allows i m"
    by (simp add: identityAllowsModel_def identity_allows_def departmentPolicy_def)
  have p: "(case fst (prepareModel rw (i\<lparr>i_provider := provider\<rparr>) (m_Name m) (endpoint_modality ep) (endpoint_billing ep) we s) of
        None \<Rightarrow> False | Some (m, p, k) \<Rightarrow> ep = ImageEndpoint \<longrightarrow> PerCallPrice p > 0)
      \<longleftrightarrow> identity_allows i m \<and> m_Status m = ModelEnabled \<and> (provider = [] \<or> m_Provider m = provider)
        \<and> m_Modality m = endpoint_modality ep \<and> m_BillingMode m = endpoint_billing ep
        \<and> (\<exists>p. m_Price m = Some p \<and> (ep = ImageEndpoint \<longrightarrow> PerCallPrice p > 0))"
    using g assms(5) unfolding i [symmetric]
    by (cases "identityAllowsModel (i\<lparr>i_provider := provider\<rparr>) (m_Name m)"; cases "m_Price m") (auto simp: prepareModel_def Let_def)
  have c: "endpoint_channels ep (m_Name m) provider cs \<noteq> [] \<longleftrightarrow> filterByProvider (ListEnabledForModel cs (m_Name m)) provider \<noteq> []
      \<and> (ep = ChatEndpoint \<or> (\<exists>c \<in> set (filterByProvider (ListEnabledForModel cs (m_Name m)) provider).
          ProtocolSupportsModality (ch_Protocol c) (endpoint_modality ep)))"
    by (auto simp: endpoint_channels_def Let_def filter_empty_conv)
  show ?thesis unfolding reaches_channel_def p c using model_listed_iff [OF assms(1,2), of m] assms(6) by blast
qed

text \<open>
  C15. The list of models against what can be called. A call of a model by its name, at an endpoint (chat, embeddings or images) and with or
  without a provider in the path, passes the checks of the relay and finds a channel to try exactly when the model is
  in the list of the key, its modality and billing mode are those of the endpoint, it has a price (for images a positive price per
  call), and, but for chat, one of its channels speaks a protocol that supports the modality. So every model that can be called is
  listed; a listed one can fail the other conditions.
\<close>

theorem callable_iff_listed_and_fit:
  assumes "carries_names cs" "listed w json_text provider ms cs i = Some found" "distinct (map m_Name ms)"
    "w_models rw = ms" "\<not> w_models_fail rw" "m \<in> set ms"
  shows "reaches_channel rw i provider ep (m_Name m) we s cs \<longleftrightarrow>
      m \<in> set found \<and> m_Modality m = endpoint_modality ep \<and> m_BillingMode m = endpoint_billing ep
    \<and> (\<exists>p. m_Price m = Some p \<and> (ep = ImageEndpoint \<longrightarrow> PerCallPrice p > 0))
    \<and> (ep = ChatEndpoint \<or> (\<exists>c \<in> set (filterByProvider (ListEnabledForModel cs (m_Name m)) provider).
          ProtocolSupportsModality (ch_Protocol c) (endpoint_modality ep)))"
  by (rule reaches_channel_iff [OF assms])

text \<open>A text model billed by the call is listed, and no endpoint takes a call of it.\<close>

lemma misbilled_model_listed:
  assumes "carries_names cs" "listed w json_text provider ms cs i = Some found" "distinct (map m_Name ms)"
    "w_models rw = ms" "\<not> w_models_fail rw" "m \<in> set found" "m_Modality m = ModalityText" "m_BillingMode m = BillPerCall"
  shows "\<not> reaches_channel rw i provider ep (m_Name m) we s cs"
proof -
  have "m \<in> set ms" using model_listed_iff [OF assms(1,2)] assms(6) by blast
  then show ?thesis using reaches_channel_iff [OF assms(1-5), of m ep] assms(7,8) by (cases ep) auto
qed

text \<open>A model without a price is listed all the same, and every call of it is refused.\<close>

lemma unpriced_model_listed:
  assumes "carries_names cs" "listed w json_text provider ms cs i = Some found" "distinct (map m_Name ms)"
    "w_models rw = ms" "\<not> w_models_fail rw" "m \<in> set found" "m_Price m = None"
  shows "fst (prepareModel rw (i\<lparr>i_provider := provider\<rparr>) (m_Name m) wm wb we s) = None"
proof -
  have "m \<in> set ms" using model_listed_iff [OF assms(1,2)] assms(6) by blast
  then have "GetByName (w_models rw) (m_Name m) = Some m" using GetByName_distinct [OF assms(3)] assms(4) by simp
  then show ?thesis using assms(5,7)
    by (auto simp: prepareModel_def Let_def split: sum.split option.split)
qed

section \<open>A request\<close>

definition demo_token :: string where "demo_token = ''tzl-0123456789abcdefghij''"

definition demo_entry_world :: entry_world where
  "demo_entry_world = \<lparr>ew_hash = (\<lambda>_. ''h:sk''), ew_now = 0, ew_query_fails = (\<lambda>_. False), ew_keyIPs = (\<lambda>_. PolicyEmpty),
     ew_keyModels = (\<lambda>_. PolicyEmpty), ew_userModels = (\<lambda>_. PolicyEmpty), ew_departments = (\<lambda>_. None),
     ew_net = \<lparr>net_ParseIP = (\<lambda>_. None), net_ParseCIDR = (\<lambda>_. None)\<rparr>, ew_alerts = True, ew_key_time = 0, ew_user_time = 0,
     ew_setting = (\<lambda>_. 5), ew_gate_others = (\<lambda>g. g)\<rparr>"

definition demo_http :: http_in where
  "demo_http = \<lparr>hr_Authorization = ''Bearer '' @ demo_token, hr_APIKey = [], hr_ClientIP = ''10.0.0.1'', hr_ContentLength = 40\<rparr>"

definition demo_entry_state :: entry_state where
  "demo_entry_state = \<lparr>e_limiter = Some (NewMemoryLimiter 0), e_gate = Some NewConcurrencyGate, e_alerts = [], e_relay = demo_state\<rparr>"

lemma gate_abs_new: "gate_abs NewConcurrencyGate {#}"
  by (simp add: gate_abs_def NewConcurrencyGate_def)

lemma demo_admitted: "fst (guard_admit demo_entry_world demo_http demo_entry_state) \<noteq> None"
  by (simp add: guard_admit_def apiKeyIdentity_def demo_entry_world_def demo_http_def demo_entry_state_def token_of_def
      TrimPrefix_def demo_token_def LooksLikeKey_def KeyPlainPrefix_def GetByHash_def demo_state_def demo_db_def demo_key_def
      demo_user_def keyAllowsIP_def tbl_get_def check_rates_def limiter_Allow_def NewMemoryLimiter_def bucket_def
      enter_gate_def gate_Acquire_def NewConcurrencyGate_def user_count_def department_of_def Let_def time_Sub_def Minute_def
      Second_def refuse_def MinInt64_def MaxInt64_def wrap64_def split: prod.split)

theorem guard_gives_slot_back_witness:
  "\<exists>g'. e_gate (guardV1 demo_entry_world (\<lambda>_ s. s\<lparr>panicked := True\<rparr>) demo_http demo_entry_state) = Some g' \<and> gate_abs g' {#}"
proof -
  have "e_gate demo_entry_state = Some NewConcurrencyGate" by (simp add: demo_entry_state_def)
  from guard_gives_slot_back [OF this gate_abs_new, where w = demo_entry_world and others = "\<lambda>R. R"]
  show ?thesis by (simp add: demo_entry_world_def)
qed

theorem callable_iff_listed_and_fit_witness:
  "\<exists>found. v1_models demo_entry_world (\<lambda>_. None) [demo_model] [channel0 1 5 2] demo_identity = Some found \<and> demo_model \<in> set found
     \<and> reaches_channel demo_world demo_identity [] ChatEndpoint (m_Name demo_model) WriteOpenAIError demo_state [channel0 1 5 2]
     \<and> \<not> reaches_channel demo_world demo_identity [] EmbeddingEndpoint (m_Name demo_model) WriteOpenAIError demo_state [channel0 1 5 2]"
proof -
  have c: "carries_names [channel0 1 5 2]" by (auto simp: carries_names_def channel0_def intro: exI [of _ "[''m'']"])
  obtain found where f: "listed demo_entry_world (\<lambda>_. None) [] [demo_model] [channel0 1 5 2] demo_identity = Some found"
    using count_defined [OF c, of "\<lambda>_. None"] by (fastforce simp: listed_def v1_models_def enabled_models_def demo_entry_world_def)
  have n: "filterByProvider (ListEnabledForModel [channel0 1 5 2] (m_Name demo_model)) [] \<noteq> []"
    unfolding ListEnabledForModel_nonempty by (simp add: serves_def demo_model_def)
  have r: "reaches_channel demo_world demo_identity [] ChatEndpoint (m_Name demo_model) WriteOpenAIError demo_state [channel0 1 5 2]"
    using n by (simp add: reaches_channel_def endpoint_channels_def prepareModel_def identityAllowsModel_def AllowsModel_def
        departmentPolicy_def demo_identity_def demo_world_def GetByName_def demo_model_def)
  have iff: "reaches_channel demo_world demo_identity [] ep (m_Name demo_model) WriteOpenAIError demo_state [channel0 1 5 2] \<longleftrightarrow>
      demo_model \<in> set found \<and> m_Modality demo_model = endpoint_modality ep \<and> m_BillingMode demo_model = endpoint_billing ep
    \<and> (\<exists>p. m_Price demo_model = Some p \<and> (ep = ImageEndpoint \<longrightarrow> PerCallPrice p > 0))
    \<and> (ep = ChatEndpoint \<or> (\<exists>c \<in> set (filterByProvider (ListEnabledForModel [channel0 1 5 2] (m_Name demo_model)) []).
          ProtocolSupportsModality (ch_Protocol c) (endpoint_modality ep)))" for ep
    by (rule callable_iff_listed_and_fit [OF c f]) (simp_all add: demo_world_def)
  have "demo_model \<in> set found" using iff [of ChatEndpoint] r by blast
  moreover have "\<not> reaches_channel demo_world demo_identity [] EmbeddingEndpoint (m_Name demo_model) WriteOpenAIError demo_state [channel0 1 5 2]"
    unfolding iff [of EmbeddingEndpoint] by (simp add: demo_model_def)
  ultimately show ?thesis using f r by (auto simp: listed_def)
qed

end
