(* ===== verification/AdminMessages.thy ===== *)
theory AdminMessages
  imports Prelude
begin

text \<open>
  The texts of answers, notes and refusals of the administration that are not ASCII,
  as the bytes of their UTF-8 encoding; each is named for what it says.
\<close>

definition msg_site_account_disabled :: string where
  "msg_site_account_disabled = utf8 [232, 180, 166, 229, 143, 183, 229, 183, 178, 232, 162, 171, 231, 166, 129, 231, 148, 168]"

definition msg_site_all_sessions_ended :: string where
  "msg_site_all_sessions_ended = utf8 [232, 175, 165, 231, 148, 168, 230, 136, 183, 229, 133, 168, 233, 131, 168, 231, 153, 187, 229,
     189, 149, 228, 188, 154, 232, 175, 157, 229, 183, 178, 228, 189, 156, 229, 186, 159]"

definition msg_site_already :: string where
  "msg_site_already = utf8 [229, 183, 178, 230, 152, 175, 231, 155, 174, 230, 160, 135, 231, 138, 182, 230, 128, 129, 239,
     188, 140, 230, 156, 170, 230, 148, 185, 229, 138, 168]"

definition msg_site_bad_body :: string where
  "msg_site_bad_body = utf8 [232, 175, 183, 230, 177, 130, 228, 189, 147, 228, 184, 141, 230, 152, 175, 229, 144, 136, 230,
     179, 149, 32, 74, 83, 79, 78]"

definition msg_site_bad_external :: string where
  "msg_site_bad_external = utf8 [229, 164, 150, 233, 131, 168, 230, 160, 135, 232, 175, 134, 233, 161, 187, 228, 184, 186, 32,
     49, 45, 54, 52, 32, 228, 189, 141, 229, 173, 151, 230, 175, 141, 227, 128, 129, 230, 149, 176,
     229, 173, 151, 227, 128, 129, 228, 184, 139, 229, 136, 146, 231, 186, 191, 227, 128, 129, 232,
     191, 158, 229, 173, 151, 231, 172, 166, 227, 128, 129, 229, 176, 143, 230, 149, 176, 231, 130,
     185, 230, 136, 150, 229, 134, 146, 229, 143, 183]"

definition msg_site_bad_idempotency :: string where
  "msg_site_bad_idempotency = utf8 [229, 185, 130, 231, 173, 137, 233, 148, 174, 233, 161, 187, 228, 184, 186, 32, 49, 45, 54, 52,
     32, 228, 189, 141, 229, 173, 151, 230, 175, 141, 227, 128, 129, 230, 149, 176, 229, 173, 151,
     227, 128, 129, 228, 184, 139, 229, 136, 146, 231, 186, 191, 230, 136, 150, 232, 191, 158, 229,
     173, 151, 231, 172, 166]"

definition msg_site_bad_role :: string where
  "msg_site_bad_role = utf8 [232, 167, 146, 232, 137, 178, 229, 143, 150, 229, 128, 188, 228, 184, 141, 229, 144, 136, 230,
     179, 149]"

definition msg_site_bad_status :: string where
  "msg_site_bad_status = utf8 [231, 138, 182, 230, 128, 129, 229, 143, 150, 229, 128, 188, 228, 184, 141, 229, 144, 136, 230,
     179, 149]"

definition msg_site_bad_username :: string where
  "msg_site_bad_username = utf8 [231, 148, 168, 230, 136, 183, 229, 144, 141, 233, 161, 187, 228, 184, 186, 32, 51, 45, 51, 50,
     32, 228, 189, 141, 229, 173, 151, 230, 175, 141, 227, 128, 129, 230, 149, 176, 229, 173, 151,
     227, 128, 129, 228, 184, 139, 229, 136, 146, 231, 186, 191, 230, 136, 150, 232, 191, 158, 229,
     173, 151, 231, 172, 166]"

definition msg_site_balance_failed :: string where
  "msg_site_balance_failed = utf8 [230, 159, 165, 232, 175, 162, 228, 189, 153, 233, 162, 157, 229, 164, 177, 232, 180, 165]"

definition msg_site_batch_grant_failed :: string where
  "msg_site_batch_grant_failed = utf8 [229, 143, 145, 230, 148, 190, 229, 164, 177, 232, 180, 165]"

definition msg_site_batch_grant_large :: string where
  "msg_site_batch_grant_large = utf8 [229, 141, 149, 230, 172, 161, 230, 156, 128, 229, 164, 154, 229, 144, 145, 32, 53, 48, 48, 32,
     228, 184, 170, 231, 148, 168, 230, 136, 183, 229, 143, 145, 230, 148, 190, 239, 188, 140, 232,
     175, 183, 229, 136, 134, 230, 137, 185, 230, 143, 144, 228, 186, 164]"

definition msg_site_batch_revoke :: string where
  "msg_site_batch_revoke = utf8 [230, 137, 163, 229, 155, 158, 233, 135, 145, 233, 162, 157, 232, 182, 133, 232, 191, 135, 232,
     175, 165, 231, 148, 168, 230, 136, 183, 229, 189, 147, 229, 137, 141, 228, 189, 153, 233, 162,
     157]"

definition msg_site_batch_status_large :: string where
  "msg_site_batch_status_large = utf8 [229, 141, 149, 230, 172, 161, 230, 156, 128, 229, 164, 154, 229, 164, 132, 231, 144, 134, 32,
     53, 48, 48, 32, 228, 184, 170, 231, 148, 168, 230, 136, 183, 239, 188, 140, 232, 175, 183, 229,
     136, 134, 230, 137, 185, 230, 143, 144, 228, 186, 164]"

definition msg_site_change_password :: string where
  "msg_site_change_password = utf8 [232, 175, 183, 229, 133, 136, 228, 191, 174, 230, 148, 185, 229, 136, 157, 229, 167, 139, 229,
     175, 134, 231, 160, 129]"

definition msg_site_code_count :: string where
  "msg_site_code_count = utf8 [229, 141, 149, 230, 137, 185, 230, 149, 176, 233, 135, 143, 233, 161, 187, 229, 156, 168, 32,
     49, 45, 49, 48, 48, 48, 32, 228, 185, 139, 233, 151, 180]"

definition msg_site_code_credits :: string where
  "msg_site_code_credits = utf8 [229, 133, 145, 230, 141, 162, 231, 167, 175, 229, 136, 134, 229, 191, 133, 233, 161, 187, 228,
     184, 186, 230, 173, 163, 230, 149, 176]"

definition msg_site_code_disabled :: string where
  "msg_site_code_disabled = utf8 [229, 133, 145, 230, 141, 162, 231, 160, 129, 229, 183, 178, 232, 162, 171, 228, 189, 156, 229,
     186, 159, 239, 188, 140, 232, 175, 183, 232, 129, 148, 231, 179, 187, 231, 174, 161, 231, 144,
     134, 229, 145, 152]"

definition msg_site_code_empty :: string where
  "msg_site_code_empty = utf8 [229, 133, 145, 230, 141, 162, 231, 160, 129, 228, 184, 141, 232, 131, 189, 228, 184, 186, 231,
     169, 186]"

definition msg_site_code_expired :: string where
  "msg_site_code_expired = utf8 [229, 133, 145, 230, 141, 162, 231, 160, 129, 229, 183, 178, 232, 191, 135, 230, 156, 159, 239,
     188, 140, 232, 175, 183, 232, 129, 148, 231, 179, 187, 231, 174, 161, 231, 144, 134, 229, 145,
     152, 233, 135, 141, 230, 150, 176, 229, 143, 145, 230, 148, 190]"

definition msg_site_code_list :: string where
  "msg_site_code_list = utf8 [230, 159, 165, 232, 175, 162, 229, 133, 145, 230, 141, 162, 231, 160, 129, 229, 164, 177, 232,
     180, 165]"

definition msg_site_code_made :: string where
  "msg_site_code_made = utf8 [231, 148, 159, 230, 136, 144, 229, 133, 145, 230, 141, 162, 231, 160, 129, 229, 164, 177, 232,
     180, 165]"

definition msg_site_code_status :: string where
  "msg_site_code_status = utf8 [231, 138, 182, 230, 128, 129, 229, 143, 170, 232, 131, 189, 232, 174, 190, 231, 189, 174, 228,
     184, 186, 32, 117, 110, 117, 115, 101, 100, 32, 230, 136, 150, 32, 100, 105, 115, 97, 98, 108,
     101, 100]"

definition msg_site_code_unavailable :: string where
  "msg_site_code_unavailable = utf8 [229, 133, 145, 230, 141, 162, 231, 160, 129, 228, 184, 141, 229, 143, 175, 231, 148, 168, 239,
     188, 140, 232, 175, 183, 232, 129, 148, 231, 179, 187, 231, 174, 161, 231, 144, 134, 229, 145,
     152]"

definition msg_site_code_unknown :: string where
  "msg_site_code_unknown = utf8 [229, 133, 145, 230, 141, 162, 231, 160, 129, 228, 184, 141, 229, 173, 152, 229, 156, 168, 239,
     188, 140, 232, 175, 183, 230, 160, 184, 229, 175, 185, 229, 144, 142, 233, 135, 141, 230, 150,
     176, 232, 190, 147, 229, 133, 165]"

definition msg_site_code_used :: string where
  "msg_site_code_used = utf8 [229, 133, 145, 230, 141, 162, 231, 160, 129, 229, 183, 178, 232, 162, 171, 228, 189, 191, 231,
     148, 168]"

definition msg_site_codes_failed :: string where
  "msg_site_codes_failed = utf8 [230, 137, 185, 233, 135, 143, 231, 148, 159, 230, 136, 144, 229, 133, 145, 230, 141, 162, 231,
     160, 129, 229, 164, 177, 232, 180, 165]"

definition msg_site_delete_failed :: string where
  "msg_site_delete_failed = utf8 [229, 136, 160, 233, 153, 164, 231, 148, 168, 230, 136, 183, 229, 164, 177, 232, 180, 165]"

definition msg_site_delete_ledger :: string where
  "msg_site_delete_ledger = utf8 [232, 175, 165, 231, 148, 168, 230, 136, 183, 229, 183, 178, 228, 186, 167, 231, 148, 159, 231,
     167, 175, 229, 136, 134, 230, 181, 129, 230, 176, 180, 239, 188, 140, 229, 136, 160, 233, 153,
     164, 228, 188, 154, 233, 148, 128, 230, 175, 129, 229, 175, 185, 232, 180, 166, 230, 137, 128,
     233, 156, 128, 231, 154, 132, 229, 142, 134, 229, 143, 178, 232, 174, 176, 229, 189, 149, 239,
     188, 155, 232, 175, 183, 230, 148, 185, 231, 148, 168, 231, 166, 129, 231, 148, 168, 232, 180,
     166, 229, 143, 183]"

definition msg_site_delete_ledger_unknown :: string where
  "msg_site_delete_ledger_unknown = utf8 [230, 151, 160, 230, 179, 149, 231, 161, 174, 232, 174, 164, 232, 175, 165, 231, 148, 168, 230,
     136, 183, 230, 152, 175, 229, 144, 166, 229, 183, 178, 228, 186, 167, 231, 148, 159, 231, 167,
     175, 229, 136, 134, 230, 181, 129, 230, 176, 180, 239, 188, 140, 229, 136, 160, 233, 153, 164,
     229, 183, 178, 228, 184, 173, 230, 173, 162]"

definition msg_site_delete_logs :: string where
  "msg_site_delete_logs = utf8 [232, 175, 165, 231, 148, 168, 230, 136, 183, 229, 183, 178, 228, 186, 167, 231, 148, 159, 232,
     176, 131, 231, 148, 168, 232, 174, 176, 229, 189, 149, 239, 188, 140, 229, 136, 160, 233, 153,
     164, 228, 188, 154, 233, 148, 128, 230, 175, 129, 230, 136, 144, 230, 156, 172, 229, 136, 134,
     230, 145, 138, 230, 137, 128, 233, 156, 128, 231, 154, 132, 229, 142, 134, 229, 143, 178, 239,
     188, 155, 232, 175, 183, 230, 148, 185, 231, 148, 168, 231, 166, 129, 231, 148, 168, 232, 180,
     166, 229, 143, 183]"

definition msg_site_delete_logs_unknown :: string where
  "msg_site_delete_logs_unknown = utf8 [230, 151, 160, 230, 179, 149, 231, 161, 174, 232, 174, 164, 232, 175, 165, 231, 148, 168, 230,
     136, 183, 230, 152, 175, 229, 144, 166, 229, 183, 178, 228, 186, 167, 231, 148, 159, 232, 176,
     131, 231, 148, 168, 232, 174, 176, 229, 189, 149, 239, 188, 140, 229, 136, 160, 233, 153, 164,
     229, 183, 178, 228, 184, 173, 230, 173, 162]"

definition msg_site_department_disabled :: string where
  "msg_site_department_disabled = utf8 [232, 175, 165, 233, 131, 168, 233, 151, 168, 229, 183, 178, 229, 129, 156, 231, 148, 168, 239,
     188, 140, 228, 184, 141, 232, 131, 189, 229, 134, 141, 229, 136, 134, 233, 133, 141, 230, 150,
     176, 230, 136, 144, 229, 145, 152]"

definition msg_site_dept_code :: string where
  "msg_site_dept_code = utf8 [230, 136, 144, 230, 156, 172, 228, 184, 173, 229, 191, 131, 231, 188, 150, 231, 160, 129, 228,
     184, 141, 229, 190, 151, 232, 182, 133, 232, 191, 135, 32, 53, 48, 32, 228, 184, 170, 229, 173,
     151, 231, 172, 166]"

definition msg_site_dept_delete :: string where
  "msg_site_dept_delete = utf8 [229, 136, 160, 233, 153, 164, 233, 131, 168, 233, 151, 168, 229, 164, 177, 232, 180, 165]"

definition msg_site_dept_long :: string where
  "msg_site_dept_long = utf8 [233, 131, 168, 233, 151, 168, 229, 144, 141, 231, 167, 176, 228, 184, 141, 229, 190, 151, 232,
     182, 133, 232, 191, 135, 32, 49, 48, 48, 32, 228, 184, 170, 229, 173, 151, 231, 172, 166]"

definition msg_site_dept_members :: string where
  "msg_site_dept_members = utf8 [232, 175, 165, 233, 131, 168, 233, 151, 168, 228, 187, 141, 230, 156, 137, 230, 136, 144, 229,
     145, 152, 239, 188, 140, 232, 175, 183, 229, 133, 136, 230, 138, 138, 230, 136, 144, 229, 145,
     152, 232, 189, 172, 229, 135, 186, 230, 136, 150, 230, 148, 185, 229, 136, 134, 229, 136, 176,
     229, 133, 182, 228, 187, 150, 233, 131, 168, 233, 151, 168]"

definition msg_site_dept_name :: string where
  "msg_site_dept_name = utf8 [233, 131, 168, 233, 151, 168, 229, 144, 141, 231, 167, 176, 229, 191, 133, 229, 161, 171]"

definition msg_site_dept_replayed :: string where
  "msg_site_dept_replayed = utf8 [232, 175, 165, 233, 131, 168, 233, 151, 168, 229, 183, 178, 229, 136, 155, 229, 187, 186, 239,
     188, 140, 230, 156, 172, 230, 172, 161, 230, 156, 170, 233, 135, 141, 229, 164, 141, 230, 137,
     167, 232, 161, 140, 239, 188, 136, 233, 135, 141, 230, 148, 190, 239, 188, 137]"

definition msg_site_dept_status :: string where
  "msg_site_dept_status = utf8 [233, 131, 168, 233, 151, 168, 231, 138, 182, 230, 128, 129, 229, 143, 150, 229, 128, 188, 228,
     184, 141, 229, 144, 136, 230, 179, 149]"

definition msg_site_dept_taken :: string where
  "msg_site_dept_taken = utf8 [233, 131, 168, 233, 151, 168, 229, 144, 141, 231, 167, 176, 230, 136, 150, 230, 136, 144, 230,
     156, 172, 228, 184, 173, 229, 191, 131, 231, 188, 150, 231, 160, 129, 229, 183, 178, 229, 173,
     152, 229, 156, 168]"

definition msg_site_depts_failed :: string where
  "msg_site_depts_failed = utf8 [230, 159, 165, 232, 175, 162, 233, 131, 168, 233, 151, 168, 229, 136, 151, 232, 161, 168, 229,
     164, 177, 232, 180, 165]"

definition msg_site_disable_failed :: string where
  "msg_site_disable_failed = utf8 [229, 129, 156, 231, 148, 168, 230, 142, 165, 229, 133, 165, 230, 150, 185, 229, 164, 177, 232,
     180, 165]"

definition msg_site_email_bad :: string where
  "msg_site_email_bad = utf8 [233, 130, 174, 231, 174, 177, 230, 160, 188, 229, 188, 143, 228, 184, 141, 230, 173, 163, 231,
     161, 174, 239, 188, 140, 231, 164, 186, 228, 190, 139, 239, 188, 154, 110, 97, 109, 101, 64,
     101, 120, 97, 109, 112, 108, 101, 46, 99, 111, 109]"

definition msg_site_email_locked :: string where
  "msg_site_email_locked = utf8 [233, 130, 174, 231, 174, 177, 229, 183, 178, 231, 148, 177, 231, 174, 161, 231, 144, 134, 229,
     145, 152, 233, 148, 129, 229, 174, 154, 239, 188, 140, 228, 184, 141, 229, 143, 175, 232, 135,
     170, 229, 138, 169, 228, 191, 174, 230, 148, 185]"

definition msg_site_email_long :: string where
  "msg_site_email_long = utf8 [233, 130, 174, 231, 174, 177, 229, 156, 176, 229, 157, 128, 232, 191, 135, 233, 149, 191]"

definition msg_site_enabled_or_disabled :: string where
  "msg_site_enabled_or_disabled = utf8 [231, 138, 182, 230, 128, 129, 229, 143, 170, 232, 131, 189, 232, 174, 190, 231, 189, 174, 228,
     184, 186, 32, 101, 110, 97, 98, 108, 101, 100, 32, 230, 136, 150, 32, 100, 105, 115, 97, 98,
     108, 101, 100]"

definition msg_site_grant_failed :: string where
  "msg_site_grant_failed = utf8 [231, 167, 175, 229, 136, 134, 232, 176, 131, 230, 149, 180, 229, 164, 177, 232, 180, 165]"

definition msg_site_grant_replayed :: string where
  "msg_site_grant_replayed = utf8 [232, 175, 165, 229, 143, 145, 230, 148, 190, 229, 183, 178, 232, 174, 176, 232, 180, 166, 239,
     188, 140, 230, 156, 172, 230, 172, 161, 230, 156, 170, 233, 135, 141, 229, 164, 141, 232, 176,
     131, 230, 149, 180]"

definition msg_site_granted :: string where
  "msg_site_granted = utf8 [229, 183, 178, 229, 143, 145, 230, 148, 190, 239, 188, 140, 228, 189, 153, 233, 162, 157, 32]"

definition msg_site_import_department_off :: string where
  "msg_site_import_department_off = utf8 [230, 140, 135, 229, 174, 154, 231, 154, 132, 233, 131, 168, 233, 151, 168, 229, 183, 178, 229,
     129, 156, 231, 148, 168, 239, 188, 140, 228, 184, 141, 232, 131, 189, 229, 134, 141, 229, 136,
     134, 233, 133, 141, 230, 150, 176, 230, 136, 144, 229, 145, 152]"

definition msg_site_import_empty :: string where
  "msg_site_import_empty = utf8 [229, 175, 188, 229, 133, 165, 229, 134, 133, 229, 174, 185, 228, 184, 186, 231, 169, 186]"

definition msg_site_import_exists :: string where
  "msg_site_import_exists = utf8 [231, 148, 168, 230, 136, 183, 229, 144, 141, 229, 183, 178, 229, 173, 152, 229, 156, 168, 239,
     188, 140, 230, 156, 170, 230, 148, 185, 229, 138, 168, 230, 151, 162, 230, 156, 137, 232, 180,
     166, 229, 143, 183]"

definition msg_site_import_large :: string where
  "msg_site_import_large = utf8 [229, 141, 149, 230, 172, 161, 230, 156, 128, 229, 164, 154, 229, 175, 188, 229, 133, 165, 32,
     53, 48, 48, 32, 228, 184, 170, 231, 148, 168, 230, 136, 183, 239, 188, 140, 232, 175, 183, 229,
     136, 134, 230, 137, 185, 230, 143, 144, 228, 186, 164]"

definition msg_site_import_no_department :: string where
  "msg_site_import_no_department = utf8 [230, 140, 135, 229, 174, 154, 231, 154, 132, 233, 131, 168, 233, 151, 168, 228, 184, 141, 229,
     173, 152, 229, 156, 168]"

definition msg_site_import_note :: string where
  "msg_site_import_note = utf8 [230, 137, 185, 233, 135, 143, 229, 175, 188, 229, 133, 165, 229, 136, 157, 229, 167, 139, 233,
     162, 157, 229, 186, 166]"

definition msg_site_import_taken :: string where
  "msg_site_import_taken = utf8 [229, 136, 155, 229, 187, 186, 229, 164, 177, 232, 180, 165, 239, 188, 154, 231, 148, 168, 230,
     136, 183, 229, 144, 141, 229, 143, 175, 232, 131, 189, 229, 183, 178, 232, 162, 171, 229, 141,
     160, 231, 148, 168]"

definition msg_site_import_twice :: string where
  "msg_site_import_twice = utf8 [229, 144, 140, 228, 184, 128, 230, 137, 185, 230, 172, 161, 229, 134, 133, 231, 148, 168, 230,
     136, 183, 229, 144, 141, 233, 135, 141, 229, 164, 141]"

definition msg_site_import_ungranted :: string where
  "msg_site_import_ungranted = utf8 [232, 180, 166, 229, 143, 183, 229, 183, 178, 229, 136, 155, 229, 187, 186, 239, 188, 140, 228,
     189, 134, 229, 136, 157, 229, 167, 139, 231, 167, 175, 229, 136, 134, 229, 143, 145, 230, 148,
     190, 229, 164, 177, 232, 180, 165, 239, 188, 140, 232, 175, 183, 229, 141, 149, 231, 139, 172,
     232, 161, 165, 229, 143, 145]"

definition msg_site_initial_note :: string where
  "msg_site_initial_note = utf8 [229, 187, 186, 229, 143, 183, 229, 136, 157, 229, 167, 139, 233, 162, 157, 229, 186, 166]"

definition msg_site_integration_name :: string where
  "msg_site_integration_name = utf8 [230, 142, 165, 229, 133, 165, 230, 150, 185, 229, 144, 141, 231, 167, 176, 229, 191, 133, 229,
     161, 171, 228, 184, 148, 228, 184, 141, 232, 182, 133, 232, 191, 135, 32, 49, 48, 48, 32, 229,
     173, 151, 231, 172, 166]"

definition msg_site_integration_slug :: string where
  "msg_site_integration_slug = utf8 [115, 108, 117, 103, 32, 233, 161, 187, 228, 184, 186, 32, 49, 45, 54, 52, 32, 228, 189, 141,
     229, 173, 151, 230, 175, 141, 227, 128, 129, 230, 149, 176, 229, 173, 151, 227, 128, 129, 228,
     184, 139, 229, 136, 146, 231, 186, 191, 230, 136, 150, 232, 191, 158, 229, 173, 151, 231, 172,
     166]"

definition msg_site_integration_taken :: string where
  "msg_site_integration_taken = utf8 [230, 142, 165, 229, 133, 165, 230, 150, 185, 230, 160, 135, 232, 175, 134, 229, 134, 178, 231,
     170, 129, 230, 136, 150, 230, 156, 141, 229, 138, 161, 232, 180, 166, 229, 143, 183, 229, 183,
     178, 229, 173, 152, 229, 156, 168]"

definition msg_site_integrations_failed :: string where
  "msg_site_integrations_failed = utf8 [230, 159, 165, 232, 175, 162, 230, 142, 165, 229, 133, 165, 230, 150, 185, 229, 136, 151, 232,
     161, 168, 229, 164, 177, 232, 180, 165]"

definition msg_site_key_failed :: string where
  "msg_site_key_failed = utf8 [229, 136, 155, 229, 187, 186, 229, 175, 134, 233, 146, 165, 229, 164, 177, 232, 180, 165]"

definition msg_site_key_ip :: string where
  "msg_site_key_ip = utf8 [73, 80, 32, 231, 153, 189, 229, 144, 141, 229, 141, 149, 229, 140, 133, 229, 144, 171, 233,
     157, 158, 230, 179, 149, 230, 157, 161, 231, 155, 174, 58, 32]"

definition msg_site_key_limit :: string where
  "msg_site_key_limit = utf8 [233, 162, 157, 229, 186, 166, 228, 184, 141, 232, 131, 189, 228, 184, 186, 232, 180, 159, 230,
     149, 176]"

definition msg_site_key_made :: string where
  "msg_site_key_made = utf8 [231, 148, 159, 230, 136, 144, 229, 175, 134, 233, 146, 165, 229, 164, 177, 232, 180, 165]"

definition msg_site_key_name :: string where
  "msg_site_key_name = utf8 [229, 175, 134, 233, 146, 165, 229, 144, 141, 231, 167, 176, 229, 191, 133, 229, 161, 171, 228,
     184, 148, 228, 184, 141, 232, 182, 133, 232, 191, 135, 32, 54, 52, 32, 229, 173, 151, 231, 172,
     166]"

definition msg_site_key_replayed :: string where
  "msg_site_key_replayed = utf8 [232, 175, 165, 229, 175, 134, 233, 146, 165, 229, 183, 178, 231, 173, 190, 229, 143, 145, 239,
     188, 140, 230, 152, 142, 230, 150, 135, 228, 187, 133, 233, 166, 150, 230, 172, 161, 229, 136,
     155, 229, 187, 186, 230, 151, 182, 232, 191, 148, 229, 155, 158, 239, 188, 136, 233, 135, 141,
     230, 148, 190, 239, 188, 137]"

definition msg_site_keys_failed :: string where
  "msg_site_keys_failed = utf8 [230, 159, 165, 232, 175, 162, 229, 175, 134, 233, 146, 165, 229, 136, 151, 232, 161, 168, 229,
     164, 177, 232, 180, 165]"

definition msg_site_keys_full_a :: string where
  "msg_site_keys_full_a = utf8 [229, 175, 134, 233, 146, 165, 230, 149, 176, 233, 135, 143, 229, 183, 178, 232, 190, 190, 228,
     184, 138, 233, 153, 144, 239, 188, 136]"

definition msg_site_keys_full_b :: string where
  "msg_site_keys_full_b = utf8 [32, 228, 184, 170, 239, 188, 137, 239, 188, 140, 232, 175, 183, 229, 136, 160, 233, 153, 164,
     228, 184, 141, 229, 134, 141, 228, 189, 191, 231, 148, 168, 231, 154, 132, 229, 175, 134, 233,
     146, 165, 229, 144, 142, 233, 135, 141, 232, 175, 149]"

definition msg_site_ledger_failed :: string where
  "msg_site_ledger_failed = utf8 [230, 159, 165, 232, 175, 162, 230, 181, 129, 230, 176, 180, 229, 164, 177, 232, 180, 165]"

definition msg_site_login_failed :: string where
  "msg_site_login_failed = utf8 [231, 153, 187, 229, 189, 149, 229, 164, 177, 232, 180, 165, 239, 188, 140, 232, 175, 183, 231,
     168, 141, 229, 144, 142, 233, 135, 141, 232, 175, 149]"

definition msg_site_login_needed :: string where
  "msg_site_login_needed = utf8 [230, 156, 170, 231, 153, 187, 229, 189, 149, 230, 136, 150, 231, 153, 187, 229, 189, 149, 229,
     183, 178, 232, 191, 135, 230, 156, 159]"

definition msg_site_login_often :: string where
  "msg_site_login_often = utf8 [231, 153, 187, 229, 189, 149, 229, 176, 157, 232, 175, 149, 232, 191, 135, 228, 186, 142, 233,
     162, 145, 231, 185, 129, 239, 188, 140, 232, 175, 183, 231, 168, 141, 229, 144, 142, 233, 135,
     141, 232, 175, 149]"

definition msg_site_login_wrong :: string where
  "msg_site_login_wrong = utf8 [231, 148, 168, 230, 136, 183, 229, 144, 141, 230, 136, 150, 229, 175, 134, 231, 160, 129, 233,
     148, 153, 232, 175, 175]"

definition msg_site_many_members :: string where
  "msg_site_many_members = utf8 [229, 141, 149, 230, 172, 161, 230, 156, 128, 229, 164, 154, 229, 136, 146, 232, 189, 172, 32,
     53, 48, 48, 32, 228, 184, 170, 231, 148, 168, 230, 136, 183, 239, 188, 140, 232, 175, 183, 229,
     136, 134, 230, 137, 185, 230, 143, 144, 228, 186, 164]"

definition msg_site_members_done :: string where
  "msg_site_members_done = utf8 [229, 183, 178, 230, 155, 180, 230, 150, 176, 233, 131, 168, 233, 151, 168, 230, 136, 144, 229,
     145, 152]"

definition msg_site_members_failed :: string where
  "msg_site_members_failed = utf8 [230, 159, 165, 232, 175, 162, 233, 131, 168, 233, 151, 168, 230, 136, 144, 229, 145, 152, 229,
     164, 177, 232, 180, 165]"

definition msg_site_members_move :: string where
  "msg_site_members_move = utf8 [229, 136, 146, 232, 189, 172, 233, 131, 168, 233, 151, 168, 230, 136, 144, 229, 145, 152, 229,
     164, 177, 232, 180, 165]"

definition msg_site_name_locked :: string where
  "msg_site_name_locked = utf8 [230, 152, 190, 231, 164, 186, 229, 144, 141, 231, 167, 176, 229, 183, 178, 231, 148, 177, 231,
     174, 161, 231, 144, 134, 229, 145, 152, 233, 148, 129, 229, 174, 154, 239, 188, 140, 228, 184,
     141, 229, 143, 175, 232, 135, 170, 229, 138, 169, 228, 191, 174, 230, 148, 185]"

definition msg_site_negative_budget :: string where
  "msg_site_negative_budget = utf8 [230, 156, 136, 229, 186, 166, 233, 162, 132, 231, 174, 151, 228, 184, 141, 232, 131, 189, 228,
     184, 186, 232, 180, 159, 230, 149, 176]"

definition msg_site_negative_credits :: string where
  "msg_site_negative_credits = utf8 [229, 136, 157, 229, 167, 139, 231, 167, 175, 229, 136, 134, 228, 184, 141, 232, 131, 189, 228,
     184, 186, 232, 180, 159, 230, 149, 176]"

definition msg_site_negative_daily :: string where
  "msg_site_negative_daily = utf8 [230, 175, 143, 230, 151, 165, 232, 138, 177, 232, 180, 185, 228, 184, 138, 233, 153, 144, 228,
     184, 141, 232, 131, 189, 228, 184, 186, 232, 180, 159, 230, 149, 176]"

definition msg_site_no_api :: string where
  "msg_site_no_api = utf8 [230, 142, 165, 229, 143, 163, 228, 184, 141, 229, 173, 152, 229, 156, 168]"

definition msg_site_no_code :: string where
  "msg_site_no_code = utf8 [229, 133, 145, 230, 141, 162, 231, 160, 129, 228, 184, 141, 229, 173, 152, 229, 156, 168, 230,
     136, 150, 229, 183, 178, 232, 162, 171, 228, 189, 191, 231, 148, 168]"

definition msg_site_no_department :: string where
  "msg_site_no_department = utf8 [233, 131, 168, 233, 151, 168, 228, 184, 141, 229, 173, 152, 229, 156, 168]"

definition msg_site_no_fields :: string where
  "msg_site_no_fields = utf8 [230, 178, 161, 230, 156, 137, 229, 143, 175, 230, 155, 180, 230, 150, 176, 231, 154, 132, 229,
     173, 151, 230, 174, 181]"

definition msg_site_no_integration :: string where
  "msg_site_no_integration = utf8 [230, 142, 165, 229, 133, 165, 230, 150, 185, 228, 184, 141, 229, 173, 152, 229, 156, 168]"

definition msg_site_no_key :: string where
  "msg_site_no_key = utf8 [229, 175, 134, 233, 146, 165, 228, 184, 141, 229, 173, 152, 229, 156, 168]"

definition msg_site_no_members :: string where
  "msg_site_no_members = utf8 [232, 175, 165, 233, 131, 168, 233, 151, 168, 230, 178, 161, 230, 156, 137, 230, 136, 144, 229,
     145, 152]"

definition msg_site_no_project :: string where
  "msg_site_no_project = utf8 [233, 161, 185, 231, 155, 174, 228, 184, 141, 229, 173, 152, 229, 156, 168]"

definition msg_site_no_ref :: string where
  "msg_site_no_ref = utf8 [231, 188, 186, 229, 176, 145, 229, 164, 150, 233, 131, 168, 230, 160, 135, 232, 175, 134]"

definition msg_site_no_register :: string where
  "msg_site_no_register = utf8 [231, 179, 187, 231, 187, 159, 230, 156, 170, 229, 188, 128, 230, 148, 190, 230, 179, 168, 229,
     134, 140]"

definition msg_site_no_reset :: string where
  "msg_site_no_reset = utf8 [232, 175, 165, 232, 180, 166, 229, 143, 183, 228, 184, 186, 230, 151, 160, 229, 143, 163, 228,
     187, 164, 230, 137, 152, 231, 174, 161, 232, 180, 166, 229, 143, 183, 239, 188, 140, 228, 184,
     141, 232, 131, 189, 233, 135, 141, 231, 189, 174, 229, 175, 134, 231, 160, 129]"

definition msg_site_no_right :: string where
  "msg_site_no_right = utf8 [230, 157, 131, 233, 153, 144, 228, 184, 141, 232, 182, 179]"

definition msg_site_no_targets :: string where
  "msg_site_no_targets = utf8 [232, 175, 183, 230, 140, 135, 229, 174, 154, 231, 148, 168, 230, 136, 183, 229, 136, 151, 232,
     161, 168, 230, 136, 150, 233, 131, 168, 233, 151, 168]"

definition msg_site_no_token :: string where
  "msg_site_no_token = utf8 [228, 187, 164, 231, 137, 140, 228, 184, 141, 229, 173, 152, 229, 156, 168]"

definition msg_site_no_user :: string where
  "msg_site_no_user = utf8 [231, 148, 168, 230, 136, 183, 228, 184, 141, 229, 173, 152, 229, 156, 168]"

definition msg_site_not_delete_self :: string where
  "msg_site_not_delete_self = utf8 [228, 184, 141, 232, 131, 189, 229, 136, 160, 233, 153, 164, 232, 135, 170, 229, 183, 177, 231,
     154, 132, 232, 180, 166, 229, 143, 183]"

definition msg_site_not_self :: string where
  "msg_site_not_self = utf8 [228, 184, 141, 232, 131, 189, 231, 166, 129, 231, 148, 168, 232, 135, 170, 229, 183, 177, 231,
     154, 132, 232, 180, 166, 229, 143, 183]"

definition msg_site_not_yours :: string where
  "msg_site_not_yours = utf8 [230, 151, 160, 230, 157, 131, 231, 174, 161, 231, 144, 134, 232, 175, 165, 231, 148, 168, 230,
     136, 183]"

definition msg_site_own_role :: string where
  "msg_site_own_role = utf8 [228, 184, 141, 232, 131, 189, 229, 143, 152, 230, 155, 180, 232, 135, 170, 229, 183, 177, 231,
     154, 132, 232, 167, 146, 232, 137, 178]"

definition msg_site_owner_early :: string where
  "msg_site_owner_early = utf8 [230, 150, 176, 229, 187, 186, 233, 131, 168, 233, 151, 168, 230, 151, 182, 232, 191, 152, 230,
     178, 161, 230, 156, 137, 230, 136, 144, 229, 145, 152, 239, 188, 140, 232, 175, 183, 229, 133,
     136, 229, 136, 155, 229, 187, 186, 233, 131, 168, 233, 151, 168, 229, 185, 182, 229, 136, 146,
     229, 133, 165, 230, 136, 144, 229, 145, 152, 239, 188, 140, 229, 134, 141, 230, 140, 135, 229,
     174, 154, 232, 180, 159, 232, 180, 163, 228, 186, 186]"

definition msg_site_owner_outside :: string where
  "msg_site_owner_outside = utf8 [232, 180, 159, 232, 180, 163, 228, 186, 186, 229, 191, 133, 233, 161, 187, 230, 152, 175, 230,
     156, 172, 233, 131, 168, 233, 151, 168, 230, 136, 144, 229, 145, 152, 239, 188, 140, 232, 175,
     183, 229, 133, 136, 230, 138, 138, 232, 175, 165, 231, 148, 168, 230, 136, 183, 229, 136, 146,
     229, 133, 165, 230, 156, 172, 233, 131, 168, 233, 151, 168]"

definition msg_site_owner_unknown :: string where
  "msg_site_owner_unknown = utf8 [230, 140, 135, 229, 174, 154, 231, 154, 132, 232, 180, 159, 232, 180, 163, 228, 186, 186, 228,
     184, 141, 229, 173, 152, 229, 156, 168]"

definition msg_site_password_failed :: string where
  "msg_site_password_failed = utf8 [228, 191, 174, 230, 148, 185, 229, 175, 134, 231, 160, 129, 229, 164, 177, 232, 180, 165]"

definition msg_site_password_hash :: string where
  "msg_site_password_hash = utf8 [229, 175, 134, 231, 160, 129, 229, 147, 136, 229, 184, 140, 229, 164, 177, 232, 180, 165, 58,
     32]"

definition msg_site_password_made :: string where
  "msg_site_password_made = utf8 [231, 148, 159, 230, 136, 144, 229, 136, 157, 229, 167, 139, 229, 175, 134, 231, 160, 129, 229,
     164, 177, 232, 180, 165]"

definition msg_site_password_short :: string where
  "msg_site_password_short = utf8 [229, 175, 134, 231, 160, 129, 233, 149, 191, 229, 186, 166, 228, 184, 141, 232, 131, 189, 229,
     176, 145, 228, 186, 142, 32, 56, 32, 228, 189, 141]"

definition msg_site_passwordless :: string where
  "msg_site_passwordless = utf8 [230, 151, 160, 229, 143, 163, 228, 187, 164, 232, 180, 166, 229, 143, 183, 228, 184, 141, 232,
     131, 189, 229, 144, 140, 230, 151, 182, 230, 140, 135, 229, 174, 154, 229, 175, 134, 231, 160,
     129]"

definition msg_site_path_bad :: string where
  "msg_site_path_bad = utf8 [32, 228, 184, 141, 229, 144, 136, 230, 179, 149]"

definition msg_site_path_param :: string where
  "msg_site_path_param = utf8 [232, 183, 175, 229, 190, 132, 229, 143, 130, 230, 149, 176, 32]"

definition msg_site_profile_failed :: string where
  "msg_site_profile_failed = utf8 [230, 155, 180, 230, 150, 176, 232, 181, 132, 230, 150, 153, 229, 164, 177, 232, 180, 165]"

definition msg_site_project_code :: string where
  "msg_site_project_code = utf8 [233, 161, 185, 231, 155, 174, 231, 188, 150, 231, 160, 129, 228, 184, 141, 229, 190, 151, 232,
     182, 133, 232, 191, 135, 32, 53, 48, 32, 228, 184, 170, 229, 173, 151, 231, 172, 166]"

definition msg_site_project_delete :: string where
  "msg_site_project_delete = utf8 [229, 136, 160, 233, 153, 164, 233, 161, 185, 231, 155, 174, 229, 164, 177, 232, 180, 165]"

definition msg_site_project_long :: string where
  "msg_site_project_long = utf8 [233, 161, 185, 231, 155, 174, 229, 144, 141, 231, 167, 176, 228, 184, 141, 229, 190, 151, 232,
     182, 133, 232, 191, 135, 32, 49, 48, 48, 32, 228, 184, 170, 229, 173, 151, 231, 172, 166]"

definition msg_site_project_name :: string where
  "msg_site_project_name = utf8 [233, 161, 185, 231, 155, 174, 229, 144, 141, 231, 167, 176, 229, 191, 133, 229, 161, 171]"

definition msg_site_project_replayed :: string where
  "msg_site_project_replayed = utf8 [232, 175, 165, 233, 161, 185, 231, 155, 174, 229, 183, 178, 229, 136, 155, 229, 187, 186, 239,
     188, 140, 230, 156, 172, 230, 172, 161, 230, 156, 170, 233, 135, 141, 229, 164, 141, 230, 137,
     167, 232, 161, 140, 239, 188, 136, 233, 135, 141, 230, 148, 190, 239, 188, 137]"

definition msg_site_project_status :: string where
  "msg_site_project_status = utf8 [233, 161, 185, 231, 155, 174, 231, 138, 182, 230, 128, 129, 229, 143, 150, 229, 128, 188, 228,
     184, 141, 229, 144, 136, 230, 179, 149]"

definition msg_site_project_taken :: string where
  "msg_site_project_taken = utf8 [233, 161, 185, 231, 155, 174, 229, 144, 141, 231, 167, 176, 230, 136, 150, 231, 188, 150, 231,
     160, 129, 229, 183, 178, 229, 173, 152, 229, 156, 168]"

definition msg_site_projects_failed :: string where
  "msg_site_projects_failed = utf8 [230, 159, 165, 232, 175, 162, 233, 161, 185, 231, 155, 174, 229, 136, 151, 232, 161, 168, 229,
     164, 177, 232, 180, 165]"

definition msg_site_redeem_failed :: string where
  "msg_site_redeem_failed = utf8 [229, 133, 145, 230, 141, 162, 229, 164, 177, 232, 180, 165, 239, 188, 140, 232, 175, 183, 231,
     168, 141, 229, 144, 142, 233, 135, 141, 232, 175, 149]"

definition msg_site_register_often :: string where
  "msg_site_register_often = utf8 [230, 179, 168, 229, 134, 140, 232, 191, 135, 228, 186, 142, 233, 162, 145, 231, 185, 129, 239,
     188, 140, 232, 175, 183, 231, 168, 141, 229, 144, 142, 233, 135, 141, 232, 175, 149]"

definition msg_site_reset_done :: string where
  "msg_site_reset_done = utf8 [229, 175, 134, 231, 160, 129, 229, 183, 178, 233, 135, 141, 231, 189, 174, 239, 188, 140, 232,
     175, 165, 231, 148, 168, 230, 136, 183, 229, 133, 168, 233, 131, 168, 231, 153, 187, 229, 189,
     149, 229, 183, 178, 229, 164, 177, 230, 149, 136]"

definition msg_site_reset_failed :: string where
  "msg_site_reset_failed = utf8 [233, 135, 141, 231, 189, 174, 229, 175, 134, 231, 160, 129, 229, 164, 177, 232, 180, 165]"

definition msg_site_revoke_too_much :: string where
  "msg_site_revoke_too_much = utf8 [230, 137, 163, 229, 155, 158, 233, 135, 145, 233, 162, 157, 232, 182, 133, 232, 191, 135, 231,
     148, 168, 230, 136, 183, 229, 189, 147, 229, 137, 141, 228, 189, 153, 233, 162, 157]"

definition msg_site_root_creates :: string where
  "msg_site_root_creates = utf8 [228, 187, 133, 232, 182, 133, 231, 186, 167, 231, 174, 161, 231, 144, 134, 229, 145, 152, 229,
     143, 175, 229, 136, 155, 229, 187, 186, 231, 174, 161, 231, 144, 134, 229, 145, 152, 232, 180,
     166, 229, 143, 183]"

definition msg_site_root_roles :: string where
  "msg_site_root_roles = utf8 [228, 187, 133, 232, 182, 133, 231, 186, 167, 231, 174, 161, 231, 144, 134, 229, 145, 152, 229,
     143, 175, 229, 143, 152, 230, 155, 180, 232, 167, 146, 232, 137, 178]"

definition msg_site_select_users :: string where
  "msg_site_select_users = utf8 [232, 175, 183, 232, 135, 179, 229, 176, 145, 233, 128, 137, 230, 139, 169, 228, 184, 128, 228,
     184, 170, 231, 148, 168, 230, 136, 183]"

definition msg_site_sessions_ended :: string where
  "msg_site_sessions_ended = utf8 [232, 175, 165, 231, 148, 168, 230, 136, 183, 229, 142, 134, 229, 143, 178, 231, 153, 187, 229,
     189, 149, 228, 188, 154, 232, 175, 157, 229, 183, 178, 228, 189, 156, 229, 186, 159]"

definition msg_site_status_failed :: string where
  "msg_site_status_failed = utf8 [230, 155, 180, 230, 150, 176, 231, 138, 182, 230, 128, 129, 229, 164, 177, 232, 180, 165]"

definition msg_site_token_create :: string where
  "msg_site_token_create = utf8 [229, 136, 155, 229, 187, 186, 230, 156, 141, 229, 138, 161, 228, 187, 164, 231, 137, 140, 229,
     164, 177, 232, 180, 165]"

definition msg_site_token_disabled :: string where
  "msg_site_token_disabled = utf8 [230, 142, 165, 229, 133, 165, 230, 150, 185, 229, 183, 178, 229, 129, 156, 231, 148, 168, 239,
     188, 140, 228, 184, 141, 232, 131, 189, 231, 173, 190, 229, 143, 145, 230, 150, 176, 228, 187,
     164, 231, 137, 140]"

definition msg_site_token_invalid :: string where
  "msg_site_token_invalid = utf8 [230, 156, 141, 229, 138, 161, 228, 187, 164, 231, 137, 140, 230, 151, 160, 230, 149, 136, 230,
     136, 150, 229, 183, 178, 229, 129, 156, 231, 148, 168]"

definition msg_site_token_made :: string where
  "msg_site_token_made = utf8 [231, 148, 159, 230, 136, 144, 230, 156, 141, 229, 138, 161, 228, 187, 164, 231, 137, 140, 229,
     164, 177, 232, 180, 165]"

definition msg_site_token_name :: string where
  "msg_site_token_name = utf8 [228, 187, 164, 231, 137, 140, 229, 144, 141, 231, 167, 176, 229, 191, 133, 229, 161, 171, 228,
     184, 148, 228, 184, 141, 232, 182, 133, 232, 191, 135, 32, 54, 52, 32, 229, 173, 151, 231, 172,
     166]"

definition msg_site_tokens_failed :: string where
  "msg_site_tokens_failed = utf8 [230, 159, 165, 232, 175, 162, 230, 156, 141, 229, 138, 161, 228, 187, 164, 231, 137, 140, 229,
     136, 151, 232, 161, 168, 229, 164, 177, 232, 180, 165]"

definition msg_site_user_keys_failed :: string where
  "msg_site_user_keys_failed = utf8 [230, 159, 165, 232, 175, 162, 231, 148, 168, 230, 136, 183, 229, 175, 134, 233, 146, 165, 229,
     164, 177, 232, 180, 165]"

definition msg_site_user_replayed :: string where
  "msg_site_user_replayed = utf8 [232, 175, 165, 231, 148, 168, 230, 136, 183, 229, 183, 178, 229, 136, 155, 229, 187, 186, 239,
     188, 140, 230, 156, 172, 230, 172, 161, 230, 156, 170, 233, 135, 141, 229, 164, 141, 230, 137,
     167, 232, 161, 140, 239, 188, 136, 233, 135, 141, 230, 148, 190, 239, 188, 137]"

definition msg_site_user_update :: string where
  "msg_site_user_update = utf8 [230, 155, 180, 230, 150, 176, 231, 148, 168, 230, 136, 183, 229, 164, 177, 232, 180, 165]"

definition msg_site_username_taken :: string where
  "msg_site_username_taken = utf8 [231, 148, 168, 230, 136, 183, 229, 144, 141, 229, 183, 178, 229, 173, 152, 229, 156, 168]"

definition msg_site_users_failed :: string where
  "msg_site_users_failed = utf8 [230, 159, 165, 232, 175, 162, 231, 148, 168, 230, 136, 183, 229, 136, 151, 232, 161, 168, 229,
     164, 177, 232, 180, 165]"

definition msg_site_wrong_original :: string where
  "msg_site_wrong_original = utf8 [229, 142, 159, 229, 175, 134, 231, 160, 129, 228, 184, 141, 230, 173, 163, 231, 161, 174]"

definition msg_site_zero_amount :: string where
  "msg_site_zero_amount = utf8 [232, 176, 131, 230, 149, 180, 233, 135, 145, 233, 162, 157, 228, 184, 141, 232, 131, 189, 228,
     184, 186, 32, 48]"

end
