(* ===== verification/Site.thy ===== *)
theory Site
  imports Entry Ledger Text AdminMessages
begin

text \<open>
  The administrative side of the server: the rows the billing does not read (\<^verbatim>\<open>store/user.go\<close>, \<^verbatim>\<open>apikey.go\<close>,
  \<^verbatim>\<open>department.go\<close>, \<^verbatim>\<open>project.go\<close>, \<^verbatim>\<open>integration.go\<close>, \<^verbatim>\<open>idempotency.go\<close> with the checks, unique indexes and
  cascades of the migrations), the reading of a request (\<^verbatim>\<open>api/bind.go\<close>), the envelope of an answer
  (\<^verbatim>\<open>api/respond\<close>), the sessions (\<^verbatim>\<open>auth/session.go\<close>, \<^verbatim>\<open>auth/password.go\<close>) and the audit trail (\<^verbatim>\<open>audit\<close>).

  The columns of \<open>users\<close> and \<open>api_keys\<close> that the billing reads stay in the database of \<open>Store\<close>; the others are beside
  it. The times \<open>created_at\<close> and \<open>updated_at\<close>, which no operation here reads, are left out. A query asked twice within
  one request fails both times or never. What the standard library and third parties compute (SHA-256, bcrypt,
  base64, random bytes, the parsers of times and addresses) is part of the world of a request.
\<close>

section \<open>Reading a request (bind.go)\<close>

text \<open>\<^verbatim>\<open>strconv.ParseInt(s, 10, 64)\<close>: the value and whether there was no error. Out of range the value is the bound.\<close>

definition is_digit :: "char \<Rightarrow> bool" where
  "is_digit c \<longleftrightarrow> 48 \<le> (of_char c :: nat) \<and> (of_char c :: nat) \<le> 57"

fun int_sign :: "string \<Rightarrow> int \<times> string" where
  "int_sign (c # cs) = (if c = CHR ''-'' then (-1, cs) else if c = CHR ''+'' then (1, cs) else (1, c # cs))"
| "int_sign [] = (1, [])"

definition ParseInt64 :: "string \<Rightarrow> int \<times> bool" where
  "ParseInt64 s =
     (case int_sign s of (sign, digits) \<Rightarrow>
        if digits = [] \<or> \<not> list_all is_digit digits then (0, False)
        else let n = sign * int (read_nat digits)
             in if n < MinInt64 then (MinInt64, False) else if n > MaxInt64 then (MaxInt64, False) else (n, True))"

definition parseInt64 :: "string \<Rightarrow> int option" where
  "parseInt64 s = (case ParseInt64 s of (n, ok) \<Rightarrow> if ok then Some n else None)"

text \<open>The query string gives the first value of a name, or the empty string.\<close>

definition PageParams :: "(string \<Rightarrow> string) \<Rightarrow> int \<times> int" where
  "PageParams q =
     (let page = fst (ParseInt64 (q ''page'')); page = (if page < 1 then 1 else page);
          pageSize = fst (ParseInt64 (q ''page_size'')); pageSize = (if pageSize < 1 then 20 else pageSize)
      in (page, if pageSize > 100 then 100 else pageSize))"

text \<open>
  The body is the first JSON value in it, \<^term>\<open>None\<close> when there is none within the first mebibyte. A field that is absent
  or null keeps its zero value; a pointer stays nil.
\<close>

definition rd_bool :: "jobj \<Rightarrow> string \<Rightarrow> bool option" where
  "rd_bool fs k = (case scalar_get fs k of None \<Rightarrow> Some False | Some (JBool b) \<Rightarrow> Some b | _ \<Rightarrow> None)"

definition rd_opt :: "jobj \<Rightarrow> string \<Rightarrow> (json \<Rightarrow> 'a option) \<Rightarrow> 'a option option" where
  "rd_opt fs k f = (case struct_get fs k of None \<Rightarrow> Some None | Some JNull \<Rightarrow> Some None | Some v \<Rightarrow> map_option Some (f v))"

fun json_text :: "json \<Rightarrow> string option" where
  "json_text (JStr s) = Some s"
| "json_text _ = None"

fun json_int :: "json \<Rightarrow> int option" where
  "json_int (JNum q) = rat_int64 q"
| "json_int _ = None"

text \<open>An element null of a slice is the zero value of its type.\<close>

fun null_or :: "'a \<Rightarrow> (json \<Rightarrow> 'a option) \<Rightarrow> json \<Rightarrow> 'a option" where
  "null_or z f JNull = Some z"
| "null_or z f v = f v"

definition rd_slice :: "jobj \<Rightarrow> string \<Rightarrow> 'a \<Rightarrow> (json \<Rightarrow> 'a option) \<Rightarrow> 'a list option option" where
  "rd_slice fs k z f = rd_opt fs k (\<lambda>v. case v of JArr xs \<Rightarrow> all_some (map (null_or z f) xs) | _ \<Rightarrow> None)"

abbreviation rd_strings :: "jobj \<Rightarrow> string \<Rightarrow> string list option option" where
  "rd_strings fs k \<equiv> rd_slice fs k [] json_text"

abbreviation rd_ints :: "jobj \<Rightarrow> string \<Rightarrow> int list option option" where
  "rd_ints fs k \<equiv> rd_slice fs k 0 json_int"

definition toJSONField :: "string list option \<Rightarrow> policy_raw" where
  "toJSONField v = PolicyJson (case v of None \<Rightarrow> JNull | Some xs \<Rightarrow> JArr (map JStr xs))"

section \<open>Legal texts (auth\_handlers.go, admin\_billing.go, admin\_integrations.go)\<close>

definition word_char :: "char \<Rightarrow> bool" where
  "word_char c \<longleftrightarrow> is_digit c \<or> (65 \<le> (of_char c :: nat) \<and> (of_char c :: nat) \<le> 90)
     \<or> (97 \<le> (of_char c :: nat) \<and> (of_char c :: nat) \<le> 122)"

definition matches :: "(char \<Rightarrow> bool) \<Rightarrow> nat \<Rightarrow> nat \<Rightarrow> string \<Rightarrow> bool" where
  "matches p least most s \<longleftrightarrow> least \<le> length s \<and> length s \<le> most \<and> list_all p s"

definition usernameRe :: "string \<Rightarrow> bool" where
  "usernameRe = matches (\<lambda>c. word_char c \<or> c \<in> set ''_-'') 3 32"

definition externalRefRe :: "string \<Rightarrow> bool" where
  "externalRefRe = matches (\<lambda>c. word_char c \<or> c \<in> set ''_-.:'') 1 64"

definition idempotencyKeyRe :: "string \<Rightarrow> bool" where
  "idempotencyKeyRe = matches (\<lambda>c. word_char c \<or> c \<in> set ''_-'') 1 64"

definition validIdempotencyKey :: "string \<Rightarrow> bool" where
  "validIdempotencyKey key \<longleftrightarrow> key = [] \<or> idempotencyKeyRe key"

definition integrationSlugRe :: "string \<Rightarrow> bool" where
  "integrationSlugRe = matches (\<lambda>c. word_char c \<or> c \<in> set ''_-'') 1 64"

text \<open>Splitting at a character; the white space of a regular expression is ASCII only.\<close>

fun split_at :: "char \<Rightarrow> string \<Rightarrow> string list" where
  "split_at c [] = [[]]"
| "split_at c (x # xs) = (if x = c then [] # split_at c xs
     else case split_at c xs of [] \<Rightarrow> [[x]] | w # ws \<Rightarrow> (x # w) # ws)"

definition re_space :: "char \<Rightarrow> bool" where
  "re_space c \<longleftrightarrow> (of_char c :: nat) \<in> {9, 10, 12, 13, 32}"

definition emailRe :: "string \<Rightarrow> bool" where
  "emailRe s \<longleftrightarrow> (\<forall>c \<in> set s. \<not> re_space c) \<and>
     (case split_at (CHR ''@'') s of
        [name, host] \<Rightarrow> name \<noteq> [] \<and> length (split_at (CHR ''.'') host) \<ge> 2 \<and> (\<forall>w \<in> set (split_at (CHR ''.'') host). w \<noteq> [])
      | _ \<Rightarrow> False)"

definition maxEmailLength :: nat where "maxEmailLength = 254"

definition validateEmail :: "string \<Rightarrow> string" where
  "validateEmail email =
     (let email = TrimSpace email in
      if email = [] then []
      else if length email > maxEmailLength then msg_site_email_long
      else if \<not> emailRe email then msg_site_email_bad
      else [])"

section \<open>Rows\<close>

datatype switch = Enabled | Disabled

fun switch_str :: "switch \<Rightarrow> string" where
  "switch_str Enabled = ''enabled''"
| "switch_str Disabled = ''disabled''"

definition switch_Valid :: "string \<Rightarrow> bool" where
  "switch_Valid s \<longleftrightarrow> s = ''enabled'' \<or> s = ''disabled''"

fun user_status_str :: "UserStatus \<Rightarrow> string" where
  "user_status_str UserEnabled = ''enabled''"
| "user_status_str UserDisabled = ''disabled''"

definition user_status_of :: "string \<Rightarrow> UserStatus option" where
  "user_status_of s = (if s = ''enabled'' then Some UserEnabled else if s = ''disabled'' then Some UserDisabled else None)"

fun key_status_str :: "KeyStatus \<Rightarrow> string" where
  "key_status_str KeyEnabled = ''enabled''"
| "key_status_str KeyDisabled = ''disabled''"
| "key_status_str KeyExpired = ''expired''"
| "key_status_str KeyDepleted = ''depleted''"

record profile =
  p_passwordHash :: string
  p_displayName :: string
  p_externalRef :: string
  p_allowedModels :: policy_raw
  p_mustChange :: bool

record User =
  us_ID :: row_id
  us_row :: user_row
  us_profile :: profile

record key_cols =
  kc_prefix :: string
  kc_allowedModels :: policy_raw
  kc_allowedIPs :: policy_raw
  kc_integrationID :: "row_id option"

record APIKey =
  ak_ID :: row_id
  ak_row :: api_key_row
  ak_cols :: key_cols

record department =
  d_name :: string
  d_code :: string
  d_ownerUserID :: "row_id option"
  d_integrationID :: "row_id option"
  d_externalRef :: string
  d_monthlyBudget :: credits
  d_allowedModels :: policy_raw
  d_status :: string
  d_remark :: string

record project =
  pr_name :: string
  pr_code :: string
  pr_ownerUserID :: "row_id option"
  pr_integrationID :: "row_id option"
  pr_externalRef :: string
  pr_monthlyBudget :: credits
  pr_status :: string
  pr_remark :: string

record integration =
  in_name :: string
  in_slug :: string
  in_status :: switch

record service_token =
  tk_integrationID :: row_id
  tk_name :: string
  tk_hash :: string
  tk_prefix :: string
  tk_status :: switch
  tk_deletedAt :: "go_time option"

text \<open>Of the recorded answer only the identifier is read again; it is stored as \<open>{"id": n}\<close>.\<close>

record idempotency_record =
  ir_key :: string
  ir_scope :: string
  ir_integrationID :: "row_id option"
  ir_status :: int
  ir_body :: json

record audit_log =
  al_operatorID :: row_id
  al_operatorName :: string
  al_operatorRole :: string
  al_action :: string
  al_targetType :: string
  al_targetID :: row_id
  al_targetName :: string
  al_success :: bool
  al_before :: "json option"
  al_after :: "json option"
  al_clientIP :: string
  al_requestID :: string
  al_message :: string
  al_integrationID :: "row_id option"

section \<open>The state and the world of a request\<close>

datatype site_table = TUsers | TKeys | TDepartments | TProjects | TIntegrations | TTokens | TCodes

record site =
  core :: db
  profiles :: "row_id \<Rightarrow> profile"
  keyCols :: "row_id \<Rightarrow> key_cols"
  departments :: "(row_id, department) tbl"
  projects :: "(row_id, project) tbl"
  integrations :: "(row_id, integration) tbl"
  serviceTokens :: "(row_id, service_token) tbl"
  idempotency :: "idempotency_record list"
  audits :: "audit_log list"
  sessions :: "(string, row_id) tbl"
  limiter :: "MemoryLimiter option"
  loginLock :: "FailureLocker option"
  seqs :: "site_table \<Rightarrow> row_id"

datatype site_query =
  QUserByID row_id | QUserByName string | QServiceAccount row_id | QUserByRef | QUserList | InsertUser
| UpdateUser row_id | DeleteUser row_id | QCountLogs
| QKeyByID row_id | QKeyCount | QKeyList | InsertKey | UpdateKey row_id | RestoreKey | DeleteKey
| QDepartment row_id | QDepartmentByRef | QDepartmentList | QDepartmentOwned | InsertDepartment | UpdateDepartment | QMemberCount | DeleteDepartment | AssignUsers
| QProject row_id | QProjectByRef | QProjectList | InsertProject | UpdateProject | DeleteProject
| QIntegration | QIntegrationList | InsertIntegration | UpdateIntegration | DisableIntegration
| QTokenByHash | QTokenByID | QTokenList | InsertToken | UpdateToken | DeleteToken
| InsertCodes | UpdateCode | QCodeList
| QIdempotency | InsertIdempotency | InsertAudit | SessionRenew | SessionDestroy string | SessionIterate

text \<open>
  \<open>sw_rand n\<close> is the result of the n-th read of random bytes, \<open>sw_env n\<close> what the n-th transaction of the ledger
  meets, \<open>sw_ilike\<close> the match of PostgreSQL.
\<close>

record site_world =
  sw_fails :: "site_query \<Rightarrow> bool"
  sw_env :: "nat \<Rightarrow> env"
  sw_sha :: "string \<Rightarrow> string"
  sw_bcrypt :: "string \<Rightarrow> string + string"
  sw_compare :: "string \<Rightarrow> string \<Rightarrow> bool"
  sw_rand :: "nat \<Rightarrow> string option"
  sw_base64 :: "string \<Rightarrow> string"
  sw_ilike :: "string \<Rightarrow> string \<Rightarrow> bool"
  sw_int :: "string \<Rightarrow> int"
  sw_bool :: "string \<Rightarrow> bool"
  sw_str :: "string \<Rightarrow> string"
  sw_net :: net_lib
  sw_time :: "string \<Rightarrow> go_time option"
  sw_timeText :: "go_time \<Rightarrow> string"
  sw_stamp :: "go_time \<Rightarrow> string"
  sw_now :: go_time
  sw_body :: "json option"
  sw_param :: "string \<Rightarrow> string"
  sw_query :: "string \<Rightarrow> string"
  sw_ip :: string
  sw_requestID :: string
  sw_authorization :: string
  sw_cookie :: string
  sw_newSession :: string
  sw_errorText :: "error \<Rightarrow> string"

text \<open>What the middleware has put into the context of the request. A scope of 0 is none.\<close>

record request_context =
  cx_user :: "User option"
  cx_scope :: int

definition ScopeIntegrationID :: "request_context \<Rightarrow> row_id option" where
  "ScopeIntegrationID cx = (if cx_scope cx = 0 then None else Some (cx_scope cx))"

definition WithUser :: "User \<Rightarrow> request_context \<Rightarrow> request_context" where
  "WithUser u cx = cx\<lparr>cx_user := Some u\<rparr>"

definition WithScope :: "row_id \<Rightarrow> request_context \<Rightarrow> request_context" where
  "WithScope i cx = cx\<lparr>cx_scope := i\<rparr>"

definition CurrentUser :: "request_context \<Rightarrow> User option" where
  "CurrentUser cx = cx_user cx"

section \<open>The audit trail (audit.go)\<close>

datatype audit_value = AV json | AM "(string \<times> audit_value) list"

type_synonym audit_map = "(string \<times> audit_value) list"

definition SensitiveFields :: "string list" where
  "SensitiveFields = [''password'', ''new_password'', ''old_password'', ''password_hash'', ''api_key'', ''api_key_encrypted'',
     ''alert_smtp_password'', ''alert_webhook_secret'', ''idempotency_key'', ''session_token'', ''key'', ''key_hash'']"

definition sensitiveByTarget :: "string \<Rightarrow> string list" where
  "sensitiveByTarget t = (if t = ''redemption'' then [''code'', ''codes''] else [])"

definition sensitive :: "string \<Rightarrow> string \<Rightarrow> bool" where
  "sensitive targetType k \<longleftrightarrow> k \<in> set SensitiveFields \<or> k \<in> set (sensitiveByTarget targetType)"

definition AuditRedacted :: string where "AuditRedacted = ''***''"

fun redact_value :: "string \<Rightarrow> audit_value \<Rightarrow> audit_value"
  and Redact :: "string \<Rightarrow> audit_map \<Rightarrow> audit_map" where
  "redact_value t (AV v) = AV v"
| "redact_value t (AM m) = AM (Redact t m)"
| "Redact t [] = []"
| "Redact t ((k, v) # m) = (k, if sensitive t k then AV (JStr AuditRedacted) else redact_value t v) # Redact t m"

fun audit_json :: "audit_value \<Rightarrow> json"
  and audit_fields :: "audit_map \<Rightarrow> jobj" where
  "audit_json (AV v) = v"
| "audit_json (AM m) = JObj (audit_fields m)"
| "audit_fields [] = []"
| "audit_fields ((k, v) # m) = (k, audit_json v) # audit_fields m"

definition encodeState :: "string \<Rightarrow> audit_map \<Rightarrow> json option" where
  "encodeState targetType m = (if m = [] then None else Some (JObj (audit_fields (Redact targetType m))))"

text \<open>The parts of two snapshots that differ; a key the first lacks is new.\<close>

definition Diff :: "audit_map \<Rightarrow> audit_map \<Rightarrow> audit_map \<times> audit_map" where
  "Diff before after =
     (let changed = filter (\<lambda>(k, v). map_option audit_json (map_of before k) \<noteq> Some (audit_json v)) after
      in (map (\<lambda>(k, v). (k, the (map_of before k))) (filter (\<lambda>(k, v). map_of before k \<noteq> None) changed), changed))"

record audit_entry =
  ae_action :: string
  ae_targetType :: string
  ae_targetID :: row_id
  ae_targetName :: string
  ae_success :: bool
  ae_before :: audit_map
  ae_after :: audit_map
  ae_message :: string
  ae_operator :: "User option"

definition audit_done :: "string \<Rightarrow> string \<Rightarrow> row_id \<Rightarrow> string \<Rightarrow> audit_map \<Rightarrow> audit_map \<Rightarrow> audit_entry" where
  "audit_done action target i name before after = \<lparr>ae_action = action, ae_targetType = target, ae_targetID = i,
     ae_targetName = name, ae_success = True, ae_before = before, ae_after = after, ae_message = [], ae_operator = None\<rparr>"

definition audit_log_of :: "site_world \<Rightarrow> request_context \<Rightarrow> audit_entry \<Rightarrow> audit_log" where
  "audit_log_of w cx e =
     (let operator = (case ae_operator e of None \<Rightarrow> CurrentUser cx | Some u \<Rightarrow> Some u) in
      \<lparr>al_operatorID = (case operator of None \<Rightarrow> 0 | Some u \<Rightarrow> us_ID u),
       al_operatorName = (case operator of None \<Rightarrow> [] | Some u \<Rightarrow> username (us_row u)),
       al_operatorRole = (case operator of None \<Rightarrow> [] | Some u \<Rightarrow> u_role (us_row u)),
       al_action = ae_action e, al_targetType = ae_targetType e, al_targetID = ae_targetID e,
       al_targetName = Truncate (ae_targetName e) 200, al_success = ae_success e,
       al_before = encodeState (ae_targetType e) (ae_before e), al_after = encodeState (ae_targetType e) (ae_after e),
       al_clientIP = sw_ip w, al_requestID = sw_requestID w, al_message = Truncate (ae_message e) 500,
       al_integrationID = (case operator of None \<Rightarrow> None | Some u \<Rightarrow> u_integrationID (us_row u))\<rparr>)"

definition Audit_Record :: "site_world \<Rightarrow> request_context \<Rightarrow> audit_entry \<Rightarrow> site \<Rightarrow> site" where
  "Audit_Record w cx e s = (if sw_fails w InsertAudit then s else s\<lparr>audits := audits s @ [audit_log_of w cx e]\<rparr>)"

section \<open>Sessions and passwords (session.go, password.go)\<close>

text \<open>
  The session store holds the sessions that have not expired; 0 is no user. \<open>RenewToken\<close> moves the data of the session
  of the request to a new token.
\<close>

definition SessionUserID :: "site_world \<Rightarrow> site \<Rightarrow> row_id" where
  "SessionUserID w s = (case tbl_get (sessions s) (sw_cookie w) of None \<Rightarrow> 0 | Some i \<Rightarrow> i)"

definition LoginSession :: "site_world \<Rightarrow> row_id \<Rightarrow> site \<Rightarrow> bool \<times> site" where
  "LoginSession w i s =
     (if sw_fails w SessionRenew then (False, s)
      else (True, s\<lparr>sessions := tbl_upsert i (\<lambda>_. i) (sw_newSession w) (tbl_del (sw_cookie w) (sessions s))\<rparr>))"

definition LogoutSession :: "site_world \<Rightarrow> site \<Rightarrow> site" where
  "LogoutSession w s = (if sw_fails w (SessionDestroy (sw_cookie w)) then s else s\<lparr>sessions := tbl_del (sw_cookie w) (sessions s)\<rparr>)"

text \<open>One session after the other, up to the first that cannot be destroyed.\<close>

fun destroy_sessions :: "site_world \<Rightarrow> row_id \<Rightarrow> (string, row_id) tbl \<Rightarrow> (string, row_id) tbl" where
  "destroy_sessions w i [] = []"
| "destroy_sessions w i ((t, j) # ss) =
     (if j \<noteq> i then (t, j) # destroy_sessions w i ss
      else if sw_fails w (SessionDestroy t) then (t, j) # ss
      else destroy_sessions w i ss)"

definition DestroyUserSessions :: "site_world \<Rightarrow> row_id \<Rightarrow> site \<Rightarrow> site" where
  "DestroyUserSessions w i s =
     (if sw_fails w SessionIterate then s else s\<lparr>sessions := destroy_sessions w i (sessions s)\<rparr>)"

definition GenerateInitialPassword :: "site_world \<Rightarrow> nat \<Rightarrow> string option" where
  "GenerateInitialPassword w n = map_option (sw_base64 w) (sw_rand w n)"

definition HashPassword :: "site_world \<Rightarrow> string \<Rightarrow> string + string" where
  "HashPassword w plain =
     (if length plain < 8 then Inl msg_site_password_short
      else case sw_bcrypt w plain of Inl e \<Rightarrow> Inl (msg_site_password_hash @ e) | Inr h \<Rightarrow> Inr h)"

definition VerifyPassword :: "site_world \<Rightarrow> string \<Rightarrow> string \<Rightarrow> bool" where
  "VerifyPassword w hash plain = sw_compare w hash plain"

section \<open>Keys (apikey.go)\<close>

record GeneratedKey =
  gk_Plain :: string
  gk_Hash :: string
  gk_Prefix :: string

definition generated :: "site_world \<Rightarrow> string \<Rightarrow> string \<Rightarrow> GeneratedKey" where
  "generated w prefix raw =
     (let plain = prefix @ sw_base64 w raw
      in \<lparr>gk_Plain = plain, gk_Hash = sw_sha w plain, gk_Prefix = take (length prefix + 8) plain\<rparr>)"

definition GenerateKey :: "site_world \<Rightarrow> GeneratedKey option" where
  "GenerateKey w = map_option (generated w KeyPlainPrefix) (sw_rand w 0)"

definition GenerateServiceToken :: "site_world \<Rightarrow> GeneratedKey option" where
  "GenerateServiceToken w = map_option (generated w ServiceTokenPlainPrefix) (sw_rand w 0)"

section \<open>The users (store/user.go)\<close>

text \<open>\<open>First\<close> takes the row with the least key.\<close>

definition first_row :: "(row_id \<Rightarrow> 'v \<Rightarrow> bool) \<Rightarrow> (row_id, 'v) tbl \<Rightarrow> row_id option" where
  "first_row p t = map_option fst (List.find (\<lambda>(i, r). p i r) (sort_key fst t))"

definition load_user :: "site \<Rightarrow> row_id \<Rightarrow> User option" where
  "load_user s i = map_option (\<lambda>u. \<lparr>us_ID = i, us_row = u, us_profile = profiles s i\<rparr>) (tbl_get (users (core s)) i)"

definition UserRepo_GetByID :: "site_world \<Rightarrow> row_id \<Rightarrow> site \<Rightarrow> User option" where
  "UserRepo_GetByID w i s = (if sw_fails w (QUserByID i) then None else load_user s i)"

definition UserRepo_GetByUsername :: "site_world \<Rightarrow> string \<Rightarrow> site \<Rightarrow> User option" where
  "UserRepo_GetByUsername w name s =
     (if sw_fails w (QUserByName name) then None
      else Option.bind (first_row (\<lambda>i u. username u = name) (users (core s))) (load_user s))"

definition GetServiceAccount :: "site_world \<Rightarrow> row_id \<Rightarrow> site \<Rightarrow> User option" where
  "GetServiceAccount w iid s =
     (if sw_fails w (QServiceAccount iid) then None
      else Option.bind (first_row (\<lambda>i u. u_integrationID u = Some iid \<and> u_role u = ''managed'') (users (core s))) (load_user s))"

definition UserRepo_GetByExternalRef :: "site_world \<Rightarrow> string \<Rightarrow> row_id option \<Rightarrow> site \<Rightarrow> User option" where
  "UserRepo_GetByExternalRef w ref scope s =
     (if sw_fails w QUserByRef then None
      else Option.bind (first_row (\<lambda>i u. p_externalRef (profiles s i) = ref \<and> optional (\<lambda>x. u_integrationID u = Some x) scope)
          (users (core s))) (load_user s))"

record UserListFilter =
  uf_Keyword :: string
  uf_Role :: string
  uf_Status :: string
  uf_DepartmentID :: "row_id option"
  uf_IntegrationID :: "row_id option"
  uf_Page :: int
  uf_PageSize :: int

definition like :: "site_world \<Rightarrow> string \<Rightarrow> string \<Rightarrow> bool" where
  "like w keyword t \<longleftrightarrow> sw_ilike w t (''%'' @ keyword @ ''%'')"

definition user_matches :: "site_world \<Rightarrow> UserListFilter \<Rightarrow> site \<Rightarrow> row_id \<times> user_row \<Rightarrow> bool" where
  "user_matches w f s iu \<longleftrightarrow> (case iu of (i, u) \<Rightarrow>
     (uf_Keyword f \<noteq> [] \<longrightarrow> like w (uf_Keyword f) (username u) \<or> like w (uf_Keyword f) (p_displayName (profiles s i))
        \<or> like w (uf_Keyword f) (u_email u))
     \<and> (uf_Role f \<noteq> [] \<longrightarrow> u_role u = uf_Role f)
     \<and> (uf_Status f \<noteq> [] \<longrightarrow> user_status_str (u_status u) = uf_Status f)
     \<and> optional (\<lambda>d. if d = 0 then u_departmentID u = None else u_departmentID u = Some d) (uf_DepartmentID f)
     \<and> optional (\<lambda>x. u_integrationID u = Some x) (uf_IntegrationID f))"

definition UserRepo_List :: "site_world \<Rightarrow> UserListFilter \<Rightarrow> site \<Rightarrow> (row_id list \<times> int) option" where
  "UserRepo_List w f s =
     (if sw_fails w QUserList then None
      else let found = map fst (filter (user_matches w f s) (sort_key fst (users (core s))))
           in case NormalizePagination (uf_Page f) (uf_PageSize f) of (page, pageSize) \<Rightarrow>
              Some (page_of page pageSize found, int (length found)))"

definition next_id :: "site_table \<Rightarrow> site \<Rightarrow> row_id" where
  "next_id t s = seqs s t + 1"

definition bump :: "site_table \<Rightarrow> site \<Rightarrow> site" where
  "bump t s = s\<lparr>seqs := (seqs s)(t := next_id t s)\<rparr>"

text \<open>What the table refuses: a name in use, an external identifier in use within the integration, an unknown role, a key in use.\<close>

definition user_conflict :: "user_row \<Rightarrow> profile \<Rightarrow> site \<Rightarrow> bool" where
  "user_conflict u p s \<longleftrightarrow> \<not> role_Valid (u_role u) \<or> tbl_get (users (core s)) (next_id TUsers s) \<noteq> None
     \<or> list_ex (\<lambda>(j, v). username v = username u
         \<or> (p_externalRef p \<noteq> [] \<and> p_externalRef (profiles s j) = p_externalRef p
            \<and> u_integrationID u \<noteq> None \<and> u_integrationID v = u_integrationID u)) (users (core s))"

definition insert_user :: "user_row \<Rightarrow> profile \<Rightarrow> site \<Rightarrow> site" where
  "insert_user u p s = (let i = next_id TUsers s in
     (bump TUsers s)\<lparr>core := (core s)\<lparr>users := users (core s) @ [(i, u)]\<rparr>, profiles := (profiles s)(i := p)\<rparr>)"

definition UserRepo_Create :: "site_world \<Rightarrow> user_row \<Rightarrow> profile \<Rightarrow> site \<Rightarrow> row_id option \<times> site" where
  "UserRepo_Create w u p s =
     (if sw_fails w InsertUser then (None, s)
      else if user_conflict u p s then (None, bump TUsers s)
      else (Some (next_id TUsers s), insert_user u p s))"

text \<open>The columns an update sets.\<close>

datatype user_field =
  UDisplayName string | UEmail string | UDepartment "row_id option" | UAllowedModels "string list" | UDailyLimit credits
| URole string | UPassword string | UMustChange bool | UStatus UserStatus

fun set_user_row :: "user_field \<Rightarrow> user_row \<Rightarrow> user_row" where
  "set_user_row (UEmail x) u = u\<lparr>u_email := x\<rparr>"
| "set_user_row (UDepartment x) u = u\<lparr>u_departmentID := x\<rparr>"
| "set_user_row (UDailyLimit x) u = u\<lparr>u_dailySpendLimit := x\<rparr>"
| "set_user_row (URole x) u = u\<lparr>u_role := x\<rparr>"
| "set_user_row (UStatus x) u = u\<lparr>u_status := x\<rparr>"
| "set_user_row _ u = u"

fun set_user_profile :: "user_field \<Rightarrow> profile \<Rightarrow> profile" where
  "set_user_profile (UDisplayName x) p = p\<lparr>p_displayName := x\<rparr>"
| "set_user_profile (UAllowedModels x) p = p\<lparr>p_allowedModels := toJSONField (Some x)\<rparr>"
| "set_user_profile (UPassword x) p = p\<lparr>p_passwordHash := x\<rparr>"
| "set_user_profile (UMustChange x) p = p\<lparr>p_mustChange := x\<rparr>"
| "set_user_profile _ p = p"

definition update_users :: "user_field list \<Rightarrow> row_id \<Rightarrow> site \<Rightarrow> site" where
  "update_users fs i s = s\<lparr>core := (core s)\<lparr>users := tbl_upd (fold set_user_row fs) i (users (core s))\<rparr>,
     profiles := (profiles s)(i := fold set_user_profile fs (profiles s i))\<rparr>"

definition UserRepo_UpdateFields :: "site_world \<Rightarrow> row_id \<Rightarrow> user_field list \<Rightarrow> site \<Rightarrow> bool \<times> site" where
  "UserRepo_UpdateFields w i fs s =
     (if sw_fails w (UpdateUser i) \<or> tbl_get (users (core s)) i = None then (False, s) else (True, update_users fs i s))"

text \<open>
  A user with ledger entries is kept by a foreign key. With a user go the keys and the daily spending of both; the
  departments and projects they are responsible for lose their owner.
\<close>

definition keys_of :: "row_id \<Rightarrow> site \<Rightarrow> row_id set" where
  "keys_of i s = set (map fst (filter (\<lambda>(k, r). k_userID r = i) (api_keys (core s))))"

definition remove_user :: "row_id \<Rightarrow> site \<Rightarrow> site" where
  "remove_user i s = s\<lparr>core := (core s)\<lparr>users := tbl_del i (users (core s)),
        daily_spend_by_key := filter (\<lambda>((k, d), x). k \<notin> keys_of i s) (daily_spend_by_key (core s)),
        daily_spend := filter (\<lambda>((j, d), x). j \<noteq> i) (daily_spend (core s)),
        api_keys := filter (\<lambda>(k, r). k_userID r \<noteq> i) (api_keys (core s))\<rparr>,
     departments := map (\<lambda>(j, d). (j, if d_ownerUserID d = Some i then d\<lparr>d_ownerUserID := None\<rparr> else d)) (departments s),
     projects := map (\<lambda>(j, p). (j, if pr_ownerUserID p = Some i then p\<lparr>pr_ownerUserID := None\<rparr> else p)) (projects s)\<rparr>"

definition UserRepo_Delete :: "site_world \<Rightarrow> row_id \<Rightarrow> site \<Rightarrow> bool \<times> site" where
  "UserRepo_Delete w i s =
     (if sw_fails w (DeleteUser i) \<or> list_ex (\<lambda>x. le_userID x = i) (ledger (core s)) \<or> tbl_get (users (core s)) i = None
      then (False, s) else (True, remove_user i s))"

definition UsageLogs_CountByUser :: "site_world \<Rightarrow> row_id \<Rightarrow> site \<Rightarrow> nat option" where
  "UsageLogs_CountByUser w i s =
     (if sw_fails w QCountLogs then None else Some (length (filter (\<lambda>(r, l). ul_userID l = i) (usage_logs (core s)))))"

section \<open>The keys (store/apikey.go)\<close>

definition load_key :: "site \<Rightarrow> row_id \<Rightarrow> APIKey option" where
  "load_key s i = (case tbl_get (api_keys (core s)) i of None \<Rightarrow> None
     | Some k \<Rightarrow> if k_deletedAt k \<noteq> None then None else Some \<lparr>ak_ID = i, ak_row = k, ak_cols = keyCols s i\<rparr>)"

definition APIKeyRepo_GetByID :: "site_world \<Rightarrow> row_id \<Rightarrow> site \<Rightarrow> APIKey option" where
  "APIKeyRepo_GetByID w i s = (if sw_fails w (QKeyByID i) then None else load_key s i)"

definition live_keys :: "row_id \<Rightarrow> site \<Rightarrow> (row_id \<times> api_key_row) list" where
  "live_keys uid s = filter (\<lambda>(i, k). k_userID k = uid \<and> k_deletedAt k = None) (api_keys (core s))"

definition APIKeyRepo_CountByUser :: "site_world \<Rightarrow> row_id \<Rightarrow> site \<Rightarrow> int option" where
  "APIKeyRepo_CountByUser w uid s = (if sw_fails w QKeyCount then None else Some (int (length (live_keys uid s))))"

record APIKeyListFilter =
  kf_UserID :: row_id
  kf_Keyword :: string
  kf_Status :: string
  kf_IntegrationID :: "row_id option"
  kf_Page :: int
  kf_PageSize :: int

definition key_matches :: "site_world \<Rightarrow> APIKeyListFilter \<Rightarrow> site \<Rightarrow> row_id \<times> api_key_row \<Rightarrow> bool" where
  "key_matches w f s ik \<longleftrightarrow> (case ik of (i, k) \<Rightarrow> k_deletedAt k = None
     \<and> (kf_UserID f > 0 \<longrightarrow> k_userID k = kf_UserID f)
     \<and> (kf_Keyword f \<noteq> [] \<longrightarrow> like w (kf_Keyword f) (k_name k))
     \<and> (kf_Status f \<noteq> [] \<longrightarrow> key_status_str (k_status k) = kf_Status f)
     \<and> optional (\<lambda>x. kc_integrationID (keyCols s i) = Some x) (kf_IntegrationID f))"

definition APIKeyRepo_List :: "site_world \<Rightarrow> APIKeyListFilter \<Rightarrow> site \<Rightarrow> (row_id list \<times> int) option" where
  "APIKeyRepo_List w f s =
     (if sw_fails w QKeyList then None
      else let found = map fst (filter (key_matches w f s) (newest_first fst (api_keys (core s))))
           in case NormalizePagination (kf_Page f) (kf_PageSize f) of (page, pageSize) \<Rightarrow>
              Some (page_of page pageSize found, int (length found)))"

definition insert_key :: "api_key_row \<Rightarrow> key_cols \<Rightarrow> site \<Rightarrow> site" where
  "insert_key k c s = (let i = next_id TKeys s in
     (bump TKeys s)\<lparr>core := (core s)\<lparr>api_keys := api_keys (core s) @ [(i, k)]\<rparr>, keyCols := (keyCols s)(i := c)\<rparr>)"

definition APIKeyRepo_Create :: "site_world \<Rightarrow> api_key_row \<Rightarrow> key_cols \<Rightarrow> site \<Rightarrow> row_id option \<times> site" where
  "APIKeyRepo_Create w k c s =
     (if sw_fails w InsertKey then (None, s)
      else if tbl_get (api_keys (core s)) (next_id TKeys s) \<noteq> None \<or> list_ex (\<lambda>(j, v). k_keyHash v = k_keyHash k) (api_keys (core s)) then (None, bump TKeys s)
      else (Some (next_id TKeys s), insert_key k c s))"

datatype key_field =
  KName string | KStatus KeyStatus | KLimit "credits option" | KDaily credits | KExpires "go_time option"
| KModels "string list" | KIPs "string list" | KProject "row_id option"

fun set_key_row :: "key_field \<Rightarrow> api_key_row \<Rightarrow> api_key_row" where
  "set_key_row (KName x) k = k\<lparr>k_name := x\<rparr>"
| "set_key_row (KStatus x) k = k\<lparr>k_status := x\<rparr>"
| "set_key_row (KLimit x) k = k\<lparr>credit_limit := x\<rparr>"
| "set_key_row (KDaily x) k = k\<lparr>k_dailySpendLimit := x\<rparr>"
| "set_key_row (KExpires x) k = k\<lparr>k_expiresAt := x\<rparr>"
| "set_key_row (KProject x) k = k\<lparr>k_projectID := x\<rparr>"
| "set_key_row _ k = k"

fun set_key_cols :: "key_field \<Rightarrow> key_cols \<Rightarrow> key_cols" where
  "set_key_cols (KModels x) c = c\<lparr>kc_allowedModels := toJSONField (Some x)\<rparr>"
| "set_key_cols (KIPs x) c = c\<lparr>kc_allowedIPs := toJSONField (Some x)\<rparr>"
| "set_key_cols _ c = c"

definition update_key :: "(api_key_row \<Rightarrow> api_key_row) \<Rightarrow> (key_cols \<Rightarrow> key_cols) \<Rightarrow> row_id \<Rightarrow> site \<Rightarrow> site" where
  "update_key f g i s = s\<lparr>core := (core s)\<lparr>api_keys := tbl_upd f i (api_keys (core s))\<rparr>, keyCols := (keyCols s)(i := g (keyCols s i))\<rparr>"

definition owned_key :: "row_id \<Rightarrow> row_id \<Rightarrow> site \<Rightarrow> bool" where
  "owned_key i owner s \<longleftrightarrow> (case load_key s i of None \<Rightarrow> False | Some k \<Rightarrow> owner > 0 \<longrightarrow> k_userID (ak_row k) = owner)"

definition APIKeyRepo_UpdateFields :: "site_world \<Rightarrow> row_id \<Rightarrow> row_id \<Rightarrow> key_field list \<Rightarrow> site \<Rightarrow> bool \<times> site" where
  "APIKeyRepo_UpdateFields w i owner fs s =
     (if sw_fails w (UpdateKey i) \<or> \<not> owned_key i owner s then (False, s)
      else (True, update_key (fold set_key_row fs) (fold set_key_cols fs) i s))"

definition RestoreDepleted :: "site_world \<Rightarrow> row_id \<Rightarrow> row_id \<Rightarrow> site \<Rightarrow> site" where
  "RestoreDepleted w i owner s =
     (if sw_fails w RestoreKey \<or> \<not> owned_key i owner s then s
      else update_key (\<lambda>k. if k_status k = KeyDepleted \<and> (case credit_limit k of None \<Rightarrow> True | Some l \<Rightarrow> k_credit_used k < l)
          then k\<lparr>k_status := KeyEnabled\<rparr> else k) id i s)"

definition APIKeyRepo_Delete :: "site_world \<Rightarrow> row_id \<Rightarrow> row_id \<Rightarrow> site \<Rightarrow> bool \<times> site" where
  "APIKeyRepo_Delete w i owner s =
     (if sw_fails w DeleteKey \<or> \<not> owned_key i owner s then (False, s)
      else (True, update_key (\<lambda>k. k\<lparr>k_deletedAt := Some (sw_now w)\<rparr>) id i s))"

section \<open>Departments and projects (store/department.go, project.go)\<close>

definition DepartmentRepo_GetByID :: "site_world \<Rightarrow> row_id \<Rightarrow> site \<Rightarrow> department option" where
  "DepartmentRepo_GetByID w i s = (if sw_fails w (QDepartment i) then None else tbl_get (departments s) i)"

definition DepartmentRepo_GetByExternalRef :: "site_world \<Rightarrow> string \<Rightarrow> row_id option \<Rightarrow> site \<Rightarrow> row_id option" where
  "DepartmentRepo_GetByExternalRef w ref scope s =
     (if sw_fails w QDepartmentByRef then None
      else first_row (\<lambda>i d. d_externalRef d = ref \<and> optional (\<lambda>x. d_integrationID d = Some x) scope) (departments s))"

record DepartmentListFilter =
  df_Keyword :: string
  df_Status :: string
  df_IntegrationID :: "row_id option"
  df_Page :: int
  df_PageSize :: int

definition department_matches :: "site_world \<Rightarrow> DepartmentListFilter \<Rightarrow> row_id \<times> department \<Rightarrow> bool" where
  "department_matches w f idd \<longleftrightarrow> (case idd of (i, d) \<Rightarrow>
     (df_Keyword f \<noteq> [] \<longrightarrow> like w (df_Keyword f) (d_name d) \<or> like w (df_Keyword f) (d_code d))
     \<and> (df_Status f \<noteq> [] \<longrightarrow> d_status d = df_Status f)
     \<and> optional (\<lambda>x. d_integrationID d = Some x) (df_IntegrationID f))"

definition members_of :: "row_id \<Rightarrow> site \<Rightarrow> nat" where
  "members_of i s = length (filter (\<lambda>(j, u). u_departmentID u = Some i) (users (core s)))"

text \<open>The owner is shown while they are a member of the department.\<close>

definition member_owner :: "row_id \<Rightarrow> department \<Rightarrow> site \<Rightarrow> string" where
  "member_owner i d s = (case Option.bind (d_ownerUserID d) (tbl_get (users (core s))) of
       None \<Rightarrow> [] | Some u \<Rightarrow> if u_departmentID u = Some i then username u else [])"

record DepartmentWithStats =
  ds_ID :: row_id
  ds_row :: department
  ds_memberCount :: int
  ds_ownerUsername :: string

definition DepartmentRepo_List :: "site_world \<Rightarrow> DepartmentListFilter \<Rightarrow> site \<Rightarrow> (DepartmentWithStats list \<times> int) option" where
  "DepartmentRepo_List w f s =
     (if sw_fails w QDepartmentList then None
      else let found = filter (department_matches w f) (sort_key fst (departments s))
           in case NormalizePagination (df_Page f) (df_PageSize f) of (page, pageSize) \<Rightarrow>
              Some (map (\<lambda>(i, d). \<lparr>ds_ID = i, ds_row = d, ds_memberCount = int (members_of i s), ds_ownerUsername = member_owner i d s\<rparr>)
                  (page_of page pageSize found), int (length found)))"

text \<open>The departments a user answers for: named as the owner and still a member.\<close>

definition ListByOwner :: "site_world \<Rightarrow> row_id \<Rightarrow> site \<Rightarrow> (row_id \<times> department) list option" where
  "ListByOwner w uid s =
     (if sw_fails w QDepartmentOwned then None
      else Some (filter (\<lambda>(i, d). d_ownerUserID d = Some uid
          \<and> (case tbl_get (users (core s)) uid of None \<Rightarrow> False | Some u \<Rightarrow> u_departmentID u = Some i)) (sort_key fst (departments s))))"

definition known_user :: "site \<Rightarrow> row_id option \<Rightarrow> bool" where
  "known_user s i = optional (\<lambda>j. tbl_get (users (core s)) j \<noteq> None) i"

definition department_conflict :: "row_id option \<Rightarrow> department \<Rightarrow> site \<Rightarrow> bool" where
  "department_conflict self d s \<longleftrightarrow> \<not> known_user s (d_ownerUserID d)
     \<or> list_ex (\<lambda>(j, e). Some j \<noteq> self \<and> (d_name e = d_name d \<or> (d_code d \<noteq> [] \<and> d_code e = d_code d)
         \<or> (d_externalRef d \<noteq> [] \<and> d_externalRef e = d_externalRef d \<and> d_integrationID d \<noteq> None \<and> d_integrationID e = d_integrationID d)))
       (departments s)"

definition DepartmentRepo_Create :: "site_world \<Rightarrow> department \<Rightarrow> site \<Rightarrow> row_id option \<times> site" where
  "DepartmentRepo_Create w d s =
     (if sw_fails w InsertDepartment then (None, s)
      else if tbl_get (departments s) (next_id TDepartments s) \<noteq> None \<or> department_conflict None d s then (None, bump TDepartments s)
      else (Some (next_id TDepartments s), (bump TDepartments s)\<lparr>departments := departments s @ [(next_id TDepartments s, d)]\<rparr>))"

definition DepartmentRepo_Update :: "site_world \<Rightarrow> row_id \<Rightarrow> (department \<Rightarrow> department) \<Rightarrow> site \<Rightarrow> bool \<times> site" where
  "DepartmentRepo_Update w i f s =
     (case tbl_get (departments s) i of None \<Rightarrow> (False, s)
      | Some d \<Rightarrow> if sw_fails w UpdateDepartment \<or> department_conflict (Some i) (f d) s then (False, s)
          else (True, s\<lparr>departments := tbl_upd f i (departments s)\<rparr>))"

datatype delete_result = Deleted | HasMembers | DeleteFailed

definition DepartmentRepo_Delete :: "site_world \<Rightarrow> row_id \<Rightarrow> site \<Rightarrow> delete_result \<times> site" where
  "DepartmentRepo_Delete w i s =
     (if sw_fails w QMemberCount then (DeleteFailed, s)
      else if members_of i s > 0 then (HasMembers, s)
      else if sw_fails w DeleteDepartment \<or> tbl_get (departments s) i = None then (DeleteFailed, s)
      else (Deleted, s\<lparr>departments := tbl_del i (departments s)\<rparr>))"

definition AssignMembers :: "site_world \<Rightarrow> row_id list \<Rightarrow> row_id option \<Rightarrow> site \<Rightarrow> int option \<times> site" where
  "AssignMembers w ids dept s =
     (if ids = [] then (Some 0, s)
      else if sw_fails w AssignUsers then (None, s)
      else (Some (int (length (filter (\<lambda>(j, u). j \<in> set ids) (users (core s))))),
            s\<lparr>core := (core s)\<lparr>users := map (\<lambda>(j, u). (j, if j \<in> set ids then u\<lparr>u_departmentID := dept\<rparr> else u)) (users (core s))\<rparr>\<rparr>))"

definition ProjectRepo_GetByID :: "site_world \<Rightarrow> row_id \<Rightarrow> site \<Rightarrow> project option" where
  "ProjectRepo_GetByID w i s = (if sw_fails w (QProject i) then None else tbl_get (projects s) i)"

definition ProjectRepo_GetByExternalRef :: "site_world \<Rightarrow> string \<Rightarrow> row_id option \<Rightarrow> site \<Rightarrow> row_id option" where
  "ProjectRepo_GetByExternalRef w ref scope s =
     (if sw_fails w QProjectByRef then None
      else first_row (\<lambda>i p. pr_externalRef p = ref \<and> optional (\<lambda>x. pr_integrationID p = Some x) scope) (projects s))"

record ProjectListFilter =
  pf_Keyword :: string
  pf_Status :: string
  pf_IntegrationID :: "row_id option"
  pf_Page :: int
  pf_PageSize :: int

definition project_matches :: "site_world \<Rightarrow> ProjectListFilter \<Rightarrow> row_id \<times> project \<Rightarrow> bool" where
  "project_matches w f ip \<longleftrightarrow> (case ip of (i, p) \<Rightarrow>
     (pf_Keyword f \<noteq> [] \<longrightarrow> like w (pf_Keyword f) (pr_name p) \<or> like w (pf_Keyword f) (pr_code p))
     \<and> (pf_Status f \<noteq> [] \<longrightarrow> pr_status p = pf_Status f)
     \<and> optional (\<lambda>x. pr_integrationID p = Some x) (pf_IntegrationID f))"

record ProjectWithStats =
  ps_ID :: row_id
  ps_row :: project
  ps_keyCount :: int
  ps_ownerUsername :: string

definition project_stats :: "site \<Rightarrow> row_id \<times> project \<Rightarrow> ProjectWithStats" where
  "project_stats s ip = (case ip of (i, p) \<Rightarrow> \<lparr>ps_ID = i, ps_row = p,
     ps_keyCount = int (length (filter (\<lambda>(k, r). k_projectID r = Some i \<and> k_deletedAt r = None) (api_keys (core s)))),
     ps_ownerUsername = (case Option.bind (pr_ownerUserID p) (tbl_get (users (core s))) of None \<Rightarrow> [] | Some u \<Rightarrow> username u)\<rparr>)"

definition ProjectRepo_List :: "site_world \<Rightarrow> ProjectListFilter \<Rightarrow> site \<Rightarrow> (ProjectWithStats list \<times> int) option" where
  "ProjectRepo_List w f s =
     (if sw_fails w QProjectList then None
      else let found = filter (project_matches w f) (sort_key fst (projects s))
           in case NormalizePagination (pf_Page f) (pf_PageSize f) of (page, pageSize) \<Rightarrow>
              Some (map (project_stats s) (page_of page pageSize found), int (length found)))"

definition project_conflict :: "row_id option \<Rightarrow> project \<Rightarrow> site \<Rightarrow> bool" where
  "project_conflict self p s \<longleftrightarrow> \<not> known_user s (pr_ownerUserID p)
     \<or> list_ex (\<lambda>(j, e). Some j \<noteq> self \<and> (pr_name e = pr_name p \<or> (pr_code p \<noteq> [] \<and> pr_code e = pr_code p)
         \<or> (pr_externalRef p \<noteq> [] \<and> pr_externalRef e = pr_externalRef p \<and> pr_integrationID p \<noteq> None \<and> pr_integrationID e = pr_integrationID p)))
       (projects s)"

definition ProjectRepo_Create :: "site_world \<Rightarrow> project \<Rightarrow> site \<Rightarrow> row_id option \<times> site" where
  "ProjectRepo_Create w p s =
     (let p = (if pr_status p = [] then p\<lparr>pr_status := ''enabled''\<rparr> else p) in
      if sw_fails w InsertProject then (None, s)
      else if tbl_get (projects s) (next_id TProjects s) \<noteq> None \<or> project_conflict None p s then (None, bump TProjects s)
      else (Some (next_id TProjects s), (bump TProjects s)\<lparr>projects := projects s @ [(next_id TProjects s, p)]\<rparr>))"

definition ProjectRepo_Update :: "site_world \<Rightarrow> row_id \<Rightarrow> (project \<Rightarrow> project) \<Rightarrow> site \<Rightarrow> bool \<times> site" where
  "ProjectRepo_Update w i f s =
     (case tbl_get (projects s) i of None \<Rightarrow> (False, s)
      | Some p \<Rightarrow> if sw_fails w UpdateProject \<or> project_conflict (Some i) (f p) s then (False, s)
          else (True, s\<lparr>projects := tbl_upd f i (projects s)\<rparr>))"

text \<open>The keys of a deleted project belong to none.\<close>

definition ProjectRepo_Delete :: "site_world \<Rightarrow> row_id \<Rightarrow> site \<Rightarrow> bool \<times> site" where
  "ProjectRepo_Delete w i s =
     (if sw_fails w DeleteProject \<or> tbl_get (projects s) i = None then (False, s)
      else (True, s\<lparr>projects := tbl_del i (projects s), core := (core s)\<lparr>api_keys :=
          map (\<lambda>(j, k). (j, if k_projectID k = Some i then k\<lparr>k_projectID := None\<rparr> else k)) (api_keys (core s))\<rparr>\<rparr>))"

section \<open>Integrations and their tokens (store/integration.go)\<close>

definition IntegrationRepo_GetByID :: "site_world \<Rightarrow> row_id \<Rightarrow> site \<Rightarrow> integration option" where
  "IntegrationRepo_GetByID w i s = (if sw_fails w QIntegration then None else tbl_get (integrations s) i)"

definition IntegrationRepo_List :: "site_world \<Rightarrow> string \<Rightarrow> site \<Rightarrow> (row_id \<times> integration) list option" where
  "IntegrationRepo_List w status s =
     (if sw_fails w QIntegrationList then None
      else Some (filter (\<lambda>(i, x). status \<noteq> [] \<longrightarrow> switch_str (in_status x) = status) (sort_key fst (integrations s))))"

text \<open>Of the fields of an integration only the name may be updated; the handler gives no other.\<close>

definition IntegrationRepo_UpdateFields :: "site_world \<Rightarrow> row_id \<Rightarrow> string \<Rightarrow> site \<Rightarrow> bool \<times> site" where
  "IntegrationRepo_UpdateFields w i name s =
     (if sw_fails w UpdateIntegration \<or> tbl_get (integrations s) i = None then (False, s)
      else (True, s\<lparr>integrations := tbl_upd (\<lambda>x. x\<lparr>in_name := name\<rparr>) i (integrations s)\<rparr>))"

definition ServiceTokenRepo_GetByHash :: "site_world \<Rightarrow> string \<Rightarrow> site \<Rightarrow> (row_id \<times> service_token) option" where
  "ServiceTokenRepo_GetByHash w h s =
     (if sw_fails w QTokenByHash then None
      else Option.bind (first_row (\<lambda>i t. tk_hash t = h \<and> tk_deletedAt t = None) (serviceTokens s))
          (\<lambda>i. map_option (Pair i) (tbl_get (serviceTokens s) i)))"

definition live_token :: "row_id \<Rightarrow> site \<Rightarrow> service_token option" where
  "live_token i s = (case tbl_get (serviceTokens s) i of None \<Rightarrow> None | Some t \<Rightarrow> if tk_deletedAt t = None then Some t else None)"

definition ServiceTokenRepo_GetByID :: "site_world \<Rightarrow> row_id \<Rightarrow> site \<Rightarrow> service_token option" where
  "ServiceTokenRepo_GetByID w i s = (if sw_fails w QTokenByID then None else live_token i s)"

definition ListByIntegration :: "site_world \<Rightarrow> row_id \<Rightarrow> site \<Rightarrow> (row_id \<times> service_token) list option" where
  "ListByIntegration w iid s =
     (if sw_fails w QTokenList then None
      else Some (filter (\<lambda>(i, t). tk_integrationID t = iid \<and> tk_deletedAt t = None) (sort_key fst (serviceTokens s))))"

definition ServiceTokenRepo_Create :: "site_world \<Rightarrow> service_token \<Rightarrow> site \<Rightarrow> row_id option \<times> site" where
  "ServiceTokenRepo_Create w t s =
     (if sw_fails w InsertToken then (None, s)
      else if tbl_get (serviceTokens s) (next_id TTokens s) \<noteq> None \<or> list_ex (\<lambda>(j, v). tk_hash v = tk_hash t \<and> tk_deletedAt v = None) (serviceTokens s) then (None, bump TTokens s)
      else (Some (next_id TTokens s), (bump TTokens s)\<lparr>serviceTokens := serviceTokens s @ [(next_id TTokens s, t)]\<rparr>))"

definition ServiceTokenRepo_UpdateStatus :: "site_world \<Rightarrow> row_id \<Rightarrow> switch \<Rightarrow> site \<Rightarrow> bool \<times> site" where
  "ServiceTokenRepo_UpdateStatus w i st s =
     (if sw_fails w UpdateToken \<or> live_token i s = None then (False, s)
      else (True, s\<lparr>serviceTokens := tbl_upd (\<lambda>t. t\<lparr>tk_status := st\<rparr>) i (serviceTokens s)\<rparr>))"

definition ServiceTokenRepo_Delete :: "site_world \<Rightarrow> row_id \<Rightarrow> site \<Rightarrow> bool \<times> site" where
  "ServiceTokenRepo_Delete w i s =
     (if sw_fails w DeleteToken \<or> live_token i s = None then (False, s)
      else (True, s\<lparr>serviceTokens := tbl_upd (\<lambda>t. t\<lparr>tk_deletedAt := Some (sw_now w)\<rparr>) i (serviceTokens s)\<rparr>))"

section \<open>Idempotent creation (store/idempotency.go, admin\_idempotency.go)\<close>

definition zero_if_none :: "row_id option \<Rightarrow> row_id" where
  "zero_if_none i = (case i of None \<Rightarrow> 0 | Some j \<Rightarrow> j)"

definition same_record :: "string \<Rightarrow> string \<Rightarrow> row_id option \<Rightarrow> idempotency_record \<Rightarrow> bool" where
  "same_record key scope i r \<longleftrightarrow> ir_key r = key \<and> ir_scope r = scope \<and> zero_if_none (ir_integrationID r) = zero_if_none i"

definition IdempotencyRepo_GetByKey :: "site_world \<Rightarrow> string \<Rightarrow> string \<Rightarrow> row_id option \<Rightarrow> site \<Rightarrow> idempotency_record option" where
  "IdempotencyRepo_GetByKey w key scope i s =
     (if sw_fails w QIdempotency then None else List.find (same_record key scope i) (idempotency s))"

text \<open>A unique index keeps the first record.\<close>

definition IdempotencyRepo_Record :: "site_world \<Rightarrow> idempotency_record \<Rightarrow> site \<Rightarrow> site" where
  "IdempotencyRepo_Record w r s =
     (if sw_fails w InsertIdempotency \<or> list_ex (same_record (ir_key r) (ir_scope r) (ir_integrationID r)) (idempotency s) then s
      else s\<lparr>idempotency := idempotency s @ [r]\<rparr>)"

definition idempotencyFirstID :: "json \<Rightarrow> row_id option" where
  "idempotencyFirstID body =
     (case document_fields (Some body) of None \<Rightarrow> None
      | Some fs \<Rightarrow> (case rd_int fs ''id'' of None \<Rightarrow> None | Some i \<Rightarrow> if i = 0 then None else Some i))"

definition idempotencyLookupReplay :: "site_world \<Rightarrow> request_context \<Rightarrow> string \<Rightarrow> string \<Rightarrow> site \<Rightarrow> row_id option" where
  "idempotencyLookupReplay w cx key scope s =
     (if key = [] then None
      else case IdempotencyRepo_GetByKey w key scope (ScopeIntegrationID cx) s of None \<Rightarrow> None
        | Some r \<Rightarrow> idempotencyFirstID (ir_body r))"

definition idempotencyRemember :: "site_world \<Rightarrow> request_context \<Rightarrow> string \<Rightarrow> string \<Rightarrow> row_id \<Rightarrow> site \<Rightarrow> site" where
  "idempotencyRemember w cx key scope i s =
     (if key = [] then s
      else IdempotencyRepo_Record w \<lparr>ir_key = key, ir_scope = scope, ir_integrationID = ScopeIntegrationID cx, ir_status = 201,
             ir_body = JObj [(''id'', jint i)]\<rparr> s)"

end
