(* ===== verification/Access.thy ===== *)
theory Access
  imports Site
begin

text \<open>
  Who may do what: the envelope of an answer with the data it carries (\<^verbatim>\<open>api/respond\<close>, \<^verbatim>\<open>api/money.go\<close>), the middleware
  of the router (\<^verbatim>\<open>auth/middleware.go\<close>), and the checks every administrative handler makes of its object
  (\<^verbatim>\<open>canManage\<close>, \<^verbatim>\<open>canAccessDepartment\<close>, \<^verbatim>\<open>canAccessProject\<close>). A handler maps the context and the state to an answer
  and a state; a middleware maps handlers to handlers.
\<close>

section \<open>What an answer carries (money.go and the views of the handlers)\<close>

text \<open>
  Amounts of money stand beside the credits. \<^term>\<open>None\<close> stands for the rates at which the number of decimals is
  searched for without end (\<open>detail_decimals_diverges\<close>).
\<close>

definition money :: "site_world \<Rightarrow> credits \<Rightarrow> string option" where
  "money w c = (let rate = sw_int w ''exchange_rate_credits_per_cny''
     in map_option (CreditsToDecimalString c rate) (DetailDecimals rate))"

record userWithMoney =
  um_user :: User
  um_balance :: "string option"
  um_used :: "string option"
  um_dailyLimit :: "string option"

definition wrapUser :: "site_world \<Rightarrow> User \<Rightarrow> userWithMoney" where
  "wrapUser w u = \<lparr>um_user = u, um_balance = money w (credit_balance (us_row u)), um_used = money w (u_credit_used (us_row u)),
     um_dailyLimit = money w (u_dailySpendLimit (us_row u))\<rparr>"

record apiKeyWithMoney =
  km_key :: APIKey
  km_limit :: "string option"
  km_used :: "string option"
  km_dailyLimit :: "string option"

definition wrapAPIKey :: "site_world \<Rightarrow> APIKey \<Rightarrow> apiKeyWithMoney" where
  "wrapAPIKey w k = \<lparr>km_key = k, km_limit = (case credit_limit (ak_row k) of None \<Rightarrow> Some [] | Some l \<Rightarrow> money w l),
     km_used = money w (k_credit_used (ak_row k)), km_dailyLimit = money w (k_dailySpendLimit (ak_row k))\<rparr>"

record ledgerEntryWithMoney =
  lm_entry :: ledger_entry
  lm_amount :: "string option"
  lm_balanceAfter :: "string option"

definition wrapLedgerEntry :: "site_world \<Rightarrow> ledger_entry \<Rightarrow> ledgerEntryWithMoney" where
  "wrapLedgerEntry w e = \<lparr>lm_entry = e, lm_amount = money w (le_amount e), lm_balanceAfter = money w (le_balanceAfter e)\<rparr>"

record mergedLedgerRowWithMoney =
  rm_row :: MergedLedgerRow
  rm_amount :: "string option"
  rm_balanceAfter :: "string option"
  rm_entries :: "ledgerEntryWithMoney list"

definition wrapMergedLedgerRow :: "site_world \<Rightarrow> MergedLedgerRow \<Rightarrow> mergedLedgerRowWithMoney" where
  "wrapMergedLedgerRow w r = \<lparr>rm_row = r, rm_amount = money w (mr_Amount r), rm_balanceAfter = money w (mr_BalanceAfter r),
     rm_entries = map (wrapLedgerEntry w) (mr_Entries r)\<rparr>"

record balanceView =
  bv_balance :: credits
  bv_balanceMoney :: "string option"
  bv_used :: credits
  bv_usedMoney :: "string option"
  bv_requests :: int
  bv_rate :: int
  bv_symbol :: string

record departmentWithMoney =
  dm_ID :: row_id
  dm_row :: department
  dm_budget :: "string option"

definition wrapDepartment :: "site_world \<Rightarrow> row_id \<Rightarrow> department \<Rightarrow> departmentWithMoney" where
  "wrapDepartment w i d = \<lparr>dm_ID = i, dm_row = d, dm_budget = money w (d_monthlyBudget d)\<rparr>"

definition wrapDepartmentWithStats :: "site_world \<Rightarrow> DepartmentWithStats \<Rightarrow> DepartmentWithStats \<times> string option" where
  "wrapDepartmentWithStats w d = (d, money w (d_monthlyBudget (ds_row d)))"

record projectWithMoney =
  pm_ID :: row_id
  pm_row :: project
  pm_budget :: "string option"

definition wrapProject :: "site_world \<Rightarrow> row_id \<Rightarrow> project \<Rightarrow> projectWithMoney" where
  "wrapProject w i p = \<lparr>pm_ID = i, pm_row = p, pm_budget = money w (pr_monthlyBudget p)\<rparr>"

definition wrapProjectWithStats :: "site_world \<Rightarrow> ProjectWithStats \<Rightarrow> ProjectWithStats \<times> string option" where
  "wrapProjectWithStats w p = (p, money w (pr_monthlyBudget (ps_row p)))"

record 'a page =
  pg_page :: int
  pg_pageSize :: int
  pg_total :: int
  pg_items :: "'a list"

definition NewPage :: "int \<times> int \<Rightarrow> int \<Rightarrow> 'a list \<Rightarrow> 'a page" where
  "NewPage pp n items = \<lparr>pg_page = fst pp, pg_pageSize = snd pp, pg_total = n, pg_items = items\<rparr>"

text \<open>The results of the batch operations (admin\_users\_batch.go) and the views of integrations (admin\_integrations.go).\<close>

datatype import_action = ImportCreated | ImportSkipped | ImportFailed

record userImportResult =
  ui_username :: string
  ui_action :: import_action
  ui_userID :: row_id
  ui_message :: string
  ui_initialPassword :: string

record userImportSummary =
  us_created :: int
  us_skipped :: int
  us_failed :: int
  us_results :: "userImportResult list"

record batchGrantResult =
  bg_userID :: row_id
  bg_ok :: bool
  bg_replay :: bool
  bg_message :: string

record batchGrantSummary =
  bs_succeeded :: int
  bs_replayed :: int
  bs_failed :: int
  bs_results :: "batchGrantResult list"

record batchStatusResult =
  br_userID :: row_id
  br_username :: string
  br_ok :: bool
  br_message :: string

record batchStatusSummary =
  bt_succeeded :: int
  bt_unchanged :: int
  bt_failed :: int
  bt_results :: "batchStatusResult list"

record integrationDetail =
  id_ID :: row_id
  id_row :: integration
  id_serviceAccountUserID :: "row_id option"
  id_tokenCount :: int

record serviceTokenView =
  tv_ID :: row_id
  tv_name :: string
  tv_prefix :: string
  tv_status :: switch

datatype payload =
  NoData
| PUser User
| PMe User "row_id list"
| PUserMoney userWithMoney
| PNewUser userWithMoney "string option"
| PUsers "userWithMoney page"
| PKey apiKeyWithMoney
| PNewKey apiKeyWithMoney string
| PNewOwnKey APIKey string
| PKeys "apiKeyWithMoney page"
| PDepartment row_id department
| PDepartmentMoney departmentWithMoney
| PDepartments "(DepartmentWithStats \<times> string option) page"
| PAffected int
| PProject row_id project
| PProjectMoney projectWithMoney
| PProjects "(ProjectWithStats \<times> string option) page"
| PIntegration row_id integration
| PIntegrationDetail integrationDetail
| PIntegrations "(row_id \<times> integration) page"
| PNewToken row_id service_token string
| PTokens "serviceTokenView list"
| PEntry ledgerEntryWithMoney
| PEntries "ledgerEntryWithMoney page"
| PMerged "mergedLedgerRowWithMoney page"
| PBalance balanceView
| PNewCodes string "string list"
| PCodes "(row_id \<times> redemption_row \<times> RedemptionStatus) page"
| PImport userImportSummary
| PBatchGrant batchGrantSummary
| PBatchStatus batchStatusSummary

datatype 'd api_reply = Fail int string | OK 'd | OKMessage string 'd | Created 'd

type_synonym answer = "payload api_reply \<times> site"
type_synonym handler = "request_context \<Rightarrow> site \<Rightarrow> answer"

definition fail :: "int \<Rightarrow> string \<Rightarrow> site \<Rightarrow> answer" where
  "fail code message s = (Fail code message, s)"

definition answer_with :: "payload \<Rightarrow> site \<Rightarrow> answer" where
  "answer_with d s = (OK d, s)"

definition with_body :: "site_world \<Rightarrow> (jobj \<Rightarrow> 'r option) \<Rightarrow> ('r \<Rightarrow> site \<Rightarrow> answer) \<Rightarrow> site \<Rightarrow> answer" where
  "with_body w read k s = (case Option.bind (document_fields (sw_body w)) read of
       None \<Rightarrow> fail 400 msg_site_bad_body s
     | Some r \<Rightarrow> k r s)"

definition with_id :: "site_world \<Rightarrow> string \<Rightarrow> (row_id \<Rightarrow> site \<Rightarrow> answer) \<Rightarrow> site \<Rightarrow> answer" where
  "with_id w name k s = (case parseInt64 (sw_param w name) of
       None \<Rightarrow> fail 400 (msg_site_path_param @ name @ msg_site_path_bad) s
     | Some i \<Rightarrow> if i \<le> 0 then fail 400 (msg_site_path_param @ name @ msg_site_path_bad) s else k i s)"

section \<open>The middleware (middleware.go)\<close>

text \<open>A session: the user it belongs to, loaded anew for every request. Refusals leave the state alone.\<close>

definition session_user :: "site_world \<Rightarrow> site \<Rightarrow> (int \<times> string) + User" where
  "session_user w s =
     (if SessionUserID w s = 0 then Inl (401, msg_site_login_needed)
      else case UserRepo_GetByID w (SessionUserID w s) s of
        None \<Rightarrow> Inl (401, msg_site_login_needed)
      | Some u \<Rightarrow> if u_status (us_row u) \<noteq> UserEnabled then Inl (403, msg_site_account_disabled) else Inr u)"

definition RequireRole :: "site_world \<Rightarrow> string \<Rightarrow> handler \<Rightarrow> handler" where
  "RequireRole w least h cx s =
     (case session_user w s of
        Inl (code, message) \<Rightarrow> fail code message s
      | Inr u \<Rightarrow> if \<not> role_AtLeast (u_role (us_row u)) least then fail 403 msg_site_no_right s
          else h (WithUser u cx) s)"

definition RequirePasswordChanged :: "handler \<Rightarrow> handler" where
  "RequirePasswordChanged h cx s =
     (case CurrentUser cx of
        Some u \<Rightarrow> if p_mustChange (us_profile u) then fail 403 msg_site_change_password s else h cx s
      | None \<Rightarrow> h cx s)"

definition RequireAtLeast :: "string \<Rightarrow> handler \<Rightarrow> handler" where
  "RequireAtLeast least h cx s =
     (case CurrentUser cx of
        None \<Rightarrow> fail 401 msg_site_login_needed s
      | Some u \<Rightarrow> if \<not> role_AtLeast (u_role (us_row u)) least then fail 403 msg_site_no_right s else h cx s)"

definition bearerServiceToken :: "site_world \<Rightarrow> string" where
  "bearerServiceToken w =
     (let h = TrimPrefix ''bearer '' (TrimPrefix ''Bearer '' (TrimSpace (sw_authorization w)))
      in if LooksLikeServiceToken h then h else [])"

definition authenticateServiceToken :: "site_world \<Rightarrow> string \<Rightarrow> site \<Rightarrow> string + User" where
  "authenticateServiceToken w token s =
     (case ServiceTokenRepo_GetByHash w (sw_sha w token) s of
        None \<Rightarrow> Inl ''invalid_token''
      | Some (i, t) \<Rightarrow>
        if tk_status t \<noteq> Enabled then Inl ''token_disabled''
        else case GetServiceAccount w (tk_integrationID t) s of
          None \<Rightarrow> Inl ''user_not_found''
        | Some u \<Rightarrow>
          if u_status (us_row u) \<noteq> UserEnabled then Inl ''user_disabled''
          else if u_integrationID (us_row u) \<noteq> Some (tk_integrationID t) then Inl ''integration_mismatch''
          else Inr u)"

definition AdminAuth :: "site_world \<Rightarrow> handler \<Rightarrow> handler" where
  "AdminAuth w h cx s =
     (if bearerServiceToken w \<noteq> [] then
        (case authenticateServiceToken w (bearerServiceToken w) s of
           Inl reason \<Rightarrow> fail 401 msg_site_token_invalid s
         | Inr u \<Rightarrow> h ((case u_integrationID (us_row u) of None \<Rightarrow> (\<lambda>c. c) | Some i \<Rightarrow> WithScope i) (WithUser u cx)) s)
      else (case session_user w s of
          Inl (code, message) \<Rightarrow> fail code message s
        | Inr u \<Rightarrow> h (WithUser u cx) s))"

section \<open>Whom and what a user may manage\<close>

definition canManage :: "User option \<Rightarrow> User option \<Rightarrow> bool" where
  "canManage actor target \<longleftrightarrow> (case (actor, target) of
     (Some a, Some t) \<Rightarrow>
       if u_role (us_row a) = ''root'' then True
       else if u_role (us_row a) = ''admin'' then u_role (us_row t) = ''user''
       else if u_role (us_row a) = ''managed'' then u_role (us_row t) = ''user''
         \<and> u_integrationID (us_row a) \<noteq> None \<and> u_integrationID (us_row t) \<noteq> None
         \<and> u_integrationID (us_row a) = u_integrationID (us_row t)
       else False
   | _ \<Rightarrow> False)"

definition in_scope :: "User option \<Rightarrow> row_id option \<Rightarrow> bool" where
  "in_scope actor owner \<longleftrightarrow> (case actor of None \<Rightarrow> False
     | Some a \<Rightarrow>
       if u_role (us_row a) = ''root'' \<or> u_role (us_row a) = ''admin'' then True
       else if u_role (us_row a) = ''managed'' then owner \<noteq> None \<and> u_integrationID (us_row a) \<noteq> None \<and> owner = u_integrationID (us_row a)
       else False)"

definition canAccessDepartment :: "User option \<Rightarrow> department \<Rightarrow> bool" where
  "canAccessDepartment actor d \<longleftrightarrow> in_scope actor (d_integrationID d)"

definition canAccessProject :: "User option \<Rightarrow> project \<Rightarrow> bool" where
  "canAccessProject actor p \<longleftrightarrow> in_scope actor (pr_integrationID p)"

definition loadManagedUser :: "site_world \<Rightarrow> (User \<Rightarrow> handler) \<Rightarrow> handler" where
  "loadManagedUser w k cx = with_id w ''id'' (\<lambda>i s.
     case UserRepo_GetByID w i s of
       None \<Rightarrow> fail 404 msg_site_no_user s
     | Some target \<Rightarrow>
       if \<not> canManage (CurrentUser cx) (Some target) then
         (if (case CurrentUser cx of None \<Rightarrow> False | Some a \<Rightarrow> u_role (us_row a) = ''managed'') then fail 404 msg_site_no_user s
          else fail 403 msg_site_not_yours s)
       else k target cx s)"

definition projectMatchesOwnerScope :: "project \<Rightarrow> User option \<Rightarrow> bool" where
  "projectMatchesOwnerScope p owner \<longleftrightarrow> (case owner of None \<Rightarrow> False
     | Some u \<Rightarrow> (case (pr_integrationID p, u_integrationID (us_row u)) of
          (None, None) \<Rightarrow> True | (Some a, Some b) \<Rightarrow> a = b | _ \<Rightarrow> False))"

definition resolveKeyProject :: "site_world \<Rightarrow> row_id option \<Rightarrow> User option \<Rightarrow> site \<Rightarrow> string + row_id option" where
  "resolveKeyProject w projectID owner s =
     (case projectID of None \<Rightarrow> Inr None
      | Some i \<Rightarrow> (case ProjectRepo_GetByID w i s of
          None \<Rightarrow> Inl msg_site_no_project
        | Some p \<Rightarrow> if projectMatchesOwnerScope p owner then Inr (Some i) else Inl msg_site_no_project))"

end
