(* ===== verification/Accounts.thy ===== *)
theory Accounts
  imports Access
begin

text \<open>
  Accounts: logging in and out, registering, changing one's password and profile (\<^verbatim>\<open>api/auth_handlers.go\<close>), the
  administration of users (\<^verbatim>\<open>api/admin_users.go\<close>), the same in batches (\<^verbatim>\<open>api/admin_users_batch.go\<close>), and the
  granting of credits (\<^verbatim>\<open>api/admin_billing.go\<close>).
\<close>

section \<open>Texts and values of the audit trail\<close>

definition av_str :: "string \<Rightarrow> audit_value" where "av_str x = AV (JStr x)"
definition av_int :: "int \<Rightarrow> audit_value" where "av_int n = AV (jint n)"
definition av_id :: "row_id option \<Rightarrow> audit_value" where "av_id i = AV (case i of None \<Rightarrow> JNull | Some n \<Rightarrow> jint n)"

text \<open>The repositories add the time to the fields of an update, which are audited afterwards.\<close>

definition updated_at :: "site_world \<Rightarrow> string \<times> audit_value" where
  "updated_at w = (''updated_at'', av_str (sw_timeText w (sw_now w)))"

fun av_policy :: "policy_raw \<Rightarrow> audit_value" where
  "av_policy (PolicyJson v) = AV v"
| "av_policy _ = AV JNull"

definition actor_of :: "request_context \<Rightarrow> row_id" where
  "actor_of cx = (case CurrentUser cx of None \<Rightarrow> 0 | Some u \<Rightarrow> us_ID u)"

definition actor_role :: "request_context \<Rightarrow> string" where
  "actor_role cx = (case CurrentUser cx of None \<Rightarrow> [] | Some u \<Rightarrow> u_role (us_row u))"

section \<open>Logging in and out (auth\_handlers.go)\<close>

definition loginIPRatePerMin :: int where "loginIPRatePerMin = 30"
definition loginUserRatePerMin :: int where "loginUserRatePerMin = 10"
definition loginFailureThreshold :: int where "loginFailureThreshold = 5"
definition loginLockDuration :: go_duration where "loginLockDuration = 10 * Minute"
definition registerIPRatePerHour :: int where "registerIPRatePerHour = 10"

record loginRequest =
  lr_username :: string
  lr_password :: string

definition read_login :: "jobj \<Rightarrow> loginRequest option" where
  "read_login fs = (case (rd_str fs ''username'', rd_str fs ''password'') of
     (Some u, Some p) \<Rightarrow> Some \<lparr>lr_username = u, lr_password = p\<rparr> | _ \<Rightarrow> None)"

text \<open>The window of the name is asked only when that of the address has room.\<close>

definition site_allow :: "site_world \<Rightarrow> string \<Rightarrow> int \<Rightarrow> go_duration \<Rightarrow> site \<Rightarrow> bool \<times> site" where
  "site_allow w key limit window s = (case limiter s of None \<Rightarrow> (True, s)
     | Some l \<Rightarrow> (case limiter_Allow (sw_now w) key limit window l of (ok, l) \<Rightarrow> (ok, s\<lparr>limiter := Some l\<rparr>)))"

definition login_allowed :: "site_world \<Rightarrow> string \<Rightarrow> site \<Rightarrow> bool \<times> site" where
  "login_allowed w name s =
     (case site_allow w (''login:ip:'' @ sw_ip w) loginIPRatePerMin Minute s of
        (False, s) \<Rightarrow> (False, s)
      | (True, s) \<Rightarrow> site_allow w (''login:user:'' @ name) loginUserRatePerMin Minute s)"

definition on_lock :: "(FailureLocker \<Rightarrow> FailureLocker) \<Rightarrow> site \<Rightarrow> site" where
  "on_lock f s = s\<lparr>loginLock := map_option f (loginLock s)\<rparr>"

definition login_locked :: "site_world \<Rightarrow> string \<Rightarrow> site \<Rightarrow> bool" where
  "login_locked w name s \<longleftrightarrow> (case loginLock s of None \<Rightarrow> False | Some l \<Rightarrow> locker_Locked (sw_now w) name l)"

definition login_audit :: "row_id \<Rightarrow> string \<Rightarrow> bool \<Rightarrow> string \<Rightarrow> User option \<Rightarrow> audit_entry" where
  "login_audit i name ok message operator =
     (audit_done ''auth.login'' ''session'' i name [] [])\<lparr>ae_success := ok, ae_message := message, ae_operator := operator\<rparr>"

text \<open>The user whose password this is.\<close>

definition credentials :: "site_world \<Rightarrow> loginRequest \<Rightarrow> site \<Rightarrow> User option" where
  "credentials w req s = (case UserRepo_GetByUsername w (lr_username req) s of
       None \<Rightarrow> None
     | Some u \<Rightarrow> if VerifyPassword w (p_passwordHash (us_profile u)) (lr_password req) then Some u else None)"

definition handleLogin :: "site_world \<Rightarrow> handler" where
  "handleLogin w cx = with_body w read_login (\<lambda>req s.
     case login_allowed w (lr_username req) s of
       (False, s) \<Rightarrow> fail 429 msg_site_login_often s
     | (True, s) \<Rightarrow>
       if login_locked w (lr_username req) s then fail 429 msg_site_login_often s
       else case credentials w req s of
         None \<Rightarrow>
           fail 401 msg_site_login_wrong
             (Audit_Record w cx (login_audit 0 (lr_username req) False msg_site_login_wrong None)
               (on_lock (locker_RecordFailure (sw_now w) (lr_username req) loginFailureThreshold loginLockDuration) s))
       | Some u \<Rightarrow>
         (let s = on_lock (locker_Reset (sw_now w) (lr_username req)) s in
          if u_status (us_row u) \<noteq> UserEnabled then
            fail 403 msg_site_account_disabled
              (Audit_Record w cx (login_audit (us_ID u) (username (us_row u)) False msg_site_account_disabled (Some u)) s)
          else (case LoginSession w (us_ID u) s of
              (False, s) \<Rightarrow> fail 500 msg_site_login_failed s
            | (True, s) \<Rightarrow> answer_with (PUser u)
                (Audit_Record w cx (login_audit (us_ID u) (username (us_row u)) True [] (Some u)) s))))"

definition handleLogout :: "site_world \<Rightarrow> handler" where
  "handleLogout w cx s =
     (let s = LogoutSession w s in
      answer_with NoData (case CurrentUser cx of None \<Rightarrow> s
        | Some u \<Rightarrow> Audit_Record w cx ((audit_done ''auth.logout'' ''session'' (us_ID u) (username (us_row u)) [] [])\<lparr>ae_operator := Some u\<rparr>) s))"

definition handleMe :: "site_world \<Rightarrow> handler" where
  "handleMe w cx s = (case CurrentUser cx of
       None \<Rightarrow> answer_with NoData s
     | Some u \<Rightarrow> answer_with (PMe u (case ListByOwner w (us_ID u) s of None \<Rightarrow> [] | Some ds \<Rightarrow> map fst ds)) s)"

section \<open>Registering\<close>

record registerRequest =
  rr_username :: string
  rr_password :: string
  rr_displayName :: string

definition read_register :: "jobj \<Rightarrow> registerRequest option" where
  "read_register fs = (case (rd_str fs ''username'', rd_str fs ''password'', rd_str fs ''display_name'') of
     (Some u, Some p, Some d) \<Rightarrow> Some \<lparr>rr_username = u, rr_password = p, rr_displayName = d\<rparr> | _ \<Rightarrow> None)"

definition new_user :: "string \<Rightarrow> string \<Rightarrow> string \<Rightarrow> user_row" where
  "new_user name email role = \<lparr>username = name, u_email = email, u_role = role, u_status = UserEnabled, credit_balance = 0,
     u_credit_used = 0, request_count = 0, u_departmentID = None, u_integrationID = None, u_dailySpendLimit = 0\<rparr>"

definition new_profile :: "string \<Rightarrow> string \<Rightarrow> profile" where
  "new_profile hash displayName = \<lparr>p_passwordHash = hash, p_displayName = displayName, p_externalRef = [],
     p_allowedModels = PolicyEmpty, p_mustChange = False\<rparr>"

definition handleRegister :: "site_world \<Rightarrow> handler" where
  "handleRegister w cx s =
     (if \<not> sw_bool w ''register_enabled'' then fail 403 msg_site_no_register s
      else with_body w read_register (\<lambda>req s.
        case site_allow w (''register:ip:'' @ sw_ip w) registerIPRatePerHour Hour s of
          (False, s) \<Rightarrow> fail 429 msg_site_register_often s
        | (True, s) \<Rightarrow>
          if \<not> usernameRe (rr_username req) then fail 400 msg_site_bad_username s
          else case HashPassword w (rr_password req) of
            Inl message \<Rightarrow> fail 400 message s
          | Inr hash \<Rightarrow>
            (case UserRepo_Create w (new_user (rr_username req) [] ''user'') (new_profile hash (rr_displayName req)) s of
               (None, s) \<Rightarrow> fail 409 msg_site_username_taken s
             | (Some i, s) \<Rightarrow>
               (let u = \<lparr>us_ID = i, us_row = new_user (rr_username req) [] ''user'', us_profile = new_profile hash (rr_displayName req)\<rparr> in
                (Created (PUser u), Audit_Record w cx ((audit_done ''auth.register'' ''user'' i (rr_username req) []
                   [(''username'', av_str (rr_username req)), (''display_name'', av_str (rr_displayName req))])\<lparr>ae_operator := Some u\<rparr>) s)))) s)"

section \<open>One's own password and profile\<close>

definition read_change_password :: "jobj \<Rightarrow> (string \<times> string) option" where
  "read_change_password fs = (case (rd_str fs ''original_password'', rd_str fs ''password'') of
     (Some a, Some b) \<Rightarrow> Some (a, b) | _ \<Rightarrow> None)"

text \<open>
  A session that cannot be renewed is logged only. Behind the middleware the user is always there; without one the code
  panics, which the router answers with 500.
\<close>

definition relogin :: "site_world \<Rightarrow> row_id \<Rightarrow> site \<Rightarrow> site" where
  "relogin w i s = snd (LoginSession w i s)"

definition handleChangePassword :: "site_world \<Rightarrow> handler" where
  "handleChangePassword w cx s = (case CurrentUser cx of
     None \<Rightarrow> fail 500 [] s
   | Some u \<Rightarrow> with_body w read_change_password (\<lambda>(original, password) s.
       if \<not> VerifyPassword w (p_passwordHash (us_profile u)) original then fail 400 msg_site_wrong_original s
       else case HashPassword w password of
         Inl message \<Rightarrow> fail 400 message s
       | Inr hash \<Rightarrow>
         (case UserRepo_UpdateFields w (us_ID u) [UPassword hash, UMustChange False] s of
            (False, s) \<Rightarrow> fail 500 msg_site_password_failed s
          | (True, s) \<Rightarrow> answer_with NoData
              (Audit_Record w cx ((audit_done ''auth.password_change'' ''user'' (us_ID u) (username (us_row u)) [] [])
                  \<lparr>ae_message := msg_site_sessions_ended\<rparr>)
                (relogin w (us_ID u) (DestroyUserSessions w (us_ID u) s))))) s)"

record updateProfileRequest =
  up_displayName :: "string option"
  up_email :: "string option"

definition read_profile :: "jobj \<Rightarrow> updateProfileRequest option" where
  "read_profile fs = (case (rd_opt fs ''display_name'' json_text, rd_opt fs ''email'' json_text) of
     (Some d, Some e) \<Rightarrow> Some \<lparr>up_displayName = d, up_email = e\<rparr> | _ \<Rightarrow> None)"

text \<open>The fields of an update, up to the first that is refused.\<close>

type_synonym refusal = "int \<times> string"

fun collect :: "(refusal + 'f list) list \<Rightarrow> refusal + 'f list" where
  "collect [] = Inr []"
| "collect (Inl e # xs) = Inl e"
| "collect (Inr fs # xs) = (case collect xs of Inl e \<Rightarrow> Inl e | Inr gs \<Rightarrow> Inr (fs @ gs))"

definition given :: "'a option \<Rightarrow> ('a \<Rightarrow> refusal + 'f list) \<Rightarrow> refusal + 'f list" where
  "given x f = (case x of None \<Rightarrow> Inr [] | Some y \<Rightarrow> f y)"

definition email_field :: "string \<Rightarrow> refusal + user_field list" where
  "email_field e = (if validateEmail e \<noteq> [] then Inl (400, validateEmail e) else Inr [UEmail (TrimSpace e)])"

definition handleUpdateProfile :: "site_world \<Rightarrow> handler" where
  "handleUpdateProfile w cx s = (case CurrentUser cx of
     None \<Rightarrow> fail 500 [] s
   | Some u \<Rightarrow> with_body w read_profile (\<lambda>req s.
       if up_displayName req \<noteq> None \<and> \<not> sw_bool w ''profile_display_name_editable'' then
         fail 403 msg_site_name_locked s
       else if up_email req \<noteq> None \<and> \<not> sw_bool w ''profile_email_editable'' then
         fail 403 msg_site_email_locked s
       else case collect [given (up_displayName req) (\<lambda>d. Inr [UDisplayName d]), given (up_email req) email_field] of
         Inl (code, message) \<Rightarrow> fail code message s
       | Inr fs \<Rightarrow>
         if fs = [] then fail 400 msg_site_no_fields s
         else (case UserRepo_UpdateFields w (us_ID u) fs s of
             (False, s) \<Rightarrow> fail 500 msg_site_profile_failed s
           | (True, s) \<Rightarrow> answer_with NoData s)) s)"

end
