(* ===== verification/Users.thy ===== *)
theory Users
  imports Accounts
begin

text \<open>
  The administration of users one by one (\<^verbatim>\<open>api/admin_users.go\<close>) and in batches (\<^verbatim>\<open>api/admin_users_batch.go\<close>), and the
  granting of credits (\<^verbatim>\<open>api/admin_billing.go\<close>).
\<close>

section \<open>Listing\<close>

definition handleAdminListUsers :: "site_world \<Rightarrow> handler" where
  "handleAdminListUsers w cx s =
     (let scope = ScopeIntegrationID cx;
          f = \<lparr>uf_Keyword = sw_query w ''keyword'', uf_Role = (if scope = None then sw_query w ''role'' else ''user''),
               uf_Status = sw_query w ''status'', uf_DepartmentID = parseInt64 (sw_query w ''department_id''), uf_IntegrationID = scope,
               uf_Page = fst (PageParams (sw_query w)), uf_PageSize = snd (PageParams (sw_query w))\<rparr>
      in case UserRepo_List w f s of
           None \<Rightarrow> fail 500 msg_site_users_failed s
         | Some (ids, n) \<Rightarrow> answer_with (PUsers (NewPage (PageParams (sw_query w)) n
             (map (wrapUser w) (List.map_filter (load_user s) ids)))) s)"

definition handleAdminGetUser :: "site_world \<Rightarrow> handler" where
  "handleAdminGetUser w = loadManagedUser w (\<lambda>target cx. answer_with (PUserMoney (wrapUser w target)))"

definition handleAdminListUserKeys :: "site_world \<Rightarrow> handler" where
  "handleAdminListUserKeys w = loadManagedUser w (\<lambda>target cx s.
     case APIKeyRepo_List w \<lparr>kf_UserID = us_ID target, kf_Keyword = [], kf_Status = [], kf_IntegrationID = None,
         kf_Page = fst (PageParams (sw_query w)), kf_PageSize = snd (PageParams (sw_query w))\<rparr> s of
       None \<Rightarrow> fail 500 msg_site_user_keys_failed s
     | Some (ids, n) \<Rightarrow> answer_with (PKeys (NewPage (PageParams (sw_query w)) n
         (map (wrapAPIKey w) (List.map_filter (load_key s) ids)))) s)"

section \<open>Creating\<close>

text \<open>The department a user may be put into.\<close>

definition resolveDepartment :: "site_world \<Rightarrow> request_context \<Rightarrow> row_id option \<Rightarrow> site \<Rightarrow> string + row_id option" where
  "resolveDepartment w cx departmentID s =
     (case departmentID of
        None \<Rightarrow> Inr None
      | Some i \<Rightarrow> if i = 0 then Inr None
        else case DepartmentRepo_GetByID w i s of
          None \<Rightarrow> Inl msg_site_no_department
        | Some d \<Rightarrow>
          if \<not> canAccessDepartment (CurrentUser cx) d then Inl msg_site_no_department
          else if d_status d \<noteq> ''enabled'' then Inl msg_site_department_disabled
          else Inr (Some i))"

record adminCreateUserRequest =
  cu_username :: string
  cu_password :: string
  cu_displayName :: string
  cu_email :: string
  cu_role :: string
  cu_departmentID :: "row_id option"
  cu_passwordless :: bool
  cu_externalRef :: string
  cu_idempotencyKey :: string
  cu_initialCredits :: credits

definition read_create_user :: "jobj \<Rightarrow> adminCreateUserRequest option" where
  "read_create_user fs =
     (case (rd_str fs ''username'', rd_str fs ''password'', rd_str fs ''display_name'', rd_str fs ''email'', rd_str fs ''role'') of
        (Some u, Some p, Some d, Some e, Some r) \<Rightarrow>
          (case (rd_opt fs ''department_id'' json_int, rd_bool fs ''passwordless'', rd_str fs ''external_ref'', rd_str fs ''idempotency_key'',
                 rd_int fs ''initial_credits'') of
             (Some dep, Some pl, Some x, Some k, Some c) \<Rightarrow>
               Some \<lparr>cu_username = u, cu_password = p, cu_displayName = d, cu_email = e, cu_role = r, cu_departmentID = dep,
                     cu_passwordless = pl, cu_externalRef = x, cu_idempotencyKey = k, cu_initialCredits = c\<rparr>
           | _ \<Rightarrow> None)
      | _ \<Rightarrow> None)"

text \<open>The request as the checks leave it, and the first check it fails.\<close>

definition trimmed_create :: "adminCreateUserRequest \<Rightarrow> adminCreateUserRequest" where
  "trimmed_create r = r\<lparr>cu_email := TrimSpace (cu_email r), cu_externalRef := TrimSpace (cu_externalRef r),
     cu_role := (if cu_role r = [] then ''user'' else cu_role r)\<rparr>"

definition create_refusal :: "string \<Rightarrow> adminCreateUserRequest \<Rightarrow> refusal option" where
  "create_refusal actorRole r =
     (if \<not> usernameRe (cu_username r) then Some (400, msg_site_bad_username)
      else if validateEmail (cu_email r) \<noteq> [] then Some (400, validateEmail (cu_email r))
      else let r = trimmed_create r in
        if cu_externalRef r \<noteq> [] \<and> \<not> externalRefRe (cu_externalRef r) then
          Some (400, msg_site_bad_external)
        else if cu_initialCredits r < 0 then Some (400, msg_site_negative_credits)
        else if \<not> role_Valid (cu_role r) then Some (400, msg_site_bad_role)
        else if cu_role r \<noteq> ''user'' \<and> actorRole \<noteq> ''root'' then Some (403, msg_site_root_creates)
        else if cu_idempotencyKey r \<noteq> [] \<and> \<not> idempotencyKeyRe (cu_idempotencyKey r) then
          Some (400, msg_site_bad_idempotency)
        else None)"

text \<open>The hash that is stored, and the password that was made up for the user.\<close>

definition initial_password :: "site_world \<Rightarrow> nat \<Rightarrow> string \<Rightarrow> refusal + (string \<times> string option)" where
  "initial_password w n given_plain =
     (let plain = TrimSpace given_plain in
      if plain = [] then
        (case GenerateInitialPassword w n of
           None \<Rightarrow> Inl (500, msg_site_password_made)
         | Some p \<Rightarrow> (case HashPassword w p of Inl e \<Rightarrow> Inl (400, e) | Inr h \<Rightarrow> Inr (h, Some p)))
      else (case HashPassword w plain of Inl e \<Rightarrow> Inl (400, e) | Inr h \<Rightarrow> Inr (h, None)))"

definition account_password :: "site_world \<Rightarrow> bool \<Rightarrow> string \<Rightarrow> refusal + (string \<times> string option)" where
  "account_password w passwordless plain =
     (if passwordless \<and> TrimSpace plain \<noteq> [] then Inl (400, msg_site_passwordless)
      else if passwordless then Inr ([], None)
      else initial_password w 0 plain)"

definition run_sql :: "'a sql \<Rightarrow> site \<Rightarrow> (error + 'a) \<times> site" where
  "run_sql m s = (case m (core s) of (r, d) \<Rightarrow> (r, s\<lparr>core := d\<rparr>))"

text \<open>The credits given to a new account, and the balance shown for it.\<close>

definition initial_grant :: "site_world \<Rightarrow> request_context \<Rightarrow> row_id \<Rightarrow> string \<Rightarrow> credits \<Rightarrow> site \<Rightarrow> credits \<times> site" where
  "initial_grant w cx i name amount s =
     (if amount \<le> 0 then (0, s)
      else case run_sql (Grant (sw_env w 0) i amount (actor_of cx) msg_site_initial_note []) s of
        (Inl e, s) \<Rightarrow> (0, s)
      | (Inr entry, s) \<Rightarrow> (wrap64 (0 + amount), Audit_Record w cx (audit_done ''user.credit_grant'' ''user'' i name []
            [(''amount'', av_int amount), (''note'', av_str msg_site_initial_note)]) s))"

definition created_user :: "request_context \<Rightarrow> adminCreateUserRequest \<Rightarrow> row_id option \<Rightarrow> user_row" where
  "created_user cx r dept = (new_user (cu_username r) (cu_email r) (cu_role r))
     \<lparr>u_departmentID := dept, u_integrationID := ScopeIntegrationID cx\<rparr>"

definition created_profile :: "adminCreateUserRequest \<Rightarrow> bool \<Rightarrow> string \<Rightarrow> profile" where
  "created_profile r passwordless hash = (new_profile hash (cu_displayName r))
     \<lparr>p_externalRef := cu_externalRef r, p_mustChange := \<not> passwordless\<rparr>"

definition user_created :: "site_world \<Rightarrow> request_context \<Rightarrow> adminCreateUserRequest \<Rightarrow> string option \<Rightarrow> User \<Rightarrow> site \<Rightarrow> answer" where
  "user_created w cx r made u s =
     (let s = (if cu_idempotencyKey r = [] then s else idempotencyRemember w cx (cu_idempotencyKey r) ''user.create'' (us_ID u) s) in
      case initial_grant w cx (us_ID u) (cu_username r) (cu_initialCredits r) s of (balance, s) \<Rightarrow>
        (Created (PNewUser (wrapUser w (u\<lparr>us_row := (us_row u)\<lparr>credit_balance := balance\<rparr>\<rparr>)) made),
         Audit_Record w cx (audit_done ''user.create'' ''user'' (us_ID u) (cu_username r) []
           [(''username'', av_str (cu_username r)), (''display_name'', av_str (cu_displayName r)), (''email'', av_str (cu_email r)),
            (''role'', av_str (cu_role r)), (''status'', av_str ''enabled''), (''department_id'', av_id (u_departmentID (us_row u)))]) s))"

definition create_user :: "site_world \<Rightarrow> request_context \<Rightarrow> adminCreateUserRequest \<Rightarrow> site \<Rightarrow> answer" where
  "create_user w cx r s =
     (let passwordless = (cu_passwordless r \<or> ScopeIntegrationID cx \<noteq> None) in
      case account_password w passwordless (cu_password r) of
        Inl (code, message) \<Rightarrow> fail code message s
      | Inr (hash, made) \<Rightarrow>
        (case resolveDepartment w cx (cu_departmentID r) s of
           Inl message \<Rightarrow> fail 400 message s
         | Inr dept \<Rightarrow>
           (case UserRepo_Create w (created_user cx r dept) (created_profile r passwordless hash) s of
              (None, s) \<Rightarrow> fail 409 msg_site_username_taken s
            | (Some i, s) \<Rightarrow> user_created w cx r made
                \<lparr>us_ID = i, us_row = created_user cx r dept, us_profile = created_profile r passwordless hash\<rparr> s)))"

definition handleAdminCreateUser :: "site_world \<Rightarrow> handler" where
  "handleAdminCreateUser w cx = with_body w read_create_user (\<lambda>req s.
     case create_refusal (actor_role cx) req of
       Some (code, message) \<Rightarrow> fail code message s
     | None \<Rightarrow>
       (let r = trimmed_create req in
        case Option.bind (idempotencyLookupReplay w cx (cu_idempotencyKey r) ''user.create'' s) (\<lambda>i. UserRepo_GetByID w i s) of
          Some prior \<Rightarrow> (OKMessage msg_site_user_replayed (PUser prior), s)
        | None \<Rightarrow> create_user w cx r s))"

section \<open>Changing\<close>

record adminUpdateUserRequest =
  uu_displayName :: "string option"
  uu_email :: "string option"
  uu_role :: "string option"
  uu_departmentID :: "row_id option"
  uu_allowedModels :: "string list option"
  uu_dailySpendLimit :: "credits option"

definition read_update_user :: "jobj \<Rightarrow> adminUpdateUserRequest option" where
  "read_update_user fs =
     (case (rd_opt fs ''display_name'' json_text, rd_opt fs ''email'' json_text, rd_opt fs ''role'' json_text,
            rd_opt fs ''department_id'' json_int, rd_strings fs ''allowed_models'', rd_opt fs ''daily_spend_limit'' json_int) of
        (Some d, Some e, Some r, Some i, Some m, Some l) \<Rightarrow>
          Some \<lparr>uu_displayName = d, uu_email = e, uu_role = r, uu_departmentID = i, uu_allowedModels = m, uu_dailySpendLimit = l\<rparr>
      | _ \<Rightarrow> None)"

definition role_field :: "request_context \<Rightarrow> User \<Rightarrow> string \<Rightarrow> refusal + user_field list" where
  "role_field cx target role =
     (if actor_role cx \<noteq> ''root'' then Inl (403, msg_site_root_roles)
      else if \<not> role_Valid role then Inl (400, msg_site_bad_role)
      else if us_ID target = actor_of cx then Inl (400, msg_site_own_role)
      else Inr [URole role])"

definition update_user_fields :: "site_world \<Rightarrow> request_context \<Rightarrow> User \<Rightarrow> adminUpdateUserRequest \<Rightarrow> site \<Rightarrow> refusal + user_field list" where
  "update_user_fields w cx target r s = collect
     [given (uu_displayName r) (\<lambda>d. Inr [UDisplayName d]),
      given (uu_email r) email_field,
      given (uu_departmentID r) (\<lambda>i. case resolveDepartment w cx (Some i) s of Inl e \<Rightarrow> Inl (400, e) | Inr d \<Rightarrow> Inr [UDepartment d]),
      given (uu_allowedModels r) (\<lambda>ms. Inr [UAllowedModels ms]),
      given (uu_dailySpendLimit r) (\<lambda>l. if l < 0 then Inl (400, msg_site_negative_daily) else Inr [UDailyLimit l]),
      given (uu_role r) (role_field cx target)]"

fun user_field_after :: "user_field \<Rightarrow> string \<times> audit_value" where
  "user_field_after (UDisplayName x) = (''display_name'', av_str x)"
| "user_field_after (UEmail x) = (''email'', av_str x)"
| "user_field_after (UDepartment x) = (''department_id'', av_id x)"
| "user_field_after (UAllowedModels x) = (''allowed_models'', av_policy (toJSONField (Some x)))"
| "user_field_after (UDailyLimit x) = (''daily_spend_limit'', av_int x)"
| "user_field_after (URole x) = (''role'', av_str x)"
| "user_field_after (UPassword x) = (''password_hash'', av_str x)"
| "user_field_after (UMustChange x) = (''must_change_password'', AV (JBool x))"
| "user_field_after (UStatus x) = (''status'', av_str (user_status_str x))"

fun user_field_before :: "User \<Rightarrow> user_field \<Rightarrow> string \<times> audit_value" where
  "user_field_before u (UDisplayName x) = (''display_name'', av_str (p_displayName (us_profile u)))"
| "user_field_before u (UEmail x) = (''email'', av_str (u_email (us_row u)))"
| "user_field_before u (UDepartment x) = (''department_id'', av_id (u_departmentID (us_row u)))"
| "user_field_before u (UAllowedModels x) = (''allowed_models'', av_policy (p_allowedModels (us_profile u)))"
| "user_field_before u (UDailyLimit x) = (''daily_spend_limit'', av_int (u_dailySpendLimit (us_row u)))"
| "user_field_before u (URole x) = (''role'', av_str (u_role (us_row u)))"
| "user_field_before u (UPassword x) = (''password_hash'', av_str (p_passwordHash (us_profile u)))"
| "user_field_before u (UMustChange x) = (''must_change_password'', AV (JBool (p_mustChange (us_profile u))))"
| "user_field_before u (UStatus x) = (''status'', av_str (user_status_str (u_status (us_row u))))"

definition update_action :: "adminUpdateUserRequest \<Rightarrow> string" where
  "update_action r = (if uu_allowedModels r \<noteq> None \<or> uu_dailySpendLimit r \<noteq> None then ''user.policy_change'' else ''user.update'')"

definition handleAdminUpdateUser :: "site_world \<Rightarrow> handler" where
  "handleAdminUpdateUser w = loadManagedUser w (\<lambda>target cx. with_body w read_update_user (\<lambda>r s.
     case update_user_fields w cx target r s of
       Inl (code, message) \<Rightarrow> fail code message s
     | Inr fs \<Rightarrow>
       if fs = [] then fail 400 msg_site_no_fields s
       else (case UserRepo_UpdateFields w (us_ID target) fs s of
           (False, s) \<Rightarrow> fail 500 msg_site_user_update s
         | (True, s) \<Rightarrow> answer_with NoData (Audit_Record w cx (audit_done (update_action r) ''user'' (us_ID target)
             (username (us_row target)) (map (user_field_before target) fs) (map user_field_after fs @ [updated_at w])) s))))"

definition handleAdminSetUserStatus :: "site_world \<Rightarrow> handler" where
  "handleAdminSetUserStatus w = loadManagedUser w (\<lambda>target cx. with_body w (\<lambda>fs. rd_str fs ''status'') (\<lambda>status s.
     case user_status_of status of
       None \<Rightarrow> fail 400 msg_site_bad_status s
     | Some st \<Rightarrow>
       if us_ID target = actor_of cx then fail 400 msg_site_not_self s
       else (case UserRepo_UpdateFields w (us_ID target) [UStatus st] s of
           (False, s) \<Rightarrow> fail 500 msg_site_status_failed s
         | (True, s) \<Rightarrow> answer_with NoData (Audit_Record w cx (audit_done ''user.status_change'' ''user'' (us_ID target)
             (username (us_row target)) [user_field_before target (UStatus st)] [user_field_after (UStatus st)]) s))))"

definition reset_password :: "site_world \<Rightarrow> User \<Rightarrow> handler" where
  "reset_password w target cx s =
     (if p_passwordHash (us_profile target) = [] then fail 400 msg_site_no_reset s
      else with_body w (\<lambda>fs. rd_str fs ''password'') (\<lambda>password s.
       case HashPassword w password of
         Inl message \<Rightarrow> fail 400 message s
       | Inr hash \<Rightarrow>
         (case UserRepo_UpdateFields w (us_ID target)
             ([UPassword hash] @ (if actor_of cx \<noteq> us_ID target then [UMustChange True] else [])) s of
            (False, s) \<Rightarrow> fail 500 msg_site_reset_failed s
          | (True, s) \<Rightarrow>
            (let s = DestroyUserSessions w (us_ID target) s;
                 s = (if us_ID target = actor_of cx then relogin w (us_ID target) s else s)
             in (OKMessage msg_site_reset_done NoData,
                 Audit_Record w cx ((audit_done ''user.password_reset'' ''user'' (us_ID target) (username (us_row target)) []
                   [(''password_hash'', av_str ''changed'')])\<lparr>ae_message := msg_site_all_sessions_ended\<rparr>) s)))) s)"

definition handleAdminResetPassword :: "site_world \<Rightarrow> handler" where
  "handleAdminResetPassword w = loadManagedUser w (reset_password w)"

section \<open>Deleting\<close>

definition userDeletionBlocked :: "site_world \<Rightarrow> row_id \<Rightarrow> site \<Rightarrow> string option" where
  "userDeletionBlocked w i s =
     (case fst (CountByUser (sw_env w 0) i (core s)) of
        Inl e \<Rightarrow> Some msg_site_delete_ledger_unknown
      | Inr n \<Rightarrow>
        if n > 0 then Some msg_site_delete_ledger
        else case UsageLogs_CountByUser w i s of
          None \<Rightarrow> Some msg_site_delete_logs_unknown
        | Some m \<Rightarrow> if m > 0 then Some msg_site_delete_logs else None)"

definition handleAdminDeleteUser :: "site_world \<Rightarrow> handler" where
  "handleAdminDeleteUser w = loadManagedUser w (\<lambda>target cx s.
     if us_ID target = actor_of cx then fail 400 msg_site_not_delete_self s
     else case userDeletionBlocked w (us_ID target) s of
       Some message \<Rightarrow> fail 409 message (Audit_Record w cx ((audit_done ''user.delete'' ''user'' (us_ID target) (username (us_row target)) [] [])
           \<lparr>ae_success := False, ae_message := message\<rparr>) s)
     | None \<Rightarrow> (case UserRepo_Delete w (us_ID target) s of
         (False, s) \<Rightarrow> fail 500 msg_site_delete_failed s
       | (True, s) \<Rightarrow> answer_with NoData (Audit_Record w cx (audit_done ''user.delete'' ''user'' (us_ID target) (username (us_row target))
            [(''username'', av_str (username (us_row target))), (''role'', av_str (u_role (us_row target))),
             (''status'', av_str (user_status_str (u_status (us_row target)))), (''department_id'', av_id (u_departmentID (us_row target)))] [])
            (DestroyUserSessions w (us_ID target) s))))"

end
