(* ===== verification/Batch.thy ===== *)
theory Batch
  imports Users
begin

text \<open>
  Granting credits (\<^verbatim>\<open>api/admin_billing.go\<close>) and the batch operations on users (\<^verbatim>\<open>api/admin_users_batch.go\<close>): the
  import, the granting of credits and the change of status, for a list of users or the members of a department. Every
  item is handled on its own; a refused one does not stop the others.
\<close>

section \<open>Granting credits\<close>

text \<open>The entry booked, and whether it is that of an earlier request with the same key.\<close>

definition grantCredits :: "site_world \<Rightarrow> nat \<Rightarrow> row_id \<Rightarrow> credits \<Rightarrow> row_id \<Rightarrow> string \<Rightarrow> string \<Rightarrow> site
    \<Rightarrow> (error + ledger_entry \<times> bool) \<times> site" where
  "grantCredits w n uid amount actorID remark key s =
     (case run_sql (Grant (sw_env w n) uid amount actorID remark key) s of
        (Inr entry, s) \<Rightarrow> (Inr (entry, False), s)
      | (Inl e, s) \<Rightarrow>
        if e \<noteq> ErrDuplicateEntry then (Inl e, s)
        else (case run_sql (GetByRequestEntry (sw_env w n) (AdminRequestID key) (if amount < 0 then LedgerRevoke else LedgerGrant)) s of
            (Inl e, s) \<Rightarrow> (Inl e, s)
          | (Inr entry, s) \<Rightarrow> (Inr (entry, True), s)))"

record grantCreditsRequest =
  gr_amount :: credits
  gr_remark :: string
  gr_idempotencyKey :: string

definition read_grant :: "jobj \<Rightarrow> grantCreditsRequest option" where
  "read_grant fs = (case (rd_int fs ''amount'', rd_str fs ''note'', rd_str fs ''idempotency_key'') of
     (Some a, Some t, Some k) \<Rightarrow> Some \<lparr>gr_amount = a, gr_remark = t, gr_idempotencyKey = k\<rparr> | _ \<Rightarrow> None)"

definition grant_refusal :: "credits \<Rightarrow> string \<Rightarrow> string option" where
  "grant_refusal amount key =
     (if amount = 0 then Some msg_site_zero_amount
      else if \<not> validIdempotencyKey key then Some msg_site_bad_idempotency else None)"

definition grant_audit :: "User \<Rightarrow> grantCreditsRequest \<Rightarrow> ledger_entry \<Rightarrow> audit_entry" where
  "grant_audit target r entry = audit_done ''user.credit_grant'' ''user'' (us_ID target) (username (us_row target))
     [(''credit_balance'', av_int (wrap64 (le_balanceAfter entry - le_amount entry)))]
     [(''credit_balance'', av_int (le_balanceAfter entry)), (''amount'', av_int (le_amount entry)), (''note'', av_str (gr_remark r))]"

definition handleAdminGrantCredits :: "site_world \<Rightarrow> handler" where
  "handleAdminGrantCredits w = loadManagedUser w (\<lambda>target cx. with_body w read_grant (\<lambda>r s.
     case grant_refusal (gr_amount r) (gr_idempotencyKey r) of
       Some message \<Rightarrow> fail 400 message s
     | None \<Rightarrow>
       (case grantCredits w 0 (us_ID target) (gr_amount r) (actor_of cx) (gr_remark r) (gr_idempotencyKey r) s of
          (Inl e, s) \<Rightarrow>
            if e = ErrInsufficientCredits then fail 400 msg_site_revoke_too_much s
            else fail 500 msg_site_grant_failed
              (Audit_Record w cx ((audit_done ''user.credit_grant'' ''user'' (us_ID target) (username (us_row target)) []
                  [(''amount'', av_int (gr_amount r)), (''note'', av_str (gr_remark r))])\<lparr>ae_success := False, ae_message := sw_errorText w e\<rparr>) s)
        | (Inr (entry, replayed), s) \<Rightarrow>
            if replayed then (OKMessage msg_site_grant_replayed (PEntry (wrapLedgerEntry w entry)), s)
            else answer_with (PEntry (wrapLedgerEntry w entry)) (Audit_Record w cx (grant_audit target r entry) s))))"

text \<open>An unknown type of entry matches no row.\<close>

definition entry_type_str :: "LedgerEntryType \<Rightarrow> string" where
  "entry_type_str t = (case t of LedgerGrant \<Rightarrow> ''grant'' | LedgerRevoke \<Rightarrow> ''revoke'' | LedgerRedeem \<Rightarrow> ''redeem''
     | LedgerConsume \<Rightarrow> ''consume'' | LedgerRefund \<Rightarrow> ''refund'' | LedgerSettleAdjust \<Rightarrow> ''settle_adjust'')"

definition entry_type_of :: "string \<Rightarrow> LedgerEntryType option" where
  "entry_type_of t = List.find (\<lambda>x. entry_type_str x = t)
     [LedgerGrant, LedgerRevoke, LedgerRedeem, LedgerConsume, LedgerRefund, LedgerSettleAdjust]"

definition matching_none :: "'a sql \<Rightarrow> 'a sql" where
  "matching_none m d = (case m (d\<lparr>ledger := []\<rparr>) of (r, d') \<Rightarrow> (r, d'\<lparr>ledger := ledger d\<rparr>))"

definition for_type :: "string \<Rightarrow> 'a sql \<Rightarrow> 'a sql" where
  "for_type t m = (if t \<noteq> [] \<and> entry_type_of t = None then matching_none m else m)"

definition handleAdminListLedger :: "site_world \<Rightarrow> handler" where
  "handleAdminListLedger w cx s =
     (let t = sw_query w ''entry_type'';
          f = \<lparr>lf_UserID = (case parseInt64 (sw_query w ''user_id'') of None \<Rightarrow> 0 | Some i \<Rightarrow> i), lf_EntryType = entry_type_of t,
               lf_StartTime = None, lf_EndTime = None, lf_IntegrationID = ScopeIntegrationID cx,
               lf_Page = fst (PageParams (sw_query w)), lf_PageSize = snd (PageParams (sw_query w))\<rparr>
      in case run_sql (for_type t (ledger_List (sw_env w 0) f)) s of
           (Inl e, s) \<Rightarrow> fail 500 msg_site_ledger_failed s
         | (Inr (es, n), s) \<Rightarrow> answer_with (PEntries (NewPage (PageParams (sw_query w)) n (map (wrapLedgerEntry w) es))) s)"

section \<open>The import of users\<close>

definition maxBatchUsers :: int where "maxBatchUsers = 500"

record userImportItem =
  ii_username :: string
  ii_password :: string
  ii_displayName :: string
  ii_email :: string
  ii_departmentID :: "row_id option"
  ii_initialCredits :: credits

definition read_import_item :: "jobj \<Rightarrow> userImportItem option" where
  "read_import_item fs =
     (case (rd_str fs ''username'', rd_str fs ''password'', rd_str fs ''display_name'', rd_str fs ''email'',
            rd_opt fs ''department_id'' json_int, rd_int fs ''initial_credits'') of
        (Some u, Some p, Some d, Some e, Some dep, Some c) \<Rightarrow>
          Some \<lparr>ii_username = u, ii_password = p, ii_displayName = d, ii_email = e, ii_departmentID = dep, ii_initialCredits = c\<rparr>
      | _ \<Rightarrow> None)"

definition read_import :: "jobj \<Rightarrow> (userImportItem list \<times> row_id option) option" where
  "read_import fs = (case (rd_list fs ''items'' read_import_item, rd_opt fs ''default_department_id'' json_int) of
     (Some items, Some d) \<Rightarrow> Some (items, d) | _ \<Rightarrow> None)"

text \<open>Here the scope of the caller is not asked: only the operators of the server get to the import.\<close>

definition lookupAssignableDepartment :: "site_world \<Rightarrow> row_id option \<Rightarrow> site \<Rightarrow> string + row_id option" where
  "lookupAssignableDepartment w departmentID s =
     (case departmentID of None \<Rightarrow> Inr None
      | Some i \<Rightarrow> if i = 0 then Inr None
        else case DepartmentRepo_GetByID w i s of
          None \<Rightarrow> Inl msg_site_import_no_department
        | Some d \<Rightarrow> if d_status d \<noteq> ''enabled'' then Inl msg_site_import_department_off else Inr (Some i))"

definition import_result :: "string \<Rightarrow> import_action \<Rightarrow> string \<Rightarrow> userImportResult" where
  "import_result name action message = \<lparr>ui_username = name, ui_action = action, ui_userID = 0, ui_message = message, ui_initialPassword = []\<rparr>"

text \<open>The checks before an account is written: the hash, the password made up, and the department.\<close>

definition import_checks :: "site_world \<Rightarrow> nat \<Rightarrow> userImportItem \<Rightarrow> row_id option \<Rightarrow> string \<Rightarrow> site
    \<Rightarrow> userImportResult + (string \<times> string option \<times> row_id option)" where
  "import_checks w n item defaultDept name s =
     (if UserRepo_GetByUsername w name s \<noteq> None then Inl (import_result name ImportSkipped msg_site_import_exists)
      else case initial_password w n (ii_password item) of
        Inl (code, message) \<Rightarrow> Inl (import_result name ImportFailed message)
      | Inr (hash, made) \<Rightarrow>
        (case (if ii_departmentID item = None then Inr defaultDept else lookupAssignableDepartment w (ii_departmentID item) s) of
           Inl message \<Rightarrow> Inl (import_result name ImportFailed message)
         | Inr dept \<Rightarrow> Inr (hash, made, dept)))"

definition import_write :: "site_world \<Rightarrow> nat \<Rightarrow> userImportItem \<Rightarrow> row_id \<Rightarrow> string \<Rightarrow> string \<times> string option \<times> row_id option \<Rightarrow> site
    \<Rightarrow> userImportResult \<times> site" where
  "import_write w n item actorID name checked s =
     (case checked of (hash, made, dept) \<Rightarrow>
      case UserRepo_Create w ((new_user name (ii_email item) ''user'')\<lparr>u_departmentID := dept\<rparr>)
          ((new_profile hash (ii_displayName item))\<lparr>p_mustChange := True\<rparr>) s of
        (None, s) \<Rightarrow> (import_result name ImportFailed msg_site_import_taken, s)
      | (Some i, s) \<Rightarrow>
        (let res = (import_result name ImportCreated [])\<lparr>ui_userID := i, ui_initialPassword := (case made of None \<Rightarrow> [] | Some p \<Rightarrow> p)\<rparr> in
         if ii_initialCredits item \<le> 0 then (res, s)
         else case run_sql (Grant (sw_env w n) i (ii_initialCredits item) actorID msg_site_import_note []) s of
             (Inr entry, s) \<Rightarrow> (res, s)
           | (Inl e, s) \<Rightarrow> (res\<lparr>ui_action := ImportFailed, ui_message := msg_site_import_ungranted\<rparr>, s)))"

definition importOneUser :: "site_world \<Rightarrow> nat \<Rightarrow> userImportItem \<Rightarrow> row_id option \<Rightarrow> row_id \<Rightarrow> string set \<Rightarrow> site
    \<Rightarrow> (userImportResult \<times> string set) \<times> site" where
  "importOneUser w n item defaultDept actorID seen s =
     (let name = TrimSpace (ii_username item) in
      if \<not> usernameRe name then ((import_result name ImportFailed msg_site_bad_username, seen), s)
      else if name \<in> seen then ((import_result name ImportFailed msg_site_import_twice, seen), s)
      else let seen = insert name seen in
        if ii_initialCredits item < 0 then ((import_result name ImportFailed msg_site_negative_credits, seen), s)
        else case import_checks w n item defaultDept name s of
          Inl res \<Rightarrow> ((res, seen), s)
        | Inr checked \<Rightarrow> (case import_write w n item actorID name checked s of (res, s) \<Rightarrow> ((res, seen), s)))"

fun import_all :: "site_world \<Rightarrow> nat \<Rightarrow> userImportItem list \<Rightarrow> row_id option \<Rightarrow> row_id \<Rightarrow> string set \<Rightarrow> site
    \<Rightarrow> userImportResult list \<times> site" where
  "import_all w n [] d a seen s = ([], s)"
| "import_all w n (x # xs) d a seen s =
     (case importOneUser w n x d a seen s of ((res, seen), s) \<Rightarrow>
      case import_all w (Suc n) xs d a seen s of (rest, s) \<Rightarrow> (res # rest, s))"

definition count_where :: "('a \<Rightarrow> bool) \<Rightarrow> 'a list \<Rightarrow> int" where
  "count_where p xs = int (length (filter p xs))"

definition import_summary :: "userImportResult list \<Rightarrow> userImportSummary" where
  "import_summary rs = \<lparr>us_created = count_where (\<lambda>r. ui_action r = ImportCreated) rs,
     us_skipped = count_where (\<lambda>r. ui_action r = ImportSkipped) rs,
     us_failed = count_where (\<lambda>r. ui_action r = ImportFailed) rs, us_results = rs\<rparr>"

definition import_audit :: "userImportSummary \<Rightarrow> audit_entry" where
  "import_audit x = (audit_done ''user.import'' ''user'' 0 [] []
     [(''total'', av_int (int (length (us_results x)))), (''created'', av_int (us_created x)),
      (''skipped'', av_int (us_skipped x)), (''failed'', av_int (us_failed x))])\<lparr>ae_success := us_created x \<noteq> 0\<rparr>"

definition handleAdminImportUsers :: "site_world \<Rightarrow> handler" where
  "handleAdminImportUsers w cx = with_body w read_import (\<lambda>(items, d) s.
     if items = [] then fail 400 msg_site_import_empty s
     else if int (length items) > maxBatchUsers then fail 400 msg_site_import_large s
     else case resolveDepartment w cx d s of
       Inl message \<Rightarrow> fail 400 message s
     | Inr defaultDept \<Rightarrow>
       (case import_all w 0 items defaultDept (actor_of cx) {} s of (rs, s) \<Rightarrow>
          answer_with (PImport (import_summary rs)) (Audit_Record w cx (import_audit (import_summary rs)) s)))"

section \<open>The users of a batch\<close>

definition department_filter :: "row_id \<Rightarrow> UserListFilter" where
  "department_filter d = \<lparr>uf_Keyword = [], uf_Role = [], uf_Status = [], uf_DepartmentID = Some d, uf_IntegrationID = None,
     uf_Page = 1, uf_PageSize = maxBatchUsers\<rparr>"

definition resolveBatchTargets :: "site_world \<Rightarrow> row_id list \<Rightarrow> row_id option \<Rightarrow> string \<Rightarrow> site \<Rightarrow> refusal + row_id list" where
  "resolveBatchTargets w ids departmentID overLimit s =
     (case departmentID of
        Some d \<Rightarrow> if d > 0 then
          (if DepartmentRepo_GetByID w d s = None then Inl (400, msg_site_no_department)
           else case UserRepo_List w (department_filter d) s of
             None \<Rightarrow> Inl (500, msg_site_members_failed)
           | Some (members, n) \<Rightarrow> if members = [] then Inl (400, msg_site_no_members) else Inr members)
        else if ids = [] then Inl (400, msg_site_no_targets)
        else if int (length ids) > maxBatchUsers then Inl (400, overLimit) else Inr ids
      | None \<Rightarrow> if ids = [] then Inl (400, msg_site_no_targets)
        else if int (length ids) > maxBatchUsers then Inl (400, overLimit) else Inr ids)"

definition slice_or :: "'a list option \<Rightarrow> 'a list" where
  "slice_or x = (case x of None \<Rightarrow> [] | Some xs \<Rightarrow> xs)"

section \<open>Granting to many\<close>

record batchGrantRequest =
  bq_userIDs :: "row_id list"
  bq_amount :: credits
  bq_remark :: string
  bq_departmentID :: "row_id option"
  bq_idempotencyKey :: string

definition read_batch_grant :: "jobj \<Rightarrow> batchGrantRequest option" where
  "read_batch_grant fs =
     (case (rd_ints fs ''user_ids'', rd_int fs ''amount'', rd_str fs ''note'', rd_opt fs ''department_id'' json_int, rd_str fs ''idempotency_key'') of
        (Some us, Some a, Some t, Some d, Some k) \<Rightarrow>
          Some \<lparr>bq_userIDs = slice_or us, bq_amount = a, bq_remark = t, bq_departmentID = d, bq_idempotencyKey = k\<rparr>
      | _ \<Rightarrow> None)"

definition user_key :: "string \<Rightarrow> row_id \<Rightarrow> string" where
  "user_key key i = (if key = [] then [] else key @ ''-'' @ show_int i)"

definition grant_item :: "row_id \<Rightarrow> (error + ledger_entry \<times> bool) \<Rightarrow> batchGrantResult" where
  "grant_item i r = (case r of
       Inr (entry, True) \<Rightarrow> \<lparr>bg_userID = i, bg_ok = True, bg_replay = True, bg_message = msg_site_grant_replayed\<rparr>
     | Inr (entry, False) \<Rightarrow> \<lparr>bg_userID = i, bg_ok = True, bg_replay = False,
         bg_message = msg_site_granted @ show_int (le_balanceAfter entry)\<rparr>
     | Inl e \<Rightarrow> \<lparr>bg_userID = i, bg_ok = False, bg_replay = False, bg_message =
         (if e = ErrInsufficientCredits then msg_site_batch_revoke
          else if e = ErrNotFound then msg_site_no_user else msg_site_batch_grant_failed)\<rparr>)"

fun grant_all :: "site_world \<Rightarrow> nat \<Rightarrow> batchGrantRequest \<Rightarrow> row_id \<Rightarrow> row_id list \<Rightarrow> site \<Rightarrow> batchGrantResult list \<times> site" where
  "grant_all w n r actorID [] s = ([], s)"
| "grant_all w n r actorID (i # is) s =
     (case grantCredits w n i (bq_amount r) actorID (bq_remark r) (user_key (bq_idempotencyKey r) i) s of (res, s) \<Rightarrow>
      case grant_all w (Suc n) r actorID is s of (rest, s) \<Rightarrow> (grant_item i res # rest, s))"

definition grant_summary :: "batchGrantResult list \<Rightarrow> batchGrantSummary" where
  "grant_summary rs = \<lparr>bs_succeeded = count_where (\<lambda>r. bg_ok r \<and> \<not> bg_replay r) rs,
     bs_replayed = count_where (\<lambda>r. bg_ok r \<and> bg_replay r) rs, bs_failed = count_where (\<lambda>r. \<not> bg_ok r) rs, bs_results = rs\<rparr>"

definition batch_grant_audit :: "batchGrantRequest \<Rightarrow> batchGrantSummary \<Rightarrow> audit_entry" where
  "batch_grant_audit r x = (audit_done ''user.credit_batch_grant'' ''user'' 0 [] []
     [(''amount'', av_int (bq_amount r)), (''note'', av_str (bq_remark r)), (''total'', av_int (int (length (bs_results x)))),
      (''succeeded'', av_int (bs_succeeded x)), (''replayed'', av_int (bs_replayed x)), (''failed'', av_int (bs_failed x)),
      (''department_id'', av_id (bq_departmentID r))])\<lparr>ae_success := \<not> (bs_succeeded x = 0 \<and> bs_replayed x = 0)\<rparr>"

definition handleAdminBatchGrantCredits :: "site_world \<Rightarrow> handler" where
  "handleAdminBatchGrantCredits w cx = with_body w read_batch_grant (\<lambda>r s.
     case grant_refusal (bq_amount r) (bq_idempotencyKey r) of
       Some message \<Rightarrow> fail 400 message s
     | None \<Rightarrow>
       (case resolveBatchTargets w (bq_userIDs r) (bq_departmentID r) msg_site_batch_grant_large s of
          Inl (code, message) \<Rightarrow> fail code message s
        | Inr ids \<Rightarrow> (case grant_all w 0 r (actor_of cx) ids s of (rs, s) \<Rightarrow>
            answer_with (PBatchGrant (grant_summary rs)) (Audit_Record w cx (batch_grant_audit r (grant_summary rs)) s))))"

section \<open>The status of many\<close>

record batchStatusRequest =
  bx_userIDs :: "row_id list"
  bx_departmentID :: "row_id option"
  bx_status :: string

definition read_batch_status :: "jobj \<Rightarrow> batchStatusRequest option" where
  "read_batch_status fs = (case (rd_ints fs ''user_ids'', rd_opt fs ''department_id'' json_int, rd_str fs ''status'') of
     (Some us, Some d, Some st) \<Rightarrow> Some \<lparr>bx_userIDs = slice_or us, bx_departmentID = d, bx_status = st\<rparr> | _ \<Rightarrow> None)"

definition status_item :: "row_id \<Rightarrow> string \<Rightarrow> bool \<Rightarrow> string \<Rightarrow> batchStatusResult" where
  "status_item i name ok message = \<lparr>br_userID = i, br_username = name, br_ok = ok, br_message = message\<rparr>"

definition setOneUserStatus :: "site_world \<Rightarrow> row_id \<Rightarrow> UserStatus \<Rightarrow> request_context \<Rightarrow> site \<Rightarrow> batchStatusResult \<times> site" where
  "setOneUserStatus w i st cx s =
     (case UserRepo_GetByID w i s of
        None \<Rightarrow> (status_item i [] False msg_site_no_user, s)
      | Some target \<Rightarrow>
        (let name = username (us_row target) in
         if \<not> canManage (CurrentUser cx) (Some target) then (status_item i name False msg_site_not_yours, s)
         else if us_ID target = actor_of cx \<and> st = UserDisabled then (status_item i name False msg_site_not_self, s)
         else if u_status (us_row target) = st then (status_item i name True msg_site_already, s)
         else (case UserRepo_UpdateFields w i [UStatus st] s of
             (False, s) \<Rightarrow> (status_item i name False msg_site_status_failed, s)
           | (True, s) \<Rightarrow> (status_item i name True [], s))))"

fun status_all :: "site_world \<Rightarrow> UserStatus \<Rightarrow> request_context \<Rightarrow> row_id list \<Rightarrow> site \<Rightarrow> batchStatusResult list \<times> site" where
  "status_all w st cx [] s = ([], s)"
| "status_all w st cx (i # is) s =
     (case setOneUserStatus w i st cx s of (res, s) \<Rightarrow>
      case status_all w st cx is s of (rest, s) \<Rightarrow> (res # rest, s))"

definition status_changed :: "batchStatusResult \<Rightarrow> bool" where
  "status_changed r \<longleftrightarrow> br_ok r \<and> br_message r = []"

definition status_summary :: "batchStatusResult list \<Rightarrow> batchStatusSummary" where
  "status_summary rs = \<lparr>bt_succeeded = count_where status_changed rs, bt_unchanged = count_where (\<lambda>r. br_ok r \<and> br_message r \<noteq> []) rs,
     bt_failed = count_where (\<lambda>r. \<not> br_ok r) rs, bt_results = rs\<rparr>"

definition batch_status_audit :: "batchStatusRequest \<Rightarrow> batchStatusSummary \<Rightarrow> audit_entry" where
  "batch_status_audit r x = (audit_done ''user.status_batch_change'' ''user'' 0 [] []
     [(''status'', av_str (bx_status r)), (''total'', av_int (int (length (bt_results x)))), (''succeeded'', av_int (bt_succeeded x)),
      (''unchanged'', av_int (bt_unchanged x)), (''failed'', av_int (bt_failed x)), (''department_id'', av_id (bx_departmentID r)),
      (''changed_user_ids'', AV (JArr (map (jint \<circ> br_userID) (filter status_changed (bt_results x)))))])
     \<lparr>ae_success := bt_succeeded x \<noteq> 0\<rparr>"

definition handleAdminBatchSetUserStatus :: "site_world \<Rightarrow> handler" where
  "handleAdminBatchSetUserStatus w cx = with_body w read_batch_status (\<lambda>r s.
     case user_status_of (bx_status r) of
       None \<Rightarrow> fail 400 msg_site_bad_status s
     | Some st \<Rightarrow>
       (case resolveBatchTargets w (bx_userIDs r) (bx_departmentID r) msg_site_batch_status_large s of
          Inl (code, message) \<Rightarrow> fail code message s
        | Inr ids \<Rightarrow> (case status_all w st cx ids s of (rs, s) \<Rightarrow>
            answer_with (PBatchStatus (status_summary rs)) (Audit_Record w cx (batch_status_audit r (status_summary rs)) s))))"

end
