(* ===== verification/Tenants.thy ===== *)
theory Tenants
  imports Batch
begin

text \<open>
  Departments (\<^verbatim>\<open>api/admin_departments.go\<close>), projects (\<^verbatim>\<open>api/admin_projects.go\<close>), the lookup by an external
  identifier (\<^verbatim>\<open>api/admin_external.go\<close>), and the integrations with their service tokens
  (\<^verbatim>\<open>api/admin_integrations.go\<close>).
\<close>

section \<open>Departments\<close>

record departmentPayload =
  dp_name :: string
  dp_code :: string
  dp_ownerUserID :: "row_id option"
  dp_monthlyBudget :: credits
  dp_allowedModels :: "string list option"
  dp_status :: string
  dp_remark :: string
  dp_externalRef :: string
  dp_idempotencyKey :: string

definition read_department :: "jobj \<Rightarrow> departmentPayload option" where
  "read_department fs =
     (case (rd_str fs ''name'', rd_str fs ''code'', rd_opt fs ''owner_user_id'' json_int, rd_int fs ''monthly_budget_credits'',
            rd_strings fs ''allowed_models'') of
        (Some n, Some c, Some i, Some b, Some m) \<Rightarrow>
          (case (rd_str fs ''status'', rd_str fs ''note'', rd_str fs ''external_ref'', rd_str fs ''idempotency_key'') of
             (Some st, Some t, Some x, Some k) \<Rightarrow>
               Some \<lparr>dp_name = n, dp_code = c, dp_ownerUserID = i, dp_monthlyBudget = b, dp_allowedModels = m, dp_status = st,
                     dp_remark = t, dp_externalRef = x, dp_idempotencyKey = k\<rparr>
           | _ \<Rightarrow> None)
      | _ \<Rightarrow> None)"

text \<open>The payload as the validation leaves it, and its message.\<close>

definition department_trimmed :: "departmentPayload \<Rightarrow> departmentPayload" where
  "department_trimmed p = p\<lparr>dp_name := TrimSpace (dp_name p), dp_code := TrimSpace (dp_code p),
     dp_status := (if dp_status p = [] then ''enabled'' else dp_status p)\<rparr>"

definition department_validate :: "departmentPayload \<Rightarrow> string" where
  "department_validate p =
     (if dp_name p = [] then msg_site_dept_name
      else if length (dp_name p) > 100 then msg_site_dept_long
      else if length (dp_code p) > 50 then msg_site_dept_code
      else if dp_monthlyBudget p < 0 then msg_site_negative_budget
      else if \<not> switch_Valid (dp_status p) then msg_site_dept_status
      else [])"

definition checkOwnerIsMember :: "site_world \<Rightarrow> row_id option \<Rightarrow> row_id \<Rightarrow> site \<Rightarrow> string" where
  "checkOwnerIsMember w owner dept s =
     (case owner of
        None \<Rightarrow> []
      | Some i \<Rightarrow>
        if dept = 0 then msg_site_owner_early
        else case UserRepo_GetByID w i s of
          None \<Rightarrow> msg_site_owner_unknown
        | Some u \<Rightarrow> if u_departmentID (us_row u) \<noteq> Some dept then msg_site_owner_outside else [])"

definition department_snapshot :: "department \<Rightarrow> audit_map" where
  "department_snapshot d = [(''name'', av_str (d_name d)), (''code'', av_str (d_code d)), (''owner_user_id'', av_id (d_ownerUserID d)),
     (''monthly_budget_credits'', av_int (d_monthlyBudget d)), (''allowed_models'', av_policy (d_allowedModels d)),
     (''status'', av_str (d_status d)), (''note'', av_str (d_remark d))]"

definition handleAdminListDepartments :: "site_world \<Rightarrow> handler" where
  "handleAdminListDepartments w cx s =
     (case DepartmentRepo_List w \<lparr>df_Keyword = sw_query w ''keyword'', df_Status = sw_query w ''status'',
         df_IntegrationID = ScopeIntegrationID cx, df_Page = fst (PageParams (sw_query w)), df_PageSize = snd (PageParams (sw_query w))\<rparr> s of
        None \<Rightarrow> fail 500 msg_site_depts_failed s
      | Some (ds, n) \<Rightarrow> answer_with (PDepartments (NewPage (PageParams (sw_query w)) n (map (wrapDepartmentWithStats w) ds))) s)"

definition created_department :: "request_context \<Rightarrow> departmentPayload \<Rightarrow> department" where
  "created_department cx p = \<lparr>d_name = dp_name p, d_code = dp_code p, d_ownerUserID = dp_ownerUserID p,
     d_integrationID = ScopeIntegrationID cx, d_externalRef = TrimSpace (dp_externalRef p), d_monthlyBudget = dp_monthlyBudget p,
     d_allowedModels = toJSONField (dp_allowedModels p), d_status = dp_status p, d_remark = dp_remark p\<rparr>"

definition department_refusal :: "site_world \<Rightarrow> departmentPayload \<Rightarrow> site \<Rightarrow> string" where
  "department_refusal w p s =
     (if department_validate p \<noteq> [] then department_validate p
      else if checkOwnerIsMember w (dp_ownerUserID p) 0 s \<noteq> [] then checkOwnerIsMember w (dp_ownerUserID p) 0 s
      else if TrimSpace (dp_externalRef p) \<noteq> [] \<and> \<not> externalRefRe (TrimSpace (dp_externalRef p)) then msg_site_bad_external
      else if dp_idempotencyKey p \<noteq> [] \<and> \<not> idempotencyKeyRe (dp_idempotencyKey p) then msg_site_bad_idempotency
      else [])"

definition handleAdminCreateDepartment :: "site_world \<Rightarrow> handler" where
  "handleAdminCreateDepartment w cx = with_body w read_department (\<lambda>req s.
     let p = department_trimmed req in
     if department_refusal w p s \<noteq> [] then fail 400 (department_refusal w p s) s
     else case Option.bind (idempotencyLookupReplay w cx (dp_idempotencyKey p) ''department.create'' s)
         (\<lambda>i. map_option (Pair i) (DepartmentRepo_GetByID w i s)) of
       Some (i, prior) \<Rightarrow> (OKMessage msg_site_dept_replayed (PDepartment i prior), s)
     | None \<Rightarrow>
       (case DepartmentRepo_Create w (created_department cx p) s of
          (None, s) \<Rightarrow> fail 409 msg_site_dept_taken s
        | (Some i, s) \<Rightarrow>
          (let s = (if dp_idempotencyKey p = [] then s else idempotencyRemember w cx (dp_idempotencyKey p) ''department.create'' i s)
           in (Created (PDepartment i (created_department cx p)),
               Audit_Record w cx (audit_done ''department.create'' ''department'' i (dp_name p) [] (department_snapshot (created_department cx p))) s))))"

definition loadDepartment :: "site_world \<Rightarrow> (row_id \<Rightarrow> department \<Rightarrow> handler) \<Rightarrow> handler" where
  "loadDepartment w k cx = with_id w ''id'' (\<lambda>i s.
     case DepartmentRepo_GetByID w i s of
       None \<Rightarrow> fail 404 msg_site_no_department s
     | Some d \<Rightarrow> if \<not> canAccessDepartment (CurrentUser cx) d then fail 404 msg_site_no_department s else k i d cx s)"

definition handleAdminGetDepartment :: "site_world \<Rightarrow> handler" where
  "handleAdminGetDepartment w = loadDepartment w (\<lambda>i d cx. answer_with (PDepartmentMoney (wrapDepartment w i d)))"

definition updated_department :: "departmentPayload \<Rightarrow> department \<Rightarrow> department" where
  "updated_department p d = d\<lparr>d_name := dp_name p, d_code := dp_code p, d_ownerUserID := dp_ownerUserID p,
     d_monthlyBudget := dp_monthlyBudget p, d_allowedModels := toJSONField (dp_allowedModels p), d_status := dp_status p, d_remark := dp_remark p\<rparr>"

definition handleAdminUpdateDepartment :: "site_world \<Rightarrow> handler" where
  "handleAdminUpdateDepartment w = loadDepartment w (\<lambda>i d cx. with_body w read_department (\<lambda>req s.
     let p = department_trimmed req in
     if department_validate p \<noteq> [] then fail 400 (department_validate p) s
     else if checkOwnerIsMember w (dp_ownerUserID p) i s \<noteq> [] then fail 400 (checkOwnerIsMember w (dp_ownerUserID p) i s) s
     else case DepartmentRepo_Update w i (updated_department p) s of
       (False, s) \<Rightarrow> fail 409 msg_site_dept_taken s
     | (True, s) \<Rightarrow> answer_with NoData (Audit_Record w cx (audit_done ''department.update'' ''department'' i (dp_name p)
         (department_snapshot d) (department_snapshot (updated_department p d) @ [updated_at w])) s)))"

definition handleAdminDeleteDepartment :: "site_world \<Rightarrow> handler" where
  "handleAdminDeleteDepartment w = loadDepartment w (\<lambda>i d cx s.
     case DepartmentRepo_Delete w i s of
       (HasMembers, s) \<Rightarrow> fail 409 msg_site_dept_members
         (Audit_Record w cx ((audit_done ''department.delete'' ''department'' i (d_name d) [] [])
           \<lparr>ae_success := False, ae_message := msg_site_dept_members\<rparr>) s)
     | (DeleteFailed, s) \<Rightarrow> fail 500 msg_site_dept_delete s
     | (Deleted, s) \<Rightarrow> answer_with NoData (Audit_Record w cx (audit_done ''department.delete'' ''department'' i (d_name d) (department_snapshot d) []) s))"

definition maxBatchMembers :: nat where "maxBatchMembers = 500"

definition read_members :: "jobj \<Rightarrow> (row_id list \<times> bool) option" where
  "read_members fs = (case (rd_ints fs ''user_ids'', rd_bool fs ''remove'') of
     (Some us, Some r) \<Rightarrow> Some (slice_or us, r) | _ \<Rightarrow> None)"

definition handleAdminSetDepartmentMembers :: "site_world \<Rightarrow> handler" where
  "handleAdminSetDepartmentMembers w = loadDepartment w (\<lambda>i d cx. with_body w read_members (\<lambda>(ids, rm) s.
     if ids = [] then fail 400 msg_site_select_users s
     else if length ids > maxBatchMembers then fail 400 msg_site_many_members s
     else if \<not> rm \<and> d_status d \<noteq> ''enabled'' then fail 400 msg_site_department_disabled s
     else case AssignMembers w ids (if rm then None else Some i) s of
       (None, s) \<Rightarrow> fail 500 msg_site_members_move s
     | (Some n, s) \<Rightarrow> (OKMessage msg_site_members_done (PAffected n),
         Audit_Record w cx (audit_done ''department.member_change'' ''department'' i (d_name d) []
           [(''user_ids'', AV (JArr (map jint ids))), (''remove'', AV (JBool rm)), (''affected'', av_int n)]) s)))"

section \<open>Projects\<close>

record projectPayload =
  pp_name :: string
  pp_code :: string
  pp_ownerUserID :: "row_id option"
  pp_monthlyBudget :: credits
  pp_status :: string
  pp_remark :: string
  pp_externalRef :: string
  pp_idempotencyKey :: string

definition read_project :: "jobj \<Rightarrow> projectPayload option" where
  "read_project fs =
     (case (rd_str fs ''name'', rd_str fs ''code'', rd_opt fs ''owner_user_id'' json_int, rd_int fs ''monthly_budget_credits'') of
        (Some n, Some c, Some i, Some b) \<Rightarrow>
          (case (rd_str fs ''status'', rd_str fs ''note'', rd_str fs ''external_ref'', rd_str fs ''idempotency_key'') of
             (Some st, Some t, Some x, Some k) \<Rightarrow>
               Some \<lparr>pp_name = n, pp_code = c, pp_ownerUserID = i, pp_monthlyBudget = b, pp_status = st,
                     pp_remark = t, pp_externalRef = x, pp_idempotencyKey = k\<rparr>
           | _ \<Rightarrow> None)
      | _ \<Rightarrow> None)"

definition project_trimmed :: "projectPayload \<Rightarrow> projectPayload" where
  "project_trimmed p = p\<lparr>pp_name := TrimSpace (pp_name p), pp_code := TrimSpace (pp_code p),
     pp_status := (if pp_status p = [] then ''enabled'' else pp_status p)\<rparr>"

definition project_validate :: "projectPayload \<Rightarrow> string" where
  "project_validate p =
     (if pp_name p = [] then msg_site_project_name
      else if length (pp_name p) > 100 then msg_site_project_long
      else if length (pp_code p) > 50 then msg_site_project_code
      else if pp_monthlyBudget p < 0 then msg_site_negative_budget
      else if \<not> switch_Valid (pp_status p) then msg_site_project_status
      else [])"

definition project_snapshot :: "project \<Rightarrow> audit_map" where
  "project_snapshot p = [(''name'', av_str (pr_name p)), (''code'', av_str (pr_code p)), (''owner_user_id'', av_id (pr_ownerUserID p)),
     (''monthly_budget_credits'', av_int (pr_monthlyBudget p)), (''status'', av_str (pr_status p)), (''note'', av_str (pr_remark p)),
     (''external_ref'', av_str (pr_externalRef p))]"

definition handleAdminListProjects :: "site_world \<Rightarrow> handler" where
  "handleAdminListProjects w cx s =
     (case ProjectRepo_List w \<lparr>pf_Keyword = sw_query w ''keyword'', pf_Status = sw_query w ''status'',
         pf_IntegrationID = ScopeIntegrationID cx, pf_Page = fst (PageParams (sw_query w)), pf_PageSize = snd (PageParams (sw_query w))\<rparr> s of
        None \<Rightarrow> fail 500 msg_site_projects_failed s
      | Some (ps, n) \<Rightarrow> answer_with (PProjects (NewPage (PageParams (sw_query w)) n (map (wrapProjectWithStats w) ps))) s)"

definition created_project :: "request_context \<Rightarrow> projectPayload \<Rightarrow> project" where
  "created_project cx p = \<lparr>pr_name = pp_name p, pr_code = pp_code p, pr_ownerUserID = pp_ownerUserID p,
     pr_integrationID = ScopeIntegrationID cx, pr_externalRef = TrimSpace (pp_externalRef p), pr_monthlyBudget = pp_monthlyBudget p,
     pr_status = pp_status p, pr_remark = pp_remark p\<rparr>"

definition project_refusal :: "projectPayload \<Rightarrow> string" where
  "project_refusal p =
     (if project_validate p \<noteq> [] then project_validate p
      else if TrimSpace (pp_externalRef p) \<noteq> [] \<and> \<not> externalRefRe (TrimSpace (pp_externalRef p)) then msg_site_bad_external
      else if pp_idempotencyKey p \<noteq> [] \<and> \<not> idempotencyKeyRe (pp_idempotencyKey p) then msg_site_bad_idempotency
      else [])"

definition handleAdminCreateProject :: "site_world \<Rightarrow> handler" where
  "handleAdminCreateProject w cx = with_body w read_project (\<lambda>req s.
     let p = project_trimmed req in
     if project_refusal p \<noteq> [] then fail 400 (project_refusal p) s
     else case Option.bind (idempotencyLookupReplay w cx (pp_idempotencyKey p) ''project.create'' s)
         (\<lambda>i. map_option (Pair i) (ProjectRepo_GetByID w i s)) of
       Some (i, prior) \<Rightarrow> (OKMessage msg_site_project_replayed (PProject i prior), s)
     | None \<Rightarrow>
       (case ProjectRepo_Create w (created_project cx p) s of
          (None, s) \<Rightarrow> fail 409 msg_site_project_taken s
        | (Some i, s) \<Rightarrow>
          (let s = (if pp_idempotencyKey p = [] then s else idempotencyRemember w cx (pp_idempotencyKey p) ''project.create'' i s)
           in (Created (PProject i (created_project cx p)),
               Audit_Record w cx (audit_done ''project.create'' ''project'' i (pp_name p) [] (project_snapshot (created_project cx p))) s))))"

definition loadProject :: "site_world \<Rightarrow> (row_id \<Rightarrow> project \<Rightarrow> handler) \<Rightarrow> handler" where
  "loadProject w k cx = with_id w ''id'' (\<lambda>i s.
     case ProjectRepo_GetByID w i s of
       None \<Rightarrow> fail 404 msg_site_no_project s
     | Some p \<Rightarrow> if \<not> canAccessProject (CurrentUser cx) p then fail 404 msg_site_no_project s else k i p cx s)"

definition handleAdminGetProject :: "site_world \<Rightarrow> handler" where
  "handleAdminGetProject w = loadProject w (\<lambda>i p cx. answer_with (PProjectMoney (wrapProject w i p)))"

definition updated_project :: "projectPayload \<Rightarrow> project \<Rightarrow> project" where
  "updated_project p x = x\<lparr>pr_name := pp_name p, pr_code := pp_code p, pr_ownerUserID := pp_ownerUserID p,
     pr_monthlyBudget := pp_monthlyBudget p, pr_status := pp_status p, pr_remark := pp_remark p\<rparr>"

definition project_update_audit :: "projectPayload \<Rightarrow> audit_map" where
  "project_update_audit p = [(''name'', av_str (pp_name p)), (''code'', av_str (pp_code p)), (''owner_user_id'', av_id (pp_ownerUserID p)),
     (''monthly_budget_credits'', av_int (pp_monthlyBudget p)), (''status'', av_str (pp_status p)), (''note'', av_str (pp_remark p))]"

definition handleAdminUpdateProject :: "site_world \<Rightarrow> handler" where
  "handleAdminUpdateProject w = loadProject w (\<lambda>i x cx. with_body w read_project (\<lambda>req s.
     let p = project_trimmed req in
     if project_validate p \<noteq> [] then fail 400 (project_validate p) s
     else case ProjectRepo_Update w i (updated_project p) s of
       (False, s) \<Rightarrow> fail 409 msg_site_project_taken s
     | (True, s) \<Rightarrow> answer_with NoData (Audit_Record w cx (audit_done ''project.update'' ''project'' i (pp_name p)
         (project_snapshot x) (project_update_audit p @ [updated_at w])) s)))"

definition handleAdminDeleteProject :: "site_world \<Rightarrow> handler" where
  "handleAdminDeleteProject w = loadProject w (\<lambda>i p cx s.
     case ProjectRepo_Delete w i s of
       (False, s) \<Rightarrow> fail 500 msg_site_project_delete s
     | (True, s) \<Rightarrow> answer_with NoData (Audit_Record w cx (audit_done ''project.delete'' ''project'' i (pr_name p) (project_snapshot p) []) s))"

section \<open>By external identifier\<close>

definition with_ref :: "site_world \<Rightarrow> (string \<Rightarrow> site \<Rightarrow> answer) \<Rightarrow> site \<Rightarrow> answer" where
  "with_ref w k s = (if sw_param w ''ref'' = [] then fail 400 msg_site_no_ref s else k (sw_param w ''ref'') s)"

definition handleAdminGetUserByExternalRef :: "site_world \<Rightarrow> handler" where
  "handleAdminGetUserByExternalRef w cx = with_ref w (\<lambda>ref s.
     case UserRepo_GetByExternalRef w ref (ScopeIntegrationID cx) s of
       None \<Rightarrow> fail 404 msg_site_no_user s
     | Some u \<Rightarrow> answer_with (PUserMoney (wrapUser w u)) s)"

definition handleAdminGetDepartmentByExternalRef :: "site_world \<Rightarrow> handler" where
  "handleAdminGetDepartmentByExternalRef w cx = with_ref w (\<lambda>ref s.
     case Option.bind (DepartmentRepo_GetByExternalRef w ref (ScopeIntegrationID cx) s) (\<lambda>i. map_option (Pair i) (tbl_get (departments s) i)) of
       None \<Rightarrow> fail 404 msg_site_no_department s
     | Some (i, d) \<Rightarrow> answer_with (PDepartmentMoney (wrapDepartment w i d)) s)"

definition handleAdminGetProjectByExternalRef :: "site_world \<Rightarrow> handler" where
  "handleAdminGetProjectByExternalRef w cx = with_ref w (\<lambda>ref s.
     case Option.bind (ProjectRepo_GetByExternalRef w ref (ScopeIntegrationID cx) s) (\<lambda>i. map_option (Pair i) (tbl_get (projects s) i)) of
       None \<Rightarrow> fail 404 msg_site_no_project s
     | Some (i, p) \<Rightarrow> answer_with (PProjectMoney (wrapProject w i p)) s)"

section \<open>Integrations\<close>

definition serviceAccountUsername :: "string \<Rightarrow> string" where
  "serviceAccountUsername slug = ''svc:'' @ slug"

definition integration_snapshot :: "integration \<Rightarrow> audit_map" where
  "integration_snapshot x = [(''name'', av_str (in_name x)), (''slug'', av_str (in_slug x)), (''status'', av_str (switch_str (in_status x)))]"

definition service_account :: "integration \<Rightarrow> row_id \<Rightarrow> user_row" where
  "service_account x i = (new_user (serviceAccountUsername (in_slug x)) [] ''managed'')\<lparr>u_integrationID := Some i\<rparr>"

text \<open>One transaction: the integration and the account its tokens act for. A rollback keeps the sequences.\<close>

definition create_integration :: "site_world \<Rightarrow> integration \<Rightarrow> site \<Rightarrow> row_id option \<times> site" where
  "create_integration w x s =
     (if sw_fails w InsertIntegration then (None, s)
      else if tbl_get (integrations s) (next_id TIntegrations s) \<noteq> None \<or> list_ex (\<lambda>(j, y). in_slug y = in_slug x) (integrations s) then (None, bump TIntegrations s)
      else let i = next_id TIntegrations s; t = (bump TIntegrations s)\<lparr>integrations := integrations s @ [(i, x)]\<rparr> in
        case UserRepo_Create w (service_account x i) (new_profile [] (in_name x)) t of
          (None, u) \<Rightarrow> (None, s\<lparr>seqs := seqs u\<rparr>)
        | (Some j, u) \<Rightarrow> (Some i, u))"

definition read_integration :: "jobj \<Rightarrow> (string \<times> string) option" where
  "read_integration fs = (case (rd_str fs ''name'', rd_str fs ''slug'') of (Some n, Some g) \<Rightarrow> Some (TrimSpace n, TrimSpace g) | _ \<Rightarrow> None)"

definition handleAdminCreateIntegration :: "site_world \<Rightarrow> handler" where
  "handleAdminCreateIntegration w cx = with_body w read_integration (\<lambda>(name, slug) s.
     if name = [] \<or> length name > 100 then fail 400 msg_site_integration_name s
     else if \<not> integrationSlugRe slug then fail 400 msg_site_integration_slug s
     else let x = \<lparr>in_name = name, in_slug = slug, in_status = Enabled\<rparr> in
       case create_integration w x s of
         (None, s) \<Rightarrow> fail 409 msg_site_integration_taken s
       | (Some i, s) \<Rightarrow> (Created (PIntegration i x), Audit_Record w cx (audit_done ''integration.create'' ''integration'' i name [] (integration_snapshot x)) s))"

text \<open>The bounds of a page within a slice; the product wraps.\<close>

definition pageBounds :: "int \<Rightarrow> int \<Rightarrow> int \<Rightarrow> int \<times> int" where
  "pageBounds n page pageSize =
     (let start = wrap64 ((page - 1) * pageSize); start = (if start > n then n else start);
          stop = wrap64 (start + pageSize); stop = (if stop > n then n else stop)
      in (start, stop))"

text \<open>Slicing with a negative bound panics, which the router answers with 500.\<close>

definition handleAdminListIntegrations :: "site_world \<Rightarrow> handler" where
  "handleAdminListIntegrations w cx s =
     (case IntegrationRepo_List w [] s of
        None \<Rightarrow> fail 500 msg_site_integrations_failed s
      | Some rows \<Rightarrow>
        (case PageParams (sw_query w) of (page, pageSize) \<Rightarrow>
         case pageBounds (int (length rows)) page pageSize of (start, stop) \<Rightarrow>
           if start < 0 \<or> stop < start then fail 500 [] s
           else answer_with (PIntegrations (NewPage (page, pageSize) (int (length rows)) (take (nat (stop - start)) (drop (nat start) rows)))) s))"

definition loadIntegration :: "site_world \<Rightarrow> (row_id \<Rightarrow> integration \<Rightarrow> site \<Rightarrow> answer) \<Rightarrow> site \<Rightarrow> answer" where
  "loadIntegration w k = with_id w ''id'' (\<lambda>i s. case IntegrationRepo_GetByID w i s of
       None \<Rightarrow> fail 404 msg_site_no_integration s | Some x \<Rightarrow> k i x s)"

definition handleAdminGetIntegration :: "site_world \<Rightarrow> handler" where
  "handleAdminGetIntegration w cx = loadIntegration w (\<lambda>i x s. answer_with (PIntegrationDetail
     \<lparr>id_ID = i, id_row = x, id_serviceAccountUserID = map_option us_ID (GetServiceAccount w i s),
      id_tokenCount = (case ListByIntegration w i s of None \<Rightarrow> 0 | Some ts \<Rightarrow> int (length ts))\<rparr>) s)"

definition handleAdminUpdateIntegration :: "site_world \<Rightarrow> handler" where
  "handleAdminUpdateIntegration w cx = loadIntegration w (\<lambda>i x. with_body w (\<lambda>fs. map_option TrimSpace (rd_str fs ''name'')) (\<lambda>name s.
     if name = [] \<or> length name > 100 then fail 400 msg_site_integration_name s
     else case IntegrationRepo_UpdateFields w i name s of
       (False, s) \<Rightarrow> fail 404 msg_site_no_integration s
     | (True, s) \<Rightarrow> answer_with NoData (Audit_Record w cx (audit_done ''integration.update'' ''integration'' i name
         (integration_snapshot x) [(''name'', av_str name)]) s)))"

section \<open>Service tokens\<close>

definition new_token :: "row_id \<Rightarrow> string \<Rightarrow> GeneratedKey \<Rightarrow> service_token" where
  "new_token i name g = \<lparr>tk_integrationID = i, tk_name = name, tk_hash = gk_Hash g, tk_prefix = gk_Prefix g,
     tk_status = Enabled, tk_deletedAt = None\<rparr>"

definition handleAdminCreateServiceToken :: "site_world \<Rightarrow> handler" where
  "handleAdminCreateServiceToken w cx = loadIntegration w (\<lambda>i x. with_body w (\<lambda>fs. map_option TrimSpace (rd_str fs ''name'')) (\<lambda>name s.
     if name = [] \<or> length name > 64 then fail 400 msg_site_token_name s
     else if in_status x \<noteq> Enabled then fail 400 msg_site_token_disabled s
     else case GenerateServiceToken w of
       None \<Rightarrow> fail 500 msg_site_token_made s
     | Some g \<Rightarrow> (case ServiceTokenRepo_Create w (new_token i name g) s of
         (None, s) \<Rightarrow> fail 500 msg_site_token_create s
       | (Some j, s) \<Rightarrow> (Created (PNewToken j (new_token i name g) (gk_Plain g)),
           Audit_Record w cx (audit_done ''service_token.create'' ''service_token'' j name []
             [(''integration_id'', av_int i), (''token_prefix'', av_str (gk_Prefix g)), (''status'', av_str ''enabled'')]) s))))"

definition token_view :: "row_id \<times> service_token \<Rightarrow> serviceTokenView" where
  "token_view it = (case it of (i, t) \<Rightarrow> \<lparr>tv_ID = i, tv_name = tk_name t, tv_prefix = tk_prefix t, tv_status = tk_status t\<rparr>)"

definition handleAdminListServiceTokens :: "site_world \<Rightarrow> handler" where
  "handleAdminListServiceTokens w cx = loadIntegration w (\<lambda>i x s. case ListByIntegration w i s of
       None \<Rightarrow> fail 500 msg_site_tokens_failed s
     | Some ts \<Rightarrow> answer_with (PTokens (map token_view ts)) s)"

definition loadToken :: "site_world \<Rightarrow> row_id \<Rightarrow> (service_token \<Rightarrow> site \<Rightarrow> answer) \<Rightarrow> row_id \<Rightarrow> site \<Rightarrow> answer" where
  "loadToken w i k tokenID s = (case ServiceTokenRepo_GetByID w tokenID s of
       None \<Rightarrow> fail 404 msg_site_no_token s
     | Some t \<Rightarrow> if tk_integrationID t \<noteq> i then fail 404 msg_site_no_token s else k t s)"

definition switch_of :: "string \<Rightarrow> switch option" where
  "switch_of st = (if st = ''enabled'' then Some Enabled else if st = ''disabled'' then Some Disabled else None)"

definition handleAdminSetServiceTokenStatus :: "site_world \<Rightarrow> handler" where
  "handleAdminSetServiceTokenStatus w cx = loadIntegration w (\<lambda>i x. with_id w ''token_id'' (\<lambda>tokenID.
     with_body w (\<lambda>fs. rd_str fs ''status'') (\<lambda>status s.
       case switch_of status of
         None \<Rightarrow> fail 400 msg_site_enabled_or_disabled s
       | Some st \<Rightarrow> loadToken w i (\<lambda>before s.
           case ServiceTokenRepo_UpdateStatus w tokenID st s of
             (False, s) \<Rightarrow> fail 404 msg_site_no_token s
           | (True, s) \<Rightarrow> answer_with NoData (Audit_Record w cx (audit_done ''service_token.status_change'' ''service_token'' tokenID (tk_name before)
               [(''status'', av_str (switch_str (tk_status before)))] [(''status'', av_str status)]) s)) tokenID s)))"

definition handleAdminDeleteServiceToken :: "site_world \<Rightarrow> handler" where
  "handleAdminDeleteServiceToken w cx = loadIntegration w (\<lambda>i x. with_id w ''token_id'' (\<lambda>tokenID. loadToken w i (\<lambda>before s.
     case ServiceTokenRepo_Delete w tokenID s of
       (False, s) \<Rightarrow> fail 404 msg_site_no_token s
     | (True, s) \<Rightarrow> answer_with NoData (Audit_Record w cx (audit_done ''service_token.delete'' ''service_token'' tokenID (tk_name before)
         [(''token_prefix'', av_str (tk_prefix before)), (''status'', av_str (switch_str (tk_status before)))] []) s)) tokenID))"

text \<open>One transaction: the integration, its live tokens and all its users are disabled.\<close>

definition disable_integration :: "row_id \<Rightarrow> site \<Rightarrow> site" where
  "disable_integration i s = s\<lparr>
     integrations := tbl_upd (\<lambda>x. x\<lparr>in_status := Disabled\<rparr>) i (integrations s),
     serviceTokens := map (\<lambda>(j, t). (j, if tk_integrationID t = i \<and> tk_deletedAt t = None then t\<lparr>tk_status := Disabled\<rparr> else t)) (serviceTokens s),
     core := (core s)\<lparr>users := map (\<lambda>(j, u). (j, if u_integrationID u = Some i then u\<lparr>u_status := UserDisabled\<rparr> else u)) (users (core s))\<rparr>\<rparr>"

definition handleAdminDisableIntegration :: "site_world \<Rightarrow> handler" where
  "handleAdminDisableIntegration w cx = loadIntegration w (\<lambda>i x s.
     if in_status x = Disabled then answer_with NoData s
     else if sw_fails w DisableIntegration then fail 500 msg_site_disable_failed s
     else answer_with NoData (Audit_Record w cx (audit_done ''integration.disable'' ''integration'' i (in_name x)
       (integration_snapshot x) [(''status'', av_str ''disabled'')]) (disable_integration i s)))"

end
