(* ===== verification/Keys.thy ===== *)
theory Keys
  imports Tenants
begin

text \<open>
  API keys, managed by their owner (\<^verbatim>\<open>api/me_keys.go\<close>) and by an administrator or a service token for a user
  (\<^verbatim>\<open>api/admin_keys.go\<close>). The handlers of the two differ in whose keys they touch, in the replay of an idempotent
  request, and in the integration a new key belongs to.
\<close>

section \<open>Payloads\<close>

record keyPayload =
  kp_name :: string
  kp_creditLimit :: "credits option"
  kp_expiresAt :: "go_time option"
  kp_allowedModels :: "string list option"
  kp_allowedIPs :: "string list option"
  kp_dailySpendLimit :: "credits option"
  kp_projectID :: "row_id option"
  kp_idempotencyKey :: string

fun json_time :: "site_world \<Rightarrow> json \<Rightarrow> go_time option" where
  "json_time w (JStr t) = sw_time w t"
| "json_time w _ = None"

definition read_key :: "site_world \<Rightarrow> jobj \<Rightarrow> keyPayload option" where
  "read_key w fs =
     (case (rd_str fs ''name'', rd_opt fs ''credit_limit'' json_int, rd_opt fs ''expires_at'' (json_time w), rd_strings fs ''allowed_models'',
            rd_strings fs ''allowed_ips'') of
        (Some n, Some l, Some x, Some m, Some a) \<Rightarrow>
          (case (rd_opt fs ''daily_spend_limit'' json_int, rd_opt fs ''project_id'' json_int, rd_str fs ''idempotency_key'') of
             (Some d, Some p, Some k) \<Rightarrow>
               Some \<lparr>kp_name = n, kp_creditLimit = l, kp_expiresAt = x, kp_allowedModels = m, kp_allowedIPs = a,
                     kp_dailySpendLimit = d, kp_projectID = p, kp_idempotencyKey = k\<rparr>
           | _ \<Rightarrow> None)
      | _ \<Rightarrow> None)"

definition legal_ip :: "site_world \<Rightarrow> string \<Rightarrow> bool" where
  "legal_ip w a \<longleftrightarrow> net_ParseCIDR (sw_net w) a \<noteq> None \<or> net_ParseIP (sw_net w) a \<noteq> None"

text \<open>The message for the first illegal address.\<close>

definition check_ips :: "site_world \<Rightarrow> string list \<Rightarrow> string" where
  "check_ips w ips = (case List.find (\<lambda>a. \<not> legal_ip w a) ips of None \<Rightarrow> [] | Some a \<Rightarrow> msg_site_key_ip @ a)"

definition validateKeyPayload :: "site_world \<Rightarrow> keyPayload \<Rightarrow> string" where
  "validateKeyPayload w p =
     (if kp_name p = [] \<or> length (kp_name p) > 64 then msg_site_key_name
      else if (case kp_creditLimit p of None \<Rightarrow> False | Some l \<Rightarrow> l < 0) then msg_site_key_limit
      else if (case kp_dailySpendLimit p of None \<Rightarrow> False | Some l \<Rightarrow> l < 0) then msg_site_negative_daily
      else check_ips w (slice_or (kp_allowedIPs p)))"

definition key_snapshot :: "site_world \<Rightarrow> APIKey \<Rightarrow> audit_map" where
  "key_snapshot w k = [(''name'', av_str (k_name (ak_row k))), (''key_prefix'', av_str (kc_prefix (ak_cols k))),
     (''status'', av_str (key_status_str (k_status (ak_row k)))), (''credit_limit'', av_id (credit_limit (ak_row k))),
     (''expires_at'', AV (case k_expiresAt (ak_row k) of None \<Rightarrow> JNull | Some t \<Rightarrow> JStr (sw_timeText w t))),
     (''daily_spend_limit'', av_int (k_dailySpendLimit (ak_row k))), (''project_id'', av_id (k_projectID (ak_row k))),
     (''allowed_models'', av_policy (kc_allowedModels (ak_cols k))), (''allowed_ips'', av_policy (kc_allowedIPs (ak_cols k)))]"

section \<open>Creating\<close>

text \<open>A key is refused when the user has as many as allowed; 0 is no bound.\<close>

definition check_key_count :: "site_world \<Rightarrow> row_id \<Rightarrow> site \<Rightarrow> refusal option" where
  "check_key_count w uid s =
     (let most = sw_int w ''max_keys_per_user'' in
      if most \<le> 0 then None
      else case APIKeyRepo_CountByUser w uid s of
        None \<Rightarrow> Some (500, msg_site_key_failed)
      | Some n \<Rightarrow> if n \<ge> most then
          Some (400, msg_site_keys_full_a @ show_int most @ msg_site_keys_full_b) else None)"

definition slice_policy :: "string list option \<Rightarrow> policy_raw" where
  "slice_policy xs = (if slice_or xs = [] then PolicyEmpty else toJSONField xs)"

definition new_key_row :: "row_id \<Rightarrow> keyPayload \<Rightarrow> GeneratedKey \<Rightarrow> row_id option \<Rightarrow> api_key_row" where
  "new_key_row uid p g project = \<lparr>k_userID = uid, k_name = kp_name p, k_keyHash = gk_Hash g, k_status = KeyEnabled,
     credit_limit = kp_creditLimit p, k_credit_used = 0, k_dailySpendLimit = (case kp_dailySpendLimit p of None \<Rightarrow> 0 | Some l \<Rightarrow> l),
     k_projectID = project, k_expiresAt = kp_expiresAt p, k_lastUsedAt = None, k_deletedAt = None\<rparr>"

definition new_key_cols :: "keyPayload \<Rightarrow> GeneratedKey \<Rightarrow> row_id option \<Rightarrow> key_cols" where
  "new_key_cols p g integ = \<lparr>kc_prefix = gk_Prefix g, kc_allowedModels = slice_policy (kp_allowedModels p),
     kc_allowedIPs = slice_policy (kp_allowedIPs p), kc_integrationID = integ\<rparr>"

text \<open>The part the two ways of creating a key share: the bound, the random text, the project and the row.\<close>

definition issue_key :: "site_world \<Rightarrow> User \<Rightarrow> row_id option \<Rightarrow> keyPayload \<Rightarrow> (APIKey \<Rightarrow> string \<Rightarrow> site \<Rightarrow> answer) \<Rightarrow> site \<Rightarrow> answer" where
  "issue_key w owner integ p k s =
     (case check_key_count w (us_ID owner) s of
        Some (code, message) \<Rightarrow> fail code message s
      | None \<Rightarrow>
        (case GenerateKey w of
           None \<Rightarrow> fail 500 msg_site_key_made s
         | Some g \<Rightarrow>
           (case resolveKeyProject w (kp_projectID p) (Some owner) s of
              Inl message \<Rightarrow> fail 400 message s
            | Inr project \<Rightarrow>
              (case APIKeyRepo_Create w (new_key_row (us_ID owner) p g project) (new_key_cols p g integ) s of
                 (None, s) \<Rightarrow> fail 500 msg_site_key_failed s
               | (Some i, s) \<Rightarrow> k \<lparr>ak_ID = i, ak_row = new_key_row (us_ID owner) p g project, ak_cols = new_key_cols p g integ\<rparr> (gk_Plain g) s))))"

definition key_created :: "site_world \<Rightarrow> APIKey \<Rightarrow> audit_entry" where
  "key_created w k = audit_done ''api_key.create'' ''api_key'' (ak_ID k) (k_name (ak_row k)) [] (key_snapshot w k)"

definition with_user :: "request_context \<Rightarrow> (User \<Rightarrow> site \<Rightarrow> answer) \<Rightarrow> site \<Rightarrow> answer" where
  "with_user cx k s = (case CurrentUser cx of None \<Rightarrow> fail 500 [] s | Some u \<Rightarrow> k u s)"

definition handleMeCreateKey :: "site_world \<Rightarrow> handler" where
  "handleMeCreateKey w cx = with_user cx (\<lambda>u. with_body w (read_key w) (\<lambda>p s.
     if validateKeyPayload w p \<noteq> [] then fail 400 (validateKeyPayload w p) s
     else issue_key w u None p (\<lambda>k plain s. (Created (PNewOwnKey k plain), Audit_Record w cx (key_created w k) s)) s))"

definition handleAdminCreateUserKey :: "site_world \<Rightarrow> handler" where
  "handleAdminCreateUserKey w = loadManagedUser w (\<lambda>target cx. with_body w (read_key w) (\<lambda>p s.
     if validateKeyPayload w p \<noteq> [] then fail 400 (validateKeyPayload w p) s
     else if kp_idempotencyKey p \<noteq> [] \<and> \<not> idempotencyKeyRe (kp_idempotencyKey p) then fail 400 msg_site_bad_idempotency s
     else case Option.bind (idempotencyLookupReplay w cx (kp_idempotencyKey p) ''api_key.issue'' s)
         (\<lambda>i. case APIKeyRepo_GetByID w i s of None \<Rightarrow> None | Some k \<Rightarrow> if k_userID (ak_row k) = us_ID target then Some k else None) of
       Some prior \<Rightarrow> (OKMessage msg_site_key_replayed (PKey (wrapAPIKey w prior)), s)
     | None \<Rightarrow> issue_key w target (u_integrationID (us_row target)) p (\<lambda>k plain s.
         (Created (PNewKey (wrapAPIKey w k) plain), Audit_Record w cx (key_created w k)
           (if kp_idempotencyKey p = [] then s else idempotencyRemember w cx (kp_idempotencyKey p) ''api_key.issue'' (ak_ID k) s))) s))"

section \<open>Reading\<close>

definition handleMeListKeys :: "site_world \<Rightarrow> handler" where
  "handleMeListKeys w cx = with_user cx (\<lambda>u s.
     case APIKeyRepo_List w \<lparr>kf_UserID = us_ID u, kf_Keyword = sw_query w ''keyword'', kf_Status = sw_query w ''status'', kf_IntegrationID = None,
         kf_Page = fst (PageParams (sw_query w)), kf_PageSize = snd (PageParams (sw_query w))\<rparr> s of
       None \<Rightarrow> fail 500 msg_site_keys_failed s
     | Some (ids, n) \<Rightarrow> answer_with (PKeys (NewPage (PageParams (sw_query w)) n (map (wrapAPIKey w) (List.map_filter (load_key s) ids)))) s)"

text \<open>The key of a path, if it belongs to the user.\<close>

definition loadOwnKey :: "site_world \<Rightarrow> row_id \<Rightarrow> row_id \<Rightarrow> (APIKey \<Rightarrow> site \<Rightarrow> answer) \<Rightarrow> site \<Rightarrow> answer" where
  "loadOwnKey w uid i k s = (case APIKeyRepo_GetByID w i s of
       None \<Rightarrow> fail 404 msg_site_no_key s
     | Some key \<Rightarrow> if k_userID (ak_row key) \<noteq> uid then fail 404 msg_site_no_key s else k key s)"

definition handleMeGetKey :: "site_world \<Rightarrow> handler" where
  "handleMeGetKey w cx = with_user cx (\<lambda>u. with_id w ''id'' (\<lambda>i. loadOwnKey w (us_ID u) i (\<lambda>k. answer_with (PKey (wrapAPIKey w k)))))"

section \<open>Changing\<close>

record updateKeyRequest =
  ku_name :: "string option"
  ku_status :: "string option"
  ku_creditLimit :: "credits option"
  ku_clearLimit :: bool
  ku_expiresAt :: "go_time option"
  ku_clearExpires :: bool
  ku_allowedModels :: "string list option"
  ku_allowedIPs :: "string list option"
  ku_dailySpendLimit :: "credits option"
  ku_clearDailyLimit :: bool
  ku_projectID :: "row_id option"
  ku_clearProject :: bool

definition read_update_key :: "site_world \<Rightarrow> jobj \<Rightarrow> updateKeyRequest option" where
  "read_update_key w fs =
     (case (rd_opt fs ''name'' json_text, rd_opt fs ''status'' json_text, rd_opt fs ''credit_limit'' json_int, rd_bool fs ''clear_limit'',
            rd_opt fs ''expires_at'' (json_time w), rd_bool fs ''clear_expires'') of
        (Some n, Some st, Some l, Some cl, Some x, Some cx) \<Rightarrow>
          (case (rd_strings fs ''allowed_models'', rd_strings fs ''allowed_ips'', rd_opt fs ''daily_spend_limit'' json_int,
                 rd_bool fs ''clear_daily_limit'', rd_opt fs ''project_id'' json_int, rd_bool fs ''clear_project'') of
             (Some m, Some a, Some d, Some cd, Some p, Some cp) \<Rightarrow>
               Some \<lparr>ku_name = n, ku_status = st, ku_creditLimit = l, ku_clearLimit = cl, ku_expiresAt = x, ku_clearExpires = cx,
                     ku_allowedModels = m, ku_allowedIPs = a, ku_dailySpendLimit = d, ku_clearDailyLimit = cd, ku_projectID = p, ku_clearProject = cp\<rparr>
           | _ \<Rightarrow> None)
      | _ \<Rightarrow> None)"

definition update_key_fields :: "site_world \<Rightarrow> User \<Rightarrow> updateKeyRequest \<Rightarrow> site \<Rightarrow> refusal + key_field list" where
  "update_key_fields w owner r s = collect
     [given (ku_name r) (\<lambda>n. if n = [] \<or> length n > 64 then Inl (400, msg_site_key_name) else Inr [KName n]),
      given (ku_status r) (\<lambda>st. if st = ''enabled'' then Inr [KStatus KeyEnabled] else if st = ''disabled'' then Inr [KStatus KeyDisabled]
        else Inl (400, msg_site_enabled_or_disabled)),
      (if ku_clearLimit r then Inr [KLimit None]
       else given (ku_creditLimit r) (\<lambda>l. if l < 0 then Inl (400, msg_site_key_limit) else Inr [KLimit (Some l)])),
      (if ku_clearDailyLimit r then Inr [KDaily 0]
       else given (ku_dailySpendLimit r) (\<lambda>l. if l < 0 then Inl (400, msg_site_negative_daily) else Inr [KDaily l])),
      (if ku_clearExpires r then Inr [KExpires None] else given (ku_expiresAt r) (\<lambda>t. Inr [KExpires (Some t)])),
      given (ku_allowedModels r) (\<lambda>ms. Inr [KModels ms]),
      given (ku_allowedIPs r) (\<lambda>ips. if check_ips w ips \<noteq> [] then Inl (400, check_ips w ips) else Inr [KIPs ips]),
      (if ku_clearProject r then Inr [KProject None]
       else given (ku_projectID r) (\<lambda>i. case resolveKeyProject w (Some i) (Some owner) s of Inl e \<Rightarrow> Inl (400, e) | Inr p \<Rightarrow> Inr [KProject p]))]"

fun key_field_after :: "site_world \<Rightarrow> key_field \<Rightarrow> string \<times> audit_value" where
  "key_field_after w (KName x) = (''name'', av_str x)"
| "key_field_after w (KStatus x) = (''status'', av_str (key_status_str x))"
| "key_field_after w (KLimit x) = (''credit_limit'', av_id x)"
| "key_field_after w (KDaily x) = (''daily_spend_limit'', av_int x)"
| "key_field_after w (KExpires x) = (''expires_at'', AV (case x of None \<Rightarrow> JNull | Some t \<Rightarrow> JStr (sw_timeText w t)))"
| "key_field_after w (KModels x) = (''allowed_models'', av_policy (toJSONField (Some x)))"
| "key_field_after w (KIPs x) = (''allowed_ips'', av_policy (toJSONField (Some x)))"
| "key_field_after w (KProject x) = (''project_id'', av_id x)"

definition key_changes :: "site_world \<Rightarrow> APIKey \<Rightarrow> key_field list \<Rightarrow> audit_entry" where
  "key_changes w k fs = (case Diff (key_snapshot w k) (map (key_field_after w) fs) of (before, after) \<Rightarrow>
     audit_done ''api_key.update'' ''api_key'' (ak_ID k) (k_name (ak_row k)) before after)"

text \<open>The update of a key of a user, from its fields to the return of an exhausted key.\<close>

definition update_owned_key :: "site_world \<Rightarrow> request_context \<Rightarrow> User \<Rightarrow> row_id \<Rightarrow> updateKeyRequest \<Rightarrow> site \<Rightarrow> answer" where
  "update_owned_key w cx owner i r s =
     (case update_key_fields w owner r s of
        Inl (code, message) \<Rightarrow> fail code message s
      | Inr fs \<Rightarrow>
        if fs = [] then fail 400 msg_site_no_fields s
        else loadOwnKey w (us_ID owner) i (\<lambda>before s.
          case APIKeyRepo_UpdateFields w i (us_ID owner) fs s of
            (False, s) \<Rightarrow> fail 404 msg_site_no_key s
          | (True, s) \<Rightarrow>
            (let s = Audit_Record w cx (key_changes w before fs) s
             in answer_with NoData (if ku_clearLimit r \<or> ku_creditLimit r \<noteq> None then RestoreDepleted w i (us_ID owner) s else s))) s)"

definition handleMeUpdateKey :: "site_world \<Rightarrow> handler" where
  "handleMeUpdateKey w cx = with_user cx (\<lambda>u. with_id w ''id'' (\<lambda>i. with_body w (read_update_key w) (update_owned_key w cx u i)))"

definition handleAdminUpdateUserKey :: "site_world \<Rightarrow> handler" where
  "handleAdminUpdateUserKey w = loadManagedUser w (\<lambda>target cx. with_id w ''key_id'' (\<lambda>i.
     with_body w (read_update_key w) (update_owned_key w cx target i)))"

definition delete_owned_key :: "site_world \<Rightarrow> request_context \<Rightarrow> User \<Rightarrow> row_id \<Rightarrow> site \<Rightarrow> answer" where
  "delete_owned_key w cx owner i = loadOwnKey w (us_ID owner) i (\<lambda>k s.
     case APIKeyRepo_Delete w i (us_ID owner) s of
       (False, s) \<Rightarrow> fail 404 msg_site_no_key s
     | (True, s) \<Rightarrow> answer_with NoData (Audit_Record w cx (audit_done ''api_key.delete'' ''api_key'' i (k_name (ak_row k)) (key_snapshot w k) []) s))"

definition handleMeDeleteKey :: "site_world \<Rightarrow> handler" where
  "handleMeDeleteKey w cx = with_user cx (\<lambda>u. with_id w ''id'' (delete_owned_key w cx u))"

definition handleAdminDeleteUserKey :: "site_world \<Rightarrow> handler" where
  "handleAdminDeleteUserKey w = loadManagedUser w (\<lambda>target cx. with_id w ''key_id'' (delete_owned_key w cx target))"

end
