(* ===== verification/Vouchers.thy ===== *)
theory Vouchers
  imports Batch
begin

text \<open>
  What a user sees of the own account, the balance, the redeeming of a code and the ledger (\<^verbatim>\<open>api/me_billing.go\<close>), and
  the administration of redemption codes (\<^verbatim>\<open>api/admin_billing.go\<close>, \<^verbatim>\<open>store/redemption.go\<close>).
\<close>

section \<open>The own account\<close>

definition handleMeBalance :: "site_world \<Rightarrow> handler" where
  "handleMeBalance w cx s = (case CurrentUser cx of
     None \<Rightarrow> fail 500 [] s
   | Some u \<Rightarrow> (case UserRepo_GetByID w (us_ID u) s of
       None \<Rightarrow> fail 500 msg_site_balance_failed s
     | Some fresh \<Rightarrow> answer_with (PBalance \<lparr>bv_balance = credit_balance (us_row fresh), bv_balanceMoney = money w (credit_balance (us_row fresh)),
         bv_used = u_credit_used (us_row fresh), bv_usedMoney = money w (u_credit_used (us_row fresh)),
         bv_requests = request_count (us_row fresh), bv_rate = sw_int w ''exchange_rate_credits_per_cny'',
         bv_symbol = sw_str w ''currency_symbol''\<rparr>) s))"

definition read_code :: "jobj \<Rightarrow> string option" where
  "read_code fs = rd_str fs ''code''"

text \<open>The four reasons are kinds of \<^verbatim>\<open>ErrRedemptionUnavailable\<close>.\<close>

definition redemption_error :: "error \<Rightarrow> bool" where
  "redemption_error e \<longleftrightarrow> e \<in> {ErrRedemptionUnavailable, ErrRedemptionNotFound, ErrRedemptionUsed, ErrRedemptionDisabled, ErrRedemptionExpired}"

definition redeemFailureMessage :: "error \<Rightarrow> string" where
  "redeemFailureMessage e =
     (if e = ErrRedemptionExpired then msg_site_code_expired
      else if e = ErrRedemptionDisabled then msg_site_code_disabled
      else if e = ErrRedemptionUsed then msg_site_code_used
      else if e = ErrRedemptionNotFound then msg_site_code_unknown
      else msg_site_code_unavailable)"

definition handleMeRedeem :: "site_world \<Rightarrow> handler" where
  "handleMeRedeem w cx s = (case CurrentUser cx of
     None \<Rightarrow> fail 500 [] s
   | Some u \<Rightarrow> with_body w read_code (\<lambda>code s.
       if code = [] then fail 400 msg_site_code_empty s
       else case run_sql (Redeem (sw_env w 0) (us_ID u) code) s of
         (Inl e, s) \<Rightarrow> if redemption_error e then fail 400 (redeemFailureMessage e) s else fail 500 msg_site_redeem_failed s
       | (Inr entry, s) \<Rightarrow> answer_with (PEntry (wrapLedgerEntry w entry)) s) s)"

definition ledgerViewRaw :: string where "ledgerViewRaw = ''raw''"

definition own_entries :: "site_world \<Rightarrow> row_id \<Rightarrow> LedgerListFilter" where
  "own_entries w i = \<lparr>lf_UserID = i, lf_EntryType = entry_type_of (sw_query w ''entry_type''), lf_StartTime = None, lf_EndTime = None,
     lf_IntegrationID = None, lf_Page = fst (PageParams (sw_query w)), lf_PageSize = snd (PageParams (sw_query w))\<rparr>"

definition own_rows :: "site_world \<Rightarrow> row_id \<Rightarrow> MergedLedgerFilter" where
  "own_rows w i = \<lparr>mf_UserID = i, mf_EntryType = entry_type_of (sw_query w ''entry_type''),
     mf_OnlyCalls = (entry_type_of (sw_query w ''entry_type'') = Some LedgerConsume),
     mf_Page = fst (PageParams (sw_query w)), mf_PageSize = snd (PageParams (sw_query w))\<rparr>"

definition handleMeListLedger :: "site_world \<Rightarrow> handler" where
  "handleMeListLedger w cx s = (case CurrentUser cx of
     None \<Rightarrow> fail 500 [] s
   | Some u \<Rightarrow>
     if sw_query w ''view'' = ledgerViewRaw then
       (case run_sql (for_type (sw_query w ''entry_type'') (ledger_List (sw_env w 0) (own_entries w (us_ID u)))) s of
          (Inl e, s) \<Rightarrow> fail 500 msg_site_ledger_failed s
        | (Inr (es, n), s) \<Rightarrow> answer_with (PEntries (NewPage (PageParams (sw_query w)) n (map (wrapLedgerEntry w) es))) s)
     else
       (case run_sql (for_type (sw_query w ''entry_type'') (ListMerged (sw_env w 0) (own_rows w (us_ID u)))) s of
          (Inl e, s) \<Rightarrow> fail 500 msg_site_ledger_failed s
        | (Inr (rows, n), s) \<Rightarrow> answer_with (PMerged (NewPage (PageParams (sw_query w)) n (map (wrapMergedLedgerRow w) rows))) s))"

section \<open>Redemption codes\<close>

text \<open>One statement inserts a whole batch; the numbers it takes are not given back when it is refused.\<close>

definition numbered_rows :: "row_id \<Rightarrow> 'v list \<Rightarrow> (row_id, 'v) tbl" where
  "numbered_rows i rs = zip (map (\<lambda>k. i + int k) [0..<length rs]) rs"

definition bump_by :: "site_table \<Rightarrow> nat \<Rightarrow> site \<Rightarrow> site" where
  "bump_by t n s = s\<lparr>seqs := (seqs s)(t := seqs s t + int n)\<rparr>"

definition codes_conflict :: "redemption_row list \<Rightarrow> site \<Rightarrow> bool" where
  "codes_conflict rs s \<longleftrightarrow>
     (let t = redemptions (core s) @ numbered_rows (next_id TCodes s) rs
      in \<not> distinct (map fst t) \<or> \<not> distinct (map (r_codeHash \<circ> snd) t) \<or> list_ex (\<lambda>r. r_credits r \<le> 0) rs)"

definition RedemptionRepo_CreateBatch :: "site_world \<Rightarrow> redemption_row list \<Rightarrow> site \<Rightarrow> bool \<times> site" where
  "RedemptionRepo_CreateBatch w rs s =
     (if sw_fails w InsertCodes then (False, s)
      else if codes_conflict rs s then (False, bump_by TCodes (length rs) s)
      else (True, (bump_by TCodes (length rs) s)\<lparr>core := (core s)\<lparr>redemptions := redemptions (core s) @ numbered_rows (next_id TCodes s) rs\<rparr>\<rparr>))"

fun redemption_status_str :: "RedemptionStatus \<Rightarrow> string" where
  "redemption_status_str RedemptionUnused = ''unused''"
| "redemption_status_str RedemptionUsed = ''used''"
| "redemption_status_str RedemptionDisabled = ''disabled''"
| "redemption_status_str RedemptionExpired = ''expired''"

record RedemptionListFilter =
  cf_Keyword :: string
  cf_Status :: string
  cf_BatchID :: string
  cf_Page :: int
  cf_PageSize :: int

definition code_matches :: "site_world \<Rightarrow> RedemptionListFilter \<Rightarrow> row_id \<times> redemption_row \<Rightarrow> bool" where
  "code_matches w f ir \<longleftrightarrow> (case ir of (i, r) \<Rightarrow>
     (cf_Keyword f \<noteq> [] \<longrightarrow> like w (cf_Keyword f) (r_name r))
     \<and> (if cf_Status f = [] then True
        else if cf_Status f = ''expired'' then r_status r = RedemptionUnused \<and> (case r_expiresAt r of None \<Rightarrow> False | Some t \<Rightarrow> t \<le> sw_now w)
        else if cf_Status f = ''unused'' then r_status r = RedemptionUnused \<and> (case r_expiresAt r of None \<Rightarrow> True | Some t \<Rightarrow> t > sw_now w)
        else redemption_status_str (r_status r) = cf_Status f)
     \<and> (cf_BatchID f \<noteq> [] \<longrightarrow> r_batchID r = cf_BatchID f))"

definition withEffectiveStatus :: "site_world \<Rightarrow> row_id \<times> redemption_row \<Rightarrow> row_id \<times> redemption_row \<times> RedemptionStatus" where
  "withEffectiveStatus w ir = (case ir of (i, r) \<Rightarrow> (i, r, EffectiveRedemptionStatus (r_status r) (r_expiresAt r) (sw_now w)))"

definition RedemptionRepo_List :: "site_world \<Rightarrow> RedemptionListFilter \<Rightarrow> site
    \<Rightarrow> ((row_id \<times> redemption_row \<times> RedemptionStatus) list \<times> int) option" where
  "RedemptionRepo_List w f s =
     (if sw_fails w QCodeList then None
      else let found = filter (code_matches w f) (newest_first fst (redemptions (core s)))
           in case NormalizePagination (cf_Page f) (cf_PageSize f) of (page, pageSize) \<Rightarrow>
              Some (map (withEffectiveStatus w) (page_of page pageSize found), int (length found)))"

definition RedemptionRepo_SetStatus :: "site_world \<Rightarrow> row_id \<Rightarrow> RedemptionStatus \<Rightarrow> site \<Rightarrow> bool \<times> site" where
  "RedemptionRepo_SetStatus w i st s =
     (if sw_fails w UpdateCode then (False, s)
      else case tbl_get (redemptions (core s)) i of
        None \<Rightarrow> (False, s)
      | Some r \<Rightarrow> if r_status r = RedemptionUsed then (False, s)
          else (True, s\<lparr>core := (core s)\<lparr>redemptions := tbl_upd (\<lambda>r. r\<lparr>r_status := st\<rparr>) i (redemptions (core s))\<rparr>\<rparr>))"

definition redemptionCodePrefix :: string where "redemptionCodePrefix = ''tzr-''"

definition newRedemptionCode :: "site_world \<Rightarrow> nat \<Rightarrow> string option" where
  "newRedemptionCode w n = map_option (\<lambda>raw. redemptionCodePrefix @ sw_base64 w raw) (sw_rand w n)"

record redemptionBatchRequest =
  rq_count :: int
  rq_credits :: credits
  rq_name :: string
  rq_expiresAt :: "go_time option"

definition read_code_batch :: "site_world \<Rightarrow> jobj \<Rightarrow> redemptionBatchRequest option" where
  "read_code_batch w fs =
     (case (rd_int fs ''count'', rd_int fs ''credits'', rd_str fs ''name'',
            rd_opt fs ''expires_at'' (\<lambda>v. case v of JStr t \<Rightarrow> sw_time w t | _ \<Rightarrow> None)) of
        (Some n, Some c, Some t, Some x) \<Rightarrow> Some \<lparr>rq_count = n, rq_credits = c, rq_name = t, rq_expiresAt = x\<rparr>
      | _ \<Rightarrow> None)"

definition code_row :: "site_world \<Rightarrow> redemptionBatchRequest \<Rightarrow> string \<Rightarrow> redemption_row" where
  "code_row w r code = \<lparr>r_batchID = sw_stamp w (sw_now w), r_codeHash = sw_sha w code, r_name = rq_name r, r_credits = rq_credits r,
     r_status = RedemptionUnused, r_usedByUserID = None, r_redeemedAt = None, r_expiresAt = rq_expiresAt r\<rparr>"

definition code_batch_audit :: "site_world \<Rightarrow> redemptionBatchRequest \<Rightarrow> audit_entry" where
  "code_batch_audit w r = audit_done ''redemption.batch_create'' ''redemption'' 0 (sw_stamp w (sw_now w)) []
     [(''batch_id'', av_str (sw_stamp w (sw_now w))), (''count'', av_int (rq_count r)), (''credits'', av_int (rq_credits r)),
      (''name'', av_str (rq_name r)),
      (''expires_at'', AV (case rq_expiresAt r of None \<Rightarrow> JNull | Some t \<Rightarrow> JStr (sw_timeText w t)))]"

definition handleAdminCreateRedemptions :: "site_world \<Rightarrow> handler" where
  "handleAdminCreateRedemptions w cx = with_body w (read_code_batch w) (\<lambda>r s.
     if rq_count r < 1 \<or> rq_count r > 1000 then fail 400 msg_site_code_count s
     else if rq_credits r \<le> 0 then fail 400 msg_site_code_credits s
     else case all_some (map (newRedemptionCode w) [0..<nat (rq_count r)]) of
       None \<Rightarrow> fail 500 msg_site_code_made s
     | Some codes \<Rightarrow>
       (case RedemptionRepo_CreateBatch w (map (code_row w r) codes) s of
          (False, s) \<Rightarrow> fail 500 msg_site_codes_failed s
        | (True, s) \<Rightarrow> (Created (PNewCodes (sw_stamp w (sw_now w)) codes), Audit_Record w cx (code_batch_audit w r) s)))"

definition handleAdminListRedemptions :: "site_world \<Rightarrow> handler" where
  "handleAdminListRedemptions w cx s =
     (case RedemptionRepo_List w \<lparr>cf_Keyword = sw_query w ''keyword'', cf_Status = sw_query w ''status'', cf_BatchID = sw_query w ''batch_id'',
         cf_Page = fst (PageParams (sw_query w)), cf_PageSize = snd (PageParams (sw_query w))\<rparr> s of
        None \<Rightarrow> fail 500 msg_site_code_list s
      | Some (rows, n) \<Rightarrow> answer_with (PCodes (NewPage (PageParams (sw_query w)) n rows)) s)"

definition settable_status :: "string \<Rightarrow> RedemptionStatus option" where
  "settable_status t = (if t = ''unused'' then Some RedemptionUnused else if t = ''disabled'' then Some RedemptionDisabled else None)"

definition handleAdminSetRedemptionStatus :: "site_world \<Rightarrow> handler" where
  "handleAdminSetRedemptionStatus w cx = with_id w ''id'' (\<lambda>i. with_body w (\<lambda>fs. rd_str fs ''status'') (\<lambda>t s.
     case settable_status t of
       None \<Rightarrow> fail 400 msg_site_code_status s
     | Some st \<Rightarrow>
       (case RedemptionRepo_SetStatus w i st s of
          (False, s) \<Rightarrow> fail 404 msg_site_no_code s
        | (True, s) \<Rightarrow> answer_with NoData (Audit_Record w cx (audit_done ''redemption.status_change'' ''redemption'' i [] [] [(''status'', av_str t)]) s))))"

end
