(* ===== verification/Routes.thy ===== *)
theory Routes
  imports Keys Vouchers
begin

text \<open>
  The routes under \<^verbatim>\<open>/api\<close> (\<^verbatim>\<open>api/router.go\<close>): each group of the router is a bucket with its middleware, and a list of
  methods, paths and handlers. The handlers that only read reports, the catalogue, the settings and the like are not
  modelled; they are an argument, \<open>other\<close>, by their names. The router of \<^verbatim>\<open>chi\<close> chooses the path that fits a
  request; a path is therefore named by its pattern.
\<close>

section \<open>Buckets\<close>

datatype bucket = Public | SelfService | Personal | AdminBucket string

fun guarded :: "site_world \<Rightarrow> bucket \<Rightarrow> handler \<Rightarrow> handler" where
  "guarded w Public h = h"
| "guarded w SelfService h = RequireRole w ''user'' h"
| "guarded w Personal h = RequireRole w ''user'' (RequirePasswordChanged h)"
| "guarded w (AdminBucket least) h = AdminAuth w (RequirePasswordChanged (RequireAtLeast least h))"

section \<open>The table\<close>

type_synonym route = "string \<times> string \<times> handler"

text \<open>Open to anyone.\<close>

definition public_routes :: "site_world \<Rightarrow> (string \<Rightarrow> handler) \<Rightarrow> route list" where
  "public_routes w other = [
     (''POST'', ''/api/auth/login'', handleLogin w),
     (''POST'', ''/api/auth/logout'', handleLogout w),
     (''POST'', ''/api/auth/register'', handleRegister w),
     (''GET'', ''/api/site/config'', other ''handleSiteConfig'')]"

text \<open>For a logged-in user, also before the first change of the password.\<close>

definition self_routes :: "site_world \<Rightarrow> (string \<Rightarrow> handler) \<Rightarrow> route list" where
  "self_routes w other = [
     (''GET'', ''/api/auth/me'', handleMe w),
     (''PUT'', ''/api/auth/password'', handleChangePassword w),
     (''PUT'', ''/api/auth/profile'', handleUpdateProfile w)]"

text \<open>For a logged-in user with a password of their own.\<close>

definition personal_routes :: "site_world \<Rightarrow> (string \<Rightarrow> handler) \<Rightarrow> route list" where
  "personal_routes w other = [
     (''GET'', ''/api/me/balance'', handleMeBalance w),
     (''POST'', ''/api/me/redeem'', handleMeRedeem w),
     (''GET'', ''/api/me/ledger'', handleMeListLedger w),
     (''GET'', ''/api/me/usage-logs'', other ''handleMeListUsageLogs''),
     (''GET'', ''/api/me/usage-logs/detail'', other ''handleMeGetUsageLog''),
     (''GET'', ''/api/me/usage-logs/export'', other ''handleMeExportUsageLogs''),
     (''GET'', ''/api/me/usage-summary'', other ''handleMeUsageSummary''),
     (''GET'', ''/api/me/usage-daily'', other ''handleMeUsageDaily''),
     (''GET'', ''/api/me/cache-report'', other ''handleMeCacheReport''),
     (''GET'', ''/api/me/token-report'', other ''handleMeTokenReport''),
     (''GET'', ''/api/me/heatmap'', other ''handleMeHeatmap''),
     (''GET'', ''/api/me/service-status'', other ''handleMeServiceStatus''),
     (''GET'', ''/api/me/models'', other ''handlePublicModels''),
     (''GET'', ''/api/me/keys/'', handleMeListKeys w),
     (''POST'', ''/api/me/keys/'', handleMeCreateKey w),
     (''GET'', ''/api/me/keys/{id}'', handleMeGetKey w),
     (''PUT'', ''/api/me/keys/{id}'', handleMeUpdateKey w),
     (''DELETE'', ''/api/me/keys/{id}'', handleMeDeleteKey w),
     (''GET'', ''/api/dept/departments'', other ''handleDeptListDepartments''),
     (''GET'', ''/api/dept/budget'', other ''handleDeptBudget''),
     (''GET'', ''/api/dept/cost-report'', other ''handleDeptCostReport''),
     (''GET'', ''/api/dept/members'', other ''handleDeptMembers'')]"

text \<open>For the operators of the server.\<close>

definition operator_routes :: "site_world \<Rightarrow> (string \<Rightarrow> handler) \<Rightarrow> route list" where
  "operator_routes w other = [
     (''GET'', ''/api/admin/channels/'', other ''handleAdminListChannels''),
     (''POST'', ''/api/admin/channels/'', other ''handleAdminCreateChannel''),
     (''GET'', ''/api/admin/channels/{id}'', other ''handleAdminGetChannel''),
     (''PUT'', ''/api/admin/channels/{id}'', other ''handleAdminUpdateChannel''),
     (''DELETE'', ''/api/admin/channels/{id}'', other ''handleAdminDeleteChannel''),
     (''PUT'', ''/api/admin/channels/{id}/status'', other ''handleAdminSetChannelStatus''),
     (''POST'', ''/api/admin/channels/{id}/test'', other ''handleAdminTestChannel''),
     (''GET'', ''/api/admin/channels/{id}/costs'', other ''handleAdminGetChannelCosts''),
     (''PUT'', ''/api/admin/channels/{id}/costs'', other ''handleAdminSetChannelCosts''),
     (''GET'', ''/api/admin/models/'', other ''handleAdminListModels''),
     (''POST'', ''/api/admin/models/'', other ''handleAdminCreateModel''),
     (''POST'', ''/api/admin/models/import'', other ''handleAdminImportModels''),
     (''POST'', ''/api/admin/models/import-remote'', other ''handleAdminImportRemote''),
     (''GET'', ''/api/admin/models/pricing-presets'', other ''handleAdminPricingPresets''),
     (''GET'', ''/api/admin/models/{id}'', other ''handleAdminGetModel''),
     (''PUT'', ''/api/admin/models/{id}'', other ''handleAdminUpdateModel''),
     (''DELETE'', ''/api/admin/models/{id}'', other ''handleAdminDeleteModel''),
     (''PUT'', ''/api/admin/models/{id}/price'', other ''handleAdminSetModelPrice''),
     (''PUT'', ''/api/admin/models/{id}/peak-rules'', other ''handleAdminSetPeakRules''),
     (''GET'', ''/api/admin/models/{id}/channel-costs'', other ''handleAdminModelChannelCosts''),
     (''GET'', ''/api/admin/redemptions/'', handleAdminListRedemptions w),
     (''POST'', ''/api/admin/redemptions/batch'', handleAdminCreateRedemptions w),
     (''PUT'', ''/api/admin/redemptions/{id}/status'', handleAdminSetRedemptionStatus w),
     (''GET'', ''/api/admin/alerts/'', other ''handleAdminListAlerts''),
     (''POST'', ''/api/admin/alerts/test'', other ''handleAdminTestAlert''),
     (''POST'', ''/api/admin/users/import'', handleAdminImportUsers w),
     (''POST'', ''/api/admin/users/batch-status'', handleAdminBatchSetUserStatus w),
     (''POST'', ''/api/admin/credits/batch-grant'', handleAdminBatchGrantCredits w),
     (''GET'', ''/api/admin/setup-status'', other ''handleAdminSetupStatus''),
     (''GET'', ''/api/admin/stats/profit'', other ''handleAdminProfit''),
     (''GET'', ''/api/admin/stats/overview'', other ''handleAdminStatsOverview'')]"

text \<open>For the operators and, within their integration, service tokens.\<close>

definition managed_routes :: "site_world \<Rightarrow> (string \<Rightarrow> handler) \<Rightarrow> route list" where
  "managed_routes w other = [
     (''GET'', ''/api/admin/users/'', handleAdminListUsers w),
     (''POST'', ''/api/admin/users/'', handleAdminCreateUser w),
     (''GET'', ''/api/admin/users/external/{ref}'', handleAdminGetUserByExternalRef w),
     (''GET'', ''/api/admin/users/{id}'', handleAdminGetUser w),
     (''PUT'', ''/api/admin/users/{id}'', handleAdminUpdateUser w),
     (''DELETE'', ''/api/admin/users/{id}'', handleAdminDeleteUser w),
     (''POST'', ''/api/admin/users/{id}/status'', handleAdminSetUserStatus w),
     (''POST'', ''/api/admin/users/{id}/reset-password'', handleAdminResetPassword w),
     (''GET'', ''/api/admin/users/{id}/keys'', handleAdminListUserKeys w),
     (''POST'', ''/api/admin/users/{id}/keys'', handleAdminCreateUserKey w),
     (''PUT'', ''/api/admin/users/{id}/keys/{key_id}'', handleAdminUpdateUserKey w),
     (''DELETE'', ''/api/admin/users/{id}/keys/{key_id}'', handleAdminDeleteUserKey w),
     (''POST'', ''/api/admin/users/{id}/credits'', handleAdminGrantCredits w),
     (''GET'', ''/api/admin/departments/'', handleAdminListDepartments w),
     (''POST'', ''/api/admin/departments/'', handleAdminCreateDepartment w),
     (''GET'', ''/api/admin/departments/external/{ref}'', handleAdminGetDepartmentByExternalRef w),
     (''GET'', ''/api/admin/departments/{id}'', handleAdminGetDepartment w),
     (''PUT'', ''/api/admin/departments/{id}'', handleAdminUpdateDepartment w),
     (''DELETE'', ''/api/admin/departments/{id}'', handleAdminDeleteDepartment w),
     (''POST'', ''/api/admin/departments/{id}/members'', handleAdminSetDepartmentMembers w),
     (''GET'', ''/api/admin/projects/'', handleAdminListProjects w),
     (''POST'', ''/api/admin/projects/'', handleAdminCreateProject w),
     (''GET'', ''/api/admin/projects/external/{ref}'', handleAdminGetProjectByExternalRef w),
     (''GET'', ''/api/admin/projects/{id}'', handleAdminGetProject w),
     (''PUT'', ''/api/admin/projects/{id}'', handleAdminUpdateProject w),
     (''DELETE'', ''/api/admin/projects/{id}'', handleAdminDeleteProject w),
     (''GET'', ''/api/admin/ledger'', handleAdminListLedger w),
     (''GET'', ''/api/admin/usage-logs'', other ''handleAdminListUsageLogs''),
     (''GET'', ''/api/admin/usage-logs/detail'', other ''handleAdminGetUsageLog''),
     (''GET'', ''/api/admin/usage-logs/export'', other ''handleAdminExportUsageLogs''),
     (''GET'', ''/api/admin/audit-logs/'', other ''handleAdminListAuditLogs''),
     (''GET'', ''/api/admin/audit-logs/actions'', other ''handleAdminAuditActions''),
     (''GET'', ''/api/admin/stats/cost-report'', other ''handleAdminCostReport''),
     (''GET'', ''/api/admin/stats/department-budget'', other ''handleAdminDepartmentBudget''),
     (''GET'', ''/api/admin/stats/project-budget'', other ''handleAdminProjectBudget''),
     (''GET'', ''/api/admin/stats/usage-daily'', other ''handleAdminUsageDaily''),
     (''GET'', ''/api/admin/stats/calendar'', other ''handleAdminCalendar''),
     (''GET'', ''/api/admin/stats/cache-report'', other ''handleAdminCacheReport''),
     (''GET'', ''/api/admin/stats/runtime'', other ''handleAdminRuntime''),
     (''GET'', ''/api/admin/stats/heatmap'', other ''handleAdminHeatmap''),
     (''GET'', ''/api/admin/stats/health-timeline'', other ''handleAdminHealthTimeline''),
     (''GET'', ''/api/admin/stats/ops-summary'', other ''handleAdminOpsSummary''),
     (''GET'', ''/api/admin/stats/cost-by-calltype'', other ''handleAdminCostByCallType'')]"

text \<open>For the root account.\<close>

definition root_routes :: "site_world \<Rightarrow> (string \<Rightarrow> handler) \<Rightarrow> route list" where
  "root_routes w other = [
     (''GET'', ''/api/admin/settings'', other ''handleAdminGetSettings''),
     (''PUT'', ''/api/admin/settings'', other ''handleAdminUpdateSetting''),
     (''GET'', ''/api/admin/integrations/'', handleAdminListIntegrations w),
     (''POST'', ''/api/admin/integrations/'', handleAdminCreateIntegration w),
     (''POST'', ''/api/admin/integrations/{id}/service-tokens'', handleAdminCreateServiceToken w),
     (''GET'', ''/api/admin/integrations/{id}/service-tokens'', handleAdminListServiceTokens w),
     (''POST'', ''/api/admin/integrations/{id}/disable'', handleAdminDisableIntegration w),
     (''GET'', ''/api/admin/integrations/{id}'', handleAdminGetIntegration w),
     (''PUT'', ''/api/admin/integrations/{id}'', handleAdminUpdateIntegration w),
     (''PUT'', ''/api/admin/integrations/{id}/service-tokens/{token_id}/status'', handleAdminSetServiceTokenStatus w),
     (''DELETE'', ''/api/admin/integrations/{id}/service-tokens/{token_id}'', handleAdminDeleteServiceToken w)]"

definition api_routes :: "site_world \<Rightarrow> (string \<Rightarrow> handler) \<Rightarrow> (bucket \<times> route list) list" where
  "api_routes w other = [(Public, public_routes w other), (SelfService, self_routes w other), (Personal, personal_routes w other),
     (AdminBucket ''admin'', operator_routes w other), (AdminBucket ''managed'', managed_routes w other), (AdminBucket ''root'', root_routes w other)]"

fun find_route :: "string \<Rightarrow> string \<Rightarrow> (bucket \<times> route list) list \<Rightarrow> (bucket \<times> handler) option" where
  "find_route m p [] = None"
| "find_route m p ((b, rs) # bs) = (case List.find (\<lambda>(m', p', h). m' = m \<and> p' = p) rs of
     Some (_, _, h) \<Rightarrow> Some (b, h) | None \<Rightarrow> find_route m p bs)"

definition empty_context :: request_context where
  "empty_context = \<lparr>cx_user = None, cx_scope = 0\<rparr>"

text \<open>
  What the server answers to a request for a path under \<^verbatim>\<open>/api\<close>, and what becomes of its state. The other paths the router
  serves are no part of \<open>serve\<close>: the relay's, whose handlers are in the theory Entry, and \<^verbatim>\<open>/healthz\<close> and
  \<^verbatim>\<open>/metrics\<close>, which are not modelled.
\<close>

definition serve :: "site_world \<Rightarrow> (string \<Rightarrow> handler) \<Rightarrow> string \<Rightarrow> string \<Rightarrow> site \<Rightarrow> answer" where
  "serve w other m p s = (case find_route m p (api_routes w other) of
       None \<Rightarrow> fail 404 msg_site_no_api s
     | Some (b, h) \<Rightarrow> guarded w b h empty_context s)"

end
