(* ===== verification/Effects.thy ===== *)
theory Effects
  imports Routes
begin

text \<open>
  What a request may do to the state. \<open>effect\<close> is an abstract specification of the administration: a step relation whose
  rules are the single writes the handlers make, each with the condition under which it is made. Every handler refines it:
  what it leaves behind is reached by such steps. The properties of the administration are then invariants of the
  steps. A power in \<open>ps\<close> stands for a kind of write that only some handlers make.
\<close>

datatype power = MoveMembers | GrantAny | OpenUsers | RunIntegrations | IssueCodes | OwnAccount | CountTries | EnterLogin | LeaveLogin

definition manages :: "request_context \<Rightarrow> site \<Rightarrow> row_id \<Rightarrow> bool" where
  "manages cx s i \<longleftrightarrow> (\<exists>u. load_user s i = Some u \<and> canManage (CurrentUser cx) (Some u))"

definition is_self :: "request_context \<Rightarrow> row_id \<Rightarrow> bool" where
  "is_self cx i \<longleftrightarrow> (\<exists>u. CurrentUser cx = Some u \<and> us_ID u = i)"

definition may_touch :: "power set \<Rightarrow> request_context \<Rightarrow> site \<Rightarrow> row_id \<Rightarrow> bool" where
  "may_touch ps cx s i \<longleftrightarrow> manages cx s i \<or> (OwnAccount \<in> ps \<and> is_self cx i)"

text \<open>The fields an administrator sets of another's account, and those one sets of one's own.\<close>

fun field_allowed :: "request_context \<Rightarrow> row_id \<Rightarrow> user_field \<Rightarrow> bool" where
  "field_allowed cx i (URole r) \<longleftrightarrow> role_Valid r \<and> actor_role cx = ''root'' \<and> i \<noteq> actor_of cx"
| "field_allowed cx i (UMustChange b) \<longleftrightarrow> b"
| "field_allowed cx i _ \<longleftrightarrow> True"

fun own_field :: "user_field \<Rightarrow> bool" where
  "own_field (UDisplayName x) \<longleftrightarrow> True"
| "own_field (UEmail x) \<longleftrightarrow> True"
| "own_field (UPassword x) \<longleftrightarrow> True"
| "own_field (UMustChange b) \<longleftrightarrow> \<not> b"
| "own_field _ \<longleftrightarrow> False"

definition key_edit :: "(api_key_row \<Rightarrow> api_key_row) \<Rightarrow> bool" where
  "key_edit f \<longleftrightarrow> (\<forall>k. k_userID (f k) = k_userID k \<and> k_keyHash (f k) = k_keyHash k \<and> k_credit_used (f k) = k_credit_used k)"

definition created_by :: "request_context \<Rightarrow> user_row \<Rightarrow> bool" where
  "created_by cx u \<longleftrightarrow> u_integrationID u = ScopeIntegrationID cx \<and> (u_role u = ''user'' \<or> actor_role cx = ''root'')"

text \<open>The writes that leave users, keys and the ledger alone.\<close>

inductive quiet :: "power set \<Rightarrow> site_world \<Rightarrow> request_context \<Rightarrow> site \<Rightarrow> site \<Rightarrow> bool"
  for ps :: "power set" and w :: site_world and cx :: request_context where
  q_audited: "quiet ps w cx s (s\<lparr>audits := audits s @ [audit_log_of w cx e]\<rparr>)"
| q_numbered: "quiet ps w cx s (bump t s)"
| q_counted: "quiet ps w cx s (bump_by t n s)"
| q_flagged: "quiet ps w cx s (s\<lparr>core := (core s)\<lparr>tx_aborted := b\<rparr>\<rparr>)"
| q_remembered: "ir_integrationID r = ScopeIntegrationID cx \<Longrightarrow> quiet ps w cx s (s\<lparr>idempotency := idempotency s @ [r]\<rparr>)"
| q_asked: "CountTries \<in> ps \<Longrightarrow> quiet ps w cx s (s\<lparr>limiter := l, loginLock := k\<rparr>)"
| q_entered: "EnterLogin \<in> ps \<or> is_self cx i \<and> may_touch ps cx s i \<Longrightarrow>
     quiet ps w cx s (s\<lparr>sessions := tbl_upsert i (\<lambda>_. i) (sw_newSession w) (tbl_del (sw_cookie w) (sessions s))\<rparr>)"
| q_left: "LeaveLogin \<in> ps \<Longrightarrow> quiet ps w cx s (s\<lparr>sessions := tbl_del (sw_cookie w) (sessions s)\<rparr>)"
| q_ended: "may_touch ps cx s i \<or> tbl_get (users (core s)) i = None \<Longrightarrow> quiet ps w cx s (s\<lparr>sessions := destroy_sessions w i (sessions s)\<rparr>)"
| q_new_department: "d_integrationID d = ScopeIntegrationID cx \<Longrightarrow> tbl_get (departments s) i = None
     \<Longrightarrow> quiet ps w cx s (s\<lparr>departments := departments s @ [(i, d)]\<rparr>)"
| q_department: "tbl_get (departments s) i = Some d \<Longrightarrow> canAccessDepartment (CurrentUser cx) d \<Longrightarrow> (\<And>x. d_integrationID (f x) = d_integrationID x)
     \<Longrightarrow> quiet ps w cx s (s\<lparr>departments := tbl_upd f i (departments s)\<rparr>)"
| q_no_department: "tbl_get (departments s) i = Some d \<Longrightarrow> canAccessDepartment (CurrentUser cx) d \<Longrightarrow> members_of i s = 0
     \<Longrightarrow> quiet ps w cx s (s\<lparr>departments := tbl_del i (departments s)\<rparr>)"
| q_new_project: "pr_integrationID p = ScopeIntegrationID cx \<Longrightarrow> tbl_get (projects s) i = None
     \<Longrightarrow> quiet ps w cx s (s\<lparr>projects := projects s @ [(i, p)]\<rparr>)"
| q_project: "tbl_get (projects s) i = Some p \<Longrightarrow> canAccessProject (CurrentUser cx) p \<Longrightarrow> (\<And>x. pr_integrationID (f x) = pr_integrationID x)
     \<Longrightarrow> quiet ps w cx s (s\<lparr>projects := tbl_upd f i (projects s)\<rparr>)"
| q_renamed: "RunIntegrations \<in> ps \<Longrightarrow> quiet ps w cx s (s\<lparr>integrations := tbl_upd (\<lambda>x. x\<lparr>in_name := name\<rparr>) i (integrations s)\<rparr>)"
| q_issued: "RunIntegrations \<in> ps \<Longrightarrow> tbl_get (integrations s) (tk_integrationID t) = Some x \<Longrightarrow> in_status x = Enabled
     \<Longrightarrow> tbl_get (serviceTokens s) i = None \<Longrightarrow> quiet ps w cx s (s\<lparr>serviceTokens := serviceTokens s @ [(i, t)]\<rparr>)"
| q_token: "RunIntegrations \<in> ps \<Longrightarrow> (\<And>x. tk_integrationID (f x) = tk_integrationID x \<and> tk_hash (f x) = tk_hash x)
     \<Longrightarrow> quiet ps w cx s (s\<lparr>serviceTokens := tbl_upd f i (serviceTokens s)\<rparr>)"

text \<open>Those that do touch them.\<close>

inductive effect :: "power set \<Rightarrow> site_world \<Rightarrow> request_context \<Rightarrow> site \<Rightarrow> site \<Rightarrow> bool"
  for ps :: "power set" and w :: site_world and cx :: request_context where
  quietly: "quiet ps w cx s t \<Longrightarrow> effect ps w cx s t"
| new_account: "created_by cx u \<Longrightarrow> (ScopeIntegrationID cx \<noteq> None \<longrightarrow> p_passwordHash p = []) \<Longrightarrow> \<not> user_conflict u p s \<Longrightarrow> credit_balance u = 0 \<Longrightarrow> u_credit_used u = 0
     \<Longrightarrow> effect ps w cx s (insert_user u p s)"
| open_account: "OpenUsers \<in> ps \<Longrightarrow> u_role u = ''user'' \<Longrightarrow> u_integrationID u = None \<Longrightarrow> \<not> user_conflict u p s \<Longrightarrow> credit_balance u = 0 \<Longrightarrow> u_credit_used u = 0
     \<Longrightarrow> effect ps w cx s (insert_user u p s)"
| own_account: "OwnAccount \<in> ps \<Longrightarrow> is_self cx i \<Longrightarrow> list_all own_field fs \<Longrightarrow> effect ps w cx s (update_users fs i s)"
| account: "manages cx s i \<Longrightarrow> list_all (field_allowed cx i) fs \<Longrightarrow> effect ps w cx s (update_users fs i s)"
| removed: "manages cx s i \<Longrightarrow> i \<noteq> actor_of cx \<Longrightarrow> \<forall>x \<in> set (ledger (core s)). le_userID x \<noteq> i \<Longrightarrow> \<forall>(r, l) \<in> set (usage_logs (core s)). ul_userID l \<noteq> i
     \<Longrightarrow> effect ps w cx s (remove_user i s)"
| granted: "manages cx s i \<or> (\<exists>u. tbl_get (users (core s)) i = Some u \<and> created_by cx u) \<or> GrantAny \<in> ps \<Longrightarrow> i64 amount
     \<Longrightarrow> effect ps w cx s (s\<lparr>core := snd (Grant e i amount a remark key (core s))\<rparr>)"
| redeemed: "OwnAccount \<in> ps \<Longrightarrow> is_self cx i \<Longrightarrow> effect ps w cx s (s\<lparr>core := snd (Redeem e i code (core s))\<rparr>)"
| codes_made: "IssueCodes \<in> ps \<Longrightarrow> \<not> codes_conflict rs s \<Longrightarrow> list_all (\<lambda>r. i64 (r_credits r)) rs \<Longrightarrow> effect ps w cx s
     ((bump_by TCodes (length rs) s)\<lparr>core := (core s)\<lparr>redemptions := redemptions (core s) @ numbered_rows (next_id TCodes s) rs\<rparr>\<rparr>)"
| code_set: "IssueCodes \<in> ps \<Longrightarrow> tbl_get (redemptions (core s)) i = Some r \<Longrightarrow> r_status r \<noteq> RedemptionUsed \<Longrightarrow> effect ps w cx s
     (s\<lparr>core := (core s)\<lparr>redemptions := tbl_upd (\<lambda>r. r\<lparr>r_status := st\<rparr>) i (redemptions (core s))\<rparr>\<rparr>)"
| moved: "MoveMembers \<in> ps \<Longrightarrow> effect ps w cx s
     (s\<lparr>core := (core s)\<lparr>users := map (\<lambda>(j, u). (j, if j \<in> set ids then u\<lparr>u_departmentID := dept\<rparr> else u)) (users (core s))\<rparr>\<rparr>)"
| no_project: "tbl_get (projects s) i = Some p \<Longrightarrow> canAccessProject (CurrentUser cx) p \<Longrightarrow> effect ps w cx s
     (s\<lparr>projects := tbl_del i (projects s), core := (core s)\<lparr>api_keys :=
          map (\<lambda>(j, k). (j, if k_projectID k = Some i then k\<lparr>k_projectID := None\<rparr> else k)) (api_keys (core s))\<rparr>\<rparr>)"
| new_key: "may_touch ps cx s (k_userID k) \<Longrightarrow> tbl_get (api_keys (core s)) (next_id TKeys s) = None \<Longrightarrow> k_credit_used k = 0
     \<Longrightarrow> \<not> list_ex (\<lambda>(j, v). k_keyHash v = k_keyHash k) (api_keys (core s))
     \<Longrightarrow> effect ps w cx s (insert_key k c s)"
| key: "load_key s i = Some x \<Longrightarrow> may_touch ps cx s (k_userID (ak_row x)) \<Longrightarrow> key_edit f \<Longrightarrow> effect ps w cx s (update_key f g i s)"
| new_integration: "RunIntegrations \<in> ps \<Longrightarrow> create_integration w x s = (r, t) \<Longrightarrow> effect ps w cx s t"
| disabled: "RunIntegrations \<in> ps \<Longrightarrow> effect ps w cx s (disable_integration i s)"

lemmas audited = q_audited [THEN quietly]
lemmas numbered = q_numbered [THEN quietly]
lemmas counted = q_counted [THEN quietly]
lemmas flagged = q_flagged [THEN quietly]
lemmas remembered = q_remembered [THEN quietly]
lemmas asked = q_asked [THEN quietly]
lemmas entered = q_entered [THEN quietly]
lemmas left = q_left [THEN quietly]
lemmas ended = q_ended [THEN quietly]
lemmas new_department = q_new_department [THEN quietly]
lemmas department = q_department [THEN quietly]
lemmas no_department = q_no_department [THEN quietly]
lemmas new_project = q_new_project [THEN quietly]
lemmas project = q_project [THEN quietly]
lemmas renamed = q_renamed [THEN quietly]
lemmas issued = q_issued [THEN quietly]
lemmas token = q_token [THEN quietly]

abbreviation effects :: "power set \<Rightarrow> site_world \<Rightarrow> request_context \<Rightarrow> site \<Rightarrow> site \<Rightarrow> bool" where
  "effects ps w cx \<equiv> (effect ps w cx)\<^sup>*\<^sup>*"

named_theorems effs \<open>the branches of a handler, down to its writes\<close>

lemma effs_trans: "effects ps w cx s t \<Longrightarrow> effect ps w cx t u \<Longrightarrow> effects ps w cx s u"
  by (rule rtranclp.rtrancl_into_rtrancl)

lemmas effs_one = r_into_rtranclp [of "effect ps w cx" for ps w cx]

section \<open>The writes of the repositories\<close>

lemma effs_audit [effs]: "effects ps w cx s t \<Longrightarrow> effects ps w cx s (Audit_Record w cx e t)"
  by (auto simp: Audit_Record_def intro: rtranclp.rtrancl_into_rtrancl audited)

lemma effs_remember [effs]: "effects ps w cx s t \<Longrightarrow> effects ps w cx s (idempotencyRemember w cx key scope i t)"
proof -
  assume a: "effects ps w cx s t"
  have "effects ps w cx s (t\<lparr>idempotency := idempotency t @ [r]\<rparr>)" if "ir_integrationID r = ScopeIntegrationID cx" for r
    using a remembered [OF that] by (rule effs_trans)
  then show ?thesis using a by (simp add: idempotencyRemember_def IdempotencyRepo_Record_def)
qed

lemma effs_end:
  "effects ps w cx s t \<Longrightarrow> may_touch ps cx t i \<or> tbl_get (users (core t)) i = None \<Longrightarrow> effects ps w cx s (DestroyUserSessions w i t)"
  by (auto simp: DestroyUserSessions_def intro: rtranclp.rtrancl_into_rtrancl ended)

lemma effs_enter:
  assumes "effects ps w cx s t" "EnterLogin \<in> ps \<or> is_self cx i \<and> may_touch ps cx t i"
  shows "effects ps w cx s (snd (LoginSession w i t))" "effects ps w cx s (relogin w i t)"
  using assms by (auto simp: LoginSession_def relogin_def intro: rtranclp.rtrancl_into_rtrancl entered)

lemma effs_leave: "effects ps w cx s t \<Longrightarrow> LeaveLogin \<in> ps \<Longrightarrow> effects ps w cx s (LogoutSession w t)"
  by (auto simp: LogoutSession_def intro: rtranclp.rtrancl_into_rtrancl left)

lemma effs_allow: "CountTries \<in> ps \<Longrightarrow> effects ps w cx s (snd (site_allow w key limit window s))"
proof -
  assume "CountTries \<in> ps"
  then have "effect ps w cx s (s\<lparr>limiter := l, loginLock := loginLock s\<rparr>)" for l by (rule asked)
  then show ?thesis by (auto simp: site_allow_def split: option.splits prod.splits)
qed

lemma effs_lock: "effects ps w cx s t \<Longrightarrow> CountTries \<in> ps \<Longrightarrow> effects ps w cx s (on_lock f t)"
proof -
  assume a: "effects ps w cx s t" and "CountTries \<in> ps"
  then have "effect ps w cx t (t\<lparr>limiter := limiter t, loginLock := map_option f (loginLock t)\<rparr>)" by (intro asked)
  then show ?thesis using a by (auto simp: on_lock_def)
qed

lemma Create_step:
  assumes "UserRepo_Create w u p s = (r, t)"
  shows "r = None \<and> (t = s \<or> t = bump TUsers s) \<or> r = Some (next_id TUsers s) \<and> t = insert_user u p s \<and> \<not> user_conflict u p s"
  using assms unfolding UserRepo_Create_def by (simp split: if_splits)

lemma users_insert [simp]:
  "tbl_get (users (core (insert_user u p s))) j = (case tbl_get (users (core s)) j of Some r \<Rightarrow> Some r
     | None \<Rightarrow> if j = next_id TUsers s then Some u else None)"
proof -
  have "users (core (insert_user u p s)) = users (core s) @ [(next_id TUsers s, u)]" by (simp add: insert_user_def Let_def bump_def)
  then show ?thesis by (simp only: tbl_get_append)
qed

lemma users_bump [simp]: "core (bump t s) = core s" "profiles (bump t s) = profiles s" "departments (bump t s) = departments s"
    "projects (bump t s) = projects s" "keyCols (bump t s) = keyCols s" "integrations (bump t s) = integrations s"
    "serviceTokens (bump t s) = serviceTokens s" "audits (bump t s) = audits s" "idempotency (bump t s) = idempotency s"
    "sessions (bump t s) = sessions s" "limiter (bump t s) = limiter s" "loginLock (bump t s) = loginLock s"
  by (simp_all add: bump_def)

lemma load_user_Some: "load_user s i = Some u \<longleftrightarrow> us_ID u = i \<and> tbl_get (users (core s)) i = Some (us_row u) \<and> us_profile u = profiles s i"
  by (cases u) (auto simp: load_user_def)

lemma load_key_Some: "load_key s i = Some k \<longleftrightarrow> ak_ID k = i \<and> tbl_get (api_keys (core s)) i = Some (ak_row k)
    \<and> k_deletedAt (ak_row k) = None \<and> ak_cols k = keyCols s i"
  by (cases k) (auto simp: load_key_def split: option.splits)

section \<open>Handlers\<close>

definition refines :: "power set \<Rightarrow> site_world \<Rightarrow> handler \<Rightarrow> bool" where
  "refines ps w h \<longleftrightarrow> (\<forall>cx s. effects ps w cx s (snd (h cx s)))"

lemma refinesI: "(\<And>cx s. effects ps w cx s (snd (h cx s))) \<Longrightarrow> refines ps w h"
  by (simp add: refines_def)

lemma answers [simp]: "snd (fail code message s) = s" "snd (answer_with d s) = s"
  by (simp_all add: fail_def answer_with_def)

text \<open>A handler is followed through its branches by these rules; what is left are the writes.\<close>

lemma effs_if [effs]: "(c \<Longrightarrow> effects ps w cx s (snd a)) \<Longrightarrow> (\<not> c \<Longrightarrow> effects ps w cx s (snd b)) \<Longrightarrow> effects ps w cx s (snd (if c then a else b))"
  by simp

lemma effs_bool [effs]: "(c \<Longrightarrow> effects ps w cx s (snd a)) \<Longrightarrow> (\<not> c \<Longrightarrow> effects ps w cx s (snd b))
    \<Longrightarrow> effects ps w cx s (snd (case c of True \<Rightarrow> a | False \<Rightarrow> b))"
  by (cases c) simp_all

lemma effs_option [effs]: "(c = None \<Longrightarrow> effects ps w cx s (snd a)) \<Longrightarrow> (\<And>x. c = Some x \<Longrightarrow> effects ps w cx s (snd (f x)))
    \<Longrightarrow> effects ps w cx s (snd (case c of None \<Rightarrow> a | Some x \<Rightarrow> f x))"
  by (cases c) simp_all

lemma effs_sum [effs]: "(\<And>x. c = Inl x \<Longrightarrow> effects ps w cx s (snd (f x))) \<Longrightarrow> (\<And>x. c = Inr x \<Longrightarrow> effects ps w cx s (snd (g x)))
    \<Longrightarrow> effects ps w cx s (snd (case c of Inl x \<Rightarrow> f x | Inr x \<Rightarrow> g x))"
  by (cases c) simp_all

lemma effs_prod [effs]: "(\<And>x y. c = (x, y) \<Longrightarrow> effects ps w cx s (snd (f x y))) \<Longrightarrow> effects ps w cx s (snd (case c of (x, y) \<Rightarrow> f x y))"
  by (cases c) simp

lemma effs_let [effs]: "(\<And>x. x = c \<Longrightarrow> effects ps w cx s (snd (f x))) \<Longrightarrow> effects ps w cx s (snd (let x = c in f x))"
  by simp

lemma effs_reply [effs]: "effects ps w cx s t \<Longrightarrow> effects ps w cx s (snd (r, t))" "effects ps w cx s t \<Longrightarrow> effects ps w cx s (snd (fail code message t))"
    "effects ps w cx s t \<Longrightarrow> effects ps w cx s (snd (answer_with d t))"
  by simp_all

lemma effs_same [effs]: "effects ps w cx s s"
  by simp

lemma effs_body [effs]: "(\<And>r fs. read fs = Some r \<Longrightarrow> effects ps w cx s (snd (k r s))) \<Longrightarrow> effects ps w cx s (snd (with_body w read k s))"
  by (auto simp: with_body_def bind_eq_Some_conv split: option.split)

lemma effs_id [effs]: "(\<And>i. effects ps w cx s (snd (k i s))) \<Longrightarrow> effects ps w cx s (snd (with_id w name k s))"
  by (simp add: with_id_def split: option.split)

lemma effs_ref [effs]: "(\<And>x. effects ps w cx s (snd (k x s))) \<Longrightarrow> effects ps w cx s (snd (with_ref w k s))"
  by (simp add: with_ref_def)

lemma effs_user [effs]: "(\<And>u. CurrentUser cx = Some u \<Longrightarrow> effects ps w cx s (snd (k u s))) \<Longrightarrow> effects ps w cx s (snd (with_user cx k s))"
  by (simp add: with_user_def split: option.split)

lemma managed_target [effs]:
  assumes "\<And>u. manages cx s (us_ID u) \<Longrightarrow> load_user s (us_ID u) = Some u \<Longrightarrow> effects ps w cx s (snd (k u cx s))"
  shows "effects ps w cx s (snd (loadManagedUser w k cx s))"
proof -
  have "effects ps w cx s (snd (k u cx s))" if "UserRepo_GetByID w i s = Some u" "canManage (CurrentUser cx) (Some u)" for i u
  proof -
    from that have "load_user s i = Some u" by (simp add: UserRepo_GetByID_def split: if_splits)
    then have "us_ID u = i" by (simp add: load_user_Some)
    with \<open>load_user s i = Some u\<close> that(2) show ?thesis by (intro assms) (auto simp: manages_def)
  qed
  then show ?thesis unfolding loadManagedUser_def by (intro effs_id) (simp split: option.split)
qed

text \<open>What an update of a user leaves.\<close>

lemma effs_update:
  assumes "UserRepo_UpdateFields w i fs s = (b, t)"
    "manages cx s i \<and> list_all (field_allowed cx i) fs \<or> OwnAccount \<in> ps \<and> is_self cx i \<and> list_all own_field fs"
  shows "effects ps w cx s t"
  using assms account [of cx s i fs ps w] own_account [of ps cx i fs w s]
  by (auto simp: UserRepo_UpdateFields_def split: if_splits)

lemma manages_update:
  assumes "manages cx s i" "list_all (field_allowed cx i) fs" "\<forall>r. URole r \<notin> set fs"
  shows "manages cx (update_users fs i s) i"
proof -
  obtain u where u: "load_user s i = Some u" "canManage (CurrentUser cx) (Some u)" using assms(1) by (auto simp: manages_def)
  have kept: "u_role (fold set_user_row fs x) = u_role x \<and> u_integrationID (fold set_user_row fs x) = u_integrationID x" for x
    using assms(3)
  proof (induction fs arbitrary: x)
    case (Cons f fs)
    then show ?case by (cases f) auto
  qed simp
  have "load_user (update_users fs i s) i = Some \<lparr>us_ID = i, us_row = fold set_user_row fs (us_row u), us_profile = fold set_user_profile fs (profiles s i)\<rparr>"
    using u(1) by (simp add: load_user_Some update_users_def tbl_get_upd)
  moreover have "canManage (CurrentUser cx) (Some \<lparr>us_ID = i, us_row = fold set_user_row fs (us_row u), us_profile = p\<rparr>)" for p
    using u(2) kept by (auto simp: canManage_def split: option.splits if_splits)
  ultimately show ?thesis by (auto simp: manages_def)
qed

end
