(* ===== verification/Refine.thy ===== *)
theory Refine
  imports Effects
begin

text \<open>
  Every handler refines the abstract administration: the state it leaves is reached by the writes of \<open>effect\<close>, each made
  under its condition. One lemma per handler that writes; a handler that only answers leaves the state alone.
\<close>

section \<open>Accounts\<close>

lemma effs_login_allowed: "CountTries \<in> ps \<Longrightarrow> login_allowed w name s = (ok, t) \<Longrightarrow> effects ps w cx s t"
proof -
  assume p: "CountTries \<in> ps" and t: "login_allowed w name s = (ok, t)"
  obtain a u where a: "site_allow w (''login:ip:'' @ sw_ip w) loginIPRatePerMin Minute s = (a, u)" by fastforce
  then have "effects ps w cx s u" using effs_allow [OF p, of w cx s "''login:ip:'' @ sw_ip w" loginIPRatePerMin Minute] by simp
  moreover have "effects ps w cx u (snd (site_allow w (''login:user:'' @ name) loginUserRatePerMin Minute u))"
    by (rule effs_allow [OF p])
  ultimately show ?thesis using t a by (auto simp: login_allowed_def split: bool.splits intro: rtranclp_trans)
qed

lemma effs_login:
  assumes "CountTries \<in> ps" "EnterLogin \<in> ps" "login_allowed w name s = (ok, t)"
  shows "effects ps w cx s t" "effects ps w cx s (on_lock f t)" "LoginSession w i (on_lock f t) = (done', u) \<Longrightarrow> effects ps w cx s u"
proof -
  show t: "effects ps w cx s t" using assms(1,3) by (rule effs_login_allowed)
  then show l: "effects ps w cx s (on_lock f t)" using assms(1) by (rule effs_lock)
  show "effects ps w cx s u" if "LoginSession w i (on_lock f t) = (done', u)"
    using effs_enter(1) [OF l, of i] assms(2) that by simp
qed

lemma refines_Login: "CountTries \<in> ps \<Longrightarrow> EnterLogin \<in> ps \<Longrightarrow> refines ps w (handleLogin w)"
  unfolding handleLogin_def by (rule refinesI) (intro effs; simp; (erule (2) effs_login))

lemma refines_Logout: "LeaveLogin \<in> ps \<Longrightarrow> refines ps w (handleLogout w)"
  by (rule refinesI) (simp add: handleLogout_def Let_def effs_audit effs_leave split: option.split)

lemma effs_create:
  assumes "effects ps w cx s u" "UserRepo_Create w r p u = (x, t)"
    "created_by cx r \<and> (ScopeIntegrationID cx \<noteq> None \<longrightarrow> p_passwordHash p = []) \<or> OpenUsers \<in> ps \<and> u_role r = ''user'' \<and> u_integrationID r = None"
    "credit_balance r = 0" "u_credit_used r = 0"
  shows "effects ps w cx s t"
proof -
  have "effect ps w cx u t \<or> t = u"
    using Create_step [OF assms(2)] numbered [of ps w cx u TUsers] open_account [of ps r p u w cx] new_account [of cx r p u ps w] assms(3-5)
    by auto
  then show ?thesis using assms(1) by (auto intro: effs_trans)
qed

lemma refines_Register: "CountTries \<in> ps \<Longrightarrow> OpenUsers \<in> ps \<Longrightarrow> refines ps w (handleRegister w)"
proof (rule refinesI)
  fix cx s
  assume p: "CountTries \<in> ps" "OpenUsers \<in> ps"
  have allow: "effects ps w cx s t" if "site_allow w key limit window s = (ok, t)" for key limit window ok s t
    using effs_allow [OF p(1), of w cx s key limit window] that by simp
  have create: "effects ps w cx s t"
    if "site_allow w key limit window s = (ok, u)" "UserRepo_Create w (new_user name [] ''user'') q u = (r, t)"
    for key limit window ok u name q r t s
    using effs_create [OF allow [OF that(1)] that(2)] p by (simp add: new_user_def)
  show "effects ps w cx s (snd (handleRegister w cx s))"
    unfolding handleRegister_def
    by (auto intro!: effs_body effs_audit simp: Let_def split: prod.split bool.split sum.split option.split elim: create allow)
qed

lemma refines_ChangePassword: "OwnAccount \<in> ps \<Longrightarrow> refines ps w (handleChangePassword w)"
proof (rule refinesI)
  fix cx s
  assume p: "OwnAccount \<in> ps"
  have step: "effects ps w cx s (relogin w (us_ID u) (DestroyUserSessions w (us_ID u) t))"
    if "CurrentUser cx = Some u" "UserRepo_UpdateFields w (us_ID u) [UPassword hash, UMustChange False] s = (b, t)" for u hash b t
  proof -
    have self: "is_self cx (us_ID u)" using that(1) by (simp add: is_self_def)
    then show ?thesis
      using effs_update [OF that(2), of cx ps] p by (intro effs_enter effs_end) (auto simp: may_touch_def)
  qed
  have upd: "effects ps w cx s t" if "CurrentUser cx = Some u" "UserRepo_UpdateFields w (us_ID u) [UPassword hash, UMustChange False] s = (b, t)" for u hash b t
    using effs_update [OF that(2), of cx ps] that(1) p by (auto simp: is_self_def)
  show "effects ps w cx s (snd (handleChangePassword w cx s))"
    unfolding handleChangePassword_def
    by (auto intro!: effs_body effs_audit split: option.split prod.split bool.split sum.split elim: upd step)
qed

lemma collect_all:
  "collect xs = Inr fs \<Longrightarrow> (\<And>gs. Inr gs \<in> set xs \<Longrightarrow> list_all p gs) \<Longrightarrow> list_all p fs"
proof (induction xs arbitrary: fs rule: collect.induct)
  case (3 gs xs)
  from "3.prems"(1) obtain hs where "collect xs = Inr hs" "fs = gs @ hs" by (simp split: sum.splits)
  then show ?case using "3.IH" [of hs] "3.prems"(2) by simp
qed simp_all

lemma given_Inr: "Inr gs = given x f \<Longrightarrow> (\<And>y gs. x = Some y \<Longrightarrow> f y = Inr gs \<Longrightarrow> list_all p gs) \<Longrightarrow> list_all p gs"
  by (cases x) (auto simp: given_def)

lemma own_profile:
  assumes "collect [given d (\<lambda>d. Inr [UDisplayName d]), given e email_field] = Inr fs"
  shows "list_all own_field fs"
proof -
  have "list_all own_field gs" if "Inr gs = given e email_field" for gs
    using that by (rule given_Inr) (auto simp: email_field_def split: if_splits)
  moreover have "list_all own_field gs" if "Inr gs = given d (\<lambda>d. Inr [UDisplayName d])" for gs
    using that by (rule given_Inr) auto
  ultimately show ?thesis using assms by (intro collect_all [OF assms]) auto
qed

lemma refines_UpdateProfile: "OwnAccount \<in> ps \<Longrightarrow> refines ps w (handleUpdateProfile w)"
proof (rule refinesI)
  fix cx s
  assume p: "OwnAccount \<in> ps"
  have upd: "effects ps w cx s t"
    if "CurrentUser cx = Some u" "collect [given d (\<lambda>d. Inr [UDisplayName d]), given e email_field] = Inr fs"
      "UserRepo_UpdateFields w (us_ID u) fs s = (b, t)" for u d e fs b t
    using effs_update [OF that(3), of cx ps] own_profile [OF that(2)] that(1) p by (auto simp: is_self_def)
  show "effects ps w cx s (snd (handleUpdateProfile w cx s))"
    unfolding handleUpdateProfile_def
    by (intro effs; (simp; fail)?; blast intro: upd)
qed

section \<open>Users\<close>

lemma effs_run_flag:
  assumes "effects ps w cx s t" "run_sql m t = (r, u)" "\<exists>b. snd (m (core t)) = (core t)\<lparr>tx_aborted := b\<rparr>"
  shows "effects ps w cx s u"
proof -
  from assms(3) obtain b where b: "snd (m (core t)) = (core t)\<lparr>tx_aborted := b\<rparr>" by blast
  then have "u = t\<lparr>core := (core t)\<lparr>tx_aborted := b\<rparr>\<rparr>" using assms(2) by (auto simp: run_sql_def split: prod.splits)
  then show ?thesis using effs_trans [OF assms(1) flagged] by simp
qed

definition flag_only :: "'a sql \<Rightarrow> bool" where
  "flag_only m \<longleftrightarrow> (\<forall>d. (snd (m d))\<lparr>tx_aborted := False\<rparr> = d\<lparr>tx_aborted := False\<rparr>)"

lemma flag_onlyD: "flag_only m \<Longrightarrow> \<exists>b. snd (m d) = d\<lparr>tx_aborted := b\<rparr>"
proof -
  assume "flag_only m"
  then have "(snd (m d))\<lparr>tx_aborted := False\<rparr> = d\<lparr>tx_aborted := False\<rparr>" by (simp add: flag_only_def)
  then have "snd (m d) = d\<lparr>tx_aborted := tx_aborted (snd (m d))\<rparr>" by (cases "snd (m d)"; cases d) simp
  then show ?thesis by blast
qed

lemma flag_exec: "(\<And>d. snd (m d) = d) \<Longrightarrow> flag_only (exec e st m)"
  by (simp add: flag_only_def exec_def stmt_error_def)

lemma flag_bind: "flag_only m \<Longrightarrow> (\<And>x. flag_only (f x)) \<Longrightarrow> flag_only (sql_bind m f)"
  unfolding flag_only_def sql_bind_def
  by (intro allI) (auto split: prod.split sum.split, metis snd_conv, metis snd_conv)

lemma flag_return: "flag_only (sql_return x)"
  by (simp add: flag_only_def sql_return_def)

lemma flag_for_type: "flag_only m \<Longrightarrow> flag_only (for_type t m)"
  unfolding flag_only_def for_type_def matching_none_def
proof (intro allI)
  fix d
  assume m: "\<forall>d. (snd (m d))\<lparr>tx_aborted := False\<rparr> = d\<lparr>tx_aborted := False\<rparr>"
  obtain r d' where d': "m (d\<lparr>ledger := []\<rparr>) = (r, d')" by fastforce
  then have "d'\<lparr>tx_aborted := False\<rparr> = d\<lparr>ledger := [], tx_aborted := False\<rparr>" using m [rule_format, of "d\<lparr>ledger := []\<rparr>"] by simp
  then have "d'\<lparr>ledger := ledger d, tx_aborted := False\<rparr> = d\<lparr>tx_aborted := False\<rparr>" by (cases d'; cases d) simp
  then show "(snd ((if t \<noteq> [] \<and> entry_type_of t = None then \<lambda>d. case m (d\<lparr>ledger := []\<rparr>) of (r, d') \<Rightarrow> (r, d'\<lparr>ledger := ledger d\<rparr>) else m) d))
      \<lparr>tx_aborted := False\<rparr> = d\<lparr>tx_aborted := False\<rparr>"
    using d' m by simp
qed

lemma flag_reads: "flag_only (ledger_List e f)" "flag_only (ListMerged e g)"
proof -
  show "flag_only (ledger_List e f)"
    unfolding ledger_List_def by (intro flag_bind flag_exec) (auto split: prod.split intro!: flag_exec)
  show "flag_only (ListMerged e g)"
    unfolding ListMerged_def by (intro flag_bind flag_exec) (auto split: prod.split intro!: flag_bind flag_exec flag_return)
qed

lemma read_flags: "\<exists>b. snd (GetByRequestEntry e rid t d) = d\<lparr>tx_aborted := b\<rparr>" "\<exists>b. snd (for_type t' (ledger_List e f) d) = d\<lparr>tx_aborted := b\<rparr>"
    "\<exists>b. snd (for_type t' (ListMerged e g) d) = d\<lparr>tx_aborted := b\<rparr>"
proof -
  have same: "\<exists>b. d = d\<lparr>tx_aborted := b\<rparr>" by (rule exI [of _ "tx_aborted d"]) simp
  have true: "\<exists>b. d\<lparr>tx_aborted := True\<rparr> = d\<lparr>tx_aborted := b\<rparr>" by blast
  show "\<exists>b. snd (GetByRequestEntry e rid t d) = d\<lparr>tx_aborted := b\<rparr>"
    using same true by (simp add: GetByRequestEntry_def exec_def stmt_error_def split: option.split)
  show "\<exists>b. snd (for_type t' (ledger_List e f) d) = d\<lparr>tx_aborted := b\<rparr>" "\<exists>b. snd (for_type t' (ListMerged e g) d) = d\<lparr>tx_aborted := b\<rparr>"
    by (rule flag_onlyD, rule flag_for_type, rule flag_reads)+
qed

definition may_grant :: "power set \<Rightarrow> request_context \<Rightarrow> site \<Rightarrow> row_id \<Rightarrow> bool" where
  "may_grant ps cx s i \<longleftrightarrow> manages cx s i \<or> (\<exists>u. tbl_get (users (core s)) i = Some u \<and> created_by cx u) \<or> GrantAny \<in> ps"

lemma effs_grant:
  assumes "effects ps w cx s t" "run_sql (Grant e i amount a remark key) t = (r, u)" "may_grant ps cx t i" "i64 amount"
  shows "effects ps w cx s u"
proof -
  have "u = t\<lparr>core := snd (Grant e i amount a remark key (core t))\<rparr>" using assms(2) by (auto simp: run_sql_def split: prod.splits)
  then show ?thesis using assms(1,3,4) granted [of cx t i ps amount w e a remark key] effs_trans by (auto simp: may_grant_def)
qed

lemma effs_grantCredits:
  assumes "grantCredits w n i amount a remark key t = (r, u)" "effects ps w cx s t" "may_grant ps cx t i" "i64 amount"
  shows "effects ps w cx s u"
proof -
  obtain x v where g: "run_sql (Grant (sw_env w n) i amount a remark key) t = (x, v)" by fastforce
  have v: "effects ps w cx s v" using assms(2) g assms(3,4) by (rule effs_grant)
  show ?thesis
  proof (cases x)
    case (Inr entry)
    then show ?thesis using assms(1) g v by (simp add: grantCredits_def)
  next
    case (Inl e)
    obtain y z where z: "run_sql (GetByRequestEntry (sw_env w n) (AdminRequestID key) (if amount < 0 then LedgerRevoke else LedgerGrant)) v = (y, z)" by fastforce
    have "effects ps w cx s z" using v z read_flags(1) by (rule effs_run_flag)
    then show ?thesis using assms(1) g v z Inl by (auto simp: grantCredits_def split: sum.splits if_splits)
  qed
qed

lemma refines_ListLedger: "refines ps w (handleAdminListLedger w)"
proof (rule refinesI)
  fix cx s
  show "effects ps w cx s (snd (handleAdminListLedger w cx s))"
    unfolding handleAdminListLedger_def by (intro effs; (simp; fail)?; (rule effs_run_flag, rule effs_same, assumption, rule read_flags))
qed

text \<open>An amount that was read is a 64-bit number.\<close>

lemma rd_int_i64: "rd_int fs k = Some n \<Longrightarrow> i64 n"
  by (auto simp: rd_int_def rat_int64_def i64_def MinInt64_def MaxInt64_def split: option.splits json.splits if_splits)

lemma read_i64:
  "read_grant fs = Some g \<Longrightarrow> i64 (gr_amount g)"
  "read_batch_grant fs = Some b \<Longrightarrow> i64 (bq_amount b)"
  "read_create_user fs = Some c \<Longrightarrow> i64 (cu_initialCredits c)"
  "read_import_item fs = Some x \<Longrightarrow> i64 (ii_initialCredits x)"
  by (auto simp: read_grant_def read_batch_grant_def read_create_user_def read_import_item_def split: option.splits dest: rd_int_i64)

lemma refines_GrantCredits: "refines ps w (handleAdminGrantCredits w)"
proof (rule refinesI)
  fix cx s
  have step: "effects ps w cx s t" if "manages cx s (us_ID u)" "grantCredits w 0 (us_ID u) (gr_amount g) a remark key s = (r, t)" "read_grant fs = Some g" for u g fs a remark key r t
    using effs_grantCredits [OF that(2) effs_same, of ps cx] that(1) read_i64(1) [OF that(3)] by (simp add: may_grant_def)
  show "effects ps w cx s (snd (handleAdminGrantCredits w cx s))"
    unfolding handleAdminGrantCredits_def by (intro effs; (simp; fail)?; blast intro: step)
qed

lemma refusal_role:
  assumes "create_refusal (actor_role cx) req = None"
  shows "created_by cx (created_user cx (trimmed_create req) dept)"
  using assms by (auto simp: create_refusal_def Let_def trimmed_create_def created_by_def created_user_def new_user_def split: if_splits)

lemma core_remember [simp]: "core (idempotencyRemember w cx key scope i s) = core s"
  by (simp add: idempotencyRemember_def IdempotencyRepo_Record_def)

lemma effs_initial_grant:
  assumes "effects ps w cx s t" "initial_grant w cx i name amount t = (b, u)" "may_grant ps cx t i" "i64 amount"
  shows "effects ps w cx s u"
proof (cases "amount \<le> 0")
  case True
  then show ?thesis using assms(1,2) by (simp add: initial_grant_def)
next
  case False
  obtain x v where g: "run_sql (Grant (sw_env w 0) i amount (actor_of cx) msg_site_initial_note []) t = (x, v)" by fastforce
  have "effects ps w cx s v" using assms(1) g assms(3,4) by (rule effs_grant)
  then show ?thesis using assms(2) False g effs_audit by (auto simp: initial_grant_def split: sum.splits)
qed

lemma effs_user_created:
  assumes "effects ps w cx s t" "tbl_get (users (core t)) (us_ID u) = Some v" "created_by cx v" "i64 (cu_initialCredits r)"
  shows "effects ps w cx s (snd (user_created w cx r made u t))"
proof -
  define t' where "t' = (if cu_idempotencyKey r = [] then t else idempotencyRemember w cx (cu_idempotencyKey r) ''user.create'' (us_ID u) t)"
  have "effects ps w cx s t'" using assms(1) by (simp add: t'_def effs_remember)
  moreover have "may_grant ps cx t' (us_ID u)" using assms(2,3) by (auto simp: t'_def may_grant_def)
  ultimately show ?thesis
    unfolding user_created_def Let_def t'_def [symmetric]
    by (cases "initial_grant w cx (us_ID u) (cu_username r) (cu_initialCredits r) t'") (auto intro: effs_initial_grant effs_audit assms(4))
qed

lemma account_passwordless: "account_password w True plain = Inr (hash, made) \<Longrightarrow> hash = []"
  by (simp add: account_password_def split: if_splits)

lemma effs_create_user:
  assumes "created_by cx (created_user cx r dept)" "account_password w (cu_passwordless r \<or> ScopeIntegrationID cx \<noteq> None) (cu_password r) = Inr (hash, made)"
    "UserRepo_Create w (created_user cx r dept) (created_profile r b hash) s = (x, t)"
  shows "effects ps w cx s t" "x = Some i \<Longrightarrow> tbl_get (users (core t)) i = Some (created_user cx r dept)"
proof -
  have "ScopeIntegrationID cx \<noteq> None \<Longrightarrow> hash = []" using assms(2) account_passwordless by simp
  then show "effects ps w cx s t"
    using assms(1) by (intro effs_create [OF effs_same assms(3)]) (auto simp: created_user_def new_user_def created_profile_def new_profile_def)
  show "tbl_get (users (core t)) i = Some (created_user cx r dept)" if "x = Some i"
    using Create_step [OF assms(3)] that by (auto simp: user_conflict_def)
qed

lemma trimmed_credits: "cu_initialCredits (trimmed_create r) = cu_initialCredits r"
  by (simp add: trimmed_create_def)

lemma refines_CreateUser: "refines ps w (handleAdminCreateUser w)"
proof (rule refinesI)
  fix cx s
  have new: "effects ps w cx s (snd (create_user w cx (trimmed_create req) s))" if a: "create_refusal (actor_role cx) req = None" and c: "i64 (cu_initialCredits req)" for req
    unfolding create_user_def Let_def
    by (intro effs effs_user_created; (simp; fail)?)
      (auto simp: refusal_role [OF a] c trimmed_credits intro: effs_create_user [OF refusal_role [OF a]])
  show "effects ps w cx s (snd (handleAdminCreateUser w cx s))"
    unfolding handleAdminCreateUser_def by (intro effs; (simp; fail)?; simp add: new read_i64(3))
qed

lemma allowed_update:
  assumes "update_user_fields w cx target r s = Inr fs"
  shows "list_all (field_allowed cx (us_ID target)) fs"
  using assms unfolding update_user_fields_def
proof (rule collect_all)
  fix gs
  assume "Inr gs \<in> set
     [given (uu_displayName r) (\<lambda>d. Inr [UDisplayName d]),
      given (uu_email r) email_field,
      given (uu_departmentID r) (\<lambda>i. case resolveDepartment w cx (Some i) s of Inl e \<Rightarrow> Inl (400, e) | Inr d \<Rightarrow> Inr [UDepartment d]),
      given (uu_allowedModels r) (\<lambda>ms. Inr [UAllowedModels ms]),
      given (uu_dailySpendLimit r) (\<lambda>l. if l < 0 then Inl (400, msg_site_negative_daily) else Inr [UDailyLimit l]),
      given (uu_role r) (role_field cx target)]"
  then show "list_all (field_allowed cx (us_ID target)) gs"
    by (simp, elim disjE)
      (erule given_Inr; (simp add: email_field_def role_field_def split: if_splits sum.splits)?; force)+
qed

lemma effs_updated:
  assumes "UserRepo_UpdateFields w i fs s = (b, t)" "manages cx s i" "list_all (field_allowed cx i) fs"
  shows "effects ps w cx s t"
  using effs_update [OF assms(1), of cx ps] assms(2,3) by simp

lemma refines_UpdateUser: "refines ps w (handleAdminUpdateUser w)"
proof (rule refinesI)
  fix cx s
  show "effects ps w cx s (snd (handleAdminUpdateUser w cx s))"
    unfolding handleAdminUpdateUser_def by (intro effs; (simp; fail)?; blast intro: effs_updated allowed_update)
qed

lemma refines_SetUserStatus: "refines ps w (handleAdminSetUserStatus w)"
proof (rule refinesI)
  fix cx s
  have upd: "effects ps w cx s t" if "UserRepo_UpdateFields w i [UStatus st] s = (b, t)" "manages cx s i" for i st b t
    using that by (rule effs_updated) simp
  show "effects ps w cx s (snd (handleAdminSetUserStatus w cx s))"
    unfolding handleAdminSetUserStatus_def by (intro effs; (simp; fail)?; blast intro: upd)
qed

lemma updated_True: "UserRepo_UpdateFields w i fs s = (b, t) \<Longrightarrow> b \<Longrightarrow> t = update_users fs i s"
  by (simp add: UserRepo_UpdateFields_def split: if_splits)

lemma refines_ResetPassword: "refines ps w (handleAdminResetPassword w)"
proof (rule refinesI)
  fix cx s
  have upd: "effects ps w cx s t"
    and gone: "b \<Longrightarrow> effects ps w cx s (DestroyUserSessions w i t)"
    and again: "b \<Longrightarrow> effects ps w cx s (if i = actor_of cx then relogin w i (DestroyUserSessions w i t) else DestroyUserSessions w i t)"
    if u: "UserRepo_UpdateFields w i ([UPassword hash] @ (if actor_of cx \<noteq> i then [UMustChange True] else [])) s = (b, t)" and m: "manages cx s i" for i hash b t
  proof -
    have f: "list_all (field_allowed cx i) ([UPassword hash] @ (if actor_of cx \<noteq> i then [UMustChange True] else []))"
      "\<forall>r. URole r \<notin> set ([UPassword hash] @ (if actor_of cx \<noteq> i then [UMustChange True] else []))" by auto
    show t: "effects ps w cx s t" using u m f(1) by (rule effs_updated)
    have touch: "may_touch ps cx t i" if b
      using manages_update [OF m f] updated_True [OF u that] by (simp add: may_touch_def)
    show d: "effects ps w cx s (DestroyUserSessions w i t)" if b
      using effs_end [OF t, of i] touch [OF that] by simp
    have "may_touch ps cx (DestroyUserSessions w i t) i" if b
      using touch [OF that] by (simp add: DestroyUserSessions_def may_touch_def manages_def load_user_def)
    then show "effects ps w cx s (if i = actor_of cx then relogin w i (DestroyUserSessions w i t) else DestroyUserSessions w i t)" if b
      using effs_enter(2) [OF d [OF that], of i] d [OF that] m that
      by (auto simp: is_self_def manages_def actor_of_def canManage_def split: option.splits)
  qed
  show "effects ps w cx s (snd (handleAdminResetPassword w cx s))"
    unfolding handleAdminResetPassword_def reset_password_def Let_def by (intro effs; (simp; fail)?; blast intro: upd again)
qed

lemma not_blocked:
  assumes "userDeletionBlocked w i s = None"
  shows "\<forall>x \<in> set (ledger (core s)). le_userID x \<noteq> i" "\<forall>(r, l) \<in> set (usage_logs (core s)). ul_userID l \<noteq> i"
  using assms by (auto simp: userDeletionBlocked_def CountByUser_def exec_def stmt_error_def UsageLogs_CountByUser_def
      filter_empty_conv split: if_splits sum.splits option.splits)

lemma tbl_get_del [tbl_simps]: "tbl_get (tbl_del k t) k' = (if k' = k then None else tbl_get t k')"
  by (induction t) (auto simp: tbl_get_def tbl_del_def)

lemma users_removed: "tbl_get (users (core (remove_user i s))) j = (if j = i then None else tbl_get (users (core s)) j)"
  by (simp add: remove_user_def tbl_get_del)

lemma refines_DeleteUser: "refines ps w (handleAdminDeleteUser w)"
proof (rule refinesI)
  fix cx s
  have del: "effects ps w cx s t" and gone: "b \<Longrightarrow> effects ps w cx s (DestroyUserSessions w i t)"
    if d: "UserRepo_Delete w i s = (b, t)" and m: "manages cx s i" "i \<noteq> actor_of cx" "userDeletionBlocked w i s = None" for i b t
  proof -
    have t: "t = s \<or> t = remove_user i s" "b \<Longrightarrow> t = remove_user i s" using d by (auto simp: UserRepo_Delete_def split: if_splits)
    show e: "effects ps w cx s t" using t(1) removed [OF m(1,2) not_blocked [OF m(3)], of ps w] by auto
    show "effects ps w cx s (DestroyUserSessions w i t)" if b
      using effs_end [OF e, of i] t(2) [OF that] users_removed [of i s i] by (simp only: if_True simp_thms)
  qed
  show "effects ps w cx s (snd (handleAdminDeleteUser w cx s))"
    unfolding handleAdminDeleteUser_def by (intro effs; (simp; fail)?; blast intro: del gone)
qed

section \<open>Batches\<close>

lemma effs_import_write:
  assumes "OpenUsers \<in> ps" "GrantAny \<in> ps" "import_write w n item a name checked t = (r, u)" "i64 (ii_initialCredits item)"
  shows "effects ps w cx t u"
proof -
  obtain hash made' dept where c: "checked = (hash, made', dept)" by (cases checked) auto
  obtain x v where v: "UserRepo_Create w ((new_user name (ii_email item) ''user'')\<lparr>u_departmentID := dept\<rparr>)
      ((new_profile hash (ii_displayName item))\<lparr>p_mustChange := True\<rparr>) t = (x, v)" by fastforce
  have e: "effects ps w cx t v" using effs_create [OF effs_same v, of cx ps] assms(1) by (simp add: new_user_def)
  have g: "effects ps w cx t y" if "run_sql (Grant (sw_env w n) i (ii_initialCredits item) a msg_site_import_note []) v = (z, y)" for i z y
    using e that by (rule effs_grant) (simp_all add: may_grant_def assms(2,4))
  show ?thesis using assms(3) c v e g
    by (auto simp: import_write_def Let_def split: option.splits if_splits prod.splits sum.splits)
qed

lemma effs_import_all:
  assumes "OpenUsers \<in> ps" "GrantAny \<in> ps"
  shows "import_all w n items d a seen t = (rs, u) \<Longrightarrow> list_all (\<lambda>x. i64 (ii_initialCredits x)) items \<Longrightarrow> effects ps w cx t u"
proof (induction items arbitrary: n seen t rs u)
  case (Cons x xs)
  obtain r seen' v where v: "importOneUser w n x d a seen t = ((r, seen'), v)" by (metis prod.collapse)
  obtain rest z where z: "import_all w (Suc n) xs d a seen' v = (rest, z)" by fastforce
  have "effects ps w cx t v"
    using v effs_import_write [OF assms] Cons.prems(2) by (auto simp: importOneUser_def Let_def split: if_splits sum.splits prod.splits)
  with Cons.IH [OF z] Cons.prems v z show ?case by (auto intro: rtranclp_trans)
qed simp

lemma rd_list_all:
  assumes "rd_list fs k f = Some xs" "\<And>gs x. f gs = Some x \<Longrightarrow> p x"
  shows "list_all p xs"
proof -
  have elem: "rd_elem f v = Some x \<Longrightarrow> p x" for v x by (cases v) (auto dest: assms(2))
  have "list_all p ys" if "all_some zs = Some ys" "set zs \<subseteq> range (rd_elem f)" for zs ys
    using that by (induction zs arbitrary: ys rule: all_some.induct) (auto dest!: elem [OF sym])
  then have "all_some (map (rd_elem f) vs) = Some ys \<Longrightarrow> list_all p ys" for vs ys by force
  then show ?thesis using assms(1) by (auto simp: rd_list_def split: option.splits json.splits)
qed

lemma read_import_i64: "read_import fs = Some r \<Longrightarrow> list_all (\<lambda>x. i64 (ii_initialCredits x)) (fst r)"
  by (auto simp: read_import_def split: option.splits intro: rd_list_all [where f = read_import_item] read_i64(4))

lemma refines_ImportUsers: "OpenUsers \<in> ps \<Longrightarrow> GrantAny \<in> ps \<Longrightarrow> refines ps w (handleAdminImportUsers w)"
proof (rule refinesI)
  fix cx s
  assume p: "OpenUsers \<in> ps" "GrantAny \<in> ps"
  show "effects ps w cx s (snd (handleAdminImportUsers w cx s))"
    unfolding handleAdminImportUsers_def
    by (intro effs effs_body; simp only: prod.case split_def; intro effs; (simp; fail)?; metis effs_import_all [OF p] read_import_i64 prod.collapse)
qed

lemma effs_grant_all:
  assumes "GrantAny \<in> ps"
    and r: "i64 (bq_amount r)"
  shows "grant_all w n r a ids t = (rs, u) \<Longrightarrow> effects ps w cx t u"
proof (induction ids arbitrary: n t rs u)
  case (Cons i js)
  obtain x v where v: "grantCredits w n i (bq_amount r) a (bq_remark r) (user_key (bq_idempotencyKey r) i) t = (x, v)" by fastforce
  obtain rest z where z: "grant_all w (Suc n) r a js v = (rest, z)" by fastforce
  have "effects ps w cx t v" using v effs_same by (rule effs_grantCredits) (simp_all add: may_grant_def assms r)
  with Cons.IH [OF z] Cons.prems v z show ?case by (auto intro: rtranclp_trans)
qed simp

lemma refines_BatchGrant: "GrantAny \<in> ps \<Longrightarrow> refines ps w (handleAdminBatchGrantCredits w)"
proof (rule refinesI)
  fix cx s
  assume p: "GrantAny \<in> ps"
  show "effects ps w cx s (snd (handleAdminBatchGrantCredits w cx s))"
    unfolding handleAdminBatchGrantCredits_def by (intro effs; (simp; fail)?; blast intro: effs_grant_all [OF p] read_i64(2))
qed

lemma effs_setOne:
  assumes "setOneUserStatus w i st cx t = (r, u)"
  shows "effects ps w cx t u"
proof -
  have "effects ps w cx t v" if "UserRepo_GetByID w i t = Some target" "canManage (CurrentUser cx) (Some target)"
      "UserRepo_UpdateFields w i [UStatus st] t = (b, v)" for target b v
  proof -
    have "manages cx t i" using that(1,2) by (auto simp: UserRepo_GetByID_def manages_def split: if_splits)
    with that(3) show ?thesis by (rule effs_updated) simp
  qed
  then show ?thesis using assms
    by (auto simp: setOneUserStatus_def Let_def split: option.splits if_splits prod.splits bool.splits)
qed

lemma effs_status_all: "status_all w st cx ids t = (rs, u) \<Longrightarrow> effects ps w cx t u"
proof (induction ids arbitrary: t rs u)
  case (Cons i js)
  obtain x v where v: "setOneUserStatus w i st cx t = (x, v)" by fastforce
  obtain rest z where z: "status_all w st cx js v = (rest, z)" by fastforce
  from Cons.IH [OF z] Cons.prems v z effs_setOne [OF v, of ps] show ?case by (auto intro: rtranclp_trans)
qed simp

lemma refines_BatchStatus: "refines ps w (handleAdminBatchSetUserStatus w)"
proof (rule refinesI)
  fix cx s
  show "effects ps w cx s (snd (handleAdminBatchSetUserStatus w cx s))"
    unfolding handleAdminBatchSetUserStatus_def by (intro effs; (simp; fail)?; blast intro: effs_status_all)
qed

section \<open>Departments and projects\<close>

lemma effs_load_department [effs]:
  "(\<And>i d. tbl_get (departments s) i = Some d \<Longrightarrow> canAccessDepartment (CurrentUser cx) d \<Longrightarrow> effects ps w cx s (snd (k i d cx s)))
    \<Longrightarrow> effects ps w cx s (snd (loadDepartment w k cx s))"
  unfolding loadDepartment_def by (intro effs) (auto simp: DepartmentRepo_GetByID_def split: if_splits)

lemma effs_load_project [effs]:
  "(\<And>i p. tbl_get (projects s) i = Some p \<Longrightarrow> canAccessProject (CurrentUser cx) p \<Longrightarrow> effects ps w cx s (snd (k i p cx s)))
    \<Longrightarrow> effects ps w cx s (snd (loadProject w k cx s))"
  unfolding loadProject_def by (intro effs) (auto simp: ProjectRepo_GetByID_def split: if_splits)

lemma effs_new_department:
  assumes "DepartmentRepo_Create w d s = (r, t)" "d_integrationID d = ScopeIntegrationID cx"
  shows "effects ps w cx s t"
proof -
  have "effect ps w cx (bump TDepartments s) ((bump TDepartments s)\<lparr>departments := departments (bump TDepartments s) @ [(next_id TDepartments s, d)]\<rparr>)"
    if "tbl_get (departments s) (next_id TDepartments s) = None"
    using assms(2) that by (intro new_department) simp_all
  then show ?thesis
    using assms(1) effs_trans [OF effs_one [OF numbered [of ps w cx s TDepartments]]] effs_one [OF numbered [of ps w cx s TDepartments]]
    by (auto simp: DepartmentRepo_Create_def split: if_splits)
qed

lemma effs_department:
  assumes "tbl_get (departments s) i = Some d" "canAccessDepartment (CurrentUser cx) d" "DepartmentRepo_Update w i (updated_department p) s = (b, t)"
  shows "effects ps w cx s t"
  using assms effs_one [OF department [OF assms(1,2), of "updated_department p" ps w]]
  by (auto simp: DepartmentRepo_Update_def updated_department_def split: if_splits)

lemma effs_no_department:
  assumes "tbl_get (departments s) i = Some d" "canAccessDepartment (CurrentUser cx) d" "DepartmentRepo_Delete w i s = (x, t)"
  shows "effects ps w cx s t"
  using assms(3) effs_one [OF no_department [OF assms(1,2), of ps w]]
  by (auto simp: DepartmentRepo_Delete_def split: if_splits)

lemma effs_delete [effs]:
  "effects ps w cx s (snd a) \<Longrightarrow> effects ps w cx s (snd b) \<Longrightarrow> effects ps w cx s (snd c)
    \<Longrightarrow> effects ps w cx s (snd (case x of Deleted \<Rightarrow> a | HasMembers \<Rightarrow> b | DeleteFailed \<Rightarrow> c))"
  by (cases x) simp_all

lemma refines_CreateDepartment: "refines ps w (handleAdminCreateDepartment w)"
proof (rule refinesI)
  fix cx s
  have new: "effects ps w cx s t" if "DepartmentRepo_Create w (created_department cx p) s = (r, t)" for p r t
    using that by (rule effs_new_department) (simp add: created_department_def)
  show "effects ps w cx s (snd (handleAdminCreateDepartment w cx s))"
    unfolding handleAdminCreateDepartment_def by (intro effs; (simp; fail)?; auto intro: new effs_remember)
qed

lemma refines_UpdateDepartment: "refines ps w (handleAdminUpdateDepartment w)"
proof (rule refinesI)
  fix cx s
  show "effects ps w cx s (snd (handleAdminUpdateDepartment w cx s))"
    unfolding handleAdminUpdateDepartment_def by (intro effs; (simp; fail)?; blast intro: effs_department)
qed

lemma refines_DeleteDepartment: "refines ps w (handleAdminDeleteDepartment w)"
proof (rule refinesI)
  fix cx s
  show "effects ps w cx s (snd (handleAdminDeleteDepartment w cx s))"
    unfolding handleAdminDeleteDepartment_def by (intro effs; (simp; fail)?; blast intro: effs_no_department)
qed

lemma refines_SetDepartmentMembers: "MoveMembers \<in> ps \<Longrightarrow> refines ps w (handleAdminSetDepartmentMembers w)"
proof (rule refinesI)
  fix cx s
  assume "MoveMembers \<in> ps"
  then have step: "effects ps w cx s t" if "AssignMembers w ids d s = (r, t)" for ids d r t
    using that effs_one [OF moved [of ps w cx s ids d]] by (auto simp: AssignMembers_def split: if_splits)
  show "effects ps w cx s (snd (handleAdminSetDepartmentMembers w cx s))"
    unfolding handleAdminSetDepartmentMembers_def by (intro effs; (simp only: split_def)?; intro effs; (simp; fail)?; metis step prod.collapse)
qed

lemma effs_new_project:
  assumes "ProjectRepo_Create w p s = (r, t)" "pr_integrationID p = ScopeIntegrationID cx"
  shows "effects ps w cx s t"
proof -
  have "effect ps w cx (bump TProjects s) ((bump TProjects s)\<lparr>projects := projects (bump TProjects s) @ [(next_id TProjects s, q)]\<rparr>)"
    if "tbl_get (projects s) (next_id TProjects s) = None" "pr_integrationID q = pr_integrationID p" for q
    using assms(2) that by (intro new_project) simp_all
  then show ?thesis
    using assms(1) effs_trans [OF effs_one [OF numbered [of ps w cx s TProjects]]] effs_one [OF numbered [of ps w cx s TProjects]]
    by (auto simp: ProjectRepo_Create_def Let_def split: if_splits)
qed

lemma effs_project:
  assumes "tbl_get (projects s) i = Some x" "canAccessProject (CurrentUser cx) x" "ProjectRepo_Update w i (updated_project p) s = (b, t)"
  shows "effects ps w cx s t"
  using assms effs_one [OF project [OF assms(1,2), of "updated_project p" ps w]]
  by (auto simp: ProjectRepo_Update_def updated_project_def split: if_splits)

lemma effs_no_project:
  assumes "tbl_get (projects s) i = Some p" "canAccessProject (CurrentUser cx) p" "ProjectRepo_Delete w i s = (b, t)"
  shows "effects ps w cx s t"
  using assms(3) effs_one [OF no_project [OF assms(1,2), of ps w]] by (auto simp: ProjectRepo_Delete_def split: if_splits)

lemma refines_CreateProject: "refines ps w (handleAdminCreateProject w)"
proof (rule refinesI)
  fix cx s
  have new: "effects ps w cx s t" if "ProjectRepo_Create w (created_project cx p) s = (r, t)" for p r t
    using that by (rule effs_new_project) (simp add: created_project_def)
  show "effects ps w cx s (snd (handleAdminCreateProject w cx s))"
    unfolding handleAdminCreateProject_def by (intro effs; (simp; fail)?; auto intro: new effs_remember)
qed

lemma refines_UpdateProject: "refines ps w (handleAdminUpdateProject w)"
proof (rule refinesI)
  fix cx s
  show "effects ps w cx s (snd (handleAdminUpdateProject w cx s))"
    unfolding handleAdminUpdateProject_def by (intro effs; (simp; fail)?; blast intro: effs_project)
qed

lemma refines_DeleteProject: "refines ps w (handleAdminDeleteProject w)"
proof (rule refinesI)
  fix cx s
  show "effects ps w cx s (snd (handleAdminDeleteProject w cx s))"
    unfolding handleAdminDeleteProject_def by (intro effs; (simp; fail)?; blast intro: effs_no_project)
qed

section \<open>Integrations\<close>

lemma effs_load_integration [effs]:
  "(\<And>i x. tbl_get (integrations s) i = Some x \<Longrightarrow> effects ps w cx s (snd (k i x s))) \<Longrightarrow> effects ps w cx s (snd (loadIntegration w k s))"
  unfolding loadIntegration_def by (intro effs) (auto simp: IntegrationRepo_GetByID_def split: if_splits)

lemma effs_load_token [effs]:
  "(\<And>t. effects ps w cx s (snd (k t s))) \<Longrightarrow> effects ps w cx s (snd (loadToken w i k j s))"
  unfolding loadToken_def by (intro effs) auto

lemma refines_CreateIntegration: "RunIntegrations \<in> ps \<Longrightarrow> refines ps w (handleAdminCreateIntegration w)"
proof (rule refinesI)
  fix cx s
  assume p: "RunIntegrations \<in> ps"
  have step: "effects ps w cx s t" if "create_integration w x s = (r, t)" for x r t
    using new_integration [OF p that] by (rule effs_one)
  show "effects ps w cx s (snd (handleAdminCreateIntegration w cx s))"
    unfolding handleAdminCreateIntegration_def by (intro effs; (simp only: split_def)?; intro effs; (simp; fail)?; metis step prod.collapse)
qed

lemma refines_UpdateIntegration: "RunIntegrations \<in> ps \<Longrightarrow> refines ps w (handleAdminUpdateIntegration w)"
proof (rule refinesI)
  fix cx s
  assume p: "RunIntegrations \<in> ps"
  have step: "effects ps w cx s t" if "IntegrationRepo_UpdateFields w i name s = (b, t)" for i name b t
    using that effs_one [OF renamed [OF p, of w cx s name i]] by (auto simp: IntegrationRepo_UpdateFields_def split: if_splits)
  show "effects ps w cx s (snd (handleAdminUpdateIntegration w cx s))"
    unfolding handleAdminUpdateIntegration_def by (intro effs; (simp; fail)?; blast intro: step)
qed

lemma refines_CreateServiceToken: "RunIntegrations \<in> ps \<Longrightarrow> refines ps w (handleAdminCreateServiceToken w)"
proof (rule refinesI)
  fix cx s
  assume p: "RunIntegrations \<in> ps"
  have step: "effects ps w cx s t"
    if t: "ServiceTokenRepo_Create w (new_token i name g) s = (r, t)" and x: "tbl_get (integrations s) i = Some x" "\<not> in_status x \<noteq> Enabled" for i name g r t x
  proof -
    have "effect ps w cx (bump TTokens s) ((bump TTokens s)\<lparr>serviceTokens := serviceTokens (bump TTokens s) @ [(next_id TTokens s, new_token i name g)]\<rparr>)"
      if "tbl_get (serviceTokens s) (next_id TTokens s) = None"
      using p x that by (intro issued) (simp_all add: new_token_def)
    then show ?thesis
      using t effs_trans [OF effs_one [OF numbered [of ps w cx s TTokens]]] effs_one [OF numbered [of ps w cx s TTokens]]
      by (auto simp: ServiceTokenRepo_Create_def split: if_splits)
  qed
  show "effects ps w cx s (snd (handleAdminCreateServiceToken w cx s))"
    unfolding handleAdminCreateServiceToken_def by (intro effs; (simp; fail)?; blast intro: step)
qed

lemma refines_SetServiceTokenStatus: "RunIntegrations \<in> ps \<Longrightarrow> refines ps w (handleAdminSetServiceTokenStatus w)"
proof (rule refinesI)
  fix cx s
  assume p: "RunIntegrations \<in> ps"
  have step: "effects ps w cx s t" if "ServiceTokenRepo_UpdateStatus w i st s = (b, t)" for i st b t
    using that effs_one [OF token [OF p, of "\<lambda>t. t\<lparr>tk_status := st\<rparr>" w cx s i]] by (auto simp: ServiceTokenRepo_UpdateStatus_def split: if_splits)
  show "effects ps w cx s (snd (handleAdminSetServiceTokenStatus w cx s))"
    unfolding handleAdminSetServiceTokenStatus_def by (intro effs; (simp; fail)?; blast intro: step)
qed

lemma refines_DeleteServiceToken: "RunIntegrations \<in> ps \<Longrightarrow> refines ps w (handleAdminDeleteServiceToken w)"
proof (rule refinesI)
  fix cx s
  assume p: "RunIntegrations \<in> ps"
  have step: "effects ps w cx s t" if "ServiceTokenRepo_Delete w i s = (b, t)" for i b t
    using that effs_one [OF token [OF p, of "\<lambda>t. t\<lparr>tk_deletedAt := Some (sw_now w)\<rparr>" w cx s i]] by (auto simp: ServiceTokenRepo_Delete_def split: if_splits)
  show "effects ps w cx s (snd (handleAdminDeleteServiceToken w cx s))"
    unfolding handleAdminDeleteServiceToken_def by (intro effs; (simp; fail)?; blast intro: step)
qed

lemma refines_DisableIntegration: "RunIntegrations \<in> ps \<Longrightarrow> refines ps w (handleAdminDisableIntegration w)"
proof (rule refinesI)
  fix cx s
  assume p: "RunIntegrations \<in> ps"
  show "effects ps w cx s (snd (handleAdminDisableIntegration w cx s))"
    unfolding handleAdminDisableIntegration_def by (intro effs; (simp; fail)?; rule effs_one [OF disabled [OF p]])
qed

section \<open>Keys\<close>

lemma may_touch_same: "users (core t) = users (core s) \<Longrightarrow> profiles t = profiles s \<Longrightarrow> may_touch ps cx t i = may_touch ps cx s i"
  by (simp add: may_touch_def manages_def load_user_def)

lemma touch_key [simp]: "may_touch ps cx (update_key f g j s) i = may_touch ps cx s i"
  by (rule may_touch_same) (simp_all add: update_key_def)

lemma touch_audit [simp]: "may_touch ps cx (Audit_Record w cx e s) i = may_touch ps cx s i" "core (Audit_Record w cx e s) = core s"
    "load_key (Audit_Record w cx e s) j = load_key s j"
  by (simp_all add: Audit_Record_def load_key_def may_touch_def manages_def load_user_def split: option.split)

lemma fields_key_edit: "key_edit (fold set_key_row fs)"
proof (induction fs)
  case (Cons f fs)
  then show ?case by (cases f) (simp_all add: key_edit_def)
qed (simp add: key_edit_def)

lemma load_key_updated:
  assumes "key_edit f" "load_key (update_key f g i s) i = Some k'" "load_key s i = Some k"
  shows "k_userID (ak_row k') = k_userID (ak_row k)"
proof -
  have "ak_row k' = f (ak_row k)" using assms(2,3) by (auto simp: load_key_Some update_key_def tbl_get_upd)
  then show ?thesis using assms(1) by (simp add: key_edit_def)
qed

lemma effs_key:
  assumes "effects ps w cx s t" "load_key t i = Some k" "may_touch ps cx t (k_userID (ak_row k))" "key_edit f"
  shows "effects ps w cx s (update_key f g i t)"
  using assms(1) key [OF assms(2-4)] by (rule effs_trans)

lemma effs_issue:
  assumes "may_touch ps cx s (us_ID owner)" "\<And>key plain t. effects ps w cx s t \<Longrightarrow> effects ps w cx s (snd (k key plain t))"
  shows "effects ps w cx s (snd (issue_key w owner integ p k s))"
proof -
  have "effects ps w cx s t" if "APIKeyRepo_Create w (new_key_row (us_ID owner) p g q) c s = (r, t)" for g q c r t
    using that effs_one [OF new_key [of ps cx s "new_key_row (us_ID owner) p g q" w c]] assms(1) effs_one [OF numbered [of ps w cx s TKeys]]
    by (auto simp: APIKeyRepo_Create_def new_key_row_def split: if_splits)
  then show ?thesis unfolding issue_key_def by (intro effs; (simp; fail)?; blast intro: assms(2))
qed

lemma effs_owned [effs]:
  "(\<And>k. load_key s i = Some k \<Longrightarrow> k_userID (ak_row k) = uid \<Longrightarrow> effects ps w cx s (snd (f k s))) \<Longrightarrow> effects ps w cx s (snd (loadOwnKey w uid i f s))"
  unfolding loadOwnKey_def by (intro effs) (auto simp: APIKeyRepo_GetByID_def split: if_splits)

lemma effs_update_owned:
  assumes "may_touch ps cx s (us_ID owner)"
  shows "effects ps w cx s (snd (update_owned_key w cx owner i r s))"
proof -
  have upd: "effects ps w cx s t"
    and again: "b \<Longrightarrow> effects ps w cx s (RestoreDepleted w i (us_ID owner) (Audit_Record w cx e t))"
    if k: "load_key s i = Some k" "k_userID (ak_row k) = us_ID owner" and t: "APIKeyRepo_UpdateFields w i (us_ID owner) fs s = (b, t)" for k fs b t e
  proof -
    note u = effs_key [OF effs_same k(1), of ps cx "fold set_key_row fs" w, unfolded k(2), OF assms fields_key_edit]
    show e: "effects ps w cx s t" using t u by (auto simp: APIKeyRepo_UpdateFields_def split: if_splits)
    show "effects ps w cx s (RestoreDepleted w i (us_ID owner) (Audit_Record w cx e t))" if b
    proof -
      have t': "t = update_key (fold set_key_row fs) (fold set_key_cols fs) i s" using t that by (auto simp: APIKeyRepo_UpdateFields_def split: if_splits)
      have a: "effects ps w cx s (Audit_Record w cx e t)" using e by (rule effs_audit)
      have "effects ps w cx s (update_key (\<lambda>k. if P k then k\<lparr>k_status := KeyEnabled\<rparr> else k) id i (Audit_Record w cx e t))"
        if l: "load_key (Audit_Record w cx e t) i = Some k'" for P k'
        using a l
      proof (rule effs_key)
        show "may_touch ps cx (Audit_Record w cx e t) (k_userID (ak_row k'))"
          using load_key_updated [OF fields_key_edit, of fs "fold set_key_cols fs" i s k' k] l k t' assms by simp
      qed (simp add: key_edit_def)
      then show ?thesis using a by (auto simp: RestoreDepleted_def owned_key_def split: option.splits)
    qed
  qed
  show ?thesis unfolding update_owned_key_def Let_def by (intro effs; (simp; fail)?; auto intro: upd again effs_audit)
qed

lemma effs_delete_owned:
  assumes "may_touch ps cx s (us_ID owner)"
  shows "effects ps w cx s (snd (delete_owned_key w cx owner i s))"
proof -
  have del: "effects ps w cx s t"
    if k: "load_key s i = Some k" "k_userID (ak_row k) = us_ID owner" and t: "APIKeyRepo_Delete w i (us_ID owner) s = (b, t)" for k b t
    using t effs_key [OF effs_same k(1), of ps cx "\<lambda>k. k\<lparr>k_deletedAt := Some (sw_now w)\<rparr>" w id] k(2) assms
    by (auto simp: APIKeyRepo_Delete_def key_edit_def split: if_splits)
  show ?thesis unfolding delete_owned_key_def by (intro effs; (simp; fail)?; blast intro: del)
qed

lemma touch_self: "OwnAccount \<in> ps \<Longrightarrow> CurrentUser cx = Some u \<Longrightarrow> may_touch ps cx s (us_ID u)"
  by (simp add: may_touch_def is_self_def)

lemma touch_managed: "manages cx s i \<Longrightarrow> may_touch ps cx s i"
  by (simp add: may_touch_def)

lemma refines_MeKeys:
  assumes "OwnAccount \<in> ps"
  shows "refines ps w (handleMeCreateKey w)" "refines ps w (handleMeUpdateKey w)" "refines ps w (handleMeDeleteKey w)"
proof -
  show "refines ps w (handleMeCreateKey w)"
    unfolding handleMeCreateKey_def by (rule refinesI) (intro effs effs_issue; (simp; fail)?; auto intro: touch_self [OF assms] effs_audit)
  show "refines ps w (handleMeUpdateKey w)"
    unfolding handleMeUpdateKey_def by (rule refinesI) (intro effs effs_update_owned; rule touch_self [OF assms])
  show "refines ps w (handleMeDeleteKey w)"
    unfolding handleMeDeleteKey_def by (rule refinesI) (intro effs effs_delete_owned; rule touch_self [OF assms])
qed

lemma refines_UserKeys: "refines ps w (handleAdminCreateUserKey w)" "refines ps w (handleAdminUpdateUserKey w)" "refines ps w (handleAdminDeleteUserKey w)"
proof -
  show "refines ps w (handleAdminCreateUserKey w)"
    unfolding handleAdminCreateUserKey_def
    by (rule refinesI) (intro effs effs_issue; (simp; fail)?; auto intro: touch_managed effs_audit effs_remember)
  show "refines ps w (handleAdminUpdateUserKey w)"
    unfolding handleAdminUpdateUserKey_def by (rule refinesI) (intro effs effs_update_owned; erule touch_managed)
  show "refines ps w (handleAdminDeleteUserKey w)"
    unfolding handleAdminDeleteUserKey_def by (rule refinesI) (intro effs effs_delete_owned; erule touch_managed)
qed

section \<open>The handlers that only read\<close>

text \<open>A handler without writes refines every choice of powers, and reaches its end by the branch rules alone.\<close>

lemma refines_reads:
  "refines ps w (handleMe w)" "refines ps w (handleAdminListUsers w)" "refines ps w (handleAdminGetUser w)" "refines ps w (handleAdminListUserKeys w)"
  "refines ps w (handleAdminListDepartments w)" "refines ps w (handleAdminGetDepartment w)" "refines ps w (handleAdminListProjects w)"
  "refines ps w (handleAdminGetProject w)" "refines ps w (handleAdminGetUserByExternalRef w)" "refines ps w (handleAdminGetDepartmentByExternalRef w)"
  "refines ps w (handleAdminGetProjectByExternalRef w)" "refines ps w (handleAdminListIntegrations w)" "refines ps w (handleAdminGetIntegration w)"
  "refines ps w (handleAdminListServiceTokens w)" "refines ps w (handleMeListKeys w)" "refines ps w (handleMeGetKey w)"
  unfolding handleMe_def handleAdminListUsers_def handleAdminGetUser_def handleAdminListUserKeys_def handleAdminListDepartments_def
    handleAdminGetDepartment_def handleAdminListProjects_def handleAdminGetProject_def handleAdminGetUserByExternalRef_def
    handleAdminGetDepartmentByExternalRef_def handleAdminGetProjectByExternalRef_def handleAdminListIntegrations_def
    handleAdminGetIntegration_def handleAdminListServiceTokens_def handleMeListKeys_def handleMeGetKey_def
  by ((rule refinesI, intro effs)+)

section \<open>Redemption codes and the own account\<close>

lemma effs_redeem:
  assumes "OwnAccount \<in> ps" "is_self cx i" "run_sql (Redeem e i code) s = (r, t)"
  shows "effects ps w cx s t"
proof -
  have "t = s\<lparr>core := snd (Redeem e i code (core s))\<rparr>" using assms(3) by (auto simp: run_sql_def split: prod.splits)
  then show ?thesis using effs_one [OF redeemed [OF assms(1,2)]] by simp
qed

lemma refines_Redeem: "OwnAccount \<in> ps \<Longrightarrow> refines ps w (handleMeRedeem w)"
proof (rule refinesI)
  fix cx s
  assume p: "OwnAccount \<in> ps"
  have step: "effects ps w cx s t" if "CurrentUser cx = Some u" "run_sql (Redeem e (us_ID u) code) s = (r, t)" for u e code r t
    using effs_redeem [OF p _ that(2)] that(1) by (simp add: is_self_def)
  show "effects ps w cx s (snd (handleMeRedeem w cx s))"
    unfolding handleMeRedeem_def by (intro effs; (simp; fail)?; blast intro: step)
qed

lemma refines_MeListLedger: "refines ps w (handleMeListLedger w)"
proof (rule refinesI)
  fix cx s
  show "effects ps w cx s (snd (handleMeListLedger w cx s))"
    unfolding handleMeListLedger_def
    by (intro effs; (simp; fail)?; (erule effs_run_flag [OF effs_same]; rule read_flags))
qed

lemma effs_codes:
  assumes "IssueCodes \<in> ps" "RedemptionRepo_CreateBatch w rs s = (b, t)" "list_all (\<lambda>r. i64 (r_credits r)) rs"
  shows "effects ps w cx s t"
  using assms codes_made [of ps rs s w cx] counted [of ps w cx s TCodes "length rs"]
  by (auto simp: RedemptionRepo_CreateBatch_def split: if_splits)

lemma refines_CreateRedemptions: "IssueCodes \<in> ps \<Longrightarrow> refines ps w (handleAdminCreateRedemptions w)"
proof (rule refinesI)
  fix cx s
  assume p: "IssueCodes \<in> ps"
  have step: "effects ps w cx s t" if "read_code_batch w fs = Some r" "RedemptionRepo_CreateBatch w (map (code_row w r) codes) s = (b, t)" for fs r codes b t
  proof -
    have "i64 (rq_credits r)" using that(1) by (auto simp: read_code_batch_def split: option.splits dest: rd_int_i64)
    then show ?thesis using effs_codes [OF p that(2)] by (simp add: list_all_iff code_row_def)
  qed
  show "effects ps w cx s (snd (handleAdminCreateRedemptions w cx s))"
    unfolding handleAdminCreateRedemptions_def by (intro effs; (simp; fail)?; blast intro: step)
qed

lemma refines_SetRedemptionStatus: "IssueCodes \<in> ps \<Longrightarrow> refines ps w (handleAdminSetRedemptionStatus w)"
proof (rule refinesI)
  fix cx s
  assume p: "IssueCodes \<in> ps"
  have step: "effects ps w cx s t" if "RedemptionRepo_SetStatus w i st s = (b, t)" for i st b t
    using that code_set [OF p, of s i _ w cx st] by (auto simp: RedemptionRepo_SetStatus_def split: if_splits option.splits)
  show "effects ps w cx s (snd (handleAdminSetRedemptionStatus w cx s))"
    unfolding handleAdminSetRedemptionStatus_def by (intro effs; (simp; fail)?; blast intro: step)
qed

lemma refines_money_reads: "refines ps w (handleMeBalance w)" "refines ps w (handleAdminListRedemptions w)"
  unfolding handleMeBalance_def handleAdminListRedemptions_def by (rule refinesI, intro effs)+

end
