(* ===== verification/Guarantees.thy ===== *)
theory Guarantees
  imports Refine
begin

text \<open>
  What no request to the administration breaks. A relation between the state before and after that every write of
  \<open>effect\<close> keeps is kept by every handler, and so by the server: the locale \<open>kept\<close> says this once, and its
  interpretations are the guarantees.
\<close>

locale kept =
  fixes R :: "request_context \<Rightarrow> site \<Rightarrow> site \<Rightarrow> bool" and ps :: "power set" and w :: site_world
    and allowed :: "request_context \<Rightarrow> bool"
  assumes same: "R cx s s"
    and chain: "R cx s t \<Longrightarrow> R cx t u \<Longrightarrow> R cx s u"
    and keeps: "allowed cx \<Longrightarrow> effect ps w cx s t \<Longrightarrow> R cx s t"
begin

lemma steps: "effects ps w cx s t \<Longrightarrow> allowed cx \<Longrightarrow> R cx s t"
proof (induction rule: rtranclp_induct)
  case (step t u)
  then show ?case using chain keeps by blast
qed (rule same)

lemma handler: "allowed cx \<Longrightarrow> refines ps w h \<Longrightarrow> R cx s (snd (h cx s))"
  by (rule steps) (simp_all add: refines_def)

end

section \<open>Tables\<close>

lemma tbl_get_in: "tbl_get t i \<noteq> None \<longleftrightarrow> i \<in> fst ` set t"
  using map_of_eq_None_iff [of t i] by (simp only: tbl_get_def) blast

lemma tbl_get_filter:
  "distinct (map fst t) \<Longrightarrow> tbl_get (filter (\<lambda>(k, v). p v) t) i = (case tbl_get t i of None \<Rightarrow> None | Some v \<Rightarrow> if p v then Some v else None)"
proof (induction t)
  case (Cons x t)
  moreover have "tbl_get t (fst x) = None" using Cons.prems tbl_get_in [of t "fst x"] by auto
  ultimately show ?case by (cases x) (auto simp: tbl_get_def split: option.split)
qed (simp add: tbl_get_def)

lemma tbl_get_map: "tbl_get (map (\<lambda>(j, v). (j, f j v)) t) i = map_option (f i) (tbl_get t i)"
  by (induction t) (auto simp: tbl_get_def)

lemma map_tbl_upd: "(\<And>v. g (f v) = g v) \<Longrightarrow> map (g \<circ> snd) (tbl_upd f i t) = map (g \<circ> snd) t"
  by (induction t rule: tbl_upd.induct [of _ f i]) auto

lemma list_all_tbl_upd: "(\<And>j v. p (j, v) \<Longrightarrow> p (j, f v)) \<Longrightarrow> list_all p t \<Longrightarrow> list_all p (tbl_upd f i t)"
  by (induction t rule: tbl_upd.induct [of _ f i]) auto

lemma ids_tbl_upd [simp]: "fst ` set (tbl_upd f i t) = fst ` set t"
  using keys_tbl_upd [of f i t] by (metis list.set_map)

section \<open>What a grant does to the tables\<close>

definition credited :: "row_id \<Rightarrow> db \<Rightarrow> db \<Rightarrow> bool" where
  "credited i d d' \<longleftrightarrow> api_keys d' = api_keys d \<and> usage_logs d' = usage_logs d
     \<and> (users d' = users d \<and> ledger d' = ledger d
        \<or> (\<exists>b x. users d' = tbl_upd (\<lambda>u. u\<lparr>credit_balance := b\<rparr>) i (users d) \<and> tbl_get (users d) i \<noteq> None
             \<and> ledger d' = ledger d @ [x] \<and> le_userID x = i))"

lemma adjusted_credited:
  assumes "applyTx e adj (c\<lparr>tx_aborted := False\<rparr>) = (Inr entry, t)" "AffectsUsed adj = False" "KeyID adj = 0"
  shows "credited (UserID adj) c (t\<lparr>tx_aborted := b\<rparr>) \<and> redemptions t = redemptions c"
  using assms(1) by (rule applyTx_Inr)
    (use assms(2,3) in \<open>auto simp: adjusted_def credited_def key_after_def new_entry_def noted_def split: option.splits\<close>)

lemma credited_same [simp]: "credited i d d"
  by (simp add: credited_def)

lemma Grant_credited: "credited i d (snd (Grant e i amount a remark key d)) \<and> redemptions (snd (Grant e i amount a remark key d)) = redemptions d"
proof (cases "amount = 0")
  case False
  obtain r d' where ap: "Apply e (grant_adjustment i amount a remark key) d = (r, d')" by fastforce
  have adj: "UserID (grant_adjustment i amount a remark key) = i" "AffectsUsed (grant_adjustment i amount a remark key) = False"
    "KeyID (grant_adjustment i amount a remark key) = 0" by (simp_all add: grant_adjustment_def zero_adjustment_def)
  have "credited i d d' \<and> redemptions d' = redemptions d"
    using ap
  proof (cases rule: Apply_cases)
    case (ok entry t)
    then show ?thesis using adjusted_credited [OF _ adj(2,3)] adj(1) by simp
  next
    case (lost entry t)
    then show ?thesis using adjusted_credited [OF _ adj(2,3)] adj(1) by simp
  qed (simp_all add: credited_def same_data_def grant_adjustment_def zero_adjustment_def)
  then show ?thesis using False ap by (simp add: Grant_def)
qed (simp add: Grant_def sql_fail_def)

lemma tbl_upd_codes: "codes_ok d \<Longrightarrow> (\<And>r. r_credits (f r) = r_credits r \<and> r_codeHash (f r) = r_codeHash r) \<Longrightarrow> codes_ok (d\<lparr>redemptions := tbl_upd f i (redemptions d)\<rparr>)"
proof -
  assume ok: "codes_ok d" and f: "\<And>r. r_credits (f r) = r_credits r \<and> r_codeHash (f r) = r_codeHash r"
  have "list_all (\<lambda>(i, r). i64 (r_credits r) \<and> 0 < r_credits r) (tbl_upd f i (redemptions d))"
    using ok f by (intro list_all_tbl_upd) (auto simp: codes_ok_def list_all_iff)
  then show ?thesis using ok f by (simp add: codes_ok_def keys_tbl_upd map_tbl_upd list_all_iff)
qed

lemma codes_cong: "redemptions d' = redemptions d \<Longrightarrow> codes_ok d' = codes_ok d"
  by (simp add: codes_ok_def)

lemma Redeem_credited: "credited i d (snd (Redeem e i code d)) \<and> (codes_ok d \<longrightarrow> codes_ok (snd (Redeem e i code d)))"
proof -
  obtain r d' where R: "Redeem e i code d = (r, d')" by fastforce
  have ok: "credited i d (t\<lparr>tx_aborted := b\<rparr>) \<and> (codes_ok d \<longrightarrow> codes_ok t)"
    if "redeem_body e i (hash_key e code) (d\<lparr>tx_aborted := False\<rparr>) = (Inr entry, t)" for entry t b
    using that
  proof (rule redeem_body_Inr)
    fix j v
    assume "applyTx e (redeem_adjustment i j v) (use_code e i j (d\<lparr>tx_aborted := False\<rparr>)) = (Inr entry, t)"
    moreover have "use_code e i j (d\<lparr>tx_aborted := False\<rparr>) = (use_code e i j d)\<lparr>tx_aborted := False\<rparr>" by (simp add: use_code_def)
    moreover have "UserID (redeem_adjustment i j v) = i" "AffectsUsed (redeem_adjustment i j v) = False" "KeyID (redeem_adjustment i j v) = 0"
      by (simp_all add: redeem_adjustment_def zero_adjustment_def)
    ultimately have c: "credited i (use_code e i j d) (t\<lparr>tx_aborted := b\<rparr>)" "redemptions t = redemptions (use_code e i j d)"
      using adjusted_credited [of e "redeem_adjustment i j v" "use_code e i j d" entry t b] by simp_all
    have "credited i d (t\<lparr>tx_aborted := b\<rparr>)" using c(1) unfolding credited_def by (simp add: use_code_def)
    moreover have "codes_ok d \<Longrightarrow> codes_ok (use_code e i j d)" unfolding use_code_def by (rule tbl_upd_codes) simp_all
    ultimately show ?thesis using codes_cong [OF c(2)] by blast
  qed
  from R [unfolded Redeem_def] have "credited i d d' \<and> (codes_ok d \<longrightarrow> codes_ok d')"
  proof (cases rule: Transaction_cases)
    case (commit x t)
    then show ?thesis using ok [of x t "tx_aborted d"] by (simp add: codes_ok_def)
  next
    case (failed err r' t)
    then show ?thesis by (simp add: same_data_def credited_def codes_ok_def)
  next
    case (lost x t)
    then show ?thesis using ok [of x t "tx_aborted d"] by (simp add: codes_ok_def)
  qed
  then show ?thesis using R by simp
qed

lemma granted_users:
  assumes "credited i d d'" "tbl_get (users d') j = Some v"
  shows "\<exists>u. tbl_get (users d) j = Some u \<and> v = u\<lparr>credit_balance := credit_balance v\<rparr> \<and> (j \<noteq> i \<longrightarrow> v = u)"
  using assms by (auto simp: credited_def tbl_get_upd split: if_splits)

lemma credited_ids: "credited i d d' \<Longrightarrow> tbl_get (users d') j = None \<longleftrightarrow> tbl_get (users d) j = None"
  by (auto simp: credited_def tbl_get_upd split: if_splits)

lemma credited_fields:
  assumes "credited i d d'"
  shows "map_option u_integrationID (tbl_get (users d') j) = map_option u_integrationID (tbl_get (users d) j)"
    "map_option u_role (tbl_get (users d') j) = map_option u_role (tbl_get (users d) j)"
    "j \<noteq> i \<Longrightarrow> tbl_get (users d') j = tbl_get (users d) j"
  using assms by (auto simp: credited_def tbl_get_upd option.map_comp comp_def)

section \<open>The writes by what they do to the users and keys\<close>

lemma quiet_fields:
  assumes "quiet ps w cx s t"
  shows "users (core t) = users (core s)" "profiles t = profiles s" "ledger (core t) = ledger (core s)" "api_keys (core t) = api_keys (core s)"
    "keyCols t = keyCols s" "redemptions (core t) = redemptions (core s)" "usage_logs (core t) = usage_logs (core s)" "seqs s TUsers \<le> seqs t TUsers"
  using assms by (cases rule: quiet.cases; simp add: bump_def bump_by_def next_id_def)+

lemma effect_cases:
  assumes "effect ps w cx s t"
  obtains (quiet) "quiet ps w cx s t"
  | (inserted) u p where "t = insert_user u p s" "\<not> user_conflict u p s" "credit_balance u = 0" "u_credit_used u = 0"
      "created_by cx u \<or> OpenUsers \<in> ps \<and> u_role u = ''user'' \<and> u_integrationID u = None"
  | (updated) fs i where "t = update_users fs i s"
      "OwnAccount \<in> ps \<and> is_self cx i \<and> list_all own_field fs \<or> manages cx s i \<and> list_all (field_allowed cx i) fs"
  | (deleted) i where "t = remove_user i s" "manages cx s i" "i \<noteq> actor_of cx"
      "\<forall>x \<in> set (ledger (core s)). le_userID x \<noteq> i" "\<forall>(r, l) \<in> set (usage_logs (core s)). ul_userID l \<noteq> i"
  | (booked) i d where "t = s\<lparr>core := d\<rparr>" "credited i (core s) d" "books (core s) \<and> codes_ok (core s) \<longrightarrow> books d \<and> codes_ok d"
      "may_grant ps cx s i \<and> redemptions d = redemptions (core s) \<or> OwnAccount \<in> ps \<and> is_self cx i"
  | (coded) rs q where "t = s\<lparr>core := (core s)\<lparr>redemptions := rs\<rparr>, seqs := q\<rparr>" "IssueCodes \<in> ps" "codes_ok (core s) \<longrightarrow> codes_ok (core t)"
      "seqs s TUsers \<le> q TUsers"
  | (shifted) ids dept where "MoveMembers \<in> ps" "t = s\<lparr>core := (core s)\<lparr>users := map (\<lambda>(j, u). (j, if j \<in> set ids then u\<lparr>u_departmentID := dept\<rparr> else u)) (users (core s))\<rparr>\<rparr>"
  | (opened) x r where "RunIntegrations \<in> ps" "create_integration w x s = (r, t)"
  | (closed) i where "RunIntegrations \<in> ps" "t = disable_integration i s"
  | (issued) k c where "t = insert_key k c s" "may_touch ps cx s (k_userID k)" "tbl_get (api_keys (core s)) (next_id TKeys s) = None"
      "\<not> list_ex (\<lambda>(j, v). k_keyHash v = k_keyHash k) (api_keys (core s))"
  | (edited) i x f g where "t = update_key f g i s" "load_key s i = Some x" "may_touch ps cx s (k_userID (ak_row x))" "key_edit f"
  | (orphaned) i p where "t = s\<lparr>projects := tbl_del i (projects s), core := (core s)\<lparr>api_keys :=
          map (\<lambda>(j, k). (j, if k_projectID k = Some i then k\<lparr>k_projectID := None\<rparr> else k)) (api_keys (core s))\<rparr>\<rparr>"
      "tbl_get (projects s) i = Some p" "canAccessProject (CurrentUser cx) p"
  using assms
proof (cases rule: effect.cases)
  case (granted i amount e a remark key)
  have "books (core s) \<longrightarrow> books (snd (Grant e i amount a remark key (core s)))"
    using books_Grant [OF surjective_pairing] granted(3) by blast
  moreover note Grant_credited [of i "core s" e amount a remark key]
  ultimately show ?thesis using granted(2) codes_cong [of "snd (Grant e i amount a remark key (core s))" "core s"]
    by (intro booked [OF granted(1)]) (auto simp: may_grant_def)
next
  case (redeemed i e code)
  have "books (core s) \<and> codes_ok (core s) \<longrightarrow> books (snd (Redeem e i code (core s)))"
    using books_Redeem [OF surjective_pairing] by blast
  then show ?thesis using redeemed(2,3) Redeem_credited [of i "core s" e code] by (intro booked [OF redeemed(1)]) blast+
next
  case (codes_made rs)
  have "codes_ok (core s) \<longrightarrow> codes_ok (core t)"
    using codes_made(3,4) unfolding codes_made(1)
    by (auto simp: codes_ok_def codes_conflict_def Let_def numbered_rows_def list_all_iff list_ex_iff bump_by_def dest!: set_zip_rightD)
  then show ?thesis using codes_made(1,2) by (intro coded [where q = "seqs (bump_by TCodes (length rs) s)" and rs = "redemptions (core s) @ numbered_rows (next_id TCodes s) rs"])
      (simp_all add: bump_by_def)
next
  case (code_set i r st)
  have "codes_ok (core s) \<longrightarrow> codes_ok (core t)" unfolding code_set(1) by (auto intro: tbl_upd_codes)
  then show ?thesis using code_set(1,2) by (intro coded [where q = "seqs s" and rs = "tbl_upd (\<lambda>r. r\<lparr>r_status := st\<rparr>) i (redemptions (core s))"]) simp_all
next
  case quietly
  then show ?thesis by (rule quiet)
next
  case (new_account u p)
  then show ?thesis by (intro inserted) blast+
next
  case (open_account u p)
  then show ?thesis by (intro inserted) blast+
next
  case (own_account i fs)
  then show ?thesis by (intro updated) blast+
next
  case (account i fs)
  then show ?thesis by (intro updated) blast+
next
  case (removed i)
  then show ?thesis by (intro deleted)
next
  case (moved ids dept)
  then show ?thesis by (rule shifted [rotated])
next
  case (no_project i p)
  then show ?thesis by (rule orphaned)
next
  case (new_key k c)
  then show ?thesis by (intro issued)
next
  case (key i x f g)
  then show ?thesis by (intro edited)
next
  case (new_integration x r)
  then show ?thesis by (rule opened)
next
  case (disabled i)
  then show ?thesis by (rule closed [rotated])
qed

lemma load_manages: "manages cx s i \<Longrightarrow> \<exists>u. tbl_get (users (core s)) i = Some u"
  by (auto simp: manages_def load_user_Some)

lemma updated_user:
  "tbl_get (users (core (update_users fs i s))) j = (if j = i then map_option (fold set_user_row fs) (tbl_get (users (core s)) i) else tbl_get (users (core s)) j)"
  "profiles (update_users fs i s) j = (if j = i then fold set_user_profile fs (profiles s i) else profiles s j)"
  by (simp_all add: update_users_def tbl_get_upd)

lemma fields_keep_integration: "u_integrationID (fold set_user_row fs u) = u_integrationID u"
proof (induction fs arbitrary: u)
  case (Cons f fs)
  then show ?case by (cases f) auto
qed simp

lemma fields_keep_role:
  assumes "list_all own_field fs \<or> (list_all (field_allowed cx i) fs \<and> actor_role cx \<noteq> ''root'')"
  shows "u_role (fold set_user_row fs u) = u_role u"
  using assms
proof (induction fs arbitrary: u)
  case (Cons f fs)
  then show ?case by (cases f) auto
qed simp

section \<open>A service token stays within its integration\<close>

text \<open>
  What lies outside integration \<open>i\<close>: the users of other integrations and of none, with their profiles, keys, ledger
  entries and sessions, and the departments and projects of others. Of a key the project and of a department or project
  the person responsible are left out, as the deletion of one of the integration's own clears them.
\<close>

definition foreign_user :: "row_id \<Rightarrow> site \<Rightarrow> row_id \<Rightarrow> (user_row \<times> profile) option" where
  "foreign_user i s j = (case tbl_get (users (core s)) j of None \<Rightarrow> None
     | Some u \<Rightarrow> if u_integrationID u = Some i then None else Some (u, profiles s j))"

definition foreign_key :: "row_id \<Rightarrow> site \<Rightarrow> row_id \<Rightarrow> (api_key_row \<times> key_cols) option" where
  "foreign_key i s j = (case tbl_get (api_keys (core s)) j of None \<Rightarrow> None
     | Some k \<Rightarrow> if foreign_user i s (k_userID k) = None then None else Some (k\<lparr>k_projectID := None\<rparr>, keyCols s j))"

definition foreign_department :: "row_id \<Rightarrow> site \<Rightarrow> row_id \<Rightarrow> department option" where
  "foreign_department i s j = (case tbl_get (departments s) j of None \<Rightarrow> None
     | Some d \<Rightarrow> if d_integrationID d = Some i then None else Some (d\<lparr>d_ownerUserID := None\<rparr>))"

definition foreign_project :: "row_id \<Rightarrow> site \<Rightarrow> row_id \<Rightarrow> project option" where
  "foreign_project i s j = (case tbl_get (projects s) j of None \<Rightarrow> None
     | Some p \<Rightarrow> if pr_integrationID p = Some i then None else Some (p\<lparr>pr_ownerUserID := None\<rparr>))"

definition foreign_entries :: "row_id \<Rightarrow> site \<Rightarrow> ledger_entry list" where
  "foreign_entries i s = filter (\<lambda>x. foreign_user i s (le_userID x) \<noteq> None) (ledger (core s))"

definition foreign_sessions :: "row_id \<Rightarrow> site \<Rightarrow> (string, row_id) tbl" where
  "foreign_sessions i s = filter (\<lambda>(t, j). foreign_user i s j \<noteq> None) (sessions s)"

definition confined :: "row_id \<Rightarrow> site \<Rightarrow> site \<Rightarrow> bool" where
  "confined i s t \<longleftrightarrow> foreign_user i t = foreign_user i s \<and> foreign_key i t = foreign_key i s
     \<and> foreign_department i t = foreign_department i s \<and> foreign_project i t = foreign_project i s
     \<and> foreign_entries i t = foreign_entries i s \<and> foreign_sessions i t = foreign_sessions i s
     \<and> integrations t = integrations s \<and> serviceTokens t = serviceTokens s \<and> redemptions (core t) = redemptions (core s)
     \<and> usage_logs (core t) = usage_logs (core s) \<and> limiter t = limiter s \<and> loginLock t = loginLock s"

text \<open>The account a token acts for, in the context of its request and in the table.\<close>

definition tenant :: "row_id \<Rightarrow> request_context \<Rightarrow> bool" where
  "tenant i cx \<longleftrightarrow> cx_scope cx = i \<and> i \<noteq> 0
     \<and> (\<exists>u. CurrentUser cx = Some u \<and> u_role (us_row u) = ''managed'' \<and> u_integrationID (us_row u) = Some i)"

definition service_user :: "row_id \<Rightarrow> request_context \<Rightarrow> site \<Rightarrow> bool" where
  "service_user i cx s \<longleftrightarrow> (\<exists>u. tbl_get (users (core s)) (actor_of cx) = Some u \<and> u_role u \<noteq> ''user'' \<and> u_integrationID u = Some i)"

lemma tenant_manages:
  assumes "tenant i cx" "manages cx s j"
  shows "\<exists>u. tbl_get (users (core s)) j = Some u \<and> u_integrationID u = Some i \<and> u_role u = ''user''"
  using assms by (auto simp: tenant_def manages_def load_user_Some canManage_def)

lemma tenant_scope: "tenant i cx \<Longrightarrow> ScopeIntegrationID cx = Some i" "tenant i cx \<Longrightarrow> actor_role cx = ''managed''"
  by (auto simp: tenant_def ScopeIntegrationID_def actor_role_def)

lemma tenant_created: "tenant i cx \<Longrightarrow> created_by cx u \<Longrightarrow> u_integrationID u = Some i \<and> u_role u = ''user''"
  by (simp add: created_by_def tenant_scope)

lemma tenant_department: "tenant i cx \<Longrightarrow> canAccessDepartment (CurrentUser cx) d \<Longrightarrow> d_integrationID d = Some i"
  by (auto simp: tenant_def canAccessDepartment_def in_scope_def)

lemma tenant_project: "tenant i cx \<Longrightarrow> canAccessProject (CurrentUser cx) p \<Longrightarrow> pr_integrationID p = Some i"
  by (auto simp: tenant_def canAccessProject_def in_scope_def)

lemma tenant_users:
  assumes e: "effect {} w cx s t" and i: "tenant i cx" and own: "service_user i cx s"
  shows "foreign_user i t = foreign_user i s \<and> service_user i cx t"
  using e
proof (cases rule: effect_cases)
  case quiet
  note q = quiet_fields [OF quiet]
  have "foreign_user i t j = foreign_user i s j" for j by (simp add: foreign_user_def q split: option.split)
  then show ?thesis using own by (auto simp: service_user_def q)
next
  case (inserted u p)
  then have "u_integrationID u = Some i" "tbl_get (users (core s)) (next_id TUsers s) = None"
    using tenant_created [OF i] by (auto simp: user_conflict_def)
  then show ?thesis using inserted(1) own
    by (auto simp: foreign_user_def service_user_def fun_eq_iff insert_user_def Let_def bump_def tbl_get_append split: option.split)
next
  case (updated fs j)
  then obtain u where u: "tbl_get (users (core s)) j = Some u" "u_integrationID u = Some i" "u_role u = ''user''"
    using tenant_manages [OF i] by auto
  then have "j \<noteq> actor_of cx" using own by (auto simp: service_user_def)
  then show ?thesis using updated(1) own u
    by (auto simp: foreign_user_def service_user_def fun_eq_iff updated_user fields_keep_integration split: option.split)
next
  case (deleted j)
  then obtain u where "tbl_get (users (core s)) j = Some u" "u_integrationID u = Some i" using tenant_manages [OF i] by blast
  moreover have "profiles (remove_user j s) = profiles s" by (simp add: remove_user_def)
  ultimately show ?thesis using deleted(1,3) own
    by (auto simp: foreign_user_def service_user_def fun_eq_iff users_removed split: option.split)
next
  case (booked j d)
  then obtain u where u: "tbl_get (users (core s)) j = Some u" "u_integrationID u = Some i"
    using tenant_manages [OF i, of s j] tenant_created [OF i] booked(4) by (auto simp: may_grant_def)
  have "foreign_user i t k = foreign_user i s k" for k
    using credited_fields(1,3) [OF booked(2), of k] u booked(1) by (cases "k = j") (auto simp: foreign_user_def split: option.split)
  moreover have "service_user i cx t"
    using own booked(1) credited_fields(1,2) [OF booked(2), of "actor_of cx"] by (auto simp: service_user_def)
  ultimately show ?thesis by blast
next
  case (issued k c)
  have "users (core t) = users (core s)" "profiles t = profiles s" unfolding issued(1) by (simp_all add: insert_key_def Let_def bump_def)
  then show ?thesis using own by (simp add: foreign_user_def service_user_def fun_eq_iff split: option.split)
next
  case (edited j x f g)
  have "users (core t) = users (core s)" "profiles t = profiles s" unfolding edited(1) by (simp_all add: update_key_def)
  then show ?thesis using own by (simp add: foreign_user_def service_user_def fun_eq_iff split: option.split)
next
  case (orphaned j p)
  then show ?thesis using own by (simp add: foreign_user_def service_user_def fun_eq_iff split: option.split)
qed simp_all

section \<open>The tables stay consistent\<close>

text \<open>
  What the keys, unique indexes and checks of the tables say of users and API keys: identifiers, names and hashes are
  unique, roles are legal.
\<close>

definition users_ok :: "(row_id, user_row) tbl \<Rightarrow> bool" where
  "users_ok us \<longleftrightarrow> distinct (map fst us) \<and> distinct (map (username \<circ> snd) us) \<and> list_all (\<lambda>(j, u). role_Valid (u_role u)) us"

definition keys_ok :: "(row_id, api_key_row) tbl \<Rightarrow> bool" where
  "keys_ok ks \<longleftrightarrow> distinct (map fst ks) \<and> distinct (map (k_keyHash \<circ> snd) ks)"

definition site_ok :: "site \<Rightarrow> bool" where
  "site_ok s \<longleftrightarrow> users_ok (users (core s)) \<and> keys_ok (api_keys (core s))"

lemma users_ok_upd:
  "users_ok us \<Longrightarrow> (\<And>u. username (f u) = username u) \<Longrightarrow> (\<And>u. role_Valid (u_role u) \<Longrightarrow> role_Valid (u_role (f u))) \<Longrightarrow> users_ok (tbl_upd f i us)"
  by (auto simp: users_ok_def keys_tbl_upd map_tbl_upd intro!: list_all_tbl_upd)

lemma users_ok_map:
  "users_ok us \<Longrightarrow> (\<And>j u. username (f j u) = username u) \<Longrightarrow> (\<And>j u. u_role (f j u) = u_role u) \<Longrightarrow> users_ok (map (\<lambda>(j, u). (j, f j u)) us)"
  by (auto simp: users_ok_def comp_def case_prod_unfold list_all_iff)

lemma keys_ok_upd: "keys_ok ks \<Longrightarrow> key_edit f \<Longrightarrow> keys_ok (tbl_upd f i ks)"
  by (simp add: keys_ok_def keys_tbl_upd key_edit_def map_tbl_upd)

lemma keys_ok_map: "keys_ok ks \<Longrightarrow> (\<And>k. k_keyHash (f k) = k_keyHash k) \<Longrightarrow> keys_ok (map (\<lambda>(j, k). (j, f k)) ks)"
  by (auto simp: keys_ok_def comp_def case_prod_unfold)

lemma site_ok_insert:
  assumes "\<not> user_conflict u p s" "site_ok s"
  shows "site_ok (insert_user u p s)"
proof -
  have "users_ok (users (core s) @ [(next_id TUsers s, u)])"
    using assms tbl_get_in [of "users (core s)" "next_id TUsers s"]
    by (auto simp: site_ok_def users_ok_def user_conflict_def list_ex_iff)
  moreover have "keys_ok (api_keys (core s))" using assms(2) by (simp add: site_ok_def)
  ultimately show ?thesis by (simp add: site_ok_def insert_user_def Let_def bump_def)
qed

lemma fields_ok:
  assumes "list_all own_field fs \<or> list_all (field_allowed cx i) fs"
  shows "username (fold set_user_row fs u) = username u" "role_Valid (u_role u) \<Longrightarrow> role_Valid (u_role (fold set_user_row fs u))"
proof -
  have "username (fold set_user_row fs u) = username u \<and> (role_Valid (u_role u) \<longrightarrow> role_Valid (u_role (fold set_user_row fs u)))"
    using assms
  proof (induction fs arbitrary: u)
    case (Cons f fs)
    then show ?case by (cases f) auto
  qed simp
  then show "username (fold set_user_row fs u) = username u" "role_Valid (u_role u) \<Longrightarrow> role_Valid (u_role (fold set_user_row fs u))" by auto
qed

lemma ids_tbl_del: "fst ` set (tbl_del i t) = fst ` set t - {i}"
  by (force simp: tbl_del_def)

lemma distinct_filtered: "distinct (map f xs) \<Longrightarrow> distinct (map f (filter p xs))"
  by (auto simp: distinct_map intro: inj_on_subset)

lemma site_ok_remove:
  assumes "site_ok s"
  shows "site_ok (remove_user i s)"
proof -
  have "users_ok (tbl_del i (users (core s)))"
    using assms by (simp add: site_ok_def users_ok_def tbl_del_def distinct_filtered list_all_iff)
  moreover have "keys_ok (filter (\<lambda>(k, r). k_userID r \<noteq> i) (api_keys (core s)))"
    using assms by (simp add: site_ok_def keys_ok_def distinct_filtered)
  ultimately show ?thesis by (simp add: site_ok_def remove_user_def)
qed

text \<open>An integration is created with its account or not at all.\<close>

lemma create_integration_users:
  assumes "create_integration w x s = (r, t)"
  shows "core t = core s \<and> profiles t = profiles s \<and> seqs s TUsers \<le> seqs t TUsers
    \<or> (\<exists>i p v. t = insert_user (service_account x i) p v \<and> \<not> user_conflict (service_account x i) p v \<and> core v = core s \<and> profiles v = profiles s \<and> seqs v TUsers = seqs s TUsers)"
proof -
  define i where "i = next_id TIntegrations s"
  define v where "v = (bump TIntegrations s)\<lparr>integrations := integrations s @ [(i, x)]\<rparr>"
  obtain j u where c: "UserRepo_Create w (service_account x i) (new_profile [] (in_name x)) v = (j, u)" by fastforce
  have v: "core v = core s" "profiles v = profiles s" "seqs v TUsers = seqs s TUsers" by (simp_all add: v_def bump_def)
  have eq: "create_integration w x s =
     (if sw_fails w InsertIntegration then (None, s)
      else if tbl_get (integrations s) i \<noteq> None \<or> list_ex (\<lambda>(k, y). in_slug y = in_slug x) (integrations s) then (None, bump TIntegrations s)
      else case j of None \<Rightarrow> (None, s\<lparr>seqs := seqs u\<rparr>) | Some k \<Rightarrow> (Some i, u))"
    using c by (simp add: create_integration_def Let_def i_def v_def split: option.split)
  have "seqs s TUsers \<le> seqs u TUsers" if "j = None"
    using Create_step [OF c] that v(3) by (auto simp: bump_def next_id_def)
  then show ?thesis
    using assms Create_step [OF c] v unfolding eq by (auto simp: bump_def split: if_splits option.splits)
qed

lemma site_ok_same: "users (core t) = users (core s) \<Longrightarrow> api_keys (core t) = api_keys (core s) \<Longrightarrow> site_ok t = site_ok s"
  by (simp add: site_ok_def)

lemma site_ok_step:
  assumes "effect ps w cx s t" "site_ok s"
  shows "site_ok t"
  using assms(1)
proof (cases rule: effect_cases)
  case quiet
  then show ?thesis using assms(2) site_ok_same [of t s] by (simp add: quiet_fields)
next
  case (inserted u p)
  then show ?thesis using assms(2) by (simp add: site_ok_insert)
next
  case (updated fs i)
  then have "list_all own_field fs \<or> list_all (field_allowed cx i) fs" by blast
  then show ?thesis using assms(2) updated(1) by (auto simp: site_ok_def update_users_def intro!: users_ok_upd fields_ok)
next
  case (deleted i)
  then show ?thesis using assms(2) by (simp add: site_ok_remove)
next
  case (booked i d)
  then show ?thesis using assms(2) by (auto simp: site_ok_def credited_def intro!: users_ok_upd)
next
  case (coded rs q)
  then show ?thesis using assms(2) by (simp add: site_ok_def)
next
  case (shifted ids dept)
  then show ?thesis using assms(2) by (auto simp: site_ok_def intro!: users_ok_map)
next
  case (opened x r)
  from create_integration_users [OF opened(2)] show ?thesis
  proof (elim disjE exE conjE)
    assume "core t = core s"
    then show ?thesis using assms(2) by (simp add: site_ok_def)
  next
    fix j p v
    assume v: "t = insert_user (service_account x j) p v" "\<not> user_conflict (service_account x j) p v" "core v = core s"
    then have "site_ok v" using assms(2) by (simp add: site_ok_def)
    then show ?thesis unfolding v(1) using v(2) by (intro site_ok_insert)
  qed
next
  case (closed i)
  then show ?thesis using assms(2) by (auto simp: site_ok_def disable_integration_def intro!: users_ok_map)
next
  case (issued k c)
  then show ?thesis using assms(2) tbl_get_in [of "api_keys (core s)" "next_id TKeys s"]
    by (auto simp: site_ok_def keys_ok_def insert_key_def Let_def bump_def list_ex_iff)
next
  case (edited i x f g)
  then show ?thesis using assms(2) by (simp add: site_ok_def update_key_def keys_ok_upd)
next
  case (orphaned i p)
  then show ?thesis using assms(2) by (auto simp: site_ok_def intro!: keys_ok_map)
qed

section \<open>Confinement\<close>

lemma destroyed_others: "\<not> p j \<Longrightarrow> filter (\<lambda>(t, k). p k) (destroy_sessions w j ss) = filter (\<lambda>(t, k). p k) ss"
  by (induction w j ss rule: destroy_sessions.induct) auto

lemma foreign_user_None: "tbl_get (users (core s)) j = None \<or> (\<exists>u. tbl_get (users (core s)) j = Some u \<and> u_integrationID u = Some i) \<Longrightarrow> foreign_user i s j = None"
  by (auto simp: foreign_user_def)

lemma tenant_foreign: "tenant i cx \<Longrightarrow> manages cx s j \<Longrightarrow> foreign_user i s j = None"
  using tenant_manages [of i cx s j] by (auto intro!: foreign_user_None)

text \<open>The tables of a state but those of its users.\<close>

definition rest_of :: "site \<Rightarrow> (row_id, api_key_row) tbl \<times> (row_id \<Rightarrow> key_cols) \<times> (row_id, department) tbl \<times> (row_id, project) tbl
    \<times> ledger_entry list \<times> (string, row_id) tbl" where
  "rest_of s = (api_keys (core s), keyCols s, departments s, projects s, ledger (core s), sessions s)"

definition servers_of :: "site \<Rightarrow> _" where
  "servers_of s = (integrations s, serviceTokens s, redemptions (core s), usage_logs (core s), limiter s, loginLock s)"

lemma confinedI:
  assumes "foreign_user i t = foreign_user i s" "servers_of t = servers_of s"
    "api_keys (core t) = api_keys (core s) \<and> keyCols t = keyCols s \<or> foreign_key i t = foreign_key i s"
    "departments t = departments s \<or> foreign_department i t = foreign_department i s"
    "projects t = projects s \<or> foreign_project i t = foreign_project i s"
    "ledger (core t) = ledger (core s) \<or> foreign_entries i t = foreign_entries i s"
    "sessions t = sessions s \<or> foreign_sessions i t = foreign_sessions i s"
  shows "confined i s t"
proof -
  have "foreign_key i t j = foreign_key i s j" if k: "api_keys (core t) = api_keys (core s) \<and> keyCols t = keyCols s" for j
    unfolding foreign_key_def assms(1) conjunct1 [OF k] conjunct2 [OF k] ..
  then have "foreign_key i t = foreign_key i s" using assms(3) by blast
  moreover have "foreign_department i t = foreign_department i s" using assms(4) by (auto simp: foreign_department_def fun_eq_iff)
  moreover have "foreign_project i t = foreign_project i s" using assms(5) by (auto simp: foreign_project_def fun_eq_iff)
  moreover have "foreign_entries i t = foreign_entries i s" using assms(1,6) by (auto simp: foreign_entries_def)
  moreover have "foreign_sessions i t = foreign_sessions i s" using assms(1,7) by (auto simp: foreign_sessions_def)
  ultimately show ?thesis using assms(1,2) by (simp add: confined_def servers_of_def)
qed

lemma foreign_department_put:
  "d_integrationID d = Some i \<Longrightarrow> tbl_get (departments s) j = None \<Longrightarrow> foreign_department i (s\<lparr>departments := departments s @ [(j, d)]\<rparr>) = foreign_department i s"
  "tbl_get (departments s) j = Some d \<Longrightarrow> d_integrationID d = Some i \<Longrightarrow> (\<And>x. d_integrationID (f x) = d_integrationID x)
     \<Longrightarrow> foreign_department i (s\<lparr>departments := tbl_upd f j (departments s)\<rparr>) = foreign_department i s"
  "tbl_get (departments s) j = Some d \<Longrightarrow> d_integrationID d = Some i \<Longrightarrow> foreign_department i (s\<lparr>departments := tbl_del j (departments s)\<rparr>) = foreign_department i s"
  by (auto simp: foreign_department_def fun_eq_iff tbl_get_append tbl_get_upd tbl_get_del split: option.split)

lemma foreign_project_put:
  "pr_integrationID p = Some i \<Longrightarrow> tbl_get (projects s) j = None \<Longrightarrow> foreign_project i (s\<lparr>projects := projects s @ [(j, p)]\<rparr>) = foreign_project i s"
  "tbl_get (projects s) j = Some p \<Longrightarrow> pr_integrationID p = Some i \<Longrightarrow> (\<And>x. pr_integrationID (f x) = pr_integrationID x)
     \<Longrightarrow> foreign_project i (s\<lparr>projects := tbl_upd f j (projects s)\<rparr>) = foreign_project i s"
  "tbl_get (projects s) j = Some p \<Longrightarrow> pr_integrationID p = Some i \<Longrightarrow> foreign_project i (s\<lparr>projects := tbl_del j (projects s), core := c\<rparr>) = foreign_project i s"
  by (auto simp: foreign_project_def fun_eq_iff tbl_get_append tbl_get_upd tbl_get_del split: option.split)

lemma quiet_confined:
  assumes "quiet {} w cx s t" and i: "tenant i cx" and own: "service_user i cx s"
  shows "confined i s t"
proof -
  have u: "foreign_user i t = foreign_user i s" and k: "api_keys (core t) = api_keys (core s) \<and> keyCols t = keyCols s" "ledger (core t) = ledger (core s)"
    using quiet_fields [OF assms(1)] by (auto simp: foreign_user_def fun_eq_iff split: option.split)
  from assms(1) show ?thesis
  proof (cases rule: quiet.cases)
    case (q_ended j)
    then have "foreign_user i s j = None" using tenant_foreign [OF i, of s j] by (auto simp: may_touch_def intro: foreign_user_None)
    then have "filter (\<lambda>(t, k). foreign_user i s k \<noteq> None) (destroy_sessions w j (sessions s)) = filter (\<lambda>(t, k). foreign_user i s k \<noteq> None) (sessions s)"
      by (intro destroyed_others) simp
    then have "foreign_sessions i t = foreign_sessions i s" using u q_ended(1) by (simp add: foreign_sessions_def)
    then show ?thesis using u k q_ended(1) by (intro confinedI) (simp_all add: servers_of_def)
  next
    case (q_entered j)
    then have "manages cx s j" "is_self cx j" by (auto simp: may_touch_def)
    then have False using tenant_manages [OF i, of s j] own by (auto simp: is_self_def service_user_def actor_of_def)
    then show ?thesis ..
  next
    case (q_new_department d j)
    then show ?thesis using u k foreign_department_put(1) [of d i s j] tenant_scope(1) [OF i]
      by (intro confinedI) (simp_all add: servers_of_def)
  next
    case (q_department j d f)
    then show ?thesis using u k foreign_department_put(2) [of s j d i f] tenant_department [OF i]
      by (intro confinedI) (simp_all add: servers_of_def)
  next
    case (q_no_department j d)
    then show ?thesis using u k foreign_department_put(3) [of s j d i] tenant_department [OF i]
      by (intro confinedI) (simp_all add: servers_of_def)
  next
    case (q_new_project p j)
    then show ?thesis using u k foreign_project_put(1) [of p i s j] tenant_scope(1) [OF i]
      by (intro confinedI) (simp_all add: servers_of_def)
  next
    case (q_project j p f)
    then show ?thesis using u k foreign_project_put(2) [of s j p i f] tenant_project [OF i]
      by (intro confinedI) (simp_all add: servers_of_def)
  qed (use u k in \<open>auto intro!: confinedI simp: servers_of_def bump_by_def\<close>)
qed

lemma foreign_owner:
  "foreign_department i (s\<lparr>core := c, departments := map (\<lambda>(j, d). (j, if p d then d\<lparr>d_ownerUserID := None\<rparr> else d)) (departments s), projects := ps\<rparr>) = foreign_department i s"
  "foreign_project i (s\<lparr>core := c, departments := ds, projects := map (\<lambda>(j, d). (j, if q d then d\<lparr>pr_ownerUserID := None\<rparr> else d)) (projects s)\<rparr>) = foreign_project i s"
  by (auto simp: foreign_department_def foreign_project_def fun_eq_iff tbl_get_map split: option.split)

lemma removed_keys:
  assumes "distinct (map fst (api_keys (core s)))"
  shows "tbl_get (api_keys (core (remove_user j s))) k = (case tbl_get (api_keys (core s)) k of None \<Rightarrow> None | Some r \<Rightarrow> if k_userID r = j then None else Some r)"
  using tbl_get_filter [OF assms, of "\<lambda>r. k_userID r \<noteq> j" k] by (auto simp: remove_user_def split: option.split)

lemma confined_step:
  assumes e: "effect {} w cx s t" and i: "tenant i cx" and own: "service_user i cx s" and ok: "site_ok s"
  shows "confined i s t"
proof -
  have u: "foreign_user i t = foreign_user i s" using tenant_users [OF e i own] ..
  from e show ?thesis
  proof (cases rule: effect_cases)
    case quiet
    then show ?thesis using i own by (rule quiet_confined)
  next
    case (inserted v p)
    then show ?thesis using u by (intro confinedI) (simp_all add: insert_user_def Let_def bump_def servers_of_def)
  next
    case (updated fs j)
    then show ?thesis using u by (intro confinedI) (simp_all add: update_users_def servers_of_def)
  next
    case (deleted j)
    have "foreign_user i s j = None" using tenant_foreign [OF i deleted(2)] .
    moreover have "distinct (map fst (api_keys (core s)))" using ok by (simp add: site_ok_def keys_ok_def)
    moreover have "keyCols (remove_user j s) = keyCols s" by (simp add: remove_user_def)
    ultimately have "foreign_key i t = foreign_key i s" using u deleted(1)
      by (auto simp: foreign_key_def fun_eq_iff removed_keys split: option.split)
    moreover have "foreign_department i t = foreign_department i s" "foreign_project i t = foreign_project i s"
      unfolding deleted(1) remove_user_def by (simp_all add: foreign_owner)
    ultimately show ?thesis using u deleted(1) by (intro confinedI) (simp_all add: remove_user_def servers_of_def)
  next
    case (booked j d)
    have "foreign_user i s j = None"
      using booked(4) tenant_foreign [OF i, of s j] tenant_created [OF i] by (auto simp: may_grant_def intro: foreign_user_None)
    then have "foreign_entries i t = foreign_entries i s" using booked(1,2) u by (auto simp: foreign_entries_def credited_def)
    then show ?thesis using u booked(1,2,4) by (intro confinedI) (auto simp: servers_of_def credited_def)
  next
    case (issued k c)
    have none: "foreign_user i s (k_userID k) = None" using issued(2) tenant_foreign [OF i] by (simp add: may_touch_def)
    have "foreign_key i t j = foreign_key i s j" for j
      using none u issued(3) unfolding issued(1)
      by (cases "j = next_id TKeys s") (auto simp: foreign_key_def insert_key_def Let_def bump_def tbl_get_append split: option.split)
    then have "foreign_key i t = foreign_key i s" by (simp add: fun_eq_iff)
    then show ?thesis using u issued(1) by (intro confinedI) (simp_all add: insert_key_def Let_def bump_def servers_of_def)
  next
    case (edited j x f g)
    have none: "foreign_user i s (k_userID (ak_row x)) = None" using edited(3) tenant_foreign [OF i] by (simp add: may_touch_def)
    have "foreign_key i t k = foreign_key i s k" for k
      using none u edited(2,4) unfolding edited(1)
      by (cases "k = j") (auto simp: foreign_key_def update_key_def tbl_get_upd load_key_Some key_edit_def split: option.split)
    then have "foreign_key i t = foreign_key i s" by (simp add: fun_eq_iff)
    then show ?thesis using u edited(1) by (intro confinedI) (simp_all add: update_key_def servers_of_def)
  next
    case (orphaned j p)
    have "foreign_key i t k = foreign_key i s k" for k
      using u unfolding orphaned(1) by (auto simp: foreign_key_def tbl_get_map split: option.split)
    then have "foreign_key i t = foreign_key i s" by (simp add: fun_eq_iff)
    moreover have "foreign_project i t = foreign_project i s"
      using foreign_project_put(3) [of s j p i] orphaned tenant_project [OF i orphaned(3)] by simp
    ultimately show ?thesis using u orphaned(1) by (intro confinedI) (simp_all add: servers_of_def)
  qed simp_all
qed

section \<open>The books\<close>

text \<open>A change of users that keeps their balances keeps the books.\<close>

definition same_money :: "user_row option \<Rightarrow> user_row option \<Rightarrow> bool" where
  "same_money u v \<longleftrightarrow> map_option (\<lambda>x. (credit_balance x, u_credit_used x)) u = map_option (\<lambda>x. (credit_balance x, u_credit_used x)) v"

lemma same_money_map:
  "(\<And>u. credit_balance (f u) = credit_balance u \<and> u_credit_used (f u) = u_credit_used u) \<Longrightarrow> same_money (map_option f x) x"
  by (cases x) (simp_all add: same_money_def)

lemma same_money_same [simp]: "same_money x x"
  by (simp add: same_money_def)

lemma books_same_money:
  assumes "books d" "ledger d' = ledger d" "ledger_seq d' = ledger_seq d" "\<And>j. same_money (tbl_get (users d') j) (tbl_get (users d) j)"
  shows "books d'"
proof -
  have none: "tbl_get (users d') j = None \<longleftrightarrow> tbl_get (users d) j = None" for j
    using assms(4) [of j] by (cases "tbl_get (users d') j"; cases "tbl_get (users d) j") (simp_all add: same_money_def)
  have "balanced d'"
    unfolding balanced_def
  proof (intro allI impI)
    fix j v assume v: "tbl_get (users d') j = Some v"
    then obtain u where "tbl_get (users d) j = Some u" "credit_balance v = credit_balance u" "u_credit_used v = u_credit_used u"
      using assms(4) [of j] by (cases "tbl_get (users d) j") (auto simp: same_money_def)
    then show "credit_balance v = sum_where (user_entries j) le_amount (ledger d') \<and> 0 \<le> credit_balance v \<and> i64 (credit_balance v)
        \<and> u_credit_used v = wrap64 (- sum_where (call_entries j) le_amount (ledger d'))"
      using balancedD [of d j u] assms(1,2) by (simp add: books_def)
  qed
  then show ?thesis using assms(1-3) none by (simp add: books_def ledger_ok_def running_ok_def)
qed

lemma fields_keep_money: "credit_balance (fold set_user_row fs u) = credit_balance u \<and> u_credit_used (fold set_user_row fs u) = u_credit_used u"
proof (induction fs arbitrary: u)
  case (Cons f fs)
  then show ?case by (cases f) auto
qed simp

lemma books_removed:
  assumes "books (core s)" "\<forall>x \<in> set (ledger (core s)). le_userID x \<noteq> i"
  shows "books (core (remove_user i s))"
proof -
  have l: "ledger (core (remove_user i s)) = ledger (core s)" "ledger_seq (core (remove_user i s)) = ledger_seq (core s)" by (simp_all add: remove_user_def)
  then have "balanced (core (remove_user i s))" using assms(1)
    unfolding books_def balanced_def users_removed by (metis option.discI)
  then show ?thesis using assms l by (simp add: books_def ledger_ok_def running_ok_def users_removed)
qed

lemma quiet_seq: "quiet ps w cx s t \<Longrightarrow> ledger_seq (core t) = ledger_seq (core s)"
  by (erule quiet.cases) (simp_all add: bump_def bump_by_def)

lemma books_step:
  assumes e: "effect ps w cx s t" and b: "books (core s)" and c: "codes_ok (core s)"
  shows "books (core t)"
  using e
proof (cases rule: effect_cases)
  case quiet
  then show ?thesis using quiet_fields [OF quiet] quiet_seq [OF quiet] by (intro books_same_money [OF b]) simp_all
next
  case (inserted u p)
  then have "books ((core s)\<lparr>users := users (core s) @ [(next_id TUsers s, u)]\<rparr>)" by (intro books_add_user b) (simp_all add: user_conflict_def)
  then show ?thesis unfolding inserted(1) by (simp add: insert_user_def Let_def bump_def)
next
  case (updated fs i)
  then show ?thesis by (intro books_same_money [OF b])
    (simp_all add: update_users_def tbl_get_upd fields_keep_money same_money_map)
next
  case (deleted i)
  then show ?thesis using b by (simp add: books_removed)
next
  case (booked i d)
  then show ?thesis using b c by simp
next
  case (coded rs q)
  then show ?thesis by (intro books_same_money [OF b]) simp_all
next
  case (shifted ids dept)
  then show ?thesis by (intro books_same_money [OF b]) (simp_all add: tbl_get_map same_money_map)
next
  case (opened x r)
  from create_integration_users [OF opened(2)] show ?thesis
  proof (elim disjE exE conjE)
    fix j p v
    assume v: "t = insert_user (service_account x j) p v" "\<not> user_conflict (service_account x j) p v" "core v = core s"
    then have "books ((core v)\<lparr>users := users (core v) @ [(next_id TUsers v, service_account x j)]\<rparr>)"
      using b by (intro books_add_user) (simp_all add: user_conflict_def service_account_def new_user_def)
    then show ?thesis unfolding v(1) by (simp add: insert_user_def Let_def bump_def)
  qed (simp add: b)
next
  case (closed i)
  then show ?thesis by (intro books_same_money [OF b]) (simp_all add: disable_integration_def tbl_get_map same_money_map)
next
  case (issued k c)
  then show ?thesis by (intro books_same_money [OF b]) (simp_all add: insert_key_def Let_def bump_def)
next
  case (edited i x f g)
  then show ?thesis by (intro books_same_money [OF b]) (simp_all add: update_key_def)
next
  case (orphaned i p)
  then show ?thesis by (intro books_same_money [OF b]) simp_all
qed

lemma codes_step:
  assumes e: "effect ps w cx s t" and b: "books (core s)" and c: "codes_ok (core s)"
  shows "codes_ok (core t)"
  using e
proof (cases rule: effect_cases)
  case quiet
  then show ?thesis using c codes_cong quiet_fields(6) by blast
next
  case (opened x r)
  from create_integration_users [OF opened(2)] show ?thesis
    by (elim disjE exE conjE) (use c in \<open>auto simp: insert_user_def Let_def bump_def codes_ok_def\<close>)
qed (use b c in \<open>auto simp: insert_user_def insert_key_def update_users_def update_key_def remove_user_def disable_integration_def Let_def bump_def codes_ok_def\<close>)

section \<open>What was is not undone\<close>

lemma created_audits: "UserRepo_Create w u p s = (r, t) \<Longrightarrow> audits t = audits s"
  by (auto simp: UserRepo_Create_def insert_user_def Let_def bump_def split: if_splits)

lemma create_integration_audits: "create_integration w x s = (r, t) \<Longrightarrow> audits t = audits s"
  by (auto simp: create_integration_def Let_def bump_def split: if_splits prod.splits option.splits dest: created_audits)

lemma audits_step:
  assumes "effect ps w cx s t"
  shows "\<exists>xs. audits t = audits s @ xs"
  using assms
proof (cases rule: effect_cases)
  case quiet
  then show ?thesis by (rule quiet.cases) (simp_all add: bump_def bump_by_def)
next
  case (opened x r)
  then show ?thesis by (simp add: create_integration_audits)
qed (simp_all add: insert_user_def insert_key_def update_users_def update_key_def remove_user_def disable_integration_def Let_def bump_def)

text \<open>Those who appear in the ledger or the usage log.\<close>

definition in_history :: "site \<Rightarrow> row_id \<Rightarrow> bool" where
  "in_history s i \<longleftrightarrow> (\<exists>x \<in> set (ledger (core s)). le_userID x = i) \<or> (\<exists>(r, l) \<in> set (usage_logs (core s)). ul_userID l = i)"

definition history_kept :: "site \<Rightarrow> site \<Rightarrow> bool" where
  "history_kept s t \<longleftrightarrow> (\<exists>xs. ledger (core t) = ledger (core s) @ xs) \<and> (\<exists>xs. audits t = audits s @ xs)
     \<and> usage_logs (core t) = usage_logs (core s)
     \<and> (\<forall>i. in_history s i \<longrightarrow> tbl_get (users (core s)) i \<noteq> None \<longrightarrow> tbl_get (users (core t)) i \<noteq> None)"

lemma history_mono: "ledger (core t) = ledger (core s) @ xs \<Longrightarrow> usage_logs (core t) = usage_logs (core s) \<Longrightarrow> in_history s i \<Longrightarrow> in_history t i"
  by (auto simp: in_history_def)

lemma history_chain: "history_kept s t \<Longrightarrow> history_kept t u \<Longrightarrow> history_kept s u"
  unfolding history_kept_def using history_mono by (elim conjE exE) (intro conjI allI impI; (simp; fail)?; blast)

lemma history_step:
  assumes "effect ps w cx s t"
  shows "history_kept s t"
proof -
  have k: "history_kept s t" if "\<exists>xs. ledger (core t) = ledger (core s) @ xs" "usage_logs (core t) = usage_logs (core s)"
      "\<And>i. in_history s i \<Longrightarrow> tbl_get (users (core s)) i \<noteq> None \<Longrightarrow> tbl_get (users (core t)) i \<noteq> None"
    using that audits_step [OF assms] by (simp add: history_kept_def)
  show ?thesis
    using assms
  proof (cases rule: effect_cases)
    case quiet
    then show ?thesis by (intro k) (simp_all add: quiet_fields)
  next
    case (inserted u p)
    then show ?thesis by (intro k) (auto simp: insert_user_def Let_def bump_def tbl_get_append)
  next
    case (updated fs i)
    then show ?thesis by (intro k) (auto simp: update_users_def tbl_get_upd)
  next
    case (deleted i)
    show ?thesis unfolding deleted(1)
    proof (rule k [unfolded deleted(1)])
      fix j assume "in_history s j" "tbl_get (users (core s)) j \<noteq> None"
      moreover have "\<not> in_history s i" using deleted(4,5) by (auto simp: in_history_def)
      ultimately show "tbl_get (users (core (remove_user i s))) j \<noteq> None" by (auto simp: users_removed)
    qed (simp_all add: remove_user_def)
  next
    case (booked i d)
    then show ?thesis using credited_ids [OF booked(2)] by (intro k) (auto simp: credited_def)
  next
    case (coded rs q)
    then show ?thesis by (intro k) auto
  next
    case (shifted ids dept)
    then show ?thesis by (intro k) (auto simp: tbl_get_map)
  next
    case (opened x r)
    from create_integration_users [OF opened(2)] show ?thesis
    proof (elim disjE exE conjE)
      fix j p v
      assume "t = insert_user (service_account x j) p v" "core v = core s"
      then show ?thesis by (intro k) (auto simp: insert_user_def Let_def bump_def tbl_get_append)
    qed (auto intro: k)
  next
    case (closed i)
    then show ?thesis by (intro k) (auto simp: disable_integration_def tbl_get_map)
  next
    case (issued key c)
    then show ?thesis by (intro k) (auto simp: insert_key_def Let_def bump_def)
  next
    case (edited i x f g)
    then show ?thesis by (intro k) (auto simp: update_key_def)
  next
    case (orphaned i p)
    then show ?thesis by (intro k) auto
  qed
qed

section \<open>No one raises a rank\<close>

text \<open>The accounts above a plain user's. Of the account \<open>a\<close> only the rank, of the others all but the balance and the department.\<close>

definition privileged :: "row_id \<Rightarrow> site \<Rightarrow> row_id \<Rightarrow> (string \<times> (user_row \<times> profile) option) option" where
  "privileged a s j = (case tbl_get (users (core s)) j of None \<Rightarrow> None
     | Some u \<Rightarrow> if u_role u = ''user'' then None
         else Some (u_role u, if j = a then None else Some (u\<lparr>credit_balance := 0, u_departmentID := None\<rparr>, profiles s j)))"

lemma manages_plain:
  assumes "actor_role cx \<noteq> ''root''" "manages cx s i"
  shows "\<exists>u. tbl_get (users (core s)) i = Some u \<and> u_role u = ''user''"
  using assms by (auto simp: manages_def load_user_Some canManage_def actor_role_def split: if_splits option.splits)

lemma privileged_insert:
  "u_role u = ''user'' \<Longrightarrow> \<not> user_conflict u p s \<Longrightarrow> privileged a (insert_user u p s) j = privileged a s j"
  by (auto simp: privileged_def user_conflict_def insert_user_def Let_def bump_def tbl_get_append split: option.split)

lemma privileged_same: "users (core t) = users (core s) \<Longrightarrow> profiles t = profiles s \<Longrightarrow> privileged a t j = privileged a s j"
  unfolding privileged_def by metis

lemma privileged_map:
  assumes "tbl_get (users (core t)) j = map_option f (tbl_get (users (core s)) j)" "profiles t = profiles s"
    "\<And>u. u_role (f u) = u_role u \<and> (f u)\<lparr>credit_balance := 0, u_departmentID := None\<rparr> = u\<lparr>credit_balance := 0, u_departmentID := None\<rparr>"
  shows "privileged a t j = privileged a s j"
  using assms by (simp add: privileged_def split: option.split)

lemma privileged_step:
  assumes e: "effect ps w cx s t" and ps: "RunIntegrations \<notin> ps" and actor: "actor_role cx \<noteq> ''root''"
    and self: "OwnAccount \<in> ps \<Longrightarrow> a = actor_of cx"
  shows "privileged a t j = privileged a s j"
  using e
proof (cases rule: effect_cases)
  case quiet
  then show ?thesis by (intro privileged_same) (simp_all add: quiet_fields)
next
  case (inserted u p)
  then show ?thesis using actor by (auto simp: created_by_def intro: privileged_insert)
next
  case (updated fs i)
  from updated(2) show ?thesis
  proof (elim disjE conjE)
    assume "is_self cx i" "list_all own_field fs" "OwnAccount \<in> ps"
    then show ?thesis using fields_keep_role [of fs cx i] updated(1) self
      by (auto simp: privileged_def updated_user is_self_def actor_of_def split: option.split)
  next
    assume "manages cx s i" "list_all (field_allowed cx i) fs"
    then show ?thesis using fields_keep_role [of fs cx i] updated(1) actor manages_plain [OF actor, of s i]
      by (auto simp: privileged_def updated_user split: option.split)
  qed
next
  case (deleted i)
  have "profiles (remove_user i s) = profiles s" by (simp add: remove_user_def)
  then show ?thesis using deleted(1) manages_plain [OF actor deleted(2)] by (auto simp: privileged_def users_removed split: option.split)
next
  case (booked i d)
  from booked(2) obtain b where "users d = users (core s) \<or> users d = tbl_upd (\<lambda>u. u\<lparr>credit_balance := b\<rparr>) i (users (core s))"
    unfolding credited_def by blast
  then show ?thesis
  proof
    assume "users d = users (core s)"
    then show ?thesis using booked(1) by (intro privileged_same) simp_all
  next
    assume "users d = tbl_upd (\<lambda>u. u\<lparr>credit_balance := b\<rparr>) i (users (core s))"
    then show ?thesis using booked(1)
      by (intro privileged_map [where f = "\<lambda>u. if j = i then u\<lparr>credit_balance := b\<rparr> else u"]) (simp_all add: tbl_get_upd option.map_ident)
  qed
next
  case (coded rs q)
  then show ?thesis by (intro privileged_same) simp_all
next
  case (shifted ids dept)
  then show ?thesis
    by (intro privileged_map [where f = "\<lambda>u. if j \<in> set ids then u\<lparr>u_departmentID := dept\<rparr> else u"]) (simp_all add: tbl_get_map)
next
  case (issued key c)
  then show ?thesis by (intro privileged_same) (simp_all add: insert_key_def Let_def bump_def)
next
  case (edited i x f g)
  then show ?thesis by (intro privileged_same) (simp_all add: update_key_def)
next
  case (orphaned i p)
  then show ?thesis by (intro privileged_same) simp_all
qed (use ps in blast)+

section \<open>A session is opened for oneself\<close>

definition sessions_own :: "request_context \<Rightarrow> site \<Rightarrow> site \<Rightarrow> bool" where
  "sessions_own cx s t \<longleftrightarrow> (\<forall>(k, i) \<in> set (sessions t). (k, i) \<in> set (sessions s) \<or> is_self cx i)"

lemma destroyed_subset: "set (destroy_sessions w i ss) \<subseteq> set ss"
  by (induction w i ss rule: destroy_sessions.induct) auto

lemma set_tbl_upd: "set (tbl_upd f k t) \<subseteq> insert (k, f (the (tbl_get t k))) (set t)"
  by (induction t rule: tbl_upd.induct [of _ f k]) (auto simp: tbl_get_def)

lemma upsert_set: "set (tbl_upsert v (\<lambda>_. v) k t) \<subseteq> insert (k, v) (set t)"
  using set_tbl_upd [of "\<lambda>_. v" k t] by (auto simp: tbl_upsert_def split: option.split)

lemma sessions_own_subset: "set (sessions t) \<subseteq> set (sessions s) \<Longrightarrow> sessions_own cx s t"
  by (auto simp: sessions_own_def)

lemma created_sessions: "UserRepo_Create w u p s = (r, t) \<Longrightarrow> sessions t = sessions s"
  by (auto simp: UserRepo_Create_def insert_user_def Let_def bump_def split: if_splits)

lemma create_integration_sessions: "create_integration w x s = (r, t) \<Longrightarrow> sessions t = sessions s"
  by (auto simp: create_integration_def Let_def bump_def split: if_splits prod.splits option.splits dest: created_sessions)

lemma sessions_step:
  assumes "effect ps w cx s t" "EnterLogin \<notin> ps"
  shows "sessions_own cx s t"
  using assms(1)
proof (cases rule: effect_cases)
  case quiet
  then show ?thesis
  proof (cases rule: quiet.cases)
    case (q_ended i)
    then show ?thesis using destroyed_subset [of w i "sessions s"] by (intro sessions_own_subset) auto
  next
    case (q_entered i)
    then have "is_self cx i" using assms(2) by blast
    then show ?thesis using q_entered(1) upsert_set [of i "sw_newSession w" "tbl_del (sw_cookie w) (sessions s)"]
      by (auto simp: sessions_own_def tbl_del_def)
  qed (use assms(2) in \<open>auto simp: bump_def bump_by_def tbl_del_def intro!: sessions_own_subset\<close>)
next
  case (opened x r)
  then show ?thesis by (auto intro!: sessions_own_subset simp: create_integration_sessions)
qed (auto simp: insert_user_def insert_key_def update_users_def update_key_def remove_user_def disable_integration_def Let_def bump_def intro!: sessions_own_subset)

section \<open>The guarantees, as interpretations\<close>

lemma confined_chain: "confined i s t \<Longrightarrow> confined i t u \<Longrightarrow> confined i s u"
  by (simp add: confined_def)

interpretation consistency: kept "\<lambda>cx s t. site_ok s \<longrightarrow> site_ok t" ps w "\<lambda>_. True" for ps w
  by unfold_locales (auto intro: site_ok_step)

interpretation bookkeeping: kept "\<lambda>cx s t. books (core s) \<and> codes_ok (core s) \<longrightarrow> books (core t) \<and> codes_ok (core t)" ps w "\<lambda>_. True" for ps w
  by unfold_locales (auto intro: books_step codes_step)

interpretation history: kept "\<lambda>cx. history_kept" ps w "\<lambda>_. True" for ps w
proof
  show "history_kept s s" for s by (simp add: history_kept_def)
qed (auto intro: history_chain history_step)

interpretation ranks: kept "\<lambda>cx s t. privileged a t = privileged a s" "ps - {RunIntegrations}" w
    "\<lambda>cx. actor_role cx \<noteq> ''root'' \<and> (OwnAccount \<in> ps \<longrightarrow> a = actor_of cx)" for a ps w
  by unfold_locales (auto simp: fun_eq_iff intro!: privileged_step)

interpretation logins: kept sessions_own "ps - {EnterLogin}" w "\<lambda>_. True" for ps w
proof
  show "sessions_own cx s s" for cx s by (auto simp: sessions_own_def)
  show "sessions_own cx s u" if "sessions_own cx s t" "sessions_own cx t u" for cx s t u
    using that unfolding sessions_own_def by fast
qed (simp add: sessions_step)

interpretation tenancy: kept "\<lambda>cx s t. service_user i cx s \<and> site_ok s \<longrightarrow> service_user i cx t \<and> site_ok t \<and> confined i s t" "{}" w "tenant i" for i w
proof
  show "service_user i cx s \<and> site_ok s \<longrightarrow> service_user i cx s \<and> site_ok s \<and> confined i s s" for cx s by (simp add: confined_def)
  show "service_user i cx s \<and> site_ok s \<longrightarrow> service_user i cx t \<and> site_ok t \<and> confined i s t" if "tenant i cx" "effect {} w cx s t" for cx s t
    using that tenant_users confined_step site_ok_step by blast
qed (blast intro: confined_chain)

end
