(* ===== verification/Samples.thy ===== *)
theory Samples
  imports Guarantees
begin

text \<open>
  A small site to try things on: a root account (9), an operator (8), a service account (2) of integration 7 with a token, a user (3)
  of it, and a user (1) of the server's own with ten credits; the first two and the last are logged in.
\<close>

definition sample_profile :: "string \<Rightarrow> profile" where
  "sample_profile hash = new_profile hash []"

definition sample_core :: db where
  "sample_core = demo_db\<lparr>users := [(1, demo_user), (2, (new_user ''bot'' [] ''managed'')\<lparr>u_integrationID := Some 7\<rparr>),
     (3, (new_user ''tom'' [] ''user'')\<lparr>u_integrationID := Some 7\<rparr>), (8, new_user ''eve'' [] ''admin''), (9, new_user ''adam'' [] ''root'')]\<rparr>"

definition sample_token :: string where
  "sample_token = ''tzs-0123456789abcdefg''"

definition sample_site :: site where
  "sample_site = \<lparr>core = sample_core, profiles = (\<lambda>i. sample_profile ''h:password''), keyCols = (\<lambda>i. \<lparr>kc_prefix = ''sk'',
       kc_allowedModels = PolicyEmpty, kc_allowedIPs = PolicyEmpty, kc_integrationID = None\<rparr>),
     departments = [], projects = [], integrations = [(7, \<lparr>in_name = ''shop'', in_slug = ''shop'', in_status = Enabled\<rparr>)],
     serviceTokens = [(5, \<lparr>tk_integrationID = 7, tk_name = ''t'', tk_hash = ''h:'' @ sample_token, tk_prefix = ''tzs-'', tk_status = Enabled,
       tk_deletedAt = None\<rparr>)],
     idempotency = [], audits = [], sessions = [(''c1'', 1), (''c8'', 8), (''c9'', 9)], limiter = None, loginLock = None, seqs = (\<lambda>t. 20)\<rparr>"

text \<open>A request with its body and cookie, in a world in which nothing fails.\<close>

definition sample_world :: "json option \<Rightarrow> string \<Rightarrow> site_world" where
  "sample_world body cookie = \<lparr>sw_fails = (\<lambda>q. False), sw_env = (\<lambda>n. demo_env), sw_sha = (\<lambda>p. ''h:'' @ p), sw_bcrypt = (\<lambda>p. Inr (''h:'' @ p)),
     sw_compare = (\<lambda>h p. h = ''h:'' @ p), sw_rand = (\<lambda>n. Some ''r''), sw_base64 = (\<lambda>s. s), sw_ilike = (\<lambda>t p. False), sw_int = (\<lambda>k. 0),
     sw_bool = (\<lambda>k. True), sw_str = (\<lambda>k. []), sw_net = \<lparr>net_ParseIP = (\<lambda>t. None), net_ParseCIDR = (\<lambda>t. None)\<rparr>, sw_time = (\<lambda>t. None),
     sw_timeText = (\<lambda>t. []), sw_stamp = (\<lambda>t. []), sw_now = 0, sw_body = body, sw_param = (\<lambda>k. []), sw_query = (\<lambda>k. []), sw_ip = [],
     sw_requestID = [], sw_authorization = [], sw_cookie = cookie, sw_newSession = ''new'', sw_errorText = (\<lambda>e. [])\<rparr>"

definition token_world :: "json option \<Rightarrow> site_world" where
  "token_world body = (sample_world body [])\<lparr>sw_authorization := ''Bearer '' @ sample_token\<rparr>"

definition for_id :: "string \<Rightarrow> site_world \<Rightarrow> site_world" where
  "for_id i w = w\<lparr>sw_param := (\<lambda>k. if k = ''id'' then i else [])\<rparr>"

text \<open>The reports answer nothing here.\<close>

definition sample_other :: "string \<Rightarrow> handler" where
  "sample_other n cx s = fail 501 [] s"

lemma sample_refines: "refines ps w (sample_other n)"
  by (rule refinesI) (simp add: sample_other_def)

lemmas sample_rows = sample_core_def new_user_def demo

lemma sample_site_ok: "site_ok sample_site"
  by (simp add: site_ok_def users_ok_def keys_ok_def sample_site_def sample_rows role_Valid_def roleRank_def)

lemma sample_books: "books (core sample_site)"
proof -
  have "ledger_ok sample_core" by (simp add: ledger_ok_def sample_rows tbl_get_def)
  then show ?thesis
    by (simp add: books_def sample_site_def balanced_def running_ok_def sample_rows user_entries_def call_entries_def
      call_type_def tbl_get_def i64_def MinInt64_def MaxInt64_def wrap64_def)
qed

lemma sample_codes_ok: "codes_ok (core sample_site)"
  by (simp add: codes_ok_def sample_site_def sample_core_def demo i64_def MinInt64_def MaxInt64_def)

text \<open>Nothing is trimmed from a text that begins and ends with a visible character of ASCII.\<close>

definition visible :: "char \<Rightarrow> bool" where
  "visible c \<longleftrightarrow> 33 \<le> (of_char c :: nat) \<and> (of_char c :: nat) \<le> 126"

lemma space_rune_ends: "r \<in> set space_runes \<Longrightarrow> r \<noteq> [] \<and> \<not> visible (hd r) \<and> \<not> visible (last r)"
  by (auto simp: space_runes_def utf8_def visible_def)

lemma prefix_hd: "has_prefix p s \<Longrightarrow> p \<noteq> [] \<Longrightarrow> s \<noteq> [] \<Longrightarrow> hd p = hd s"
  by (cases p; cases s) auto

lemma TrimSpace_visible:
  assumes "s \<noteq> []" "visible (hd s)" "visible (last s)"
  shows "TrimSpace s = s"
proof -
  have "\<not> has_prefix r s" "\<not> has_prefix (rev r) (rev s)" if "r \<in> set space_runes" for r
    using prefix_hd [of r s] prefix_hd [of "rev r" "rev s"] space_rune_ends [OF that] assms by (auto simp: hd_rev)
  then have "space_prefix s = 0" "space_suffix s = 0"
    unfolding space_prefix_def space_suffix_def by (auto split: option.splits simp: find_Some_iff)
  then show ?thesis by (simp add: TrimSpace_def trim_left.simps trim_right.simps)
qed

lemmas sample_eval = sample_site_def sample_world_def token_world_def for_id_def sample_token_def sample_profile_def sample_rows new_profile_def
  tbl_get_def sample_other_def

lemma sample_trimmed: "TrimSpace (''Bearer '' @ sample_token) = ''Bearer '' @ sample_token"
  by (rule TrimSpace_visible) (simp_all add: sample_token_def visible_def)

lemma sample_bearer: "bearerServiceToken (token_world b) = sample_token"
  using sample_trimmed by (simp add: bearerServiceToken_def token_world_def sample_world_def sample_token_def TrimPrefix_def LooksLikeServiceToken_def
      ServiceTokenPlainPrefix_def)

lemma sample_hash: "ServiceTokenRepo_GetByHash (token_world b) (sw_sha (token_world b) sample_token) sample_site
    = Some (5, snd (hd (serviceTokens sample_site)))"
  by (simp add: ServiceTokenRepo_GetByHash_def first_row_def sample_eval)

definition login_body :: "json option" where
  "login_body = Some (JObj [(''username'', JStr ''tom''), (''password'', JStr ''password'')])"

lemma login_read: "Option.bind (document_fields login_body) read_login = Some \<lparr>lr_username = ''tom'', lr_password = ''password''\<rparr>"
  by (simp add: login_body_def document_fields_def read_login_def rd_str_def scalar_get_def struct_get_def to_lower_def lower_char_def)

end
