(* ===== verification/Server.thy ===== *)
theory Server
  imports Samples
begin

text \<open>
  The whole table of routes: who gets to a handler, and what a request to the server, whatever it is, leaves as it was.
  The handlers not modelled here write to no table of \<open>site\<close> but the audit trail; this is the hypothesis \<open>plain\<close> on
  the argument \<open>other\<close>.
\<close>

definition plain :: "site_world \<Rightarrow> (string \<Rightarrow> handler) \<Rightarrow> bool" where
  "plain w other \<longleftrightarrow> (\<forall>n. refines {} w (other n))"

lemma sample_plain: "plain w sample_other"
  by (simp add: plain_def sample_refines)

section \<open>The powers of a route\<close>

definition members_path :: string where
  "members_path = ''/api/admin/departments/{id}/members''"

fun powers_of :: "bucket \<Rightarrow> string \<Rightarrow> power set" where
  "powers_of Public p = (if p = ''/api/auth/login'' then {CountTries, EnterLogin} else if p = ''/api/auth/logout'' then {LeaveLogin}
     else {CountTries, OpenUsers})"
| "powers_of SelfService p = {OwnAccount}"
| "powers_of Personal p = {OwnAccount}"
| "powers_of (AdminBucket l) p = (if l = ''root'' then {RunIntegrations} else if l = ''admin'' then {GrantAny, OpenUsers, IssueCodes}
     else if p = members_path then {MoveMembers} else {})"

lemma quiet_mono: "quiet ps w cx s t \<Longrightarrow> ps \<subseteq> qs \<Longrightarrow> quiet qs w cx s t"
  by (erule quiet.cases; simp; (rule quiet.intros; (auto simp: may_touch_def; fail)))

lemma effect_mono: "effect ps w cx s t \<Longrightarrow> ps \<subseteq> qs \<Longrightarrow> effect qs w cx s t"
  by (erule effect.cases; simp; (rule effect.intros; (auto simp: may_touch_def intro: quiet_mono; fail)))

lemma refines_mono: "refines ps w h \<Longrightarrow> ps \<subseteq> qs \<Longrightarrow> refines qs w h"
  unfolding refines_def by (metis effect_mono mono_rtranclp)

definition routes_refine :: "site_world \<Rightarrow> bucket \<Rightarrow> route list \<Rightarrow> bool" where
  "routes_refine w b rs \<longleftrightarrow> (\<forall>(m, p, h) \<in> set rs. refines (powers_of b p) w h)"

lemma routes_refine_simps [simp]:
  "routes_refine w b []"
  "routes_refine w b ((m, p, h) # rs) \<longleftrightarrow> refines (powers_of b p) w h \<and> routes_refine w b rs"
  by (simp_all add: routes_refine_def)

lemmas refines_all = refines_Login refines_Logout refines_Register refines_ChangePassword refines_UpdateProfile refines_ListLedger
  refines_GrantCredits refines_CreateUser refines_UpdateUser refines_SetUserStatus refines_ResetPassword refines_DeleteUser refines_ImportUsers
  refines_BatchGrant refines_BatchStatus refines_CreateDepartment refines_UpdateDepartment refines_DeleteDepartment refines_SetDepartmentMembers
  refines_CreateProject refines_UpdateProject refines_DeleteProject refines_CreateIntegration refines_UpdateIntegration refines_CreateServiceToken
  refines_SetServiceTokenStatus refines_DeleteServiceToken refines_DisableIntegration refines_MeKeys refines_UserKeys refines_reads
  refines_Redeem refines_MeListLedger refines_CreateRedemptions refines_SetRedemptionStatus refines_money_reads

lemma other_refines: "plain w other \<Longrightarrow> refines ps w (other n)"
  unfolding plain_def by (blast intro: refines_mono)

lemma routes_ok:
  assumes "plain w other"
  shows "routes_refine w Public (public_routes w other)" "routes_refine w SelfService (self_routes w other)"
    "routes_refine w Personal (personal_routes w other)" "routes_refine w (AdminBucket ''admin'') (operator_routes w other)"
    "routes_refine w (AdminBucket ''managed'') (managed_routes w other)" "routes_refine w (AdminBucket ''root'') (root_routes w other)"
  by (simp_all add: public_routes_def self_routes_def personal_routes_def operator_routes_def managed_routes_def root_routes_def
      members_path_def refines_all other_refines [OF assms])

lemma found_route: "find_route m p bs = Some (b, h) \<Longrightarrow> \<exists>rs. (b, rs) \<in> set bs \<and> (m, p, h) \<in> set rs"
  by (induction m p bs rule: find_route.induct) (auto simp: find_Some_iff split: option.splits, metis nth_mem)

lemma route_refines:
  assumes "find_route m p (api_routes w other) = Some (b, h)" "plain w other"
  shows "refines (powers_of b p) w h"
proof -
  obtain rs where "(b, rs) \<in> set (api_routes w other)" "(m, p, h) \<in> set rs" using found_route [OF assms(1)] by blast
  moreover from this have "routes_refine w b rs" using routes_ok [OF assms(2)] by (auto simp: api_routes_def)
  ultimately show ?thesis by (auto simp: routes_refine_def)
qed

section \<open>The middleware\<close>

text \<open>The contexts with which a request gets through to a handler.\<close>

definition by_session :: "site_world \<Rightarrow> site \<Rightarrow> request_context \<Rightarrow> bool" where
  "by_session w s cx \<longleftrightarrow> (\<exists>u. session_user w s = Inr u \<and> cx = WithUser u empty_context)"

definition by_token :: "site_world \<Rightarrow> site \<Rightarrow> request_context \<Rightarrow> bool" where
  "by_token w s cx \<longleftrightarrow> bearerServiceToken w \<noteq> [] \<and> (\<exists>u i. authenticateServiceToken w (bearerServiceToken w) s = Inr u
     \<and> u_integrationID (us_row u) = Some i \<and> cx = WithScope i (WithUser u empty_context))"

definition of_rank :: "string \<Rightarrow> request_context \<Rightarrow> bool" where
  "of_rank least cx \<longleftrightarrow> (\<exists>u. CurrentUser cx = Some u \<and> role_AtLeast (u_role (us_row u)) least)"

definition password_changed :: "request_context \<Rightarrow> bool" where
  "password_changed cx \<longleftrightarrow> (\<forall>u. CurrentUser cx = Some u \<longrightarrow> \<not> p_mustChange (us_profile u))"

fun admitted :: "site_world \<Rightarrow> bucket \<Rightarrow> site \<Rightarrow> request_context \<Rightarrow> bool" where
  "admitted w Public s cx \<longleftrightarrow> cx = empty_context"
| "admitted w SelfService s cx \<longleftrightarrow> by_session w s cx \<and> of_rank ''user'' cx"
| "admitted w Personal s cx \<longleftrightarrow> by_session w s cx \<and> of_rank ''user'' cx \<and> password_changed cx"
| "admitted w (AdminBucket least) s cx \<longleftrightarrow> (by_token w s cx \<or> bearerServiceToken w = [] \<and> by_session w s cx) \<and> of_rank least cx \<and> password_changed cx"

lemma token_account:
  assumes "authenticateServiceToken w t s = Inr u"
  obtains j tk where "ServiceTokenRepo_GetByHash w (sw_sha w t) s = Some (j, tk)" "tk_status tk = Enabled"
    "u_integrationID (us_row u) = Some (tk_integrationID tk)" "u_status (us_row u) = UserEnabled"
    "GetServiceAccount w (tk_integrationID tk) s = Some u"
  using assms by (auto simp: authenticateServiceToken_def split: option.splits if_splits)

lemma guarded_cases:
  "(\<exists>code message. guarded w b h empty_context s = (Fail code message, s) \<and> code \<in> {401, 403})
    \<or> (\<exists>cx. admitted w b s cx \<and> guarded w b h empty_context s = h cx s)"
proof (cases b)
  case (AdminBucket least)
  show ?thesis
  proof (cases "bearerServiceToken w = []")
    case True
    then show ?thesis using AdminBucket
      by (auto simp: AdminAuth_def RequirePasswordChanged_def RequireAtLeast_def fail_def by_session_def of_rank_def password_changed_def
          CurrentUser_def WithUser_def session_user_def split: sum.splits option.splits)
  next
    case False
    show ?thesis
    proof (cases "authenticateServiceToken w (bearerServiceToken w) s")
      case (Inl reason)
      then show ?thesis using AdminBucket False by (simp add: AdminAuth_def fail_def)
    next
      case (Inr u)
      then obtain i where i: "u_integrationID (us_row u) = Some i" by (rule token_account)
      define cx where "cx = WithScope i (WithUser u empty_context)"
      have cx: "CurrentUser cx = Some u" "by_token w s cx"
        using False Inr i by (auto simp: cx_def CurrentUser_def WithUser_def WithScope_def by_token_def)
      have "guarded w b h empty_context s = RequirePasswordChanged (RequireAtLeast least h) cx s"
        using AdminBucket False Inr i by (simp add: AdminAuth_def cx_def)
      then show ?thesis using cx AdminBucket
        by (auto simp: RequirePasswordChanged_def RequireAtLeast_def fail_def of_rank_def password_changed_def)
    qed
  qed
qed (auto simp: RequireRole_def RequirePasswordChanged_def fail_def by_session_def of_rank_def password_changed_def
    CurrentUser_def WithUser_def session_user_def split: sum.splits option.splits)

text \<open>Either a request is refused and nothing is written, or a handler runs that makes only the writes of its route.\<close>

lemma served:
  assumes "serve w other m p s = (r, t)" "plain w other"
  obtains (refused) code message where "r = Fail code message" "t = s" "code \<in> {401, 403, 404}"
  | (handled) b h cx where "find_route m p (api_routes w other) = Some (b, h)" "admitted w b s cx" "h cx s = (r, t)"
      "refines (powers_of b p) w h"
proof (cases "find_route m p (api_routes w other)")
  case None
  then show ?thesis using assms(1) by (intro refused [of 404 msg_site_no_api]) (simp_all add: serve_def fail_def)
next
  case (Some bh)
  obtain b h where bh: "bh = (b, h)" by fastforce
  have "(\<exists>code message. (r, t) = (Fail code message, s) \<and> code \<in> {401, 403}) \<or> (\<exists>cx. admitted w b s cx \<and> (r, t) = h cx s)"
    using guarded_cases [of w b h s] assms(1) Some bh by (simp add: serve_def)
  then show ?thesis using refused handled route_refines [OF _ assms(2)] Some bh by (elim disjE exE conjE) auto
qed

lemma served_effects:
  assumes "serve w other m p s = (r, t)" "plain w other"
  obtains (same) "t = s"
  | (steps) b h cx where "find_route m p (api_routes w other) = Some (b, h)" "admitted w b s cx" "effects (powers_of b p) w cx s t" "h cx s = (r, t)"
  using assms
proof (cases rule: served)
  case (handled b h cx)
  then have "effects (powers_of b p) w cx s t" using handled(3) by (auto simp: refines_def dest!: spec [of _ cx] spec [of _ s])
  then show ?thesis using handled(1-3) steps by blast
qed (rule same)

lemma outside_admin:
  "list_all (\<lambda>(m, p, h). take 11 p \<noteq> ''/api/admin/'') (public_routes w other)"
  "list_all (\<lambda>(m, p, h). take 11 p \<noteq> ''/api/admin/'') (self_routes w other)"
  "list_all (\<lambda>(m, p, h). take 11 p \<noteq> ''/api/admin/'') (personal_routes w other)"
  by (simp_all add: public_routes_def self_routes_def personal_routes_def)

lemma admin_bucket:
  assumes "find_route m p (api_routes w other) = Some (b, h)" "take 11 p = ''/api/admin/''"
  shows "\<exists>l. b = AdminBucket l"
proof -
  obtain rs where "(b, rs) \<in> set (api_routes w other)" "(m, p, h) \<in> set rs" using found_route [OF assms(1)] by blast
  then show ?thesis using outside_admin [of w other] assms(2) by (auto simp: api_routes_def list_all_iff)
qed

section \<open>Whatever the request\<close>

lemma admitted_actor:
  assumes "admitted w b s cx" "OwnAccount \<in> powers_of b p"
  shows "actor_of cx = SessionUserID w s"
proof -
  have "by_session w s cx" using assms by (cases b) (auto split: if_splits)
  then obtain u where "session_user w s = Inr u" "cx = WithUser u empty_context" unfolding by_session_def by blast
  then show ?thesis
    by (auto simp: session_user_def actor_of_def CurrentUser_def WithUser_def UserRepo_GetByID_def load_user_Some split: if_splits option.splits)
qed

lemma first_row_Some:
  assumes "first_row q t = Some i" "distinct (map fst t)"
  shows "\<exists>v. tbl_get t i = Some v \<and> q i v"
proof -
  obtain v where "List.find (\<lambda>(i, r). q i r) (sort_key fst t) = Some (i, v)" using assms(1) by (auto simp: first_row_def)
  then obtain n where "n < length (sort_key fst t)" "sort_key fst t ! n = (i, v)" and q: "q i v"
    unfolding find_Some_iff by (metis (no_types, lifting) case_prod_conv)
  then have "(i, v) \<in> set (sort_key fst t)" by (metis nth_mem)
  then have "(i, v) \<in> set t" by (simp only: set_sort)
  then have "tbl_get t i = Some v" using assms(2) by (simp only: tbl_get_def map_of_eq_Some_iff)
  then show ?thesis using q by blast
qed

lemma account_managed:
  assumes "GetServiceAccount w i s = Some u" "site_ok s"
  shows "u_role (us_row u) = ''managed''" "u_integrationID (us_row u) = Some i" "load_user s (us_ID u) = Some u"
proof -
  obtain k where "first_row (\<lambda>j u. u_integrationID u = Some i \<and> u_role u = ''managed'') (users (core s)) = Some k" "load_user s k = Some u"
    using assms(1) by (auto simp: GetServiceAccount_def bind_eq_Some_conv split: if_splits)
  then show "u_role (us_row u) = ''managed''" "u_integrationID (us_row u) = Some i" "load_user s (us_ID u) = Some u"
    using first_row_Some [of _ "users (core s)" k] assms(2) by (auto simp: site_ok_def users_ok_def load_user_Some)
qed

lemma admitted_rank:
  assumes "admitted w b s cx" "\<And>u. session_user w s = Inr u \<Longrightarrow> u_role (us_row u) \<noteq> ''root''" "site_ok s"
  shows "actor_role cx \<noteq> ''root''" "RunIntegrations \<notin> powers_of b p"
proof -
  have "by_session w s cx \<or> by_token w s cx \<or> cx = empty_context" using assms(1) by (cases b) auto
  then show r: "actor_role cx \<noteq> ''root''"
    using assms(2) account_managed(1) [OF _ assms(3)]
    by (auto simp: by_session_def by_token_def actor_role_def CurrentUser_def WithUser_def WithScope_def empty_context_def elim!: token_account)
  have "\<not> role_AtLeast r ''root''" if "r \<noteq> ''root''" for r
    using that by (auto simp: role_AtLeast_def roleRank_def)
  then have "\<not> of_rank ''root'' cx" using r by (auto simp: of_rank_def actor_role_def)
  then show "RunIntegrations \<notin> powers_of b p" using assms(1) by (cases b) auto
qed

text \<open>
  C7. No request raises a rank. If the session of a request is not the root's, then, whatever the request, no account above a
  plain user's appears or vanishes, no rank of one changes, and of every such account but the requester's own nothing at all changes but
  its balance and its department. These two can change: an administrator may book grants in batches and assign departments without regard to rank.
\<close>

theorem ranks_kept:
  assumes "plain w other" "site_ok s" "\<And>u. session_user w s = Inr u \<Longrightarrow> u_role (us_row u) \<noteq> ''root''"
  shows "privileged (SessionUserID w s) (snd (serve w other m p s)) = privileged (SessionUserID w s) s"
proof -
  obtain r t where rt: "serve w other m p s = (r, t)" by fastforce
  from rt assms(1) have "privileged (SessionUserID w s) t = privileged (SessionUserID w s) s"
  proof (cases rule: served_effects)
    case (steps b h cx)
    have "powers_of b p - {RunIntegrations} = powers_of b p" using admitted_rank(2) [OF steps(2) assms(3,2)] by blast
    then show ?thesis using ranks.steps [of "powers_of b p" w cx s t "SessionUserID w s"] steps(3) admitted_rank(1) [OF steps(2) assms(3,2)]
      admitted_actor [OF steps(2)] by simp
  qed simp
  then show ?thesis using rt by simp
qed

lemma ranks_kept_witness:
  "privileged 8 (snd (serve (sample_world None ''c8'') sample_other ''DELETE'' ''/api/admin/users/{id}'' sample_site)) = privileged 8 sample_site"
proof -
  let ?w = "sample_world None ''c8''"
  have c: "SessionUserID ?w sample_site = 8" by (simp add: SessionUserID_def sample_eval)
  have "u_role (us_row u) \<noteq> ''root''" if "session_user ?w sample_site = Inr u" for u
    using that unfolding session_user_def c by (auto simp: UserRepo_GetByID_def load_user_def sample_eval split: if_splits)
  then show ?thesis using ranks_kept [OF sample_plain sample_site_ok, of ?w "''DELETE''" "''/api/admin/users/{id}''"] c by simp
qed

text \<open>
  C4. The books stay right. Whatever the request, if every balance is the exact sum of its user's entries, none negative, then so
  it is after it, and the tables keep their unique identifiers, names and hashes.
\<close>

theorem requests_keep_books:
  assumes "plain w other" "books (core s)" "codes_ok (core s)" "site_ok s"
  shows "let t = snd (serve w other m p s) in books (core t) \<and> codes_ok (core t) \<and> site_ok t"
proof -
  obtain r t where rt: "serve w other m p s = (r, t)" by fastforce
  from rt assms(1) have "books (core t) \<and> codes_ok (core t) \<and> site_ok t"
  proof (cases rule: served_effects)
    case (steps b h cx)
    then show ?thesis using bookkeeping.steps [OF steps(3)] consistency.steps [OF steps(3)] assms(2-4) by blast
  qed (use assms in simp)
  then show ?thesis using rt by simp
qed

lemma requests_keep_books_witness:
  "books (core (snd (serve (sample_world None ''c8'') sample_other ''POST'' ''/api/admin/users/'' sample_site)))"
  using requests_keep_books [OF sample_plain sample_books sample_codes_ok sample_site_ok] by (simp add: Let_def)

text \<open>
  C9. Nothing recorded is undone. Whatever the request, the ledger and the audit trail only grow at their end, the usage log
  stays, and no account with an entry or a logged call is deleted.
\<close>

theorem history_is_kept:
  assumes "plain w other"
  shows "history_kept s (snd (serve w other m p s))"
proof -
  obtain r t where rt: "serve w other m p s = (r, t)" by fastforce
  from rt assms have "history_kept s t"
  proof (cases rule: served_effects)
    case (steps b h cx)
    then show ?thesis by (intro history.steps [OF steps(3)]) simp
  qed (simp add: history_kept_def)
  then show ?thesis using rt by simp
qed

lemma history_is_kept_witness:
  "history_kept sample_site (snd (serve (sample_world None ''c8'') sample_other ''POST'' ''/api/admin/users/'' sample_site))"
  by (rule history_is_kept [OF sample_plain])

text \<open>
  C5. A service token stays within its integration. Whatever it asks of the administration, but for the members of a
  department, what lies outside of its integration stays: users, profiles, keys, departments, projects, entries,
  sessions, the integrations and tokens, the codes and the usage log.
\<close>

theorem service_token_confined:
  assumes "plain w other" "site_ok s" "bearerServiceToken w \<noteq> []"
    "ServiceTokenRepo_GetByHash w (sw_sha w (bearerServiceToken w)) s = Some (j, tk)" "0 < tk_integrationID tk"
    "take 11 p = ''/api/admin/''" "p \<noteq> members_path"
  shows "confined (tk_integrationID tk) s (snd (serve w other m p s))"
proof -
  let ?i = "tk_integrationID tk"
  obtain r t where rt: "serve w other m p s = (r, t)" by fastforce
  from rt assms(1) have "confined ?i s t"
  proof (cases rule: served_effects)
    case (steps b h cx)
    have b: "\<exists>l. b = AdminBucket l" using steps(1) assms(6) by (rule admin_bucket)
    then have tok: "by_token w s cx" using steps(2) assms(3) by auto
    then obtain u i where a: "authenticateServiceToken w (bearerServiceToken w) s = Inr u" "u_integrationID (us_row u) = Some i"
        "cx = WithScope i (WithUser u empty_context)" by (auto simp: by_token_def)
    from a(1) have u: "GetServiceAccount w ?i s = Some u" "cx = WithScope ?i (WithUser u empty_context)"
      by (rule token_account; use assms(4) a(2,3) in simp)+
    obtain l where l: "b = AdminBucket l" using b by blast
    have "role_AtLeast ''managed'' l" using l steps(2) account_managed(1) [OF u(1) assms(2)] u(2)
      by (auto simp: of_rank_def CurrentUser_def WithScope_def WithUser_def)
    then have "l \<noteq> ''root''" "l \<noteq> ''admin''" by (auto simp: role_AtLeast_def roleRank_def)
    then have "powers_of b p = {}" using l assms(7) by simp
    moreover have "tenant ?i cx" "service_user ?i cx s"
      using account_managed [OF u(1) assms(2)] u(2) assms(5)
      by (auto simp: tenant_def service_user_def CurrentUser_def WithScope_def WithUser_def actor_of_def load_user_Some)
    ultimately show ?thesis using tenancy.steps [of w cx s t ?i] steps(3) assms(2) by simp
  qed (simp add: confined_def)
  then show ?thesis using rt by simp
qed

lemma service_token_confined_witness:
  "confined 7 sample_site (snd (serve (for_id ''3'' (token_world (Some (JObj [(''status'', JStr ''disabled'')])))) sample_other
     ''POST'' ''/api/admin/users/{id}/status'' sample_site))"
proof -
  let ?w = "for_id ''3'' (token_world (Some (JObj [(''status'', JStr ''disabled'')])))"
  have "bearerServiceToken ?w = sample_token" "ServiceTokenRepo_GetByHash ?w (sw_sha ?w sample_token) sample_site
      = Some (5, snd (hd (serviceTokens sample_site)))"
    using sample_bearer sample_hash by (simp_all add: for_id_def bearerServiceToken_def ServiceTokenRepo_GetByHash_def)
  then show ?thesis
    using service_token_confined [OF sample_plain sample_site_ok, of ?w 5 "snd (hd (serviceTokens sample_site))"]
    by (simp add: members_path_def) (simp add: sample_eval)
qed

section \<open>Who gets in\<close>

lemma session_user_Inr:
  assumes "session_user w s = Inr u"
  shows "us_ID u = SessionUserID w s" "load_user s (us_ID u) = Some u" "u_status (us_row u) = UserEnabled"
  using assms by (auto simp: session_user_def UserRepo_GetByID_def load_user_Some split: if_splits option.splits)

lemma account_loaded: "GetServiceAccount w i s = Some u \<Longrightarrow> load_user s (us_ID u) = Some u"
  by (auto simp: GetServiceAccount_def bind_eq_Some_conv load_user_Some split: if_splits)

text \<open>
  C6. Only the entitled get to the administration. A request under /api/admin either is refused, and nothing changes,
  or its handler runs for an enabled user as the tables hold it, whose password was changed and whose role reaches that of
  the route; with a service token in its header the user is that of an enabled token's integration and the scope is that integration,
  without one it is that of the session.
\<close>

theorem admin_gate:
  assumes "take 11 p = ''/api/admin/''"
  shows "(\<exists>code message. serve w other m p s = (Fail code message, s) \<and> code \<in> {401, 403, 404})
    \<or> (\<exists>least h cx u. find_route m p (api_routes w other) = Some (AdminBucket least, h) \<and> serve w other m p s = h cx s
        \<and> CurrentUser cx = Some u \<and> load_user s (us_ID u) = Some u \<and> u_status (us_row u) = UserEnabled
        \<and> \<not> p_mustChange (us_profile u) \<and> role_AtLeast (u_role (us_row u)) least
        \<and> (if bearerServiceToken w = [] then us_ID u = SessionUserID w s \<and> ScopeIntegrationID cx = None
           else \<exists>j tk. ServiceTokenRepo_GetByHash w (sw_sha w (bearerServiceToken w)) s = Some (j, tk) \<and> tk_status tk = Enabled
             \<and> u_integrationID (us_row u) = Some (tk_integrationID tk) \<and> cx_scope cx = tk_integrationID tk))"
proof (cases "find_route m p (api_routes w other)")
  case None
  then show ?thesis by (simp add: serve_def fail_def)
next
  case (Some bh)
  obtain b h where bh: "bh = (b, h)" by fastforce
  then obtain least where b: "b = AdminBucket least" using admin_bucket [OF _ assms] Some by blast
  have g: "serve w other m p s = guarded w b h empty_context s" using Some bh by (simp add: serve_def)
  from guarded_cases [of w b h s] show ?thesis
  proof (elim disjE exE conjE)
    fix code message assume "guarded w b h empty_context s = (Fail code message, s)" "code \<in> {401, 403}"
    then show ?thesis using g by auto
  next
    fix cx assume a: "admitted w b s cx" "guarded w b h empty_context s = h cx s"
    then obtain u where u: "CurrentUser cx = Some u" "role_AtLeast (u_role (us_row u)) least" "\<not> p_mustChange (us_profile u)"
      unfolding b by (auto simp: of_rank_def password_changed_def)
    have "load_user s (us_ID u) = Some u \<and> u_status (us_row u) = UserEnabled
        \<and> (if bearerServiceToken w = [] then us_ID u = SessionUserID w s \<and> ScopeIntegrationID cx = None
           else \<exists>j tk. ServiceTokenRepo_GetByHash w (sw_sha w (bearerServiceToken w)) s = Some (j, tk) \<and> tk_status tk = Enabled
             \<and> u_integrationID (us_row u) = Some (tk_integrationID tk) \<and> cx_scope cx = tk_integrationID tk)"
    proof (cases "by_token w s cx")
      case True
      then obtain i where i: "authenticateServiceToken w (bearerServiceToken w) s = Inr u" "u_integrationID (us_row u) = Some i"
          "cx_scope cx = i" "bearerServiceToken w \<noteq> []"
        using u(1) by (auto simp: by_token_def CurrentUser_def WithScope_def WithUser_def)
      from i(1) show ?thesis by (rule token_account) (use i account_loaded in \<open>auto\<close>)
    next
      case False
      then have "bearerServiceToken w = []" "session_user w s = Inr u" "cx_scope cx = 0"
        using a(1) u(1) unfolding b by (auto simp: by_session_def CurrentUser_def WithUser_def empty_context_def)
      then show ?thesis using session_user_Inr [of w s u] by (simp add: ScopeIntegrationID_def)
    qed
    then show ?thesis using a(2) g u Some bh b
      by (intro disjI2 exI [of _ least] exI [of _ h] exI [of _ cx] exI [of _ u] conjI) simp_all
  qed
qed

lemma admin_gate_witness:
  "\<exists>code message. serve (sample_world None ''none'') sample_other ''GET'' ''/api/admin/users/'' sample_site = (Fail code message, sample_site)"
proof -
  have t: "bearerServiceToken (sample_world None ''none'') = []"
    by (simp add: bearerServiceToken_def sample_world_def TrimSpace_def trim_left.simps trim_right.simps TrimPrefix_def LooksLikeServiceToken_def)
  have c: "SessionUserID (sample_world None ''none'') sample_site = 0" by (simp add: SessionUserID_def sample_eval)
  have "load_user sample_site 0 = None" by (simp add: load_user_def sample_eval)
  then show ?thesis using admin_gate [of "''/api/admin/users/''" "sample_world None ''none''" sample_other "''GET''" sample_site] t c by auto
qed

lemma allow_core: "site_allow w key limit window s = (ok, t) \<Longrightarrow> core t = core s \<and> profiles t = profiles s \<and> loginLock t = loginLock s \<and> sessions t = sessions s"
  by (auto simp: site_allow_def split: option.splits prod.splits)

lemma login_allowed_core: "login_allowed w name s = (ok, t) \<Longrightarrow> core t = core s \<and> profiles t = profiles s \<and> loginLock t = loginLock s \<and> sessions t = sessions s"
  by (auto simp: login_allowed_def split: prod.splits bool.splits dest!: allow_core)

lemma same_credentials: "core t = core s \<Longrightarrow> profiles t = profiles s \<Longrightarrow> credentials w req t = credentials w req s"
proof -
  assume "core t = core s" "profiles t = profiles s"
  moreover from this have "load_user t = load_user s" by (simp add: load_user_def fun_eq_iff)
  ultimately show ?thesis by (simp add: credentials_def UserRepo_GetByUsername_def)
qed

lemma login_session:
  assumes "(k, i) \<in> set (sessions (snd (handleLogin w cx s)))" "(k, i) \<notin> set (sessions s)"
  shows "k = sw_newSession w \<and> (\<exists>req u. Option.bind (document_fields (sw_body w)) read_login = Some req \<and> credentials w req s = Some u
      \<and> us_ID u = i \<and> u_status (us_row u) = UserEnabled \<and> \<not> login_locked w (lr_username req) s)"
proof -
  obtain req where req: "Option.bind (document_fields (sw_body w)) read_login = Some req"
    using assms by (cases "Option.bind (document_fields (sw_body w)) read_login") (auto simp: handleLogin_def with_body_def fail_def)
  obtain ok t where a: "login_allowed w (lr_username req) s = (ok, t)" by fastforce
  note c = login_allowed_core [OF a]
  have aud: "sessions (Audit_Record w cx e v) = sessions v" for e v by (simp add: Audit_Record_def)
  have lock: "sessions (on_lock f v) = sessions v" for f v by (simp add: on_lock_def)
  have "ok \<and> \<not> login_locked w (lr_username req) t \<and> (\<exists>u. credentials w req t = Some u \<and> u_status (us_row u) = UserEnabled
      \<and> (k, i) \<in> set (sessions (snd (LoginSession w (us_ID u) (on_lock (locker_Reset (sw_now w) (lr_username req)) t)))))"
    using assms req a c
    by (auto simp: handleLogin_def with_body_def fail_def answer_with_def aud lock Let_def LoginSession_def
        split: bool.splits if_splits option.splits)
  then obtain u where u: "\<not> login_locked w (lr_username req) t" "credentials w req t = Some u" "u_status (us_row u) = UserEnabled"
      "(k, i) \<in> set (sessions (snd (LoginSession w (us_ID u) (on_lock (locker_Reset (sw_now w) (lr_username req)) t))))" by blast
  have "(k, i) = (sw_newSession w, us_ID u)"
    using u(4) c assms(2) upsert_set [of "us_ID u" "sw_newSession w" "tbl_del (sw_cookie w) (sessions s)"]
    by (auto simp: LoginSession_def lock tbl_del_def split: if_splits)
  moreover have "\<not> login_locked w (lr_username req) s" using u(1) c by (simp add: login_locked_def)
  ultimately show ?thesis using u(2,3) same_credentials [of t s w req] c req by auto
qed

lemma login_route:
  assumes "find_route m p (api_routes w other) = Some (b, h)" "EnterLogin \<in> powers_of b p"
  shows "h = handleLogin w \<and> m = ''POST'' \<and> p = ''/api/auth/login''"
proof -
  have b: "b = Public" "p = ''/api/auth/login''" using assms(2) by (cases b; simp split: if_splits)+
  obtain rs where "(b, rs) \<in> set (api_routes w other)" "(m, p, h) \<in> set rs" using found_route [OF assms(1)] by blast
  then show ?thesis using b by (auto simp: api_routes_def public_routes_def)
qed

text \<open>
  C8. A session is opened for oneself only. A session that a request adds belongs to the user who made the request, or the
  request is a login that gave the name and the password of an enabled user, of a name that is not locked.
\<close>

theorem new_session_needs_password:
  assumes "plain w other" "(k, i) \<in> set (sessions (snd (serve w other m p s)))" "(k, i) \<notin> set (sessions s)"
  shows "(\<exists>cx. (by_session w s cx \<or> by_token w s cx) \<and> actor_of cx = i)
    \<or> m = ''POST'' \<and> p = ''/api/auth/login'' \<and> (\<exists>req u. Option.bind (document_fields (sw_body w)) read_login = Some req
        \<and> credentials w req s = Some u \<and> us_ID u = i \<and> u_status (us_row u) = UserEnabled \<and> \<not> login_locked w (lr_username req) s)"
proof -
  obtain r t where rt: "serve w other m p s = (r, t)" by fastforce
  from rt assms(1) show ?thesis
  proof (cases rule: served_effects)
    case same
    then show ?thesis using assms(2,3) rt by simp
  next
    case (steps b h cx)
    show ?thesis
    proof (cases "EnterLogin \<in> powers_of b p")
      case True
      then show ?thesis using login_route [OF steps(1)] login_session [of k i w cx s] assms(2,3) rt steps(4) by auto
    next
      case False
      then have "powers_of b p - {EnterLogin} = powers_of b p" by blast
      then have "sessions_own cx s t" using logins.steps [of "powers_of b p" w cx s t] steps(3) by simp
      then have "is_self cx i" using assms(2,3) rt by (auto simp: sessions_own_def)
      then have "actor_of cx = i" "b \<noteq> Public" using steps(2) by (auto simp: is_self_def actor_of_def empty_context_def CurrentUser_def)
      then have "by_session w s cx \<or> by_token w s cx" using steps(2) by (cases b) auto
      then show ?thesis using \<open>actor_of cx = i\<close> by blast
    qed
  qed
qed

lemma login_served:
  "(''new'', 3) \<in> set (sessions (snd (serve (sample_world login_body []) sample_other ''POST'' ''/api/auth/login'' sample_site)))"
proof -
  let ?w = "sample_world login_body []"
  have a: "login_allowed ?w n sample_site = (True, sample_site)" "\<not> login_locked ?w n sample_site" for n
    by (simp_all add: login_allowed_def site_allow_def login_locked_def sample_site_def)
  have c: "credentials ?w \<lparr>lr_username = ''tom'', lr_password = ''password''\<rparr> sample_site = load_user sample_site 3"
    by (simp add: credentials_def UserRepo_GetByUsername_def first_row_def VerifyPassword_def load_user_def sample_eval)
  have u: "load_user sample_site 3 = Some \<lparr>us_ID = 3, us_row = (new_user ''tom'' [] ''user'')\<lparr>u_integrationID := Some 7\<rparr>,
    us_profile = sample_profile ''h:password''\<rparr>"
    by (simp add: load_user_def sample_eval)
  have l: "on_lock f sample_site = sample_site" for f by (simp add: on_lock_def sample_site_def)
  have s: "LoginSession ?w 3 sample_site = (True, sample_site\<lparr>sessions := sessions sample_site @ [(''new'', 3)]\<rparr>)"
    by (simp add: LoginSession_def sample_site_def sample_world_def tbl_del_def tbl_upsert_def tbl_get_def)
  have b: "sw_body ?w = login_body" by (simp add: sample_world_def)
  have "handleLogin ?w empty_context sample_site = answer_with (PUser (the (load_user sample_site 3)))
      (Audit_Record ?w empty_context (login_audit 3 ''tom'' True [] (load_user sample_site 3)) (sample_site\<lparr>sessions := sessions sample_site @ [(''new'', 3)]\<rparr>))"
    using login_read by (simp add: handleLogin_def with_body_def a b c u l s new_user_def)
  moreover have "sessions (Audit_Record ?w empty_context e t) = sessions t" for e t by (simp add: Audit_Record_def)
  ultimately show ?thesis by (simp add: serve_def api_routes_def public_routes_def answer_with_def)
qed

lemma new_session_needs_password_witness:
  "\<exists>u. credentials (sample_world login_body []) \<lparr>lr_username = ''tom'', lr_password = ''password''\<rparr> sample_site = Some u \<and> us_ID u = 3"
proof -
  let ?w = "sample_world login_body []"
  have n: "(''new'', 3) \<notin> set (sessions sample_site)" by (simp add: sample_site_def)
  have b: "sw_body ?w = login_body" by (simp add: sample_world_def)
  have c: "session_user ?w sample_site = Inl (401, msg_site_login_needed)"
    by (simp add: session_user_def SessionUserID_def sample_eval)
  have t: "bearerServiceToken ?w = []"
    by (simp add: bearerServiceToken_def sample_world_def TrimSpace_def trim_left.simps trim_right.simps TrimPrefix_def LooksLikeServiceToken_def)
  show ?thesis using new_session_needs_password [OF sample_plain login_served n] login_read
    by (auto simp: b by_session_def by_token_def c t)
qed

end
