(* ===== verification/Workflows.thy ===== *)
theory Workflows
  imports Server
begin

text \<open>
  What single operations of the administration achieve: disabling an integration shuts out everything that belongs to it,
  in the administration and at the entry of the relay; a reset of a password ends the sessions of the account; a repeated
  creation is answered from the first; a batch reports what it booked.
\<close>

section \<open>Disabling an integration\<close>

lemma disabled_users: "tbl_get (users (core (disable_integration i s))) j = Some u \<Longrightarrow> u_integrationID u = Some i \<Longrightarrow> u_status u = UserDisabled"
  by (cases "tbl_get (users (core s)) j") (auto simp: disable_integration_def tbl_get_map split: if_splits)

lemma disabled_tokens:
  assumes "ServiceTokenRepo_GetByHash w h (disable_integration i s) = Some (j, tk)" "tk_integrationID tk = i" "distinct (map fst (serviceTokens s))"
  shows "tk_status tk = Disabled"
proof -
  let ?t = "disable_integration i s"
  obtain v where v: "first_row (\<lambda>i t. tk_hash t = h \<and> tk_deletedAt t = None) (serviceTokens ?t) = Some j" "tbl_get (serviceTokens ?t) j = Some tk"
    using assms(1) by (auto simp: ServiceTokenRepo_GetByHash_def bind_eq_Some_conv split: if_splits)
  have "distinct (map fst (serviceTokens ?t))" using assms(3) by (simp add: disable_integration_def comp_def case_prod_unfold)
  then have "tk_deletedAt tk = None" using first_row_Some [OF v(1)] v(2) by auto
  then show ?thesis using v(2) assms(2)
    by (cases "tbl_get (serviceTokens s) j") (auto simp: disable_integration_def tbl_get_map split: if_splits)
qed

lemma entitled_enabled: "apiKeyIdentity ew r e = (Some d, e') \<Longrightarrow> \<exists>j. tbl_get (users (database (e_relay e))) j = Some (i_user d) \<and> u_status (i_user d) = UserEnabled"
  using apiKeyIdentity_cases [of ew r e "Some d" e'] by (auto simp: entitled_def)

text \<open>
  C10. A disabled integration is shut out at once. When an enabled integration is disabled, every service token of it is refused, no
  session of a user of it is accepted, and at the entry of the relay no key of such a user is.
\<close>

theorem disabled_integration_shut_out:
  assumes "handleAdminDisableIntegration w cx s = (OK NoData, t)" "parseInt64 (sw_param w ''id'') = Some i"
    "tbl_get (integrations s) i = Some x" "in_status x = Enabled" "distinct (map fst (serviceTokens s))"
  shows "(\<forall>w' u token. authenticateServiceToken w' token t = Inr u \<longrightarrow> u_integrationID (us_row u) \<noteq> Some i)
    \<and> (\<forall>w' u. session_user w' t = Inr u \<longrightarrow> u_integrationID (us_row u) \<noteq> Some i)
    \<and> (\<forall>ew r e e' d. database (e_relay e) = core t \<longrightarrow> apiKeyIdentity ew r e = (Some d, e') \<longrightarrow> u_integrationID (i_user d) \<noteq> Some i)
    \<and> (\<forall>w' h j tk. ServiceTokenRepo_GetByHash w' h t = Some (j, tk) \<longrightarrow> tk_integrationID tk = i \<longrightarrow> tk_status tk = Disabled)"
proof -
  have "t = Audit_Record w cx (audit_done ''integration.disable'' ''integration'' i (in_name x)
       (integration_snapshot x) [(''status'', av_str ''disabled'')]) (disable_integration i s)"
    using assms(1-4) by (auto simp: handleAdminDisableIntegration_def loadIntegration_def with_id_def IntegrationRepo_GetByID_def fail_def answer_with_def
        split: if_splits option.splits)
  then have t: "core t = core (disable_integration i s)" "serviceTokens t = serviceTokens (disable_integration i s)"
    by (simp_all add: Audit_Record_def)
  have same: "ServiceTokenRepo_GetByHash w' h t = ServiceTokenRepo_GetByHash w' h (disable_integration i s)" for w' h
    using t(2) by (simp add: ServiceTokenRepo_GetByHash_def)
  have off: "u_status u = UserDisabled" if "tbl_get (users (core t)) j = Some u" "u_integrationID u = Some i" for j u
    using disabled_users that t(1) by simp
  have "u_integrationID (us_row u) \<noteq> Some i" if "authenticateServiceToken w' token t = Inr u" for w' u token
    using that by (rule token_account) (use off in \<open>auto dest!: account_loaded simp: load_user_Some\<close>)
  moreover have "u_integrationID (us_row u) \<noteq> Some i" if "session_user w' t = Inr u" for w' u
    using session_user_Inr [OF that] off by (auto simp: load_user_Some)
  moreover have "u_integrationID (i_user d) \<noteq> Some i" if "database (e_relay e) = core t" "apiKeyIdentity ew r e = (Some d, e')" for ew r e e' d
    using entitled_enabled [OF that(2)] off that(1) by auto
  moreover have "tk_status tk = Disabled" if "ServiceTokenRepo_GetByHash w' h t = Some (j, tk)" "tk_integrationID tk = i" for w' h j tk
    using disabled_tokens that assms(5) by (simp add: same)
  ultimately show ?thesis by blast
qed

lemma disabled_integration_shut_out_witness:
  "\<exists>t. handleAdminDisableIntegration (for_id ''7'' (sample_world None ''c9'')) empty_context sample_site = (OK NoData, t)
     \<and> (\<forall>w' u. session_user w' t = Inr u \<longrightarrow> u_integrationID (us_row u) \<noteq> Some 7)"
proof -
  let ?w = "for_id ''7'' (sample_world None ''c9'')"
  have p: "parseInt64 (sw_param ?w ''id'') = Some 7"
    by (simp add: for_id_def parseInt64_def ParseInt64_def is_digit_def read_nat_def digit_val_def MinInt64_def MaxInt64_def)
  have g: "tbl_get (integrations sample_site) 7 = Some \<lparr>in_name = ''shop'', in_slug = ''shop'', in_status = Enabled\<rparr>"
    by (simp add: sample_site_def tbl_get_def)
  have f: "\<not> sw_fails ?w q" for q by (simp add: for_id_def sample_world_def)
  obtain t where t: "handleAdminDisableIntegration ?w empty_context sample_site = (OK NoData, t)"
    using p g f by (simp add: handleAdminDisableIntegration_def loadIntegration_def with_id_def IntegrationRepo_GetByID_def answer_with_def)
  from disabled_integration_shut_out [OF t p g] t show ?thesis by (simp add: sample_site_def)
qed

section \<open>Resetting a password\<close>

lemma managed_done:
  assumes "loadManagedUser w k cx s = (r, t)" "\<And>code message. r \<noteq> Fail code message"
  shows "\<exists>u. parseInt64 (sw_param w ''id'') = Some (us_ID u) \<and> load_user s (us_ID u) = Some u \<and> canManage (CurrentUser cx) (Some u) \<and> k u cx s = (r, t)"
  using assms by (auto simp: loadManagedUser_def with_id_def UserRepo_GetByID_def fail_def load_user_Some split: if_splits option.splits)

lemma body_done:
  assumes "with_body w read k s = (r, t)" "\<And>code message. r \<noteq> Fail code message"
  shows "\<exists>x. Option.bind (document_fields (sw_body w)) read = Some x \<and> k x s = (r, t)"
  using assms by (auto simp: with_body_def fail_def split: option.splits)

lemma destroyed_all: "(\<And>k. \<not> sw_fails w (SessionDestroy k)) \<Longrightarrow> destroy_sessions w i ss = filter (\<lambda>(k, j). j \<noteq> i) ss"
  by (induction w i ss rule: destroy_sessions.induct) auto

text \<open>
  C12. A reset ends the sessions. When an administrator has reset the password of an account and the store of the sessions
  worked, no earlier session of the account is left: it has none, or, when the account is the administrator's own, the one session
  just made. The account has the new hash; that of another must change its password at the next login, one's own keeps that mark as it was; and
  nothing else of the account changes.
\<close>

theorem reset_ends_sessions:
  assumes "handleAdminResetPassword w cx s = (OKMessage message NoData, t)" "parseInt64 (sw_param w ''id'') = Some i"
    "\<And>k. \<not> sw_fails w (SessionDestroy k)" "\<not> sw_fails w SessionIterate"
  shows "(\<forall>k. (k, i) \<in> set (sessions t) \<longrightarrow> i = actor_of cx \<and> k = sw_newSession w)
    \<and> (\<exists>u hash plain. load_user s i = Some u \<and> canManage (CurrentUser cx) (Some u) \<and> HashPassword w plain = Inr hash
        \<and> load_user t i = Some (u\<lparr>us_profile := (us_profile u)\<lparr>p_passwordHash := hash,
             p_mustChange := (if i = actor_of cx then p_mustChange (us_profile u) else True)\<rparr>\<rparr>))"
proof -
  obtain u where u: "us_ID u = i" "load_user s i = Some u" "canManage (CurrentUser cx) (Some u)" and r: "reset_password w u cx s = (OKMessage message NoData, t)"
    using managed_done [OF assms(1) [unfolded handleAdminResetPassword_def]] assms(2) by auto
  obtain plain hash v where h: "HashPassword w plain = Inr hash"
    and v: "UserRepo_UpdateFields w i ([UPassword hash] @ (if actor_of cx \<noteq> i then [UMustChange True] else [])) s = (True, v)"
    and t: "core t = core (DestroyUserSessions w i v)" "profiles t = profiles (DestroyUserSessions w i v)"
      "sessions t = sessions (if i = actor_of cx then relogin w i (DestroyUserSessions w i v) else DestroyUserSessions w i v)"
    using r u(1) unfolding reset_password_def with_body_def fail_def Let_def
    by (auto simp: Audit_Record_def relogin_def LoginSession_def split: if_splits option.splits sum.splits prod.splits bool.splits)
  have w: "v = update_users ([UPassword hash] @ (if actor_of cx \<noteq> i then [UMustChange True] else [])) i s"
    using v by (auto simp: UserRepo_UpdateFields_def split: if_splits)
  have d: "sessions (DestroyUserSessions w i v) = filter (\<lambda>(k, j). j \<noteq> i) (sessions s)"
    using assms(3,4) w by (simp add: DestroyUserSessions_def destroyed_all update_users_def)
  have "i = actor_of cx \<and> k = sw_newSession w" if "(k, i) \<in> set (sessions t)" for k
    using that t(3) d upsert_set [of i "sw_newSession w" "tbl_del (sw_cookie w) (filter (\<lambda>(k, j). j \<noteq> i) (sessions s))"]
    by (auto simp: relogin_def LoginSession_def tbl_del_def split: if_splits)
  moreover have "load_user t i = load_user v i"
    using t by (simp add: DestroyUserSessions_def load_user_def)
  moreover have "load_user v i = Some (u\<lparr>us_profile := (us_profile u)\<lparr>p_passwordHash := hash,
             p_mustChange := (if i = actor_of cx then p_mustChange (us_profile u) else True)\<rparr>\<rparr>)"
    using w u(2) by (auto simp: load_user_Some updated_user)
  ultimately show ?thesis using u(2,3) h by auto
qed

definition operator_context :: request_context where
  "operator_context = WithUser \<lparr>us_ID = 8, us_row = new_user ''eve'' [] ''admin'', us_profile = sample_profile ''h:password''\<rparr> empty_context"

lemma reset_ends_sessions_witness:
  "\<exists>t. handleAdminResetPassword (for_id ''1'' (sample_world (Some (JObj [(''password'', JStr ''password'')])) ''c8'')) operator_context sample_site
      = (OKMessage msg_site_reset_done NoData, t) \<and> (\<forall>k. (k, 1) \<notin> set (sessions t))"
proof -
  let ?w = "for_id ''1'' (sample_world (Some (JObj [(''password'', JStr ''password'')])) ''c8'')"
  have p: "parseInt64 (sw_param ?w ''id'') = Some 1"
    by (simp add: for_id_def parseInt64_def ParseInt64_def is_digit_def read_nat_def digit_val_def MinInt64_def MaxInt64_def)
  have f: "\<not> sw_fails ?w q" for q by (simp add: for_id_def sample_world_def)
  have a: "actor_of operator_context = 8" by (simp add: actor_of_def operator_context_def CurrentUser_def WithUser_def)
  have u: "load_user sample_site 1 = Some \<lparr>us_ID = 1, us_row = demo_user, us_profile = sample_profile ''h:password''\<rparr>"
    by (simp add: load_user_def sample_site_def sample_core_def tbl_get_def)
  have m: "canManage (CurrentUser operator_context) (Some \<lparr>us_ID = 1, us_row = demo_user, us_profile = sample_profile ''h:password''\<rparr>)"
    by (simp add: canManage_def operator_context_def CurrentUser_def WithUser_def new_user_def demo_user_def)
  have b: "Option.bind (document_fields (sw_body ?w)) (\<lambda>fs. rd_str fs ''password'') = Some ''password''"
    by (simp add: for_id_def sample_world_def document_fields_def rd_str_def scalar_get_def struct_get_def)
  have h: "HashPassword ?w ''password'' = Inr ''h:password''" by (simp add: HashPassword_def for_id_def sample_world_def)
  have v: "UserRepo_UpdateFields ?w 1 fs sample_site = (True, update_users fs 1 sample_site)" for fs
    using u f by (simp add: UserRepo_UpdateFields_def load_user_Some)
  obtain t where r: "reset_password ?w \<lparr>us_ID = 1, us_row = demo_user, us_profile = sample_profile ''h:password''\<rparr> operator_context sample_site
      = (OKMessage msg_site_reset_done NoData, t)"
    by (simp add: reset_password_def with_body_def b h a v Let_def sample_profile_def new_profile_def)
  have t: "handleAdminResetPassword ?w operator_context sample_site = (OKMessage msg_site_reset_done NoData, t)"
    by (simp add: handleAdminResetPassword_def loadManagedUser_def with_id_def UserRepo_GetByID_def p f u m r)
  from reset_ends_sessions [OF t p] f a t show ?thesis by auto
qed

section \<open>Creating once\<close>

lemma grant_keeps:
  assumes "initial_grant w cx i name amount s = (b, t)"
  shows "idempotency t = idempotency s" "profiles t = profiles s" "tbl_get (users (core t)) j = None \<longleftrightarrow> tbl_get (users (core s)) j = None"
proof -
  have run: "v = s\<lparr>core := snd (Grant (sw_env w 0) i amount (actor_of cx) msg_site_initial_note [] (core s))\<rparr>"
    if "run_sql (Grant (sw_env w 0) i amount (actor_of cx) msg_site_initial_note []) s = (r, v)" for r v
    using that by (auto simp: run_sql_def split: prod.splits)
  have "t = s \<or> (\<exists>d e. t = s\<lparr>core := d\<rparr> \<and> credited i (core s) d \<or> t = Audit_Record w cx e (s\<lparr>core := d\<rparr>) \<and> credited i (core s) d)"
    using assms run Grant_credited [of i "core s" "sw_env w 0" amount "actor_of cx" msg_site_initial_note "[]"]
    by (auto simp: initial_grant_def split: if_splits prod.splits sum.splits)
  then show "idempotency t = idempotency s" "profiles t = profiles s" "tbl_get (users (core t)) j = None \<longleftrightarrow> tbl_get (users (core s)) j = None"
    using credited_ids by (auto simp: Audit_Record_def)
qed

lemma first_id: "0 < i \<Longrightarrow> i \<le> MaxInt64 \<Longrightarrow> idempotencyFirstID (JObj [(''id'', jint i)]) = Some i"
  by (simp add: idempotencyFirstID_def document_fields_def rd_int_def scalar_get_def struct_get_def jint_def rat_int64_def i64_def MinInt64_def)

text \<open>
  C11. A creation with an idempotency key happens once. Once a user was created under a new key and the key could be recorded, the same request
  again, by whoever may make it in the same scope, is answered with that user, and nothing changes.
\<close>

theorem user_created_once:
  assumes first: "handleAdminCreateUser w cx s = (Created (PNewUser v made), t)"
    and body: "Option.bind (document_fields (sw_body w)) read_create_user = Some req" "cu_idempotencyKey req \<noteq> []"
    and fresh: "\<not> list_ex (same_record (cu_idempotencyKey req) ''user.create'' (ScopeIntegrationID cx)) (idempotency s)"
    and ids: "0 \<le> seqs s TUsers" "seqs s TUsers < MaxInt64" and recorded: "\<not> sw_fails w InsertIdempotency"
    and again: "sw_body w' = sw_body w" "ScopeIntegrationID cx' = ScopeIntegrationID cx" "actor_role cx' = actor_role cx"
      "\<not> sw_fails w' QIdempotency" "\<And>i. \<not> sw_fails w' (QUserByID i)"
  shows "\<exists>u. handleAdminCreateUser w' cx' t = (OKMessage msg_site_user_replayed (PUser u), t)
    \<and> load_user t (us_ID (um_user v)) = Some u \<and> tbl_get (users (core s)) (us_ID u) = None"
proof -
  let ?r = "trimmed_create req" and ?key = "cu_idempotencyKey req" and ?i = "next_id TUsers s"
  have key: "cu_idempotencyKey ?r = ?key" by (simp add: trimmed_create_def)
  have ref: "create_refusal (actor_role cx) req = None"
    using first body(1) by (auto simp: handleAdminCreateUser_def with_body_def fail_def split: option.splits)
  have "create_user w cx ?r s = (Created (PNewUser v made), t)"
    using first body(1) ref by (auto simp: handleAdminCreateUser_def with_body_def fail_def Let_def split: option.splits)
  then obtain row p made' where c: "UserRepo_Create w row p s = (Some ?i, insert_user row p s)" "\<not> user_conflict row p s"
      "user_created w cx ?r made' \<lparr>us_ID = ?i, us_row = row, us_profile = p\<rparr> (insert_user row p s) = (Created (PNewUser v made), t)"
    by (auto simp: create_user_def Let_def UserRepo_Create_def fail_def split: sum.splits prod.splits if_splits option.splits)
  define rec where "rec = \<lparr>ir_key = ?key, ir_scope = ''user.create'', ir_integrationID = ScopeIntegrationID cx, ir_status = 201,
             ir_body = JObj [(''id'', jint ?i)]\<rparr>"
  define s' where "s' = (insert_user row p s)\<lparr>idempotency := idempotency s @ [rec]\<rparr>"
  have idem: "idempotency (insert_user row p s) = idempotency s" by (simp add: insert_user_def Let_def bump_def)
  have s': "idempotencyRemember w cx ?key ''user.create'' ?i (insert_user row p s) = s'"
    using body(2) fresh recorded by (simp add: idempotencyRemember_def IdempotencyRepo_Record_def idem s'_def rec_def)
  obtain b t' where g: "initial_grant w cx ?i (cu_username ?r) (cu_initialCredits ?r) s' = (b, t')" by fastforce
  have t: "idempotency t = idempotency t'" "profiles t = profiles t'" "core t = core t'" "us_ID (um_user v) = ?i"
    using c(3) key body(2) s' g by (auto simp: user_created_def Let_def Audit_Record_def wrapUser_def)
  have "tbl_get (users (core s')) ?i \<noteq> None" using c(2) by (simp add: s'_def user_conflict_def)
  then have "tbl_get (users (core t)) ?i \<noteq> None" using grant_keeps(3) [OF g] t(3) by simp
  then obtain u where u: "load_user t ?i = Some u" by (auto simp: load_user_def)
  have "find (same_record ?key ''user.create'' (ScopeIntegrationID cx)) (idempotency t) = Some rec"
  proof -
    have "idempotency t = idempotency s @ [rec]" using t(1) grant_keeps(1) [OF g] by (simp add: s'_def)
    moreover have "List.find q (xs @ [y]) = Some y" if "\<not> list_ex q xs" "q y" for q and xs :: "idempotency_record list" and y
      using that by (induction xs) auto
    moreover have "same_record ?key ''user.create'' (ScopeIntegrationID cx) rec" by (simp add: same_record_def rec_def)
    ultimately show ?thesis using fresh by simp
  qed
  then have "idempotencyLookupReplay w' cx' ?key ''user.create'' t = Some ?i"
    using body(2) again(2,4) ids first_id [of ?i]
    by (simp add: idempotencyLookupReplay_def IdempotencyRepo_GetByKey_def rec_def next_id_def)
  then have "handleAdminCreateUser w' cx' t = (OKMessage msg_site_user_replayed (PUser u), t)"
    using body(1) again ref key u by (simp add: handleAdminCreateUser_def with_body_def Let_def UserRepo_GetByID_def)
  moreover have "tbl_get (users (core s)) (us_ID u) = None" using u c(2) by (auto simp: load_user_Some user_conflict_def)
  ultimately show ?thesis using u t(4) by auto
qed

definition create_body :: "json option" where
  "create_body = Some (JObj [(''username'', JStr ''kim''), (''password'', JStr ''password''), (''idempotency_key'', JStr ''k1'')])"

lemma create_read: "Option.bind (document_fields create_body) read_create_user = Some
    \<lparr>cu_username = ''kim'', cu_password = ''password'', cu_displayName = [], cu_email = [], cu_role = [], cu_departmentID = None,
      cu_passwordless = False, cu_externalRef = [], cu_idempotencyKey = ''k1'', cu_initialCredits = 0\<rparr>"
  by (simp add: create_body_def document_fields_def read_create_user_def rd_str_def rd_opt_def rd_int_def rd_bool_def scalar_get_def struct_get_def
      to_lower_def lower_char_def)

lemma kim_created:
  "\<exists>v made t. handleAdminCreateUser (sample_world create_body ''c8'') operator_context sample_site = (Created (PNewUser v made), t)"
proof -
  let ?w = "sample_world create_body ''c8''"
  let ?req = "\<lparr>cu_username = ''kim'', cu_password = ''password'', cu_displayName = [], cu_email = [], cu_role = [], cu_departmentID = None,
      cu_passwordless = False, cu_externalRef = [], cu_idempotencyKey = ''k1'', cu_initialCredits = 0\<rparr>"
  let ?r = "\<lparr>cu_username = ''kim'', cu_password = ''password'', cu_displayName = [], cu_email = [], cu_role = ''user'', cu_departmentID = None,
      cu_passwordless = False, cu_externalRef = [], cu_idempotencyKey = ''k1'', cu_initialCredits = 0\<rparr>"
  have t: "TrimSpace [] = []" by (simp add: TrimSpace_def trim_left.simps trim_right.simps)
  have p: "TrimSpace ''password'' = ''password''" by (rule TrimSpace_visible) (simp_all add: visible_def)
  have r: "trimmed_create ?req = ?r" by (simp add: trimmed_create_def t)
  have c: "create_refusal (actor_role operator_context) ?req = None"
    by (simp add: create_refusal_def r usernameRe_def matches_def word_char_def is_digit_def validateEmail_def t Let_def role_Valid_def roleRank_def
        idempotencyKeyRe_def)
  have a: "account_password ?w False ''password'' = Inr (''h:password'', None)"
    by (simp add: account_password_def initial_password_def p HashPassword_def sample_world_def)
  have n: "\<not> user_conflict (created_user operator_context ?r None) q sample_site" if "p_externalRef q = []" for q
    using that by (simp add: user_conflict_def created_user_def new_user_def role_Valid_def roleRank_def sample_site_def sample_core_def tbl_get_def
        next_id_def demo_user_def)
  have f: "\<not> sw_fails ?w q" for q by (simp add: sample_world_def)
  have b: "sw_body ?w = create_body" by (simp add: sample_world_def)
  have s: "ScopeIntegrationID operator_context = None" by (simp add: ScopeIntegrationID_def operator_context_def WithUser_def empty_context_def)
  have l: "idempotencyLookupReplay ?w operator_context ''k1'' sc sample_site = None" for sc
    by (simp add: idempotencyLookupReplay_def IdempotencyRepo_GetByKey_def sample_site_def)
  have "p_externalRef (created_profile ?r False ''h:password'') = []" by (simp add: created_profile_def new_profile_def)
  then show ?thesis using create_read
    by (simp add: handleAdminCreateUser_def with_body_def b c r Let_def l create_user_def s a resolveDepartment_def UserRepo_Create_def f n
        user_created_def split: prod.split)
qed

lemma user_created_once_witness:
  "\<exists>v made t u. handleAdminCreateUser (sample_world create_body ''c8'') operator_context sample_site = (Created (PNewUser v made), t)
    \<and> handleAdminCreateUser (sample_world create_body ''c8'') operator_context t = (OKMessage msg_site_user_replayed (PUser u), t)"
proof -
  obtain v made t where t: "handleAdminCreateUser (sample_world create_body ''c8'') operator_context sample_site = (Created (PNewUser v made), t)"
    using kim_created by blast
  have "sw_body (sample_world create_body ''c8'') = create_body" "\<not> sw_fails (sample_world create_body ''c8'') q" for q
    by (simp_all add: sample_world_def)
  then show ?thesis using user_created_once [OF t, where w' = "sample_world create_body ''c8''" and cx' = operator_context] create_read t
    by (auto simp: sample_site_def MaxInt64_def)
qed

section \<open>Granting to many\<close>

lemma Grant_entry:
  assumes "Grant e i amount a remark key d = (r, d')" "commit_res e \<noteq> CommitLost"
  shows "case r of Inl err \<Rightarrow> ledger d' = ledger d | Inr entry \<Rightarrow> ledger d' = ledger d @ [entry] \<and> le_userID entry = i \<and> le_amount entry = amount"
proof (cases "amount = 0")
  case False
  then have "Apply e (grant_adjustment i amount a remark key) d = (r, d')" using assms(1) by (simp add: Grant_def)
  then show ?thesis
  proof (cases rule: Apply_cases)
    case (ok entry t)
    from ok(2) have "ledger t = ledger d @ [entry] \<and> le_userID entry = i \<and> le_amount entry = amount"
      by (rule applyTx_Inr) (auto simp: adjusted_def grant_adjustment_def zero_adjustment_def clamp_amount_def Let_def split: if_splits)
    then show ?thesis using ok(1,3) by simp
  qed (use assms(2) in \<open>auto simp: same_data_def grant_adjustment_def zero_adjustment_def\<close>)
qed (use assms(1) in \<open>auto simp: Grant_def sql_fail_def\<close>)

lemma grantCredits_entry:
  assumes "grantCredits w n i amount a remark key s = (r, t)" "commit_res (sw_env w n) \<noteq> CommitLost"
  shows "case r of Inr (entry, False) \<Rightarrow> ledger (core t) = ledger (core s) @ [entry] \<and> le_userID entry = i \<and> le_amount entry = amount
    | _ \<Rightarrow> ledger (core t) = ledger (core s)"
proof -
  obtain g d where g: "Grant (sw_env w n) i amount a remark key (core s) = (g, d)" by fastforce
  note ge = Grant_entry [OF g assms(2)]
  have "ledger (snd (GetByRequestEntry e rid ty d)) = ledger d" for e rid ty
    using read_flags(1) [of e rid ty d] by auto
  then show ?thesis using assms(1) g ge
    by (auto simp: grantCredits_def run_sql_def split: sum.splits prod.splits if_splits bool.splits) (metis snd_conv)+
qed

lemma grant_all_entries:
  assumes "\<And>n. commit_res (sw_env w n) \<noteq> CommitLost"
  shows "grant_all w n r a ids s = (rs, t) \<Longrightarrow> \<exists>es. ledger (core t) = ledger (core s) @ es
    \<and> map le_userID es = map bg_userID (filter (\<lambda>x. bg_ok x \<and> \<not> bg_replay x) rs) \<and> (\<forall>e \<in> set es. le_amount e = bq_amount r) \<and> map bg_userID rs = ids"
proof (induction ids arbitrary: n s rs)
  case (Cons i js)
  obtain x u where g: "grantCredits w n i (bq_amount r) a (bq_remark r) (user_key (bq_idempotencyKey r) i) s = (x, u)" by fastforce
  then obtain qs where q: "grant_all w (Suc n) r a js u = (qs, t)" and rs: "rs = grant_item i x # qs"
    using Cons.prems by (auto split: prod.splits)
  obtain es where es: "ledger (core t) = ledger (core u) @ es" "map le_userID es = map bg_userID (filter (\<lambda>x. bg_ok x \<and> \<not> bg_replay x) qs)"
      "\<forall>e \<in> set es. le_amount e = bq_amount r" "map bg_userID qs = js" using Cons.IH [OF q] by blast
  note ge = grantCredits_entry [OF g assms]
  show ?case
  proof (cases "\<exists>entry. x = Inr (entry, False)")
    case True
    then obtain entry where x: "x = Inr (entry, False)" by blast
    then show ?thesis using ge es rs by (intro exI [of _ "entry # es"]) (auto simp: grant_item_def)
  next
    case False
    then have "ledger (core u) = ledger (core s)" "\<not> (bg_ok (grant_item i x) \<and> \<not> bg_replay (grant_item i x))" "bg_userID (grant_item i x) = i"
      using ge by (auto simp: grant_item_def split: sum.splits prod.splits bool.splits)
    then show ?thesis using es rs by (intro exI [of _ es]) auto
  qed
qed simp

text \<open>
  C13. A batch reports what it booked. Where no commit is lost, the entries a batch of grants appends to the ledger are exactly those of
  the results reported as granted and not replayed, in their order, each of the requested amount for the user of
  the result, and their number is that of the summary.
\<close>

theorem batch_grant_reports_bookings:
  assumes "handleAdminBatchGrantCredits w cx s = (OK (PBatchGrant x), t)" "\<And>n. commit_res (sw_env w n) \<noteq> CommitLost"
    "Option.bind (document_fields (sw_body w)) read_batch_grant = Some req"
  shows "\<exists>es. ledger (core t) = ledger (core s) @ es \<and> (\<forall>e \<in> set es. le_amount e = bq_amount req)
    \<and> map le_userID es = map bg_userID (filter (\<lambda>r. bg_ok r \<and> \<not> bg_replay r) (bs_results x)) \<and> bs_succeeded x = int (length es)"
proof -
  obtain ids rs u where "grant_all w 0 req (actor_of cx) ids s = (rs, u)" "x = grant_summary rs" "core t = core u"
    using assms(1,3)
    by (auto simp: handleAdminBatchGrantCredits_def with_body_def fail_def answer_with_def Audit_Record_def split: option.splits sum.splits prod.splits if_splits)
  moreover from grant_all_entries [OF assms(2) this(1)] obtain es where "ledger (core u) = ledger (core s) @ es"
      "map le_userID es = map bg_userID (filter (\<lambda>x. bg_ok x \<and> \<not> bg_replay x) rs)" "\<forall>e \<in> set es. le_amount e = bq_amount req" by blast
  moreover from this(2) have "length es = length (filter (\<lambda>x. bg_ok x \<and> \<not> bg_replay x) rs)" by (metis length_map)
  ultimately show ?thesis by (intro exI [of _ es]) (simp add: grant_summary_def count_where_def)
qed

definition gift_body :: "json option" where
  "gift_body = Some (JObj [(''user_ids'', JArr [jint 1, jint 3]), (''amount'', jint 5)])"

lemma gift_read: "Option.bind (document_fields gift_body) read_batch_grant = Some
    \<lparr>bq_userIDs = [1, 3], bq_amount = 5, bq_remark = [], bq_departmentID = None, bq_idempotencyKey = []\<rparr>"
  by (simp add: gift_body_def document_fields_def read_batch_grant_def rd_slice_def rd_str_def rd_opt_def rd_int_def scalar_get_def struct_get_def
      to_lower_def lower_char_def slice_or_def jint_def rat_int64_def i64_def MinInt64_def MaxInt64_def)

lemma batch_grant_reports_bookings_witness:
  "\<exists>x t es. handleAdminBatchGrantCredits (sample_world gift_body ''c8'') operator_context sample_site = (OK (PBatchGrant x), t)
    \<and> ledger (core t) = ledger (core sample_site) @ es \<and> bs_succeeded x = int (length es)"
proof -
  let ?w = "sample_world gift_body ''c8''"
  have b: "sw_body ?w = gift_body" by (simp add: sample_world_def)
  obtain rs u where "grant_all ?w 0 \<lparr>bq_userIDs = [1, 3], bq_amount = 5, bq_remark = [], bq_departmentID = None, bq_idempotencyKey = []\<rparr>
      (actor_of operator_context) [1, 3] sample_site = (rs, u)" by fastforce
  then obtain x t where t: "handleAdminBatchGrantCredits ?w operator_context sample_site = (OK (PBatchGrant x), t)"
    using gift_read by (simp add: handleAdminBatchGrantCredits_def with_body_def b grant_refusal_def validIdempotencyKey_def resolveBatchTargets_def
        maxBatchUsers_def answer_with_def del: grant_all.simps)
  have "commit_res (sw_env ?w n) \<noteq> CommitLost" for n by (simp add: sample_world_def demo_env_def)
  then show ?thesis using batch_grant_reports_bookings [OF t] gift_read t by (auto simp: b)
qed

end
