(* ===== verification/LogWriter.thy ===== *)
theory LogWriter
  imports Store "HOL-Library.Multiset"
begin

text \<open>
  The asynchronous writer of usage logs (\<^verbatim>\<open>relay/background.go\<close>): a bounded queue, one worker, and a counter of
  what was dropped. A call of \<open>enqueue\<close> takes two steps, the test of the flag and the attempt to send, between which the
  writer may be closed.
\<close>

section \<open>The writer\<close>

definition usageLogQueueSize :: nat where "usageLogQueueSize = 4096"
definition dropWarnInterval :: go_duration where "dropWarnInterval = Minute"

text \<open>
  \<open>lw_busy\<close> is the log the worker is writing, \<open>lw_entering\<close> are the logs of the callers between the two steps,
  \<open>lw_stored\<close> what was handed to the database, each with whether the insert succeeded; the rest are the fields of the Go struct.
\<close>

record usageLogWriter =
  lw_capacity :: nat
  lw_queue :: "usage_log list"
  lw_closed :: bool
  lw_done :: bool
  lw_dropped :: nat
  lw_lastDropWarn :: go_time
  lw_warnings :: "nat list"
  lw_busy :: "usage_log option"
  lw_entering :: "usage_log multiset"
  lw_stored :: "(usage_log \<times> bool) list"

definition newUsageLogWriterSized :: "nat \<Rightarrow> usageLogWriter" where
  "newUsageLogWriterSized capacity = \<lparr>lw_capacity = capacity, lw_queue = [], lw_closed = False, lw_done = False, lw_dropped = 0,
     lw_lastDropWarn = 0, lw_warnings = [], lw_busy = None, lw_entering = {#}, lw_stored = []\<rparr>"

definition newUsageLogWriter :: usageLogWriter where
  "newUsageLogWriter = newUsageLogWriterSized usageLogQueueSize"

text \<open>A drop is counted; at most one warning an interval tells the total.\<close>

definition noteDrop :: "go_time \<Rightarrow> usageLogWriter \<Rightarrow> usageLogWriter" where
  "noteDrop t w =
     (let n = lw_dropped w + 1; w = w\<lparr>lw_dropped := n\<rparr>
      in if t - lw_lastDropWarn w \<ge> dropWarnInterval then w\<lparr>lw_lastDropWarn := t, lw_warnings := lw_warnings w @ [n]\<rparr> else w)"

definition enqueue_test :: "go_time \<Rightarrow> usage_log \<Rightarrow> usageLogWriter \<Rightarrow> usageLogWriter" where
  "enqueue_test t l w = (if lw_closed w then noteDrop t w else w\<lparr>lw_entering := add_mset l (lw_entering w)\<rparr>)"

definition enqueue_send :: "go_time \<Rightarrow> usage_log \<Rightarrow> usageLogWriter \<Rightarrow> usageLogWriter" where
  "enqueue_send t l w =
     (let w = w\<lparr>lw_entering := lw_entering w - {#l#}\<rparr>
      in if length (lw_queue w) < lw_capacity w then w\<lparr>lw_queue := lw_queue w @ [l]\<rparr> else noteDrop t w)"

definition writer_take :: "usageLogWriter \<Rightarrow> usageLogWriter" where
  "writer_take w = (if lw_done w \<or> lw_busy w \<noteq> None then w
     else case lw_queue w of [] \<Rightarrow> w | l # ls \<Rightarrow> w\<lparr>lw_queue := ls, lw_busy := Some l\<rparr>)"

text \<open>A failed or late insert is only reported.\<close>

definition writer_write :: "bool \<Rightarrow> usageLogWriter \<Rightarrow> usageLogWriter" where
  "writer_write ok w = (case lw_busy w of None \<Rightarrow> w
     | Some l \<Rightarrow> w\<lparr>lw_busy := None, lw_stored := lw_stored w @ [(l, ok)]\<rparr>)"

text \<open>The worker ends once the writer is closed and it finds the queue empty.\<close>

definition writer_exit :: "usageLogWriter \<Rightarrow> usageLogWriter" where
  "writer_exit w = (if lw_closed w \<and> lw_busy w = None \<and> lw_queue w = [] then w\<lparr>lw_done := True\<rparr> else w)"

definition writer_close :: "usageLogWriter \<Rightarrow> usageLogWriter" where
  "writer_close w = w\<lparr>lw_closed := True\<rparr>"

definition droppedCount :: "usageLogWriter \<Rightarrow> nat" where
  "droppedCount w = lw_dropped w"

section \<open>Its runs\<close>

text \<open>The lists are the logs handed to \<open>enqueue\<close>, those the queue took, in order, and those dropped.\<close>

inductive writer_run :: "usageLogWriter \<Rightarrow> usage_log list \<Rightarrow> usage_log list \<Rightarrow> usage_log list \<Rightarrow> bool" where
  new: "0 < capacity \<Longrightarrow> writer_run (newUsageLogWriterSized capacity) [] [] []"
| test: "writer_run w handed taken dropped \<Longrightarrow> \<not> lw_closed w \<Longrightarrow> writer_run (enqueue_test t l w) (handed @ [l]) taken dropped"
| refuse: "writer_run w handed taken dropped \<Longrightarrow> lw_closed w \<Longrightarrow> writer_run (enqueue_test t l w) (handed @ [l]) taken (dropped @ [l])"
| send: "writer_run w handed taken dropped \<Longrightarrow> l \<in># lw_entering w \<Longrightarrow> length (lw_queue w) < lw_capacity w
    \<Longrightarrow> writer_run (enqueue_send t l w) handed (taken @ [l]) dropped"
| full: "writer_run w handed taken dropped \<Longrightarrow> l \<in># lw_entering w \<Longrightarrow> \<not> length (lw_queue w) < lw_capacity w
    \<Longrightarrow> writer_run (enqueue_send t l w) handed taken (dropped @ [l])"
| take: "writer_run w handed taken dropped \<Longrightarrow> writer_run (writer_take w) handed taken dropped"
| written: "writer_run w handed taken dropped \<Longrightarrow> writer_run (writer_write ok w) handed taken dropped"
| close: "writer_run w handed taken dropped \<Longrightarrow> writer_run (writer_close w) handed taken dropped"
| exit: "writer_run w handed taken dropped \<Longrightarrow> writer_run (writer_exit w) handed taken dropped"

lemma noteDrop_fields [simp]:
  "lw_queue (noteDrop t w) = lw_queue w" "lw_busy (noteDrop t w) = lw_busy w" "lw_stored (noteDrop t w) = lw_stored w"
  "lw_entering (noteDrop t w) = lw_entering w" "lw_capacity (noteDrop t w) = lw_capacity w"
  "lw_dropped (noteDrop t w) = Suc (lw_dropped w)" "lw_closed (noteDrop t w) = lw_closed w" "lw_done (noteDrop t w) = lw_done w"
  by (simp_all add: noteDrop_def Let_def)

definition in_hand :: "usageLogWriter \<Rightarrow> usage_log list" where
  "in_hand w = (case lw_busy w of None \<Rightarrow> [] | Some l \<Rightarrow> [l])"

lemma writer_run_inv:
  "writer_run w handed taken dropped \<Longrightarrow> taken = map fst (lw_stored w) @ in_hand w @ lw_queue w
     \<and> length (lw_queue w) \<le> lw_capacity w \<and> lw_dropped w = length dropped
     \<and> mset handed = mset taken + mset dropped + lw_entering w \<and> (lw_done w \<longrightarrow> lw_closed w \<and> lw_busy w = None)"
  by (induction rule: writer_run.induct)
    (auto simp: newUsageLogWriterSized_def enqueue_test_def enqueue_send_def writer_take_def writer_write_def writer_exit_def
      writer_close_def in_hand_def Let_def add_mset_commute dest!: multi_member_split split: list.split option.split)

text \<open>
  C18. Where a usage log is. Whatever the interleaving of callers, worker and close, every log handed to the
  writer is in exactly one place: stored (written, or its insert reported as failed), in the worker's hand, in the queue, with a
  caller that has passed the test and not sent it yet, or counted as dropped. The worker takes them in the order they were queued, the
  queue keeps its bound, and the counter is exact. Once the worker has ended and no caller is still sending, every log is stored,
  counted, or left in the queue.
\<close>

theorem log_writer_accounts:
  assumes "writer_run w handed taken dropped"
  shows "mset handed = mset (map fst (lw_stored w)) + mset (in_hand w) + mset (lw_queue w) + lw_entering w + mset dropped
    \<and> taken = map fst (lw_stored w) @ in_hand w @ lw_queue w
    \<and> length (lw_queue w) \<le> lw_capacity w \<and> droppedCount w = length dropped
    \<and> (lw_done w \<and> lw_entering w = {#} \<longrightarrow> mset handed = mset (map fst (lw_stored w)) + mset dropped + mset (lw_queue w))"
  using writer_run_inv [OF assms] by (auto simp: droppedCount_def in_hand_def ac_simps)

text \<open>
  A caller that tests the flag before a close and sends after the worker has ended leaves its log in the queue: it is neither
  written nor counted.
\<close>

definition late_send :: "usage_log \<Rightarrow> usageLogWriter" where
  "late_send l = enqueue_send 0 l (writer_exit (writer_close (enqueue_test 0 l newUsageLogWriter)))"

lemma late_send_run: "writer_run (late_send l) [l] [l] []"
proof -
  have "writer_run newUsageLogWriter [] [] []" unfolding newUsageLogWriter_def
    by (rule writer_run.new) (simp add: usageLogQueueSize_def)
  then have "writer_run (enqueue_test 0 l newUsageLogWriter) ([] @ [l]) [] []"
    by (rule writer_run.test) (simp add: newUsageLogWriter_def newUsageLogWriterSized_def)
  then have "writer_run (writer_exit (writer_close (enqueue_test 0 l newUsageLogWriter))) [l] [] []"
    using writer_run.exit writer_run.close by fastforce
  then have "writer_run (late_send l) [l] ([] @ [l]) []" unfolding late_send_def
    by (rule writer_run.send) (simp_all add: writer_exit_def writer_close_def enqueue_test_def newUsageLogWriter_def
      newUsageLogWriterSized_def usageLogQueueSize_def)
  then show ?thesis by simp
qed

theorem log_writer_accounts_witness:
  "lw_done (late_send zero_usage_log) \<and> lw_stored (late_send zero_usage_log) = [] \<and> droppedCount (late_send zero_usage_log) = 0
   \<and> lw_queue (late_send zero_usage_log) = [zero_usage_log]"
proof -
  have d: "lw_done (late_send zero_usage_log)" "lw_stored (late_send zero_usage_log) = []" "lw_busy (late_send zero_usage_log) = None"
    by (simp_all add: late_send_def enqueue_send_def writer_exit_def writer_close_def enqueue_test_def newUsageLogWriter_def
        newUsageLogWriterSized_def usageLogQueueSize_def Let_def)
  then show ?thesis using log_writer_accounts [OF late_send_run, of zero_usage_log] by (simp add: in_hand_def)
qed

end
