(* ===== verification/ReportMessages.thy ===== *)
theory ReportMessages
  imports Prelude
begin

text \<open>
  The texts of the reports, the alerts and the maintenance that are not ASCII,
  as the bytes of their UTF-8 encoding; each is named for what it says.
\<close>

definition msg_agg_channel_gone :: string where
  "msg_agg_channel_gone = utf8 [230, 156, 170, 231, 159, 165, 230, 184, 160, 233, 129, 147, 32, 35]"

definition msg_agg_department_gone :: string where
  "msg_agg_department_gone = utf8 [229, 183, 178, 229, 136, 160, 233, 153, 164, 233, 131, 168, 233, 151, 168, 32, 35]"

definition msg_agg_key_gone :: string where
  "msg_agg_key_gone = utf8 [229, 175, 134, 233, 146, 165, 32, 35]"

definition msg_agg_no_department :: string where
  "msg_agg_no_department = utf8 [230, 156, 170, 229, 136, 134, 233, 133, 141]"

definition msg_agg_no_key :: string where
  "msg_agg_no_key = utf8 [229, 142, 134, 229, 143, 178, 230, 177, 135, 230, 128, 187, 239, 188, 136, 230, 140, 137, 229,
     175, 134, 233, 146, 165, 228, 184, 141, 229, 143, 175, 230, 139, 134, 239, 188, 137]"

definition msg_agg_no_project :: string where
  "msg_agg_no_project = utf8 [230, 156, 170, 229, 189, 146, 229, 177, 158]"

definition msg_agg_project_gone :: string where
  "msg_agg_project_gone = utf8 [229, 183, 178, 229, 136, 160, 233, 153, 164, 233, 161, 185, 231, 155, 174, 32, 35]"

definition msg_agg_user_gone :: string where
  "msg_agg_user_gone = utf8 [229, 183, 178, 229, 136, 160, 233, 153, 164, 231, 148, 168, 230, 136, 183, 32, 35]"

end
