(* ===== verification/Rollup.thy ===== *)
theory Rollup
  imports Ledger ReportMessages
begin

text \<open>
  The daily roll-up of the usage log (\<^verbatim>\<open>store/rollup.go\<close>), from which the reports are read once a day is over: rolling up
  a day, the days still to do, the purge of old logs, and the aggregation that reads rolled days from the roll-up and the others
  from the log. A calendar day is a number of days since 1970-01-01; where the zone of the server puts an instant, and
  when a day begins there, is a parameter.
\<close>

section \<open>The calendar (package time, tz.go)\<close>

record zone =
  zn_day :: "go_time \<Rightarrow> int"
  zn_start :: "int \<Rightarrow> go_time"

definition Day :: go_duration where "Day = 24 * Hour"

text \<open>The date of a day in the Gregorian calendar, and back.\<close>

definition civil_of :: "int \<Rightarrow> int \<times> int \<times> int" where
  "civil_of n =
     (let z = n + 719468; era = z div 146097; doe = z mod 146097;
          yoe = (doe - doe div 1460 + doe div 36524 - doe div 146096) div 365;
          doy = doe - (365 * yoe + yoe div 4 - yoe div 100); mp = (5 * doy + 2) div 153;
          d = doy - (153 * mp + 2) div 5 + 1; m = (if mp < 10 then mp + 3 else mp - 9)
      in (yoe + era * 400 + (if m \<le> 2 then 1 else 0), m, d))"

definition day_of_civil :: "int \<Rightarrow> int \<Rightarrow> int \<Rightarrow> int" where
  "day_of_civil y m d =
     (let y = (if m \<le> 2 then y - 1 else y); era = y div 400; yoe = y mod 400;
          doy = (153 * (if m > 2 then m - 3 else m + 9) + 2) div 5 + d - 1;
          doe = yoe * 365 + yoe div 4 - yoe div 100 + doy
      in era * 146097 + doe - 719468)"

text \<open>The first days of the month of a day and of the next month.\<close>

definition MonthRange :: "int \<Rightarrow> int \<times> int" where
  "MonthRange n = (case civil_of n of (y, m, d) \<Rightarrow>
     (day_of_civil y m 1, if m = 12 then day_of_civil (y + 1) 1 1 else day_of_civil y (m + 1) 1))"

definition zero_padded :: "nat \<Rightarrow> int \<Rightarrow> string" where
  "zero_padded k n = (if n < 0 then ''-'' else []) @ replicate (k - length (show_int \<bar>n\<bar>)) (CHR ''0'') @ show_int \<bar>n\<bar>"

definition format_day :: "int \<Rightarrow> string" where
  "format_day n = (case civil_of n of (y, m, d) \<Rightarrow> zero_padded 4 y @ ''-'' @ zero_padded 2 m @ ''-'' @ zero_padded 2 d)"

definition format_month :: "int \<Rightarrow> string" where
  "format_month n = (case civil_of n of (y, m, d) \<Rightarrow> zero_padded 4 y @ ''-'' @ zero_padded 2 m)"

definition utc_midnight :: "int \<Rightarrow> go_time" where
  "utc_midnight n = n * Day"

section \<open>Rows\<close>

datatype usage_sums = UsageSums (s_requests: int) (s_promptTokens: int) (s_completionTokens: int) (s_cacheReadTokens: int)
  (s_cacheWriteTokens: int) (s_creditsCharged: int) (s_creditsCost: int)

instantiation usage_sums :: comm_monoid_add
begin

definition zero_usage_sums :: usage_sums where
  "zero_usage_sums = UsageSums 0 0 0 0 0 0 0"

definition plus_usage_sums :: "usage_sums \<Rightarrow> usage_sums \<Rightarrow> usage_sums" where
  "plus_usage_sums a b = UsageSums (s_requests a + s_requests b) (s_promptTokens a + s_promptTokens b)
     (s_completionTokens a + s_completionTokens b) (s_cacheReadTokens a + s_cacheReadTokens b)
     (s_cacheWriteTokens a + s_cacheWriteTokens b) (s_creditsCharged a + s_creditsCharged b) (s_creditsCost a + s_creditsCost b)"

instance
proof
  fix a b c :: usage_sums
  show "a + b + c = a + (b + c)" by (simp add: plus_usage_sums_def)
  show "a + b = b + a" by (simp add: plus_usage_sums_def)
  show "0 + a = a" by (simp add: plus_usage_sums_def zero_usage_sums_def)
qed

end

definition sums_i64 :: "usage_sums \<Rightarrow> bool" where
  "sums_i64 x \<longleftrightarrow> list_all i64 [s_requests x, s_promptTokens x, s_completionTokens x, s_cacheReadTokens x, s_cacheWriteTokens x,
     s_creditsCharged x, s_creditsCost x]"

record usage_key =
  uk_userID :: row_id
  uk_departmentID :: row_id
  uk_projectID :: row_id
  uk_modelName :: string
  uk_channelID :: row_id
  uk_integrationID :: row_id
  uk_apiKeyID :: row_id

record UsageDailyRollup =
  ud_day :: int
  ud_key :: usage_key
  ud_sums :: usage_sums

record warehouse =
  wh_logs :: "usage_log list"
  wh_daily :: "UsageDailyRollup list"
  wh_rolled :: "(int, int) tbl"

datatype rollup_query = QRolledThrough | QEarliest | QRolledDays | QDayRolled int | QRollDay int | QPurgeLogs | QAggregate

text \<open>The zone of the server, which queries fail, and how the transaction of a day ends.\<close>

record rollup_world =
  rw_zone :: zone
  rw_fails :: "rollup_query \<Rightarrow> bool"
  rw_commit :: "int \<Rightarrow> commit_outcome"

definition log_key :: "usage_log \<Rightarrow> usage_key" where
  "log_key l = \<lparr>uk_userID = ul_userID l, uk_departmentID = ul_departmentID l, uk_projectID = ul_projectID l, uk_modelName = ul_modelName l,
     uk_channelID = ul_channelID l, uk_integrationID = ul_integrationID l, uk_apiKeyID = ul_apiKeyID l\<rparr>"

definition log_sums :: "usage_log \<Rightarrow> usage_sums" where
  "log_sums l = UsageSums 1 (ul_promptTokens l) (ul_completionTokens l) (ul_cacheReadTokens l) (ul_cacheWriteTokens l)
     (ul_creditsCharged l) (ul_creditsCost l)"

text \<open>The settled calls from the beginning of one day to that of another.\<close>

definition settled_between :: "zone \<Rightarrow> int \<Rightarrow> int \<Rightarrow> usage_log \<Rightarrow> bool" where
  "settled_between z a b l \<longleftrightarrow> ul_status l = UsageSettled \<and> zn_start z a \<le> ul_createdAt l \<and> ul_createdAt l < zn_start z b"

section \<open>Rolling up\<close>

definition day_rows :: "int \<Rightarrow> usage_log list \<Rightarrow> UsageDailyRollup list" where
  "day_rows d logs = map (\<lambda>k. \<lparr>ud_day = d, ud_key = k, ud_sums = sum_list (map log_sums (filter (\<lambda>l. log_key l = k) logs))\<rparr>)
     (remdups (map log_key logs))"

definition rolled_day :: "zone \<Rightarrow> int \<Rightarrow> warehouse \<Rightarrow> warehouse" where
  "rolled_day z d s =
     (let rows = day_rows d (filter (settled_between z d (d + 1)) (wh_logs s))
      in s\<lparr>wh_daily := filter (\<lambda>r. ud_day r \<noteq> d) (wh_daily s) @ rows,
           wh_rolled := tbl_upsert (int (length rows)) (\<lambda>_. int (length rows)) d (wh_rolled s)\<rparr>)"

text \<open>A day is replaced as a whole, within one transaction; a sum beyond 64 bits does not fit its column.\<close>

definition RollDay :: "rollup_world \<Rightarrow> int \<Rightarrow> warehouse \<Rightarrow> bool \<times> warehouse" where
  "RollDay w d s =
     (if rw_fails w (QRollDay d)
        \<or> \<not> list_all (\<lambda>r. sums_i64 (ud_sums r)) (day_rows d (filter (settled_between (rw_zone w) d (d + 1)) (wh_logs s)))
      then (False, s)
      else case rw_commit w d of
        Committed \<Rightarrow> (True, rolled_day (rw_zone w) d s)
      | CommitFailed \<Rightarrow> (False, s)
      | CommitLost \<Rightarrow> (False, rolled_day (rw_zone w) d s))"

text \<open>The outer \<^term>\<open>None\<close> is an error of the query, the inner one an empty table.\<close>

definition RolledThrough :: "rollup_world \<Rightarrow> warehouse \<Rightarrow> int option option" where
  "RolledThrough w s =
     (if rw_fails w QRolledThrough then None
      else Some (if wh_rolled s = [] then None else Some (Max (set (map fst (wh_rolled s))))))"

definition earliest :: "usage_log list \<Rightarrow> go_time option" where
  "earliest logs = (if logs = [] then None else Some (Min (set (map ul_createdAt logs))))"

definition PendingDays :: "rollup_world \<Rightarrow> int \<Rightarrow> nat \<Rightarrow> warehouse \<Rightarrow> int list option" where
  "PendingDays w upTo limit s =
     (if rw_fails w QEarliest then None
      else case earliest (wh_logs s) of
        None \<Rightarrow> Some []
      | Some t \<Rightarrow>
        if rw_fails w QRolledDays then None
        else let first = zn_day (rw_zone w) t; done = filter (\<lambda>d. d \<ge> first) (map fst (wh_rolled s))
             in Some (take limit (filter (\<lambda>d. d \<notin> set done) [first..upTo])))"

text \<open>Logs are deleted only when every day of them is rolled up.\<close>

definition PurgeUsageLogsBefore :: "rollup_world \<Rightarrow> go_time \<Rightarrow> warehouse \<Rightarrow> int option \<times> warehouse" where
  "PurgeUsageLogsBefore w before s =
     (let z = rw_zone w; cutoff = zn_day z before in
      if rw_fails w QEarliest then (None, s)
      else case earliest (wh_logs s) of
        None \<Rightarrow> (Some 0, s)
      | Some t \<Rightarrow>
        if \<not> list_all (\<lambda>d. \<not> rw_fails w (QDayRolled d) \<and> d \<in> set (map fst (wh_rolled s))) [zn_day z t..cutoff - 1] then (None, s)
        else if rw_fails w QPurgeLogs then (None, s)
        else (Some (int (length (filter (\<lambda>l. ul_createdAt l < zn_start z cutoff) (wh_logs s)))),
              s\<lparr>wh_logs := filter (\<lambda>l. \<not> ul_createdAt l < zn_start z cutoff) (wh_logs s)\<rparr>))"

section \<open>Aggregating\<close>

datatype AggDimension = AggByUser | AggByDepartment | AggByProject | AggByModel | AggByChannel | AggByDay | AggByKey

fun agg_dimension_str :: "AggDimension \<Rightarrow> string" where
  "agg_dimension_str AggByUser = ''user''"
| "agg_dimension_str AggByDepartment = ''department''"
| "agg_dimension_str AggByProject = ''project''"
| "agg_dimension_str AggByModel = ''model''"
| "agg_dimension_str AggByChannel = ''channel''"
| "agg_dimension_str AggByDay = ''day''"
| "agg_dimension_str AggByKey = ''key''"

definition agg_dimension :: "string \<Rightarrow> AggDimension option" where
  "agg_dimension t = List.find (\<lambda>d. agg_dimension_str d = t) [AggByUser, AggByDepartment, AggByProject, AggByModel, AggByChannel, AggByDay, AggByKey]"

record AggFilter =
  af_From :: go_time
  af_To :: go_time
  af_UserID :: row_id
  af_DepartmentID :: "row_id option"
  af_ProjectID :: "row_id option"
  af_ModelName :: string
  af_ChannelID :: row_id
  af_IntegrationID :: "row_id option"
  af_APIKeyID :: row_id

definition agg_between :: "go_time \<Rightarrow> go_time \<Rightarrow> AggFilter" where
  "agg_between a b = \<lparr>af_From = a, af_To = b, af_UserID = 0, af_DepartmentID = None, af_ProjectID = None, af_ModelName = [],
     af_ChannelID = 0, af_IntegrationID = None, af_APIKeyID = 0\<rparr>"

record AggRow =
  ar_groupID :: row_id
  ar_groupKey :: string
  ar_sums :: usage_sums
  ar_margin :: credits

text \<open>The names of what a row refers to, as the tables have them when the report is made.\<close>

record entity_names =
  en_user :: "row_id \<Rightarrow> string option"
  en_department :: "row_id \<Rightarrow> string option"
  en_project :: "row_id \<Rightarrow> string option"
  en_channel :: "row_id \<Rightarrow> string option"
  en_key :: "row_id \<Rightarrow> string option"

definition name_or :: "string \<Rightarrow> row_id \<Rightarrow> string option \<Rightarrow> string" where
  "name_or unknown i name = (case name of None \<Rightarrow> unknown @ show_int i | Some n \<Rightarrow> n)"

definition aggExprs :: "entity_names \<Rightarrow> AggDimension \<Rightarrow> int \<Rightarrow> usage_key \<Rightarrow> row_id \<times> string" where
  "aggExprs n dim day k = (case dim of
       AggByUser \<Rightarrow> (uk_userID k, name_or msg_agg_user_gone (uk_userID k) (en_user n (uk_userID k)))
     | AggByDepartment \<Rightarrow> (uk_departmentID k, if uk_departmentID k = 0 then msg_agg_no_department
         else name_or msg_agg_department_gone (uk_departmentID k) (en_department n (uk_departmentID k)))
     | AggByProject \<Rightarrow> (uk_projectID k, if uk_projectID k = 0 then msg_agg_no_project
         else name_or msg_agg_project_gone (uk_projectID k) (en_project n (uk_projectID k)))
     | AggByChannel \<Rightarrow> (uk_channelID k, name_or msg_agg_channel_gone (uk_channelID k) (en_channel n (uk_channelID k)))
     | AggByKey \<Rightarrow> (uk_apiKeyID k, if uk_apiKeyID k = 0 then msg_agg_no_key
         else name_or msg_agg_key_gone (uk_apiKeyID k) (en_key n (uk_apiKeyID k)))
     | AggByDay \<Rightarrow> (0, format_day day)
     | AggByModel \<Rightarrow> (0, uk_modelName k))"

definition aggConditions :: "AggFilter \<Rightarrow> usage_key \<Rightarrow> bool" where
  "aggConditions f k \<longleftrightarrow> (af_UserID f > 0 \<longrightarrow> uk_userID k = af_UserID f)
     \<and> optional (\<lambda>d. uk_departmentID k = d) (af_DepartmentID f)
     \<and> optional (\<lambda>p. uk_projectID k = p) (af_ProjectID f)
     \<and> (af_ModelName f \<noteq> [] \<longrightarrow> uk_modelName k = af_ModelName f)
     \<and> (af_ChannelID f > 0 \<longrightarrow> uk_channelID k = af_ChannelID f)
     \<and> (af_APIKeyID f > 0 \<longrightarrow> uk_apiKeyID k = af_APIKeyID f)
     \<and> optional (\<lambda>i. uk_integrationID k = i) (af_IntegrationID f)"

text \<open>
  The day on which the roll-up ends and the log begins. The last rolled day is read from the database as midnight UTC
  and put into the zone of the server before the next day is taken.
\<close>

definition rollupSplit :: "zone \<Rightarrow> int \<Rightarrow> int \<Rightarrow> int option \<Rightarrow> int" where
  "rollupSplit z from to rolledThrough = (case rolledThrough of
     None \<Rightarrow> from
   | Some d \<Rightarrow> (let next = zn_day z (utc_midnight d) + 1; rollupTo = (if next > from then next else from)
       in if rollupTo > to then to else rollupTo))"

definition log_row :: "zone \<Rightarrow> usage_log \<Rightarrow> UsageDailyRollup" where
  "log_row z l = \<lparr>ud_day = zn_day z (ul_createdAt l), ud_key = log_key l, ud_sums = log_sums l\<rparr>"

definition agg_source :: "zone \<Rightarrow> int \<Rightarrow> int \<Rightarrow> int \<Rightarrow> warehouse \<Rightarrow> UsageDailyRollup list" where
  "agg_source z from rollupTo to s = filter (\<lambda>r. from \<le> ud_day r \<and> ud_day r < rollupTo) (wh_daily s)
     @ map (log_row z) (filter (settled_between z rollupTo to) (wh_logs s))"

definition agg_group :: "entity_names \<Rightarrow> AggDimension \<Rightarrow> UsageDailyRollup \<Rightarrow> row_id \<times> string" where
  "agg_group n dim r = aggExprs n dim (ud_day r) (ud_key r)"

definition agg_row :: "entity_names \<Rightarrow> AggDimension \<Rightarrow> UsageDailyRollup list \<Rightarrow> row_id \<times> string \<Rightarrow> AggRow" where
  "agg_row n dim rows g =
     (let total = sum_list (map ud_sums (filter (\<lambda>r. agg_group n dim r = g) rows))
      in \<lparr>ar_groupID = fst g, ar_groupKey = snd g, ar_sums = total, ar_margin = s_creditsCharged total - s_creditsCost total\<rparr>)"

text \<open>Rows with the same charge come in no particular order; a sum that is no 64-bit integer cannot be read.\<close>

definition agg_rows :: "entity_names \<Rightarrow> AggDimension \<Rightarrow> AggFilter \<Rightarrow> UsageDailyRollup list \<Rightarrow> AggRow list option" where
  "agg_rows n dim f source =
     (let rows = filter (\<lambda>r. aggConditions f (ud_key r)) source;
          result = sort_key (\<lambda>r. - s_creditsCharged (ar_sums r)) (map (agg_row n dim rows) (remdups (map (agg_group n dim) rows)))
      in if list_all (\<lambda>r. sums_i64 (ar_sums r) \<and> i64 (ar_margin r)) result then Some result else None)"

definition aggregateWithRollup :: "rollup_world \<Rightarrow> entity_names \<Rightarrow> AggDimension \<Rightarrow> AggFilter \<Rightarrow> int \<Rightarrow> int \<Rightarrow> int option \<Rightarrow> warehouse
    \<Rightarrow> AggRow list option" where
  "aggregateWithRollup w n dim f from to rolledThrough s =
     (if rw_fails w QAggregate then None
      else agg_rows n dim f (agg_source (rw_zone w) from (rollupSplit (rw_zone w) from to rolledThrough) to s))"

definition Aggregate :: "rollup_world \<Rightarrow> entity_names \<Rightarrow> AggDimension \<Rightarrow> AggFilter \<Rightarrow> warehouse \<Rightarrow> AggRow list option" where
  "Aggregate w n dim f s =
     (let from = zn_day (rw_zone w) (af_From f); to = zn_day (rw_zone w) (af_To f) in
      if to \<le> from then Some []
      else case RolledThrough w s of
        None \<Rightarrow> None
      | Some through \<Rightarrow> aggregateWithRollup w n dim f from to through s)"

section \<open>The daily task (scheduler.go)\<close>

fun roll_days :: "rollup_world \<Rightarrow> int list \<Rightarrow> warehouse \<Rightarrow> bool \<times> warehouse" where
  "roll_days w [] s = (True, s)"
| "roll_days w (d # ds) s = (case RollDay w d s of (False, s) \<Rightarrow> (False, s) | (True, s) \<Rightarrow> roll_days w ds s)"

definition maxRollupDaysPerRun :: nat where "maxRollupDaysPerRun = 30"

definition rollupUsage :: "rollup_world \<Rightarrow> bool \<Rightarrow> go_time \<Rightarrow> warehouse \<Rightarrow> bool \<times> warehouse" where
  "rollupUsage w enabled t s =
     (if \<not> enabled then (True, s)
      else case PendingDays w (zn_day (rw_zone w) t - 1) maxRollupDaysPerRun s of
        None \<Rightarrow> (False, s)
      | Some days \<Rightarrow> roll_days w days s)"

section \<open>Rows that add up to the same\<close>

text \<open>What the rows say of a day and a combination of user, key, model and the rest.\<close>

definition cell :: "UsageDailyRollup \<Rightarrow> int \<times> usage_key" where
  "cell r = (ud_day r, ud_key r)"

definition weight :: "UsageDailyRollup list \<Rightarrow> int \<times> usage_key \<Rightarrow> usage_sums" where
  "weight rows x = sum_list (map ud_sums (filter (\<lambda>r. cell r = x) rows))"

definition agree :: "UsageDailyRollup list \<Rightarrow> UsageDailyRollup list \<Rightarrow> bool" where
  "agree a b \<longleftrightarrow> cell ` set a = cell ` set b \<and> weight a = weight b"

lemma weight_simps [simp]:
  "weight [] x = 0" "weight (r # rs) x = (if cell r = x then ud_sums r + weight rs x else weight rs x)"
  by (simp_all add: weight_def)

lemma sum_cells:
  assumes "finite S" "cell ` set rows \<subseteq> S"
  shows "sum_list (map ud_sums (filter (\<lambda>r. p (cell r)) rows)) = (\<Sum>x\<in>{x \<in> S. p x}. weight rows x)"
  using assms(2)
proof (induction rows)
  case (Cons r rs)
  have "(\<Sum>x\<in>{x \<in> S. p x}. weight (r # rs) x) = (\<Sum>x\<in>{x \<in> S. p x}. (if cell r = x then ud_sums r else 0) + weight rs x)"
    by (intro sum.cong) auto
  also have "\<dots> = (if p (cell r) then ud_sums r else 0) + (\<Sum>x\<in>{x \<in> S. p x}. weight rs x)"
    using assms(1) Cons.prems by (simp add: sum.distrib sum.delta)
  finally show ?case using Cons by simp
qed simp

lemma agree_sum: "agree a b \<Longrightarrow> sum_list (map ud_sums (filter (\<lambda>r. p (cell r)) a)) = sum_list (map ud_sums (filter (\<lambda>r. p (cell r)) b))"
  using sum_cells [of "cell ` set a" a p] sum_cells [of "cell ` set a" b p] by (simp add: agree_def)

lemma weight_filter: "weight (filter (\<lambda>r. p (cell r)) rows) x = (if p x then weight rows x else 0)"
  by (induction rows) auto

lemma agree_filter: "agree a b \<Longrightarrow> agree (filter (\<lambda>r. p (cell r)) a) (filter (\<lambda>r. p (cell r)) b)"
proof -
  assume "agree a b"
  moreover have "cell ` set (filter (\<lambda>r. p (cell r)) rows) = {x \<in> cell ` set rows. p x}" for rows by auto
  ultimately show ?thesis by (simp add: agree_def fun_eq_iff weight_filter)
qed

lemma agree_by_day:
  assumes "\<And>d. agree (filter (\<lambda>r. ud_day r = d) a) (filter (\<lambda>r. ud_day r = d) b)"
  shows "agree a b"
proof -
  have c: "agree (filter (\<lambda>r. fst (cell r) = d) a) (filter (\<lambda>r. fst (cell r) = d) b)" for d
    using assms [of d] by (simp add: cell_def)
  have "weight a x = weight b x" for x
    using c [of "fst x"] weight_filter [of "\<lambda>y. fst y = fst x" a x] weight_filter [of "\<lambda>y. fst y = fst x" b x] by (simp add: agree_def)
  moreover have "x \<in> cell ` set a \<longleftrightarrow> x \<in> cell ` set b" for x
  proof -
    have "x \<in> cell ` set rows \<longleftrightarrow> x \<in> cell ` set (filter (\<lambda>r. fst (cell r) = fst x) rows)" for rows by auto
    then show ?thesis using c [of "fst x"] unfolding agree_def by metis
  qed
  ultimately show ?thesis unfolding agree_def by blast
qed

text \<open>The rows of a report are the same up to their order, whichever of two such lists they are made from.\<close>

lemma agg_rows_agree:
  assumes "agree a b"
  shows "rel_option (\<lambda>x y. mset x = mset y) (agg_rows n dim f a) (agg_rows n dim f b)"
proof -
  define p where "p = (\<lambda>(x :: int \<times> usage_key). aggConditions f (snd x))"
  define g where "g = (\<lambda>(x :: int \<times> usage_key). aggExprs n dim (fst x) (snd x))"
  let ?a = "filter (\<lambda>r. p (cell r)) a" and ?b = "filter (\<lambda>r. p (cell r)) b"
  have ab: "agree ?a ?b" using assms by (rule agree_filter)
  have grp: "agg_group n dim r = g (cell r)" for r by (simp add: agg_group_def g_def cell_def)
  have row: "agg_row n dim ?a = agg_row n dim ?b"
    using agree_sum [OF ab, of "\<lambda>c. g c = x" for x] by (simp add: fun_eq_iff agg_row_def grp)
  have "set (map (agg_group n dim) ?a) = g ` cell ` set ?a" "set (map (agg_group n dim) ?b) = g ` cell ` set ?b"
    by (simp_all add: image_image grp)
  then have "set (remdups (map (agg_group n dim) ?a)) = set (remdups (map (agg_group n dim) ?b))"
    using ab by (simp add: agree_def)
  then have "mset (remdups (map (agg_group n dim) ?a)) = mset (remdups (map (agg_group n dim) ?b))"
    using set_eq_iff_mset_eq_distinct [of "remdups (map (agg_group n dim) ?a)"] by (metis distinct_remdups)
  then have m: "mset (map (agg_row n dim ?a) (remdups (map (agg_group n dim) ?a))) = mset (map (agg_row n dim ?b) (remdups (map (agg_group n dim) ?b)))"
    by (simp add: row)
  let ?s = "sort_key (\<lambda>r. - s_creditsCharged (ar_sums r))"
  let ?x = "?s (map (agg_row n dim ?a) (remdups (map (agg_group n dim) ?a)))" and ?y = "?s (map (agg_row n dim ?b) (remdups (map (agg_group n dim) ?b)))"
  have e: "agg_rows n dim f a = (if list_all (\<lambda>r. sums_i64 (ar_sums r) \<and> i64 (ar_margin r)) ?x then Some ?x else None)"
      "agg_rows n dim f b = (if list_all (\<lambda>r. sums_i64 (ar_sums r) \<and> i64 (ar_margin r)) ?y then Some ?y else None)"
    by (simp_all only: agg_rows_def Let_def p_def cell_def snd_conv)
  have "mset ?x = mset ?y" using m by (simp only: mset_sort)
  moreover from this have "set ?x = set ?y" by (rule mset_eq_setD)
  ultimately show ?thesis unfolding e by (simp only: list_all_iff) simp
qed

end
