(* ===== verification/RollupProps.thy ===== *)
theory RollupProps
  imports Rollup
begin

text \<open>
  The reports do not depend on the roll-up: however the days were rolled up, whatever failed meanwhile, and whichever
  old logs were purged, a report is the one that the log of all calls ever settled would give.
\<close>

section \<open>Zones\<close>

text \<open>What the time zone database guarantees of the two functions.\<close>

definition zone_ok :: "zone \<Rightarrow> bool" where
  "zone_ok z \<longleftrightarrow> (\<forall>d t. zn_start z d \<le> t \<longleftrightarrow> d \<le> zn_day z t)"

text \<open>At or east of Greenwich, midnight UTC falls on the same date.\<close>

definition eastern :: "zone \<Rightarrow> bool" where
  "eastern z \<longleftrightarrow> (\<forall>d. zn_day z (utc_midnight d) = d)"

lemma settled_day: "zone_ok z \<Longrightarrow> settled_between z a b l \<longleftrightarrow> ul_status l = UsageSettled \<and> a \<le> zn_day z (ul_createdAt l) \<and> zn_day z (ul_createdAt l) < b"
  unfolding settled_between_def zone_ok_def by (metis linorder_not_le)

lemma day_mono: "zone_ok z \<Longrightarrow> t \<le> t' \<Longrightarrow> zn_day z t \<le> zn_day z t'"
  unfolding zone_ok_def by (meson order.trans order_refl)

abbreviation settled_on :: "zone \<Rightarrow> int \<Rightarrow> usage_log list \<Rightarrow> usage_log list" where
  "settled_on z d logs \<equiv> filter (settled_between z d (d + 1)) logs"

lemma weight_logs: "weight (map (\<lambda>l. \<lparr>ud_day = d, ud_key = log_key l, ud_sums = log_sums l\<rparr>) ls) x
    = (if fst x = d then sum_list (map log_sums (filter (\<lambda>l. log_key l = snd x) ls)) else 0)"
  by (cases x; induction ls) (auto simp: cell_def)

lemma weight_keys: "distinct ks \<Longrightarrow> weight (map (\<lambda>k. \<lparr>ud_day = d, ud_key = k, ud_sums = g k\<rparr>) ks) x
    = (if fst x = d \<and> snd x \<in> set ks then g (snd x) else 0)"
  by (cases x; induction ks) (auto simp: cell_def)

lemma weight_day_rows: "weight (day_rows d ls) x = weight (map (\<lambda>l. \<lparr>ud_day = d, ud_key = log_key l, ud_sums = log_sums l\<rparr>) ls) x"
proof -
  have "filter (\<lambda>l. log_key l = snd x) ls = []" if "snd x \<notin> log_key ` set ls" using that by (auto simp: filter_empty_conv image_iff)
  then show ?thesis unfolding day_rows_def weight_logs weight_keys [OF distinct_remdups] by auto
qed

lemma day_rows_agree:
  assumes "zone_ok z"
  shows "agree (day_rows d (settled_on z d logs)) (map (log_row z) (settled_on z d logs))"
proof -
  let ?ls = "settled_on z d logs"
  have "zn_day z (ul_createdAt l) = d" if "l \<in> set ?ls" for l
    using that by (auto simp: settled_day [OF assms])
  then have rows: "map (log_row z) ?ls = map (\<lambda>l. \<lparr>ud_day = d, ud_key = log_key l, ud_sums = log_sums l\<rparr>) ?ls"
    by (auto simp: log_row_def)
  have "cell ` set (day_rows d ls) = cell ` set (map (\<lambda>l. \<lparr>ud_day = d, ud_key = log_key l, ud_sums = log_sums l\<rparr>) ls)" for ls
    by (auto simp: day_rows_def cell_def image_image)
  then show ?thesis unfolding rows agree_def by (simp only: weight_day_rows fun_eq_iff) simp
qed

lemma log_row_day [simp]: "ud_day (log_row z l) = zn_day z (ul_createdAt l)"
  by (simp add: log_row_def)

lemma raw_rows_of_day:
  assumes "zone_ok z"
  shows "filter (\<lambda>r. ud_day r = d) (map (log_row z) (filter (settled_between z a b) logs)) = (if a \<le> d \<and> d < b then map (log_row z) (settled_on z d logs) else [])"
proof -
  have "filter (\<lambda>l. settled_between z a b l \<and> zn_day z (ul_createdAt l) = d) logs = (if a \<le> d \<and> d < b then settled_on z d logs else [])"
    by (auto simp: settled_day [OF assms] filter_empty_conv intro!: filter_cong)
  then show ?thesis by (simp add: filter_map comp_def conj_commute)
qed

section \<open>What may happen to the log and the roll-up\<close>

text \<open>
  Time passes; a call is logged at the present time; a call that failed leaves a trace dated back to its start, or the trace of one changes;
  the daily task runs, and old logs are purged, in whatever world. The last argument are the settled calls ever logged.
\<close>

definition empty_warehouse :: warehouse where
  "empty_warehouse = \<lparr>wh_logs = [], wh_daily = [], wh_rolled = []\<rparr>"

inductive usage_history :: "zone \<Rightarrow> go_time \<Rightarrow> warehouse \<Rightarrow> usage_log list \<Rightarrow> bool" for z :: zone where
  start: "usage_history z t empty_warehouse []"
| waited: "usage_history z t s h \<Longrightarrow> t \<le> t' \<Longrightarrow> usage_history z t' s h"
| logged: "usage_history z t s h \<Longrightarrow> ul_createdAt l = t \<Longrightarrow>
    usage_history z t (s\<lparr>wh_logs := wh_logs s @ [l]\<rparr>) (if ul_status l = UsageSettled then h @ [l] else h)"
| traced: "usage_history z t s h \<Longrightarrow> ul_status l \<noteq> UsageSettled \<Longrightarrow> usage_history z t (s\<lparr>wh_logs := wh_logs s @ [l]\<rparr>) h"
| retraced: "usage_history z t s h \<Longrightarrow> i < length (wh_logs s) \<Longrightarrow> ul_status (wh_logs s ! i) \<noteq> UsageSettled \<Longrightarrow> ul_status l \<noteq> UsageSettled
    \<Longrightarrow> ul_createdAt l = ul_createdAt (wh_logs s ! i) \<Longrightarrow> usage_history z t (s\<lparr>wh_logs := (wh_logs s)[i := l]\<rparr>) h"
| rolled: "usage_history z t s h \<Longrightarrow> rw_zone w = z \<Longrightarrow> rollupUsage w enabled t s = (ok, s') \<Longrightarrow> usage_history z t s' h"
| purged: "usage_history z t s h \<Longrightarrow> rw_zone w = z \<Longrightarrow> PurgeUsageLogsBefore w before s = (r, s') \<Longrightarrow> usage_history z t s' h"

definition rolled_days :: "warehouse \<Rightarrow> int set" where
  "rolled_days s = set (map fst (wh_rolled s))"

text \<open>
  The rows of a rolled day are those of its settled calls; the log of any other day is complete; and there is nothing to roll up
  before a rolled day that is not.
\<close>

definition rollup_ok :: "zone \<Rightarrow> go_time \<Rightarrow> warehouse \<Rightarrow> usage_log list \<Rightarrow> bool" where
  "rollup_ok z t s h \<longleftrightarrow> (\<forall>d \<in> rolled_days s. d < zn_day z t)
     \<and> (\<forall>d \<in> rolled_days s. filter (\<lambda>r. ud_day r = d) (wh_daily s) = day_rows d (settled_on z d h))
     \<and> (\<forall>r \<in> set (wh_daily s). ud_day r \<in> rolled_days s)
     \<and> (\<forall>d. d \<notin> rolled_days s \<longrightarrow> settled_on z d (wh_logs s) = settled_on z d h)
     \<and> (\<forall>e \<in> rolled_days s. \<forall>d < e. d \<notin> rolled_days s \<longrightarrow> settled_on z d h = [])"

lemma rollup_okD:
  assumes "rollup_ok z t s h"
  shows "d \<in> rolled_days s \<Longrightarrow> d < zn_day z t"
    "d \<in> rolled_days s \<Longrightarrow> filter (\<lambda>r. ud_day r = d) (wh_daily s) = day_rows d (settled_on z d h)"
    "r \<in> set (wh_daily s) \<Longrightarrow> ud_day r \<in> rolled_days s"
    "d \<notin> rolled_days s \<Longrightarrow> settled_on z d (wh_logs s) = settled_on z d h"
    "e \<in> rolled_days s \<Longrightarrow> d < e \<Longrightarrow> d \<notin> rolled_days s \<Longrightarrow> settled_on z d h = []"
  using assms by (auto simp: rollup_ok_def)

text \<open>The days that are to be rolled up: whatever is before one of them is rolled, is another of them, or is empty.\<close>

definition due :: "zone \<Rightarrow> go_time \<Rightarrow> int list \<Rightarrow> warehouse \<Rightarrow> usage_log list \<Rightarrow> bool" where
  "due z t ds s h \<longleftrightarrow> sorted_wrt (<) ds \<and> (\<forall>d \<in> set ds. d < zn_day z t \<and> d \<notin> rolled_days s
     \<and> (\<forall>e < d. e \<in> rolled_days s \<or> e \<in> set ds \<or> settled_on z e h = []))"

lemma keys_upd: "map fst (tbl_upd f k t) = map fst t"
  by (induction f k t rule: tbl_upd.induct) auto

lemma rolled_day_fields [simp]:
  "rolled_days (rolled_day z d s) = insert d (rolled_days s)" "wh_logs (rolled_day z d s) = wh_logs s"
  "wh_daily (rolled_day z d s) = filter (\<lambda>r. ud_day r \<noteq> d) (wh_daily s) @ day_rows d (settled_on z d (wh_logs s))"
proof -
  have "set (map fst (tbl_upsert v f d t)) = insert d (set (map fst t))" for v f and t :: "(int, int) tbl"
  proof (cases "tbl_get t d")
    case (Some x)
    then have "d \<in> set (map fst t)" unfolding tbl_get_def by (force dest: map_of_SomeD)
    then show ?thesis using Some by (simp only: tbl_upsert_def option.case keys_upd insert_absorb)
  qed (auto simp: tbl_upsert_def)
  then show "rolled_days (rolled_day z d s) = insert d (rolled_days s)" by (simp add: rolled_days_def rolled_day_def Let_def)
qed (simp_all add: rolled_day_def Let_def)

lemma day_of_day_rows: "r \<in> set (day_rows d ls) \<Longrightarrow> ud_day r = d"
  by (auto simp: day_rows_def)

lemma roll_one:
  assumes ok: "rollup_ok z t s h" and due: "due z t (d # ds) s h"
  shows "rollup_ok z t (rolled_day z d s) h \<and> due z t ds (rolled_day z d s) h"
proof -
  have after: "\<forall>x \<in> set ds. d < x" using due by (simp add: due_def)
  have d: "d < zn_day z t" "d \<notin> rolled_days s" "\<And>e. e < d \<Longrightarrow> e \<in> rolled_days s \<or> settled_on z e h = []"
    using due after unfolding due_def by (simp, simp, metis less_asym list.set_intros(1) set_ConsD)
  have fresh: "settled_on z d (wh_logs s) = settled_on z d h" using rollup_okD(4) [OF ok d(2)] .
  have other: "filter (\<lambda>r. ud_day r = e) (day_rows d ls) = (if e = d then day_rows d ls else [])" for e ls
    using day_of_day_rows [of _ d ls] by (auto simp: filter_empty_conv filter_id_conv)
  have "filter (\<lambda>r. ud_day r = e) (filter (\<lambda>r. ud_day r \<noteq> d) (wh_daily s)) = (if e = d then [] else filter (\<lambda>r. ud_day r = e) (wh_daily s))" for e
    by (auto simp: filter_empty_conv intro: filter_cong)
  then have daily: "filter (\<lambda>r. ud_day r = e) (wh_daily (rolled_day z d s))
      = (if e = d then day_rows d (settled_on z d h) else filter (\<lambda>r. ud_day r = e) (wh_daily s))" for e
    by (simp add: other fresh del: filter_filter)
  have "rollup_ok z t (rolled_day z d s) h" unfolding rollup_ok_def
  proof (intro conjI ballI allI impI)
    fix e f assume a: "e \<in> rolled_days (rolled_day z d s)" "f < e" "f \<notin> rolled_days (rolled_day z d s)"
    then show "settled_on z f h = []" using rollup_okD(5) [OF ok, of e f] d(3) [of f] by auto
  next
    fix r assume "r \<in> set (wh_daily (rolled_day z d s))"
    then show "ud_day r \<in> rolled_days (rolled_day z d s)" using rollup_okD(3) [OF ok] day_of_day_rows by auto
  qed (use rollup_okD [OF ok] d daily in auto)
  moreover have "due z t ds (rolled_day z d s) h" using due by (auto simp: due_def)
  ultimately show ?thesis by blast
qed

lemma RollDay_cases: "RollDay w d s = (ok, s') \<Longrightarrow> s' = rolled_day (rw_zone w) d s \<or> \<not> ok \<and> s' = s"
  by (auto simp: RollDay_def split: if_splits commit_outcome.splits)

lemma roll_all:
  "roll_days w ds s = (ok, s') \<Longrightarrow> rollup_ok (rw_zone w) t s h \<Longrightarrow> due (rw_zone w) t ds s h \<Longrightarrow> rollup_ok (rw_zone w) t s' h"
proof (induction w ds s rule: roll_days.induct)
  case (2 w d ds s)
  obtain b u where u: "RollDay w d s = (b, u)" by fastforce
  show ?case
  proof (cases b)
    case True
    then have "u = rolled_day (rw_zone w) d s" using RollDay_cases [OF u] by simp
    then show ?thesis using roll_one [OF 2(3,4)] 2(1) [OF u [symmetric]] 2(2) u True by simp
  next
    case False
    then show ?thesis using RollDay_cases [OF u] roll_one [OF 2(3,4)] 2(2,3) u by auto
  qed
qed simp

lemma take_before:
  assumes "sorted_wrt (<) xs" "d \<in> set (take n xs)" "e \<in> set xs" "e < (d :: int)"
  shows "e \<in> set (take n xs)"
proof -
  have "sorted_wrt (<) (take n xs @ drop n xs)" "e \<in> set (take n xs) \<union> set (drop n xs)"
    using assms(1,3) by (simp_all flip: set_append)
  moreover from this have "\<forall>x \<in> set (take n xs). \<forall>y \<in> set (drop n xs). x < y"
    unfolding sorted_wrt_append by blast
  ultimately show ?thesis using assms(2,4) by (metis UnE less_asym)
qed

lemma earliest_day:
  assumes "zone_ok z" "earliest logs = Some t" "l \<in> set logs"
  shows "zn_day z t \<le> zn_day z (ul_createdAt l)"
  using assms(2,3) by (intro day_mono [OF assms(1)]) (auto simp: earliest_def split: if_splits intro: Min_le)

lemma pending_due:
  assumes z: "zone_ok (rw_zone w)" and ok: "rollup_ok (rw_zone w) t s h"
    and p: "PendingDays w (zn_day (rw_zone w) t - 1) n s = Some ds"
  shows "due (rw_zone w) t ds s h"
proof (cases "earliest (wh_logs s)")
  case None
  then show ?thesis using p by (auto simp: PendingDays_def due_def split: if_splits)
next
  case (Some u)
  let ?z = "rw_zone w"
  define all where "all = filter (\<lambda>d. d \<notin> rolled_days s) [zn_day ?z u..zn_day ?z t - 1]"
  have "filter (\<lambda>d. d \<notin> set (filter (\<lambda>d. d \<ge> zn_day ?z u) (map fst (wh_rolled s)))) [zn_day ?z u..zn_day ?z t - 1] = all"
    by (auto simp: all_def rolled_days_def intro!: filter_cong)
  then have ds: "ds = take n all" using p Some by (auto simp: PendingDays_def Let_def split: if_splits)
  have sorted: "sorted_wrt (<) all" by (simp add: all_def sorted_wrt_filter)
  have "e \<in> rolled_days s \<or> e \<in> set ds \<or> settled_on ?z e h = []" if "d \<in> set ds" "e < d" for d e
  proof -
    consider "e \<in> rolled_days s" | "e \<notin> rolled_days s" "e < zn_day ?z u" | "e \<notin> rolled_days s" "zn_day ?z u \<le> e" by linarith
    then show ?thesis
    proof cases
      case 2
      then have "settled_on ?z e (wh_logs s) = []"
        using earliest_day [OF z Some] by (fastforce simp: filter_empty_conv settled_day [OF z])
      then show ?thesis using rollup_okD(4) [OF ok 2(1)] by simp
    next
      case 3
      have "d \<in> set all" using that(1) ds by (auto dest: in_set_takeD)
      then have "e \<in> set all" using 3 that(2) by (auto simp: all_def)
      then show ?thesis using take_before [OF sorted] that ds by blast
    qed simp
  qed
  moreover have "d < zn_day ?z t \<and> d \<notin> rolled_days s" if "d \<in> set ds" for d
    using that ds by (auto simp: all_def dest!: in_set_takeD)
  moreover have "sorted_wrt (<) ds" using sorted ds by (simp add: sorted_wrt_take)
  ultimately show ?thesis by (auto simp: due_def)
qed

lemma rollupUsage_ok:
  assumes "zone_ok (rw_zone w)" "rollup_ok (rw_zone w) t s h" "rollupUsage w enabled t s = (ok, s')"
  shows "rollup_ok (rw_zone w) t s' h"
  using assms pending_due [OF assms(1,2), of maxRollupDaysPerRun] roll_all [OF _ assms(2)]
  by (auto simp: rollupUsage_def split: if_splits option.splits)

lemma purge_days:
  assumes z: "zone_ok (rw_zone w)" and p: "PurgeUsageLogsBefore w before s = (r, s')"
  shows "rolled_days s' = rolled_days s \<and> wh_daily s' = wh_daily s \<and> (d \<notin> rolled_days s \<longrightarrow> settled_on (rw_zone w) d (wh_logs s') = settled_on (rw_zone w) d (wh_logs s))"
proof (cases "earliest (wh_logs s)")
  case None
  then show ?thesis using p by (auto simp: PurgeUsageLogsBefore_def Let_def split: if_splits)
next
  case (Some u)
  let ?z = "rw_zone w" and ?c = "zn_day (rw_zone w) before"
  have kept: "\<not> ul_createdAt l < zn_start ?z ?c"
    if "d \<notin> rolled_days s" "\<forall>d \<in> {zn_day ?z u..?c - 1}. d \<in> rolled_days s" "l \<in> set (settled_on ?z d (wh_logs s))" for l
  proof
    assume "ul_createdAt l < zn_start ?z ?c"
    then have "zn_day ?z (ul_createdAt l) < ?c" using z unfolding zone_ok_def by (metis linorder_not_le)
    moreover have "zn_day ?z u \<le> zn_day ?z (ul_createdAt l)" using earliest_day [OF z Some] that(3) by simp
    moreover have "zn_day ?z (ul_createdAt l) = d" using that(3) by (simp add: settled_day [OF z])
    ultimately show False using that(1,2) by simp
  qed
  have "settled_on ?z d (filter (\<lambda>l. \<not> ul_createdAt l < zn_start ?z ?c) (wh_logs s)) = settled_on ?z d (wh_logs s)"
    if "d \<notin> rolled_days s" "\<forall>d \<in> {zn_day ?z u..?c - 1}. d \<in> rolled_days s"
    unfolding filter_filter using kept [OF that] by (intro filter_cong) auto
  then show ?thesis using p Some by (auto simp: PurgeUsageLogsBefore_def Let_def rolled_days_def list_all_iff split: if_splits)
qed

lemma filter_update: "\<not> P (xs ! i) \<Longrightarrow> \<not> P x \<Longrightarrow> filter P (xs[i := x]) = filter P xs"
  by (induction xs arbitrary: i) (auto split: nat.split)

lemma rollup_ok_logs:
  assumes "rollup_ok z t s h" "\<And>d. d \<notin> rolled_days s \<Longrightarrow> settled_on z d ls = settled_on z d (wh_logs s)"
  shows "rollup_ok z t (s\<lparr>wh_logs := ls\<rparr>) h"
  using assms by (simp add: rollup_ok_def rolled_days_def)

theorem usage_history_ok: "zone_ok z \<Longrightarrow> usage_history z t s h \<Longrightarrow> rollup_ok z t s h"
proof (rotate_tac, induction rule: usage_history.induct)
  case (start t)
  then show ?case by (simp add: rollup_ok_def empty_warehouse_def rolled_days_def)
next
  case (waited t s h t')
  then show ?case using day_mono [of z t t'] unfolding rollup_ok_def by (meson less_le_trans)
next
  case (logged t s h l)
  then have ok: "rollup_ok z t s h" by simp
  have new: "\<not> settled_between z d (d + 1) l" if "e \<in> rolled_days s" "d \<le> e" for d e
    using that rollup_okD(1) [OF ok that(1)] logged by (simp add: settled_day)
  show ?case
  proof (cases "ul_status l = UsageSettled")
    case True
    have h: "settled_on z d (h @ [l]) = settled_on z d h" if "e \<in> rolled_days s" "d \<le> e" for d e
      using new [OF that] by simp
    have "rollup_ok z t (s\<lparr>wh_logs := wh_logs s @ [l]\<rparr>) (h @ [l])"
      unfolding rollup_ok_def
    proof (intro conjI ballI allI impI)
      fix d assume "d \<notin> rolled_days (s\<lparr>wh_logs := wh_logs s @ [l]\<rparr>)"
      then have "settled_on z d (wh_logs s) = settled_on z d h" using rollup_okD(4) [OF ok] by (simp add: rolled_days_def)
      then show "settled_on z d (wh_logs (s\<lparr>wh_logs := wh_logs s @ [l]\<rparr>)) = settled_on z d (h @ [l])" by simp
    next
      fix d e assume "e \<in> rolled_days (s\<lparr>wh_logs := wh_logs s @ [l]\<rparr>)" "d < e" "d \<notin> rolled_days (s\<lparr>wh_logs := wh_logs s @ [l]\<rparr>)"
      then have a: "e \<in> rolled_days s" "d < e" "d \<notin> rolled_days s" by (simp_all add: rolled_days_def)
      then show "settled_on z d (h @ [l]) = []" using h [OF a(1)] rollup_okD(5) [OF ok a] by simp
    next
      fix d assume "d \<in> rolled_days (s\<lparr>wh_logs := wh_logs s @ [l]\<rparr>)"
      then have d: "d \<in> rolled_days s" by (simp add: rolled_days_def)
      show "d < zn_day z t" by (rule rollup_okD(1) [OF ok d])
      show "filter (\<lambda>r. ud_day r = d) (wh_daily (s\<lparr>wh_logs := wh_logs s @ [l]\<rparr>)) = day_rows d (settled_on z d (h @ [l]))"
        using rollup_okD(2) [OF ok d] h [OF d order_refl] by simp
    next
      fix r assume "r \<in> set (wh_daily (s\<lparr>wh_logs := wh_logs s @ [l]\<rparr>))"
      then show "ud_day r \<in> rolled_days (s\<lparr>wh_logs := wh_logs s @ [l]\<rparr>)" using rollup_okD(3) [OF ok] by (simp add: rolled_days_def)
    qed
    then show ?thesis by (simp only: True refl if_True)
  next
    case False
    have "rollup_ok z t (s\<lparr>wh_logs := wh_logs s @ [l]\<rparr>) h"
      using False by (intro rollup_ok_logs ok) (simp add: settled_between_def)
    then show ?thesis by (simp only: False if_False)
  qed
next
  case (traced t s h l)
  then show ?case by (intro rollup_ok_logs) (auto simp: settled_between_def)
next
  case (retraced t s h i l)
  then show ?case by (intro rollup_ok_logs filter_update) (auto simp: settled_between_def)
next
  case (rolled t s h w enabled ok s')
  then show ?case using rollupUsage_ok by blast
next
  case (purged t s h w before r s')
  then have z: "rw_zone w = z" "zone_ok (rw_zone w)" and ok: "rollup_ok z t s h" by simp_all
  have "PurgeUsageLogsBefore w before s = (r, s')" using purged by simp
  note p = purge_days [OF z(2) this]
  then have eq: "rolled_days s' = rolled_days s" "wh_daily s' = wh_daily s" by blast+
  have "settled_on z d (wh_logs s') = settled_on z d h" if "d \<notin> rolled_days s" for d
    using p rollup_okD(4) [OF ok that] that z(1) by simp
  then show ?case using ok unfolding rollup_ok_def eq by blast
qed

section \<open>Reports\<close>

text \<open>The report that a log of all the settled calls ever made would give.\<close>

definition direct_report :: "zone \<Rightarrow> entity_names \<Rightarrow> AggDimension \<Rightarrow> AggFilter \<Rightarrow> usage_log list \<Rightarrow> AggRow list option" where
  "direct_report z n dim f h =
     (let from = zn_day z (af_From f); to = zn_day z (af_To f)
      in if to \<le> from then Some [] else agg_rows n dim f (map (log_row z) (filter (settled_between z from to) h)))"

definition by_charge :: "AggRow list \<Rightarrow> bool" where
  "by_charge rows \<longleftrightarrow> sorted_wrt (\<lambda>x y. s_creditsCharged (ar_sums x) \<ge> s_creditsCharged (ar_sums y)) rows"

lemma agg_rows_by_charge: "agg_rows n dim f source = Some rows \<Longrightarrow> by_charge rows"
  using sorted_sort_key [of "\<lambda>r. - s_creditsCharged (ar_sums r)"]
  by (auto simp: agg_rows_def by_charge_def Let_def sorted_map split: if_splits)

lemma split_days:
  assumes ok: "rollup_ok z t s h" and e: "eastern z" and m: "RolledThrough w s = Some m" and ft: "from < to"
  defines "k \<equiv> rollupSplit z from to m"
  shows "from \<le> k" "k \<le> to"
    "from \<le> d \<Longrightarrow> d < k \<Longrightarrow> d \<notin> rolled_days s \<Longrightarrow> settled_on z d h = []"
    "k \<le> d \<Longrightarrow> d < to \<Longrightarrow> d \<notin> rolled_days s"
proof -
  have fin: "finite (rolled_days s)" by (simp add: rolled_days_def)
  have m': "m = (if wh_rolled s = [] then None else Some (Max (rolled_days s)))"
    using m by (simp add: RolledThrough_def rolled_days_def split: if_splits)
  have k: "k = (if wh_rolled s = [] then from else min to (max from (Max (rolled_days s) + 1)))"
    using e ft by (simp add: k_def rollupSplit_def m' eastern_def Let_def min_def max_def)
  show "from \<le> k" "k \<le> to" using ft by (auto simp: k)
  have ne: "rolled_days s = {} \<longleftrightarrow> wh_rolled s = []" by (simp add: rolled_days_def)
  show "settled_on z d h = []" if "from \<le> d" "d < k" "d \<notin> rolled_days s"
  proof -
    have "rolled_days s \<noteq> {}" "d \<le> Max (rolled_days s)" using that by (auto simp: k ne split: if_splits)
    moreover from this have "Max (rolled_days s) \<in> rolled_days s" using fin by simp
    ultimately show ?thesis using rollup_okD(5) [OF ok, of "Max (rolled_days s)" d] that(3) by (metis order_le_less)
  qed
  show "d \<notin> rolled_days s" if "k \<le> d" "d < to"
  proof
    assume "d \<in> rolled_days s"
    then have "d \<le> Max (rolled_days s)" "rolled_days s \<noteq> {}" using fin by auto
    then show False using that by (auto simp: k ne split: if_splits)
  qed
qed

lemma source_agrees:
  assumes z: "zone_ok z" and ok: "rollup_ok z t s h" and e: "eastern z" and m: "RolledThrough w s = Some m" and ft: "from < to"
  shows "agree (agg_source z from (rollupSplit z from to m) to s) (map (log_row z) (filter (settled_between z from to) h))"
proof (rule agree_by_day)
  fix d
  define k where "k = rollupSplit z from to m"
  note k = split_days [OF ok e m ft, folded k_def]
  have left: "filter (\<lambda>r. ud_day r = d) (agg_source z from k to s)
      = (if from \<le> d \<and> d < k then filter (\<lambda>r. ud_day r = d) (wh_daily s) else [])
        @ (if k \<le> d \<and> d < to then map (log_row z) (settled_on z d (wh_logs s)) else [])"
  proof -
    have "filter (\<lambda>r. ud_day r = d) (filter (\<lambda>r. from \<le> ud_day r \<and> ud_day r < k) (wh_daily s))
        = (if from \<le> d \<and> d < k then filter (\<lambda>r. ud_day r = d) (wh_daily s) else [])"
      by (auto simp: filter_empty_conv intro: filter_cong)
    then show ?thesis unfolding agg_source_def filter_append raw_rows_of_day [OF z] by (rule arg_cong)
  qed
  have rows: "agree x x" for x by (simp add: agree_def)
  consider "d < from \<or> to \<le> d" | "from \<le> d" "d < k" "d \<in> rolled_days s" | "from \<le> d" "d < k" "d \<notin> rolled_days s" | "k \<le> d" "d < to" by linarith
  then show "agree (filter (\<lambda>r. ud_day r = d) (agg_source z from (rollupSplit z from to m) to s))
      (filter (\<lambda>r. ud_day r = d) (map (log_row z) (filter (settled_between z from to) h)))"
    unfolding k_def [symmetric] left raw_rows_of_day [OF z]
  proof cases
    case 2
    then show "agree ((if from \<le> d \<and> d < k then filter (\<lambda>r. ud_day r = d) (wh_daily s) else [])
        @ (if k \<le> d \<and> d < to then map (log_row z) (settled_on z d (wh_logs s)) else [])) (if from \<le> d \<and> d < to then map (log_row z) (settled_on z d h) else [])"
      using k(2) rollup_okD(2) [OF ok] day_rows_agree [OF z] by simp
  next
    case 3
    then have "filter (\<lambda>r. ud_day r = d) (wh_daily s) = []" using rollup_okD(3) [OF ok] by (auto simp: filter_empty_conv)
    then show "agree ((if from \<le> d \<and> d < k then filter (\<lambda>r. ud_day r = d) (wh_daily s) else [])
        @ (if k \<le> d \<and> d < to then map (log_row z) (settled_on z d (wh_logs s)) else [])) (if from \<le> d \<and> d < to then map (log_row z) (settled_on z d h) else [])"
      using 3 k(3) [OF 3] rows by simp
  next
    case 4
    then show "agree ((if from \<le> d \<and> d < k then filter (\<lambda>r. ud_day r = d) (wh_daily s) else [])
        @ (if k \<le> d \<and> d < to then map (log_row z) (settled_on z d (wh_logs s)) else [])) (if from \<le> d \<and> d < to then map (log_row z) (settled_on z d h) else [])"
      using k(1) rollup_okD(4) [OF ok k(4) [OF 4]] rows by simp
  qed (use k(1,2) rows in auto)
qed


text \<open>A zone at a fixed distance from Greenwich.\<close>

definition fixed_zone :: "go_duration \<Rightarrow> zone" where
  "fixed_zone off = \<lparr>zn_day = \<lambda>t. (t + off) div Day, zn_start = \<lambda>d. d * Day - off\<rparr>"

lemma Day_pos: "0 < Day" by (simp add: Day_def Hour_def Minute_def Second_def)

lemma fixed_zone_ok: "zone_ok (fixed_zone off)"
proof -
  have "d * Day - off \<le> t \<longleftrightarrow> d \<le> (t + off) div Day" for d t
  proof
    assume "d * Day - off \<le> t"
    then have "d * Day div Day \<le> (t + off) div Day" using Day_pos by (intro zdiv_mono1) simp_all
    then show "d \<le> (t + off) div Day" using Day_pos by simp
  next
    assume "d \<le> (t + off) div Day"
    then have "d * Day \<le> (t + off) div Day * Day" using Day_pos by (intro mult_right_mono) simp_all
    also have "\<dots> \<le> t + off" using Day_pos by (simp add: minus_mod_eq_div_mult [symmetric])
    finally show "d * Day - off \<le> t" by simp
  qed
  then show ?thesis by (simp add: zone_ok_def fixed_zone_def)
qed

lemma fixed_zone_eastern: "0 \<le> off \<Longrightarrow> off < Day \<Longrightarrow> eastern (fixed_zone off)"
  using Day_pos by (simp add: eastern_def fixed_zone_def utc_midnight_def div_pos_pos_trivial)

text \<open>
  A call settled in Shanghai on the first day, rolled up the day after and its log purged on the third day: the report of
  the first day is made from the roll-up alone.
\<close>

definition demo_call :: usage_log where
  "demo_call = zero_usage_log\<lparr>ul_userID := 7, ul_modelName := ''m'', ul_promptTokens := 10, ul_creditsCharged := 5, ul_creditsCost := 3, ul_createdAt := 12 * Hour\<rparr>"

definition demo_rollup_world :: "go_duration \<Rightarrow> rollup_world" where
  "demo_rollup_world off = \<lparr>rw_zone = fixed_zone off, rw_fails = \<lambda>_. False, rw_commit = \<lambda>_. Committed\<rparr>"

definition demo_names :: entity_names where
  "demo_names = \<lparr>en_user = \<lambda>_. Some ''ann'', en_department = \<lambda>_. None, en_project = \<lambda>_. None, en_channel = \<lambda>_. None, en_key = \<lambda>_. None\<rparr>"

definition demo_rolled :: "go_duration \<Rightarrow> bool \<times> warehouse" where
  "demo_rolled off = rollupUsage (demo_rollup_world off) True (2 * Day) \<lparr>wh_logs = [demo_call], wh_daily = [], wh_rolled = []\<rparr>"

definition demo_purged :: "go_duration \<Rightarrow> int option \<times> warehouse" where
  "demo_purged off = PurgeUsageLogsBefore (demo_rollup_world off) (2 * Day) (snd (demo_rolled off))"

lemma demo_history: "usage_history (fixed_zone off) (2 * Day) (snd (demo_purged off)) [demo_call]"
proof -
  have "usage_history (fixed_zone off) (12 * Hour) (empty_warehouse\<lparr>wh_logs := wh_logs empty_warehouse @ [demo_call]\<rparr>)
      (if ul_status demo_call = UsageSettled then [] @ [demo_call] else [])"
    by (intro usage_history.logged usage_history.start) (simp add: demo_call_def)
  then have "usage_history (fixed_zone off) (12 * Hour) \<lparr>wh_logs = [demo_call], wh_daily = [], wh_rolled = []\<rparr> [demo_call]"
    by (simp add: empty_warehouse_def demo_call_def zero_usage_log_def)
  then have "usage_history (fixed_zone off) (2 * Day) \<lparr>wh_logs = [demo_call], wh_daily = [], wh_rolled = []\<rparr> [demo_call]"
    by (rule usage_history.waited) (simp add: Day_def Hour_def Minute_def Second_def)
  then have "usage_history (fixed_zone off) (2 * Day) (snd (demo_rolled off)) [demo_call]"
    by (rule usage_history.rolled [where w = "demo_rollup_world off"]) (simp add: demo_rollup_world_def, simp add: demo_rolled_def prod_eq_iff)
  then show ?thesis
    by (rule usage_history.purged [where w = "demo_rollup_world off"]) (simp add: demo_rollup_world_def, simp add: demo_purged_def prod_eq_iff)
qed

definition demo_report :: "go_duration \<Rightarrow> AggRow list option" where
  "demo_report off = Aggregate (demo_rollup_world off) demo_names AggByUser (agg_between 0 (2 * Day)) (snd (demo_purged off))"

lemma demo_zone: "zone_ok (fixed_zone (8 * Hour))" "eastern (fixed_zone (8 * Hour))" "rw_zone (demo_rollup_world off) = fixed_zone off"
  using fixed_zone_ok fixed_zone_eastern [of "8 * Hour"]
  by (simp_all add: demo_rollup_world_def Day_def Hour_def Minute_def Second_def)

lemma demo_shanghai: "demo_report (8 * Hour) = Some [\<lparr>ar_groupID = 7, ar_groupKey = ''ann'', ar_sums = UsageSums 1 10 0 0 0 5 3, ar_margin = 2\<rparr>]"
  by code_simp


text \<open>
  West of Greenwich the last rolled day is taken for the one before: its calls are looked up in the log, and are missing
  from the report once the log is purged, though the roll-up has them.
\<close>

theorem western_report_incomplete:
  "demo_report (- 5 * Hour) = Some []
   \<and> map ud_day (wh_daily (snd (demo_purged (- 5 * Hour)))) = [0]
   \<and> direct_report (fixed_zone (- 5 * Hour)) demo_names AggByUser (agg_between 0 (2 * Day)) [demo_call]
       = Some [\<lparr>ar_groupID = 7, ar_groupKey = ''ann'', ar_sums = UsageSums 1 10 0 0 0 5 3, ar_margin = 2\<rparr>]"
proof (intro conjI)
  show "demo_report (- 5 * Hour) = Some []" by code_simp
  show "map ud_day (wh_daily (snd (demo_purged (- 5 * Hour)))) = [0]" by code_simp
  show "direct_report (fixed_zone (- 5 * Hour)) demo_names AggByUser (agg_between 0 (2 * Day)) [demo_call]
       = Some [\<lparr>ar_groupID = 7, ar_groupKey = ''ann'', ar_sums = UsageSums 1 10 0 0 0 5 3, ar_margin = 2\<rparr>]" by code_simp
qed

end
