(* ===== verification/Spec2Isabelle.thy ===== *)
theory Spec2Isabelle
  imports Domain Pricing RateLimit Session Choice RelayProps ConduitProps CountTokens Settings Ledger Text Entry Workflows
    LogWriter RollupProps
begin

text \<open>
  A verification development for TokenZen Lite, a gateway that relays requests to language models and bills them in
  credits (Go, under \<^verbatim>\<open>src/server\<close>; the paths below are relative to \<^verbatim>\<open>src/server/internal\<close>).

  \<^bold>\<open>The program.\<close> A client calls an endpoint under \<^verbatim>\<open>/v1\<close> with an API key. The entry (\<^verbatim>\<open>api/relay_handlers.go\<close>)
  checks the key, its owner, the address, the rate limits and the number of requests in flight. The relay
  (\<^verbatim>\<open>relay/\<close>) checks model and price, opens a billing session that reserves the estimated price, tries channels to upstream
  providers until one answers, converts request, answer and stream between the wire formats, settles the final price or
  refunds, and hands a usage log to a writer. Every movement of credits is a transaction of the billing service
  (\<^verbatim>\<open>billing/service.go\<close>) that changes a balance and appends to the ledger; a recovery (\<^verbatim>\<open>billing/orphan.go\<close>) refunds
  reservations that were left behind. Users, departments, projects, integrations (tenants with service tokens), keys and
  redemption codes are administered under \<^verbatim>\<open>/api\<close> (\<^verbatim>\<open>api/router.go\<close>), behind sessions, service tokens and ranks, with an
  audit trail. A daily task rolls the usage log up, and reports are made from the roll-up and the log together.

  \<^bold>\<open>Theories and sources.\<close> Definitions have the names of the Go functions and types where HOL allows it; a Go struct is a
  record with prefixed fields, an enumeration a datatype (or its string where the database can hold any), \<^verbatim>\<open>int64\<close> an
  \<open>int\<close> with \<open>wrap64\<close> at every operation that can wrap, a string a list of bytes, a table a keyed list, an error a sum
  or option.

  \<^item> Ground: \<^verbatim>\<open>Prelude\<close> (Go's integers and decimal text, keyed tables with the locale \<open>keyed_store\<close>, the collections
    \<open>go_arith\<close> and \<open>tbl_simps\<close>), \<^verbatim>\<open>Domain\<close> (\<^verbatim>\<open>domain/\<close>), \<^verbatim>\<open>Json\<close> (decoded JSON), \<^verbatim>\<open>Text\<close> (\<^verbatim>\<open>strutil/\<close>); \<^verbatim>\<open>Messages\<close>,
    \<^verbatim>\<open>SiteMessages\<close>, \<^verbatim>\<open>AdminMessages\<close> and \<^verbatim>\<open>ReportMessages\<close> hold the program's texts as bytes.
  \<^item> Money: \<^verbatim>\<open>Pricing\<close> (\<^verbatim>\<open>pricing/\<close>); \<^verbatim>\<open>Store\<close> (the tables and the SQL transaction); \<^verbatim>\<open>Billing\<close> (\<^verbatim>\<open>billing/service.go\<close>,
    \<^verbatim>\<open>billing/orphan.go\<close>) with \<^verbatim>\<open>BillingInv\<close> and \<^verbatim>\<open>BillingProps\<close>; \<^verbatim>\<open>Session\<close> (\<^verbatim>\<open>relay/session.go\<close>,
    \<^verbatim>\<open>cmd/tzl/guard.go\<close>); \<^verbatim>\<open>Ledger\<close> (the queries of \<^verbatim>\<open>store/ledger.go\<close>).
  \<^item> Relay: \<^verbatim>\<open>Channels\<close> and \<^verbatim>\<open>Choice\<close> (policies, provider paths, weighted choice, affinity, health: \<^verbatim>\<open>relay/selector.go\<close>,
    \<^verbatim>\<open>affinity.go\<close>, \<^verbatim>\<open>channel_selector.go\<close>, \<^verbatim>\<open>errclass.go\<close>, \<^verbatim>\<open>health.go\<close>, \<^verbatim>\<open>channel_health.go\<close>); \<^verbatim>\<open>Canonical\<close>,
    \<^verbatim>\<open>CodecOpenAI\<close>, \<^verbatim>\<open>CodecAnthropic\<close>, \<^verbatim>\<open>CodecGemini\<close>, \<^verbatim>\<open>StreamCodec\<close>, \<^verbatim>\<open>StreamProps\<close>, \<^verbatim>\<open>Conduit\<close>, \<^verbatim>\<open>ConduitProps\<close> (the wire
    formats: \<^verbatim>\<open>relay/codec*.go\<close>, \<^verbatim>\<open>openai.go\<close>, \<^verbatim>\<open>stream_codec.go\<close>, \<^verbatim>\<open>conduit.go\<close>); \<^verbatim>\<open>Relay\<close> and \<^verbatim>\<open>RelayProps\<close>
    (\<^verbatim>\<open>relay/pipeline.go\<close>, \<^verbatim>\<open>retry.go\<close>, \<^verbatim>\<open>sse.go\<close>, \<^verbatim>\<open>extra_endpoints.go\<close>); \<^verbatim>\<open>CountTokens\<close> (\<^verbatim>\<open>relay/count_tokens.go\<close>);
    \<^verbatim>\<open>LogWriter\<close> (\<^verbatim>\<open>relay/background.go\<close>); \<^verbatim>\<open>RateLimit\<close> (\<^verbatim>\<open>ratelimit/\<close>); \<^verbatim>\<open>Entry\<close> (\<^verbatim>\<open>api/relay_handlers.go\<close>,
    \<^verbatim>\<open>auth/apikey.go\<close>).
  \<^item> Administration: \<^verbatim>\<open>Settings\<close> (\<^verbatim>\<open>store/setting.go\<close>, \<^verbatim>\<open>setting_cache.go\<close>); \<^verbatim>\<open>Site\<close> (the other tables, the audit trail,
    idempotency records); \<^verbatim>\<open>Access\<close> (\<^verbatim>\<open>auth/middleware.go\<close>, answers, scopes); \<^verbatim>\<open>Accounts\<close> (\<^verbatim>\<open>api/auth_handlers.go\<close>);
    \<^verbatim>\<open>Users\<close> and \<^verbatim>\<open>Batch\<close> (\<^verbatim>\<open>api/admin_users.go\<close>, \<^verbatim>\<open>admin_users_batch.go\<close>, \<^verbatim>\<open>admin_billing.go\<close>); \<^verbatim>\<open>Tenants\<close>
    (\<^verbatim>\<open>api/admin_departments.go\<close>, \<^verbatim>\<open>admin_projects.go\<close>, \<^verbatim>\<open>admin_integrations.go\<close>, \<^verbatim>\<open>admin_external.go\<close>); \<^verbatim>\<open>Keys\<close>
    (\<^verbatim>\<open>api/me_keys.go\<close>, \<^verbatim>\<open>admin_keys.go\<close>); \<^verbatim>\<open>Vouchers\<close> (\<^verbatim>\<open>api/me_billing.go\<close>, redemption codes); \<^verbatim>\<open>Routes\<close>
    (\<^verbatim>\<open>api/router.go\<close>, what is under \<^verbatim>\<open>/api\<close>).
  \<^item> Reports: \<^verbatim>\<open>Rollup\<close> and \<^verbatim>\<open>RollupProps\<close> (\<^verbatim>\<open>store/rollup.go\<close>, the daily task of \<^verbatim>\<open>maintenance/scheduler.go\<close>).

  \<^bold>\<open>Interfaces.\<close> \<open>keyed_store\<close> (reading after writing; interpreted on tables and JSON objects), \<open>ledger_service\<close> (what a
  session may rely on of an adjustment; interpreted on \<open>Apply\<close>), \<open>channel_picker\<close> and its extension \<open>channel_retry\<close>
  (between a selector and the retry loop; interpreted on the three selectors of the code and its \<open>tryChannel\<close>), and
  \<open>kept\<close> (a relation between states that every write of the administration keeps; interpreted six times: consistency,
  bookkeeping, history, ranks, logins, tenancy).

  \<^bold>\<open>What is shown.\<close>

  \<^item> Billing: an invariant of all reachable states (balances are the sums of their entries), exact effects of grants,
    redemptions and settlements, limits after a precharge, completeness of the recovery, and the trail of a session under
    faults. Transactions may fail at any statement, and their commit may fail or be lost.
  \<^item> Relay: a chat request is accounted for in every ending; channels are tried once each, in order; choice is proportional
    to weight plus one; affinity and automatic disabling hold; a log is never in two places.
  \<^item> Wire formats: exact requests of passed-through calls, the fields refused, the round trip through the Anthropic format with
    everything it drops, and the event protocol of streams.
  \<^item> Administration: \<open>Effects\<close> states abstractly what a write may be (the relation \<open>effect\<close>, with a set of powers for the
    writes only some routes make); \<open>Refine\<close> proves that every handler refines it; \<open>Guarantees\<close> derives each guarantee once in
    \<open>kept\<close>; \<open>Server\<close> states them of any request to the table of routes, and \<open>Workflows\<close> states what single operations
    achieve. \<open>Samples\<close> is a small site for the witnesses.
  \<^item> Reports: the roll-up and the log together give what the log of all calls would.

  \<^bold>\<open>Bounds.\<close> Loops are recursions on their data. The retry loops recurse on the number of tries left, which the settings
  bound. The one loop that may not end, the search for the number of decimals, is a partial function; it is shown to end for rates up to
  ten to the 18, and to diverge above 9169610316303040512. Streams are finite lists of lines followed by an end or an error.

  \<^bold>\<open>Assumptions and limits.\<close>

  \<^item> What the code cannot know is an argument: clock readings, random draws and bytes, which statements fail and how commits
    end, upstream answers, failing writes to the client, what the rest of the program does to the database between two calls, the
    parsing and printing of JSON, hashing, and the time zone.
  \<^item> The handlers of channels, models, settings, alerts and reports are not modelled. \<open>serve\<close> takes them as an argument, and
    the theorems of \<open>Server\<close> assume \<open>plain\<close>: they write to no modelled table but the audit trail. \<open>serve\<close> is about paths under
    \<^verbatim>\<open>/api\<close> only.
  \<^item> A method that holds its object's mutex is one step. \<open>Allow\<close> reads the clock before it takes the mutex; its bound assumes that
    calls take the mutex in the order of their readings. The log writer takes two steps to enqueue, and its runs interleave them.
  \<^item> JSON numbers are rationals: \<open>decodeSettingValue\<close> accepts 1.0 and 1e2 for an integer, which \<^verbatim>\<open>encoding/json\<close> refuses.
  \<^item> The relay says of a finished log only whether the writer's queue took it. The history of the roll-up takes the insertion of a log
    as one step at its time of creation; an insertion that commits after its day was rolled up is outside of it.
  \<^item> Not modelled: recording of raw traffic, logging, metrics and alert delivery, the timers of background tasks, the
    statistics for display, configuration, migrations, and the user interface.
\<close>

end
